(* ===== verification/Prelude.thy ===== *)
theory Prelude
  imports Complex_Main "HOL-Library.Word"
begin

text \<open>
  Shared vocabulary of the development: the value types of the rows and of the wire
  messages, the outcome of a database statement, the helpers that the handlers of
  internal/sync share, and the list lemmas every table proof rests on.
\<close>

section \<open>Values\<close>

text \<open>
  A UUID is its sixteen bytes; a timestamp is the number of microseconds since the Unix
  epoch (the resolution of TIMESTAMPTZ); a Go float64 read from JSON is a finite number,
  kept as a rational because the code only stores it and compares it with zero. A Go string
  is its UTF-8 bytes.
\<close>

type_synonym uuid = "128 word"
type_synonym time = int
type_synonym float64 = rat

abbreviation uuid_nil :: uuid where
  "uuid_nil \<equiv> 0"

named_theorems sql_defs \<open>definitions of the SQL statement models\<close>
named_theorems merge_simps \<open>evaluation of the merge helpers on optional payload fields\<close>

section \<open>Outcomes of statements\<close>

text \<open>
  Every database call of the Go code can return an error, which the handler returns at once;
  the enclosing transaction then rolls back. The left summand is that error, with the reason
  PostgreSQL or the driver gives.
\<close>

datatype db_error =
    UniqueViolation
  | NotNullViolation
  | ColumnDomain
  | IntegerOverflow
  | InvalidJson
  | InsertArity
  | ScanArity
  | NoRows
  | ForeignKeyViolation
  | TransactionAborted

definition bindE :: "'e + 'a \<Rightarrow> ('a \<Rightarrow> 'e + 'b) \<Rightarrow> 'e + 'b" where
  "bindE m f = (case m of Inl e \<Rightarrow> Inl e | Inr x \<Rightarrow> f x)"

lemma bindE_simps [simp]:
  "bindE (Inl e) f = Inl e"
  "bindE (Inr x) f = f x"
  by (simp_all add: bindE_def)

lemma bindE_eq_Inr: "bindE m f = Inr y \<longleftrightarrow> (\<exists>x. m = Inr x \<and> f x = Inr y)"
  by (cases m) auto

lemma bindE_InrE:
  assumes "bindE m f = Inr y"
  obtains x where "m = Inr x" and "f x = Inr y"
  using assms by (auto simp: bindE_eq_Inr)

section \<open>Column domains\<close>

text \<open>
  What the column types of db/migrations accept: a text value holds no NUL byte, VARCHAR(n)
  counts characters (bytes that do not continue a UTF-8 sequence), INT is a signed 32-bit and
  BIGINT a signed 64-bit integer.
\<close>

definition utf8_continuation :: "char \<Rightarrow> bool" where
  "utf8_continuation c \<longleftrightarrow> (128::nat) \<le> of_char c \<and> (of_char c :: nat) < 192"

definition utf8_length :: "string \<Rightarrow> nat" where
  "utf8_length s = length (filter (\<lambda>c. \<not> utf8_continuation c) s)"

definition text_ok :: "string \<Rightarrow> bool" where
  "text_ok s \<longleftrightarrow> CHR 0x00 \<notin> set s"

definition varchar :: "nat \<Rightarrow> string \<Rightarrow> bool" where
  "varchar n s \<longleftrightarrow> text_ok s \<and> utf8_length s \<le> n"

definition int4_max :: int where
  "int4_max = 2147483647"

definition int4 :: "int \<Rightarrow> bool" where
  "int4 i \<longleftrightarrow> - 2147483648 \<le> i \<and> i \<le> int4_max"

definition int8 :: "int \<Rightarrow> bool" where
  "int8 i \<longleftrightarrow> - 9223372036854775808 \<le> i \<and> i \<le> 9223372036854775807"

lemma utf8_length_le: "utf8_length s \<le> length s"
  by (simp add: utf8_length_def)

lemma utf8_length_append: "utf8_length (s @ t) = utf8_length s + utf8_length t"
  by (simp add: utf8_length_def)

section \<open>Merging optional payload fields\<close>

text \<open>
  The three ways a handler folds an optional payload field into a stored value:
  \<open>if p.F != nil { v = *p.F }\<close> (\<open>or_keep\<close>),
  \<open>if p.F != nil && *p.F != "" { v = *p.F }\<close> (\<open>nonempty_or\<close>), and the reference
  sentinel of \<open>mergeRef\<close> and \<open>refOrNil\<close>.
\<close>

definition or_keep :: "'a \<Rightarrow> 'a option \<Rightarrow> 'a" where
  "or_keep d p = (case p of None \<Rightarrow> d | Some v \<Rightarrow> v)"

definition or_keep_opt :: "'a option \<Rightarrow> 'a option \<Rightarrow> 'a option" where
  "or_keep_opt d p = (case p of None \<Rightarrow> d | Some v \<Rightarrow> Some v)"

definition nonempty_or :: "string \<Rightarrow> string option \<Rightarrow> string" where
  "nonempty_or d p = (case p of None \<Rightarrow> d | Some v \<Rightarrow> if v = [] then d else v)"

definition empty_keeps :: "string \<Rightarrow> string \<Rightarrow> string" where
  "empty_keeps d v = (if v = [] then d else v)"

definition ref_or_nil :: "uuid option \<Rightarrow> uuid option" where
  "ref_or_nil p = (case p of None \<Rightarrow> None | Some i \<Rightarrow> if i = uuid_nil then None else Some i)"

definition merge_ref :: "uuid option \<Rightarrow> uuid option \<Rightarrow> uuid option" where
  "merge_ref stored p =
     (case p of None \<Rightarrow> stored | Some i \<Rightarrow> if i = uuid_nil then None else Some i)"

definition max_time :: "time \<Rightarrow> time \<Rightarrow> time" where
  "max_time a b = (if b > a then b else a)"

lemma merge_field_simps [simp, merge_simps]:
  "or_keep d None = d"
  "or_keep d (Some v) = v"
  "or_keep_opt x None = x"
  "or_keep_opt x (Some v) = Some v"
  "nonempty_or s None = s"
  "nonempty_or s (Some []) = s"
  "nonempty_or s (Some (c # cs)) = c # cs"
  "empty_keeps s [] = s"
  "empty_keeps s (c # cs) = c # cs"
  by (simp_all add: or_keep_def or_keep_opt_def nonempty_or_def empty_keeps_def)

lemma merge_ref_simps [simp, merge_simps]:
  "merge_ref s None = s"
  "merge_ref s (Some uuid_nil) = None"
  "i \<noteq> uuid_nil \<Longrightarrow> merge_ref s (Some i) = Some i"
  "ref_or_nil None = None"
  "ref_or_nil (Some uuid_nil) = None"
  "i \<noteq> uuid_nil \<Longrightarrow> ref_or_nil (Some i) = Some i"
  by (simp_all add: merge_ref_def ref_or_nil_def)

lemma merge_ref_None_stored: "merge_ref None p = ref_or_nil p"
  by (simp add: merge_ref_def ref_or_nil_def)

lemma merge_ref_never_nil: "s \<noteq> Some uuid_nil \<Longrightarrow> merge_ref s p \<noteq> Some uuid_nil"
  by (auto simp: merge_ref_def split: option.splits)

lemma max_time_ge: "a \<le> max_time a b" "b \<le> max_time a b"
  by (simp_all add: max_time_def)

section \<open>Lists as tables\<close>

lemma find_map_same_key:
  assumes "\<And>x. k (h x) = k x"
  shows "find (\<lambda>x. k x = i) (map h xs) = map_option h (find (\<lambda>x. k x = i) xs)"
  by (induction xs) (auto simp: assms)

lemma find_append:
  "find P (xs @ ys) = (case find P xs of None \<Rightarrow> find P ys | Some x \<Rightarrow> Some x)"
  by (induction xs) auto

lemma find_in_set: "find P xs = Some x \<Longrightarrow> x \<in> set xs \<and> P x"
  by (induction xs) (auto split: if_splits)

lemma find_None: "find P xs = None \<longleftrightarrow> (\<forall>x\<in>set xs. \<not> P x)"
  by (induction xs) auto

lemma find_distinct_key:
  assumes "distinct (map k xs)" and "x \<in> set xs"
  shows "find (\<lambda>y. k y = k x) xs = Some x"
  using assms by (induction xs) force+

lemma filter_distinct_key:
  assumes "distinct (map k xs)" and "x \<in> set xs" and "P x"
  shows "filter (\<lambda>y. k y = k x \<and> P y) xs = [x]"
  using assms
proof (induction xs)
  case (Cons a xs)
  show ?case
  proof (cases "x = a")
    case True
    with Cons.prems have "\<forall>y\<in>set xs. k y \<noteq> k x" by (force simp: image_iff)
    with True Cons.prems show ?thesis by (auto simp: filter_empty_conv)
  next
    case False
    with Cons.prems have "k a \<noteq> k x" by (auto simp: image_iff)
    with False Cons show ?thesis by auto
  qed
qed simp

lemma map_o_simp: "map f (map g xs) = map (\<lambda>x. f (g x)) xs"
  by simp

lemma filter_map_eq: "filter P (map f xs) = map f (filter (\<lambda>x. P (f x)) xs)"
  by (induction xs) auto

end
