(* ===== verification/Wire.thy ===== *)
theory Wire
  imports Prelude
begin

text \<open>
  The wire vocabulary of internal/sync/wire.go: the entity types, the JSON values of the
  server records, the push payload with its optional fields, push items and push results.
  The flat Go struct \<open>PushPayload\<close> is split into one record per entity, with
  the shared references in a record of their own; an absent or null JSON field is
  \<open>None\<close>.
\<close>

section \<open>Entity types\<close>

datatype etype =
    ESession | EEntry | EBookmark | EFavorite | ECourse | ENote | EStudyReview | EAttachment
  | ETerm | EStudyCard | EStudyTask | ETranscriptCorrection | ECourseSchedule
  | EScheduleException | EMaterial | EMaterialPage | EMaterialAnnotation | EAssistantThread
  | EAssistantMessage | EExam | EExamTopic | EStudyPlan | EStudyPlanItem | EStudyActivity
  | EInterpreterConversation | EInterpreterTurn | EErrandCase | EErrandCaseItem

primrec etype_str :: "etype \<Rightarrow> string" where
  "etype_str ESession = ''session''"
| "etype_str EEntry = ''entry''"
| "etype_str EBookmark = ''bookmark''"
| "etype_str EFavorite = ''favorite''"
| "etype_str ECourse = ''course''"
| "etype_str ENote = ''note''"
| "etype_str EStudyReview = ''study_review''"
| "etype_str EAttachment = ''attachment''"
| "etype_str ETerm = ''term''"
| "etype_str EStudyCard = ''study_card''"
| "etype_str EStudyTask = ''study_task''"
| "etype_str ETranscriptCorrection = ''transcript_correction''"
| "etype_str ECourseSchedule = ''course_schedule''"
| "etype_str EScheduleException = ''schedule_exception''"
| "etype_str EMaterial = ''material''"
| "etype_str EMaterialPage = ''material_page''"
| "etype_str EMaterialAnnotation = ''material_annotation''"
| "etype_str EAssistantThread = ''assistant_thread''"
| "etype_str EAssistantMessage = ''assistant_message''"
| "etype_str EExam = ''exam''"
| "etype_str EExamTopic = ''exam_topic''"
| "etype_str EStudyPlan = ''study_plan''"
| "etype_str EStudyPlanItem = ''study_plan_item''"
| "etype_str EStudyActivity = ''study_activity''"
| "etype_str EInterpreterConversation = ''interpreter_conversation''"
| "etype_str EInterpreterTurn = ''interpreter_turn''"
| "etype_str EErrandCase = ''errand_case''"
| "etype_str EErrandCaseItem = ''errand_case_item''"

definition all_etypes :: "etype list" where
  "all_etypes =
     [ESession, EEntry, EBookmark, EFavorite, ECourse, ENote, EStudyReview, EAttachment,
      ETerm, EStudyCard, EStudyTask, ETranscriptCorrection, ECourseSchedule,
      EScheduleException, EMaterial, EMaterialPage, EMaterialAnnotation, EAssistantThread,
      EAssistantMessage, EExam, EExamTopic, EStudyPlan, EStudyPlanItem, EStudyActivity,
      EInterpreterConversation, EInterpreterTurn, EErrandCase, EErrandCaseItem]"

text \<open>The string switch of \<open>validEntityType\<close> and of \<open>applyOne\<close>.\<close>

definition entity_of :: "string \<Rightarrow> etype option" where
  "entity_of t = find (\<lambda>e. etype_str e = t) all_etypes"

definition valid_entity_type :: "string \<Rightarrow> bool" where
  "valid_entity_type t \<longleftrightarrow> t \<in> set (map etype_str all_etypes)"

lemma all_etypes_complete: "e \<in> set all_etypes"
  by (cases e) (simp_all add: all_etypes_def)

lemma entity_of_str [simp]: "entity_of (etype_str e) = Some e"
  by (cases e) (simp_all add: entity_of_def all_etypes_def)

lemma entity_of_Some: "entity_of t = Some e \<Longrightarrow> t = etype_str e"
  using find_in_set [of "\<lambda>e. etype_str e = t" all_etypes e] by (simp add: entity_of_def)

lemma valid_entity_type_iff: "valid_entity_type t \<longleftrightarrow> (\<exists>e. entity_of t = Some e)"
proof
  assume "valid_entity_type t"
  then obtain e where "t = etype_str e" by (auto simp: valid_entity_type_def)
  then show "\<exists>e. entity_of t = Some e" by simp
next
  assume "\<exists>e. entity_of t = Some e"
  then show "valid_entity_type t"
    using all_etypes_complete by (auto simp: valid_entity_type_def dest!: entity_of_Some)
qed

lemma etype_str_inject [simp]: "etype_str a = etype_str b \<longleftrightarrow> a = b"
  by (metis entity_of_str option.inject)

text \<open>Every entity name fits the VARCHAR(32) entity_type columns.\<close>

lemma etype_str_fits: "varchar 32 (etype_str e)"
  by (cases e) (simp_all add: varchar_def text_ok_def utf8_length_def utf8_continuation_def)

section \<open>JSON records\<close>

text \<open>
  The JSON objects that the record builders marshal, field by field in the order of the Go
  struct. A UUID, timestamp or date leaf stands for its string rendering; \<open>omitempty\<close> on a
  pointer drops the key when the pointer is nil (\<open>opt_field\<close>).
\<close>

datatype json =
    JNull
  | JBool bool
  | JInt int
  | JFloat float64
  | JStr string
  | JUuid uuid
  | JTime time
  | JObj "(string \<times> json) list"

definition opt_field :: "string \<Rightarrow> ('a \<Rightarrow> json) \<Rightarrow> 'a option \<Rightarrow> (string \<times> json) list" where
  "opt_field k f p = (case p of None \<Rightarrow> [] | Some v \<Rightarrow> [(k, f v)])"

definition null_field :: "string \<Rightarrow> ('a \<Rightarrow> json) \<Rightarrow> 'a option \<Rightarrow> (string \<times> json) list" where
  "null_field k f p = [(k, case p of None \<Rightarrow> JNull | Some v \<Rightarrow> f v)]"

definition omit_empty_str :: "string \<Rightarrow> string \<Rightarrow> (string \<times> json) list" where
  "omit_empty_str k s = (if s = [] then [] else [(k, JStr s)])"

definition omit_zero_int :: "string \<Rightarrow> int \<Rightarrow> (string \<times> json) list" where
  "omit_zero_int k i = (if i = 0 then [] else [(k, JInt i)])"

definition json_field :: "string \<Rightarrow> json \<Rightarrow> json option" where
  "json_field k j = (case j of JObj kvs \<Rightarrow> map_of kvs k | _ \<Rightarrow> None)"

section \<open>The push payload\<close>

record refs_p =
  p_session_id :: "uuid option"
  p_entry_id :: "uuid option"
  p_course_id :: "uuid option"
  p_anchor_entry :: "uuid option"
  p_source_attachment :: "uuid option"
  p_source_review :: "uuid option"
  p_source_term :: "uuid option"
  p_schedule_id :: "uuid option"
  p_material_id :: "uuid option"
  p_thread_id :: "uuid option"
  p_exam_id :: "uuid option"
  p_plan_id :: "uuid option"
  p_plan_item_id :: "uuid option"
  p_topic_id :: "uuid option"
  p_conversation_id :: "uuid option"
  p_case_id :: "uuid option"

record session_p =
  p_started_at :: "time option"
  p_ended_at :: "time option"
  p_duration :: "float64 option"
  p_session_status :: "string option"
  p_abnormal :: "bool option"
  p_source_language :: "string option"
  p_target_language :: "string option"

record entry_p =
  p_sequence_id :: "int option"
  p_start_offset :: "float64 option"
  p_end_offset :: "float64 option"
  p_russian_text :: "string option"
  p_chinese_text :: "string option"
  p_translation_status :: "string option"
  p_time_source :: "string option"

record correction_p =
  p_corr_russian :: "string option"
  p_corr_chinese :: "string option"
  p_corr_modified_at :: "time option"
  p_corr_retranslate :: "bool option"

record flags_p =
  p_is_bookmarked :: "bool option"
  p_is_favorite :: "bool option"

record course_p =
  p_teacher :: "string option"
  p_location :: "string option"
  p_color_index :: "int option"
  p_is_archived :: "bool option"

record note_p =
  p_note_text :: "string option"
  p_note_time_offset :: "float64 option"

record review_p =
  p_review_status :: "string option"
  p_review_content :: "string option"
  p_review_generated :: "string option"
  p_review_model :: "string option"
  p_review_generated_at :: "time option"
  p_review_source_at :: "time option"

record attachment_p =
  p_att_kind :: "string option"
  p_att_mime :: "string option"
  p_att_width :: "int option"
  p_att_height :: "int option"
  p_att_file_size :: "int option"
  p_att_hash :: "string option"
  p_att_captured_at :: "time option"
  p_att_caption :: "string option"
  p_att_sort_index :: "int option"
  p_att_transform :: "string option"
  p_att_analysis_state :: "string option"
  p_att_analysis :: "string option"
  p_att_ocr_text :: "string option"

record term_p =
  p_term_russian :: "string option"
  p_term_chinese :: "string option"
  p_term_explanation :: "string option"
  p_term_part_of_speech :: "string option"
  p_term_user_note :: "string option"
  p_term_source_sessions :: "string option"
  p_term_favorite :: "bool option"
  p_term_status :: "string option"

record card_p =
  p_card_front :: "string option"
  p_card_back :: "string option"
  p_card_type :: "string option"
  p_card_user_note :: "string option"
  p_card_origin :: "string option"
  p_card_stage :: "string option"
  p_card_review_count :: "int option"
  p_card_interval_hours :: "int option"
  p_card_due_at :: "time option"
  p_card_last_reviewed_at :: "time option"
  p_card_last_grade :: "string option"

record task_p =
  p_task_detail :: "string option"
  p_task_due_at :: "time option"
  p_task_priority :: "string option"
  p_task_status :: "string option"
  p_task_origin :: "string option"
  p_task_uncertainty :: "string option"
  p_task_user_note :: "string option"
  p_task_completed_at :: "time option"

record schedule_p =
  p_sched_weekday :: "int option"
  p_sched_start_secs :: "int option"
  p_sched_end_secs :: "int option"
  p_sched_recurrence :: "string option"
  p_sched_parity_anchor :: "string option"
  p_sched_first_week_odd :: "bool option"
  p_sched_semester_start :: "string option"
  p_sched_semester_end :: "string option"
  p_sched_timezone :: "string option"
  p_sched_teacher :: "string option"
  p_sched_location :: "string option"
  p_sched_note :: "string option"
  p_sched_reminder_mins :: "int option"
  p_sched_enabled :: "bool option"
  p_sched_once_date :: "string option"

record exception_p =
  p_exc_original_date :: "string option"
  p_exc_kind :: "string option"
  p_exc_changed_start :: "int option"
  p_exc_changed_end :: "int option"
  p_exc_moved_to :: "string option"

record material_p =
  p_mat_kind :: "string option"
  p_mat_mime :: "string option"
  p_mat_file_name :: "string option"
  p_mat_format :: "string option"
  p_mat_file_size :: "int option"
  p_mat_hash :: "string option"
  p_mat_page_count :: "int option"
  p_mat_source_url :: "string option"
  p_mat_shared_text :: "string option"
  p_mat_extraction :: "string option"
  p_mat_digest_status :: "string option"
  p_mat_digest :: "string option"
  p_mat_digest_model :: "string option"
  p_mat_digest_at :: "time option"
  p_mat_digest_src_hash :: "string option"
  p_mat_last_read_page :: "int option"
  p_mat_last_opened_at :: "time option"
  p_page_text :: "string option"
  p_page_ocr :: "string option"
  p_page_ocr_state :: "string option"
  p_annotation_kind :: "string option"

record assistant_p =
  p_as_role :: "string option"
  p_as_text :: "string option"
  p_as_citations :: "string option"
  p_as_mode :: "string option"
  p_as_evidence :: "string option"
  p_as_answer :: "string option"
  p_as_model :: "string option"

record exam_p =
  p_exam_kind :: "string option"
  p_exam_date :: "string option"
  p_exam_start_secs :: "int option"
  p_exam_end_secs :: "int option"
  p_exam_location :: "string option"
  p_exam_scope :: "string option"
  p_exam_note :: "string option"
  p_exam_target_score :: "string option"
  p_exam_status :: "string option"
  p_exam_origin :: "string option"
  p_exam_source :: "string option"
  p_topic_detail :: "string option"
  p_topic_importance :: "string option"
  p_topic_self_rating :: "string option"
  p_topic_status :: "string option"
  p_topic_source :: "string option"
  p_topic_user_edited :: "bool option"

record plan_p =
  p_plan_start_date :: "string option"
  p_plan_end_date :: "string option"
  p_plan_weekday_mins :: "int option"
  p_plan_weekend_mins :: "int option"
  p_plan_rest_days :: "string option"
  p_plan_finish_early :: "int option"
  p_plan_cards :: "bool option"
  p_plan_tasks :: "bool option"
  p_plan_materials :: "bool option"
  p_plan_sessions :: "bool option"
  p_plan_focus_topics :: "string option"
  p_plan_blocked_times :: "string option"
  p_plan_status :: "string option"

record plan_item_p =
  p_pitem_date :: "string option"
  p_pitem_kind :: "string option"
  p_pitem_est_mins :: "int option"
  p_pitem_actual :: "int option"
  p_pitem_status :: "string option"
  p_pitem_status_at :: "time option"
  p_pitem_order :: "int option"
  p_pitem_source :: "string option"
  p_pitem_user_note :: "string option"
  p_pitem_user_edit :: "bool option"

record activity_p =
  p_act_status :: "string option"
  p_act_started_at :: "time option"
  p_act_ended_at :: "time option"
  p_act_duration :: "int option"
  p_act_note :: "string option"

record interpreter_p =
  p_conv_scene :: "string option"
  p_conv_context :: "string option"
  p_conv_status :: "string option"
  p_conv_started_at :: "time option"
  p_conv_ended_at :: "time option"
  p_turn_speaker :: "string option"
  p_turn_direction :: "string option"
  p_turn_input_method :: "string option"
  p_turn_sequence :: "int option"
  p_turn_source :: "string option"
  p_turn_plain_russian :: "string option"
  p_turn_stressed_russian :: "string option"
  p_turn_chinese :: "string option"
  p_turn_back_translation :: "string option"
  p_turn_details :: "string option"
  p_turn_modified_at :: "time option"

record errand_p =
  p_err_scene :: "string option"
  p_err_status :: "string option"
  p_err_purpose :: "string option"
  p_err_note :: "string option"
  p_err_timezone :: "string option"
  p_err_location :: "string option"
  p_err_contact :: "string option"
  p_err_expected_at :: "time option"
  p_err_pinned :: "bool option"
  p_err_local_sources :: "bool option"

record errand_item_p =
  p_eitem_kind :: "string option"
  p_eitem_status :: "string option"
  p_eitem_sequence :: "int option"
  p_eitem_detail :: "string option"
  p_eitem_due_at :: "time option"
  p_eitem_date_text :: "string option"
  p_eitem_date_relative :: "bool option"
  p_eitem_date_uncertain :: "bool option"
  p_eitem_origin :: "string option"
  p_eitem_confirmed :: "bool option"
  p_eitem_fee_text :: "string option"
  p_eitem_fee_amount :: "float64 option"
  p_eitem_fee_currency :: "string option"
  p_eitem_modified_at :: "time option"
  p_eitem_completed_at :: "time option"

record payload =
  p_title :: "string option"
  p_refs :: refs_p
  p_session :: session_p
  p_entry :: entry_p
  p_correction :: correction_p
  p_flags :: flags_p
  p_course :: course_p
  p_note :: note_p
  p_review :: review_p
  p_attachment :: attachment_p
  p_term :: term_p
  p_card :: card_p
  p_task :: task_p
  p_schedule :: schedule_p
  p_exception :: exception_p
  p_material_page_number :: "int option"
  p_occurrence_key :: "string option"
  p_material :: material_p
  p_assistant :: assistant_p
  p_exam :: exam_p
  p_plan :: plan_p
  p_plan_item :: plan_item_p
  p_activity :: activity_p
  p_interpreter :: interpreter_p
  p_errand :: errand_p
  p_errand_item :: errand_item_p

section \<open>Items and results\<close>

record push_item =
  it_op_id :: uuid
  it_etype :: string
  it_eid :: uuid
  it_operation :: string
  it_base :: int
  it_client_at :: time
  it_payload :: payload

datatype status = Accepted | Conflict | Rejected

record push_result =
  res_op_id :: uuid
  res_status :: status
  res_version :: "int option"
  res_updated :: "time option"
  res_code :: "string option"
  res_record :: "json option"

definition accepted :: "push_item \<Rightarrow> int \<Rightarrow> time \<Rightarrow> push_result" where
  "accepted it v t =
     \<lparr>res_op_id = it_op_id it, res_status = Accepted, res_version = Some v,
      res_updated = Some t, res_code = None, res_record = None\<rparr>"

definition conflict :: "push_item \<Rightarrow> int \<Rightarrow> time \<Rightarrow> json \<Rightarrow> push_result" where
  "conflict it v t r =
     \<lparr>res_op_id = it_op_id it, res_status = Conflict, res_version = Some v,
      res_updated = Some t, res_code = Some ''stale_base_version'', res_record = Some r\<rparr>"

definition rejected :: "push_item \<Rightarrow> string \<Rightarrow> push_result" where
  "rejected it code =
     \<lparr>res_op_id = it_op_id it, res_status = Rejected, res_version = None,
      res_updated = None, res_code = Some code, res_record = None\<rparr>"

lemma result_simps [simp]:
  "res_status (accepted it v t) = Accepted" "res_op_id (accepted it v t) = it_op_id it"
  "res_version (accepted it v t) = Some v" "res_updated (accepted it v t) = Some t"
  "res_record (accepted it v t) = None"
  "res_status (conflict it v t r) = Conflict" "res_op_id (conflict it v t r) = it_op_id it"
  "res_version (conflict it v t r) = Some v" "res_record (conflict it v t r) = Some r"
  "res_status (rejected it c) = Rejected" "res_op_id (rejected it c) = it_op_id it"
  "res_version (rejected it c) = None" "res_record (rejected it c) = None"
  by (simp_all add: accepted_def conflict_def rejected_def)

end
