(* ===== verification/Rows.thy ===== *)
theory Rows
  imports Wire
begin

text \<open>
  The rows of the synchronised tables: the structs of internal/sync (sessionRow, entryRow,
  ...) over the columns that every table of db/migrations has, and the JSON builders that
  render a row as the record a client receives. The column created_at is written once at the
  insert and never read by the sync engine; it is left out.
\<close>

section \<open>Columns common to every synchronised table\<close>

record row =
  rid :: uuid
  ruser :: uuid
  rver :: int
  rupdated :: time
  rdeleted :: "time option"

abbreviation is_deleted :: "'a row_scheme \<Rightarrow> bool" where
  "is_deleted r \<equiv> rdeleted r \<noteq> None"

text \<open>\<open>SET ..., server_version = server_version + 1, updated_at = now()\<close>\<close>

definition bump :: "time \<Rightarrow> 'a row_scheme \<Rightarrow> 'a row_scheme" where
  "bump t r = r\<lparr>rver := rver r + 1, rupdated := t\<rparr>"

lemma bump_simps [simp]:
  "rid (bump t r) = rid r" "ruser (bump t r) = ruser r" "rver (bump t r) = rver r + 1"
  "rupdated (bump t r) = t" "rdeleted (bump t r) = rdeleted r"
  by (simp_all add: bump_def)

text \<open>The envelope fields that open and close every record.\<close>

definition json_record ::
  "etype \<Rightarrow> 'a row_scheme \<Rightarrow> (string \<times> json) list \<Rightarrow> json" where
  "json_record e r kvs =
     JObj ([(''entityType'', JStr (etype_str e)), (''id'', JUuid (rid r))] @ kvs @
           [(''serverVersion'', JInt (rver r)), (''deleted'', JBool (is_deleted r))])"

text \<open>
  A JSONB column that the code reads as text is an optional string; a builder sends it only
  when it is present and not empty.
\<close>

definition nonblank :: "string option \<Rightarrow> string option" where
  "nonblank s = (case s of None \<Rightarrow> None | Some x \<Rightarrow> if x = [] then None else Some x)"

section \<open>Dates\<close>

text \<open>
  A DATE value as year, month and day. \<open>parse_wire_date\<close> is \<open>time.Parse("2006-01-02", s)\<close>
  with the empty string as "no date": exactly four, two and two digits, a month from 1 to 12
  and a day within the month.
\<close>

type_synonym date = "nat \<times> nat \<times> nat"

definition digit_val :: "char \<Rightarrow> nat option" where
  "digit_val c =
     (if (48::nat) \<le> of_char c \<and> (of_char c :: nat) \<le> 57 then Some (of_char c - 48) else None)"

definition digit_chr :: "nat \<Rightarrow> char" where
  "digit_chr n = char_of (48 + n mod 10)"

fun parse_digits :: "nat \<Rightarrow> string \<Rightarrow> nat option" where
  "parse_digits acc [] = Some acc"
| "parse_digits acc (c # cs) =
     (case digit_val c of None \<Rightarrow> None | Some d \<Rightarrow> parse_digits (10 * acc + d) cs)"

definition leap_year :: "nat \<Rightarrow> bool" where
  "leap_year y \<longleftrightarrow> y mod 4 = 0 \<and> (y mod 100 \<noteq> 0 \<or> y mod 400 = 0)"

definition days_in :: "nat \<Rightarrow> nat \<Rightarrow> nat" where
  "days_in y m =
     (if m = 2 then (if leap_year y then 29 else 28)
      else if m \<in> {4, 6, 9, 11} then 30 else 31)"

definition valid_date :: "date \<Rightarrow> bool" where
  "valid_date d = (case d of (y, m, dd) \<Rightarrow>
     y < 10000 \<and> 1 \<le> m \<and> m \<le> 12 \<and> 1 \<le> dd \<and> dd \<le> days_in y m)"

definition parse_wire_date :: "string \<Rightarrow> unit + date option" where
  "parse_wire_date s =
     (if s = [] then Inr None
      else if length s \<noteq> 10 \<or> s ! 4 \<noteq> CHR ''-'' \<or> s ! 7 \<noteq> CHR ''-'' then Inl ()
      else case (parse_digits 0 (take 4 s), parse_digits 0 (take 2 (drop 5 s)),
                 parse_digits 0 (drop 8 s)) of
             (Some y, Some m, Some d) \<Rightarrow>
               if valid_date (y, m, d) then Inr (Some (y, m, d)) else Inl ()
           | _ \<Rightarrow> Inl ())"

definition two_digits :: "nat \<Rightarrow> string" where
  "two_digits n = [digit_chr (n div 10), digit_chr n]"

definition date_string :: "date \<Rightarrow> string" where
  "date_string d = (case d of (y, m, dd) \<Rightarrow>
     [digit_chr (y div 1000), digit_chr (y div 100), digit_chr (y div 10), digit_chr y]
     @ ''-'' @ two_digits m @ ''-'' @ two_digits dd)"

lemma digit_val_chr [simp]: "digit_val (digit_chr n) = Some (n mod 10)"
proof -
  have "n mod 10 < 10" by simp
  then have "(of_char (char_of (48 + n mod 10) :: char) :: nat) = 48 + n mod 10"
    by (simp add: of_char_of)
  then show ?thesis by (simp add: digit_val_def digit_chr_def)
qed

lemma two_digits_parse: "n < 100 \<Longrightarrow> parse_digits 0 (two_digits n) = Some n"
  by (simp add: two_digits_def)

lemma decimal_split: "10 * (n div 10) + n mod 10 = (n::nat)"
  by simp

lemma four_digits_parse:
  assumes "y < 10000"
  shows "parse_digits 0
    [digit_chr (y div 1000), digit_chr (y div 100), digit_chr (y div 10), digit_chr y] = Some y"
proof -
  have d: "y div 100 = y div 10 div 10" "y div 1000 = y div 10 div 10 div 10"
    by (simp_all add: div_mult2_eq [symmetric])
  have "y div 1000 mod 10 = y div 1000" using assms by simp
  then show ?thesis
    using decimal_split [of y] decimal_split [of "y div 10"] decimal_split [of "y div 10 div 10"]
    unfolding d by simp
qed

lemma days_in_le: "days_in y m \<le> 31"
  by (simp add: days_in_def)

lemma parse_date_string: "valid_date d \<Longrightarrow> parse_wire_date (date_string d) = Inr (Some d)"
proof -
  assume v: "valid_date d"
  obtain y m dd where d: "d = (y, m, dd)" by (cases d)
  from v d have b: "y < 10000" "m < 100" "dd < 100"
    using days_in_le [of y m] by (auto simp: valid_date_def)
  have "parse_digits 0 (two_digits m) = Some m" "parse_digits 0 (two_digits dd) = Some dd"
    using b by (simp_all only: two_digits_parse)
  with four_digits_parse [OF b(1)] v d show ?thesis
    by (simp add: parse_wire_date_def date_string_def two_digits_def del: parse_digits.simps)
qed

lemma parse_wire_date_valid: "parse_wire_date s = Inr (Some d) \<Longrightarrow> valid_date d"
  by (auto simp: parse_wire_date_def split: if_splits option.splits)

section \<open>Classroom sessions and their children\<close>

record session_row = row +
  s_title :: string
  s_started_at :: time
  s_ended_at :: "time option"
  s_duration :: float64
  s_src_lang :: string
  s_tgt_lang :: string
  s_status :: string
  s_abnormal :: bool
  s_course_id :: "uuid option"

definition session_record_json :: "session_row \<Rightarrow> json" where
  "session_record_json s = json_record ESession s
     ([(''title'', JStr (s_title s)), (''startedAt'', JTime (s_started_at s))]
      @ null_field ''endedAt'' JTime (s_ended_at s)
      @ [(''duration'', JFloat (s_duration s)), (''sessionStatus'', JStr (s_status s)),
         (''abnormalTermination'', JBool (s_abnormal s))]
      @ opt_field ''courseId'' JUuid (s_course_id s))"

record entry_row = row +
  e_session_id :: uuid
  e_sequence_id :: int
  e_start_offset :: float64
  e_end_offset :: float64
  e_russian :: string
  e_chinese :: "string option"
  e_status :: string
  e_time_source :: string

definition entry_record_json :: "entry_row \<Rightarrow> json" where
  "entry_record_json e = json_record EEntry e
     ([(''sessionId'', JUuid (e_session_id e)), (''sequenceId'', JInt (e_sequence_id e)),
       (''startOffset'', JFloat (e_start_offset e)), (''endOffset'', JFloat (e_end_offset e)),
       (''russianText'', JStr (e_russian e))]
      @ null_field ''chineseText'' JStr (e_chinese e)
      @ [(''translationStatus'', JStr (e_status e))]
      @ omit_empty_str ''timeSource'' (e_time_source e))"

record correction_row = row +
  c_session_id :: uuid
  c_russian :: string
  c_chinese :: "string option"
  c_modified_at :: time
  c_needs_retrans :: bool

definition correction_record_json :: "correction_row \<Rightarrow> json" where
  "correction_record_json c = json_record ETranscriptCorrection c
     ([(''sessionId'', JUuid (c_session_id c)), (''correctionRussian'', JStr (c_russian c))]
      @ opt_field ''correctionChinese'' JStr (c_chinese c)
      @ [(''correctionModifiedAt'', JTime (c_modified_at c)),
         (''correctionNeedsRetranslation'', JBool (c_needs_retrans c))])"

record bookmark_row = row +
  b_session_id :: uuid
  b_entry_id :: uuid
  b_is_bookmarked :: bool

definition bookmark_record_json :: "bookmark_row \<Rightarrow> json" where
  "bookmark_record_json b = json_record EBookmark b
     [(''sessionId'', JUuid (b_session_id b)), (''entryId'', JUuid (b_entry_id b)),
      (''isBookmarked'', JBool (b_is_bookmarked b))]"

record favorite_row = row +
  f_session_id :: uuid
  f_is_favorite :: bool

definition favorite_record_json :: "favorite_row \<Rightarrow> json" where
  "favorite_record_json f = json_record EFavorite f
     [(''sessionId'', JUuid (f_session_id f)), (''isFavorite'', JBool (f_is_favorite f))]"

record note_row = row +
  n_session_id :: uuid
  n_anchor_entry :: "uuid option"
  n_text :: string
  n_time_offset :: "float64 option"

definition note_record_json :: "note_row \<Rightarrow> json" where
  "note_record_json n = json_record ENote n
     ([(''sessionId'', JUuid (n_session_id n))]
      @ opt_field ''anchorEntryId'' JUuid (n_anchor_entry n)
      @ [(''noteText'', JStr (n_text n))]
      @ opt_field ''noteTimeOffset'' JFloat (n_time_offset n))"

record review_row = row +
  rv_session_id :: uuid
  rv_status :: string
  rv_content :: string
  rv_generated :: string
  rv_model :: string
  rv_generated_at :: "time option"
  rv_source_updated_at :: "time option"

definition study_review_record_json :: "review_row \<Rightarrow> json" where
  "study_review_record_json r = json_record EStudyReview r
     ([(''sessionId'', JUuid (rv_session_id r)), (''reviewStatus'', JStr (rv_status r)),
       (''reviewContent'', JStr (rv_content r)),
       (''reviewGeneratedContent'', JStr (rv_generated r)),
       (''reviewModel'', JStr (rv_model r))]
      @ opt_field ''reviewGeneratedAt'' JTime (rv_generated_at r)
      @ opt_field ''reviewSourceUpdatedAt'' JTime (rv_source_updated_at r))"

record attachment_row = row +
  a_session_id :: uuid
  a_course_id :: "uuid option"
  a_anchor_entry :: "uuid option"
  a_captured_at :: time
  a_title :: string
  a_caption :: string
  a_kind :: string
  a_mime :: string
  a_width :: int
  a_height :: int
  a_file_size :: int
  a_hash :: string
  a_sort_index :: int
  a_transform :: string
  a_analysis_status :: string
  a_analysis :: "string option"
  a_ocr_text :: string

definition attachment_record_json :: "attachment_row \<Rightarrow> json" where
  "attachment_record_json a = json_record EAttachment a
     ([(''sessionId'', JUuid (a_session_id a))]
      @ opt_field ''courseId'' JUuid (a_course_id a)
      @ opt_field ''anchorEntryId'' JUuid (a_anchor_entry a)
      @ [(''attachmentCapturedAt'', JTime (a_captured_at a)), (''title'', JStr (a_title a)),
         (''attachmentCaption'', JStr (a_caption a)), (''attachmentKind'', JStr (a_kind a)),
         (''attachmentMime'', JStr (a_mime a)), (''attachmentWidth'', JInt (a_width a)),
         (''attachmentHeight'', JInt (a_height a)), (''attachmentFileSize'', JInt (a_file_size a)),
         (''attachmentHash'', JStr (a_hash a)), (''attachmentSortIndex'', JInt (a_sort_index a))]
      @ omit_empty_str ''attachmentTransform'' (a_transform a)
      @ [(''attachmentAnalysisStatus'', JStr (a_analysis_status a))]
      @ opt_field ''attachmentAnalysis'' JStr (nonblank (a_analysis a))
      @ omit_empty_str ''attachmentOcrText'' (a_ocr_text a))"

section \<open>Courses, schedules and learning data\<close>

record course_row = row +
  co_name :: string
  co_teacher :: string
  co_location :: string
  co_color_index :: int
  co_archived :: bool

definition course_record_json :: "course_row \<Rightarrow> json" where
  "course_record_json c = json_record ECourse c
     [(''title'', JStr (co_name c)), (''teacher'', JStr (co_teacher c)),
      (''location'', JStr (co_location c)), (''colorIndex'', JInt (co_color_index c)),
      (''isArchived'', JBool (co_archived c))]"

record term_row = row +
  t_course_id :: "uuid option"
  t_session_id :: "uuid option"
  t_source_review :: "uuid option"
  t_source_entry :: "uuid option"
  t_source_attach :: "uuid option"
  t_source_material :: "uuid option"
  t_source_material_page :: int
  t_source_sessions :: string
  t_russian :: string
  t_chinese :: string
  t_explanation :: string
  t_part_of_speech :: string
  t_user_note :: string
  t_favorite :: bool
  t_status :: string

definition term_record_json :: "term_row \<Rightarrow> json" where
  "term_record_json t = json_record ETerm t
     (opt_field ''courseId'' JUuid (t_course_id t)
      @ opt_field ''sessionId'' JUuid (t_session_id t)
      @ opt_field ''sourceReviewId'' JUuid (t_source_review t)
      @ opt_field ''sourceEntryId'' JUuid (t_source_entry t)
      @ opt_field ''sourceAttachmentId'' JUuid (t_source_attach t)
      @ opt_field ''materialId'' JUuid (t_source_material t)
      @ omit_zero_int ''materialPageNumber'' (t_source_material_page t)
      @ omit_empty_str ''termSourceSessions'' (t_source_sessions t)
      @ [(''termRussian'', JStr (t_russian t)), (''termChinese'', JStr (t_chinese t)),
         (''termExplanation'', JStr (t_explanation t)),
         (''termPartOfSpeech'', JStr (t_part_of_speech t)),
         (''termUserNote'', JStr (t_user_note t)), (''termFavorite'', JBool (t_favorite t)),
         (''termStatus'', JStr (t_status t))])"

record card_row = row +
  k_course_id :: "uuid option"
  k_session_id :: "uuid option"
  k_source_entry :: "uuid option"
  k_source_attach :: "uuid option"
  k_source_term :: "uuid option"
  k_source_material :: "uuid option"
  k_source_material_page :: int
  k_front :: string
  k_back :: string
  k_type :: string
  k_user_note :: string
  k_origin :: string
  k_stage :: string
  k_review_count :: int
  k_interval_hours :: int
  k_due_at :: "time option"
  k_last_reviewed :: "time option"
  k_last_grade :: string

definition study_card_record_json :: "card_row \<Rightarrow> json" where
  "study_card_record_json c = json_record EStudyCard c
     (opt_field ''courseId'' JUuid (k_course_id c)
      @ opt_field ''sessionId'' JUuid (k_session_id c)
      @ opt_field ''sourceEntryId'' JUuid (k_source_entry c)
      @ opt_field ''sourceAttachmentId'' JUuid (k_source_attach c)
      @ opt_field ''sourceTermId'' JUuid (k_source_term c)
      @ opt_field ''materialId'' JUuid (k_source_material c)
      @ omit_zero_int ''materialPageNumber'' (k_source_material_page c)
      @ [(''cardFront'', JStr (k_front c)), (''cardBack'', JStr (k_back c)),
         (''cardType'', JStr (k_type c)), (''cardUserNote'', JStr (k_user_note c)),
         (''cardOrigin'', JStr (k_origin c)), (''cardStage'', JStr (k_stage c)),
         (''cardReviewCount'', JInt (k_review_count c)),
         (''cardIntervalHours'', JInt (k_interval_hours c))]
      @ opt_field ''cardDueAt'' JTime (k_due_at c)
      @ opt_field ''cardLastReviewedAt'' JTime (k_last_reviewed c)
      @ [(''cardLastGrade'', JStr (k_last_grade c))])"

record task_row = row +
  ta_course_id :: "uuid option"
  ta_session_id :: "uuid option"
  ta_source_review :: "uuid option"
  ta_source_entry :: "uuid option"
  ta_source_attach :: "uuid option"
  ta_source_material :: "uuid option"
  ta_source_material_page :: int
  ta_title :: string
  ta_detail :: string
  ta_due_at :: "time option"
  ta_priority :: string
  ta_status :: string
  ta_origin :: string
  ta_uncertainty :: string
  ta_user_note :: string
  ta_completed_at :: "time option"

definition study_task_record_json :: "task_row \<Rightarrow> json" where
  "study_task_record_json t = json_record EStudyTask t
     ([(''title'', JStr (ta_title t))]
      @ opt_field ''courseId'' JUuid (ta_course_id t)
      @ opt_field ''sessionId'' JUuid (ta_session_id t)
      @ opt_field ''sourceReviewId'' JUuid (ta_source_review t)
      @ opt_field ''sourceEntryId'' JUuid (ta_source_entry t)
      @ opt_field ''sourceAttachmentId'' JUuid (ta_source_attach t)
      @ opt_field ''materialId'' JUuid (ta_source_material t)
      @ omit_zero_int ''materialPageNumber'' (ta_source_material_page t)
      @ [(''taskDetail'', JStr (ta_detail t))]
      @ opt_field ''taskDueAt'' JTime (ta_due_at t)
      @ [(''taskPriority'', JStr (ta_priority t)), (''taskStatus'', JStr (ta_status t)),
         (''taskOrigin'', JStr (ta_origin t)), (''taskUncertainty'', JStr (ta_uncertainty t)),
         (''taskUserNote'', JStr (ta_user_note t))]
      @ opt_field ''taskCompletedAt'' JTime (ta_completed_at t))"

record schedule_row = row +
  sc_course_id :: "uuid option"
  sc_weekday :: int
  sc_start_secs :: int
  sc_end_secs :: int
  sc_recurrence :: string
  sc_parity_anchor :: "date option"
  sc_first_week_odd :: bool
  sc_semester_start :: date
  sc_semester_end :: date
  sc_timezone :: string
  sc_teacher :: string
  sc_location :: string
  sc_note :: string
  sc_reminder_mins :: int
  sc_enabled :: bool
  sc_once_date :: "date option"

definition course_schedule_record_json :: "schedule_row \<Rightarrow> json" where
  "course_schedule_record_json s = json_record ECourseSchedule s
     (opt_field ''courseId'' JUuid (sc_course_id s)
      @ [(''scheduleWeekday'', JInt (sc_weekday s)),
         (''scheduleStartSecs'', JInt (sc_start_secs s)),
         (''scheduleEndSecs'', JInt (sc_end_secs s)),
         (''scheduleRecurrence'', JStr (sc_recurrence s))]
      @ opt_field ''scheduleParityAnchor'' (JStr \<circ> date_string) (sc_parity_anchor s)
      @ [(''scheduleFirstWeekIsOdd'', JBool (sc_first_week_odd s)),
         (''scheduleSemesterStart'', JStr (date_string (sc_semester_start s))),
         (''scheduleSemesterEnd'', JStr (date_string (sc_semester_end s))),
         (''scheduleTimezone'', JStr (sc_timezone s)), (''scheduleTeacher'', JStr (sc_teacher s)),
         (''scheduleLocation'', JStr (sc_location s)), (''scheduleNote'', JStr (sc_note s)),
         (''scheduleReminderMins'', JInt (sc_reminder_mins s)),
         (''scheduleEnabled'', JBool (sc_enabled s))]
      @ opt_field ''scheduleOnceDate'' (JStr \<circ> date_string) (sc_once_date s))"

record exception_row = row +
  x_schedule_id :: uuid
  x_course_id :: "uuid option"
  x_original_date :: "date option"
  x_kind :: string
  x_changed_start :: "int option"
  x_changed_end :: "int option"
  x_moved_to :: "date option"
  x_location :: string
  x_teacher :: string
  x_note :: string

definition schedule_exception_record_json :: "exception_row \<Rightarrow> json" where
  "schedule_exception_record_json e = json_record EScheduleException e
     ([(''scheduleId'', JUuid (x_schedule_id e))]
      @ opt_field ''courseId'' JUuid (x_course_id e)
      @ opt_field ''scheduleOriginalDate'' (JStr \<circ> date_string) (x_original_date e)
      @ [(''scheduleExceptionKind'', JStr (x_kind e))]
      @ opt_field ''scheduleChangedStart'' JInt (x_changed_start e)
      @ opt_field ''scheduleChangedEnd'' JInt (x_changed_end e)
      @ opt_field ''scheduleMovedToDate'' (JStr \<circ> date_string) (x_moved_to e)
      @ [(''scheduleLocation'', JStr (x_location e)), (''scheduleTeacher'', JStr (x_teacher e)),
         (''scheduleNote'', JStr (x_note e))])"

end
