(* ===== verification/Rows_Study.thy ===== *)
theory Rows_Study
  imports Rows
begin

text \<open>
  The rows of the course-material library, the course assistant, the exam centre, the
  interpreter and the errand cases (materials.go, exams.go, interpreter.go, errands.go),
  with their JSON builders.
\<close>

section \<open>Materials and the assistant\<close>

record material_row = row +
  m_course_id :: "uuid option"
  m_session_id :: "uuid option"
  m_occurrence_key :: string
  m_title :: string
  m_file_name :: string
  m_mime :: string
  m_kind :: string
  m_format :: string
  m_file_size :: int
  m_hash :: string
  m_page_count :: int
  m_source_attachment :: "uuid option"
  m_source_url :: string
  m_shared_text :: string
  m_extraction :: string
  m_digest_status :: string
  m_digest :: "string option"
  m_digest_model :: string
  m_digest_at :: "time option"
  m_digest_src_hash :: string
  m_last_read_page :: int
  m_last_opened_at :: "time option"

definition material_record_json :: "material_row \<Rightarrow> json" where
  "material_record_json m = json_record EMaterial m
     ([(''title'', JStr (m_title m))]
      @ opt_field ''courseId'' JUuid (m_course_id m)
      @ opt_field ''sessionId'' JUuid (m_session_id m)
      @ omit_empty_str ''scheduleOccurrenceKey'' (m_occurrence_key m)
      @ opt_field ''sourceAttachmentId'' JUuid (m_source_attachment m)
      @ [(''materialKind'', JStr (m_kind m)), (''materialMime'', JStr (m_mime m)),
         (''materialFileName'', JStr (m_file_name m)), (''materialFormat'', JStr (m_format m)),
         (''materialFileSize'', JInt (m_file_size m)), (''materialHash'', JStr (m_hash m)),
         (''materialPageCount'', JInt (m_page_count m)),
         (''materialSourceURL'', JStr (m_source_url m)),
         (''materialSharedText'', JStr (m_shared_text m)),
         (''materialExtraction'', JStr (m_extraction m)),
         (''materialDigestStatus'', JStr (m_digest_status m))]
      @ opt_field ''materialDigest'' JStr (nonblank (m_digest m))
      @ [(''materialDigestModel'', JStr (m_digest_model m))]
      @ opt_field ''materialDigestAt'' JTime (m_digest_at m)
      @ [(''materialDigestSourceHash'', JStr (m_digest_src_hash m)),
         (''materialLastReadPage'', JInt (m_last_read_page m))]
      @ opt_field ''materialLastOpenedAt'' JTime (m_last_opened_at m))"

record page_row = row +
  pg_material_id :: uuid
  pg_number :: int
  pg_text :: string
  pg_ocr_text :: string
  pg_ocr_status :: string

definition material_page_record_json :: "page_row \<Rightarrow> json" where
  "material_page_record_json p = json_record EMaterialPage p
     [(''materialId'', JUuid (pg_material_id p)), (''materialPageNumber'', JInt (pg_number p)),
      (''materialPageText'', JStr (pg_text p)), (''materialPageOCR'', JStr (pg_ocr_text p)),
      (''materialPageOCRStatus'', JStr (pg_ocr_status p))]"

record annotation_row = row +
  an_material_id :: uuid
  an_page_number :: int
  an_kind :: string
  an_note_text :: string

definition material_annotation_record_json :: "annotation_row \<Rightarrow> json" where
  "material_annotation_record_json a = json_record EMaterialAnnotation a
     [(''materialId'', JUuid (an_material_id a)),
      (''materialPageNumber'', JInt (an_page_number a)),
      (''materialAnnotationKind'', JStr (an_kind a)), (''noteText'', JStr (an_note_text a))]"

record thread_row = row +
  th_course_id :: "uuid option"
  th_title :: string

definition assistant_thread_record_json :: "thread_row \<Rightarrow> json" where
  "assistant_thread_record_json t = json_record EAssistantThread t
     ([(''title'', JStr (th_title t))] @ opt_field ''courseId'' JUuid (th_course_id t))"

record message_row = row +
  ms_thread_id :: uuid
  ms_role :: string
  ms_text :: string
  ms_citations :: "string option"
  ms_scope_material :: "uuid option"
  ms_scope_session :: "uuid option"
  ms_scope_page :: int
  ms_mode :: string
  ms_evidence :: "string option"
  ms_answer :: "string option"
  ms_model :: string

definition assistant_message_record_json :: "message_row \<Rightarrow> json" where
  "assistant_message_record_json m = json_record EAssistantMessage m
     ([(''threadId'', JUuid (ms_thread_id m)), (''assistantRole'', JStr (ms_role m)),
       (''assistantText'', JStr (ms_text m))]
      @ opt_field ''assistantCitations'' JStr (nonblank (ms_citations m))
      @ opt_field ''materialId'' JUuid (ms_scope_material m)
      @ opt_field ''sessionId'' JUuid (ms_scope_session m)
      @ omit_zero_int ''materialPageNumber'' (ms_scope_page m)
      @ (if ms_mode m = ''text'' then [] else omit_empty_str ''assistantMode'' (ms_mode m))
      @ opt_field ''assistantEvidence'' JStr (nonblank (ms_evidence m))
      @ opt_field ''assistantAnswer'' JStr (nonblank (ms_answer m))
      @ omit_empty_str ''assistantModel'' (ms_model m))"

section \<open>The exam centre\<close>

record exam_row = row +
  ex_course_id :: "uuid option"
  ex_title :: string
  ex_kind :: string
  ex_date :: date
  ex_start_secs :: int
  ex_end_secs :: int
  ex_location :: string
  ex_scope :: string
  ex_note :: string
  ex_target_score :: string
  ex_status :: string
  ex_origin :: string
  ex_source :: "string option"

definition exam_record_json :: "exam_row \<Rightarrow> json" where
  "exam_record_json e = json_record EExam e
     ([(''title'', JStr (ex_title e))]
      @ opt_field ''courseId'' JUuid (ex_course_id e)
      @ [(''examKind'', JStr (ex_kind e)), (''examDate'', JStr (date_string (ex_date e))),
         (''examStartSecs'', JInt (ex_start_secs e)), (''examEndSecs'', JInt (ex_end_secs e)),
         (''examLocation'', JStr (ex_location e)), (''examScope'', JStr (ex_scope e)),
         (''examNote'', JStr (ex_note e)), (''examTargetScore'', JStr (ex_target_score e)),
         (''examStatus'', JStr (ex_status e)), (''examOrigin'', JStr (ex_origin e))]
      @ opt_field ''examSource'' JStr (nonblank (ex_source e)))"

record topic_row = row +
  tp_exam_id :: uuid
  tp_title :: string
  tp_detail :: string
  tp_importance :: string
  tp_self_rating :: string
  tp_status :: string
  tp_source :: "string option"
  tp_user_edited :: bool

definition exam_topic_record_json :: "topic_row \<Rightarrow> json" where
  "exam_topic_record_json t = json_record EExamTopic t
     ([(''examId'', JUuid (tp_exam_id t)), (''title'', JStr (tp_title t)),
       (''topicDetail'', JStr (tp_detail t)), (''topicImportance'', JStr (tp_importance t)),
       (''topicSelfRating'', JStr (tp_self_rating t)), (''topicStatus'', JStr (tp_status t))]
      @ opt_field ''topicSource'' JStr (nonblank (tp_source t))
      @ [(''topicUserEdited'', JBool (tp_user_edited t))])"

record plan_row = row +
  pl_exam_id :: uuid
  pl_title :: string
  pl_start_date :: date
  pl_end_date :: date
  pl_weekday_minutes :: int
  pl_weekend_minutes :: int
  pl_rest_days :: "string option"
  pl_finish_early_days :: int
  pl_include_cards :: bool
  pl_include_tasks :: bool
  pl_include_materials :: bool
  pl_include_sessions :: bool
  pl_focus_topics :: "string option"
  pl_blocked_times :: "string option"
  pl_status :: string

definition study_plan_record_json :: "plan_row \<Rightarrow> json" where
  "study_plan_record_json p = json_record EStudyPlan p
     ([(''examId'', JUuid (pl_exam_id p)), (''title'', JStr (pl_title p)),
       (''planStartDate'', JStr (date_string (pl_start_date p))),
       (''planEndDate'', JStr (date_string (pl_end_date p))),
       (''planWeekdayMinutes'', JInt (pl_weekday_minutes p)),
       (''planWeekendMinutes'', JInt (pl_weekend_minutes p))]
      @ opt_field ''planRestDays'' JStr (nonblank (pl_rest_days p))
      @ [(''planFinishEarlyDays'', JInt (pl_finish_early_days p)),
         (''planIncludeCards'', JBool (pl_include_cards p)),
         (''planIncludeTasks'', JBool (pl_include_tasks p)),
         (''planIncludeMaterials'', JBool (pl_include_materials p)),
         (''planIncludeSessions'', JBool (pl_include_sessions p))]
      @ opt_field ''planFocusTopics'' JStr (nonblank (pl_focus_topics p))
      @ opt_field ''planBlockedTimes'' JStr (nonblank (pl_blocked_times p))
      @ [(''planStatus'', JStr (pl_status p))])"

record plan_item_row = row +
  pi_plan_id :: uuid
  pi_exam_id :: "uuid option"
  pi_date :: date
  pi_title :: string
  pi_kind :: string
  pi_estimated_minutes :: int
  pi_actual_minutes :: int
  pi_status :: string
  pi_status_changed_at :: "time option"
  pi_order :: int
  pi_source :: "string option"
  pi_user_note :: string
  pi_user_edited :: bool

definition study_plan_item_record_json :: "plan_item_row \<Rightarrow> json" where
  "study_plan_item_record_json i = json_record EStudyPlanItem i
     ([(''planId'', JUuid (pi_plan_id i))]
      @ opt_field ''examId'' JUuid (pi_exam_id i)
      @ [(''planItemDate'', JStr (date_string (pi_date i))), (''title'', JStr (pi_title i)),
         (''planItemKind'', JStr (pi_kind i)),
         (''planItemEstimatedMinutes'', JInt (pi_estimated_minutes i)),
         (''planItemActualMinutes'', JInt (pi_actual_minutes i)),
         (''planItemStatus'', JStr (pi_status i))]
      @ opt_field ''planItemStatusChangedAt'' JTime (pi_status_changed_at i)
      @ [(''planItemOrder'', JInt (pi_order i))]
      @ opt_field ''planItemSource'' JStr (nonblank (pi_source i))
      @ [(''planItemUserNote'', JStr (pi_user_note i)),
         (''planItemUserEdited'', JBool (pi_user_edited i))])"

record activity_row = row +
  ac_plan_item_id :: "uuid option"
  ac_exam_id :: "uuid option"
  ac_course_id :: "uuid option"
  ac_topic_id :: "uuid option"
  ac_started_at :: time
  ac_ended_at :: "time option"
  ac_duration :: int
  ac_status :: string
  ac_note :: string

definition study_activity_record_json :: "activity_row \<Rightarrow> json" where
  "study_activity_record_json a = json_record EStudyActivity a
     (opt_field ''planItemId'' JUuid (ac_plan_item_id a)
      @ opt_field ''examId'' JUuid (ac_exam_id a)
      @ opt_field ''courseId'' JUuid (ac_course_id a)
      @ opt_field ''topicId'' JUuid (ac_topic_id a)
      @ [(''activityStartedAt'', JTime (ac_started_at a))]
      @ opt_field ''activityEndedAt'' JTime (ac_ended_at a)
      @ [(''activityDurationSeconds'', JInt (ac_duration a)),
         (''activityStatus'', JStr (ac_status a)), (''activityNote'', JStr (ac_note a))])"

section \<open>The interpreter and errand cases\<close>

record conversation_row = row +
  cv_title :: string
  cv_scene :: string
  cv_context_note :: string
  cv_status :: string
  cv_started_at :: time
  cv_ended_at :: "time option"

definition interpreter_conversation_record_json :: "conversation_row \<Rightarrow> json" where
  "interpreter_conversation_record_json c = json_record EInterpreterConversation c
     ([(''title'', JStr (cv_title c)), (''interpreterScene'', JStr (cv_scene c)),
       (''interpreterContextNote'', JStr (cv_context_note c)),
       (''interpreterStatus'', JStr (cv_status c)),
       (''interpreterStartedAt'', JTime (cv_started_at c))]
      @ opt_field ''interpreterEndedAt'' JTime (cv_ended_at c))"

record turn_row = row +
  tu_conversation_id :: uuid
  tu_speaker :: string
  tu_direction :: string
  tu_input_method :: string
  tu_sequence :: int
  tu_source :: string
  tu_plain_russian :: string
  tu_stressed_russian :: string
  tu_chinese :: string
  tu_back_translation :: string
  tu_details :: "string option"
  tu_modified_at :: "time option"

definition interpreter_turn_record_json :: "turn_row \<Rightarrow> json" where
  "interpreter_turn_record_json t = json_record EInterpreterTurn t
     ([(''conversationId'', JUuid (tu_conversation_id t)), (''turnSpeaker'', JStr (tu_speaker t)),
       (''turnDirection'', JStr (tu_direction t)), (''turnInputMethod'', JStr (tu_input_method t)),
       (''turnSequence'', JInt (tu_sequence t)), (''turnSourceText'', JStr (tu_source t)),
       (''turnPlainRussian'', JStr (tu_plain_russian t)),
       (''turnStressedRussian'', JStr (tu_stressed_russian t)),
       (''turnChineseText'', JStr (tu_chinese t)),
       (''turnBackTranslation'', JStr (tu_back_translation t))]
      @ opt_field ''turnDetails'' JStr (nonblank (tu_details t))
      @ opt_field ''turnModifiedAt'' JTime (tu_modified_at t))"

record case_row = row +
  ec_title :: string
  ec_scene :: string
  ec_status :: string
  ec_purpose :: string
  ec_user_note :: string
  ec_timezone :: string
  ec_location :: string
  ec_contact :: string
  ec_expected_result_at :: "time option"
  ec_pinned :: bool
  ec_has_local_sources :: bool

definition errand_case_record_json :: "case_row \<Rightarrow> json" where
  "errand_case_record_json c = json_record EErrandCase c
     ([(''title'', JStr (ec_title c)), (''errandScene'', JStr (ec_scene c)),
       (''errandStatus'', JStr (ec_status c)), (''errandPurpose'', JStr (ec_purpose c)),
       (''errandNote'', JStr (ec_user_note c)), (''errandTimezone'', JStr (ec_timezone c)),
       (''errandLocation'', JStr (ec_location c)), (''errandContact'', JStr (ec_contact c))]
      @ opt_field ''errandExpectedResultAt'' JTime (ec_expected_result_at c)
      @ [(''errandPinned'', JBool (ec_pinned c)),
         (''errandHasLocalSources'', JBool (ec_has_local_sources c))])"

record case_item_row = row +
  ei_case_id :: uuid
  ei_title :: string
  ei_kind :: string
  ei_status :: string
  ei_sequence :: int
  ei_detail :: string
  ei_due_at :: "time option"
  ei_date_text :: string
  ei_date_relative :: bool
  ei_date_uncertain :: bool
  ei_origin :: string
  ei_confirmed :: bool
  ei_fee_text :: string
  ei_fee_amount :: "float64 option"
  ei_fee_currency :: string
  ei_modified_at :: "time option"
  ei_completed_at :: "time option"

definition errand_case_item_record_json :: "case_item_row \<Rightarrow> json" where
  "errand_case_item_record_json i = json_record EErrandCaseItem i
     ([(''caseId'', JUuid (ei_case_id i)), (''title'', JStr (ei_title i)),
       (''errandItemKind'', JStr (ei_kind i)), (''errandItemStatus'', JStr (ei_status i)),
       (''errandItemSequence'', JInt (ei_sequence i)), (''errandItemDetail'', JStr (ei_detail i))]
      @ opt_field ''errandItemDueAt'' JTime (ei_due_at i)
      @ [(''errandItemDateText'', JStr (ei_date_text i)),
         (''errandItemDateIsRelative'', JBool (ei_date_relative i)),
         (''errandItemDateUncertain'', JBool (ei_date_uncertain i)),
         (''errandItemOrigin'', JStr (ei_origin i)), (''errandItemConfirmed'', JBool (ei_confirmed i)),
         (''errandItemFeeText'', JStr (ei_fee_text i))]
      @ opt_field ''errandItemFeeAmount'' JFloat (ei_fee_amount i)
      @ [(''errandItemFeeCurrency'', JStr (ei_fee_currency i))]
      @ opt_field ''errandItemModifiedAt'' JTime (ei_modified_at i)
      @ opt_field ''errandItemCompletedAt'' JTime (ei_completed_at i))"

end
