(* ===== verification/Schema.thy ===== *)
theory Schema
  imports Rows_Study
begin

text \<open>
  The database of db/migrations as the sync engine uses it: one list of rows per table, the
  change log sync_changes, the ledger processed_operations, and the file-cleanup hooks of the
  running transaction. Each table has a descriptor (\<open>tab\<close>) with its column domains and UNIQUE
  constraints; the locale \<open>synced_table\<close> states what a descriptor promises about the
  uniform view of all tables, and is interpreted on every one of them.
\<close>

section \<open>The change log and the ledger\<close>

datatype change_op = Upsert | Delete

record change =
  ch_user :: uuid
  ch_etype :: etype
  ch_eid :: uuid
  ch_op :: change_op
  ch_version :: int

text \<open>
  A ledger row keeps the result as JSON; \<open>None\<close> stands for a stored result that no
  longer unmarshals.
\<close>

record ledger_row =
  lg_user :: uuid
  lg_op_id :: uuid
  lg_etype :: string
  lg_eid :: uuid
  lg_result :: "push_result option"

section \<open>The database\<close>

record db =
  sessions :: "session_row list"
  entries :: "entry_row list"
  bookmarks :: "bookmark_row list"
  favorites :: "favorite_row list"
  courses :: "course_row list"
  session_notes :: "note_row list"
  reviews :: "review_row list"
  attachments :: "attachment_row list"
  terms :: "term_row list"
  cards :: "card_row list"
  tasks :: "task_row list"
  corrections :: "correction_row list"
  schedules :: "schedule_row list"
  exceptions :: "exception_row list"
  materials :: "material_row list"
  pages :: "page_row list"
  annotations :: "annotation_row list"
  threads :: "thread_row list"
  messages :: "message_row list"
  exams :: "exam_row list"
  topics :: "topic_row list"
  plans :: "plan_row list"
  plan_items :: "plan_item_row list"
  activities :: "activity_row list"
  conversations :: "conversation_row list"
  turns :: "turn_row list"
  errand_cases :: "case_row list"
  case_items :: "case_item_row list"
  db_changes :: "(int \<times> change) list"
  db_seq :: int
  db_ledger :: "ledger_row list"
  db_hooks :: "(uuid \<times> uuid) list"

definition empty_db :: db where
  "empty_db = \<lparr>sessions = [], entries = [], bookmarks = [], favorites = [], courses = [], session_notes = [],
     reviews = [], attachments = [], terms = [], cards = [], tasks = [], corrections = [],
     schedules = [], exceptions = [], materials = [], pages = [], annotations = [], threads = [],
     messages = [], exams = [], topics = [], plans = [], plan_items = [], activities = [],
     conversations = [], turns = [], errand_cases = [], case_items = [],
     db_changes = [], db_seq = 0, db_ledger = [], db_hooks = []\<rparr>"

definition abs_row :: "('a row_scheme \<Rightarrow> json) \<Rightarrow> 'a row_scheme \<Rightarrow> row \<times> json" where
  "abs_row j r = (row.truncate r, j r)"

lemma truncate_simps [simp]:
  "rid (row.truncate r) = rid r" "ruser (row.truncate r) = ruser r"
  "rver (row.truncate r) = rver r" "rupdated (row.truncate r) = rupdated r"
  "rdeleted (row.truncate r) = rdeleted r"
  by (simp_all add: row.truncate_def)

text \<open>The table of an entity type, each row with the record a client would receive.\<close>

primrec view :: "etype \<Rightarrow> db \<Rightarrow> (row \<times> json) list" where
  "view ESession d = map (abs_row session_record_json) (sessions d)"
| "view EEntry d = map (abs_row entry_record_json) (entries d)"
| "view EBookmark d = map (abs_row bookmark_record_json) (bookmarks d)"
| "view EFavorite d = map (abs_row favorite_record_json) (favorites d)"
| "view ECourse d = map (abs_row course_record_json) (courses d)"
| "view ENote d = map (abs_row note_record_json) (session_notes d)"
| "view EStudyReview d = map (abs_row study_review_record_json) (reviews d)"
| "view EAttachment d = map (abs_row attachment_record_json) (attachments d)"
| "view ETerm d = map (abs_row term_record_json) (terms d)"
| "view EStudyCard d = map (abs_row study_card_record_json) (cards d)"
| "view EStudyTask d = map (abs_row study_task_record_json) (tasks d)"
| "view ETranscriptCorrection d = map (abs_row correction_record_json) (corrections d)"
| "view ECourseSchedule d = map (abs_row course_schedule_record_json) (schedules d)"
| "view EScheduleException d = map (abs_row schedule_exception_record_json) (exceptions d)"
| "view EMaterial d = map (abs_row material_record_json) (materials d)"
| "view EMaterialPage d = map (abs_row material_page_record_json) (pages d)"
| "view EMaterialAnnotation d = map (abs_row material_annotation_record_json) (annotations d)"
| "view EAssistantThread d = map (abs_row assistant_thread_record_json) (threads d)"
| "view EAssistantMessage d = map (abs_row assistant_message_record_json) (messages d)"
| "view EExam d = map (abs_row exam_record_json) (exams d)"
| "view EExamTopic d = map (abs_row exam_topic_record_json) (topics d)"
| "view EStudyPlan d = map (abs_row study_plan_record_json) (plans d)"
| "view EStudyPlanItem d = map (abs_row study_plan_item_record_json) (plan_items d)"
| "view EStudyActivity d = map (abs_row study_activity_record_json) (activities d)"
| "view EInterpreterConversation d = map (abs_row interpreter_conversation_record_json) (conversations d)"
| "view EInterpreterTurn d = map (abs_row interpreter_turn_record_json) (turns d)"
| "view EErrandCase d = map (abs_row errand_case_record_json) (errand_cases d)"
| "view EErrandCaseItem d = map (abs_row errand_case_item_record_json) (case_items d)"

section \<open>Table descriptors\<close>

record 'a tab =
  tb_etype :: etype
  tb_get :: "db \<Rightarrow> 'a list"
  tb_put :: "'a list \<Rightarrow> db \<Rightarrow> db"
  tb_ok :: "'a \<Rightarrow> bool"
  tb_clash :: "'a \<Rightarrow> 'a \<Rightarrow> bool"
  tb_json :: "'a \<Rightarrow> json"

definition opt_all :: "('a \<Rightarrow> bool) \<Rightarrow> 'a option \<Rightarrow> bool" where
  "opt_all P x = (case x of None \<Rightarrow> True | Some v \<Rightarrow> P v)"

lemma opt_all_simps [simp]: "opt_all P None" "opt_all P (Some v) = P v"
  by (simp_all add: opt_all_def)

definition sessions_ok :: "session_row \<Rightarrow> bool" where
  "sessions_ok r \<longleftrightarrow>
     varchar 256 (s_title r) \<and> varchar 16 (s_src_lang r) \<and> varchar 16 (s_tgt_lang r) \<and>
     varchar 16 (s_status r)"

definition sessions_tab :: "session_row tab" where
  "sessions_tab =
     \<lparr>tb_etype = ESession, tb_get = sessions, tb_put = (\<lambda>t d. d\<lparr>sessions := t\<rparr>), tb_ok = sessions_ok,
      tb_clash = (\<lambda>x y. False),
      tb_json = session_record_json\<rparr>"

definition entries_ok :: "entry_row \<Rightarrow> bool" where
  "entries_ok r \<longleftrightarrow>
     int4 (e_sequence_id r) \<and> text_ok (e_russian r) \<and> opt_all text_ok (e_chinese r) \<and>
     varchar 16 (e_status r) \<and> varchar 8 (e_time_source r)"

definition entries_tab :: "entry_row tab" where
  "entries_tab =
     \<lparr>tb_etype = EEntry, tb_get = entries, tb_put = (\<lambda>t d. d\<lparr>entries := t\<rparr>), tb_ok = entries_ok,
      tb_clash = (\<lambda>x y. ruser x = ruser y \<and> e_session_id x = e_session_id y \<and> e_sequence_id x = e_sequence_id y),
      tb_json = entry_record_json\<rparr>"

definition bookmarks_ok :: "bookmark_row \<Rightarrow> bool" where
  "bookmarks_ok r \<longleftrightarrow>
     True"

definition bookmarks_tab :: "bookmark_row tab" where
  "bookmarks_tab =
     \<lparr>tb_etype = EBookmark, tb_get = bookmarks, tb_put = (\<lambda>t d. d\<lparr>bookmarks := t\<rparr>), tb_ok = bookmarks_ok,
      tb_clash = (\<lambda>x y. ruser x = ruser y \<and> b_entry_id x = b_entry_id y),
      tb_json = bookmark_record_json\<rparr>"

definition favorites_ok :: "favorite_row \<Rightarrow> bool" where
  "favorites_ok r \<longleftrightarrow>
     True"

definition favorites_tab :: "favorite_row tab" where
  "favorites_tab =
     \<lparr>tb_etype = EFavorite, tb_get = favorites, tb_put = (\<lambda>t d. d\<lparr>favorites := t\<rparr>), tb_ok = favorites_ok,
      tb_clash = (\<lambda>x y. ruser x = ruser y \<and> f_session_id x = f_session_id y),
      tb_json = favorite_record_json\<rparr>"

definition courses_ok :: "course_row \<Rightarrow> bool" where
  "courses_ok r \<longleftrightarrow>
     varchar 256 (co_name r) \<and> varchar 128 (co_teacher r) \<and> varchar 128 (co_location r) \<and>
     int4 (co_color_index r)"

definition courses_tab :: "course_row tab" where
  "courses_tab =
     \<lparr>tb_etype = ECourse, tb_get = courses, tb_put = (\<lambda>t d. d\<lparr>courses := t\<rparr>), tb_ok = courses_ok,
      tb_clash = (\<lambda>x y. False),
      tb_json = course_record_json\<rparr>"

definition session_notes_ok :: "note_row \<Rightarrow> bool" where
  "session_notes_ok r \<longleftrightarrow>
     text_ok (n_text r)"

definition session_notes_tab :: "note_row tab" where
  "session_notes_tab =
     \<lparr>tb_etype = ENote, tb_get = session_notes, tb_put = (\<lambda>t d. d\<lparr>session_notes := t\<rparr>), tb_ok = session_notes_ok,
      tb_clash = (\<lambda>x y. False),
      tb_json = note_record_json\<rparr>"

definition reviews_ok :: "review_row \<Rightarrow> bool" where
  "reviews_ok r \<longleftrightarrow>
     varchar 32 (rv_status r) \<and> text_ok (rv_content r) \<and> text_ok (rv_generated r) \<and>
     varchar 128 (rv_model r)"

definition reviews_tab :: "review_row tab" where
  "reviews_tab =
     \<lparr>tb_etype = EStudyReview, tb_get = reviews, tb_put = (\<lambda>t d. d\<lparr>reviews := t\<rparr>), tb_ok = reviews_ok,
      tb_clash = (\<lambda>x y. False),
      tb_json = study_review_record_json\<rparr>"

definition attachments_ok :: "attachment_row \<Rightarrow> bool" where
  "attachments_ok r \<longleftrightarrow>
     text_ok (a_title r) \<and> text_ok (a_caption r) \<and> varchar 32 (a_kind r) \<and> varchar 64 (a_mime r) \<and>
     int4 (a_width r) \<and> int4 (a_height r) \<and> int8 (a_file_size r) \<and> varchar 64 (a_hash r) \<and>
     int4 (a_sort_index r) \<and> text_ok (a_transform r) \<and> varchar 32 (a_analysis_status r) \<and>
     text_ok (a_ocr_text r)"

definition attachments_tab :: "attachment_row tab" where
  "attachments_tab =
     \<lparr>tb_etype = EAttachment, tb_get = attachments, tb_put = (\<lambda>t d. d\<lparr>attachments := t\<rparr>), tb_ok = attachments_ok,
      tb_clash = (\<lambda>x y. False),
      tb_json = attachment_record_json\<rparr>"

definition terms_ok :: "term_row \<Rightarrow> bool" where
  "terms_ok r \<longleftrightarrow>
     int4 (t_source_material_page r) \<and> text_ok (t_source_sessions r) \<and> text_ok (t_russian r) \<and>
     text_ok (t_chinese r) \<and> text_ok (t_explanation r) \<and> varchar 32 (t_part_of_speech r) \<and>
     text_ok (t_user_note r) \<and> varchar 32 (t_status r)"

definition terms_tab :: "term_row tab" where
  "terms_tab =
     \<lparr>tb_etype = ETerm, tb_get = terms, tb_put = (\<lambda>t d. d\<lparr>terms := t\<rparr>), tb_ok = terms_ok,
      tb_clash = (\<lambda>x y. False),
      tb_json = term_record_json\<rparr>"

definition cards_ok :: "card_row \<Rightarrow> bool" where
  "cards_ok r \<longleftrightarrow>
     int4 (k_source_material_page r) \<and> text_ok (k_front r) \<and> text_ok (k_back r) \<and>
     varchar 32 (k_type r) \<and> text_ok (k_user_note r) \<and> varchar 16 (k_origin r) \<and>
     varchar 32 (k_stage r) \<and> int4 (k_review_count r) \<and> int4 (k_interval_hours r) \<and>
     varchar 32 (k_last_grade r)"

definition cards_tab :: "card_row tab" where
  "cards_tab =
     \<lparr>tb_etype = EStudyCard, tb_get = cards, tb_put = (\<lambda>t d. d\<lparr>cards := t\<rparr>), tb_ok = cards_ok,
      tb_clash = (\<lambda>x y. False),
      tb_json = study_card_record_json\<rparr>"

definition tasks_ok :: "task_row \<Rightarrow> bool" where
  "tasks_ok r \<longleftrightarrow>
     int4 (ta_source_material_page r) \<and> text_ok (ta_title r) \<and> text_ok (ta_detail r) \<and>
     varchar 16 (ta_priority r) \<and> varchar 32 (ta_status r) \<and> varchar 16 (ta_origin r) \<and>
     text_ok (ta_uncertainty r) \<and> text_ok (ta_user_note r)"

definition tasks_tab :: "task_row tab" where
  "tasks_tab =
     \<lparr>tb_etype = EStudyTask, tb_get = tasks, tb_put = (\<lambda>t d. d\<lparr>tasks := t\<rparr>), tb_ok = tasks_ok,
      tb_clash = (\<lambda>x y. False),
      tb_json = study_task_record_json\<rparr>"

definition corrections_ok :: "correction_row \<Rightarrow> bool" where
  "corrections_ok r \<longleftrightarrow>
     text_ok (c_russian r) \<and> opt_all text_ok (c_chinese r)"

definition corrections_tab :: "correction_row tab" where
  "corrections_tab =
     \<lparr>tb_etype = ETranscriptCorrection, tb_get = corrections, tb_put = (\<lambda>t d. d\<lparr>corrections := t\<rparr>), tb_ok = corrections_ok,
      tb_clash = (\<lambda>x y. False),
      tb_json = correction_record_json\<rparr>"

definition schedules_ok :: "schedule_row \<Rightarrow> bool" where
  "schedules_ok r \<longleftrightarrow>
     int4 (sc_weekday r) \<and> int4 (sc_start_secs r) \<and> int4 (sc_end_secs r) \<and>
     varchar 16 (sc_recurrence r) \<and> varchar 64 (sc_timezone r) \<and> text_ok (sc_teacher r) \<and>
     text_ok (sc_location r) \<and> text_ok (sc_note r) \<and> int4 (sc_reminder_mins r)"

definition schedules_tab :: "schedule_row tab" where
  "schedules_tab =
     \<lparr>tb_etype = ECourseSchedule, tb_get = schedules, tb_put = (\<lambda>t d. d\<lparr>schedules := t\<rparr>), tb_ok = schedules_ok,
      tb_clash = (\<lambda>x y. False),
      tb_json = course_schedule_record_json\<rparr>"

definition exceptions_ok :: "exception_row \<Rightarrow> bool" where
  "exceptions_ok r \<longleftrightarrow>
     varchar 16 (x_kind r) \<and> opt_all int4 (x_changed_start r) \<and> opt_all int4 (x_changed_end r) \<and>
     text_ok (x_location r) \<and> text_ok (x_teacher r) \<and> text_ok (x_note r)"

definition exceptions_tab :: "exception_row tab" where
  "exceptions_tab =
     \<lparr>tb_etype = EScheduleException, tb_get = exceptions, tb_put = (\<lambda>t d. d\<lparr>exceptions := t\<rparr>), tb_ok = exceptions_ok,
      tb_clash = (\<lambda>x y. False),
      tb_json = schedule_exception_record_json\<rparr>"

definition materials_ok :: "material_row \<Rightarrow> bool" where
  "materials_ok r \<longleftrightarrow>
     varchar 128 (m_occurrence_key r) \<and> text_ok (m_title r) \<and> text_ok (m_file_name r) \<and>
     varchar 64 (m_mime r) \<and> varchar 16 (m_kind r) \<and> varchar 16 (m_format r) \<and>
     int8 (m_file_size r) \<and> varchar 64 (m_hash r) \<and> int4 (m_page_count r) \<and>
     text_ok (m_source_url r) \<and> text_ok (m_shared_text r) \<and> varchar 16 (m_extraction r) \<and>
     varchar 16 (m_digest_status r) \<and> text_ok (m_digest_model r) \<and>
     varchar 64 (m_digest_src_hash r) \<and> int4 (m_last_read_page r)"

definition materials_tab :: "material_row tab" where
  "materials_tab =
     \<lparr>tb_etype = EMaterial, tb_get = materials, tb_put = (\<lambda>t d. d\<lparr>materials := t\<rparr>), tb_ok = materials_ok,
      tb_clash = (\<lambda>x y. False),
      tb_json = material_record_json\<rparr>"

definition pages_ok :: "page_row \<Rightarrow> bool" where
  "pages_ok r \<longleftrightarrow>
     int4 (pg_number r) \<and> text_ok (pg_text r) \<and> text_ok (pg_ocr_text r) \<and> varchar 16 (pg_ocr_status r)"

definition pages_tab :: "page_row tab" where
  "pages_tab =
     \<lparr>tb_etype = EMaterialPage, tb_get = pages, tb_put = (\<lambda>t d. d\<lparr>pages := t\<rparr>), tb_ok = pages_ok,
      tb_clash = (\<lambda>x y. False),
      tb_json = material_page_record_json\<rparr>"

definition annotations_ok :: "annotation_row \<Rightarrow> bool" where
  "annotations_ok r \<longleftrightarrow>
     int4 (an_page_number r) \<and> varchar 16 (an_kind r) \<and> text_ok (an_note_text r)"

definition annotations_tab :: "annotation_row tab" where
  "annotations_tab =
     \<lparr>tb_etype = EMaterialAnnotation, tb_get = annotations, tb_put = (\<lambda>t d. d\<lparr>annotations := t\<rparr>), tb_ok = annotations_ok,
      tb_clash = (\<lambda>x y. False),
      tb_json = material_annotation_record_json\<rparr>"

definition threads_ok :: "thread_row \<Rightarrow> bool" where
  "threads_ok r \<longleftrightarrow>
     text_ok (th_title r)"

definition threads_tab :: "thread_row tab" where
  "threads_tab =
     \<lparr>tb_etype = EAssistantThread, tb_get = threads, tb_put = (\<lambda>t d. d\<lparr>threads := t\<rparr>), tb_ok = threads_ok,
      tb_clash = (\<lambda>x y. False),
      tb_json = assistant_thread_record_json\<rparr>"

definition messages_ok :: "message_row \<Rightarrow> bool" where
  "messages_ok r \<longleftrightarrow>
     varchar 16 (ms_role r) \<and> text_ok (ms_text r) \<and> int4 (ms_scope_page r) \<and> varchar 16 (ms_mode r) \<and>
     text_ok (ms_model r)"

definition messages_tab :: "message_row tab" where
  "messages_tab =
     \<lparr>tb_etype = EAssistantMessage, tb_get = messages, tb_put = (\<lambda>t d. d\<lparr>messages := t\<rparr>), tb_ok = messages_ok,
      tb_clash = (\<lambda>x y. False),
      tb_json = assistant_message_record_json\<rparr>"

definition exams_ok :: "exam_row \<Rightarrow> bool" where
  "exams_ok r \<longleftrightarrow>
     text_ok (ex_title r) \<and> varchar 16 (ex_kind r) \<and> int4 (ex_start_secs r) \<and> int4 (ex_end_secs r) \<and>
     text_ok (ex_location r) \<and> text_ok (ex_scope r) \<and> text_ok (ex_note r) \<and>
     text_ok (ex_target_score r) \<and> varchar 16 (ex_status r) \<and> varchar 16 (ex_origin r)"

definition exams_tab :: "exam_row tab" where
  "exams_tab =
     \<lparr>tb_etype = EExam, tb_get = exams, tb_put = (\<lambda>t d. d\<lparr>exams := t\<rparr>), tb_ok = exams_ok,
      tb_clash = (\<lambda>x y. False),
      tb_json = exam_record_json\<rparr>"

definition topics_ok :: "topic_row \<Rightarrow> bool" where
  "topics_ok r \<longleftrightarrow>
     text_ok (tp_title r) \<and> text_ok (tp_detail r) \<and> varchar 16 (tp_importance r) \<and>
     varchar 16 (tp_self_rating r) \<and> varchar 16 (tp_status r)"

definition topics_tab :: "topic_row tab" where
  "topics_tab =
     \<lparr>tb_etype = EExamTopic, tb_get = topics, tb_put = (\<lambda>t d. d\<lparr>topics := t\<rparr>), tb_ok = topics_ok,
      tb_clash = (\<lambda>x y. False),
      tb_json = exam_topic_record_json\<rparr>"

definition plans_ok :: "plan_row \<Rightarrow> bool" where
  "plans_ok r \<longleftrightarrow>
     text_ok (pl_title r) \<and> int4 (pl_weekday_minutes r) \<and> int4 (pl_weekend_minutes r) \<and>
     int4 (pl_finish_early_days r) \<and> varchar 16 (pl_status r)"

definition plans_tab :: "plan_row tab" where
  "plans_tab =
     \<lparr>tb_etype = EStudyPlan, tb_get = plans, tb_put = (\<lambda>t d. d\<lparr>plans := t\<rparr>), tb_ok = plans_ok,
      tb_clash = (\<lambda>x y. False),
      tb_json = study_plan_record_json\<rparr>"

definition plan_items_ok :: "plan_item_row \<Rightarrow> bool" where
  "plan_items_ok r \<longleftrightarrow>
     text_ok (pi_title r) \<and> varchar 16 (pi_kind r) \<and> int4 (pi_estimated_minutes r) \<and>
     int4 (pi_actual_minutes r) \<and> varchar 16 (pi_status r) \<and> int4 (pi_order r) \<and>
     text_ok (pi_user_note r)"

definition plan_items_tab :: "plan_item_row tab" where
  "plan_items_tab =
     \<lparr>tb_etype = EStudyPlanItem, tb_get = plan_items, tb_put = (\<lambda>t d. d\<lparr>plan_items := t\<rparr>), tb_ok = plan_items_ok,
      tb_clash = (\<lambda>x y. False),
      tb_json = study_plan_item_record_json\<rparr>"

definition activities_ok :: "activity_row \<Rightarrow> bool" where
  "activities_ok r \<longleftrightarrow>
     int4 (ac_duration r) \<and> varchar 16 (ac_status r) \<and> text_ok (ac_note r)"

definition activities_tab :: "activity_row tab" where
  "activities_tab =
     \<lparr>tb_etype = EStudyActivity, tb_get = activities, tb_put = (\<lambda>t d. d\<lparr>activities := t\<rparr>), tb_ok = activities_ok,
      tb_clash = (\<lambda>x y. False),
      tb_json = study_activity_record_json\<rparr>"

definition conversations_ok :: "conversation_row \<Rightarrow> bool" where
  "conversations_ok r \<longleftrightarrow>
     text_ok (cv_title r) \<and> varchar 16 (cv_scene r) \<and> text_ok (cv_context_note r) \<and>
     varchar 16 (cv_status r)"

definition conversations_tab :: "conversation_row tab" where
  "conversations_tab =
     \<lparr>tb_etype = EInterpreterConversation, tb_get = conversations, tb_put = (\<lambda>t d. d\<lparr>conversations := t\<rparr>), tb_ok = conversations_ok,
      tb_clash = (\<lambda>x y. False),
      tb_json = interpreter_conversation_record_json\<rparr>"

definition turns_ok :: "turn_row \<Rightarrow> bool" where
  "turns_ok r \<longleftrightarrow>
     varchar 16 (tu_speaker r) \<and> varchar 16 (tu_direction r) \<and> varchar 16 (tu_input_method r) \<and>
     int4 (tu_sequence r) \<and> text_ok (tu_source r) \<and> text_ok (tu_plain_russian r) \<and>
     text_ok (tu_stressed_russian r) \<and> text_ok (tu_chinese r) \<and> text_ok (tu_back_translation r)"

definition turns_tab :: "turn_row tab" where
  "turns_tab =
     \<lparr>tb_etype = EInterpreterTurn, tb_get = turns, tb_put = (\<lambda>t d. d\<lparr>turns := t\<rparr>), tb_ok = turns_ok,
      tb_clash = (\<lambda>x y. False),
      tb_json = interpreter_turn_record_json\<rparr>"

definition errand_cases_ok :: "case_row \<Rightarrow> bool" where
  "errand_cases_ok r \<longleftrightarrow>
     text_ok (ec_title r) \<and> varchar 16 (ec_scene r) \<and> varchar 32 (ec_status r) \<and>
     text_ok (ec_purpose r) \<and> text_ok (ec_user_note r) \<and> varchar 64 (ec_timezone r) \<and>
     text_ok (ec_location r) \<and> text_ok (ec_contact r)"

definition errand_cases_tab :: "case_row tab" where
  "errand_cases_tab =
     \<lparr>tb_etype = EErrandCase, tb_get = errand_cases, tb_put = (\<lambda>t d. d\<lparr>errand_cases := t\<rparr>), tb_ok = errand_cases_ok,
      tb_clash = (\<lambda>x y. False),
      tb_json = errand_case_record_json\<rparr>"

definition case_items_ok :: "case_item_row \<Rightarrow> bool" where
  "case_items_ok r \<longleftrightarrow>
     text_ok (ei_title r) \<and> varchar 32 (ei_kind r) \<and> varchar 16 (ei_status r) \<and>
     int4 (ei_sequence r) \<and> text_ok (ei_detail r) \<and> text_ok (ei_date_text r) \<and>
     varchar 16 (ei_origin r) \<and> text_ok (ei_fee_text r) \<and> varchar 8 (ei_fee_currency r)"

definition case_items_tab :: "case_item_row tab" where
  "case_items_tab =
     \<lparr>tb_etype = EErrandCaseItem, tb_get = case_items, tb_put = (\<lambda>t d. d\<lparr>case_items := t\<rparr>), tb_ok = case_items_ok,
      tb_clash = (\<lambda>x y. False),
      tb_json = errand_case_item_record_json\<rparr>"

section \<open>What a descriptor promises\<close>

locale synced_table =
  fixes T :: "'a row_scheme tab"
  assumes view_get: "view (tb_etype T) d = map (abs_row (tb_json T)) (tb_get T d)"
    and view_put: "view e (tb_put T t d) =
          (if e = tb_etype T then map (abs_row (tb_json T)) t else view e d)"
    and get_put: "tb_get T (tb_put T t d) = t"
    and changes_put: "db_changes (tb_put T t d) = db_changes d"
    and seq_put: "db_seq (tb_put T t d) = db_seq d"
    and ledger_put: "db_ledger (tb_put T t d) = db_ledger d"
    and hooks_put: "db_hooks (tb_put T t d) = db_hooks d"
begin

lemmas put_simps = view_put get_put changes_put seq_put ledger_put hooks_put

lemma ids_get: "map (rid \<circ> fst) (view (tb_etype T) d) = map rid (tb_get T d)"
  by (simp add: view_get abs_row_def)

lemma find_view:
  "find (\<lambda>x. rid (fst x) = i) (view (tb_etype T) d) =
     map_option (abs_row (tb_json T)) (find (\<lambda>r. rid r = i) (tb_get T d))"
proof -
  have "find (\<lambda>x. rid (fst x) = i) (map (abs_row (tb_json T)) rs) =
      map_option (abs_row (tb_json T)) (find (\<lambda>r. rid r = i) rs)" for rs
    by (induction rs) (auto simp: abs_row_def)
  then show ?thesis unfolding view_get .
qed

end

text \<open>Every table of the schema keeps the promises.\<close>

interpretation sessions: synced_table sessions_tab
proof unfold_locales
  show "view e (tb_put sessions_tab t d) =
      (if e = tb_etype sessions_tab then map (abs_row (tb_json sessions_tab)) t else view e d)" for e t d
    by (cases e) (simp_all add: sessions_tab_def)
qed (simp_all add: sessions_tab_def)

interpretation entries: synced_table entries_tab
proof unfold_locales
  show "view e (tb_put entries_tab t d) =
      (if e = tb_etype entries_tab then map (abs_row (tb_json entries_tab)) t else view e d)" for e t d
    by (cases e) (simp_all add: entries_tab_def)
qed (simp_all add: entries_tab_def)

interpretation bookmarks: synced_table bookmarks_tab
proof unfold_locales
  show "view e (tb_put bookmarks_tab t d) =
      (if e = tb_etype bookmarks_tab then map (abs_row (tb_json bookmarks_tab)) t else view e d)" for e t d
    by (cases e) (simp_all add: bookmarks_tab_def)
qed (simp_all add: bookmarks_tab_def)

interpretation favorites: synced_table favorites_tab
proof unfold_locales
  show "view e (tb_put favorites_tab t d) =
      (if e = tb_etype favorites_tab then map (abs_row (tb_json favorites_tab)) t else view e d)" for e t d
    by (cases e) (simp_all add: favorites_tab_def)
qed (simp_all add: favorites_tab_def)

interpretation courses: synced_table courses_tab
proof unfold_locales
  show "view e (tb_put courses_tab t d) =
      (if e = tb_etype courses_tab then map (abs_row (tb_json courses_tab)) t else view e d)" for e t d
    by (cases e) (simp_all add: courses_tab_def)
qed (simp_all add: courses_tab_def)

interpretation session_notes: synced_table session_notes_tab
proof unfold_locales
  show "view e (tb_put session_notes_tab t d) =
      (if e = tb_etype session_notes_tab then map (abs_row (tb_json session_notes_tab)) t else view e d)" for e t d
    by (cases e) (simp_all add: session_notes_tab_def)
qed (simp_all add: session_notes_tab_def)

interpretation reviews: synced_table reviews_tab
proof unfold_locales
  show "view e (tb_put reviews_tab t d) =
      (if e = tb_etype reviews_tab then map (abs_row (tb_json reviews_tab)) t else view e d)" for e t d
    by (cases e) (simp_all add: reviews_tab_def)
qed (simp_all add: reviews_tab_def)

interpretation attachments: synced_table attachments_tab
proof unfold_locales
  show "view e (tb_put attachments_tab t d) =
      (if e = tb_etype attachments_tab then map (abs_row (tb_json attachments_tab)) t else view e d)" for e t d
    by (cases e) (simp_all add: attachments_tab_def)
qed (simp_all add: attachments_tab_def)

interpretation terms: synced_table terms_tab
proof unfold_locales
  show "view e (tb_put terms_tab t d) =
      (if e = tb_etype terms_tab then map (abs_row (tb_json terms_tab)) t else view e d)" for e t d
    by (cases e) (simp_all add: terms_tab_def)
qed (simp_all add: terms_tab_def)

interpretation cards: synced_table cards_tab
proof unfold_locales
  show "view e (tb_put cards_tab t d) =
      (if e = tb_etype cards_tab then map (abs_row (tb_json cards_tab)) t else view e d)" for e t d
    by (cases e) (simp_all add: cards_tab_def)
qed (simp_all add: cards_tab_def)

interpretation tasks: synced_table tasks_tab
proof unfold_locales
  show "view e (tb_put tasks_tab t d) =
      (if e = tb_etype tasks_tab then map (abs_row (tb_json tasks_tab)) t else view e d)" for e t d
    by (cases e) (simp_all add: tasks_tab_def)
qed (simp_all add: tasks_tab_def)

interpretation corrections: synced_table corrections_tab
proof unfold_locales
  show "view e (tb_put corrections_tab t d) =
      (if e = tb_etype corrections_tab then map (abs_row (tb_json corrections_tab)) t else view e d)" for e t d
    by (cases e) (simp_all add: corrections_tab_def)
qed (simp_all add: corrections_tab_def)

interpretation schedules: synced_table schedules_tab
proof unfold_locales
  show "view e (tb_put schedules_tab t d) =
      (if e = tb_etype schedules_tab then map (abs_row (tb_json schedules_tab)) t else view e d)" for e t d
    by (cases e) (simp_all add: schedules_tab_def)
qed (simp_all add: schedules_tab_def)

interpretation exceptions: synced_table exceptions_tab
proof unfold_locales
  show "view e (tb_put exceptions_tab t d) =
      (if e = tb_etype exceptions_tab then map (abs_row (tb_json exceptions_tab)) t else view e d)" for e t d
    by (cases e) (simp_all add: exceptions_tab_def)
qed (simp_all add: exceptions_tab_def)

interpretation materials: synced_table materials_tab
proof unfold_locales
  show "view e (tb_put materials_tab t d) =
      (if e = tb_etype materials_tab then map (abs_row (tb_json materials_tab)) t else view e d)" for e t d
    by (cases e) (simp_all add: materials_tab_def)
qed (simp_all add: materials_tab_def)

interpretation pages: synced_table pages_tab
proof unfold_locales
  show "view e (tb_put pages_tab t d) =
      (if e = tb_etype pages_tab then map (abs_row (tb_json pages_tab)) t else view e d)" for e t d
    by (cases e) (simp_all add: pages_tab_def)
qed (simp_all add: pages_tab_def)

interpretation annotations: synced_table annotations_tab
proof unfold_locales
  show "view e (tb_put annotations_tab t d) =
      (if e = tb_etype annotations_tab then map (abs_row (tb_json annotations_tab)) t else view e d)" for e t d
    by (cases e) (simp_all add: annotations_tab_def)
qed (simp_all add: annotations_tab_def)

interpretation threads: synced_table threads_tab
proof unfold_locales
  show "view e (tb_put threads_tab t d) =
      (if e = tb_etype threads_tab then map (abs_row (tb_json threads_tab)) t else view e d)" for e t d
    by (cases e) (simp_all add: threads_tab_def)
qed (simp_all add: threads_tab_def)

interpretation messages: synced_table messages_tab
proof unfold_locales
  show "view e (tb_put messages_tab t d) =
      (if e = tb_etype messages_tab then map (abs_row (tb_json messages_tab)) t else view e d)" for e t d
    by (cases e) (simp_all add: messages_tab_def)
qed (simp_all add: messages_tab_def)

interpretation exams: synced_table exams_tab
proof unfold_locales
  show "view e (tb_put exams_tab t d) =
      (if e = tb_etype exams_tab then map (abs_row (tb_json exams_tab)) t else view e d)" for e t d
    by (cases e) (simp_all add: exams_tab_def)
qed (simp_all add: exams_tab_def)

interpretation topics: synced_table topics_tab
proof unfold_locales
  show "view e (tb_put topics_tab t d) =
      (if e = tb_etype topics_tab then map (abs_row (tb_json topics_tab)) t else view e d)" for e t d
    by (cases e) (simp_all add: topics_tab_def)
qed (simp_all add: topics_tab_def)

interpretation plans: synced_table plans_tab
proof unfold_locales
  show "view e (tb_put plans_tab t d) =
      (if e = tb_etype plans_tab then map (abs_row (tb_json plans_tab)) t else view e d)" for e t d
    by (cases e) (simp_all add: plans_tab_def)
qed (simp_all add: plans_tab_def)

interpretation plan_items: synced_table plan_items_tab
proof unfold_locales
  show "view e (tb_put plan_items_tab t d) =
      (if e = tb_etype plan_items_tab then map (abs_row (tb_json plan_items_tab)) t else view e d)" for e t d
    by (cases e) (simp_all add: plan_items_tab_def)
qed (simp_all add: plan_items_tab_def)

interpretation activities: synced_table activities_tab
proof unfold_locales
  show "view e (tb_put activities_tab t d) =
      (if e = tb_etype activities_tab then map (abs_row (tb_json activities_tab)) t else view e d)" for e t d
    by (cases e) (simp_all add: activities_tab_def)
qed (simp_all add: activities_tab_def)

interpretation conversations: synced_table conversations_tab
proof unfold_locales
  show "view e (tb_put conversations_tab t d) =
      (if e = tb_etype conversations_tab then map (abs_row (tb_json conversations_tab)) t else view e d)" for e t d
    by (cases e) (simp_all add: conversations_tab_def)
qed (simp_all add: conversations_tab_def)

interpretation turns: synced_table turns_tab
proof unfold_locales
  show "view e (tb_put turns_tab t d) =
      (if e = tb_etype turns_tab then map (abs_row (tb_json turns_tab)) t else view e d)" for e t d
    by (cases e) (simp_all add: turns_tab_def)
qed (simp_all add: turns_tab_def)

interpretation errand_cases: synced_table errand_cases_tab
proof unfold_locales
  show "view e (tb_put errand_cases_tab t d) =
      (if e = tb_etype errand_cases_tab then map (abs_row (tb_json errand_cases_tab)) t else view e d)" for e t d
    by (cases e) (simp_all add: errand_cases_tab_def)
qed (simp_all add: errand_cases_tab_def)

interpretation case_items: synced_table case_items_tab
proof unfold_locales
  show "view e (tb_put case_items_tab t d) =
      (if e = tb_etype case_items_tab then map (abs_row (tb_json case_items_tab)) t else view e d)" for e t d
    by (cases e) (simp_all add: case_items_tab_def)
qed (simp_all add: case_items_tab_def)

end
