(* ===== verification/Json.thy ===== *)
theory Json
  imports Prelude
begin

text \<open>
  The use the server makes of encoding/json: \<open>json.Valid\<close> as the byte scanner of the Go
  library, and the decoded values that \<open>sanitizeInterpreterDetails\<close> walks through.
\<close>

section \<open>Decoded values\<close>

datatype jval =
    VNull
  | VBool bool
  | VNum float64
  | VStr string
  | VArr "jval list"
  | VObj "(string \<times> jval) list"

section \<open>The scanner\<close>

datatype parse = ObjectKey | ObjectValue | ArrayValue

datatype scan =
    BeginValue | BeginValueOrEmpty | BeginString | BeginStringOrEmpty
  | EndValue | EndTop
  | InString | InStringEsc | InStringHex nat
  | Neg | Digits | Zero | Dot | Frac | Exp | ExpSign | ExpDigits
  | Literal string

type_synonym scanner = "scan \<times> parse list"

definition max_nesting :: nat where
  "max_nesting = 10000"

definition is_space :: "char \<Rightarrow> bool" where
  "is_space c \<longleftrightarrow> c \<in> {CHR '' '', CHR 0x09, CHR 0x0A, CHR 0x0D}"

definition is_digit :: "char \<Rightarrow> bool" where
  "is_digit c \<longleftrightarrow> (48::nat) \<le> of_char c \<and> (of_char c :: nat) \<le> 57"

definition is_hex :: "char \<Rightarrow> bool" where
  "is_hex c \<longleftrightarrow> is_digit c
     \<or> (65::nat) \<le> of_char c \<and> (of_char c :: nat) \<le> 70
     \<or> (97::nat) \<le> of_char c \<and> (of_char c :: nat) \<le> 102"

definition push_parse :: "scan \<Rightarrow> parse \<Rightarrow> parse list \<Rightarrow> scanner option" where
  "push_parse s p ps = (if length (p # ps) \<le> max_nesting then Some (s, p # ps) else None)"

definition pop_parse :: "parse list \<Rightarrow> scanner" where
  "pop_parse ps = (if ps = [] then (EndTop, []) else (EndValue, ps))"

definition end_value :: "char \<Rightarrow> parse list \<Rightarrow> scanner option" where
  "end_value c ps =
     (case ps of
        [] \<Rightarrow> if is_space c then Some (EndTop, []) else None
      | p # qs \<Rightarrow>
          if is_space c then Some (EndValue, ps)
          else
            case p of
              ObjectKey \<Rightarrow> if c = CHR '':'' then Some (BeginValue, ObjectValue # qs) else None
            | ObjectValue \<Rightarrow>
                if c = CHR '','' then Some (BeginString, ObjectKey # qs)
                else if c = CHR ''}'' then Some (pop_parse qs) else None
            | ArrayValue \<Rightarrow>
                if c = CHR '','' then Some (BeginValue, ps)
                else if c = CHR '']'' then Some (pop_parse qs) else None)"

definition begin_value :: "scan \<Rightarrow> char \<Rightarrow> parse list \<Rightarrow> scanner option" where
  "begin_value stay c ps =
     (if is_space c then Some (stay, ps)
      else if c = CHR ''{'' then push_parse BeginStringOrEmpty ObjectKey ps
      else if c = CHR ''['' then push_parse BeginValueOrEmpty ArrayValue ps
      else if c = CHR 0x22 then Some (InString, ps)
      else if c = CHR ''-'' then Some (Neg, ps)
      else if c = CHR ''0'' then Some (Zero, ps)
      else if is_digit c then Some (Digits, ps)
      else if c = CHR ''t'' then Some (Literal ''rue'', ps)
      else if c = CHR ''f'' then Some (Literal ''alse'', ps)
      else if c = CHR ''n'' then Some (Literal ''ull'', ps)
      else None)"

definition begin_string :: "scan \<Rightarrow> char \<Rightarrow> parse list \<Rightarrow> scanner option" where
  "begin_string stay c ps =
     (if is_space c then Some (stay, ps)
      else if c = CHR 0x22 then Some (InString, ps) else None)"

definition after_int :: "char \<Rightarrow> parse list \<Rightarrow> scanner option" where
  "after_int c ps =
     (if c = CHR ''.'' then Some (Dot, ps)
      else if c = CHR ''e'' \<or> c = CHR ''E'' then Some (Exp, ps)
      else end_value c ps)"

fun scan_step :: "char \<Rightarrow> scanner \<Rightarrow> scanner option" where
  "scan_step c (BeginValue, ps) = begin_value BeginValue c ps"
| "scan_step c (BeginValueOrEmpty, ps) =
     (if c = CHR '']'' then end_value c ps else begin_value BeginValueOrEmpty c ps)"
| "scan_step c (BeginString, ps) = begin_string BeginString c ps"
| "scan_step c (BeginStringOrEmpty, ps) =
     (if c = CHR ''}'' then end_value c (ObjectValue # tl ps)
      else begin_string BeginStringOrEmpty c ps)"
| "scan_step c (EndValue, ps) = end_value c ps"
| "scan_step c (EndTop, ps) = (if is_space c then Some (EndTop, ps) else None)"
| "scan_step c (InString, ps) =
     (if c = CHR 0x22 then Some (EndValue, ps)
      else if c = CHR 0x5C then Some (InStringEsc, ps)
      else if (of_char c :: nat) < 32 then None
      else Some (InString, ps))"
| "scan_step c (InStringEsc, ps) =
     (if c \<in> {CHR ''b'', CHR ''f'', CHR ''n'', CHR ''r'', CHR ''t'', CHR 0x5C, CHR ''/'', CHR 0x22}
      then Some (InString, ps)
      else if c = CHR ''u'' then Some (InStringHex 3, ps) else None)"
| "scan_step c (InStringHex n, ps) =
     (if is_hex c then Some (if n = 0 then InString else InStringHex (n - 1), ps) else None)"
| "scan_step c (Neg, ps) =
     (if c = CHR ''0'' then Some (Zero, ps) else if is_digit c then Some (Digits, ps) else None)"
| "scan_step c (Digits, ps) = (if is_digit c then Some (Digits, ps) else after_int c ps)"
| "scan_step c (Zero, ps) = after_int c ps"
| "scan_step c (Dot, ps) = (if is_digit c then Some (Frac, ps) else None)"
| "scan_step c (Frac, ps) =
     (if is_digit c then Some (Frac, ps)
      else if c = CHR ''e'' \<or> c = CHR ''E'' then Some (Exp, ps) else end_value c ps)"
| "scan_step c (Exp, ps) =
     (if c = CHR ''+'' \<or> c = CHR ''-'' then Some (ExpSign, ps)
      else if is_digit c then Some (ExpDigits, ps) else None)"
| "scan_step c (ExpSign, ps) = (if is_digit c then Some (ExpDigits, ps) else None)"
| "scan_step c (ExpDigits, ps) = (if is_digit c then Some (ExpDigits, ps) else end_value c ps)"
| "scan_step c (Literal w, ps) =
     (case w of
        [] \<Rightarrow> None
      | l # ls \<Rightarrow> if c = l then Some (if ls = [] then EndValue else Literal ls, ps) else None)"

primrec scan_all :: "string \<Rightarrow> scanner \<Rightarrow> scanner option" where
  "scan_all [] s = Some s"
| "scan_all (c # cs) s = (case scan_step c s of None \<Rightarrow> None | Some s' \<Rightarrow> scan_all cs s')"

text \<open>At the end of the input the scanner steps over one blank and must have closed the value.\<close>

definition json_valid :: "string \<Rightarrow> bool" where
  "json_valid s =
     (case scan_all s (BeginValue, []) of
        None \<Rightarrow> False
      | Some st \<Rightarrow>
          fst st = EndTop \<or>
          (case scan_step CHR '' '' st of None \<Rightarrow> False | Some st' \<Rightarrow> fst st' = EndTop))"

lemma scan_all_append:
  "scan_all (xs @ ys) s = (case scan_all xs s of None \<Rightarrow> None | Some s' \<Rightarrow> scan_all ys s')"
  by (induction xs arbitrary: s) (auto split: option.split)

lemma scan_plain:
  assumes "\<And>c. c \<in> set s \<Longrightarrow> c \<noteq> CHR 0x22 \<and> c \<noteq> CHR 0x5C \<and> (32::nat) \<le> of_char c"
  shows "scan_all s (InString, ps) = Some (InString, ps)"
  using assms by (induction s) (auto simp: not_less)

text \<open>Every string of printable characters becomes a JSON document by quoting it.\<close>

lemma json_valid_quoted:
  assumes "\<And>c. c \<in> set s \<Longrightarrow> c \<noteq> CHR 0x22 \<and> c \<noteq> CHR 0x5C \<and> (32::nat) \<le> of_char c"
  shows "json_valid (CHR 0x22 # s @ [CHR 0x22])"
  by (simp add: json_valid_def scan_all_append scan_plain [OF assms] begin_value_def is_space_def
      end_value_def)

lemma json_valid_nonempty: "json_valid s \<Longrightarrow> s \<noteq> []"
  by (auto simp: json_valid_def begin_value_def is_space_def)

end
