(* ===== verification/Engine.thy ===== *)
theory Engine
  imports Schema Json
begin

text \<open>
  The common core of the push handlers: the SQL statements they issue, the change log and the
  ledger (logChange, storeLedger), the version gate that every upsert passes, and the abstract
  life cycle of a synchronised row that all of them implement.
\<close>

section \<open>The environment of one push\<close>

text \<open>
  \<open>en_now\<close> is now(), constant within a transaction; \<open>en_wall\<close> the reading of time.Now()
  while an operation is handled; \<open>en_tz_known\<close> whether time.LoadLocation succeeds;
  \<open>en_jsonb\<close> the cast \<open>::jsonb\<close> followed by the read back as text (\<open>None\<close>: the cast
  fails); \<open>en_files\<close> whether an attachment store is wired; \<open>en_decode\<close> and \<open>en_encode\<close>
  the decoding of a JSON text into an object (\<open>None\<close>: not an object) and its marshalling. The
  time-zone database, the JSONB type and Go's number formatting are not part of the repository.
\<close>

record env =
  en_now :: time
  en_wall :: "uuid \<Rightarrow> time"
  en_tz_known :: "string \<Rightarrow> bool"
  en_jsonb :: "string \<Rightarrow> string option"
  en_files :: bool
  en_decode :: "string \<Rightarrow> (string \<times> jval) list option"
  en_encode :: "(string \<times> jval) list \<Rightarrow> string"

section \<open>Statements\<close>

text \<open>\<open>SELECT ... WHERE id = $1 AND user_id = $2\<close>\<close>

definition fetch :: "'a row_scheme tab \<Rightarrow> uuid \<Rightarrow> uuid \<Rightarrow> db \<Rightarrow> 'a row_scheme option" where
  "fetch T u i d = find (\<lambda>r. rid r = i \<and> ruser r = u) (tb_get T d)"

text \<open>\<open>INSERT\<close>: the primary key spans all users, the UNIQUE constraints are the table's own.\<close>

definition sql_insert :: "'a row_scheme tab \<Rightarrow> 'a row_scheme \<Rightarrow> db \<Rightarrow> db_error + db" where
  "sql_insert T r d =
     (if \<not> tb_ok T r then Inl ColumnDomain
      else if \<exists>x\<in>set (tb_get T d). rid x = rid r \<or> tb_clash T x r then Inl UniqueViolation
      else Inr (tb_put T (tb_get T d @ [r]) d))"

text \<open>
  \<open>UPDATE ... SET f, server_version = server_version + 1, updated_at = now()
  WHERE id = $1 AND user_id = $2 RETURNING server_version, updated_at\<close>
\<close>

definition sql_update ::
  "'a row_scheme tab \<Rightarrow> uuid \<Rightarrow> uuid \<Rightarrow> ('a row_scheme \<Rightarrow> 'a row_scheme) \<Rightarrow> time \<Rightarrow> db
     \<Rightarrow> db_error + db \<times> int" where
  "sql_update T u i f t d =
     (case fetch T u i d of
        None \<Rightarrow> Inl NoRows
      | Some r \<Rightarrow>
          if rver r = int4_max then Inl IntegerOverflow
          else if \<not> tb_ok T (bump t (f r)) then Inl ColumnDomain
          else Inr (tb_put T (map (\<lambda>x. if rid x = i \<and> ruser x = u then bump t (f x) else x)
                                (tb_get T d)) d,
                    rver r + 1))"

text \<open>
  \<open>UPDATE ... WHERE P RETURNING id, server_version\<close>: every matching row, in table order.
\<close>

definition sql_sweep ::
  "'a row_scheme tab \<Rightarrow> ('a row_scheme \<Rightarrow> bool) \<Rightarrow> ('a row_scheme \<Rightarrow> 'a row_scheme) \<Rightarrow> time \<Rightarrow> db
     \<Rightarrow> db_error + db \<times> (uuid \<times> int) list" where
  "sql_sweep T P f t d =
     (let hit = filter P (tb_get T d) in
      if \<exists>r\<in>set hit. rver r = int4_max then Inl IntegerOverflow
      else Inr (tb_put T (map (\<lambda>x. if P x then bump t (f x) else x) (tb_get T d)) d,
                map (\<lambda>r. (rid r, rver r + 1)) hit))"

definition log_change :: "uuid \<Rightarrow> etype \<Rightarrow> uuid \<Rightarrow> change_op \<Rightarrow> int \<Rightarrow> db \<Rightarrow> db" where
  "log_change u e i op v d =
     d\<lparr>db_changes := db_changes d @
         [(db_seq d + 1, \<lparr>ch_user = u, ch_etype = e, ch_eid = i, ch_op = op, ch_version = v\<rparr>)],
       db_seq := db_seq d + 1\<rparr>"

primrec log_all :: "uuid \<Rightarrow> etype \<Rightarrow> change_op \<Rightarrow> (uuid \<times> int) list \<Rightarrow> db \<Rightarrow> db" where
  "log_all u e op [] d = d"
| "log_all u e op (b # bs) d = log_all u e op bs (log_change u e (fst b) op (snd b) d)"

definition find_ledger :: "uuid \<Rightarrow> uuid \<Rightarrow> db \<Rightarrow> ledger_row option" where
  "find_ledger u op d = find (\<lambda>l. lg_user l = u \<and> lg_op_id l = op) (db_ledger d)"

definition ledger_entry :: "uuid \<Rightarrow> push_item \<Rightarrow> push_result \<Rightarrow> ledger_row" where
  "ledger_entry u it res =
     \<lparr>lg_user = u, lg_op_id = it_op_id it, lg_etype = it_etype it, lg_eid = it_eid it,
      lg_result = Some res\<rparr>"

definition store_ledger :: "uuid \<Rightarrow> push_item \<Rightarrow> push_result \<Rightarrow> db \<Rightarrow> db_error + db" where
  "store_ledger u it res d =
     (if \<not> varchar 32 (it_etype it) then Inl ColumnDomain
      else if find_ledger u (it_op_id it) d \<noteq> None then Inl UniqueViolation
      else Inr (d\<lparr>db_ledger := db_ledger d @ [ledger_entry u it res]\<rparr>))"

text \<open>\<open>storeLedger\<close> and return the result: how every branch of every handler ends.\<close>

definition settle ::
  "uuid \<Rightarrow> push_item \<Rightarrow> push_result \<Rightarrow> db \<Rightarrow> db_error + db \<times> push_result" where
  "settle u it res d = bindE (store_ledger u it res d) (\<lambda>d. Inr (d, res))"

definition reject :: "uuid \<Rightarrow> push_item \<Rightarrow> db \<Rightarrow> db_error + db \<times> push_result" where
  "reject u it d = settle u it (rejected it ''schema'') d"

section \<open>The shapes shared by the handlers\<close>

text \<open>Insert version 1, log it, answer accepted.\<close>

definition commit_insert ::
  "'a row_scheme tab \<Rightarrow> uuid \<Rightarrow> push_item \<Rightarrow> change_op \<Rightarrow> 'a row_scheme \<Rightarrow> db
     \<Rightarrow> db_error + db \<times> push_result" where
  "commit_insert T u it op r d =
     bindE (sql_insert T r d) (\<lambda>d.
       settle u it (accepted it 1 (rupdated r)) (log_change u (tb_etype T) (it_eid it) op 1 d))"

definition update_logged ::
  "'a row_scheme tab \<Rightarrow> uuid \<Rightarrow> uuid \<Rightarrow> change_op \<Rightarrow> ('a row_scheme \<Rightarrow> 'a row_scheme) \<Rightarrow> time
     \<Rightarrow> db \<Rightarrow> db_error + db \<times> int" where
  "update_logged T u i op f t d =
     bindE (sql_update T u i f t d) (\<lambda>dv.
       Inr (log_change u (tb_etype T) i op (snd dv) (fst dv), snd dv))"

text \<open>Update the row, log the new version, answer accepted.\<close>

definition commit_update ::
  "'a row_scheme tab \<Rightarrow> uuid \<Rightarrow> push_item \<Rightarrow> change_op \<Rightarrow> ('a row_scheme \<Rightarrow> 'a row_scheme) \<Rightarrow> time
     \<Rightarrow> db \<Rightarrow> db_error + db \<times> push_result" where
  "commit_update T u it op f t d =
     bindE (update_logged T u (it_eid it) op f t d) (\<lambda>dv.
       settle u it (accepted it (snd dv) t) (fst dv))"

text \<open>One cascade: update all matching rows, then log each bumped row.\<close>

definition sweep_logged ::
  "'a row_scheme tab \<Rightarrow> uuid \<Rightarrow> ('a row_scheme \<Rightarrow> bool) \<Rightarrow> ('a row_scheme \<Rightarrow> 'a row_scheme)
     \<Rightarrow> change_op \<Rightarrow> time \<Rightarrow> db \<Rightarrow> db_error + db" where
  "sweep_logged T u P f op t d =
     bindE (sql_sweep T P f t d) (\<lambda>db. Inr (log_all u (tb_etype T) op (snd db) (fst db)))"

definition tombstone :: "time \<Rightarrow> 'a row_scheme \<Rightarrow> 'a row_scheme" where
  "tombstone t r = r\<lparr>rdeleted := Some t\<rparr>"

text \<open>
  The gate in front of every merge: a tombstoned row or a stale base conflicts and returns the
  server's record, a base from the future is rejected.
\<close>

definition version_gate ::
  "'a row_scheme tab \<Rightarrow> uuid \<Rightarrow> push_item \<Rightarrow> 'a row_scheme \<Rightarrow> db
     \<Rightarrow> db_error + db \<times> push_result \<Rightarrow> db_error + db \<times> push_result" where
  "version_gate T u it obj d merge =
     (if is_deleted obj then
        settle u it (conflict it (rver obj) (rupdated obj) (tb_json T obj)) d
      else if it_base it < rver obj then
        settle u it (conflict it (rver obj) (rupdated obj) (tb_json T obj)) d
      else if it_base it > rver obj then reject u it d
      else merge)"

text \<open>
  \<open>applyLearningDelete\<close>: phantom tombstone, idempotent re-delete, live delete. The stub is
  the row of column defaults that the phantom INSERT leaves; it is \<open>None\<close> when a NOT NULL
  column of the table has no default, and the INSERT then fails.
\<close>

definition apply_learning_delete ::
  "env \<Rightarrow> 'a row_scheme tab \<Rightarrow> 'a row_scheme option \<Rightarrow> uuid \<Rightarrow> push_item
     \<Rightarrow> 'a row_scheme option \<Rightarrow> db \<Rightarrow> db_error + db \<times> push_result" where
  "apply_learning_delete E T stub u it obj d =
     (case obj of
        None \<Rightarrow>
          (case stub of
             None \<Rightarrow> Inl NotNullViolation
           | Some r \<Rightarrow> commit_insert T u it Delete r d)
      | Some r \<Rightarrow>
          if is_deleted r then settle u it (accepted it (rver r) (rupdated r)) d
          else commit_update T u it Delete (tombstone (en_now E)) (en_now E) d)"

lemma tombstone_simps [simp]:
  "rid (tombstone t r) = rid r" "ruser (tombstone t r) = ruser r" "rver (tombstone t r) = rver r"
  "rdeleted (tombstone t r) = Some t" "rupdated (tombstone t r) = rupdated r"
  by (simp_all add: tombstone_def)

lemma log_change_simps [simp]:
  "view e' (log_change u e i op v d) = view e' d"
  "db_ledger (log_change u e i op v d) = db_ledger d"
  "db_hooks (log_change u e i op v d) = db_hooks d"
  by (cases e'; simp add: log_change_def) (simp_all add: log_change_def)

lemma log_all_simps [simp]:
  "view e' (log_all u e op bs d) = view e' d"
  "db_ledger (log_all u e op bs d) = db_ledger d"
  "db_hooks (log_all u e op bs d) = db_hooks d"
  by (induction bs arbitrary: d) simp_all

lemma ledger_put_simps [simp]:
  "view e (d\<lparr>db_ledger := l\<rparr>) = view e d"
  "view e (d\<lparr>db_hooks := h\<rparr>) = view e d"
  by (cases e; simp)+

end
