(* ===== verification/Lifecycle.thy ===== *)
theory Lifecycle
  imports Engine
begin

text \<open>
  The abstract specification of the sync engine: what may happen to one row, seen as a state
  machine (absent, live at some version, tombstoned), and how the change log tells it. The
  relation \<open>evolves\<close> says of two database states that every row went through such a life
  and that the log grew by exactly the changes that tell it; every statement and every handler
  refines it.
\<close>

section \<open>The life of a row\<close>

definition change_for :: "etype \<Rightarrow> 'a row_scheme \<Rightarrow> change" where
  "change_for e r =
     \<lparr>ch_user = ruser r, ch_etype = e, ch_eid = rid r,
      ch_op = (if is_deleted r then Delete else Upsert), ch_version = rver r\<rparr>"

lemma change_for_simps [simp]:
  "ch_user (change_for e r) = ruser r" "ch_etype (change_for e r) = e"
  "ch_eid (change_for e r) = rid r" "ch_version (change_for e r) = rver r"
  "ch_op (change_for e r) = (if is_deleted r then Delete else Upsert)"
  by (simp_all add: change_for_def)

lemma change_for_truncate [simp]: "change_for e (row.truncate r) = change_for e r"
  by (simp add: change_for_def)

inductive life_step ::
  "uuid \<Rightarrow> etype \<Rightarrow> uuid \<Rightarrow> (row \<times> json) option \<Rightarrow> change \<Rightarrow> (row \<times> json) option \<Rightarrow> bool"
  for u e i where
  born: "rid r = i \<Longrightarrow> ruser r = u \<Longrightarrow> rver r = 1 \<Longrightarrow>
    life_step u e i None (change_for e r) (Some (r, j))"
| moved: "ruser q = u \<Longrightarrow> \<not> is_deleted q \<Longrightarrow> rid r = i \<Longrightarrow> ruser r = u \<Longrightarrow> rver r = rver q + 1 \<Longrightarrow>
    life_step u e i (Some (q, k)) (change_for e r) (Some (r, j))"

inductive life_run ::
  "uuid \<Rightarrow> etype \<Rightarrow> uuid \<Rightarrow> (row \<times> json) option \<Rightarrow> change list \<Rightarrow> (row \<times> json) option \<Rightarrow> bool"
  for u e i where
  stop: "life_run u e i x [] x"
| go: "life_run u e i x cs y \<Longrightarrow> life_step u e i y c z \<Longrightarrow> life_run u e i x (cs @ [c]) z"

inductive_cases life_step_toE: "life_step u e i x c z"
inductive_cases life_run_NilE: "life_run u e i x [] z"
inductive_simps life_step_from_tombstone: "life_step u e i (Some (q, k)) c z"

lemma life_run_single: "life_step u e i x c z \<Longrightarrow> life_run u e i x [c] z"
  using life_run.go [OF life_run.stop] by force

lemma life_run_Nil [simp]: "life_run u e i x [] z \<longleftrightarrow> z = x"
  by (auto elim: life_run_NilE intro: life_run.stop)

lemma life_run_append:
  assumes "life_run u e i y ds z" and "life_run u e i x cs y"
  shows "life_run u e i x (cs @ ds) z"
  using assms
proof (induction rule: life_run.induct)
  case (go y cs' y' c z')
  then show ?case using life_run.go by (metis append_assoc)
qed simp

text \<open>A tombstone is final: nothing in a life comes after it.\<close>

lemma life_run_tombstone:
  "life_run u e i x cs z \<Longrightarrow> x = Some (q, k) \<Longrightarrow> is_deleted q \<Longrightarrow> cs = [] \<and> z = x"
  by (induction rule: life_run.induct) (auto simp: life_step_from_tombstone)

text \<open>A row of another owner is never touched.\<close>

lemma life_run_foreign:
  "life_run u e i x cs z \<Longrightarrow> x = Some (q, k) \<Longrightarrow> ruser q \<noteq> u \<Longrightarrow> cs = [] \<and> z = x"
  by (induction rule: life_run.induct) (auto simp: life_step_from_tombstone)

text \<open>
  The last change of a life describes the row as it is, and a life of changes belongs to a
  row of the user.
\<close>

lemma life_run_last:
  "life_run u e i x cs z \<Longrightarrow> cs \<noteq> [] \<Longrightarrow>
     (\<exists>r j. z = Some (r, j) \<and> rid r = i \<and> ruser r = u \<and> last cs = change_for e r)"
  by (induction rule: life_run.induct) (auto elim: life_step_toE)

text \<open>The version counts the changes.\<close>

definition life_version :: "(row \<times> json) option \<Rightarrow> int" where
  "life_version x = (case x of None \<Rightarrow> 0 | Some (r, j) \<Rightarrow> rver r)"

lemma life_version_simps [simp]:
  "life_version None = 0" "life_version (Some (r, j)) = rver r"
  by (simp_all add: life_version_def)

lemma life_step_version:
  "life_step u e i x c z \<Longrightarrow> life_version z = life_version x + 1 \<and> ch_version c = life_version z"
  by (auto elim: life_step_toE)

lemma life_run_version:
  "life_run u e i x cs z \<Longrightarrow>
     life_version z = life_version x + int (length cs) \<and>
     map ch_version cs = map (\<lambda>k. life_version x + 1 + int k) [0..<length cs]"
  by (induction rule: life_run.induct) (auto dest: life_step_version)

lemma life_run_exists: "life_run u e i x cs z \<Longrightarrow> x \<noteq> None \<Longrightarrow> z \<noteq> None"
  by (induction rule: life_run.induct) (auto elim: life_step_toE)

section \<open>Looking up rows and changes by key\<close>

definition look :: "etype \<Rightarrow> uuid \<Rightarrow> db \<Rightarrow> (row \<times> json) option" where
  "look e i d = find (\<lambda>x. rid (fst x) = i) (view e d)"

definition change_log :: "db \<Rightarrow> change list" where
  "change_log d = map snd (db_changes d)"

definition about :: "etype \<Rightarrow> uuid \<Rightarrow> change list \<Rightarrow> change list" where
  "about e i cs = filter (\<lambda>c. ch_etype c = e \<and> ch_eid c = i) cs"

lemma about_simps [simp]:
  "about e i [] = []"
  "about e i (c # cs) = (if ch_etype c = e \<and> ch_eid c = i then c # about e i cs else about e i cs)"
  "about e i (xs @ ys) = about e i xs @ about e i ys"
  by (simp_all add: about_def)

lemma look_view_cong: "view e d' = view e d \<Longrightarrow> look e i d' = look e i d"
  by (simp add: look_def)

lemma change_log_simps [simp]:
  "change_log (log_change u e i op v d) = change_log d @
     [\<lparr>ch_user = u, ch_etype = e, ch_eid = i, ch_op = op, ch_version = v\<rparr>]"
  "change_log (d\<lparr>db_ledger := l\<rparr>) = change_log d"
  "change_log (d\<lparr>db_hooks := h\<rparr>) = change_log d"
  by (simp_all add: change_log_def log_change_def)

lemma change_log_log_all:
  "change_log (log_all u e op bs d) = change_log d @
     map (\<lambda>b. \<lparr>ch_user = u, ch_etype = e, ch_eid = fst b, ch_op = op, ch_version = snd b\<rparr>) bs"
  by (induction bs arbitrary: d) simp_all

lemma look_simps [simp]:
  "look e i (log_change u e' i' op v d) = look e i d"
  "look e i (log_all u e' op bs d) = look e i d"
  "look e i (d\<lparr>db_ledger := l\<rparr>) = look e i d"
  "look e i (d\<lparr>db_hooks := h\<rparr>) = look e i d"
  by (simp_all add: look_def)

section \<open>Well-formed databases\<close>

text \<open>
  Primary keys are unique, and the change log carries strictly increasing positive sequence
  numbers up to the counter.
\<close>

definition keys_ok :: "db \<Rightarrow> bool" where
  "keys_ok d \<longleftrightarrow> (\<forall>e. distinct (map (rid \<circ> fst) (view e d)))"

definition seqs_ok :: "db \<Rightarrow> bool" where
  "seqs_ok d \<longleftrightarrow>
     sorted_wrt (<) (map fst (db_changes d)) \<and> 0 \<le> db_seq d \<and>
     (\<forall>c\<in>set (db_changes d). 0 < fst c \<and> fst c \<le> db_seq d)"

definition wf :: "db \<Rightarrow> bool" where
  "wf d \<longleftrightarrow> keys_ok d \<and> seqs_ok d"

lemma wfD: "wf d \<Longrightarrow> keys_ok d" "wf d \<Longrightarrow> seqs_ok d"
  by (simp_all add: wf_def)

lemma seqs_ok_log_change: "seqs_ok d \<Longrightarrow> seqs_ok (log_change u e i op v d)"
  by (auto simp: seqs_ok_def log_change_def sorted_wrt_append)

lemma seqs_ok_log_all: "seqs_ok d \<Longrightarrow> seqs_ok (log_all u e op bs d)"
  by (induction bs arbitrary: d) (simp_all add: seqs_ok_log_change)

lemma keys_ok_view: "(\<And>e. view e d' = view e d) \<Longrightarrow> keys_ok d' = keys_ok d"
  by (simp add: keys_ok_def)

lemma wf_log_change [simp]: "wf d \<Longrightarrow> wf (log_change u e i op v d)"
  by (simp add: wf_def seqs_ok_log_change keys_ok_def)

lemma wf_log_all [simp]: "wf d \<Longrightarrow> wf (log_all u e op bs d)"
  by (simp add: wf_def seqs_ok_log_all keys_ok_def)

lemma wf_ledger [simp]: "wf (d\<lparr>db_ledger := l\<rparr>) = wf d"
  by (simp add: wf_def seqs_ok_def keys_ok_def)

lemma wf_hooks [simp]: "wf (d\<lparr>db_hooks := h\<rparr>) = wf d"
  by (simp add: wf_def seqs_ok_def keys_ok_def)

section \<open>Two states and the changes between them\<close>

text \<open>
  \<open>lives u d cs d'\<close>: from \<open>d\<close> to \<open>d'\<close> every row lived through exactly the changes of
  \<open>cs\<close> that are about it. Changes about different rows may be told in any order.
\<close>

definition lives :: "uuid \<Rightarrow> db \<Rightarrow> change list \<Rightarrow> db \<Rightarrow> bool" where
  "lives u d cs d' \<longleftrightarrow>
     (\<forall>c\<in>set cs. ch_user c = u) \<and>
     (\<forall>e i. life_run u e i (look e i d) (about e i cs) (look e i d'))"

lemma lives_refl: "lives u d [] d"
  by (simp add: lives_def)

lemma lives_trans: "lives u d cs d' \<Longrightarrow> lives u d' ds d'' \<Longrightarrow> lives u d (cs @ ds) d''"
  unfolding lives_def by (simp add: ball_Un) (blast intro: life_run_append)

lemma lives_reorder:
  assumes "lives u d cs d'" and "\<And>e i. about e i ds = about e i cs" and "set ds \<subseteq> set cs"
  shows "lives u d ds d'"
  using assms unfolding lives_def by auto

lemma lives_cong:
  assumes "lives u d cs d'" and "\<And>e. view e a = view e d" and "\<And>e. view e b = view e d'"
  shows "lives u a cs b"
  using assms unfolding lives_def look_def by simp

text \<open>The log is append-only, sequence numbers included.\<close>

definition grows :: "db \<Rightarrow> db \<Rightarrow> bool" where
  "grows d d' \<longleftrightarrow> (\<exists>ns. db_changes d' = db_changes d @ ns)"

lemma grows_same: "db_changes d' = db_changes d \<Longrightarrow> grows d d'"
  by (simp add: grows_def)

lemma grows_trans: "grows a b \<Longrightarrow> grows b c \<Longrightarrow> grows a c"
  by (auto simp: grows_def)

lemma grows_log_change: "grows d a \<Longrightarrow> grows d (log_change u e i op v a)"
  by (auto simp: grows_def log_change_def)

lemma grows_log_all: "grows d a \<Longrightarrow> grows d (log_all u e op bs a)"
  by (induction bs arbitrary: a) (simp_all add: grows_log_change)

definition evolves :: "uuid \<Rightarrow> db \<Rightarrow> db \<Rightarrow> bool" where
  "evolves u d d' \<longleftrightarrow> grows d d' \<and>
     (wf d \<longrightarrow> wf d' \<and> (\<exists>cs. change_log d' = change_log d @ cs \<and> lives u d cs d'))"

lemma evolves_refl: "evolves u d d"
  by (auto simp: evolves_def lives_refl grows_same)

lemma evolves_trans:
  assumes "evolves u a b" and "evolves u b c"
  shows "evolves u a c"
proof -
  have "grows a c" using assms grows_trans by (auto simp: evolves_def)
  moreover have "wf a \<longrightarrow> wf c \<and> (\<exists>cs. change_log c = change_log a @ cs \<and> lives u a cs c)"
    using assms lives_trans unfolding evolves_def by (metis append_assoc)
  ultimately show ?thesis by (simp add: evolves_def)
qed

lemma evolves_ledger: "evolves u d (d\<lparr>db_ledger := l\<rparr>)"
  by (auto simp: evolves_def lives_def grows_same)

lemma evolves_hooks: "evolves u d (d\<lparr>db_hooks := h\<rparr>)"
  by (auto simp: evolves_def lives_def grows_same)

lemma evolvesI:
  assumes "grows d d'" and "wf d \<Longrightarrow> wf d'"
    and "wf d \<Longrightarrow> change_log d' = change_log d @ cs"
    and "wf d \<Longrightarrow> lives u d cs d'"
  shows "evolves u d d'"
  using assms unfolding evolves_def by blast

end
