(* ===== verification/Refinement.thy ===== *)
theory Refinement
  imports Lifecycle
begin

text \<open>
  Every statement of the engine refines the abstract life cycle: proved once for any table that
  keeps the promises of \<open>synced_table\<close>. The predicates \<open>quiet\<close> (a statement that leaves
  the ledger alone) and \<open>sound\<close> (a whole operation: a life for every row, and exactly one
  ledger row holding the result) compose along \<open>bindE\<close>, so a handler is proved sound by
  walking through its branches.
\<close>

section \<open>What an update may change\<close>

definition keeps_meta :: "('a row_scheme \<Rightarrow> 'a row_scheme) \<Rightarrow> bool" where
  "keeps_meta f \<longleftrightarrow> (\<forall>r. rid (f r) = rid r \<and> ruser (f r) = ruser r \<and> rver (f r) = rver r)"

lemma keeps_metaD:
  "keeps_meta f \<Longrightarrow> rid (f r) = rid r" "keeps_meta f \<Longrightarrow> ruser (f r) = ruser r"
  "keeps_meta f \<Longrightarrow> rver (f r) = rver r"
  by (simp_all add: keeps_meta_def)

lemma keeps_meta_tombstone [simp]: "keeps_meta (tombstone t)"
  by (simp add: keeps_meta_def)

definition op_for :: "'a row_scheme \<Rightarrow> change_op" where
  "op_for r = (if is_deleted r then Delete else Upsert)"

lemma bumped_change:
  assumes "keeps_meta f" and "op = op_for (f r)"
  shows "\<lparr>ch_user = ruser r, ch_etype = e, ch_eid = rid r, ch_op = op, ch_version = rver r + 1\<rparr>
         = change_for e (bump t (f r))"
  using assms by (simp add: change_for_def op_for_def keeps_metaD)

lemma abs_row_fst [simp]: "fst (abs_row j r) = row.truncate r"
  by (simp add: abs_row_def)

section \<open>Statements over a synchronised table\<close>

context synced_table
begin

lemma look_own: "look (tb_etype T) i d =
    map_option (abs_row (tb_json T)) (find (\<lambda>r. rid r = i) (tb_get T d))"
  by (simp add: look_def find_view)

lemma look_put_other: "e \<noteq> tb_etype T \<Longrightarrow> look e i (tb_put T t d) = look e i d"
  by (simp add: look_def view_put)

lemma look_put_own: "look (tb_etype T) i (tb_put T t d) =
    map_option (abs_row (tb_json T)) (find (\<lambda>r. rid r = i) t)"
  by (simp add: look_own get_put)

lemma change_log_put: "change_log (tb_put T t d) = change_log d"
  by (simp add: change_log_def changes_put)

lemma keys_get: "keys_ok d \<Longrightarrow> distinct (map rid (tb_get T d))"
  by (metis ids_get keys_ok_def)

lemma wf_put: "wf d \<Longrightarrow> distinct (map rid t) \<Longrightarrow> wf (tb_put T t d)"
  by (auto simp: wf_def keys_ok_def seqs_ok_def changes_put seq_put view_put comp_def)

lemma fetch_Some:
  "fetch T u i d = Some r \<Longrightarrow> r \<in> set (tb_get T d) \<and> rid r = i \<and> ruser r = u"
  unfolding fetch_def using find_in_set by fastforce

lemma fetch_look:
  assumes "wf d" and "fetch T u i d = Some r"
  shows "find (\<lambda>x. rid x = i) (tb_get T d) = Some r"
proof -
  from fetch_Some [OF assms(2)] have "r \<in> set (tb_get T d)" "rid r = i" by auto
  with find_distinct_key [OF keys_get [OF wfD(1) [OF assms(1)]]] show ?thesis by auto
qed

lemma insert_lives:
  assumes "wf d" and "sql_insert T r d = Inr d'" and "ruser r = u" and "rver r = 1"
  shows "lives u d [change_for (tb_etype T) r] d' \<and> wf d' \<and> change_log d' = change_log d"
proof -
  from assms(2) have d': "d' = tb_put T (tb_get T d @ [r]) d"
    and fresh: "\<forall>x\<in>set (tb_get T d). rid x \<noteq> rid r"
    by (auto simp: sql_insert_def split: if_splits)
  from fresh have none: "find (\<lambda>x. rid x = rid r) (tb_get T d) = None"
    by (simp add: find_None)
  have "life_run u (tb_etype T) (rid r) None [change_for (tb_etype T) r]
      (Some (abs_row (tb_json T) r))"
    using life_run_single [OF life_step.born, of "row.truncate r" "rid r" u "tb_etype T" "tb_json T r"]
      assms(3,4) by (simp add: abs_row_def)
  then have "lives u d [change_for (tb_etype T) r] d'"
    unfolding lives_def
  proof (intro conjI allI)
    fix e i
    show "life_run u e i (look e i d) (about e i [change_for (tb_etype T) r]) (look e i d')"
      if "life_run u (tb_etype T) (rid r) None [change_for (tb_etype T) r]
        (Some (abs_row (tb_json T) r))"
      using that assms(3) none unfolding d'
      by (cases "e = tb_etype T")
        (auto simp: look_put_other look_own get_put find_append split: option.split)
  qed (simp add: assms(3))
  moreover have "wf d'"
    unfolding d' using keys_get [OF wfD(1) [OF assms(1)]] fresh
    by (intro wf_put [OF assms(1)]) force
  ultimately show ?thesis by (simp add: d' change_log_put)
qed

lemma moved_life:
  assumes "ruser r = u" and "\<not> is_deleted r" and "keeps_meta f"
  shows "life_run u e (rid r) (Some (abs_row j r)) [change_for e (bump t (f r))]
      (Some (abs_row j (bump t (f r))))"
proof -
  have "life_step u e (rid r) (Some (row.truncate r, j r))
      (change_for e (row.truncate (bump t (f r)))) (Some (row.truncate (bump t (f r)), j (bump t (f r))))"
    by (rule life_step.moved) (use assms in \<open>simp_all add: keeps_metaD\<close>)
  then show ?thesis by (simp add: abs_row_def life_run_single)
qed

lemma update_lives:
  assumes "wf d" and "sql_update T u i f t d = Inr (d', v)" and "fetch T u i d = Some q"
    and "\<not> is_deleted q" and "keeps_meta f"
  shows "lives u d [change_for (tb_etype T) (bump t (f q))] d' \<and> wf d' \<and>
    change_log d' = change_log d \<and> v = rver q + 1 \<and> rid q = i \<and> ruser q = u"
proof -
  let ?h = "\<lambda>x. if rid x = i \<and> ruser x = u then bump t (f x) else x"
  from assms(2,3) have d': "d' = tb_put T (map ?h (tb_get T d)) d" and v: "v = rver q + 1"
    by (auto simp: sql_update_def split: if_splits)
  from fetch_Some [OF assms(3)] have q: "rid q = i" "ruser q = u" by auto
  have id: "rid (?h x) = rid x" for x using assms(5) by (simp add: keeps_metaD)
  have fq: "find (\<lambda>x. rid x = i) (tb_get T d) = Some q" by (rule fetch_look [OF assms(1,3)])
  have other: "map_option ?h (find (\<lambda>x. rid x = k) (tb_get T d)) = find (\<lambda>x. rid x = k) (tb_get T d)"
    if "k \<noteq> i" for k
    using that find_in_set [of "\<lambda>x. rid x = k" "tb_get T d"]
    by (cases "find (\<lambda>x. rid x = k) (tb_get T d)") auto
  have "lives u d [change_for (tb_etype T) (bump t (f q))] d'"
    unfolding lives_def
  proof (intro conjI allI)
    fix e k
    show "life_run u e k (look e k d) (about e k [change_for (tb_etype T) (bump t (f q))]) (look e k d')"
    proof (cases "e = tb_etype T \<and> k = i")
      case True
      then show ?thesis
        using moved_life [OF q(2) assms(4,5), of "tb_etype T" "tb_json T" t] q assms(5) fq
        by (simp add: d' look_own get_put find_map_same_key [where k = rid and h = ?h, OF id]
            keeps_metaD)
    next
      case False
      then show ?thesis
        using q assms(5) other
        by (cases "e = tb_etype T")
          (auto simp: d' look_own get_put look_put_other keeps_metaD
            find_map_same_key [where k = rid and h = ?h, OF id])
    qed
  qed (use q assms(5) in \<open>simp add: keeps_metaD\<close>)
  moreover have "wf d'"
    unfolding d' using keys_get [OF wfD(1) [OF assms(1)]] id
    by (intro wf_put [OF assms(1)]) (simp add: comp_def)
  ultimately show ?thesis by (simp add: d' change_log_put v q)
qed

lemma about_sweep:
  assumes "distinct (map rid rs)" and "keeps_meta f"
  shows "about e k (map (\<lambda>r. change_for e (bump t (f r))) (filter P rs)) =
    (case find (\<lambda>r. rid r = k) rs of
       None \<Rightarrow> [] | Some r \<Rightarrow> if P r then [change_for e (bump t (f r))] else [])"
  using assms
proof (induction rs)
  case (Cons a rs)
  have "about e k (map (\<lambda>r. change_for e (bump t (f r))) (filter P rs)) = []"
    if "rid a = k"
    using Cons.prems that by (force simp: about_def filter_empty_conv keeps_metaD image_iff)
  with Cons show ?case by (auto simp: keeps_metaD)
qed simp

lemma sweep_lives:
  assumes "wf d" and "sql_sweep T P f t d = Inr (d', bs)" and "keeps_meta f"
    and live: "\<And>r. P r \<Longrightarrow> ruser r = u \<and> \<not> is_deleted r"
    and op: "\<And>r. P r \<Longrightarrow> op = op_for (f r)"
  shows "lives u d (map (\<lambda>b. \<lparr>ch_user = u, ch_etype = tb_etype T, ch_eid = fst b, ch_op = op,
        ch_version = snd b\<rparr>) bs) d' \<and> wf d' \<and> change_log d' = change_log d"
proof -
  let ?h = "\<lambda>x. if P x then bump t (f x) else x"
  let ?cs = "map (\<lambda>r. change_for (tb_etype T) (bump t (f r))) (filter P (tb_get T d))"
  from assms(2) have d': "d' = tb_put T (map ?h (tb_get T d)) d"
    and bs: "bs = map (\<lambda>r. (rid r, rver r + 1)) (filter P (tb_get T d))"
    by (auto simp: sql_sweep_def Let_def split: if_splits)
  have cs: "map (\<lambda>b. \<lparr>ch_user = u, ch_etype = tb_etype T, ch_eid = fst b, ch_op = op,
        ch_version = snd b\<rparr>) bs = ?cs"
    unfolding bs using live bumped_change [OF assms(3) op] by auto
  have id: "rid (?h x) = rid x" for x using assms(3) by (simp add: keeps_metaD)
  note keys = keys_get [OF wfD(1) [OF assms(1)]]
  have "lives u d ?cs d'"
    unfolding lives_def
  proof (intro conjI allI)
    show "\<forall>c\<in>set ?cs. ch_user c = u" using live assms(3) by (auto simp: keeps_metaD)
    fix e k
    show "life_run u e k (look e k d) (about e k ?cs) (look e k d')"
    proof (cases "e = tb_etype T")
      case True
      show ?thesis
      proof (cases "find (\<lambda>x. rid x = k) (tb_get T d)")
        case None
        then show ?thesis
          using True by (simp add: about_sweep [OF keys assms(3)] d' look_own get_put
              find_map_same_key [where k = rid and h = ?h, OF id])
      next
        case (Some r)
        then have "rid r = k" using find_in_set by fastforce
        with Some True show ?thesis
          using moved_life [OF conjunct1 [OF live] conjunct2 [OF live] assms(3),
              of r "tb_etype T" "tb_json T" t]
          by (simp add: about_sweep [OF keys assms(3)] d' look_own get_put
              find_map_same_key [where k = rid and h = ?h, OF id])
      qed
    next
      case False
      then show ?thesis by (auto simp: d' look_put_other about_def filter_empty_conv)
    qed
  qed
  moreover have "wf d'"
    unfolding d' using keys id by (intro wf_put [OF assms(1)]) (simp add: comp_def)
  ultimately show ?thesis by (simp add: cs d' change_log_put)
qed

end

section \<open>Composing statements\<close>

definition quiet :: "uuid \<Rightarrow> db \<Rightarrow> db_error + db \<Rightarrow> bool" where
  "quiet u d m \<longleftrightarrow> (\<forall>d'. m = Inr d' \<longrightarrow> evolves u d d' \<and> db_ledger d' = db_ledger d)"

definition sound :: "uuid \<Rightarrow> push_item \<Rightarrow> db \<Rightarrow> db_error + db \<times> push_result \<Rightarrow> bool" where
  "sound u it d m \<longleftrightarrow>
     (\<forall>d' res. m = Inr (d', res) \<longrightarrow>
        evolves u d d' \<and> res_op_id res = it_op_id it \<and>
        find_ledger u (it_op_id it) d = None \<and>
        db_ledger d' = db_ledger d @ [ledger_entry u it res])"

lemma quiet_Inl [intro, simp]: "quiet u d (Inl e)"
  by (simp add: quiet_def)

lemma quiet_Inr [intro, simp]: "quiet u d (Inr d)"
  by (simp add: quiet_def evolves_refl)

lemma quiet_bind:
  "quiet u d m \<Longrightarrow> (\<And>d'. m = Inr d' \<Longrightarrow> quiet u d' (k d')) \<Longrightarrow> quiet u d (bindE m k)"
  unfolding quiet_def bindE_eq_Inr by (metis evolves_trans)

lemma sound_Inl [intro, simp]: "sound u it d (Inl e)"
  by (simp add: sound_def)

lemma sound_settle [intro]: "res_op_id res = it_op_id it \<Longrightarrow> sound u it d (settle u it res d)"
  by (auto simp: sound_def settle_def store_ledger_def bindE_eq_Inr evolves_ledger split: if_splits)

lemma sound_reject [intro, simp]: "sound u it d (reject u it d)"
  by (auto simp: reject_def)

lemma sound_after:
  assumes "evolves u d d1" and "db_ledger d1 = db_ledger d" and "sound u it d1 m"
  shows "sound u it d m"
  unfolding sound_def
proof (intro allI impI)
  fix d' res
  assume "m = Inr (d', res)"
  with assms(3) have s: "evolves u d1 d'" "res_op_id res = it_op_id it"
      "find_ledger u (it_op_id it) d1 = None"
      "db_ledger d' = db_ledger d1 @ [ledger_entry u it res]"
    by (simp_all add: sound_def)
  from evolves_trans [OF assms(1) s(1)] s(2-4) assms(2)
  show "evolves u d d' \<and> res_op_id res = it_op_id it \<and>
      find_ledger u (it_op_id it) d = None \<and>
      db_ledger d' = db_ledger d @ [ledger_entry u it res]"
    by (simp add: find_ledger_def)
qed

lemma sound_bind:
  assumes "quiet u d m" and "\<And>d'. m = Inr d' \<Longrightarrow> sound u it d' (k d')"
  shows "sound u it d (bindE m k)"
proof (cases m)
  case (Inr d1)
  with assms(1) have "evolves u d d1" "db_ledger d1 = db_ledger d" by (simp_all add: quiet_def)
  from sound_after [OF this assms(2) [OF Inr]] Inr show ?thesis by simp
qed simp

lemma sound_gate [intro]:
  assumes "\<not> is_deleted obj \<Longrightarrow> it_base it = rver obj \<Longrightarrow> sound u it d m"
  shows "sound u it d (version_gate T u it obj d m)"
  using assms by (auto simp: version_gate_def)

lemma sound_case_option [intro]:
  "(x = None \<Longrightarrow> sound u it d m) \<Longrightarrow> (\<And>v. x = Some v \<Longrightarrow> sound u it d (f v)) \<Longrightarrow>
   sound u it d (case x of None \<Rightarrow> m | Some v \<Rightarrow> f v)"
  by (cases x) auto

lemma sound_if [intro]:
  "(P \<Longrightarrow> sound u it d m) \<Longrightarrow> (\<not> P \<Longrightarrow> sound u it d n) \<Longrightarrow> sound u it d (if P then m else n)"
  by auto

lemma sound_hooks:
  assumes "sound u it d m"
  shows "sound u it d (bindE m (\<lambda>x. Inr ((fst x)\<lparr>db_hooks := h x\<rparr>, snd x)))"
proof (cases m)
  case (Inr x)
  with assms have "evolves u d (fst x)" by (cases x) (simp add: sound_def)
  from evolves_trans [OF this evolves_hooks] assms Inr show ?thesis
    by (cases x) (auto simp: sound_def)
qed simp

context synced_table
begin

lemma insert_grows: "sql_insert T r d = Inr d' \<Longrightarrow> grows d d'"
  by (auto simp: sql_insert_def changes_put intro!: grows_same split: if_splits)

lemma update_grows: "sql_update T u i f t d = Inr (d', v) \<Longrightarrow> grows d d'"
  by (auto simp: sql_update_def changes_put intro!: grows_same split: if_splits option.splits)

lemma sweep_grows: "sql_sweep T P f t d = Inr (d', v) \<Longrightarrow> grows d d'"
  by (auto simp: sql_sweep_def Let_def changes_put intro!: grows_same split: if_splits)

lemma insert_logged_evolves:
  assumes "sql_insert T r d = Inr d'" and "ruser r = u" and "rver r = 1" and "op = op_for r"
  shows "evolves u d (log_change u (tb_etype T) (rid r) op 1 d')"
proof (rule evolvesI [OF grows_log_change [OF insert_grows [OF assms(1)]]])
  assume w: "wf d"
  note l = insert_lives [OF w assms(1-3)]
  show "wf (log_change u (tb_etype T) (rid r) op 1 d')" using l by simp
  show "change_log (log_change u (tb_etype T) (rid r) op 1 d') =
      change_log d @ [change_for (tb_etype T) r]"
    using l assms by (simp add: change_for_def op_for_def)
  show "lives u d [change_for (tb_etype T) r] (log_change u (tb_etype T) (rid r) op 1 d')"
    by (rule lives_cong [OF conjunct1 [OF l]]) simp_all
qed

lemma insert_ledger: "sql_insert T r d = Inr d' \<Longrightarrow> db_ledger d' = db_ledger d"
  by (auto simp: sql_insert_def ledger_put split: if_splits)

lemma update_ledger: "sql_update T u i f t d = Inr (d', v) \<Longrightarrow> db_ledger d' = db_ledger d"
  by (auto simp: sql_update_def ledger_put split: if_splits option.splits)

lemma sweep_ledger: "sql_sweep T P f t d = Inr (d', v) \<Longrightarrow> db_ledger d' = db_ledger d"
  by (auto simp: sql_sweep_def Let_def ledger_put split: if_splits)

lemma sound_commit_insert:
  assumes "rid r = it_eid it" and "ruser r = u" and "rver r = 1" and "op = op_for r"
  shows "sound u it d (commit_insert T u it op r d)"
proof (cases "sql_insert T r d")
  case (Inr d1)
  have "evolves u d (log_change u (tb_etype T) (it_eid it) op 1 d1)"
    using insert_logged_evolves [OF Inr assms(2-4)] assms(1) by simp
  then have "sound u it d (settle u it (accepted it 1 (rupdated r))
      (log_change u (tb_etype T) (it_eid it) op 1 d1))"
    by (rule sound_after) (simp_all add: insert_ledger [OF Inr] sound_settle)
  then show ?thesis by (simp add: commit_insert_def Inr)
qed (simp add: commit_insert_def)

lemma update_logged_evolves:
  assumes "update_logged T u i op f t d = Inr (d', v)" and "fetch T u i d = Some q"
    and "\<not> is_deleted q" and "keeps_meta f" and "op = op_for (f q)"
  shows "evolves u d d' \<and> db_ledger d' = db_ledger d"
proof -
  from assms(1) obtain d1 where up: "sql_update T u i f t d = Inr (d1, v)"
    and d': "d' = log_change u (tb_etype T) i op v d1"
    by (auto simp: update_logged_def bindE_eq_Inr)
  have "evolves u d d'"
  proof (rule evolvesI)
    show "grows d d'" unfolding d' by (rule grows_log_change [OF update_grows [OF up]])
  next
    assume w: "wf d"
    note l = update_lives [OF w up assms(2-4)]
    show "wf d'" using l d' by simp
    show "change_log d' = change_log d @ [change_for (tb_etype T) (bump t (f q))]"
      using l d' bumped_change [OF assms(4,5)] by simp
    show "lives u d [change_for (tb_etype T) (bump t (f q))] d'"
      by (rule lives_cong [OF conjunct1 [OF l]]) (simp_all add: d')
  qed
  then show ?thesis by (simp add: d' update_ledger [OF up])
qed

lemma sound_update:
  assumes "fetch T u (it_eid it) d = Some q" and "\<not> is_deleted q" and "keeps_meta f"
    and "op = op_for (f q)"
    and k: "\<And>d' v. update_logged T u (it_eid it) op f t d = Inr (d', v) \<Longrightarrow> sound u it d' (k (d', v))"
  shows "sound u it d (bindE (update_logged T u (it_eid it) op f t d) k)"
proof (cases "update_logged T u (it_eid it) op f t d")
  case (Inr x)
  obtain d1 v where x: "x = (d1, v)" by (cases x)
  from update_logged_evolves [OF Inr [unfolded x] assms(1-4)]
  have "evolves u d d1" "db_ledger d1 = db_ledger d" by simp_all
  from sound_after [OF this k [OF Inr [unfolded x]]] show ?thesis by (simp add: Inr x)
qed simp

lemma sound_commit_update:
  assumes "fetch T u (it_eid it) d = Some q" and "\<not> is_deleted q" and "keeps_meta f"
    and "op = op_for (f q)"
  shows "sound u it d (commit_update T u it op f t d)"
  unfolding commit_update_def by (rule sound_update [OF assms]) (auto intro: sound_settle)

lemma quiet_sweep_logged:
  assumes "keeps_meta f" and "\<And>r. P r \<Longrightarrow> ruser r = u \<and> \<not> is_deleted r"
    and "\<And>r. P r \<Longrightarrow> op = op_for (f r)"
  shows "quiet u d (sweep_logged T u P f op t d)"
  unfolding quiet_def
proof (intro allI impI)
  fix d'
  assume "sweep_logged T u P f op t d = Inr d'"
  then obtain d1 bs where sw: "sql_sweep T P f t d = Inr (d1, bs)"
    and d': "d' = log_all u (tb_etype T) op bs d1"
    by (auto simp: sweep_logged_def bindE_eq_Inr)
  let ?cs = "map (\<lambda>b. \<lparr>ch_user = u, ch_etype = tb_etype T, ch_eid = fst b, ch_op = op,
        ch_version = snd b\<rparr>) bs"
  have "evolves u d d'"
  proof (rule evolvesI)
    show "grows d d'" unfolding d' by (rule grows_log_all [OF sweep_grows [OF sw]])
  next
    assume w: "wf d"
    note l = sweep_lives [OF w sw assms]
    show "wf d'" using l d' by simp
    show "change_log d' = change_log d @ ?cs" using l d' by (simp add: change_log_log_all)
    show "lives u d ?cs d'" by (rule lives_cong [OF conjunct1 [OF l]]) (simp_all add: d')
  qed
  then show "evolves u d d' \<and> db_ledger d' = db_ledger d"
    by (simp add: d' sweep_ledger [OF sw])
qed

lemma sound_learning_delete:
  assumes "obj = fetch T u (it_eid it) d"
    and "\<And>r. stub = Some r \<Longrightarrow> rid r = it_eid it \<and> ruser r = u \<and> rver r = 1 \<and> is_deleted r"
  shows "sound u it d (apply_learning_delete E T stub u it obj d)"
proof (cases obj)
  case None
  then show ?thesis
    using assms(2) by (cases stub)
      (auto simp: apply_learning_delete_def op_for_def intro!: sound_commit_insert)
next
  case (Some r)
  then have "sound u it d (commit_update T u it Delete (tombstone (en_now E)) (en_now E) d)"
    if "\<not> is_deleted r"
    using that assms(1) by (intro sound_commit_update) (simp_all add: op_for_def)
  then show ?thesis
    using Some by (simp add: apply_learning_delete_def sound_settle)
qed

end

end
