(* ===== verification/Handler.thy ===== *)
theory Handler
  imports Refinement
begin

text \<open>
  What the push handlers of all entity families share: the item's operation, the lookups of a
  live parent, the JSON columns, the file-cleanup hooks, the delete path of a leaf entity, and
  the rules by which a handler's soundness follows from its branches.
\<close>

section \<open>Small helpers\<close>

definition is_delete :: "push_item \<Rightarrow> bool" where
  "is_delete it \<longleftrightarrow> it_operation it = ''delete''"

abbreviation payload_of :: "push_item \<Rightarrow> payload" where
  "payload_of it \<equiv> it_payload it"

text \<open>\<open>parent == nil || parent.deletedAt != nil\<close> is the negation of this.\<close>

definition session_live :: "uuid \<Rightarrow> uuid \<Rightarrow> db \<Rightarrow> bool" where
  "session_live u sid d =
     (case fetch sessions_tab u sid d of None \<Rightarrow> False | Some s \<Rightarrow> \<not> is_deleted s)"

definition entry_live :: "uuid \<Rightarrow> uuid \<Rightarrow> db \<Rightarrow> entry_row option" where
  "entry_live u i d =
     (case fetch entries_tab u i d of None \<Rightarrow> None | Some e \<Rightarrow> if is_deleted e then None else Some e)"

text \<open>The cast \<open>::jsonb\<close> of a text parameter where the empty string means NULL.\<close>

definition jsonb_cast :: "env \<Rightarrow> string \<Rightarrow> db_error + string option" where
  "jsonb_cast E s =
     (if s = [] then Inr None
      else case en_jsonb E s of None \<Rightarrow> Inl InvalidJson | Some t \<Rightarrow> Inr (Some t))"

text \<open>
  The delete path of a parent: its live row's children follow into the tombstone, or detach,
  before the shared \<open>applyLearningDelete\<close>.
\<close>

definition delete_with_children ::
  "env \<Rightarrow> 'a row_scheme tab \<Rightarrow> 'a row_scheme option \<Rightarrow> uuid \<Rightarrow> push_item \<Rightarrow> 'a row_scheme option
     \<Rightarrow> (db \<Rightarrow> db_error + db) \<Rightarrow> db \<Rightarrow> db_error + db \<times> push_result" where
  "delete_with_children E T stub u it obj cascade d =
     bindE (case obj of None \<Rightarrow> Inr d | Some r \<Rightarrow> if is_deleted r then Inr d else cascade d)
       (apply_learning_delete E T stub u it obj)"

definition add_hook :: "uuid \<Rightarrow> uuid \<Rightarrow> db \<Rightarrow> db" where
  "add_hook u i d = d\<lparr>db_hooks := db_hooks d @ [(u, i)]\<rparr>"

text \<open>The delete path of a leaf entity: phantom, idempotent re-delete, live delete.\<close>

definition leaf_delete ::
  "env \<Rightarrow> 'a row_scheme tab \<Rightarrow> 'a row_scheme \<Rightarrow> uuid \<Rightarrow> push_item \<Rightarrow> 'a row_scheme option \<Rightarrow> db
     \<Rightarrow> db_error + db \<times> push_result" where
  "leaf_delete E T tomb u it obj d =
     (case obj of
        None \<Rightarrow> commit_insert T u it Delete tomb d
      | Some r \<Rightarrow>
          if is_deleted r then settle u it (accepted it (rver r) (rupdated r)) d
          else commit_update T u it Delete (tombstone (en_now E)) (en_now E) d)"

text \<open>A nullable JSON column: nil stays NULL, a text is cast.\<close>

definition jsonb_opt :: "env \<Rightarrow> string option \<Rightarrow> db_error + string option" where
  "jsonb_opt E p =
     (case p of
        None \<Rightarrow> Inr None
      | Some s \<Rightarrow> (case en_jsonb E s of None \<Rightarrow> Inl InvalidJson | Some t \<Rightarrow> Inr (Some t)))"

text \<open>\<open>validJSONPayload\<close>, and the check that follows each of its calls.\<close>

definition valid_json_payload :: "string option \<Rightarrow> string option" where
  "valid_json_payload p =
     (case p of None \<Rightarrow> None | Some s \<Rightarrow> if s = [] \<or> \<not> json_valid s then None else Some s)"

definition bad_json_payload :: "string option \<Rightarrow> bool" where
  "bad_json_payload p =
     (case p of None \<Rightarrow> False | Some s \<Rightarrow> s \<noteq> [] \<and> \<not> json_valid s)"

lemma bad_json_payload_iff:
  "bad_json_payload p \<longleftrightarrow> (p \<noteq> None \<and> p \<noteq> Some [] \<and> valid_json_payload p = None)"
  by (auto simp: bad_json_payload_def valid_json_payload_def split: option.splits)

text \<open>A reference that must be present: \<open>p == nil || *p == uuid.Nil\<close> rejects.\<close>

definition required_ref :: "uuid option \<Rightarrow> uuid option" where
  "required_ref p = (case p of None \<Rightarrow> None | Some i \<Rightarrow> if i = uuid_nil then None else Some i)"

lemma required_ref_eq: "required_ref = ref_or_nil"
  by (rule ext) (simp add: required_ref_def ref_or_nil_def)

section \<open>Soundness of a handler from its branches\<close>

definition keeps_row :: "('a row_scheme \<Rightarrow> 'a row_scheme) \<Rightarrow> bool" where
  "keeps_row f \<longleftrightarrow> keeps_meta f \<and> (\<forall>r. rdeleted (f r) = rdeleted r)"

lemma keeps_rowI:
  "(\<And>r. rid (f r) = rid r \<and> ruser (f r) = ruser r \<and> rver (f r) = rver r \<and> rdeleted (f r) = rdeleted r)
    \<Longrightarrow> keeps_row f"
  by (simp add: keeps_row_def keeps_meta_def)

lemma keeps_row_meta: "keeps_row f \<Longrightarrow> keeps_meta f"
  by (simp add: keeps_row_def)

lemma keeps_row_op: "keeps_row f \<Longrightarrow> \<not> is_deleted r \<Longrightarrow> op_for (f r) = Upsert"
  by (simp add: keeps_row_def op_for_def)

lemma sound_bind_value:
  "(\<And>v. m = Inr v \<Longrightarrow> sound u it d (k v)) \<Longrightarrow> sound u it d (bindE m k)"
  by (cases m) auto

lemma sound_add_hook: "sound u it (add_hook v i d) m \<Longrightarrow> sound u it d m"
  using sound_after [of u d "add_hook v i d"] by (simp add: add_hook_def evolves_hooks)

context synced_table
begin

lemma sound_new:
  assumes "rid r = it_eid it" and "ruser r = u" and "rver r = 1" and "rdeleted r = None"
  shows "sound u it d (commit_insert T u it Upsert r d)"
  using assms by (intro sound_commit_insert) (simp_all add: op_for_def)

lemma sound_phantom:
  assumes "rid r = it_eid it" and "ruser r = u" and "rver r = 1" and "rdeleted r \<noteq> None"
  shows "sound u it d (commit_insert T u it Delete r d)"
  using assms by (intro sound_commit_insert) (simp_all add: op_for_def)

lemma sound_merge:
  assumes "fetch T u (it_eid it) d = Some q" and "\<not> is_deleted q" and "keeps_row f"
  shows "sound u it d (commit_update T u it Upsert f t d)"
  by (rule sound_commit_update [OF assms(1,2) keeps_row_meta [OF assms(3)]])
    (simp add: keeps_row_op [OF assms(3,2)])

lemma sound_gated_merge:
  assumes "fetch T u (it_eid it) d = Some q" and "keeps_row f"
  shows "sound u it d (version_gate T u it q d (commit_update T u it Upsert f t d))"
  by (rule sound_gate) (rule sound_merge [OF assms(1) _ assms(2)])

lemma sound_delete_live:
  assumes "fetch T u (it_eid it) d = Some q" and "\<not> is_deleted q"
  shows "sound u it d (commit_update T u it Delete (tombstone t) t d)"
  by (rule sound_commit_update [OF assms]) (simp_all add: op_for_def)

lemma quiet_tombstone_sweep:
  assumes "\<And>r. P r \<Longrightarrow> ruser r = u \<and> \<not> is_deleted r"
  shows "quiet u d (sweep_logged T u P (tombstone t) Delete t d)"
  using assms by (intro quiet_sweep_logged) (auto simp: op_for_def)

lemma quiet_detach_sweep:
  assumes "\<And>r. P r \<Longrightarrow> ruser r = u \<and> \<not> is_deleted r" and "keeps_row f"
  shows "quiet u d (sweep_logged T u P f Upsert t d)"
  using assms by (intro quiet_sweep_logged) (auto simp: keeps_row_meta keeps_row_op)

lemma sound_delete_with_children:
  assumes obj: "obj = fetch T u (it_eid it) d" and quiet: "quiet u d (cascade d)"
    and frame: "\<And>d'. cascade d = Inr d' \<Longrightarrow> fetch T u (it_eid it) d' = fetch T u (it_eid it) d"
    and stub: "\<And>r. stub = Some r \<Longrightarrow> rid r = it_eid it \<and> ruser r = u \<and> rver r = 1 \<and> is_deleted r"
  shows "sound u it d (delete_with_children E T stub u it obj cascade d)"
  unfolding delete_with_children_def
proof (rule sound_bind)
  fix d'
  assume "(case obj of None \<Rightarrow> Inr d | Some r \<Rightarrow> if is_deleted r then Inr d else cascade d) = Inr d'"
  with frame obj have "obj = fetch T u (it_eid it) d'"
    by (auto split: option.splits if_splits)
  with stub show "sound u it d' (apply_learning_delete E T stub u it obj d')"
    by (intro sound_learning_delete)
qed (auto simp: quiet split: option.split)

lemma sound_leaf_delete:
  assumes "obj = fetch T u (it_eid it) d"
    and "rid r = it_eid it" and "ruser r = u" and "rver r = 1" and "rdeleted r \<noteq> None"
  shows "sound u it d (leaf_delete E T r u it obj d)"
  unfolding leaf_delete_def
  using assms(1) sound_phantom [OF assms(2-5)] sound_delete_live
  by (auto intro!: sound_settle split: option.split)

end

text \<open>A cascade told as a life: the changes it logs are those of its table, in table order.\<close>

definition told :: "uuid \<Rightarrow> etype \<Rightarrow> change_op \<Rightarrow> (uuid \<times> int) list \<Rightarrow> change list" where
  "told u e op bs =
     map (\<lambda>b. \<lparr>ch_user = u, ch_etype = e, ch_eid = fst b, ch_op = op, ch_version = snd b\<rparr>) bs"

lemma told_simps [simp]:
  "told u e op [] = []"
  "told u e op (b # bs) =
     \<lparr>ch_user = u, ch_etype = e, ch_eid = fst b, ch_op = op, ch_version = snd b\<rparr> # told u e op bs"
  by (simp_all add: told_def)

lemma about_told_other: "e' \<noteq> e \<Longrightarrow> about e' i (told u e op bs) = []"
  by (induction bs) simp_all

context synced_table
begin

lemma sweep_logged_lives:
  assumes "wf d" and "sweep_logged T u P f op t d = Inr d'" and "keeps_meta f"
    and "\<And>r. P r \<Longrightarrow> ruser r = u \<and> \<not> is_deleted r" and "\<And>r. P r \<Longrightarrow> op = op_for (f r)"
  shows "\<exists>bs. lives u d (told u (tb_etype T) op bs) d' \<and> wf d' \<and>
    change_log d' = change_log d @ told u (tb_etype T) op bs \<and> db_ledger d' = db_ledger d"
proof -
  from assms(2) obtain d1 bs where sw: "sql_sweep T P f t d = Inr (d1, bs)"
    and d': "d' = log_all u (tb_etype T) op bs d1"
    by (auto simp: sweep_logged_def bindE_eq_Inr)
  note l = sweep_lives [OF assms(1) sw assms(3-5)]
  have "lives u d (told u (tb_etype T) op bs) d'"
    unfolding told_def by (rule lives_cong [OF conjunct1 [OF l]]) (simp_all add: d')
  with l show ?thesis
    by (auto simp: d' change_log_log_all told_def sweep_ledger [OF sw])
qed

end

section \<open>Two tables that do not touch each other\<close>

text \<open>
  The delete handlers cascade to the children before they tombstone the parent row they fetched:
  what they read of the parent's table is unaffected by statements on the children's.
\<close>

locale independent =
  fixes T :: "'a row_scheme tab" and U :: "'b row_scheme tab"
  assumes get_other: "tb_get T (tb_put U t d) = tb_get T d"
    and get_log: "tb_get T (log_change u e i op v d) = tb_get T d"
begin

lemma get_log_all: "tb_get T (log_all u e op bs d) = tb_get T d"
  by (induction bs arbitrary: d) (simp_all add: get_log)

lemma sweep_logged_frame:
  "sweep_logged U u P f op t d = Inr d' \<Longrightarrow> tb_get T d' = tb_get T d"
  by (auto simp: sweep_logged_def sql_sweep_def Let_def bindE_eq_Inr get_log_all get_other
      split: if_splits)

lemma fetch_frame:
  "sweep_logged U u P f op t d = Inr d' \<Longrightarrow> fetch T v i d' = fetch T v i d"
  by (simp add: fetch_def sweep_logged_frame)

end

end
