(* ===== verification/Sessions.thy ===== *)
theory Sessions
  imports Handler
begin

text \<open>
  The push handlers of the classroom session and the entities under it, from
  internal/sync/service.go: applySession with its cascade, applyEntry, applyCorrection,
  applyBookmark, applyFavorite, applyNote, applyStudyReview and applyAttachment. Each handler
  fetches the row by id and user, and dispatches to its delete path, its insert or its merge.
\<close>

section \<open>Session\<close>

text \<open>\<open>cascadeDeleteChildren\<close>: tombstone the live children, unlink the materials.\<close>

definition cascade_delete_children :: "env \<Rightarrow> uuid \<Rightarrow> uuid \<Rightarrow> db \<Rightarrow> db_error + db" where
  "cascade_delete_children E u sid d =
     (let t = en_now E in
      bindE (sweep_logged entries_tab u
               (\<lambda>r. ruser r = u \<and> e_session_id r = sid \<and> \<not> is_deleted r) (tombstone t) Delete t d)
      (\<lambda>d. bindE (sweep_logged bookmarks_tab u
               (\<lambda>r. ruser r = u \<and> b_session_id r = sid \<and> \<not> is_deleted r) (tombstone t) Delete t d)
      (\<lambda>d. bindE (sweep_logged favorites_tab u
               (\<lambda>r. ruser r = u \<and> f_session_id r = sid \<and> \<not> is_deleted r) (tombstone t) Delete t d)
      (\<lambda>d. bindE (sweep_logged session_notes_tab u
               (\<lambda>r. ruser r = u \<and> n_session_id r = sid \<and> \<not> is_deleted r) (tombstone t) Delete t d)
      (\<lambda>d. bindE (sweep_logged reviews_tab u
               (\<lambda>r. ruser r = u \<and> rv_session_id r = sid \<and> \<not> is_deleted r) (tombstone t) Delete t d)
      (\<lambda>d. bindE (sweep_logged attachments_tab u
               (\<lambda>r. ruser r = u \<and> a_session_id r = sid \<and> \<not> is_deleted r) (tombstone t) Delete t d)
      (\<lambda>d. bindE (sweep_logged corrections_tab u
               (\<lambda>r. ruser r = u \<and> c_session_id r = sid \<and> \<not> is_deleted r) (tombstone t) Delete t d)
      (\<lambda>d. sweep_logged materials_tab u
               (\<lambda>r. ruser r = u \<and> m_session_id r = Some sid \<and> \<not> is_deleted r)
               (\<lambda>r. r\<lparr>m_session_id := None\<rparr>) Upsert t d))))))))"

definition session_phantom :: "env \<Rightarrow> uuid \<Rightarrow> push_item \<Rightarrow> session_row" where
  "session_phantom E u it =
     \<lparr>rid = it_eid it, ruser = u, rver = 1, rupdated = en_now E, rdeleted = Some (en_now E),
      s_title = [], s_started_at = it_client_at it, s_ended_at = None, s_duration = 0,
      s_src_lang = ''ru'', s_tgt_lang = ''zh-CN'', s_status = ''finished'', s_abnormal = False,
      s_course_id = None\<rparr>"

definition finish_session :: "time \<Rightarrow> session_row \<Rightarrow> session_row" where
  "finish_session t s = s\<lparr>rdeleted := Some t, s_status := ''finished''\<rparr>"

definition apply_session_delete ::
  "env \<Rightarrow> uuid \<Rightarrow> push_item \<Rightarrow> session_row option \<Rightarrow> db \<Rightarrow> db_error + db \<times> push_result" where
  "apply_session_delete E u it obj d =
     (case obj of
        None \<Rightarrow> commit_insert sessions_tab u it Delete (session_phantom E u it) d
      | Some s \<Rightarrow>
          if is_deleted s then settle u it (accepted it (rver s) (rupdated s)) d
          else
            bindE (update_logged sessions_tab u (it_eid it) Delete (finish_session (en_now E))
                     (en_now E) d) (\<lambda>dv.
            bindE (cascade_delete_children E u (it_eid it) (fst dv)) (\<lambda>d.
            settle u it (accepted it (snd dv) (en_now E)) d)))"

definition new_session :: "env \<Rightarrow> uuid \<Rightarrow> push_item \<Rightarrow> time \<Rightarrow> session_row" where
  "new_session E u it started =
     (let p = payload_of it; s = p_session p in
      \<lparr>rid = it_eid it, ruser = u, rver = 1, rupdated = en_now E, rdeleted = None,
       s_title = or_keep [] (p_title p), s_started_at = started, s_ended_at = p_ended_at s,
       s_duration = or_keep 0 (p_duration s),
       s_src_lang = or_keep ''ru'' (p_source_language s),
       s_tgt_lang = or_keep ''zh-CN'' (p_target_language s),
       s_status = or_keep ''active'' (p_session_status s),
       s_abnormal = or_keep False (p_abnormal s),
       s_course_id = ref_or_nil (p_course_id (p_refs p))\<rparr>)"

definition merge_session :: "payload \<Rightarrow> session_row \<Rightarrow> session_row" where
  "merge_session p r =
     (let s = p_session p in
      r\<lparr>s_title := or_keep (s_title r) (p_title p),
        s_ended_at := or_keep_opt (s_ended_at r) (p_ended_at s),
        s_duration := or_keep (s_duration r) (p_duration s),
        s_status := or_keep (s_status r) (p_session_status s),
        s_abnormal := (case p_abnormal s of None \<Rightarrow> s_abnormal r | Some b \<Rightarrow> s_abnormal r \<or> b),
        s_course_id := merge_ref (s_course_id r) (p_course_id (p_refs p))\<rparr>)"

definition apply_session ::
  "env \<Rightarrow> uuid \<Rightarrow> push_item \<Rightarrow> db \<Rightarrow> db_error + db \<times> push_result" where
  "apply_session E u it d =
     (let obj = fetch sessions_tab u (it_eid it) d; p = payload_of it in
      if is_delete it then apply_session_delete E u it obj d
      else
        case obj of
          None \<Rightarrow>
            (case p_started_at (p_session p) of
               None \<Rightarrow> reject u it d
             | Some t \<Rightarrow> commit_insert sessions_tab u it Upsert (new_session E u it t) d)
        | Some s \<Rightarrow>
            version_gate sessions_tab u it s d
              (commit_update sessions_tab u it Upsert (merge_session p) (en_now E) d))"

section \<open>Transcript entry\<close>

definition entry_phantom :: "env \<Rightarrow> uuid \<Rightarrow> push_item \<Rightarrow> entry_row" where
  "entry_phantom E u it =
     (let p = payload_of it in
      \<lparr>rid = it_eid it, ruser = u, rver = 1, rupdated = en_now E, rdeleted = Some (en_now E),
       e_session_id = or_keep uuid_nil (p_session_id (p_refs p)),
       e_sequence_id = or_keep 0 (p_sequence_id (p_entry p)),
       e_start_offset = 0, e_end_offset = 0, e_russian = [], e_chinese = None,
       e_status = ''pending'', e_time_source = ''legacy''\<rparr>)"

definition audio_or :: "string \<Rightarrow> string option \<Rightarrow> string" where
  "audio_or stored p = (if p = Some ''audio'' then ''audio'' else stored)"

definition new_entry :: "env \<Rightarrow> uuid \<Rightarrow> push_item \<Rightarrow> uuid \<Rightarrow> int \<Rightarrow> string \<Rightarrow> entry_row" where
  "new_entry E u it sid sq ru =
     (let p = p_entry (payload_of it) in
      \<lparr>rid = it_eid it, ruser = u, rver = 1, rupdated = en_now E, rdeleted = None,
       e_session_id = sid, e_sequence_id = sq,
       e_start_offset = or_keep 0 (p_start_offset p), e_end_offset = or_keep 0 (p_end_offset p),
       e_russian = ru, e_chinese = p_chinese_text p,
       e_status = or_keep ''pending'' (p_translation_status p),
       e_time_source = audio_or ''legacy'' (p_time_source p)\<rparr>)"

definition merge_entry :: "entry_p \<Rightarrow> entry_row \<Rightarrow> entry_row" where
  "merge_entry p r =
     r\<lparr>e_start_offset := (if e_start_offset r = 0 then or_keep (e_start_offset r) (p_start_offset p)
                          else e_start_offset r),
       e_end_offset := (if e_end_offset r = 0 then or_keep (e_end_offset r) (p_end_offset p)
                        else e_end_offset r),
       e_chinese := (case nonblank (p_chinese_text p) of None \<Rightarrow> e_chinese r | Some c \<Rightarrow> Some c),
       e_status := nonempty_or (e_status r) (p_translation_status p),
       e_time_source := audio_or (e_time_source r) (p_time_source p)\<rparr>"

definition apply_entry_upsert ::
  "env \<Rightarrow> uuid \<Rightarrow> push_item \<Rightarrow> entry_row option \<Rightarrow> db \<Rightarrow> db_error + db \<times> push_result" where
  "apply_entry_upsert E u it obj d =
     (let p = payload_of it in
      case (p_session_id (p_refs p), p_sequence_id (p_entry p), p_russian_text (p_entry p)) of
        (Some sid, Some sq, Some ru) \<Rightarrow>
          if \<not> session_live u sid d then reject u it d
          else
            (case obj of
               None \<Rightarrow> commit_insert entries_tab u it Upsert (new_entry E u it sid sq ru) d
             | Some e \<Rightarrow>
                 version_gate entries_tab u it e d
                   (if ru \<noteq> e_russian e then
                      settle u it (conflict it (rver e) (rupdated e) (entry_record_json e)) d
                    else commit_update entries_tab u it Upsert (merge_entry (p_entry p)) (en_now E) d))
      | _ \<Rightarrow> reject u it d)"

definition apply_entry ::
  "env \<Rightarrow> uuid \<Rightarrow> push_item \<Rightarrow> db \<Rightarrow> db_error + db \<times> push_result" where
  "apply_entry E u it d =
     (let obj = fetch entries_tab u (it_eid it) d in
      if is_delete it then leaf_delete E entries_tab (entry_phantom E u it) u it obj d
      else apply_entry_upsert E u it obj d)"

section \<open>Transcript correction\<close>

definition correction_phantom :: "env \<Rightarrow> uuid \<Rightarrow> push_item \<Rightarrow> correction_row" where
  "correction_phantom E u it =
     \<lparr>rid = it_eid it, ruser = u, rver = 1, rupdated = en_now E, rdeleted = Some (en_now E),
      c_session_id = or_keep uuid_nil (p_session_id (p_refs (payload_of it))),
      c_russian = [], c_chinese = None, c_modified_at = it_client_at it,
      c_needs_retrans = False\<rparr>"

definition correction_modified :: "env \<Rightarrow> push_item \<Rightarrow> time" where
  "correction_modified E it =
     or_keep (en_wall E (it_op_id it)) (p_corr_modified_at (p_correction (payload_of it)))"

definition new_correction :: "env \<Rightarrow> uuid \<Rightarrow> push_item \<Rightarrow> entry_row \<Rightarrow> correction_row" where
  "new_correction E u it parent =
     (let p = p_correction (payload_of it) in
      \<lparr>rid = it_eid it, ruser = u, rver = 1, rupdated = en_now E, rdeleted = None,
       c_session_id = e_session_id parent,
       c_russian = or_keep [] (p_corr_russian p), c_chinese = p_corr_chinese p,
       c_modified_at = correction_modified E it,
       c_needs_retrans = or_keep False (p_corr_retranslate p)\<rparr>)"

definition merge_correction :: "time \<Rightarrow> correction_p \<Rightarrow> correction_row \<Rightarrow> correction_row" where
  "merge_correction modified p r =
     (let newer = \<not> modified < c_modified_at r in
      r\<lparr>c_russian := (if newer then or_keep [] (p_corr_russian p) else c_russian r),
        c_chinese := (if newer then p_corr_chinese p else c_chinese r),
        c_modified_at := max_time (c_modified_at r) modified,
        c_needs_retrans := or_keep False (p_corr_retranslate p)\<rparr>)"

definition apply_correction ::
  "env \<Rightarrow> uuid \<Rightarrow> push_item \<Rightarrow> db \<Rightarrow> db_error + db \<times> push_result" where
  "apply_correction E u it d =
     (let obj = fetch corrections_tab u (it_eid it) d in
      if is_delete it then leaf_delete E corrections_tab (correction_phantom E u it) u it obj d
      else
        case entry_live u (it_eid it) d of
          None \<Rightarrow> reject u it d
        | Some parent \<Rightarrow>
            (case obj of
               None \<Rightarrow> commit_insert corrections_tab u it Upsert (new_correction E u it parent) d
             | Some c \<Rightarrow>
                 version_gate corrections_tab u it c d
                   (commit_update corrections_tab u it Upsert
                      (merge_correction (correction_modified E it) (p_correction (payload_of it)))
                      (en_now E) d)))"

section \<open>Bookmark and favorite\<close>

definition bookmark_phantom :: "env \<Rightarrow> uuid \<Rightarrow> push_item \<Rightarrow> bookmark_row" where
  "bookmark_phantom E u it =
     \<lparr>rid = it_eid it, ruser = u, rver = 1, rupdated = en_now E, rdeleted = Some (en_now E),
      b_session_id = or_keep uuid_nil (p_session_id (p_refs (payload_of it))),
      b_entry_id = uuid_nil, b_is_bookmarked = False\<rparr>"

definition new_bookmark :: "env \<Rightarrow> uuid \<Rightarrow> push_item \<Rightarrow> uuid \<Rightarrow> bookmark_row" where
  "new_bookmark E u it eid =
     (let p = payload_of it in
      \<lparr>rid = it_eid it, ruser = u, rver = 1, rupdated = en_now E, rdeleted = None,
       b_session_id = or_keep uuid_nil (p_session_id (p_refs p)), b_entry_id = eid,
       b_is_bookmarked = or_keep True (p_is_bookmarked (p_flags p))\<rparr>)"

definition merge_bookmark :: "flags_p \<Rightarrow> bookmark_row \<Rightarrow> bookmark_row" where
  "merge_bookmark p r = r\<lparr>b_is_bookmarked := or_keep (b_is_bookmarked r) (p_is_bookmarked p)\<rparr>"

definition apply_bookmark ::
  "env \<Rightarrow> uuid \<Rightarrow> push_item \<Rightarrow> db \<Rightarrow> db_error + db \<times> push_result" where
  "apply_bookmark E u it d =
     (let obj = fetch bookmarks_tab u (it_eid it) d; p = payload_of it in
      if is_delete it then leaf_delete E bookmarks_tab (bookmark_phantom E u it) u it obj d
      else
        case p_entry_id (p_refs p) of
          None \<Rightarrow> reject u it d
        | Some eid \<Rightarrow>
            (case obj of
               None \<Rightarrow>
                 if it_base it \<noteq> 0 then reject u it d
                 else commit_insert bookmarks_tab u it Upsert (new_bookmark E u it eid) d
             | Some b \<Rightarrow>
                 version_gate bookmarks_tab u it b d
                   (commit_update bookmarks_tab u it Upsert (merge_bookmark (p_flags p))
                      (en_now E) d)))"

definition favorite_phantom :: "env \<Rightarrow> uuid \<Rightarrow> push_item \<Rightarrow> favorite_row" where
  "favorite_phantom E u it =
     \<lparr>rid = it_eid it, ruser = u, rver = 1, rupdated = en_now E, rdeleted = Some (en_now E),
      f_session_id = uuid_nil, f_is_favorite = False\<rparr>"

definition new_favorite :: "env \<Rightarrow> uuid \<Rightarrow> push_item \<Rightarrow> bool \<Rightarrow> favorite_row" where
  "new_favorite E u it fav =
     \<lparr>rid = it_eid it, ruser = u, rver = 1, rupdated = en_now E, rdeleted = None,
      f_session_id = or_keep (it_eid it) (p_session_id (p_refs (payload_of it))),
      f_is_favorite = fav\<rparr>"

definition merge_favorite :: "flags_p \<Rightarrow> favorite_row \<Rightarrow> favorite_row" where
  "merge_favorite p r = r\<lparr>f_is_favorite := or_keep (f_is_favorite r) (p_is_favorite p)\<rparr>"

definition apply_favorite ::
  "env \<Rightarrow> uuid \<Rightarrow> push_item \<Rightarrow> db \<Rightarrow> db_error + db \<times> push_result" where
  "apply_favorite E u it d =
     (let obj = fetch favorites_tab u (it_eid it) d; p = payload_of it in
      if is_delete it then leaf_delete E favorites_tab (favorite_phantom E u it) u it obj d
      else
        case obj of
          None \<Rightarrow>
            (case p_is_favorite (p_flags p) of
               None \<Rightarrow> reject u it d
             | Some fav \<Rightarrow>
                 if it_base it \<noteq> 0 then reject u it d
                 else commit_insert favorites_tab u it Upsert (new_favorite E u it fav) d)
        | Some f \<Rightarrow>
            version_gate favorites_tab u it f d
              (commit_update favorites_tab u it Upsert (merge_favorite (p_flags p)) (en_now E) d))"

section \<open>Note\<close>

definition note_phantom :: "env \<Rightarrow> uuid \<Rightarrow> push_item \<Rightarrow> note_row" where
  "note_phantom E u it =
     \<lparr>rid = it_eid it, ruser = u, rver = 1, rupdated = en_now E, rdeleted = Some (en_now E),
      n_session_id = or_keep uuid_nil (p_session_id (p_refs (payload_of it))),
      n_anchor_entry = None, n_text = [], n_time_offset = None\<rparr>"

definition new_note :: "env \<Rightarrow> uuid \<Rightarrow> push_item \<Rightarrow> uuid \<Rightarrow> string \<Rightarrow> note_row" where
  "new_note E u it sid txt =
     (let p = payload_of it in
      \<lparr>rid = it_eid it, ruser = u, rver = 1, rupdated = en_now E, rdeleted = None,
       n_session_id = sid, n_anchor_entry = ref_or_nil (p_anchor_entry (p_refs p)),
       n_text = txt, n_time_offset = p_note_time_offset (p_note p)\<rparr>)"

definition merge_note :: "payload \<Rightarrow> string \<Rightarrow> note_row \<Rightarrow> note_row" where
  "merge_note p txt r =
     r\<lparr>n_anchor_entry := merge_ref (n_anchor_entry r) (p_anchor_entry (p_refs p)),
       n_text := empty_keeps (n_text r) txt,
       n_time_offset := or_keep_opt (n_time_offset r) (p_note_time_offset (p_note p))\<rparr>"

definition apply_note ::
  "env \<Rightarrow> uuid \<Rightarrow> push_item \<Rightarrow> db \<Rightarrow> db_error + db \<times> push_result" where
  "apply_note E u it d =
     (let obj = fetch session_notes_tab u (it_eid it) d; p = payload_of it in
      if is_delete it then leaf_delete E session_notes_tab (note_phantom E u it) u it obj d
      else
        case (p_session_id (p_refs p), p_note_text (p_note p)) of
          (Some sid, Some txt) \<Rightarrow>
            if \<not> session_live u sid d then reject u it d
            else
              (case obj of
                 None \<Rightarrow> commit_insert session_notes_tab u it Upsert (new_note E u it sid txt) d
               | Some n \<Rightarrow>
                   version_gate session_notes_tab u it n d
                     (commit_update session_notes_tab u it Upsert (merge_note p txt) (en_now E) d))
        | _ \<Rightarrow> reject u it d)"

section \<open>Study review\<close>

definition review_phantom :: "env \<Rightarrow> uuid \<Rightarrow> push_item \<Rightarrow> review_row" where
  "review_phantom E u it =
     \<lparr>rid = it_eid it, ruser = u, rver = 1, rupdated = en_now E, rdeleted = Some (en_now E),
      rv_session_id = it_eid it, rv_status = ''failed'', rv_content = [], rv_generated = [],
      rv_model = [], rv_generated_at = None, rv_source_updated_at = None\<rparr>"

definition new_review :: "env \<Rightarrow> uuid \<Rightarrow> push_item \<Rightarrow> string \<Rightarrow> review_row" where
  "new_review E u it st =
     (let p = p_review (payload_of it) in
      \<lparr>rid = it_eid it, ruser = u, rver = 1, rupdated = en_now E, rdeleted = None,
       rv_session_id = it_eid it, rv_status = st, rv_content = or_keep [] (p_review_content p),
       rv_generated = or_keep [] (p_review_generated p), rv_model = or_keep [] (p_review_model p),
       rv_generated_at = p_review_generated_at p, rv_source_updated_at = p_review_source_at p\<rparr>)"

definition merge_review :: "review_p \<Rightarrow> string \<Rightarrow> review_row \<Rightarrow> review_row" where
  "merge_review p st r =
     r\<lparr>rv_status := empty_keeps (rv_status r) st,
       rv_content := nonempty_or (rv_content r) (p_review_content p),
       rv_generated := nonempty_or (rv_generated r) (p_review_generated p),
       rv_model := nonempty_or (rv_model r) (p_review_model p),
       rv_generated_at := or_keep_opt (rv_generated_at r) (p_review_generated_at p),
       rv_source_updated_at := or_keep_opt (rv_source_updated_at r) (p_review_source_at p)\<rparr>"

definition apply_study_review ::
  "env \<Rightarrow> uuid \<Rightarrow> push_item \<Rightarrow> db \<Rightarrow> db_error + db \<times> push_result" where
  "apply_study_review E u it d =
     (let obj = fetch reviews_tab u (it_eid it) d; p = p_review (payload_of it) in
      if is_delete it then leaf_delete E reviews_tab (review_phantom E u it) u it obj d
      else
        case p_review_status p of
          None \<Rightarrow> reject u it d
        | Some st \<Rightarrow>
            if \<not> session_live u (it_eid it) d then reject u it d
            else
              (case obj of
                 None \<Rightarrow> commit_insert reviews_tab u it Upsert (new_review E u it st) d
               | Some r \<Rightarrow>
                   version_gate reviews_tab u it r d
                     (commit_update reviews_tab u it Upsert (merge_review p st) (en_now E) d)))"

section \<open>Attachment\<close>

text \<open>
  The phantom INSERT of \<open>applyAttachment\<close> names neither captured_at nor a value for it; the
  column is NOT NULL without a default (00006_session_attachments.sql), so the statement fails.
\<close>

definition new_attachment ::
  "env \<Rightarrow> uuid \<Rightarrow> push_item \<Rightarrow> uuid \<Rightarrow> time \<Rightarrow> string option \<Rightarrow> attachment_row" where
  "new_attachment E u it sid captured analysis =
     (let pl = payload_of it; p = p_attachment pl; f = p_refs pl in
      \<lparr>rid = it_eid it, ruser = u, rver = 1, rupdated = en_now E, rdeleted = None,
       a_session_id = sid, a_course_id = ref_or_nil (p_course_id f),
       a_anchor_entry = ref_or_nil (p_anchor_entry f), a_captured_at = captured,
       a_title = or_keep [] (p_title pl), a_caption = or_keep [] (p_att_caption p),
       a_kind = nonempty_or ''other'' (p_att_kind p), a_mime = or_keep [] (p_att_mime p),
       a_width = or_keep 0 (p_att_width p), a_height = or_keep 0 (p_att_height p),
       a_file_size = or_keep 0 (p_att_file_size p), a_hash = or_keep [] (p_att_hash p),
       a_sort_index = or_keep 0 (p_att_sort_index p),
       a_transform = or_keep [] (p_att_transform p),
       a_analysis_status = nonempty_or ''pending'' (p_att_analysis_state p),
       a_analysis = analysis, a_ocr_text = or_keep [] (p_att_ocr_text p)\<rparr>)"

definition merge_attachment ::
  "payload \<Rightarrow> string option \<Rightarrow> attachment_row \<Rightarrow> attachment_row" where
  "merge_attachment pl analysis r =
     (let p = p_attachment pl; f = p_refs pl in
      r\<lparr>a_title := nonempty_or (a_title r) (p_title pl),
        a_caption := nonempty_or (a_caption r) (p_att_caption p),
        a_kind := nonempty_or (a_kind r) (p_att_kind p),
        a_mime := nonempty_or (a_mime r) (p_att_mime p),
        a_sort_index := or_keep (a_sort_index r) (p_att_sort_index p),
        a_course_id := merge_ref (a_course_id r) (p_course_id f),
        a_anchor_entry := merge_ref (a_anchor_entry r) (p_anchor_entry f),
        a_captured_at := or_keep (a_captured_at r) (p_att_captured_at p),
        a_ocr_text := nonempty_or (a_ocr_text r) (p_att_ocr_text p),
        a_analysis_status := nonempty_or (a_analysis_status r) (p_att_analysis_state p),
        a_transform := or_keep (a_transform r) (p_att_transform p),
        a_analysis := analysis\<rparr>)"

definition apply_attachment_delete ::
  "env \<Rightarrow> uuid \<Rightarrow> push_item \<Rightarrow> attachment_row option \<Rightarrow> db \<Rightarrow> db_error + db \<times> push_result" where
  "apply_attachment_delete E u it obj d =
     (case obj of
        None \<Rightarrow> Inl NotNullViolation
      | Some a \<Rightarrow>
          if is_deleted a then settle u it (accepted it (rver a) (rupdated a)) d
          else
            bindE (update_logged attachments_tab u (it_eid it) Delete (tombstone (en_now E))
                     (en_now E) d) (\<lambda>dv.
            settle u it (accepted it (snd dv) (en_now E))
              (if en_files E then add_hook u (it_eid it) (fst dv) else fst dv)))"

definition apply_attachment ::
  "env \<Rightarrow> uuid \<Rightarrow> push_item \<Rightarrow> db \<Rightarrow> db_error + db \<times> push_result" where
  "apply_attachment E u it d =
     (let obj = fetch attachments_tab u (it_eid it) d; pl = payload_of it; p = p_attachment pl in
      if is_delete it then apply_attachment_delete E u it obj d
      else
        case (p_session_id (p_refs pl), p_att_captured_at p) of
          (Some sid, Some captured) \<Rightarrow>
            if \<not> session_live u sid d then reject u it d
            else
              (case obj of
                 None \<Rightarrow>
                   bindE (jsonb_cast E (nonempty_or [] (p_att_analysis p))) (\<lambda>analysis.
                   commit_insert attachments_tab u it Upsert
                     (new_attachment E u it sid captured analysis) d)
               | Some a \<Rightarrow>
                   version_gate attachments_tab u it a d
                     (bindE (jsonb_cast E (nonempty_or (or_keep [] (a_analysis a)) (p_att_analysis p)))
                       (\<lambda>analysis.
                      commit_update attachments_tab u it Upsert (merge_attachment pl analysis)
                        (en_now E) d)))
        | _ \<Rightarrow> reject u it d)"

section \<open>Soundness\<close>

lemma merges_keep_row [simp]:
  "keeps_row (merge_session pl)" "keeps_row (merge_entry pe)" "keeps_row (merge_correction t pc)"
  "keeps_row (merge_bookmark pf)" "keeps_row (merge_favorite pf)" "keeps_row (merge_note pl s)"
  "keeps_row (merge_review pr s)" "keeps_row (merge_attachment pl a)"
  by (rule keeps_rowI; simp add: merge_session_def merge_entry_def merge_correction_def
      merge_bookmark_def merge_favorite_def merge_note_def merge_review_def merge_attachment_def
      Let_def)+

lemma detach_session_keeps [simp]: "keeps_row (\<lambda>r. r\<lparr>m_session_id := None\<rparr>)"
  by (rule keeps_rowI) simp

lemma finish_session_meta [simp]: "keeps_meta (finish_session t)" "op_for (finish_session t r) = Delete"
  by (simp_all add: keeps_meta_def finish_session_def op_for_def)

lemma quiet_cascade_delete_children: "quiet u d (cascade_delete_children E u sid d)"
  unfolding cascade_delete_children_def Let_def
  by (intro quiet_bind entries.quiet_tombstone_sweep bookmarks.quiet_tombstone_sweep
      favorites.quiet_tombstone_sweep session_notes.quiet_tombstone_sweep
      reviews.quiet_tombstone_sweep attachments.quiet_tombstone_sweep
      corrections.quiet_tombstone_sweep materials.quiet_detach_sweep) simp_all

lemma sound_apply_session: "sound u it d (apply_session E u it d)"
  unfolding apply_session_def apply_session_delete_def Let_def
  by (auto simp: session_phantom_def new_session_def Let_def
      intro!: sound_settle sessions.sound_phantom sessions.sound_new sessions.sound_gated_merge
        sessions.sound_update sound_bind [OF quiet_cascade_delete_children]
      split: option.split)

lemma sound_apply_entry: "sound u it d (apply_entry E u it d)"
  unfolding apply_entry_def apply_entry_upsert_def Let_def
  by (auto simp: entry_phantom_def new_entry_def Let_def
      intro!: sound_settle entries.sound_leaf_delete entries.sound_new sound_gate
        entries.sound_merge
      split: option.split)

lemma sound_apply_correction: "sound u it d (apply_correction E u it d)"
  unfolding apply_correction_def Let_def
  by (auto simp: correction_phantom_def new_correction_def Let_def
      intro!: corrections.sound_leaf_delete corrections.sound_new corrections.sound_gated_merge
      split: option.split)

lemma sound_apply_bookmark: "sound u it d (apply_bookmark E u it d)"
  unfolding apply_bookmark_def Let_def
  by (auto simp: bookmark_phantom_def new_bookmark_def Let_def
      intro!: bookmarks.sound_leaf_delete bookmarks.sound_new bookmarks.sound_gated_merge
      split: option.split)

lemma sound_apply_favorite: "sound u it d (apply_favorite E u it d)"
  unfolding apply_favorite_def Let_def
  by (auto simp: favorite_phantom_def new_favorite_def Let_def
      intro!: favorites.sound_leaf_delete favorites.sound_new favorites.sound_gated_merge
      split: option.split)

lemma sound_apply_note: "sound u it d (apply_note E u it d)"
  unfolding apply_note_def Let_def
  by (auto simp: note_phantom_def new_note_def Let_def
      intro!: session_notes.sound_leaf_delete session_notes.sound_new
        session_notes.sound_gated_merge
      split: option.split)

lemma sound_apply_study_review: "sound u it d (apply_study_review E u it d)"
  unfolding apply_study_review_def Let_def
  by (auto simp: review_phantom_def new_review_def Let_def
      intro!: reviews.sound_leaf_delete reviews.sound_new reviews.sound_gated_merge
      split: option.split)

lemma sound_apply_attachment_delete:
  assumes "obj = fetch attachments_tab u (it_eid it) d"
  shows "sound u it d (apply_attachment_delete E u it obj d)"
proof -
  have hook: "sound u it d' (settle u it res (add_hook u (it_eid it) d'))"
    if "res_op_id res = it_op_id it" for d' res
    by (rule sound_add_hook [OF sound_settle [OF that]])
  show ?thesis
    unfolding apply_attachment_delete_def using assms
    by (auto simp: op_for_def intro!: hook sound_settle attachments.sound_update
        split: option.split)
qed

lemma sound_apply_attachment: "sound u it d (apply_attachment E u it d)"
  unfolding apply_attachment_def Let_def
  by (auto simp: new_attachment_def Let_def
      intro!: sound_apply_attachment_delete attachments.sound_new sound_gate sound_bind_value
        attachments.sound_merge
      split: option.split)

end
