(* ===== verification/Schedules.thy ===== *)
theory Schedules
  imports Handler
begin

text \<open>
  Course schedules and their exceptions (applyCourseSchedule, applyScheduleException and the
  cascades between them, internal/sync/service.go). A schedule's delete, alone or with its
  course, tombstones its exceptions.
\<close>

section \<open>Cascades\<close>

definition cascade_delete_exceptions :: "env \<Rightarrow> uuid \<Rightarrow> uuid \<Rightarrow> db \<Rightarrow> db_error + db" where
  "cascade_delete_exceptions E u sid d =
     sweep_logged exceptions_tab u
       (\<lambda>r. ruser r = u \<and> x_schedule_id r = sid \<and> \<not> is_deleted r)
       (tombstone (en_now E)) Delete (en_now E) d"

text \<open>The loop over the tombstoned schedules: log one, then cascade to its exceptions.\<close>

primrec cascade_schedules :: "env \<Rightarrow> uuid \<Rightarrow> (uuid \<times> int) list \<Rightarrow> db \<Rightarrow> db_error + db" where
  "cascade_schedules E u [] d = Inr d"
| "cascade_schedules E u (b # bs) d =
     bindE (cascade_delete_exceptions E u (fst b)
              (log_change u ECourseSchedule (fst b) Delete (snd b) d))
       (cascade_schedules E u bs)"

definition cascade_delete_schedules :: "env \<Rightarrow> uuid \<Rightarrow> uuid \<Rightarrow> db \<Rightarrow> db_error + db" where
  "cascade_delete_schedules E u cid d =
     bindE (sql_sweep schedules_tab
              (\<lambda>r. ruser r = u \<and> sc_course_id r = Some cid \<and> \<not> is_deleted r)
              (tombstone (en_now E)) (en_now E) d)
       (\<lambda>db. cascade_schedules E u (snd db) (fst db))"

section \<open>Course schedule\<close>

definition valid_recurrence :: "string \<Rightarrow> bool" where
  "valid_recurrence r \<longleftrightarrow> r \<in> {''weekly'', ''biweekly'', ''odd_weeks'', ''even_weeks'', ''once''}"

definition parse_opt_date :: "string option \<Rightarrow> unit + date option" where
  "parse_opt_date p = (case p of None \<Rightarrow> Inr None | Some s \<Rightarrow> parse_wire_date s)"

text \<open>The four dates of a schedule; any that does not parse rejects the item.\<close>

record schedule_dates =
  sd_start :: "date option"
  sd_end :: "date option"
  sd_parity :: "date option"
  sd_once :: "date option"

definition parse_schedule_dates :: "schedule_p \<Rightarrow> unit + schedule_dates" where
  "parse_schedule_dates p =
     bindE (parse_opt_date (p_sched_semester_start p)) (\<lambda>a.
     bindE (parse_opt_date (p_sched_semester_end p)) (\<lambda>b.
     bindE (parse_opt_date (p_sched_parity_anchor p)) (\<lambda>c.
     bindE (parse_opt_date (p_sched_once_date p)) (\<lambda>d.
     Inr \<lparr>sd_start = a, sd_end = b, sd_parity = c, sd_once = d\<rparr>))))"

definition sched_recurrence :: "schedule_p \<Rightarrow> string" where
  "sched_recurrence p = nonempty_or ''weekly'' (p_sched_recurrence p)"

definition sched_timezone :: "schedule_p \<Rightarrow> string" where
  "sched_timezone p = nonempty_or ''UTC'' (p_sched_timezone p)"

definition new_schedule ::
  "env \<Rightarrow> uuid \<Rightarrow> push_item \<Rightarrow> schedule_dates \<Rightarrow> date \<Rightarrow> date \<Rightarrow> schedule_row" where
  "new_schedule E u it ds start_d end_d =
     (let pl = it_payload it; p = p_schedule pl in
      \<lparr>rid = it_eid it, ruser = u, rver = 1, rupdated = en_now E, rdeleted = None,
       sc_course_id = ref_or_nil (p_course_id (p_refs pl)),
       sc_weekday = or_keep 1 (p_sched_weekday p), sc_start_secs = or_keep 0 (p_sched_start_secs p),
       sc_end_secs = or_keep 0 (p_sched_end_secs p), sc_recurrence = sched_recurrence p,
       sc_parity_anchor = sd_parity ds,
       sc_first_week_odd = or_keep True (p_sched_first_week_odd p),
       sc_semester_start = start_d, sc_semester_end = end_d,
       sc_timezone = sched_timezone p, sc_teacher = or_keep [] (p_sched_teacher p),
       sc_location = or_keep [] (p_sched_location p), sc_note = or_keep [] (p_sched_note p),
       sc_reminder_mins = or_keep (- 1) (p_sched_reminder_mins p),
       sc_enabled = or_keep True (p_sched_enabled p), sc_once_date = sd_once ds\<rparr>)"

definition merge_schedule :: "payload \<Rightarrow> schedule_dates \<Rightarrow> schedule_row \<Rightarrow> schedule_row" where
  "merge_schedule pl ds r =
     (let p = p_schedule pl in
      r\<lparr>sc_course_id := merge_ref (sc_course_id r) (p_course_id (p_refs pl)),
        sc_weekday := or_keep (sc_weekday r) (p_sched_weekday p),
        sc_start_secs := or_keep (sc_start_secs r) (p_sched_start_secs p),
        sc_end_secs := or_keep (sc_end_secs r) (p_sched_end_secs p),
        sc_recurrence := sched_recurrence p,
        sc_parity_anchor := or_keep_opt (sc_parity_anchor r) (sd_parity ds),
        sc_first_week_odd := or_keep (sc_first_week_odd r) (p_sched_first_week_odd p),
        sc_semester_start := or_keep (sc_semester_start r) (sd_start ds),
        sc_semester_end := or_keep (sc_semester_end r) (sd_end ds),
        sc_timezone := (if sched_timezone p = ''UTC'' \<and> sc_timezone r \<noteq> [] then sc_timezone r
                        else sched_timezone p),
        sc_teacher := nonempty_or (sc_teacher r) (p_sched_teacher p),
        sc_location := nonempty_or (sc_location r) (p_sched_location p),
        sc_note := nonempty_or (sc_note r) (p_sched_note p),
        sc_reminder_mins := or_keep (sc_reminder_mins r) (p_sched_reminder_mins p),
        sc_enabled := or_keep (sc_enabled r) (p_sched_enabled p),
        sc_once_date := or_keep_opt (sc_once_date r) (sd_once ds)\<rparr>)"

definition apply_course_schedule ::
  "env \<Rightarrow> uuid \<Rightarrow> push_item \<Rightarrow> db \<Rightarrow> db_error + db \<times> push_result" where
  "apply_course_schedule E u it d =
     (let obj = fetch schedules_tab u (it_eid it) d; pl = it_payload it; p = p_schedule pl in
      if is_delete it then
        delete_with_children E schedules_tab None u it obj
          (cascade_delete_exceptions E u (it_eid it)) d
      else if \<not> valid_recurrence (sched_recurrence p) then reject u it d
      else
        case parse_schedule_dates p of
          Inl _ \<Rightarrow> reject u it d
        | Inr ds \<Rightarrow>
            if \<not> en_tz_known E (sched_timezone p) then reject u it d
            else
              (case obj of
                 None \<Rightarrow>
                   (case (sd_start ds, sd_end ds) of
                      (Some a, Some b) \<Rightarrow>
                        commit_insert schedules_tab u it Upsert (new_schedule E u it ds a b) d
                    | _ \<Rightarrow> reject u it d)
               | Some s \<Rightarrow>
                   version_gate schedules_tab u it s d
                     (commit_update schedules_tab u it Upsert (merge_schedule pl ds) (en_now E) d)))"

section \<open>Schedule exception\<close>

definition valid_exception_kind :: "string \<Rightarrow> bool" where
  "valid_exception_kind k \<longleftrightarrow> k \<in> {''cancelled'', ''time_changed'', ''ad_hoc''}"

definition exception_kind :: "exception_p \<Rightarrow> string" where
  "exception_kind p = nonempty_or ''cancelled'' (p_exc_kind p)"

text \<open>\<open>mergeRefSchedule\<close>: absent keeps, the nil UUID clears, any other UUID assigns.\<close>

definition merge_ref_schedule :: "uuid \<Rightarrow> uuid option \<Rightarrow> uuid option" where
  "merge_ref_schedule stored p =
     (case p of None \<Rightarrow> Some stored | Some i \<Rightarrow> if i = uuid_nil then None else Some i)"

definition new_exception ::
  "env \<Rightarrow> uuid \<Rightarrow> push_item \<Rightarrow> uuid \<Rightarrow> date option \<Rightarrow> date option \<Rightarrow> exception_row" where
  "new_exception E u it sid orig moved =
     (let pl = it_payload it; p = p_exception pl; s = p_schedule pl in
      \<lparr>rid = it_eid it, ruser = u, rver = 1, rupdated = en_now E, rdeleted = None,
       x_schedule_id = sid, x_course_id = ref_or_nil (p_course_id (p_refs pl)),
       x_original_date = orig, x_kind = exception_kind p,
       x_changed_start = p_exc_changed_start p, x_changed_end = p_exc_changed_end p,
       x_moved_to = moved, x_location = or_keep [] (p_sched_location s),
       x_teacher = or_keep [] (p_sched_teacher s), x_note = or_keep [] (p_sched_note s)\<rparr>)"

definition merge_exception ::
  "payload \<Rightarrow> uuid \<Rightarrow> date option \<Rightarrow> date option \<Rightarrow> exception_row \<Rightarrow> exception_row" where
  "merge_exception pl sid orig moved r =
     (let p = p_exception pl; s = p_schedule pl in
      r\<lparr>x_schedule_id := sid,
        x_course_id := merge_ref (x_course_id r) (p_course_id (p_refs pl)),
        x_original_date := (if p_exc_original_date p = None then x_original_date r else orig),
        x_kind := exception_kind p,
        x_changed_start := or_keep_opt (x_changed_start r) (p_exc_changed_start p),
        x_changed_end := or_keep_opt (x_changed_end r) (p_exc_changed_end p),
        x_moved_to := (if p_exc_moved_to p = None then x_moved_to r else moved),
        x_location := nonempty_or (x_location r) (p_sched_location s),
        x_teacher := nonempty_or (x_teacher r) (p_sched_teacher s),
        x_note := nonempty_or (x_note r) (p_sched_note s)\<rparr>)"

definition apply_schedule_exception ::
  "env \<Rightarrow> uuid \<Rightarrow> push_item \<Rightarrow> db \<Rightarrow> db_error + db \<times> push_result" where
  "apply_schedule_exception E u it d =
     (let obj = fetch exceptions_tab u (it_eid it) d; pl = it_payload it; p = p_exception pl in
      if is_delete it then apply_learning_delete E exceptions_tab None u it obj d
      else if \<not> valid_exception_kind (exception_kind p) then reject u it d
      else
        case required_ref (p_schedule_id (p_refs pl)) of
          None \<Rightarrow> reject u it d
        | Some sid \<Rightarrow>
            (case (parse_opt_date (p_exc_original_date p), parse_opt_date (p_exc_moved_to p)) of
               (Inr orig, Inr moved) \<Rightarrow>
                 (case obj of
                    None \<Rightarrow>
                      commit_insert exceptions_tab u it Upsert
                        (new_exception E u it sid orig moved) d
                  | Some x \<Rightarrow>
                      version_gate exceptions_tab u it x d
                        (case merge_ref_schedule (x_schedule_id x) (Some sid) of
                           None \<Rightarrow> Inl NotNullViolation
                         | Some s \<Rightarrow>
                             commit_update exceptions_tab u it Upsert
                               (merge_exception pl s orig moved) (en_now E) d))
             | _ \<Rightarrow> reject u it d))"

section \<open>Soundness\<close>

interpretation sched_frame: independent schedules_tab exceptions_tab
  by unfold_locales (simp_all add: schedules_tab_def exceptions_tab_def log_change_def)

lemma schedules_keep_row [simp]:
  "keeps_row (merge_schedule pl ds)" "keeps_row (merge_exception pl s a b)"
  by (rule keeps_rowI; simp add: merge_schedule_def merge_exception_def Let_def)+

lemma quiet_cascade_delete_exceptions: "quiet u d (cascade_delete_exceptions E u sid d)"
  unfolding cascade_delete_exceptions_def by (rule exceptions.quiet_tombstone_sweep) simp

lemma cascade_exceptions_lives:
  assumes "wf d" and "cascade_delete_exceptions E u sid d = Inr d'"
  shows "\<exists>bs. lives u d (told u EScheduleException Delete bs) d' \<and> wf d' \<and>
    change_log d' = change_log d @ told u EScheduleException Delete bs \<and> db_ledger d' = db_ledger d"
  using exceptions.sweep_logged_lives [OF assms(1) assms(2) [unfolded cascade_delete_exceptions_def]]
  by (simp add: op_for_def exceptions_tab_def)

text \<open>
  The log interleaves each schedule's tombstone with those of its exceptions; seen per row it
  is the tombstones of all schedules followed by those of all exceptions.
\<close>

lemma cascade_schedules_lives:
  assumes "wf d" and "cascade_schedules E u bs d = Inr d'"
  shows "\<exists>xs zs. lives u d xs d' \<and> wf d' \<and> change_log d' = change_log d @ zs \<and>
    db_ledger d' = db_ledger d \<and> (\<forall>e i. e \<noteq> EScheduleException \<longrightarrow> about e i xs = []) \<and>
    set zs = set (told u ECourseSchedule Delete bs) \<union> set xs \<and>
    (\<forall>e i. about e i zs = about e i (told u ECourseSchedule Delete bs @ xs))"
  using assms
proof (induction bs arbitrary: d)
  case Nil
  then show ?case by (intro exI [of _ "[]"]) (simp add: lives_refl)
next
  case (Cons b bs)
  let ?c = "\<lparr>ch_user = u, ch_etype = ECourseSchedule, ch_eid = fst b, ch_op = Delete, ch_version = snd b\<rparr>"
  let ?d = "log_change u ECourseSchedule (fst b) Delete (snd b) d"
  from Cons.prems obtain d1 where 1: "cascade_delete_exceptions E u (fst b) ?d = Inr d1"
    and 2: "cascade_schedules E u bs d1 = Inr d'"
    by (auto simp: bindE_eq_Inr)
  from cascade_exceptions_lives [OF _ 1] Cons.prems(1) obtain es where
    es: "lives u ?d (told u EScheduleException Delete es) d1" "wf d1"
      "change_log d1 = change_log ?d @ told u EScheduleException Delete es"
      "db_ledger d1 = db_ledger ?d" by auto
  from Cons.IH [OF es(2) 2] obtain xs zs where
    xs: "lives u d1 xs d'" "wf d'" "change_log d' = change_log d1 @ zs" "db_ledger d' = db_ledger d1"
      "\<And>e i. e \<noteq> EScheduleException \<Longrightarrow> about e i xs = []"
      "set zs = set (told u ECourseSchedule Delete bs) \<union> set xs"
      "\<And>e i. about e i zs = about e i (told u ECourseSchedule Delete bs @ xs)" by blast
  let ?es = "told u EScheduleException Delete es"
  have "lives u d (?es @ xs) d'"
    by (rule lives_trans [OF lives_cong [OF es(1)] xs(1)]) simp_all
  moreover have "about e i (?c # ?es @ zs) = about e i (told u ECourseSchedule Delete (b # bs) @ ?es @ xs)"
    for e i
    by (cases "e = EScheduleException") (simp_all add: xs(7) about_told_other)
  ultimately show ?case
    using es(3,4) xs(2,3,4,5,6)
    by (intro exI [of _ "?es @ xs"] exI [of _ "?c # ?es @ zs"]) (auto simp: about_told_other)
qed

lemma cascade_schedules_ledger:
  "cascade_schedules E u bs d = Inr d' \<Longrightarrow> db_ledger d' = db_ledger d"
proof (induction bs arbitrary: d)
  case (Cons b bs)
  then show ?case
    using quiet_cascade_delete_exceptions [of u _ E "fst b"]
    by (fastforce simp: bindE_eq_Inr quiet_def)
qed simp

lemma cascade_schedules_grows: "cascade_schedules E u bs d = Inr d' \<Longrightarrow> grows d d'"
proof (induction bs arbitrary: d)
  case (Cons b bs)
  then obtain d1 where
    1: "cascade_delete_exceptions E u (fst b) (log_change u ECourseSchedule (fst b) Delete (snd b) d) = Inr d1"
    and 2: "grows d1 d'"
    by (auto simp: bindE_eq_Inr)
  from quiet_cascade_delete_exceptions [of u _ E "fst b"] 1
  have "grows (log_change u ECourseSchedule (fst b) Delete (snd b) d) d1"
    by (auto simp: quiet_def evolves_def)
  with 2 show ?case by (metis grows_log_change grows_same grows_trans)
qed (simp add: grows_same)

lemma quiet_cascade_delete_schedules: "quiet u d (cascade_delete_schedules E u cid d)"
  unfolding quiet_def
proof (intro allI impI)
  fix d'
  assume "cascade_delete_schedules E u cid d = Inr d'"
  then obtain d1 bs where sw: "sql_sweep schedules_tab
        (\<lambda>r. ruser r = u \<and> sc_course_id r = Some cid \<and> \<not> is_deleted r)
        (tombstone (en_now E)) (en_now E) d = Inr (d1, bs)"
    and loop: "cascade_schedules E u bs d1 = Inr d'"
    by (auto simp: cascade_delete_schedules_def bindE_eq_Inr)
  have grows: "grows d d'"
    by (rule grows_trans [OF schedules.sweep_grows [OF sw] cascade_schedules_grows [OF loop]])
  have "evolves u d d' \<and> db_ledger d' = db_ledger d" if w: "wf d"
  proof -
    have l: "lives u d (told u ECourseSchedule Delete bs) d1 \<and> wf d1 \<and> change_log d1 = change_log d"
      using schedules.sweep_lives [OF w sw keeps_meta_tombstone, of u Delete]
      by (simp add: told_def schedules_tab_def op_for_def)
    from cascade_schedules_lives [OF _ loop] l obtain xs zs where
      xs: "lives u d1 xs d'" "wf d'" "change_log d' = change_log d1 @ zs" "db_ledger d' = db_ledger d1"
        "set zs = set (told u ECourseSchedule Delete bs) \<union> set xs"
        "\<And>e i. about e i zs = about e i (told u ECourseSchedule Delete bs @ xs)" by blast
    have "lives u d zs d'"
      by (rule lives_reorder [OF lives_trans [OF conjunct1 [OF l] xs(1)]]) (use xs in auto)
    with xs l grows show ?thesis by (auto simp: evolves_def schedules.sweep_ledger [OF sw])
  qed
  moreover have "db_ledger d' = db_ledger d"
    using cascade_schedules_ledger [OF loop] schedules.sweep_ledger [OF sw] by simp
  ultimately show "evolves u d d' \<and> db_ledger d' = db_ledger d"
    using grows by (auto simp: evolves_def)
qed

lemma cascade_exceptions_fetch:
  "cascade_delete_exceptions E u sid d = Inr d' \<Longrightarrow>
     fetch schedules_tab v i d' = fetch schedules_tab v i d"
  unfolding cascade_delete_exceptions_def by (rule sched_frame.fetch_frame)

lemma sound_apply_course_schedule: "sound u it d (apply_course_schedule E u it d)"
  unfolding apply_course_schedule_def Let_def
  by (auto simp: new_schedule_def Let_def quiet_cascade_delete_exceptions cascade_exceptions_fetch
      split: option.split sum.split
      intro!: schedules.sound_delete_with_children schedules.sound_new schedules.sound_gated_merge)

lemma sound_apply_schedule_exception: "sound u it d (apply_schedule_exception E u it d)"
  unfolding apply_schedule_exception_def Let_def
  by (auto simp: new_exception_def Let_def split: option.split sum.split
      intro!: exceptions.sound_learning_delete exceptions.sound_new sound_gate
        exceptions.sound_merge)

end
