(* ===== verification/Learning.thy ===== *)
theory Learning
  imports Handler
begin

text \<open>
  The learning entities of internal/sync/service.go: glossary terms, study cards and study
  tasks. Their first upsert never succeeds: the INSERT statements of \<open>applyTerm\<close>,
  \<open>applyStudyCard\<close> and \<open>applyStudyTask\<close> list one expression more than columns, and
  PostgreSQL rejects them before executing. Rows of these tables therefore come only from phantom
  deletes, and the merges are modelled as written.
\<close>

section \<open>Term\<close>

text \<open>The column defaults of 00007_learning_entities.sql and 00010_course_materials.sql.\<close>

definition term_stub :: "env \<Rightarrow> uuid \<Rightarrow> push_item \<Rightarrow> term_row" where
  "term_stub E u it =
     \<lparr>rid = it_eid it, ruser = u, rver = 1, rupdated = en_now E, rdeleted = Some (en_now E),
      t_course_id = None, t_session_id = None, t_source_review = None, t_source_entry = None,
      t_source_attach = None, t_source_material = None, t_source_material_page = 0,
      t_source_sessions = [], t_russian = [], t_chinese = [], t_explanation = [],
      t_part_of_speech = [], t_user_note = [], t_favorite = False, t_status = ''new''\<rparr>"

definition merge_term :: "payload \<Rightarrow> term_row \<Rightarrow> term_row" where
  "merge_term pl r =
     (let p = p_term pl; f = p_refs pl in
      r\<lparr>t_course_id := merge_ref (t_course_id r) (p_course_id f),
        t_session_id := merge_ref (t_session_id r) (p_session_id f),
        t_source_review := merge_ref (t_source_review r) (p_source_review f),
        t_source_entry := merge_ref (t_source_entry r) (p_entry_id f),
        t_source_attach := merge_ref (t_source_attach r) (p_source_attachment f),
        t_source_material := merge_ref (t_source_material r) (p_material_id f),
        t_source_material_page := or_keep (t_source_material_page r) (p_material_page_number pl),
        t_source_sessions := or_keep (t_source_sessions r) (p_term_source_sessions p),
        t_russian := nonempty_or (t_russian r) (p_term_russian p),
        t_chinese := nonempty_or (t_chinese r) (p_term_chinese p),
        t_explanation := nonempty_or (t_explanation r) (p_term_explanation p),
        t_part_of_speech := nonempty_or (t_part_of_speech r) (p_term_part_of_speech p),
        t_user_note := nonempty_or (t_user_note r) (p_term_user_note p),
        t_favorite := or_keep (t_favorite r) (p_term_favorite p),
        t_status := nonempty_or (t_status r) (p_term_status p)\<rparr>)"

definition apply_term ::
  "env \<Rightarrow> uuid \<Rightarrow> push_item \<Rightarrow> db \<Rightarrow> db_error + db \<times> push_result" where
  "apply_term E u it d =
     (let obj = fetch terms_tab u (it_eid it) d; pl = it_payload it in
      if is_delete it then
        apply_learning_delete E terms_tab (Some (term_stub E u it)) u it obj d
      else if nonempty_or [] (p_term_russian (p_term pl)) = [] then reject u it d
      else
        case obj of
          None \<Rightarrow> Inl InsertArity
        | Some t \<Rightarrow>
            version_gate terms_tab u it t d
              (commit_update terms_tab u it Upsert (merge_term pl) (en_now E) d))"

section \<open>Study card\<close>

definition card_stub :: "env \<Rightarrow> uuid \<Rightarrow> push_item \<Rightarrow> card_row" where
  "card_stub E u it =
     \<lparr>rid = it_eid it, ruser = u, rver = 1, rupdated = en_now E, rdeleted = Some (en_now E),
      k_course_id = None, k_session_id = None, k_source_entry = None, k_source_attach = None,
      k_source_term = None, k_source_material = None, k_source_material_page = 0,
      k_front = [], k_back = [], k_type = ''qa'', k_user_note = [], k_origin = ''manual'',
      k_stage = ''new'', k_review_count = 0, k_interval_hours = 0, k_due_at = None,
      k_last_reviewed = None, k_last_grade = []\<rparr>"

text \<open>The incoming review is at least as new as the stored one.\<close>

definition newer_review :: "card_p \<Rightarrow> card_row \<Rightarrow> bool" where
  "newer_review p r =
     (case p_card_last_reviewed_at p of
        None \<Rightarrow> False
      | Some t \<Rightarrow> (case k_last_reviewed r of None \<Rightarrow> True | Some s \<Rightarrow> \<not> t < s))"

definition merge_review_state :: "card_p \<Rightarrow> card_row \<Rightarrow> card_row" where
  "merge_review_state p r =
     (if newer_review p r then
        r\<lparr>k_stage := nonempty_or (k_stage r) (p_card_stage p),
          k_review_count := or_keep (k_review_count r) (p_card_review_count p),
          k_interval_hours := or_keep (k_interval_hours r) (p_card_interval_hours p),
          k_due_at := p_card_due_at p,
          k_last_reviewed := p_card_last_reviewed_at p,
          k_last_grade := or_keep (k_last_grade r) (p_card_last_grade p)\<rparr>
      else r)"

definition merge_card :: "payload \<Rightarrow> card_row \<Rightarrow> card_row" where
  "merge_card pl r =
     (let p = p_card pl; f = p_refs pl in
      (merge_review_state p r)
       \<lparr>k_course_id := merge_ref (k_course_id r) (p_course_id f),
        k_session_id := merge_ref (k_session_id r) (p_session_id f),
        k_source_entry := merge_ref (k_source_entry r) (p_entry_id f),
        k_source_attach := merge_ref (k_source_attach r) (p_source_attachment f),
        k_source_term := merge_ref (k_source_term r) (p_source_term f),
        k_source_material := merge_ref (k_source_material r) (p_material_id f),
        k_source_material_page := or_keep (k_source_material_page r) (p_material_page_number pl),
        k_front := nonempty_or (k_front r) (p_card_front p),
        k_back := nonempty_or (k_back r) (p_card_back p),
        k_type := nonempty_or (k_type r) (p_card_type p),
        k_user_note := nonempty_or (k_user_note r) (p_card_user_note p)\<rparr>)"

definition apply_study_card ::
  "env \<Rightarrow> uuid \<Rightarrow> push_item \<Rightarrow> db \<Rightarrow> db_error + db \<times> push_result" where
  "apply_study_card E u it d =
     (let obj = fetch cards_tab u (it_eid it) d; pl = it_payload it in
      if is_delete it then
        apply_learning_delete E cards_tab (Some (card_stub E u it)) u it obj d
      else if nonempty_or [] (p_card_front (p_card pl)) = [] then reject u it d
      else
        case obj of
          None \<Rightarrow> Inl InsertArity
        | Some c \<Rightarrow>
            version_gate cards_tab u it c d
              (commit_update cards_tab u it Upsert (merge_card pl) (en_now E) d))"

section \<open>Study task\<close>

definition task_stub :: "env \<Rightarrow> uuid \<Rightarrow> push_item \<Rightarrow> task_row" where
  "task_stub E u it =
     \<lparr>rid = it_eid it, ruser = u, rver = 1, rupdated = en_now E, rdeleted = Some (en_now E),
      ta_course_id = None, ta_session_id = None, ta_source_review = None, ta_source_entry = None,
      ta_source_attach = None, ta_source_material = None, ta_source_material_page = 0,
      ta_title = [], ta_detail = [], ta_due_at = None, ta_priority = ''normal'',
      ta_status = ''pending'', ta_origin = ''manual'', ta_uncertainty = [], ta_user_note = [],
      ta_completed_at = None\<rparr>"

text \<open>Status and completion time, with done sticky.\<close>

definition merge_task_status ::
  "time \<Rightarrow> task_p \<Rightarrow> string \<Rightarrow> time option \<Rightarrow> string \<times> time option" where
  "merge_task_status now p st completed =
     (case p_task_status p of
        None \<Rightarrow> (st, completed)
      | Some s \<Rightarrow>
          if s = [] \<or> s = st then (st, completed)
          else if st = ''done'' \<and> s \<noteq> ''done'' then (st, completed)
          else if s = ''done'' then
            (s, case p_task_completed_at p of
                  Some t \<Rightarrow> Some t
                | None \<Rightarrow> (case completed of None \<Rightarrow> Some now | Some t \<Rightarrow> Some t))
          else (s, None))"

definition merge_task :: "time \<Rightarrow> payload \<Rightarrow> string \<Rightarrow> task_row \<Rightarrow> task_row" where
  "merge_task now pl title r =
     (let p = p_task pl; f = p_refs pl; sc = merge_task_status now p (ta_status r) (ta_completed_at r) in
      r\<lparr>ta_course_id := merge_ref (ta_course_id r) (p_course_id f),
        ta_session_id := merge_ref (ta_session_id r) (p_session_id f),
        ta_source_review := merge_ref (ta_source_review r) (p_source_review f),
        ta_source_entry := merge_ref (ta_source_entry r) (p_entry_id f),
        ta_source_attach := merge_ref (ta_source_attach r) (p_source_attachment f),
        ta_source_material := merge_ref (ta_source_material r) (p_material_id f),
        ta_source_material_page := or_keep (ta_source_material_page r) (p_material_page_number pl),
        ta_title := title,
        ta_detail := nonempty_or (ta_detail r) (p_task_detail p),
        ta_due_at := or_keep_opt (ta_due_at r) (p_task_due_at p),
        ta_priority := nonempty_or (ta_priority r) (p_task_priority p),
        ta_status := fst sc,
        ta_origin := nonempty_or (ta_origin r) (p_task_origin p),
        ta_uncertainty := nonempty_or (ta_uncertainty r) (p_task_uncertainty p),
        ta_user_note := nonempty_or (ta_user_note r) (p_task_user_note p),
        ta_completed_at := snd sc\<rparr>)"

definition apply_study_task ::
  "env \<Rightarrow> uuid \<Rightarrow> push_item \<Rightarrow> db \<Rightarrow> db_error + db \<times> push_result" where
  "apply_study_task E u it d =
     (let obj = fetch tasks_tab u (it_eid it) d; pl = it_payload it;
          title = or_keep [] (p_title pl) in
      if is_delete it then
        apply_learning_delete E tasks_tab (Some (task_stub E u it)) u it obj d
      else if title = [] then reject u it d
      else
        case obj of
          None \<Rightarrow> Inl InsertArity
        | Some t \<Rightarrow>
            version_gate tasks_tab u it t d
              (commit_update tasks_tab u it Upsert
                 (merge_task (en_wall E (it_op_id it)) pl title) (en_now E) d))"

section \<open>Soundness\<close>

lemma learning_keep_row [simp]:
  "keeps_row (merge_term pl)" "keeps_row (merge_card pl)" "keeps_row (merge_task now pl s)"
  by (rule keeps_rowI; simp add: merge_term_def merge_card_def merge_review_state_def
      merge_task_def Let_def)+

lemma sound_apply_term: "sound u it d (apply_term E u it d)"
  unfolding apply_term_def Let_def
  by (auto simp: term_stub_def intro!: terms.sound_learning_delete terms.sound_gated_merge
      split: option.split)

lemma sound_apply_study_card: "sound u it d (apply_study_card E u it d)"
  unfolding apply_study_card_def Let_def
  by (auto simp: card_stub_def intro!: cards.sound_learning_delete cards.sound_gated_merge
      split: option.split)

lemma sound_apply_study_task: "sound u it d (apply_study_task E u it d)"
  unfolding apply_study_task_def Let_def
  by (auto simp: task_stub_def intro!: tasks.sound_learning_delete tasks.sound_gated_merge
      split: option.split)

section \<open>What the merges promise\<close>

lemma merge_task_status_done: "fst (merge_task_status now p ''done'' c) = ''done''"
  by (auto simp: merge_task_status_def split: option.split)

lemma merge_card_reviewed:
  "k_last_reviewed (merge_card pl r) =
     (if newer_review (p_card pl) r then p_card_last_reviewed_at (p_card pl) else k_last_reviewed r)"
  by (simp add: merge_card_def merge_review_state_def Let_def)

end
