(* ===== verification/Materials.thy ===== *)
theory Materials
  imports Handler
begin

text \<open>
  The course-material library and the course assistant (internal/sync/materials.go): materials
  with their pages and annotations, assistant threads with their messages.
\<close>

section \<open>Allowlists\<close>

definition valid_material_kind :: "string \<Rightarrow> bool" where
  "valid_material_kind k \<longleftrightarrow>
     k \<in> {''lecture'', ''homework'', ''lab'', ''reading'', ''exam'', ''other''}"

definition valid_material_format :: "string \<Rightarrow> bool" where
  "valid_material_format f \<longleftrightarrow>
     f \<in> {''pdf'', ''text'', ''markdown'', ''image'', ''link'', ''other''}"

definition valid_material_extraction :: "string \<Rightarrow> bool" where
  "valid_material_extraction s \<longleftrightarrow>
     s \<in> {''pending'', ''completed'', ''partial'', ''failed'', ''unsupported''}"

definition valid_material_digest :: "string \<Rightarrow> bool" where
  "valid_material_digest s \<longleftrightarrow> s \<in> {''pending'', ''completed'', ''partial'', ''failed''}"

definition valid_ocr_status :: "string \<Rightarrow> bool" where
  "valid_ocr_status s \<longleftrightarrow> s \<in> {''none'', ''pending'', ''done'', ''failed''}"

section \<open>Material\<close>

text \<open>
  \<open>fetchMaterial\<close> selects 28 columns and scans them into 26 destinations, which the driver
  refuses for every row it finds.
\<close>

definition fetch_material :: "uuid \<Rightarrow> uuid \<Rightarrow> db \<Rightarrow> db_error + material_row option" where
  "fetch_material u i d =
     (case fetch materials_tab u i d of None \<Rightarrow> Inr None | Some _ \<Rightarrow> Inl ScanArity)"

definition material_stub :: "env \<Rightarrow> uuid \<Rightarrow> push_item \<Rightarrow> material_row" where
  "material_stub E u it =
     \<lparr>rid = it_eid it, ruser = u, rver = 1, rupdated = en_now E, rdeleted = Some (en_now E),
      m_course_id = None, m_session_id = None, m_occurrence_key = [], m_title = [],
      m_file_name = [], m_mime = [], m_kind = ''other'', m_format = ''other'', m_file_size = 0,
      m_hash = [], m_page_count = 0, m_source_attachment = None, m_source_url = [],
      m_shared_text = [], m_extraction = ''pending'', m_digest_status = ''pending'',
      m_digest = None, m_digest_model = [], m_digest_at = None, m_digest_src_hash = [],
      m_last_read_page = 0, m_last_opened_at = None\<rparr>"

definition cascade_delete_material_children :: "env \<Rightarrow> uuid \<Rightarrow> uuid \<Rightarrow> db \<Rightarrow> db_error + db" where
  "cascade_delete_material_children E u mid d =
     bindE (sweep_logged pages_tab u
              (\<lambda>r. ruser r = u \<and> pg_material_id r = mid \<and> \<not> is_deleted r)
              (tombstone (en_now E)) Delete (en_now E) d)
       (sweep_logged annotations_tab u
              (\<lambda>r. ruser r = u \<and> an_material_id r = mid \<and> \<not> is_deleted r)
              (tombstone (en_now E)) Delete (en_now E))"

definition mat_kind :: "material_p \<Rightarrow> string" where
  "mat_kind p = nonempty_or ''other'' (p_mat_kind p)"

definition mat_format :: "material_p \<Rightarrow> string" where
  "mat_format p = nonempty_or ''other'' (p_mat_format p)"

definition mat_extraction :: "material_p \<Rightarrow> string" where
  "mat_extraction p = nonempty_or ''pending'' (p_mat_extraction p)"

definition mat_digest_status :: "material_p \<Rightarrow> string" where
  "mat_digest_status p = nonempty_or ''pending'' (p_mat_digest_status p)"

text \<open>A JSON text that is absent when empty.\<close>

definition nonempty_opt :: "string option \<Rightarrow> string option" where
  "nonempty_opt p = (case p of None \<Rightarrow> None | Some s \<Rightarrow> if s = [] then None else Some s)"

definition new_material :: "env \<Rightarrow> uuid \<Rightarrow> push_item \<Rightarrow> string option \<Rightarrow> material_row" where
  "new_material E u it digest =
     (let pl = it_payload it; p = p_material pl; f = p_refs pl in
      \<lparr>rid = it_eid it, ruser = u, rver = 1, rupdated = en_now E, rdeleted = None,
       m_course_id = ref_or_nil (p_course_id f), m_session_id = ref_or_nil (p_session_id f),
       m_occurrence_key = or_keep [] (p_occurrence_key pl), m_title = or_keep [] (p_title pl),
       m_file_name = or_keep [] (p_mat_file_name p), m_mime = or_keep [] (p_mat_mime p),
       m_kind = mat_kind p, m_format = mat_format p,
       m_file_size = or_keep 0 (p_mat_file_size p), m_hash = or_keep [] (p_mat_hash p),
       m_page_count = or_keep 0 (p_mat_page_count p),
       m_source_attachment = ref_or_nil (p_source_attachment f),
       m_source_url = or_keep [] (p_mat_source_url p),
       m_shared_text = or_keep [] (p_mat_shared_text p),
       m_extraction = mat_extraction p, m_digest_status = mat_digest_status p, m_digest = digest,
       m_digest_model = or_keep [] (p_mat_digest_model p), m_digest_at = p_mat_digest_at p,
       m_digest_src_hash = or_keep [] (p_mat_digest_src_hash p),
       m_last_read_page = or_keep 0 (p_mat_last_read_page p),
       m_last_opened_at = p_mat_last_opened_at p\<rparr>)"

definition merge_material :: "payload \<Rightarrow> string option \<Rightarrow> material_row \<Rightarrow> material_row" where
  "merge_material pl digest r =
     (let p = p_material pl; f = p_refs pl in
      r\<lparr>m_course_id := merge_ref (m_course_id r) (p_course_id f),
        m_session_id := merge_ref (m_session_id r) (p_session_id f),
        m_occurrence_key := or_keep [] (p_occurrence_key pl),
        m_title := nonempty_or (m_title r) (p_title pl),
        m_kind := mat_kind p, m_format := mat_format p,
        m_shared_text := or_keep (m_shared_text r) (p_mat_shared_text p),
        m_extraction := mat_extraction p, m_digest_status := mat_digest_status p,
        m_digest := digest,
        m_digest_model := nonempty_or (m_digest_model r) (p_mat_digest_model p),
        m_digest_at := or_keep_opt (m_digest_at r) (p_mat_digest_at p),
        m_digest_src_hash := nonempty_or (m_digest_src_hash r) (p_mat_digest_src_hash p),
        m_last_read_page := or_keep 0 (p_mat_last_read_page p),
        m_last_opened_at := or_keep_opt (m_last_opened_at r) (p_mat_last_opened_at p)\<rparr>)"

text \<open>The file cleanup of a deleted material that owns its file.\<close>

definition reap_material ::
  "env \<Rightarrow> uuid \<Rightarrow> push_item \<Rightarrow> material_row option \<Rightarrow> db \<times> push_result \<Rightarrow> (uuid \<times> uuid) list" where
  "reap_material E u it obj x =
     db_hooks (fst x) @
     (if res_status (snd x) = Accepted \<and> en_files E \<and>
         (case obj of None \<Rightarrow> False | Some m \<Rightarrow> m_source_attachment m = None)
      then [(u, it_eid it)] else [])"

definition apply_material_upsert ::
  "env \<Rightarrow> uuid \<Rightarrow> push_item \<Rightarrow> material_row option \<Rightarrow> db \<Rightarrow> db_error + db \<times> push_result" where
  "apply_material_upsert E u it obj d =
     (let pl = it_payload it; p = p_material pl in
      if \<not> valid_material_kind (mat_kind p) \<or> \<not> valid_material_format (mat_format p) then
        reject u it d
      else if \<not> valid_material_extraction (mat_extraction p)
            \<or> \<not> valid_material_digest (mat_digest_status p) then reject u it d
      else
        case obj of
          None \<Rightarrow>
            bindE (jsonb_opt E (nonempty_opt (p_mat_digest p))) (\<lambda>digest.
              commit_insert materials_tab u it Upsert (new_material E u it digest) d)
        | Some m \<Rightarrow>
            version_gate materials_tab u it m d
              (bindE (jsonb_opt E (or_keep_opt (m_digest m) (nonempty_opt (p_mat_digest p)))) (\<lambda>digest.
                 commit_update materials_tab u it Upsert (merge_material pl digest) (en_now E) d)))"

definition apply_material ::
  "env \<Rightarrow> uuid \<Rightarrow> push_item \<Rightarrow> db \<Rightarrow> db_error + db \<times> push_result" where
  "apply_material E u it d =
     bindE (fetch_material u (it_eid it) d) (\<lambda>obj.
       if is_delete it then
         bindE (delete_with_children E materials_tab (Some (material_stub E u it)) u it obj
                  (cascade_delete_material_children E u (it_eid it)) d)
           (\<lambda>x. Inr ((fst x)\<lparr>db_hooks := reap_material E u it obj x\<rparr>, snd x))
       else apply_material_upsert E u it obj d)"

section \<open>Material page\<close>

definition new_page :: "env \<Rightarrow> uuid \<Rightarrow> push_item \<Rightarrow> uuid \<Rightarrow> int \<Rightarrow> string \<Rightarrow> page_row" where
  "new_page E u it mid n ocr =
     (let p = p_material (it_payload it) in
      \<lparr>rid = it_eid it, ruser = u, rver = 1, rupdated = en_now E, rdeleted = None,
       pg_material_id = mid, pg_number = n, pg_text = or_keep [] (p_page_text p),
       pg_ocr_text = or_keep [] (p_page_ocr p), pg_ocr_status = ocr\<rparr>)"

definition merge_page :: "material_p \<Rightarrow> int \<Rightarrow> string \<Rightarrow> page_row \<Rightarrow> page_row" where
  "merge_page p n ocr r =
     r\<lparr>pg_number := n, pg_text := nonempty_or (pg_text r) (p_page_text p),
       pg_ocr_text := nonempty_or (pg_ocr_text r) (p_page_ocr p), pg_ocr_status := ocr\<rparr>"

definition apply_material_page ::
  "env \<Rightarrow> uuid \<Rightarrow> push_item \<Rightarrow> db \<Rightarrow> db_error + db \<times> push_result" where
  "apply_material_page E u it d =
     (let obj = fetch pages_tab u (it_eid it) d; pl = it_payload it; p = p_material pl;
          ocr = nonempty_or ''none'' (p_page_ocr_state p) in
      if is_delete it then apply_learning_delete E pages_tab None u it obj d
      else
        case (required_ref (p_material_id (p_refs pl)), p_material_page_number pl) of
          (Some mid, Some n) \<Rightarrow>
            if n < 1 then reject u it d
            else if \<not> valid_ocr_status ocr then reject u it d
            else
              (case obj of
                 None \<Rightarrow> commit_insert pages_tab u it Upsert (new_page E u it mid n ocr) d
               | Some g \<Rightarrow>
                   version_gate pages_tab u it g d
                     (commit_update pages_tab u it Upsert (merge_page p n ocr) (en_now E) d))
        | _ \<Rightarrow> reject u it d)"

section \<open>Material annotation\<close>

definition new_annotation ::
  "env \<Rightarrow> uuid \<Rightarrow> push_item \<Rightarrow> uuid \<Rightarrow> int \<Rightarrow> string \<Rightarrow> annotation_row" where
  "new_annotation E u it mid n k =
     \<lparr>rid = it_eid it, ruser = u, rver = 1, rupdated = en_now E, rdeleted = None,
      an_material_id = mid, an_page_number = n, an_kind = k,
      an_note_text = or_keep [] (p_note_text (p_note (it_payload it)))\<rparr>"

definition merge_annotation ::
  "uuid \<Rightarrow> int \<Rightarrow> string \<Rightarrow> string \<Rightarrow> annotation_row \<Rightarrow> annotation_row" where
  "merge_annotation mid n k txt r =
     r\<lparr>an_material_id := mid, an_page_number := n, an_kind := k,
       an_note_text := (if txt = [] \<and> an_kind r = ''note'' then an_note_text r else txt)\<rparr>"

definition apply_material_annotation ::
  "env \<Rightarrow> uuid \<Rightarrow> push_item \<Rightarrow> db \<Rightarrow> db_error + db \<times> push_result" where
  "apply_material_annotation E u it d =
     (let obj = fetch annotations_tab u (it_eid it) d; pl = it_payload it;
          k = nonempty_or ''note'' (p_annotation_kind (p_material pl));
          txt = or_keep [] (p_note_text (p_note pl)) in
      if is_delete it then apply_learning_delete E annotations_tab None u it obj d
      else
        case (required_ref (p_material_id (p_refs pl)), p_material_page_number pl) of
          (Some mid, Some n) \<Rightarrow>
            if k \<noteq> ''note'' \<and> k \<noteq> ''bookmark'' then reject u it d
            else
              (case obj of
                 None \<Rightarrow> commit_insert annotations_tab u it Upsert (new_annotation E u it mid n k) d
               | Some a \<Rightarrow>
                   version_gate annotations_tab u it a d
                     (commit_update annotations_tab u it Upsert (merge_annotation mid n k txt)
                        (en_now E) d))
        | _ \<Rightarrow> reject u it d)"

section \<open>Assistant thread and message\<close>

definition cascade_delete_messages :: "env \<Rightarrow> uuid \<Rightarrow> uuid \<Rightarrow> db \<Rightarrow> db_error + db" where
  "cascade_delete_messages E u tid d =
     sweep_logged messages_tab u
       (\<lambda>r. ruser r = u \<and> ms_thread_id r = tid \<and> \<not> is_deleted r)
       (tombstone (en_now E)) Delete (en_now E) d"

definition thread_stub :: "env \<Rightarrow> uuid \<Rightarrow> push_item \<Rightarrow> thread_row" where
  "thread_stub E u it =
     \<lparr>rid = it_eid it, ruser = u, rver = 1, rupdated = en_now E, rdeleted = Some (en_now E),
      th_course_id = None, th_title = []\<rparr>"

definition new_thread :: "env \<Rightarrow> uuid \<Rightarrow> push_item \<Rightarrow> string \<Rightarrow> thread_row" where
  "new_thread E u it title =
     \<lparr>rid = it_eid it, ruser = u, rver = 1, rupdated = en_now E, rdeleted = None,
      th_course_id = ref_or_nil (p_course_id (p_refs (it_payload it))), th_title = title\<rparr>"

definition merge_thread :: "payload \<Rightarrow> string \<Rightarrow> thread_row \<Rightarrow> thread_row" where
  "merge_thread pl title r =
     r\<lparr>th_course_id := merge_ref (th_course_id r) (p_course_id (p_refs pl)), th_title := title\<rparr>"

definition apply_assistant_thread ::
  "env \<Rightarrow> uuid \<Rightarrow> push_item \<Rightarrow> db \<Rightarrow> db_error + db \<times> push_result" where
  "apply_assistant_thread E u it d =
     (let obj = fetch threads_tab u (it_eid it) d; pl = it_payload it;
          title = or_keep [] (p_title pl) in
      if is_delete it then
        delete_with_children E threads_tab (Some (thread_stub E u it)) u it obj
          (cascade_delete_messages E u (it_eid it)) d
      else if title = [] then reject u it d
      else
        case obj of
          None \<Rightarrow> commit_insert threads_tab u it Upsert (new_thread E u it title) d
        | Some t \<Rightarrow>
            version_gate threads_tab u it t d
              (commit_update threads_tab u it Upsert (merge_thread pl title) (en_now E) d))"

definition new_message ::
  "env \<Rightarrow> uuid \<Rightarrow> push_item \<Rightarrow> uuid \<Rightarrow> string \<Rightarrow> string \<Rightarrow> string option \<Rightarrow> string option
     \<Rightarrow> string option \<Rightarrow> message_row" where
  "new_message E u it tid role mode cit ev ans =
     (let pl = it_payload it; p = p_assistant pl; f = p_refs pl in
      \<lparr>rid = it_eid it, ruser = u, rver = 1, rupdated = en_now E, rdeleted = None,
       ms_thread_id = tid, ms_role = role, ms_text = or_keep [] (p_as_text p),
       ms_citations = cit, ms_scope_material = ref_or_nil (p_material_id f),
       ms_scope_session = ref_or_nil (p_session_id f),
       ms_scope_page = or_keep 0 (p_material_page_number pl), ms_mode = mode,
       ms_evidence = ev, ms_answer = ans, ms_model = or_keep [] (p_as_model p)\<rparr>)"

definition merge_message ::
  "payload \<Rightarrow> uuid \<Rightarrow> string \<Rightarrow> string \<Rightarrow> string option \<Rightarrow> string option \<Rightarrow> string option
     \<Rightarrow> message_row \<Rightarrow> message_row" where
  "merge_message pl tid role mode cit ev ans r =
     (let p = p_assistant pl; f = p_refs pl in
      r\<lparr>ms_thread_id := tid, ms_role := role, ms_text := nonempty_or (ms_text r) (p_as_text p),
        ms_citations := cit, ms_scope_material := ref_or_nil (p_material_id f),
        ms_scope_session := ref_or_nil (p_session_id f),
        ms_scope_page := or_keep 0 (p_material_page_number pl),
        ms_mode := (if p_as_mode p = None then ms_mode r else mode),
        ms_evidence := ev, ms_answer := ans,
        ms_model := nonempty_or (ms_model r) (p_as_model p)\<rparr>)"

text \<open>The three JSON columns of a message, cast before the statement writes them.\<close>

definition cast_message ::
  "env \<Rightarrow> string option \<Rightarrow> string option \<Rightarrow> string option
     \<Rightarrow> (string option \<Rightarrow> string option \<Rightarrow> string option \<Rightarrow> db_error + 'a) \<Rightarrow> db_error + 'a" where
  "cast_message E cit ev ans k =
     bindE (jsonb_opt E cit) (\<lambda>c. bindE (jsonb_opt E ev) (\<lambda>v. bindE (jsonb_opt E ans) (k c v)))"

definition apply_assistant_message ::
  "env \<Rightarrow> uuid \<Rightarrow> push_item \<Rightarrow> db \<Rightarrow> db_error + db \<times> push_result" where
  "apply_assistant_message E u it d =
     (let obj = fetch messages_tab u (it_eid it) d; pl = it_payload it; p = p_assistant pl;
          role = nonempty_or ''user'' (p_as_role p); mode = nonempty_or ''text'' (p_as_mode p);
          cit = nonempty_opt (p_as_citations p); ev = valid_json_payload (p_as_evidence p);
          ans = valid_json_payload (p_as_answer p) in
      if is_delete it then apply_learning_delete E messages_tab None u it obj d
      else
        case required_ref (p_thread_id (p_refs pl)) of
          None \<Rightarrow> reject u it d
        | Some tid \<Rightarrow>
            if role \<noteq> ''user'' \<and> role \<noteq> ''assistant'' then reject u it d
            else if mode \<noteq> ''text'' \<and> mode \<noteq> ''visual'' then reject u it d
            else if bad_json_payload (p_as_evidence p) then reject u it d
            else if bad_json_payload (p_as_answer p) then reject u it d
            else
              (case obj of
                 None \<Rightarrow>
                   cast_message E cit ev ans (\<lambda>c v a.
                     commit_insert messages_tab u it Upsert
                       (new_message E u it tid role mode c v a) d)
               | Some m \<Rightarrow>
                   version_gate messages_tab u it m d
                     (cast_message E (or_keep_opt (ms_citations m) cit)
                        (or_keep_opt (ms_evidence m) ev) (or_keep_opt (ms_answer m) ans)
                        (\<lambda>c v a.
                          commit_update messages_tab u it Upsert
                            (merge_message pl tid role mode c v a) (en_now E) d))))"

section \<open>Soundness\<close>

interpretation material_pages: independent materials_tab pages_tab
  by unfold_locales (simp_all add: materials_tab_def pages_tab_def log_change_def)

interpretation material_annotations: independent materials_tab annotations_tab
  by unfold_locales (simp_all add: materials_tab_def annotations_tab_def log_change_def)

interpretation thread_messages: independent threads_tab messages_tab
  by unfold_locales (simp_all add: threads_tab_def messages_tab_def log_change_def)

lemma materials_keep_row [simp]:
  "keeps_row (merge_material pl s)" "keeps_row (merge_page pm n ocr)"
  "keeps_row (merge_annotation mid n k txt)" "keeps_row (merge_thread pl title)"
  "keeps_row (merge_message pl tid role mode c v a)"
  by (rule keeps_rowI; simp add: merge_material_def merge_page_def merge_annotation_def
      merge_thread_def merge_message_def Let_def)+

lemma quiet_cascade_delete_material_children:
  "quiet u d (cascade_delete_material_children E u mid d)"
  unfolding cascade_delete_material_children_def
  by (intro quiet_bind pages.quiet_tombstone_sweep annotations.quiet_tombstone_sweep) simp_all

lemma cascade_material_fetch:
  "cascade_delete_material_children E u mid d = Inr d' \<Longrightarrow>
     fetch materials_tab v i d' = fetch materials_tab v i d"
  unfolding cascade_delete_material_children_def
  by (auto simp: bindE_eq_Inr material_pages.fetch_frame material_annotations.fetch_frame)

lemma quiet_cascade_delete_messages: "quiet u d (cascade_delete_messages E u tid d)"
  unfolding cascade_delete_messages_def by (rule messages.quiet_tombstone_sweep) simp

lemma cascade_messages_fetch:
  "cascade_delete_messages E u tid d = Inr d' \<Longrightarrow>
     fetch threads_tab v i d' = fetch threads_tab v i d"
  unfolding cascade_delete_messages_def by (rule thread_messages.fetch_frame)

lemma sound_cast_message:
  "(\<And>c v a. sound u it d (k c v a)) \<Longrightarrow> sound u it d (cast_message E cit ev ans k)"
  unfolding cast_message_def by (intro sound_bind_value) simp

lemma sound_apply_material_upsert:
  "obj = fetch materials_tab u (it_eid it) d \<Longrightarrow> sound u it d (apply_material_upsert E u it obj d)"
  unfolding apply_material_upsert_def Let_def
  by (auto simp: new_material_def Let_def split: option.split
      intro!: sound_bind_value materials.sound_new sound_gate materials.sound_merge)

lemma sound_apply_material: "sound u it d (apply_material E u it d)"
  unfolding apply_material_def
  by (rule sound_bind_value)
    (auto simp: fetch_material_def material_stub_def quiet_cascade_delete_material_children
      cascade_material_fetch split: option.splits
      intro!: sound_hooks materials.sound_delete_with_children sound_apply_material_upsert)

lemma sound_apply_material_page: "sound u it d (apply_material_page E u it d)"
  unfolding apply_material_page_def Let_def
  by (auto simp: new_page_def Let_def split: option.split
      intro!: pages.sound_learning_delete pages.sound_new pages.sound_gated_merge)

lemma sound_apply_material_annotation: "sound u it d (apply_material_annotation E u it d)"
  unfolding apply_material_annotation_def Let_def
  by (auto simp: new_annotation_def split: option.split
      intro!: annotations.sound_learning_delete annotations.sound_new annotations.sound_gated_merge)

lemma sound_apply_assistant_thread: "sound u it d (apply_assistant_thread E u it d)"
  unfolding apply_assistant_thread_def Let_def
  by (auto simp: new_thread_def thread_stub_def quiet_cascade_delete_messages
      cascade_messages_fetch split: option.split
      intro!: threads.sound_delete_with_children threads.sound_new threads.sound_gated_merge)

lemma sound_apply_assistant_message: "sound u it d (apply_assistant_message E u it d)"
  unfolding apply_assistant_message_def Let_def
  by (auto simp: new_message_def Let_def split: option.split
      intro!: messages.sound_learning_delete sound_cast_message messages.sound_new sound_gate
        messages.sound_merge)

end
