(* ===== verification/Exams.thy ===== *)
theory Exams
  imports Materials
begin

text \<open>
  The exam centre (internal/sync/exams.go): its allowlists, the cascades and detaches between
  exams, topics, plans, plan items and study activities, and the handlers of exams and topics.
\<close>

section \<open>Allowlists\<close>

definition valid_exam_kind :: "string \<Rightarrow> bool" where
  "valid_exam_kind k \<longleftrightarrow>
     k \<in> {''midterm'', ''final'', ''quiz'', ''lab'', ''oral'', ''report'', ''defense'', ''custom''}"

definition valid_exam_status :: "string \<Rightarrow> bool" where
  "valid_exam_status s \<longleftrightarrow> s \<in> {''pending'', ''scheduled'', ''done'', ''cancelled''}"

definition valid_exam_origin :: "string \<Rightarrow> bool" where
  "valid_exam_origin s \<longleftrightarrow> s \<in> {''manual'', ''ai''}"

definition valid_topic_importance :: "string \<Rightarrow> bool" where
  "valid_topic_importance s \<longleftrightarrow> s \<in> {''low'', ''normal'', ''high''}"

definition valid_topic_rating :: "string \<Rightarrow> bool" where
  "valid_topic_rating s \<longleftrightarrow> s \<in> {''none'', ''vague'', ''basic'', ''proficient''}"

definition valid_topic_status :: "string \<Rightarrow> bool" where
  "valid_topic_status s \<longleftrightarrow> s \<in> {''not_started'', ''learning'', ''needs_review'', ''mastered''}"

definition valid_plan_status :: "string \<Rightarrow> bool" where
  "valid_plan_status s \<longleftrightarrow> s \<in> {''active'', ''paused'', ''archived''}"

definition valid_plan_item_kind :: "string \<Rightarrow> bool" where
  "valid_plan_item_kind s \<longleftrightarrow>
     s \<in> {''material'', ''session'', ''review'', ''task'', ''cards'', ''topic'', ''terms'',
          ''practice'', ''custom''}"

definition valid_plan_item_status :: "string \<Rightarrow> bool" where
  "valid_plan_item_status s \<longleftrightarrow>
     s \<in> {''pending'', ''in_progress'', ''done'', ''skipped'', ''deferred''}"

definition valid_activity_status :: "string \<Rightarrow> bool" where
  "valid_activity_status s \<longleftrightarrow> s \<in> {''in_progress'', ''completed'', ''abandoned''}"

section \<open>Cascades and detaches\<close>

definition cascade_delete_plan_items :: "env \<Rightarrow> uuid \<Rightarrow> uuid \<Rightarrow> db \<Rightarrow> db_error + db" where
  "cascade_delete_plan_items E u pid d =
     sweep_logged plan_items_tab u (\<lambda>r. ruser r = u \<and> pi_plan_id r = pid \<and> \<not> is_deleted r)
       (tombstone (en_now E)) Delete (en_now E) d"

primrec cascade_plans :: "env \<Rightarrow> uuid \<Rightarrow> uuid list \<Rightarrow> db \<Rightarrow> db_error + db" where
  "cascade_plans E u [] d = Inr d"
| "cascade_plans E u (i # is) d = bindE (cascade_delete_plan_items E u i d) (cascade_plans E u is)"

text \<open>Topics, then the items of every live plan, then the plans.\<close>

definition live_plans_of :: "uuid \<Rightarrow> uuid \<Rightarrow> db \<Rightarrow> uuid list" where
  "live_plans_of u eid d =
     map rid (filter (\<lambda>r. ruser r = u \<and> pl_exam_id r = eid \<and> \<not> is_deleted r) (plans d))"

definition cascade_delete_exam_children :: "env \<Rightarrow> uuid \<Rightarrow> uuid \<Rightarrow> db \<Rightarrow> db_error + db" where
  "cascade_delete_exam_children E u eid d =
     bindE (sweep_logged topics_tab u (\<lambda>r. ruser r = u \<and> tp_exam_id r = eid \<and> \<not> is_deleted r)
              (tombstone (en_now E)) Delete (en_now E) d) (\<lambda>d.
     bindE (cascade_plans E u (live_plans_of u eid d) d)
       (sweep_logged plans_tab u (\<lambda>r. ruser r = u \<and> pl_exam_id r = eid \<and> \<not> is_deleted r)
          (tombstone (en_now E)) Delete (en_now E)))"

definition detach_exam_from_activities :: "env \<Rightarrow> uuid \<Rightarrow> uuid \<Rightarrow> db \<Rightarrow> db_error + db" where
  "detach_exam_from_activities E u eid d =
     sweep_logged activities_tab u
       (\<lambda>r. ruser r = u \<and> ac_exam_id r = Some eid \<and> \<not> is_deleted r)
       (\<lambda>r. r\<lparr>ac_exam_id := None\<rparr>) Upsert (en_now E) d"

definition detach_plan_item_from_activities :: "env \<Rightarrow> uuid \<Rightarrow> uuid \<Rightarrow> db \<Rightarrow> db_error + db" where
  "detach_plan_item_from_activities E u iid d =
     sweep_logged activities_tab u
       (\<lambda>r. ruser r = u \<and> ac_plan_item_id r = Some iid \<and> \<not> is_deleted r)
       (\<lambda>r. r\<lparr>ac_plan_item_id := None\<rparr>) Upsert (en_now E) d"

definition detach_course_from_exams :: "env \<Rightarrow> uuid \<Rightarrow> uuid \<Rightarrow> db \<Rightarrow> db_error + db" where
  "detach_course_from_exams E u cid d =
     bindE (sweep_logged exams_tab u
              (\<lambda>r. ruser r = u \<and> ex_course_id r = Some cid \<and> \<not> is_deleted r)
              (\<lambda>r. r\<lparr>ex_course_id := None\<rparr>) Upsert (en_now E) d)
       (sweep_logged activities_tab u
              (\<lambda>r. ruser r = u \<and> ac_course_id r = Some cid \<and> \<not> is_deleted r)
              (\<lambda>r. r\<lparr>ac_course_id := None\<rparr>) Upsert (en_now E))"

section \<open>Exam\<close>

definition required_date :: "string option \<Rightarrow> date option" where
  "required_date p =
     (case p of
        None \<Rightarrow> None
      | Some s \<Rightarrow> (case parse_wire_date s of Inl _ \<Rightarrow> None | Inr x \<Rightarrow> x))"

definition exam_enums_ok :: "exam_p \<Rightarrow> bool" where
  "exam_enums_ok p \<longleftrightarrow>
     valid_exam_kind (nonempty_or ''custom'' (p_exam_kind p)) \<and>
     valid_exam_status (nonempty_or ''scheduled'' (p_exam_status p)) \<and>
     valid_exam_origin (nonempty_or ''manual'' (p_exam_origin p))"

definition new_exam :: "env \<Rightarrow> uuid \<Rightarrow> push_item \<Rightarrow> string \<Rightarrow> date \<Rightarrow> string option \<Rightarrow> exam_row" where
  "new_exam E u it title date source =
     (let pl = it_payload it; p = p_exam pl in
      \<lparr>rid = it_eid it, ruser = u, rver = 1, rupdated = en_now E, rdeleted = None,
       ex_course_id = ref_or_nil (p_course_id (p_refs pl)), ex_title = title,
       ex_kind = nonempty_or ''custom'' (p_exam_kind p), ex_date = date,
       ex_start_secs = or_keep (- 1) (p_exam_start_secs p),
       ex_end_secs = or_keep (- 1) (p_exam_end_secs p),
       ex_location = or_keep [] (p_exam_location p), ex_scope = or_keep [] (p_exam_scope p),
       ex_note = or_keep [] (p_exam_note p), ex_target_score = or_keep [] (p_exam_target_score p),
       ex_status = nonempty_or ''scheduled'' (p_exam_status p),
       ex_origin = nonempty_or ''manual'' (p_exam_origin p), ex_source = source\<rparr>)"

definition merge_exam :: "payload \<Rightarrow> string \<Rightarrow> date \<Rightarrow> string option \<Rightarrow> exam_row \<Rightarrow> exam_row" where
  "merge_exam pl title date source r =
     (let p = p_exam pl in
      r\<lparr>ex_course_id := merge_ref (ex_course_id r) (p_course_id (p_refs pl)), ex_title := title,
        ex_kind := nonempty_or ''custom'' (p_exam_kind p), ex_date := date,
        ex_start_secs := or_keep (- 1) (p_exam_start_secs p),
        ex_end_secs := or_keep (- 1) (p_exam_end_secs p),
        ex_location := nonempty_or (ex_location r) (p_exam_location p),
        ex_scope := nonempty_or (ex_scope r) (p_exam_scope p),
        ex_note := nonempty_or (ex_note r) (p_exam_note p),
        ex_target_score := nonempty_or (ex_target_score r) (p_exam_target_score p),
        ex_status := nonempty_or ''scheduled'' (p_exam_status p),
        ex_origin := nonempty_or ''manual'' (p_exam_origin p), ex_source := source\<rparr>)"

definition apply_exam_delete ::
  "env \<Rightarrow> uuid \<Rightarrow> push_item \<Rightarrow> exam_row option \<Rightarrow> db \<Rightarrow> db_error + db \<times> push_result" where
  "apply_exam_delete E u it obj d =
     delete_with_children E exams_tab None u it obj
       (\<lambda>d. bindE (cascade_delete_exam_children E u (it_eid it) d)
              (detach_exam_from_activities E u (it_eid it))) d"

definition apply_exam ::
  "env \<Rightarrow> uuid \<Rightarrow> push_item \<Rightarrow> db \<Rightarrow> db_error + db \<times> push_result" where
  "apply_exam E u it d =
     (let obj = fetch exams_tab u (it_eid it) d; pl = it_payload it; p = p_exam pl;
          title = or_keep [] (p_title pl); source = valid_json_payload (p_exam_source p) in
      if is_delete it then apply_exam_delete E u it obj d
      else if title = [] then reject u it d
      else if \<not> exam_enums_ok p then reject u it d
      else
        case required_date (p_exam_date p) of
          None \<Rightarrow> reject u it d
        | Some date \<Rightarrow>
            if bad_json_payload (p_exam_source p) then reject u it d
            else
              (case obj of
                 None \<Rightarrow>
                   bindE (jsonb_opt E source) (\<lambda>s.
                     commit_insert exams_tab u it Upsert (new_exam E u it title date s) d)
               | Some e \<Rightarrow>
                   version_gate exams_tab u it e d
                     (bindE (jsonb_opt E (or_keep_opt (ex_source e) source)) (\<lambda>s.
                        commit_update exams_tab u it Upsert (merge_exam pl title date s)
                          (en_now E) d))))"

section \<open>Exam topic\<close>

definition topic_enums_ok :: "exam_p \<Rightarrow> bool" where
  "topic_enums_ok p \<longleftrightarrow>
     valid_topic_importance (nonempty_or ''normal'' (p_topic_importance p)) \<and>
     valid_topic_rating (nonempty_or ''none'' (p_topic_self_rating p)) \<and>
     valid_topic_status (nonempty_or ''not_started'' (p_topic_status p))"

definition new_topic ::
  "env \<Rightarrow> uuid \<Rightarrow> push_item \<Rightarrow> uuid \<Rightarrow> string \<Rightarrow> string option \<Rightarrow> topic_row" where
  "new_topic E u it eid title source =
     (let p = p_exam (it_payload it) in
      \<lparr>rid = it_eid it, ruser = u, rver = 1, rupdated = en_now E, rdeleted = None,
       tp_exam_id = eid, tp_title = title, tp_detail = or_keep [] (p_topic_detail p),
       tp_importance = nonempty_or ''normal'' (p_topic_importance p),
       tp_self_rating = nonempty_or ''none'' (p_topic_self_rating p),
       tp_status = nonempty_or ''not_started'' (p_topic_status p), tp_source = source,
       tp_user_edited = or_keep False (p_topic_user_edited p)\<rparr>)"

definition merge_topic ::
  "exam_p \<Rightarrow> uuid \<Rightarrow> string \<Rightarrow> string option \<Rightarrow> topic_row \<Rightarrow> topic_row" where
  "merge_topic p eid title source r =
     r\<lparr>tp_exam_id := eid, tp_title := title, tp_detail := nonempty_or (tp_detail r) (p_topic_detail p),
       tp_importance := nonempty_or ''normal'' (p_topic_importance p),
       tp_self_rating := nonempty_or ''none'' (p_topic_self_rating p),
       tp_status := nonempty_or ''not_started'' (p_topic_status p), tp_source := source,
       tp_user_edited := or_keep False (p_topic_user_edited p)\<rparr>"

definition apply_exam_topic ::
  "env \<Rightarrow> uuid \<Rightarrow> push_item \<Rightarrow> db \<Rightarrow> db_error + db \<times> push_result" where
  "apply_exam_topic E u it d =
     (let obj = fetch topics_tab u (it_eid it) d; pl = it_payload it; p = p_exam pl;
          title = or_keep [] (p_title pl); source = valid_json_payload (p_topic_source p) in
      if is_delete it then apply_learning_delete E topics_tab None u it obj d
      else
        case required_ref (p_exam_id (p_refs pl)) of
          None \<Rightarrow> reject u it d
        | Some eid \<Rightarrow>
            if title = [] then reject u it d
            else if \<not> topic_enums_ok p then reject u it d
            else if bad_json_payload (p_topic_source p) then reject u it d
            else
              (case obj of
                 None \<Rightarrow>
                   bindE (jsonb_opt E source) (\<lambda>s.
                     commit_insert topics_tab u it Upsert (new_topic E u it eid title s) d)
               | Some t \<Rightarrow>
                   version_gate topics_tab u it t d
                     (bindE (jsonb_opt E (or_keep_opt (tp_source t) source)) (\<lambda>s.
                        commit_update topics_tab u it Upsert (merge_topic p eid title s)
                          (en_now E) d))))"

section \<open>Soundness\<close>

interpretation exam_topics: independent exams_tab topics_tab
  by unfold_locales (simp_all add: exams_tab_def topics_tab_def log_change_def)

interpretation exam_plans: independent exams_tab plans_tab
  by unfold_locales (simp_all add: exams_tab_def plans_tab_def log_change_def)

interpretation exam_plan_items: independent exams_tab plan_items_tab
  by unfold_locales (simp_all add: exams_tab_def plan_items_tab_def log_change_def)

interpretation exam_activities: independent exams_tab activities_tab
  by unfold_locales (simp_all add: exams_tab_def activities_tab_def log_change_def)

interpretation plan_items_of_plan: independent plans_tab plan_items_tab
  by unfold_locales (simp_all add: plans_tab_def plan_items_tab_def log_change_def)

interpretation activities_of_item: independent plan_items_tab activities_tab
  by unfold_locales (simp_all add: plan_items_tab_def activities_tab_def log_change_def)

lemma exams_keep_row [simp]:
  "keeps_row (merge_exam pl t dt s)" "keeps_row (merge_topic p eid t s)"
  "keeps_row (\<lambda>r. r\<lparr>ac_exam_id := None\<rparr>)" "keeps_row (\<lambda>r. r\<lparr>ac_plan_item_id := None\<rparr>)"
  "keeps_row (\<lambda>r. r\<lparr>ac_course_id := None\<rparr>)" "keeps_row (\<lambda>r. r\<lparr>ex_course_id := None\<rparr>)"
  by (rule keeps_rowI; simp add: merge_exam_def merge_topic_def Let_def)+

lemma quiet_cascade_delete_plan_items: "quiet u d (cascade_delete_plan_items E u pid d)"
  unfolding cascade_delete_plan_items_def by (rule plan_items.quiet_tombstone_sweep) simp

lemma quiet_cascade_plans: "quiet u d (cascade_plans E u is d)"
  by (induction "is" arbitrary: d) (auto intro!: quiet_bind quiet_cascade_delete_plan_items)

lemma quiet_cascade_delete_exam_children: "quiet u d (cascade_delete_exam_children E u eid d)"
  unfolding cascade_delete_exam_children_def
  by (intro quiet_bind quiet_cascade_plans topics.quiet_tombstone_sweep
      plans.quiet_tombstone_sweep) simp_all

lemma quiet_detach_activities:
  "quiet u d (detach_exam_from_activities E u eid d)"
  "quiet u d (detach_plan_item_from_activities E u iid d)"
  unfolding detach_exam_from_activities_def detach_plan_item_from_activities_def
  by (rule activities.quiet_detach_sweep; simp)+

lemma quiet_detach_course_from_exams: "quiet u d (detach_course_from_exams E u cid d)"
  unfolding detach_course_from_exams_def
  by (intro quiet_bind exams.quiet_detach_sweep activities.quiet_detach_sweep) simp_all

lemma cascade_plan_items_fetch:
  assumes "cascade_delete_plan_items E u pid d = Inr d'"
  shows "fetch exams_tab v i d' = fetch exams_tab v i d"
    and "fetch plans_tab v i d' = fetch plans_tab v i d"
  using assms unfolding cascade_delete_plan_items_def
  by (rule exam_plan_items.fetch_frame, rule plan_items_of_plan.fetch_frame)

lemma cascade_plans_fetch:
  "cascade_plans E u is d = Inr d' \<Longrightarrow> fetch exams_tab v i d' = fetch exams_tab v i d"
  by (induction "is" arbitrary: d) (auto simp: bindE_eq_Inr cascade_plan_items_fetch)

lemma cascade_exam_fetch:
  "cascade_delete_exam_children E u eid d = Inr d' \<Longrightarrow>
     fetch exams_tab v i d' = fetch exams_tab v i d"
  unfolding cascade_delete_exam_children_def
  by (auto simp: bindE_eq_Inr cascade_plans_fetch exam_topics.fetch_frame exam_plans.fetch_frame)

lemma detach_exam_fetch:
  "detach_exam_from_activities E u eid d = Inr d' \<Longrightarrow>
     fetch exams_tab v i d' = fetch exams_tab v i d"
  unfolding detach_exam_from_activities_def by (rule exam_activities.fetch_frame)

lemma detach_plan_item_fetch:
  "detach_plan_item_from_activities E u iid d = Inr d' \<Longrightarrow>
     fetch plan_items_tab v i d' = fetch plan_items_tab v i d"
  unfolding detach_plan_item_from_activities_def by (rule activities_of_item.fetch_frame)

lemma sound_apply_exam_delete:
  "obj = fetch exams_tab u (it_eid it) d \<Longrightarrow> sound u it d (apply_exam_delete E u it obj d)"
  unfolding apply_exam_delete_def
  by (rule exams.sound_delete_with_children)
    (auto simp: bindE_eq_Inr cascade_exam_fetch detach_exam_fetch
      intro!: quiet_bind quiet_cascade_delete_exam_children quiet_detach_activities)

lemma sound_apply_exam: "sound u it d (apply_exam E u it d)"
  unfolding apply_exam_def Let_def
  by (auto simp: new_exam_def Let_def split: option.split
      intro!: sound_apply_exam_delete sound_bind_value exams.sound_new sound_gate exams.sound_merge)

lemma sound_apply_exam_topic: "sound u it d (apply_exam_topic E u it d)"
  unfolding apply_exam_topic_def Let_def
  by (auto simp: new_topic_def Let_def split: option.split
      intro!: topics.sound_learning_delete sound_bind_value topics.sound_new sound_gate
        topics.sound_merge)

end
