(* ===== verification/Plans.thy ===== *)
theory Plans
  imports Exams
begin

text \<open>
  Study plans, their items and the study activities (applyStudyPlan, applyStudyPlanItem and
  applyStudyActivity, internal/sync/exams.go), with the merge rules for the status of an item
  and for the minutes and the end of an activity.
\<close>

section \<open>Study plan\<close>

definition new_plan ::
  "env \<Rightarrow> uuid \<Rightarrow> push_item \<Rightarrow> uuid \<Rightarrow> string \<Rightarrow> date \<Rightarrow> date \<Rightarrow> string option \<Rightarrow> string option
     \<Rightarrow> string option \<Rightarrow> plan_row" where
  "new_plan E u it eid title start_d end_d rest focus blocked =
     (let p = p_plan (it_payload it) in
      \<lparr>rid = it_eid it, ruser = u, rver = 1, rupdated = en_now E, rdeleted = None,
       pl_exam_id = eid, pl_title = title, pl_start_date = start_d, pl_end_date = end_d,
       pl_weekday_minutes = or_keep 60 (p_plan_weekday_mins p),
       pl_weekend_minutes = or_keep 90 (p_plan_weekend_mins p), pl_rest_days = rest,
       pl_finish_early_days = or_keep 0 (p_plan_finish_early p),
       pl_include_cards = or_keep True (p_plan_cards p),
       pl_include_tasks = or_keep True (p_plan_tasks p),
       pl_include_materials = or_keep True (p_plan_materials p),
       pl_include_sessions = or_keep True (p_plan_sessions p),
       pl_focus_topics = focus, pl_blocked_times = blocked,
       pl_status = nonempty_or ''active'' (p_plan_status p)\<rparr>)"

definition merge_plan ::
  "plan_p \<Rightarrow> uuid \<Rightarrow> string \<Rightarrow> date \<Rightarrow> date \<Rightarrow> string option \<Rightarrow> string option
     \<Rightarrow> string option \<Rightarrow> plan_row \<Rightarrow> plan_row" where
  "merge_plan p eid title start_d end_d rest focus blocked r =
     r\<lparr>pl_exam_id := eid, pl_title := title, pl_start_date := start_d, pl_end_date := end_d,
       pl_weekday_minutes := or_keep 60 (p_plan_weekday_mins p),
       pl_weekend_minutes := or_keep 90 (p_plan_weekend_mins p), pl_rest_days := rest,
       pl_finish_early_days := or_keep 0 (p_plan_finish_early p),
       pl_include_cards := or_keep True (p_plan_cards p),
       pl_include_tasks := or_keep True (p_plan_tasks p),
       pl_include_materials := or_keep True (p_plan_materials p),
       pl_include_sessions := or_keep True (p_plan_sessions p),
       pl_focus_topics := focus, pl_blocked_times := blocked,
       pl_status := nonempty_or ''active'' (p_plan_status p)\<rparr>"

definition cast_plan ::
  "env \<Rightarrow> plan_p \<Rightarrow> string option \<Rightarrow> string option \<Rightarrow> string option
     \<Rightarrow> (string option \<Rightarrow> string option \<Rightarrow> string option \<Rightarrow> db_error + 'a) \<Rightarrow> db_error + 'a" where
  "cast_plan E p rest focus blocked k =
     bindE (jsonb_opt E (or_keep_opt rest (valid_json_payload (p_plan_rest_days p)))) (\<lambda>a.
     bindE (jsonb_opt E (or_keep_opt focus (valid_json_payload (p_plan_focus_topics p)))) (\<lambda>b.
     bindE (jsonb_opt E (or_keep_opt blocked (valid_json_payload (p_plan_blocked_times p))))
       (k a b)))"

definition apply_study_plan_upsert ::
  "env \<Rightarrow> uuid \<Rightarrow> push_item \<Rightarrow> plan_row option \<Rightarrow> db \<Rightarrow> db_error + db \<times> push_result" where
  "apply_study_plan_upsert E u it obj d =
     (let pl = it_payload it; p = p_plan pl; title = or_keep [] (p_title pl) in
      case required_ref (p_exam_id (p_refs pl)) of
        None \<Rightarrow> reject u it d
      | Some eid \<Rightarrow>
          if title = [] then reject u it d
          else
            (case (required_date (p_plan_start_date p), required_date (p_plan_end_date p)) of
               (Some a, Some b) \<Rightarrow>
                 if \<not> valid_plan_status (nonempty_or ''active'' (p_plan_status p)) then reject u it d
                 else if bad_json_payload (p_plan_rest_days p)
                       \<or> bad_json_payload (p_plan_focus_topics p)
                       \<or> bad_json_payload (p_plan_blocked_times p) then reject u it d
                 else
                   (case obj of
                      None \<Rightarrow>
                        cast_plan E p None None None (\<lambda>rest focus blocked.
                          commit_insert plans_tab u it Upsert
                            (new_plan E u it eid title a b rest focus blocked) d)
                    | Some r \<Rightarrow>
                        version_gate plans_tab u it r d
                          (cast_plan E p (pl_rest_days r) (pl_focus_topics r) (pl_blocked_times r)
                             (\<lambda>rest focus blocked.
                               commit_update plans_tab u it Upsert
                                 (merge_plan p eid title a b rest focus blocked) (en_now E) d)))
             | _ \<Rightarrow> reject u it d))"

definition apply_study_plan ::
  "env \<Rightarrow> uuid \<Rightarrow> push_item \<Rightarrow> db \<Rightarrow> db_error + db \<times> push_result" where
  "apply_study_plan E u it d =
     (let obj = fetch plans_tab u (it_eid it) d in
      if is_delete it then
        delete_with_children E plans_tab None u it obj (cascade_delete_plan_items E u (it_eid it)) d
      else apply_study_plan_upsert E u it obj d)"

section \<open>Plan item\<close>

text \<open>
  The status rule: an incoming status that differs yields to the stored one when its time of
  change (or the wall clock, when absent) lies before the stored time of change.
\<close>

definition merge_item_status ::
  "time \<Rightarrow> string \<Rightarrow> time option \<Rightarrow> string \<Rightarrow> time option \<Rightarrow> string" where
  "merge_item_status now st changed stored stored_at =
     (if st = stored then st
      else
        case stored_at of
          None \<Rightarrow> st
        | Some s \<Rightarrow> if or_keep now changed < s then stored else st)"

definition new_plan_item ::
  "env \<Rightarrow> uuid \<Rightarrow> push_item \<Rightarrow> uuid \<Rightarrow> string \<Rightarrow> date \<Rightarrow> string option \<Rightarrow> plan_item_row" where
  "new_plan_item E u it pid title date source =
     (let pl = it_payload it; p = p_plan_item pl in
      \<lparr>rid = it_eid it, ruser = u, rver = 1, rupdated = en_now E, rdeleted = None,
       pi_plan_id = pid, pi_exam_id = ref_or_nil (p_exam_id (p_refs pl)), pi_date = date,
       pi_title = title, pi_kind = nonempty_or ''custom'' (p_pitem_kind p),
       pi_estimated_minutes = or_keep 30 (p_pitem_est_mins p),
       pi_actual_minutes = or_keep 0 (p_pitem_actual p),
       pi_status = nonempty_or ''pending'' (p_pitem_status p),
       pi_status_changed_at = p_pitem_status_at p, pi_order = or_keep 0 (p_pitem_order p),
       pi_source = source, pi_user_note = or_keep [] (p_pitem_user_note p),
       pi_user_edited = or_keep False (p_pitem_user_edit p)\<rparr>)"

definition merge_plan_item ::
  "time \<Rightarrow> payload \<Rightarrow> uuid \<Rightarrow> string \<Rightarrow> date \<Rightarrow> string option \<Rightarrow> plan_item_row \<Rightarrow> plan_item_row" where
  "merge_plan_item now pl pid title date source r =
     (let p = p_plan_item pl in
      r\<lparr>pi_plan_id := pid, pi_exam_id := merge_ref (pi_exam_id r) (p_exam_id (p_refs pl)),
        pi_date := date, pi_title := title, pi_kind := nonempty_or ''custom'' (p_pitem_kind p),
        pi_estimated_minutes := or_keep 30 (p_pitem_est_mins p),
        pi_actual_minutes := max (pi_actual_minutes r) (or_keep 0 (p_pitem_actual p)),
        pi_status := merge_item_status now (nonempty_or ''pending'' (p_pitem_status p))
          (p_pitem_status_at p) (pi_status r) (pi_status_changed_at r),
        pi_status_changed_at := or_keep_opt (pi_status_changed_at r) (p_pitem_status_at p),
        pi_order := or_keep 0 (p_pitem_order p), pi_source := source,
        pi_user_note := nonempty_or (pi_user_note r) (p_pitem_user_note p),
        pi_user_edited := or_keep False (p_pitem_user_edit p)\<rparr>)"

definition apply_study_plan_item_upsert ::
  "env \<Rightarrow> uuid \<Rightarrow> push_item \<Rightarrow> plan_item_row option \<Rightarrow> db \<Rightarrow> db_error + db \<times> push_result" where
  "apply_study_plan_item_upsert E u it obj d =
     (let pl = it_payload it; p = p_plan_item pl; title = or_keep [] (p_title pl);
          source = valid_json_payload (p_pitem_source p) in
      case required_ref (p_plan_id (p_refs pl)) of
        None \<Rightarrow> reject u it d
      | Some pid \<Rightarrow>
          if title = [] then reject u it d
          else
            (case required_date (p_pitem_date p) of
               None \<Rightarrow> reject u it d
             | Some date \<Rightarrow>
                 if \<not> valid_plan_item_kind (nonempty_or ''custom'' (p_pitem_kind p))
                  \<or> \<not> valid_plan_item_status (nonempty_or ''pending'' (p_pitem_status p)) then
                   reject u it d
                 else if bad_json_payload (p_pitem_source p) then reject u it d
                 else
                   (case obj of
                      None \<Rightarrow>
                        bindE (jsonb_opt E source) (\<lambda>s.
                          commit_insert plan_items_tab u it Upsert
                            (new_plan_item E u it pid title date s) d)
                    | Some r \<Rightarrow>
                        version_gate plan_items_tab u it r d
                          (bindE (jsonb_opt E (or_keep_opt (pi_source r) source)) (\<lambda>s.
                             commit_update plan_items_tab u it Upsert
                               (merge_plan_item (en_wall E (it_op_id it)) pl pid title date s)
                               (en_now E) d)))))"

definition apply_study_plan_item ::
  "env \<Rightarrow> uuid \<Rightarrow> push_item \<Rightarrow> db \<Rightarrow> db_error + db \<times> push_result" where
  "apply_study_plan_item E u it d =
     (let obj = fetch plan_items_tab u (it_eid it) d in
      if is_delete it then
        delete_with_children E plan_items_tab None u it obj
          (detach_plan_item_from_activities E u (it_eid it)) d
      else apply_study_plan_item_upsert E u it obj d)"

section \<open>Study activity\<close>

definition new_activity :: "env \<Rightarrow> uuid \<Rightarrow> push_item \<Rightarrow> time \<Rightarrow> activity_row" where
  "new_activity E u it started =
     (let pl = it_payload it; p = p_activity pl; f = p_refs pl in
      \<lparr>rid = it_eid it, ruser = u, rver = 1, rupdated = en_now E, rdeleted = None,
       ac_plan_item_id = ref_or_nil (p_plan_item_id f), ac_exam_id = ref_or_nil (p_exam_id f),
       ac_course_id = ref_or_nil (p_course_id f), ac_topic_id = ref_or_nil (p_topic_id f),
       ac_started_at = started, ac_ended_at = p_act_ended_at p,
       ac_duration = or_keep 0 (p_act_duration p),
       ac_status = nonempty_or ''in_progress'' (p_act_status p),
       ac_note = or_keep [] (p_act_note p)\<rparr>)"

definition merge_activity_status :: "string \<Rightarrow> string \<Rightarrow> string" where
  "merge_activity_status st stored =
     (if st = ''in_progress'' \<and> (stored = ''completed'' \<or> stored = ''abandoned'') then stored else st)"

definition merge_ended :: "time option \<Rightarrow> time option \<Rightarrow> time option" where
  "merge_ended incoming stored =
     (case incoming of
        None \<Rightarrow> stored
      | Some i \<Rightarrow> (case stored of None \<Rightarrow> Some i | Some s \<Rightarrow> if i < s then Some s else Some i))"

definition merge_activity :: "payload \<Rightarrow> time \<Rightarrow> activity_row \<Rightarrow> activity_row" where
  "merge_activity pl started r =
     (let p = p_activity pl; f = p_refs pl in
      r\<lparr>ac_plan_item_id := merge_ref (ac_plan_item_id r) (p_plan_item_id f),
        ac_exam_id := merge_ref (ac_exam_id r) (p_exam_id f),
        ac_course_id := merge_ref (ac_course_id r) (p_course_id f),
        ac_topic_id := merge_ref (ac_topic_id r) (p_topic_id f),
        ac_started_at := started,
        ac_ended_at := merge_ended (p_act_ended_at p) (ac_ended_at r),
        ac_duration := max (ac_duration r) (or_keep 0 (p_act_duration p)),
        ac_status := merge_activity_status (nonempty_or ''in_progress'' (p_act_status p)) (ac_status r),
        ac_note := nonempty_or (ac_note r) (p_act_note p)\<rparr>)"

definition apply_study_activity ::
  "env \<Rightarrow> uuid \<Rightarrow> push_item \<Rightarrow> db \<Rightarrow> db_error + db \<times> push_result" where
  "apply_study_activity E u it d =
     (let obj = fetch activities_tab u (it_eid it) d; pl = it_payload it; p = p_activity pl in
      if is_delete it then apply_learning_delete E activities_tab None u it obj d
      else if \<not> valid_activity_status (nonempty_or ''in_progress'' (p_act_status p)) then
        reject u it d
      else
        case p_act_started_at p of
          None \<Rightarrow> reject u it d
        | Some started \<Rightarrow>
            (case obj of
               None \<Rightarrow> commit_insert activities_tab u it Upsert (new_activity E u it started) d
             | Some a \<Rightarrow>
                 version_gate activities_tab u it a d
                   (commit_update activities_tab u it Upsert (merge_activity pl started)
                      (en_now E) d)))"

section \<open>Soundness\<close>

lemma plans_keep_row [simp]:
  "keeps_row (merge_plan p eid title a b x y z)"
  "keeps_row (merge_plan_item now pl pid title date s)" "keeps_row (merge_activity pl started)"
  by (rule keeps_rowI; simp add: merge_plan_def merge_plan_item_def merge_activity_def Let_def)+

lemma sound_cast_plan:
  "(\<And>a b c. sound u it d (k a b c)) \<Longrightarrow> sound u it d (cast_plan E p x y z k)"
  unfolding cast_plan_def by (intro sound_bind_value) simp

lemma sound_apply_study_plan_upsert:
  "obj = fetch plans_tab u (it_eid it) d \<Longrightarrow> sound u it d (apply_study_plan_upsert E u it obj d)"
  unfolding apply_study_plan_upsert_def Let_def
  by (auto simp: new_plan_def Let_def split: option.split
      intro!: sound_cast_plan plans.sound_new sound_gate plans.sound_merge)

lemma sound_apply_study_plan: "sound u it d (apply_study_plan E u it d)"
  unfolding apply_study_plan_def Let_def
  by (auto simp: quiet_cascade_delete_plan_items cascade_plan_items_fetch
      intro!: plans.sound_delete_with_children sound_apply_study_plan_upsert)

lemma sound_apply_study_plan_item_upsert:
  "obj = fetch plan_items_tab u (it_eid it) d \<Longrightarrow>
     sound u it d (apply_study_plan_item_upsert E u it obj d)"
  unfolding apply_study_plan_item_upsert_def Let_def
  by (auto simp: new_plan_item_def Let_def split: option.split
      intro!: sound_bind_value plan_items.sound_new sound_gate plan_items.sound_merge)

lemma sound_apply_study_plan_item: "sound u it d (apply_study_plan_item E u it d)"
  unfolding apply_study_plan_item_def Let_def
  by (auto simp: quiet_detach_activities detach_plan_item_fetch
      intro!: plan_items.sound_delete_with_children sound_apply_study_plan_item_upsert)

lemma sound_apply_study_activity: "sound u it d (apply_study_activity E u it d)"
  unfolding apply_study_activity_def Let_def
  by (auto simp: new_activity_def Let_def split: option.split
      intro!: activities.sound_learning_delete activities.sound_new activities.sound_gated_merge)

end
