(* ===== verification/Courses.thy ===== *)
theory Courses
  imports Sessions Schedules Learning Plans
begin

text \<open>
  The course entity (applyCourse, internal/sync/service.go). Deleting a course clears the
  references to it on sessions, learning data, materials, assistant threads, exams and study
  activities, each bump logged, and tombstones its schedules with their exceptions.
\<close>

section \<open>Detaching a course\<close>

definition detach_course_from_sessions :: "env \<Rightarrow> uuid \<Rightarrow> uuid \<Rightarrow> db \<Rightarrow> db_error + db" where
  "detach_course_from_sessions E u cid d =
     sweep_logged sessions_tab u
       (\<lambda>r. ruser r = u \<and> s_course_id r = Some cid \<and> \<not> is_deleted r)
       (\<lambda>r. r\<lparr>s_course_id := None\<rparr>) Upsert (en_now E) d"

definition detach_course_from_study_data :: "env \<Rightarrow> uuid \<Rightarrow> uuid \<Rightarrow> db \<Rightarrow> db_error + db" where
  "detach_course_from_study_data E u cid d =
     bindE (sweep_logged terms_tab u
              (\<lambda>r. ruser r = u \<and> t_course_id r = Some cid \<and> \<not> is_deleted r)
              (\<lambda>r. r\<lparr>t_course_id := None\<rparr>) Upsert (en_now E) d) (\<lambda>d.
     bindE (sweep_logged cards_tab u
              (\<lambda>r. ruser r = u \<and> k_course_id r = Some cid \<and> \<not> is_deleted r)
              (\<lambda>r. r\<lparr>k_course_id := None\<rparr>) Upsert (en_now E) d)
       (sweep_logged tasks_tab u
              (\<lambda>r. ruser r = u \<and> ta_course_id r = Some cid \<and> \<not> is_deleted r)
              (\<lambda>r. r\<lparr>ta_course_id := None\<rparr>) Upsert (en_now E)))"

definition detach_course_from_materials :: "env \<Rightarrow> uuid \<Rightarrow> uuid \<Rightarrow> db \<Rightarrow> db_error + db" where
  "detach_course_from_materials E u cid d =
     sweep_logged materials_tab u
       (\<lambda>r. ruser r = u \<and> m_course_id r = Some cid \<and> \<not> is_deleted r)
       (\<lambda>r. r\<lparr>m_course_id := None\<rparr>) Upsert (en_now E) d"

definition detach_course_from_threads :: "env \<Rightarrow> uuid \<Rightarrow> uuid \<Rightarrow> db \<Rightarrow> db_error + db" where
  "detach_course_from_threads E u cid d =
     sweep_logged threads_tab u
       (\<lambda>r. ruser r = u \<and> th_course_id r = Some cid \<and> \<not> is_deleted r)
       (\<lambda>r. r\<lparr>th_course_id := None\<rparr>) Upsert (en_now E) d"

definition course_cascade :: "env \<Rightarrow> uuid \<Rightarrow> uuid \<Rightarrow> db \<Rightarrow> db_error + db" where
  "course_cascade E u cid d =
     bindE (detach_course_from_sessions E u cid d) (\<lambda>d.
     bindE (detach_course_from_study_data E u cid d) (\<lambda>d.
     bindE (detach_course_from_materials E u cid d) (\<lambda>d.
     bindE (detach_course_from_threads E u cid d) (\<lambda>d.
     bindE (detach_course_from_exams E u cid d)
       (cascade_delete_schedules E u cid)))))"

section \<open>Course\<close>

definition course_phantom :: "env \<Rightarrow> uuid \<Rightarrow> push_item \<Rightarrow> course_row" where
  "course_phantom E u it =
     \<lparr>rid = it_eid it, ruser = u, rver = 1, rupdated = en_now E, rdeleted = Some (en_now E),
      co_name = [], co_teacher = [], co_location = [], co_color_index = 0, co_archived = False\<rparr>"

definition new_course :: "env \<Rightarrow> uuid \<Rightarrow> push_item \<Rightarrow> string \<Rightarrow> course_row" where
  "new_course E u it name =
     (let p = p_course (it_payload it) in
      \<lparr>rid = it_eid it, ruser = u, rver = 1, rupdated = en_now E, rdeleted = None,
       co_name = name, co_teacher = or_keep [] (p_teacher p),
       co_location = or_keep [] (p_location p), co_color_index = or_keep 0 (p_color_index p),
       co_archived = or_keep False (p_is_archived p)\<rparr>)"

definition merge_course :: "payload \<Rightarrow> course_row \<Rightarrow> course_row" where
  "merge_course pl r =
     (let p = p_course pl in
      r\<lparr>co_name := or_keep (co_name r) (p_title pl), co_teacher := or_keep (co_teacher r) (p_teacher p),
        co_location := or_keep (co_location r) (p_location p),
        co_color_index := or_keep (co_color_index r) (p_color_index p),
        co_archived := or_keep (co_archived r) (p_is_archived p)\<rparr>)"

definition apply_course_delete ::
  "env \<Rightarrow> uuid \<Rightarrow> push_item \<Rightarrow> course_row option \<Rightarrow> db \<Rightarrow> db_error + db \<times> push_result" where
  "apply_course_delete E u it obj d =
     (case obj of
        None \<Rightarrow> commit_insert courses_tab u it Delete (course_phantom E u it) d
      | Some c \<Rightarrow>
          if is_deleted c then settle u it (accepted it (rver c) (rupdated c)) d
          else
            bindE (update_logged courses_tab u (it_eid it) Delete (tombstone (en_now E)) (en_now E) d)
              (\<lambda>dv.
            bindE (course_cascade E u (it_eid it) (fst dv)) (\<lambda>d.
            settle u it (accepted it (snd dv) (en_now E)) d)))"

definition apply_course ::
  "env \<Rightarrow> uuid \<Rightarrow> push_item \<Rightarrow> db \<Rightarrow> db_error + db \<times> push_result" where
  "apply_course E u it d =
     (let obj = fetch courses_tab u (it_eid it) d; pl = it_payload it in
      if is_delete it then apply_course_delete E u it obj d
      else
        case p_title pl of
          None \<Rightarrow> reject u it d
        | Some name \<Rightarrow>
            (case obj of
               None \<Rightarrow> commit_insert courses_tab u it Upsert (new_course E u it name) d
             | Some c \<Rightarrow>
                 version_gate courses_tab u it c d
                   (commit_update courses_tab u it Upsert (merge_course pl) (en_now E) d)))"

section \<open>Soundness\<close>

lemma courses_keep_row [simp]:
  "keeps_row (merge_course pl)" "keeps_row (\<lambda>r. r\<lparr>s_course_id := None\<rparr>)"
  "keeps_row (\<lambda>r. r\<lparr>t_course_id := None\<rparr>)" "keeps_row (\<lambda>r. r\<lparr>k_course_id := None\<rparr>)"
  "keeps_row (\<lambda>r. r\<lparr>ta_course_id := None\<rparr>)" "keeps_row (\<lambda>r. r\<lparr>m_course_id := None\<rparr>)"
  "keeps_row (\<lambda>r. r\<lparr>th_course_id := None\<rparr>)"
  by (rule keeps_rowI; simp add: merge_course_def Let_def)+

lemma quiet_course_cascade: "quiet u d (course_cascade E u cid d)"
  unfolding course_cascade_def detach_course_from_sessions_def detach_course_from_study_data_def
    detach_course_from_materials_def detach_course_from_threads_def
  by (intro quiet_bind sessions.quiet_detach_sweep terms.quiet_detach_sweep
      cards.quiet_detach_sweep tasks.quiet_detach_sweep materials.quiet_detach_sweep
      threads.quiet_detach_sweep quiet_detach_course_from_exams quiet_cascade_delete_schedules)
    simp_all

lemma sound_apply_course_delete:
  "obj = fetch courses_tab u (it_eid it) d \<Longrightarrow> sound u it d (apply_course_delete E u it obj d)"
  unfolding apply_course_delete_def
  by (auto simp: course_phantom_def op_for_def split: option.split
      intro!: sound_settle courses.sound_phantom courses.sound_update
        sound_bind [OF quiet_course_cascade])

lemma sound_apply_course: "sound u it d (apply_course E u it d)"
  unfolding apply_course_def Let_def
  by (auto simp: new_course_def Let_def split: option.split
      intro!: sound_apply_course_delete courses.sound_new courses.sound_gated_merge)

end
