(* ===== verification/Interpreter.thy ===== *)
theory Interpreter
  imports Handler
begin

text \<open>
  The interpreter conversations and their turns (internal/sync/interpreter.go), with the scrub
  of file-source labels from a turn's details.
\<close>

section \<open>Allowlists\<close>

definition valid_scene :: "string \<Rightarrow> bool" where
  "valid_scene s \<longleftrightarrow>
     s \<in> {''general'', ''school'', ''dorm'', ''bank'', ''hospital'', ''migration'', ''telecom'',
          ''post''}"

definition valid_conversation_status :: "string \<Rightarrow> bool" where
  "valid_conversation_status s \<longleftrightarrow> s \<in> {''draft'', ''saved'', ''discarded''}"

definition valid_speaker :: "string \<Rightarrow> bool" where
  "valid_speaker s \<longleftrightarrow> s \<in> {''counterpart'', ''user''}"

definition valid_direction :: "string \<Rightarrow> bool" where
  "valid_direction s \<longleftrightarrow> s \<in> {''ru2zh'', ''zh2ru''}"

definition valid_input_method :: "string \<Rightarrow> bool" where
  "valid_input_method s \<longleftrightarrow> s \<in> {''audio'', ''text''}"

section \<open>The scrub of the details\<close>

text \<open>
  \<open>citationLabelPattern\<close>, on UTF-8 bytes: at least one character other than a newline, the
  separator (blank, middle dot, blank, the character for "page number"), digits between optional
  blanks, and the character for "page" at the end.
\<close>

definition label_sep :: string where
  "label_sep = [CHR '' '', CHR 0xC2, CHR 0xB7, CHR '' '', CHR 0xE7, CHR 0xAC, CHR 0xAC]"

definition label_end :: string where
  "label_end = [CHR 0xE9, CHR 0xA1, CHR 0xB5]"

definition is_ws :: "char \<Rightarrow> bool" where
  "is_ws c \<longleftrightarrow> c \<in> {CHR '' '', CHR 0x09, CHR 0x0A, CHR 0x0C, CHR 0x0D}"

definition label_tail :: "string \<Rightarrow> bool" where
  "label_tail s =
     (let t = dropWhile is_ws s in
      t \<noteq> [] \<and> is_digit (hd t) \<and> dropWhile is_ws (dropWhile is_digit t) = label_end)"

definition label_at :: "nat \<Rightarrow> string \<Rightarrow> bool" where
  "label_at n s \<longleftrightarrow>
     0 < n \<and> CHR 0x0A \<notin> set (take n s) \<and> take (length label_sep) (drop n s) = label_sep \<and>
     label_tail (drop (n + length label_sep) s)"

definition citation_label :: "string \<Rightarrow> bool" where
  "citation_label s \<longleftrightarrow> (\<exists>n\<in>set [0..<length s]. label_at n s)"

definition is_label :: "jval \<Rightarrow> bool" where
  "is_label v = (case v of VStr s \<Rightarrow> citation_label s | _ \<Rightarrow> False)"

definition put_field :: "string \<Rightarrow> 'a \<Rightarrow> (string \<times> 'a) list \<Rightarrow> (string \<times> 'a) list" where
  "put_field k v kvs = filter (\<lambda>kv. fst kv \<noteq> k) kvs @ [(k, v)]"

definition scrub_doc :: "(string \<times> jval) list \<Rightarrow> (string \<times> jval) list option" where
  "scrub_doc doc =
     (case map_of doc ''keywords'' of
        Some (VArr ks) \<Rightarrow>
          if \<not> (\<exists>k\<in>set ks. is_label k) then None
          else
            (let kept = filter (\<lambda>k. \<not> is_label k) ks in
             Some (put_field ''hasLocalSources'' (VBool True)
               (if kept = [] then filter (\<lambda>kv. fst kv \<noteq> ''keywords'') doc
                else put_field ''keywords'' (VArr kept) doc)))
      | _ \<Rightarrow> None)"

definition sanitize_details :: "env \<Rightarrow> string option \<Rightarrow> string option" where
  "sanitize_details E details =
     (case details of
        None \<Rightarrow> None
      | Some s \<Rightarrow>
          (case en_decode E s of
             None \<Rightarrow> Some s
           | Some doc \<Rightarrow> (case scrub_doc doc of None \<Rightarrow> Some s | Some doc' \<Rightarrow> Some (en_encode E doc'))))"

section \<open>Conversation\<close>

definition cascade_delete_turns :: "env \<Rightarrow> uuid \<Rightarrow> uuid \<Rightarrow> db \<Rightarrow> db_error + db" where
  "cascade_delete_turns E u cid d =
     sweep_logged turns_tab u
       (\<lambda>r. ruser r = u \<and> tu_conversation_id r = cid \<and> \<not> is_deleted r)
       (tombstone (en_now E)) Delete (en_now E) d"

definition conv_scene :: "interpreter_p \<Rightarrow> string" where
  "conv_scene p = nonempty_or ''general'' (p_conv_scene p)"

definition conv_status :: "interpreter_p \<Rightarrow> string" where
  "conv_status p = nonempty_or ''saved'' (p_conv_status p)"

definition new_conversation :: "env \<Rightarrow> uuid \<Rightarrow> push_item \<Rightarrow> time \<Rightarrow> conversation_row" where
  "new_conversation E u it started =
     (let pl = it_payload it; p = p_interpreter pl in
      \<lparr>rid = it_eid it, ruser = u, rver = 1, rupdated = en_now E, rdeleted = None,
       cv_title = or_keep [] (p_title pl), cv_scene = conv_scene p,
       cv_context_note = or_keep [] (p_conv_context p), cv_status = conv_status p,
       cv_started_at = started, cv_ended_at = p_conv_ended_at p\<rparr>)"

definition merge_conversation :: "payload \<Rightarrow> time \<Rightarrow> conversation_row \<Rightarrow> conversation_row" where
  "merge_conversation pl started r =
     (let p = p_interpreter pl in
      r\<lparr>cv_title := nonempty_or (cv_title r) (p_title pl), cv_scene := conv_scene p,
        cv_context_note := or_keep (cv_context_note r) (p_conv_context p),
        cv_status := conv_status p, cv_started_at := started,
        cv_ended_at := or_keep_opt (cv_ended_at r) (p_conv_ended_at p)\<rparr>)"

definition apply_interpreter_conversation ::
  "env \<Rightarrow> uuid \<Rightarrow> push_item \<Rightarrow> db \<Rightarrow> db_error + db \<times> push_result" where
  "apply_interpreter_conversation E u it d =
     (let obj = fetch conversations_tab u (it_eid it) d; pl = it_payload it; p = p_interpreter pl in
      if is_delete it then
        delete_with_children E conversations_tab None u it obj
          (cascade_delete_turns E u (it_eid it)) d
      else if \<not> valid_scene (conv_scene p) \<or> \<not> valid_conversation_status (conv_status p) then
        reject u it d
      else
        case p_conv_started_at p of
          None \<Rightarrow> reject u it d
        | Some started \<Rightarrow>
            (case obj of
               None \<Rightarrow>
                 commit_insert conversations_tab u it Upsert (new_conversation E u it started) d
             | Some c \<Rightarrow>
                 version_gate conversations_tab u it c d
                   (commit_update conversations_tab u it Upsert (merge_conversation pl started)
                      (en_now E) d)))"

section \<open>Turn\<close>

definition turn_speaker :: "interpreter_p \<Rightarrow> string" where
  "turn_speaker p = nonempty_or ''counterpart'' (p_turn_speaker p)"

definition turn_direction :: "interpreter_p \<Rightarrow> string" where
  "turn_direction p = nonempty_or ''ru2zh'' (p_turn_direction p)"

definition turn_input :: "interpreter_p \<Rightarrow> string" where
  "turn_input p = nonempty_or ''audio'' (p_turn_input_method p)"

definition new_turn ::
  "env \<Rightarrow> uuid \<Rightarrow> push_item \<Rightarrow> uuid \<Rightarrow> string option \<Rightarrow> turn_row" where
  "new_turn E u it cid details =
     (let p = p_interpreter (it_payload it) in
      \<lparr>rid = it_eid it, ruser = u, rver = 1, rupdated = en_now E, rdeleted = None,
       tu_conversation_id = cid, tu_speaker = turn_speaker p, tu_direction = turn_direction p,
       tu_input_method = turn_input p, tu_sequence = or_keep 0 (p_turn_sequence p),
       tu_source = or_keep [] (p_turn_source p),
       tu_plain_russian = or_keep [] (p_turn_plain_russian p),
       tu_stressed_russian = or_keep [] (p_turn_stressed_russian p),
       tu_chinese = or_keep [] (p_turn_chinese p),
       tu_back_translation = or_keep [] (p_turn_back_translation p),
       tu_details = details, tu_modified_at = p_turn_modified_at p\<rparr>)"

text \<open>The stored edit is newer than the incoming one, which may carry no time at all.\<close>

definition stale_edit :: "time option \<Rightarrow> time option \<Rightarrow> bool" where
  "stale_edit stored incoming =
     (case stored of
        None \<Rightarrow> False
      | Some s \<Rightarrow> (case incoming of None \<Rightarrow> True | Some i \<Rightarrow> i < s))"

definition merge_turn :: "interpreter_p \<Rightarrow> string option \<Rightarrow> turn_row \<Rightarrow> turn_row" where
  "merge_turn p details r =
     (let stale = stale_edit (tu_modified_at r) (p_turn_modified_at p);
          keep = (\<lambda>stored incoming. if stale then stored else nonempty_or stored incoming) in
      r\<lparr>tu_speaker := turn_speaker p, tu_direction := turn_direction p,
        tu_input_method := turn_input p,
        tu_sequence := (if or_keep 0 (p_turn_sequence p) = 0 then tu_sequence r
                        else or_keep 0 (p_turn_sequence p)),
        tu_source := keep (tu_source r) (p_turn_source p),
        tu_plain_russian := keep (tu_plain_russian r) (p_turn_plain_russian p),
        tu_stressed_russian := keep (tu_stressed_russian r) (p_turn_stressed_russian p),
        tu_chinese := keep (tu_chinese r) (p_turn_chinese p),
        tu_back_translation := keep (tu_back_translation r) (p_turn_back_translation p),
        tu_details := details,
        tu_modified_at := or_keep_opt (tu_modified_at r) (p_turn_modified_at p)\<rparr>)"

definition apply_interpreter_turn ::
  "env \<Rightarrow> uuid \<Rightarrow> push_item \<Rightarrow> db \<Rightarrow> db_error + db \<times> push_result" where
  "apply_interpreter_turn E u it d =
     (let obj = fetch turns_tab u (it_eid it) d; pl = it_payload it; p = p_interpreter pl;
          details = sanitize_details E (valid_json_payload (p_turn_details p)) in
      if is_delete it then apply_learning_delete E turns_tab None u it obj d
      else if \<not> valid_speaker (turn_speaker p) \<or> \<not> valid_direction (turn_direction p)
            \<or> \<not> valid_input_method (turn_input p) then reject u it d
      else
        case required_ref (p_conversation_id (p_refs pl)) of
          None \<Rightarrow> reject u it d
        | Some cid \<Rightarrow>
            if bad_json_payload (p_turn_details p) then reject u it d
            else
              (case obj of
                 None \<Rightarrow>
                   bindE (jsonb_opt E details) (\<lambda>s.
                     commit_insert turns_tab u it Upsert (new_turn E u it cid s) d)
               | Some r \<Rightarrow>
                   version_gate turns_tab u it r d
                     (bindE (jsonb_opt E (or_keep_opt (tu_details r) details)) (\<lambda>s.
                        commit_update turns_tab u it Upsert (merge_turn p s) (en_now E) d))))"

section \<open>Soundness\<close>

interpretation conversation_turns: independent conversations_tab turns_tab
  by unfold_locales (simp_all add: conversations_tab_def turns_tab_def log_change_def)

lemma interpreter_keep_row [simp]:
  "keeps_row (merge_conversation pl t)" "keeps_row (merge_turn p s)"
  by (rule keeps_rowI; simp add: merge_conversation_def merge_turn_def Let_def)+

lemma quiet_cascade_delete_turns: "quiet u d (cascade_delete_turns E u cid d)"
  unfolding cascade_delete_turns_def by (rule turns.quiet_tombstone_sweep) simp

lemma cascade_turns_fetch:
  "cascade_delete_turns E u cid d = Inr d' \<Longrightarrow>
     fetch conversations_tab v i d' = fetch conversations_tab v i d"
  unfolding cascade_delete_turns_def by (rule conversation_turns.fetch_frame)

lemma sound_apply_interpreter_conversation:
  "sound u it d (apply_interpreter_conversation E u it d)"
  unfolding apply_interpreter_conversation_def Let_def
  by (auto simp: new_conversation_def Let_def quiet_cascade_delete_turns cascade_turns_fetch
      split: option.split
      intro!: conversations.sound_delete_with_children conversations.sound_new
        conversations.sound_gated_merge)

lemma sound_apply_interpreter_turn: "sound u it d (apply_interpreter_turn E u it d)"
  unfolding apply_interpreter_turn_def Let_def
  by (auto simp: new_turn_def Let_def split: option.split
      intro!: turns.sound_learning_delete sound_bind_value turns.sound_new sound_gate
        turns.sound_merge)

section \<open>What the scrub promises\<close>

definition keyword_list :: "(string \<times> jval) list \<Rightarrow> jval list" where
  "keyword_list doc = (case map_of doc ''keywords'' of Some (VArr ks) \<Rightarrow> ks | _ \<Rightarrow> [])"

lemma map_of_filter_other: "k \<noteq> k' \<Longrightarrow> map_of (filter (\<lambda>kv. fst kv \<noteq> k') kvs) k = map_of kvs k"
  by (induction kvs) auto

lemma map_of_filter_self: "map_of (filter (\<lambda>kv. fst kv \<noteq> k) kvs) k = None"
  by (induction kvs) auto

lemma put_field_lookup: "map_of (put_field k v kvs) k' = (if k' = k then Some v else map_of kvs k')"
  by (auto simp: put_field_def map_add_def map_of_filter_other map_of_filter_self
      split: option.split)

lemma scrub_doc_keywords:
  "scrub_doc doc = Some doc' \<Longrightarrow>
     keyword_list doc' = filter (\<lambda>k. \<not> is_label k) (keyword_list doc)"
  by (auto simp: scrub_doc_def keyword_list_def Let_def put_field_lookup map_of_filter_self
      split: option.splits jval.splits if_splits)

lemma scrub_doc_flag: "scrub_doc doc = Some doc' \<Longrightarrow> map_of doc' ''hasLocalSources'' = Some (VBool True)"
  by (auto simp: scrub_doc_def Let_def put_field_lookup split: option.splits jval.splits if_splits)

lemma scrub_doc_again: "scrub_doc doc = Some doc' \<Longrightarrow> scrub_doc doc' = None"
proof -
  assume "scrub_doc doc = Some doc'"
  then have "\<forall>k\<in>set (keyword_list doc'). \<not> is_label k" by (simp add: scrub_doc_keywords)
  then show ?thesis by (auto simp: scrub_doc_def keyword_list_def split: option.split jval.split)
qed

lemma scrub_doc_None: "scrub_doc doc = None \<longleftrightarrow> \<not> (\<exists>k\<in>set (keyword_list doc). is_label k)"
  by (auto simp: scrub_doc_def keyword_list_def Let_def split: option.splits jval.splits)

end
