(* ===== verification/Errands.thy ===== *)
theory Errands
  imports Interpreter
begin

text \<open>
  The errand cases and their items (internal/sync/errands.go). The scene allowlist is the
  interpreter's. An absent enum keeps the stored value on a merge; an item's text resolves by
  its edit time, confirmation and the terminal statuses are sticky.
\<close>

section \<open>Allowlists\<close>

definition valid_case_status :: "string \<Rightarrow> bool" where
  "valid_case_status s \<longleftrightarrow>
     s \<in> {''draft'', ''preparing'', ''scheduled'', ''waitingForResult'', ''needsFollowUp'',
          ''completed'', ''cancelled'', ''archived''}"

definition valid_item_kind :: "string \<Rightarrow> bool" where
  "valid_item_kind s \<longleftrightarrow>
     s \<in> {''requiredDocument'', ''action'', ''question'', ''payment'', ''appointment'',
          ''deadline'', ''followUp''}"

definition valid_item_status :: "string \<Rightarrow> bool" where
  "valid_item_status s \<longleftrightarrow> s \<in> {''unconfirmed'', ''pending'', ''done'', ''skipped''}"

definition valid_item_origin :: "string \<Rightarrow> bool" where
  "valid_item_origin s \<longleftrightarrow> s \<in> {''manual'', ''ai''}"

section \<open>Case\<close>

text \<open>An absent or empty enum falls back to the stored row, then to the default.\<close>

definition enum_or :: "string \<Rightarrow> ('a \<Rightarrow> string) \<Rightarrow> 'a option \<Rightarrow> string option \<Rightarrow> string" where
  "enum_or dflt f obj p = nonempty_or (case obj of None \<Rightarrow> dflt | Some r \<Rightarrow> f r) p"

lemma enum_or_simps [simp]:
  "enum_or dflt f None p = nonempty_or dflt p" "enum_or dflt f (Some r) p = nonempty_or (f r) p"
  by (simp_all add: enum_or_def)

definition cascade_delete_case_items :: "env \<Rightarrow> uuid \<Rightarrow> uuid \<Rightarrow> db \<Rightarrow> db_error + db" where
  "cascade_delete_case_items E u cid d =
     sweep_logged case_items_tab u
       (\<lambda>r. ruser r = u \<and> ei_case_id r = cid \<and> \<not> is_deleted r)
       (tombstone (en_now E)) Delete (en_now E) d"

definition case_stub :: "env \<Rightarrow> uuid \<Rightarrow> push_item \<Rightarrow> case_row" where
  "case_stub E u it =
     \<lparr>rid = it_eid it, ruser = u, rver = 1, rupdated = en_now E, rdeleted = Some (en_now E),
      ec_title = [], ec_scene = ''general'', ec_status = ''preparing'', ec_purpose = [],
      ec_user_note = [], ec_timezone = [], ec_location = [], ec_contact = [],
      ec_expected_result_at = None, ec_pinned = False, ec_has_local_sources = False\<rparr>"

definition new_case :: "env \<Rightarrow> uuid \<Rightarrow> push_item \<Rightarrow> string \<Rightarrow> string \<Rightarrow> case_row" where
  "new_case E u it scene st =
     (let pl = it_payload it; p = p_errand pl in
      \<lparr>rid = it_eid it, ruser = u, rver = 1, rupdated = en_now E, rdeleted = None,
       ec_title = or_keep [] (p_title pl), ec_scene = scene, ec_status = st,
       ec_purpose = or_keep [] (p_err_purpose p), ec_user_note = or_keep [] (p_err_note p),
       ec_timezone = or_keep [] (p_err_timezone p), ec_location = or_keep [] (p_err_location p),
       ec_contact = or_keep [] (p_err_contact p), ec_expected_result_at = p_err_expected_at p,
       ec_pinned = or_keep False (p_err_pinned p),
       ec_has_local_sources = or_keep False (p_err_local_sources p)\<rparr>)"

definition merge_case :: "payload \<Rightarrow> string \<Rightarrow> string \<Rightarrow> case_row \<Rightarrow> case_row" where
  "merge_case pl scene st r =
     (let p = p_errand pl in
      r\<lparr>ec_title := nonempty_or (ec_title r) (p_title pl), ec_scene := scene, ec_status := st,
        ec_purpose := or_keep (ec_purpose r) (p_err_purpose p),
        ec_user_note := or_keep (ec_user_note r) (p_err_note p),
        ec_timezone := or_keep (ec_timezone r) (p_err_timezone p),
        ec_location := or_keep (ec_location r) (p_err_location p),
        ec_contact := or_keep (ec_contact r) (p_err_contact p),
        ec_expected_result_at := or_keep_opt (ec_expected_result_at r) (p_err_expected_at p),
        ec_pinned := or_keep (ec_pinned r) (p_err_pinned p),
        ec_has_local_sources := or_keep (ec_has_local_sources r) (p_err_local_sources p)\<rparr>)"

definition apply_errand_case ::
  "env \<Rightarrow> uuid \<Rightarrow> push_item \<Rightarrow> db \<Rightarrow> db_error + db \<times> push_result" where
  "apply_errand_case E u it d =
     (let obj = fetch errand_cases_tab u (it_eid it) d; pl = it_payload it; p = p_errand pl;
          scene = enum_or ''general'' ec_scene obj (p_err_scene p);
          st = enum_or ''preparing'' ec_status obj (p_err_status p);
          tz = or_keep [] (p_err_timezone p) in
      if is_delete it then
        delete_with_children E errand_cases_tab (Some (case_stub E u it)) u it obj
          (cascade_delete_case_items E u (it_eid it)) d
      else if \<not> valid_scene scene \<or> \<not> valid_case_status st then reject u it d
      else if tz \<noteq> [] \<and> \<not> en_tz_known E tz then reject u it d
      else
        case obj of
          None \<Rightarrow> commit_insert errand_cases_tab u it Upsert (new_case E u it scene st) d
        | Some c \<Rightarrow>
            version_gate errand_cases_tab u it c d
              (commit_update errand_cases_tab u it Upsert (merge_case pl scene st) (en_now E) d))"

section \<open>Item\<close>

definition newer_edit :: "time option \<Rightarrow> time option \<Rightarrow> bool" where
  "newer_edit stored incoming =
     (case incoming of
        None \<Rightarrow> False
      | Some i \<Rightarrow> (case stored of None \<Rightarrow> True | Some s \<Rightarrow> s < i))"

definition new_case_item ::
  "env \<Rightarrow> uuid \<Rightarrow> push_item \<Rightarrow> uuid \<Rightarrow> string \<Rightarrow> string \<Rightarrow> string \<Rightarrow> case_item_row" where
  "new_case_item E u it cid k st org =
     (let pl = it_payload it; p = p_errand_item pl in
      \<lparr>rid = it_eid it, ruser = u, rver = 1, rupdated = en_now E, rdeleted = None,
       ei_case_id = cid, ei_title = or_keep [] (p_title pl), ei_kind = k, ei_status = st,
       ei_sequence = or_keep 0 (p_eitem_sequence p), ei_detail = or_keep [] (p_eitem_detail p),
       ei_due_at = p_eitem_due_at p, ei_date_text = or_keep [] (p_eitem_date_text p),
       ei_date_relative = or_keep False (p_eitem_date_relative p),
       ei_date_uncertain = or_keep False (p_eitem_date_uncertain p), ei_origin = org,
       ei_confirmed = or_keep False (p_eitem_confirmed p),
       ei_fee_text = or_keep [] (p_eitem_fee_text p), ei_fee_amount = p_eitem_fee_amount p,
       ei_fee_currency = or_keep [] (p_eitem_fee_currency p),
       ei_modified_at = p_eitem_modified_at p, ei_completed_at = p_eitem_completed_at p\<rparr>)"

text \<open>Done and skipped reopen only on a genuinely newer edit.\<close>

definition merge_item_terminal :: "bool \<Rightarrow> string \<Rightarrow> string \<Rightarrow> string" where
  "merge_item_terminal newer st stored =
     (if (stored = ''done'' \<or> stored = ''skipped'') \<and> (st = ''pending'' \<or> st = ''unconfirmed'')
         \<and> \<not> newer
      then stored else st)"

text \<open>The UPDATE of \<open>applyErrandCaseItem\<close> names neither the title nor the case.\<close>

definition merge_case_item ::
  "errand_item_p \<Rightarrow> string \<Rightarrow> string \<Rightarrow> string \<Rightarrow> case_item_row \<Rightarrow> case_item_row" where
  "merge_case_item p k st org r =
     (let stale = stale_edit (ei_modified_at r) (p_eitem_modified_at p);
          newer = newer_edit (ei_modified_at r) (p_eitem_modified_at p);
          st' = merge_item_terminal newer st (ei_status r);
          edit = (\<lambda>stored incoming. if stale then stored else or_keep stored incoming) in
      r\<lparr>ei_kind := k, ei_status := st',
        ei_sequence := (if or_keep 0 (p_eitem_sequence p) = 0 then ei_sequence r
                        else or_keep 0 (p_eitem_sequence p)),
        ei_detail := edit (ei_detail r) (p_eitem_detail p),
        ei_due_at := or_keep_opt (ei_due_at r) (p_eitem_due_at p),
        ei_date_text := edit (ei_date_text r) (p_eitem_date_text p),
        ei_date_relative := or_keep (ei_date_relative r) (p_eitem_date_relative p),
        ei_date_uncertain := or_keep (ei_date_uncertain r) (p_eitem_date_uncertain p),
        ei_origin := org,
        ei_confirmed := or_keep False (p_eitem_confirmed p) \<or> ei_confirmed r,
        ei_fee_text := edit (ei_fee_text r) (p_eitem_fee_text p),
        ei_fee_amount := or_keep_opt (ei_fee_amount r) (p_eitem_fee_amount p),
        ei_fee_currency := or_keep (ei_fee_currency r) (p_eitem_fee_currency p),
        ei_modified_at := or_keep_opt (ei_modified_at r) (p_eitem_modified_at p),
        ei_completed_at := (if st' = ''done'' \<and> p_eitem_completed_at p = None then ei_completed_at r
                            else p_eitem_completed_at p)\<rparr>)"

definition apply_errand_case_item ::
  "env \<Rightarrow> uuid \<Rightarrow> push_item \<Rightarrow> db \<Rightarrow> db_error + db \<times> push_result" where
  "apply_errand_case_item E u it d =
     (let obj = fetch case_items_tab u (it_eid it) d; pl = it_payload it; p = p_errand_item pl;
          k = enum_or ''action'' ei_kind obj (p_eitem_kind p);
          st = enum_or ''pending'' ei_status obj (p_eitem_status p);
          org = enum_or ''manual'' ei_origin obj (p_eitem_origin p) in
      if is_delete it then apply_learning_delete E case_items_tab None u it obj d
      else if \<not> valid_item_kind k \<or> \<not> valid_item_status st \<or> \<not> valid_item_origin org then
        reject u it d
      else
        case required_ref (p_case_id (p_refs pl)) of
          None \<Rightarrow> reject u it d
        | Some cid \<Rightarrow>
            if or_keep 0 (p_eitem_sequence p) < 0 then reject u it d
            else if 8 < length (or_keep [] (p_eitem_fee_currency p)) then reject u it d
            else
              (case obj of
                 None \<Rightarrow>
                   commit_insert case_items_tab u it Upsert (new_case_item E u it cid k st org) d
               | Some i \<Rightarrow>
                   version_gate case_items_tab u it i d
                     (commit_update case_items_tab u it Upsert (merge_case_item p k st org)
                        (en_now E) d)))"

section \<open>Soundness\<close>

interpretation case_items_of_case: independent errand_cases_tab case_items_tab
  by unfold_locales (simp_all add: errand_cases_tab_def case_items_tab_def log_change_def)

lemma errands_keep_row [simp]:
  "keeps_row (merge_case pl s t)" "keeps_row (merge_case_item p k st org)"
  by (rule keeps_rowI; simp add: merge_case_def merge_case_item_def Let_def)+

lemma quiet_cascade_delete_case_items: "quiet u d (cascade_delete_case_items E u cid d)"
  unfolding cascade_delete_case_items_def by (rule case_items.quiet_tombstone_sweep) simp

lemma cascade_case_items_fetch:
  "cascade_delete_case_items E u cid d = Inr d' \<Longrightarrow>
     fetch errand_cases_tab v i d' = fetch errand_cases_tab v i d"
  unfolding cascade_delete_case_items_def by (rule case_items_of_case.fetch_frame)

lemma sound_apply_errand_case: "sound u it d (apply_errand_case E u it d)"
  unfolding apply_errand_case_def Let_def
  by (auto simp: new_case_def case_stub_def Let_def quiet_cascade_delete_case_items
      cascade_case_items_fetch split: option.split
      intro!: errand_cases.sound_delete_with_children errand_cases.sound_new
        errand_cases.sound_gated_merge)

lemma sound_apply_errand_case_item: "sound u it d (apply_errand_case_item E u it d)"
  unfolding apply_errand_case_item_def Let_def
  by (auto simp: new_case_item_def Let_def split: option.split
      intro!: case_items.sound_learning_delete case_items.sound_new case_items.sound_gated_merge)

end
