(* ===== verification/Push.thy ===== *)
theory Push
  imports Courses Errands
begin

text \<open>
  The push engine (ApplyPush and applyOne, internal/sync/service.go): one transaction for the
  batch, the idempotency ledger in front of every item, the structural validation, and the
  dispatch on the entity type. The locale \<open>sync_handlers\<close> is the contract between the engine
  and the handlers; the engine's lemmas are proved under it and hold for the dispatch of the
  program by interpretation.
\<close>

section \<open>Dispatch\<close>

primrec handler ::
  "etype \<Rightarrow> env \<Rightarrow> uuid \<Rightarrow> push_item \<Rightarrow> db \<Rightarrow> db_error + db \<times> push_result" where
  "handler ESession = apply_session"
| "handler EEntry = apply_entry"
| "handler EBookmark = apply_bookmark"
| "handler EFavorite = apply_favorite"
| "handler ECourse = apply_course"
| "handler ENote = apply_note"
| "handler EStudyReview = apply_study_review"
| "handler EAttachment = apply_attachment"
| "handler ETerm = apply_term"
| "handler EStudyCard = apply_study_card"
| "handler EStudyTask = apply_study_task"
| "handler ETranscriptCorrection = apply_correction"
| "handler ECourseSchedule = apply_course_schedule"
| "handler EScheduleException = apply_schedule_exception"
| "handler EMaterial = apply_material"
| "handler EMaterialPage = apply_material_page"
| "handler EMaterialAnnotation = apply_material_annotation"
| "handler EAssistantThread = apply_assistant_thread"
| "handler EAssistantMessage = apply_assistant_message"
| "handler EExam = apply_exam"
| "handler EExamTopic = apply_exam_topic"
| "handler EStudyPlan = apply_study_plan"
| "handler EStudyPlanItem = apply_study_plan_item"
| "handler EStudyActivity = apply_study_activity"
| "handler EInterpreterConversation = apply_interpreter_conversation"
| "handler EInterpreterTurn = apply_interpreter_turn"
| "handler EErrandCase = apply_errand_case"
| "handler EErrandCaseItem = apply_errand_case_item"

type_synonym handlers =
  "etype \<Rightarrow> env \<Rightarrow> uuid \<Rightarrow> push_item \<Rightarrow> db \<Rightarrow> db_error + db \<times> push_result"

text \<open>Validation and dispatch of an item the ledger does not answer.\<close>

definition process :: "handlers \<Rightarrow> env \<Rightarrow> uuid \<Rightarrow> push_item \<Rightarrow> db \<Rightarrow> db_error + db \<times> push_result" where
  "process h E u it d =
     (if \<not> valid_entity_type (it_etype it) then reject u it d
      else if it_operation it \<noteq> ''upsert'' \<and> it_operation it \<noteq> ''delete'' then reject u it d
      else
        case entity_of (it_etype it) of
          None \<Rightarrow> h EStudyReview E u it d
        | Some e \<Rightarrow> h e E u it d)"

definition run_one :: "handlers \<Rightarrow> env \<Rightarrow> uuid \<Rightarrow> push_item \<Rightarrow> db \<Rightarrow> db_error + db \<times> push_result" where
  "run_one h E u it d =
     (case find_ledger u (it_op_id it) d of
        None \<Rightarrow> process h E u it d
      | Some l \<Rightarrow>
          (case lg_result l of None \<Rightarrow> process h E u it d | Some res \<Rightarrow> Inr (d, res)))"

primrec run_items ::
  "handlers \<Rightarrow> env \<Rightarrow> uuid \<Rightarrow> push_item list \<Rightarrow> db \<Rightarrow> db_error + db \<times> push_result list" where
  "run_items h E u [] d = Inr (d, [])"
| "run_items h E u (it # its) d =
     bindE (run_one h E u it d) (\<lambda>x.
     bindE (run_items h E u its (fst x)) (\<lambda>y. Inr (fst y, snd x # snd y)))"

definition apply_one :: "env \<Rightarrow> uuid \<Rightarrow> push_item \<Rightarrow> db \<Rightarrow> db_error + db \<times> push_result" where
  "apply_one = run_one handler"

text \<open>
  The transaction: the file-cleanup hooks start empty, an error rolls everything back and
  discards them, a commit hands them out to run.
\<close>

definition apply_push ::
  "env \<Rightarrow> uuid \<Rightarrow> push_item list \<Rightarrow> db \<Rightarrow> db \<times> (db_error + push_result list \<times> (uuid \<times> uuid) list)" where
  "apply_push E u its d =
     (case run_items handler E u its (d\<lparr>db_hooks := []\<rparr>) of
        Inl err \<Rightarrow> (d, Inl err)
      | Inr (d', rs) \<Rightarrow> (d'\<lparr>db_hooks := []\<rparr>, Inr (rs, db_hooks d')))"

section \<open>The ledger\<close>

text \<open>Every stored result answers the operation it is stored under, and keys are unique.\<close>

definition ledger_ok :: "db \<Rightarrow> bool" where
  "ledger_ok d \<longleftrightarrow>
     distinct (map (\<lambda>l. (lg_user l, lg_op_id l)) (db_ledger d)) \<and>
     (\<forall>l\<in>set (db_ledger d). \<forall>res. lg_result l = Some res \<longrightarrow> res_op_id res = lg_op_id l)"

definition answered :: "uuid \<Rightarrow> db \<Rightarrow> push_item \<Rightarrow> push_result \<Rightarrow> bool" where
  "answered u d it res \<longleftrightarrow>
     (\<exists>l. find_ledger u (it_op_id it) d = Some l \<and> lg_result l = Some res)"

lemma ledger_entry_simps [simp]:
  "lg_user (ledger_entry u it res) = u" "lg_op_id (ledger_entry u it res) = it_op_id it"
  "lg_result (ledger_entry u it res) = Some res"
  by (simp_all add: ledger_entry_def)

lemma find_ledger_None:
  "find_ledger u op d = None \<longleftrightarrow> (u, op) \<notin> (\<lambda>l. (lg_user l, lg_op_id l)) ` set (db_ledger d)"
  by (auto simp: find_ledger_def find_None)

lemma find_ledger_in: "find_ledger u op d = Some l \<Longrightarrow> l \<in> set (db_ledger d) \<and> lg_user l = u \<and> lg_op_id l = op"
  using find_in_set [of "\<lambda>l. lg_user l = u \<and> lg_op_id l = op"] by (simp add: find_ledger_def)

lemma find_ledger_append:
  "db_ledger d' = db_ledger d @ ls \<Longrightarrow> find_ledger u op d = Some l \<Longrightarrow> find_ledger u op d' = Some l"
  by (simp add: find_ledger_def find_append)

lemma find_ledger_new:
  assumes "find_ledger u (it_op_id it) d = None" and "db_ledger d' = db_ledger d @ [ledger_entry u it res]"
  shows "find_ledger u (it_op_id it) d' = Some (ledger_entry u it res)"
  using assms by (simp add: find_ledger_def find_append)

lemma find_ledger_hooks [simp]: "find_ledger u op (d\<lparr>db_hooks := h\<rparr>) = find_ledger u op d"
  by (simp add: find_ledger_def)

lemma answered_hooks [simp]: "answered u (d\<lparr>db_hooks := h\<rparr>) it res = answered u d it res"
  by (simp add: answered_def)

section \<open>The contract of the handlers\<close>

locale sync_handlers =
  fixes h :: handlers
  assumes sound_handler: "sound u it d (h e E u it d)"
begin

lemma sound_process: "sound u it d (process h E u it d)"
  unfolding process_def by (auto simp: sound_handler split: option.split)

lemma run_one_replay: "answered u d it res \<Longrightarrow> run_one h E u it d = Inr (d, res)"
  by (auto simp: answered_def run_one_def)

text \<open>A successful item was answered before, or is new and is answered now.\<close>

lemma run_one_cases:
  assumes "run_one h E u it d = Inr (d', res)"
  shows "(answered u d it res \<and> d' = d) \<or>
    (find_ledger u (it_op_id it) d = None \<and> evolves u d d' \<and> res_op_id res = it_op_id it \<and>
     db_ledger d' = db_ledger d @ [ledger_entry u it res])"
proof (cases "\<exists>r. answered u d it r")
  case True
  then obtain r where r: "answered u d it r" ..
  with assms run_one_replay [OF r, of E] show ?thesis by simp
next
  case False
  then have "run_one h E u it d = process h E u it d"
    by (auto simp: run_one_def answered_def split: option.split)
  with assms sound_process [of u it d E] show ?thesis by (auto simp: sound_def)
qed

lemma run_one_evolves: "run_one h E u it d = Inr (d', res) \<Longrightarrow> evolves u d d'"
  by (auto dest: run_one_cases simp: evolves_refl)

lemma run_one_answered: "run_one h E u it d = Inr (d', res) \<Longrightarrow> answered u d' it res"
  by (auto dest!: run_one_cases dest: find_ledger_new simp: answered_def)

lemma run_one_ledger:
  "run_one h E u it d = Inr (d', res) \<Longrightarrow>
     \<exists>ls. db_ledger d' = db_ledger d @ ls \<and> (\<forall>l\<in>set ls. lg_user l = u)"
  by (auto dest!: run_one_cases)

lemma run_one_ledger_ok: "run_one h E u it d = Inr (d', res) \<Longrightarrow> ledger_ok d \<Longrightarrow> ledger_ok d'"
  by (auto dest!: run_one_cases simp: ledger_ok_def find_ledger_None)

text \<open>A ledger row whose result no longer unmarshals blocks its operation for good.\<close>

lemma run_one_corrupt:
  assumes "find_ledger u (it_op_id it) d = Some l" and "lg_result l = None"
  shows "\<exists>err. run_one h E u it d = Inl err"
proof (cases "run_one h E u it d")
  case (Inr x)
  then show ?thesis
    using run_one_cases [of E u it d "fst x" "snd x"] assms by (simp add: answered_def)
qed simp

lemma run_one_op_id:
  assumes "run_one h E u it d = Inr (d', res)" and "ledger_ok d"
  shows "res_op_id res = it_op_id it"
  using run_one_cases [OF assms(1)] assms(2)
  by (auto simp: answered_def ledger_ok_def dest!: find_ledger_in)

lemma run_items_ledger:
  "run_items h E u its d = Inr (d', rs) \<Longrightarrow>
     \<exists>ls. db_ledger d' = db_ledger d @ ls \<and> (\<forall>l\<in>set ls. lg_user l = u)"
proof (induction its arbitrary: d rs)
  case (Cons it its)
  then obtain d1 r rs' where "run_one h E u it d = Inr (d1, r)"
    and "run_items h E u its d1 = Inr (d', rs')"
    by (auto simp: bindE_eq_Inr)
  with Cons.IH run_one_ledger show ?case by fastforce
qed simp

lemma run_items_evolves: "run_items h E u its d = Inr (d', rs) \<Longrightarrow> evolves u d d'"
proof (induction its arbitrary: d rs)
  case (Cons it its)
  then obtain d1 r rs' where "run_one h E u it d = Inr (d1, r)"
    and "run_items h E u its d1 = Inr (d', rs')"
    by (auto simp: bindE_eq_Inr)
  with Cons.IH run_one_evolves evolves_trans show ?case by blast
qed (simp add: evolves_refl)

lemma run_items_ledger_ok:
  "run_items h E u its d = Inr (d', rs) \<Longrightarrow> ledger_ok d \<Longrightarrow> ledger_ok d'"
proof (induction its arbitrary: d rs)
  case (Cons it its)
  then obtain d1 r rs' where "run_one h E u it d = Inr (d1, r)"
    and "run_items h E u its d1 = Inr (d', rs')"
    by (auto simp: bindE_eq_Inr)
  with Cons run_one_ledger_ok show ?case by blast
qed simp

text \<open>One result per item, in order; each is in the ledger from then on.\<close>

lemma run_items_answered:
  "run_items h E u its d = Inr (d', rs) \<Longrightarrow> list_all2 (answered u d') its rs"
proof (induction its arbitrary: d rs)
  case (Cons it its)
  then obtain d1 r rs' where one: "run_one h E u it d = Inr (d1, r)" "rs = r # rs'"
    and rest: "run_items h E u its d1 = Inr (d', rs')"
    by (auto simp: bindE_eq_Inr)
  from run_items_ledger [OF rest] run_one_answered [OF one(1)] have "answered u d' it r"
    by (auto simp: answered_def intro: find_ledger_append)
  with Cons.IH [OF rest] one(2) show ?case by simp
qed simp

lemma run_items_op_ids:
  "run_items h E u its d = Inr (d', rs) \<Longrightarrow> ledger_ok d \<Longrightarrow> map res_op_id rs = map it_op_id its"
proof (induction its arbitrary: d rs)
  case (Cons it its)
  then obtain d1 r rs' where "run_one h E u it d = Inr (d1, r)" "rs = r # rs'"
    and "run_items h E u its d1 = Inr (d', rs')"
    by (auto simp: bindE_eq_Inr)
  with Cons run_one_ledger_ok run_one_op_id show ?case by fastforce
qed simp

lemma run_items_replay:
  "list_all2 (answered u d) its rs \<Longrightarrow> run_items h E u its d = Inr (d, rs)"
proof (induction its arbitrary: rs)
  case (Cons it its)
  then show ?case by (auto simp: list_all2_Cons1 run_one_replay)
qed simp

end

lemma sound_handlers: "sound u it d (handler e E u it d)"
  by (cases e)
    (simp_all add: sound_apply_session sound_apply_entry sound_apply_bookmark sound_apply_favorite
      sound_apply_course sound_apply_note sound_apply_study_review sound_apply_attachment
      sound_apply_term sound_apply_study_card sound_apply_study_task sound_apply_correction
      sound_apply_course_schedule sound_apply_schedule_exception sound_apply_material
      sound_apply_material_page sound_apply_material_annotation sound_apply_assistant_thread
      sound_apply_assistant_message sound_apply_exam sound_apply_exam_topic sound_apply_study_plan
      sound_apply_study_plan_item sound_apply_study_activity sound_apply_interpreter_conversation
      sound_apply_interpreter_turn sound_apply_errand_case sound_apply_errand_case_item)

interpretation engine: sync_handlers handler
  by unfold_locales (rule sound_handlers)

section \<open>The transaction\<close>

lemma apply_push_Inl: "apply_push E u its d = (d', Inl err) \<Longrightarrow> d' = d"
  by (auto simp: apply_push_def split: sum.splits)

lemma apply_push_Inr:
  assumes "apply_push E u its d = (d', Inr (rs, hs))"
  obtains d1 where "run_items handler E u its (d\<lparr>db_hooks := []\<rparr>) = Inr (d1, rs)"
    and "d' = d1\<lparr>db_hooks := []\<rparr>" and "hs = db_hooks d1"
  using assms by (auto simp: apply_push_def split: sum.splits)

lemma apply_push_evolves:
  assumes "apply_push E u its d = (d', x)"
  shows "evolves u d d'"
proof (cases "run_items handler E u its (d\<lparr>db_hooks := []\<rparr>)")
  case (Inl err)
  with assms show ?thesis by (simp add: apply_push_def evolves_refl)
next
  case (Inr y)
  obtain d1 rs where y: "y = (d1, rs)" by (cases y)
  have "evolves u d d1"
    using evolves_trans [OF evolves_hooks engine.run_items_evolves [OF Inr [unfolded y]]] .
  then have "evolves u d (d1\<lparr>db_hooks := []\<rparr>)"
    using evolves_trans evolves_hooks by blast
  with assms show ?thesis by (simp add: apply_push_def Inr y)
qed

lemma ledger_ok_hooks [simp]: "ledger_ok (d\<lparr>db_hooks := h\<rparr>) = ledger_ok d"
  by (simp add: ledger_ok_def)

lemma apply_push_ledger_ok: "apply_push E u its d = (d', x) \<Longrightarrow> ledger_ok d \<Longrightarrow> ledger_ok d'"
  using engine.run_items_ledger_ok [of E u its "d\<lparr>db_hooks := []\<rparr>"]
  by (auto simp: apply_push_def split: sum.splits)

lemma apply_push_ledger:
  "apply_push E u its d = (d', x) \<Longrightarrow>
     \<exists>ls. db_ledger d' = db_ledger d @ ls \<and> (\<forall>l\<in>set ls. lg_user l = u)"
  using engine.run_items_ledger [of E u its "d\<lparr>db_hooks := []\<rparr>"]
  by (fastforce simp: apply_push_def split: sum.splits)

end
