(* ===== verification/Outcomes.thy ===== *)
theory Outcomes
  imports Push
begin

text \<open>
  What the status of a result promises. \<open>gated\<close>: an upsert is accepted only against the
      version
  it was based on (optimistic concurrency), and the row is then live one version further;
  \<open>buried\<close>: a delete that succeeds is accepted and leaves a tombstone. Both are proved
      for
  every entity type, from rules for the shapes the handlers are made of.
\<close>

section \<open>Accepted upserts\<close>

definition accepted_upsert ::
  "etype \<Rightarrow> uuid \<Rightarrow> push_item \<Rightarrow> db \<Rightarrow> db \<Rightarrow>
      push_result \<Rightarrow> bool" where
  "accepted_upsert e u it d d' res \<longleftrightarrow>
     (\<exists>r j. look e (it_eid it) d' = Some (r, j) \<and> ruser r = u \<and> \<not> is_deleted
         r \<and>
        res_version res = Some (rver r) \<and>
        (case look e (it_eid it) d of
           None \<Rightarrow> rver r = 1
         | Some (q, k) \<Rightarrow>
             ruser q = u \<and> \<not> is_deleted q \<and> it_base it = rver q \<and> rver r = rver
                 q + 1))"

definition gated ::
  "etype \<Rightarrow> uuid \<Rightarrow> push_item \<Rightarrow> db \<Rightarrow> db_error + db
      \<times> push_result \<Rightarrow> bool" where
  "gated e u it d m \<longleftrightarrow>
     (\<forall>d' res. m = Inr (d', res) \<longrightarrow> wf d \<longrightarrow> res_status res =
         Accepted \<longrightarrow>
        accepted_upsert e u it d d' res)"

definition buried ::
  "etype \<Rightarrow> uuid \<Rightarrow> push_item \<Rightarrow> db_error + db \<times> push_result
      \<Rightarrow> bool" where
  "buried e u it m \<longleftrightarrow>
     (\<forall>d' res. m = Inr (d', res) \<longrightarrow>
        res_status res = Accepted \<and>
        (\<exists>r j. look e (it_eid it) d' = Some (r, j) \<and> ruser r = u \<and> is_deleted r
            \<and>
           res_version res = Some (rver r)))"

lemma gated_Inl [simp, intro]: "gated e u it d (Inl x)"
  by (simp add: gated_def)

lemma buried_Inl [simp, intro]: "buried e u it (Inl x)"
  by (simp add: buried_def)

lemma settle_Inr: "settle u it res d = Inr (d', res') \<Longrightarrow>
    res' = res \<and> (\<exists>l. d' = d\<lparr>db_ledger := l\<rparr>)"
  by (auto simp: settle_def store_ledger_def bindE_eq_Inr split: if_splits)

lemma gated_refused: "res_status res \<noteq> Accepted \<Longrightarrow> gated e u it d (settle u it
    res d)"
  by (auto simp: gated_def dest!: settle_Inr)

lemma gated_reject [simp, intro]: "gated e u it d (reject u it d)"
  by (simp add: reject_def gated_refused)

lemma gated_bind_value:
  "(\<And>v. m = Inr v \<Longrightarrow> gated e u it d (k v)) \<Longrightarrow> gated e u it d
      (bindE m k)"
  by (cases m) auto

lemma gated_cast_message:
  "(\<And>c v a. gated e u it d (k c v a)) \<Longrightarrow> gated e u it d (cast_message E cit ev
      ans k)"
  unfolding cast_message_def by (intro gated_bind_value) simp

lemma gated_cast_plan:
  "(\<And>a b c. gated e u it d (k a b c)) \<Longrightarrow> gated e u it d (cast_plan E p x y z k)"
  unfolding cast_plan_def by (intro gated_bind_value) simp

lemma gated_gate:
  assumes "\<not> is_deleted obj \<Longrightarrow> it_base it = rver obj \<Longrightarrow> gated e u
      it d m"
  shows "gated e u it d (version_gate T u it obj d m)"
  using assms by (auto simp: version_gate_def gated_refused)

lemma buried_settle:
  "look e (it_eid it) d = Some (r, j) \<Longrightarrow> ruser r = u \<Longrightarrow> is_deleted r
      \<Longrightarrow> rver r = v \<Longrightarrow>
     buried e u it (settle u it (accepted it v t) d)"
  by (auto simp: buried_def dest!: settle_Inr)

lemma buried_bind_frame:
  fixes m :: "db_error + db"
  assumes "\<And>d'. m = Inr d' \<Longrightarrow> buried e u it (k d')"
  shows "buried e u it (bindE m k)"
  using assms by (cases m) auto

lemma buried_bind_value:
  "(\<And>v. m = Inr v \<Longrightarrow> buried e u it (k v)) \<Longrightarrow> buried e u it (bindE
      m k)"
  by (cases m) auto

lemma buried_hooks:
  "buried e u it m \<Longrightarrow> buried e u it (bindE m (\<lambda>x. Inr ((fst
      x)\<lparr>db_hooks := h x\<rparr>, snd x)))"
  by (cases m) (auto simp: buried_def)

section \<open>The rules for one table\<close>

context synced_table
begin

lemma look_insert:
  assumes "sql_insert T r d = Inr d'"
  shows "look (tb_etype T) (rid r) d = None"
    and "look (tb_etype T) (rid r) d' = Some (abs_row (tb_json T) r)"
proof -
  from assms have d': "d' = tb_put T (tb_get T d @ [r]) d"
    and none: "find (\<lambda>x. rid x = rid r) (tb_get T d) = None"
    by (auto simp: sql_insert_def find_None split: if_splits)
  then show "look (tb_etype T) (rid r) d = None"
    and "look (tb_etype T) (rid r) d' = Some (abs_row (tb_json T) r)"
    by (simp_all add: look_own get_put find_append)
qed

lemma look_update:
  assumes "fetch T u i d = Some q" and "sql_update T u i f t d = Inr (d', v)" and "keeps_meta f"
    and "wf d"
  shows "look (tb_etype T) i d = Some (abs_row (tb_json T) q)"
    and "look (tb_etype T) i d' = Some (abs_row (tb_json T) (bump t (f q)))" and "v = rver q + 1"
proof -
  let ?h = "\<lambda>x. if rid x = i \<and> ruser x = u then bump t (f x) else x"
  note q = fetch_Some [OF assms(1)] and fq = fetch_look [OF assms(4,1)]
  from assms(1,2) have d': "d' = tb_put T (map ?h (tb_get T d)) d" and v: "v = rver q + 1"
    by (auto simp: sql_update_def split: if_splits)
  have id: "rid (?h x) = rid x" for x using assms(3) by (simp add: keeps_metaD)
  show "look (tb_etype T) i d = Some (abs_row (tb_json T) q)" by (simp add: look_own fq)
  show "look (tb_etype T) i d' = Some (abs_row (tb_json T) (bump t (f q)))"
    using q fq by (simp add: d' look_own get_put find_map_same_key [where k = rid and h = ?h, OF
        id])
  show "v = rver q + 1" by (rule v)
qed

lemma look_sweep_other:
  "sweep_logged T u P f op t d = Inr d' \<Longrightarrow> e \<noteq> tb_etype T \<Longrightarrow>
      look e i d' = look e i d"
  by (auto simp: sweep_logged_def sql_sweep_def Let_def bindE_eq_Inr look_put_other split:
      if_splits)

lemma gated_new:
  assumes "rid r = it_eid it" and "ruser r = u" and "rver r = 1" and "rdeleted r = None"
    and "e = tb_etype T"
  shows "gated e u it d (commit_insert T u it Upsert r d)"
  unfolding gated_def
proof (intro allI impI)
  fix d' res
  assume "commit_insert T u it Upsert r d = Inr (d', res)"
  then obtain d1 where "sql_insert T r d = Inr d1"
    and "settle u it (accepted it 1 (rupdated r)) (log_change u (tb_etype T) (it_eid it) Upsert 1
        d1) =
      Inr (d', res)"
    by (auto simp: commit_insert_def bindE_eq_Inr)
  with look_insert settle_Inr assms show "accepted_upsert e u it d d' res"
    by (fastforce simp: accepted_upsert_def abs_row_def)
qed

lemma gated_merge:
  assumes "fetch T u (it_eid it) d = Some q" and "\<not> is_deleted q" and "it_base it = rver q"
    and "keeps_row f" and "e = tb_etype T"
  shows "gated e u it d (commit_update T u it Upsert f t d)"
  unfolding gated_def
proof (intro allI impI)
  fix d' res
  assume w: "wf d" and "commit_update T u it Upsert f t d = Inr (d', res)"
  then obtain d1 v where up: "sql_update T u (it_eid it) f t d = Inr (d1, v)"
    and st: "settle u it (accepted it v t) (log_change u (tb_etype T) (it_eid it) Upsert v d1) =
      Inr (d', res)"
    by (auto simp: commit_update_def update_logged_def bindE_eq_Inr)
  note l = look_update [OF assms(1) up keeps_row_meta [OF assms(4)] w]
  from assms(4) have "rdeleted (f q) = rdeleted q" "ruser (f q) = ruser q" "rver (f q) = rver q"
    by (simp_all add: keeps_row_def keeps_metaD)
  with l settle_Inr [OF st] assms fetch_Some [OF assms(1)] show "accepted_upsert e u it d d' res"
    by (auto simp: accepted_upsert_def abs_row_def)
qed

lemma gated_gated_merge:
  assumes "fetch T u (it_eid it) d = Some q" and "keeps_row f" and "e = tb_etype T"
  shows "gated e u it d (version_gate T u it q d (commit_update T u it Upsert f t d))"
  by (rule gated_gate) (rule gated_merge [OF assms(1) _ _ assms(2,3)])

lemma buried_insert:
  assumes "rid r = it_eid it" and "ruser r = u" and "rver r = 1" and "rdeleted r \<noteq> None"
    and "e = tb_etype T"
  shows "buried e u it (commit_insert T u it Delete r d)"
  unfolding buried_def
proof (intro allI impI)
  fix d' res
  assume "commit_insert T u it Delete r d = Inr (d', res)"
  then obtain d1 where "sql_insert T r d = Inr d1"
    and "settle u it (accepted it 1 (rupdated r)) (log_change u (tb_etype T) (it_eid it) Delete 1
        d1) =
      Inr (d', res)"
    by (auto simp: commit_insert_def bindE_eq_Inr)
  with look_insert settle_Inr assms
  show "res_status res = Accepted \<and>
      (\<exists>r j. look e (it_eid it) d' = Some (r, j) \<and> ruser r = u \<and> is_deleted r
          \<and>
        res_version res = Some (rver r))"
    by (fastforce simp: abs_row_def)
qed

lemma buried_again:
  assumes "fetch T u (it_eid it) d = Some q" and "is_deleted q" and "wf d" and "e = tb_etype T"
  shows "buried e u it (settle u it (accepted it (rver q) t) d)"
  using fetch_look [OF assms(3,1)] fetch_Some [OF assms(1)] assms(2,4)
  by (intro buried_settle [where r = "row.truncate q" and j = "tb_json T q"])
    (simp_all add: look_own abs_row_def)

text \<open>The live delete, with whatever the handler still does to other tables.\<close>

lemma buried_update:
  assumes "fetch T u (it_eid it) d = Some q" and "wf d" and "e = tb_etype T"
    and "keeps_meta f" and "is_deleted (f q)"
    and k: "\<And>d' v r j. look e (it_eid it) d' = Some (r, j) \<Longrightarrow> ruser r = u
        \<Longrightarrow> is_deleted r \<Longrightarrow>
      rver r = v \<Longrightarrow> buried e u it (k (d', v))"
  shows "buried e u it (bindE (update_logged T u (it_eid it) Delete f t d) k)"
proof (cases "update_logged T u (it_eid it) Delete f t d")
  case (Inr x)
  then obtain d1 v where up: "sql_update T u (it_eid it) f t d = Inr (d1, v)"
    and x: "x = (log_change u (tb_etype T) (it_eid it) Delete v d1, v)"
    by (auto simp: update_logged_def bindE_eq_Inr)
  note l = look_update [OF assms(1) up assms(4,2)]
  have "buried e u it (k x)"
    unfolding x using l assms(3,4,5) fetch_Some [OF assms(1)]
    by (intro k [where r = "row.truncate (bump t (f q))" and j = "tb_json T (bump t (f q))"])
      (simp_all add: abs_row_def keeps_metaD)
  then show ?thesis by (simp add: Inr)
qed simp

lemma buried_commit:
  assumes "fetch T u (it_eid it) d = Some q" and "wf d" and "e = tb_etype T"
  shows "buried e u it (commit_update T u it Delete (tombstone t) t d)"
  unfolding commit_update_def
  by (rule buried_update [OF assms]) (auto intro: buried_settle)

lemma buried_learning_delete:
  assumes "obj = fetch T u (it_eid it) d" and "wf d" and "e = tb_etype T"
    and "\<And>r. stub = Some r \<Longrightarrow> rid r = it_eid it \<and> ruser r = u \<and> rver r
        = 1 \<and> rdeleted r \<noteq> None"
  shows "buried e u it (apply_learning_delete E T stub u it obj d)"
  unfolding apply_learning_delete_def
  using assms(1,4) buried_insert [OF _ _ _ _ assms(3)] buried_again [OF _ _ assms(2,3)]
    buried_commit [OF _ assms(2,3)]
  by (auto split: option.split)

lemma buried_leaf_delete:
  assumes "obj = fetch T u (it_eid it) d" and "wf d" and "e = tb_etype T"
    and "rid r = it_eid it" and "ruser r = u" and "rver r = 1" and "rdeleted r \<noteq> None"
  shows "buried e u it (leaf_delete E T r u it obj d)"
  unfolding leaf_delete_def
  using assms(1) buried_insert [OF assms(4-7,3)] buried_again [OF _ _ assms(2,3)]
    buried_commit [OF _ assms(2,3)]
  by (auto split: option.split)

lemma buried_delete_with_children:
  assumes "obj = fetch T u (it_eid it) d" and "wf d" and "e = tb_etype T"
    and quiet: "quiet u d (cascade d)"
    and frame: "\<And>d'. cascade d = Inr d' \<Longrightarrow> fetch T u (it_eid it) d' = fetch T u
        (it_eid it) d"
    and stub: "\<And>r. stub = Some r \<Longrightarrow> rid r = it_eid it \<and> ruser r = u \<and>
        rver r = 1 \<and> rdeleted r \<noteq> None"
  shows "buried e u it (delete_with_children E T stub u it obj cascade d)"
  unfolding delete_with_children_def
proof (rule buried_bind_frame)
  fix d'
  assume m: "(case obj of None \<Rightarrow> Inr d | Some r \<Rightarrow> if is_deleted r then Inr d
      else cascade d) = Inr d'"
  with frame assms(1) have "obj = fetch T u (it_eid it) d'"
    by (auto split: option.splits if_splits)
  moreover have "wf d'"
    using m quiet assms(2) by (auto simp: quiet_def evolves_def split: option.splits if_splits)
  ultimately show "buried e u it (apply_learning_delete E T stub u it obj d')"
    using stub assms(3) by (intro buried_learning_delete)
qed

end

section \<open>Every entity type\<close>

lemma tab_etypes [simp]:
  "tb_etype sessions_tab = ESession"
  "tb_etype entries_tab = EEntry"
  "tb_etype bookmarks_tab = EBookmark"
  "tb_etype favorites_tab = EFavorite"
  "tb_etype courses_tab = ECourse"
  "tb_etype session_notes_tab = ENote"
  "tb_etype reviews_tab = EStudyReview"
  "tb_etype attachments_tab = EAttachment"
  "tb_etype terms_tab = ETerm"
  "tb_etype cards_tab = EStudyCard"
  "tb_etype tasks_tab = EStudyTask"
  "tb_etype corrections_tab = ETranscriptCorrection"
  "tb_etype schedules_tab = ECourseSchedule"
  "tb_etype exceptions_tab = EScheduleException"
  "tb_etype materials_tab = EMaterial"
  "tb_etype pages_tab = EMaterialPage"
  "tb_etype annotations_tab = EMaterialAnnotation"
  "tb_etype threads_tab = EAssistantThread"
  "tb_etype messages_tab = EAssistantMessage"
  "tb_etype exams_tab = EExam"
  "tb_etype topics_tab = EExamTopic"
  "tb_etype plans_tab = EStudyPlan"
  "tb_etype plan_items_tab = EStudyPlanItem"
  "tb_etype activities_tab = EStudyActivity"
  "tb_etype conversations_tab = EInterpreterConversation"
  "tb_etype turns_tab = EInterpreterTurn"
  "tb_etype errand_cases_tab = EErrandCase"
  "tb_etype case_items_tab = EErrandCaseItem"
  by (simp_all add: sessions_tab_def entries_tab_def bookmarks_tab_def favorites_tab_def
      courses_tab_def session_notes_tab_def reviews_tab_def attachments_tab_def terms_tab_def
      cards_tab_def tasks_tab_def corrections_tab_def schedules_tab_def exceptions_tab_def
      materials_tab_def pages_tab_def annotations_tab_def threads_tab_def messages_tab_def exams_tab_def
      topics_tab_def plans_tab_def plan_items_tab_def activities_tab_def conversations_tab_def
      turns_tab_def errand_cases_tab_def case_items_tab_def)

lemma gated_apply_session:
  "\<not> is_delete it \<Longrightarrow> gated ESession u it d (apply_session E u it d)"
  unfolding apply_session_def Let_def
  by (auto simp: new_session_def Let_def split: option.split sum.split
      intro!: gated_bind_value sessions.gated_new gated_gate sessions.gated_merge gated_refused)

lemma cascade_children_look:
  "cascade_delete_children E u sid d = Inr d' \<Longrightarrow> look ESession i d' = look ESession i
      d"
  unfolding cascade_delete_children_def Let_def
  by (auto simp: bindE_eq_Inr dest!: entries.look_sweep_other [where e = ESession and i = i]
      bookmarks.look_sweep_other [where e = ESession and i = i]
      favorites.look_sweep_other [where e = ESession and i = i] session_notes.look_sweep_other
          [where e = ESession and i = i] reviews.look_sweep_other [where e = ESession and i = i]
      attachments.look_sweep_other [where e = ESession and i = i] corrections.look_sweep_other
          [where e = ESession and i = i] materials.look_sweep_other [where e = ESession and i = i])

lemma buried_apply_session:
  "is_delete it \<Longrightarrow> wf d \<Longrightarrow> buried ESession u it (apply_session E u it
      d)"
  unfolding apply_session_def Let_def
  by (auto simp: apply_session_delete_def session_phantom_def finish_session_meta(1)
      finish_session_def
      cascade_children_look split: option.split
      intro!: buried_settle buried_bind_frame sessions.buried_insert sessions.buried_again
        sessions.buried_update)

lemma gated_apply_entry:
  "\<not> is_delete it \<Longrightarrow> gated EEntry u it d (apply_entry E u it d)"
  unfolding apply_entry_def apply_entry_upsert_def Let_def
  by (auto simp: new_entry_def Let_def split: option.split sum.split
      intro!: gated_bind_value entries.gated_new gated_gate entries.gated_merge gated_refused)

lemma buried_apply_entry:
  "is_delete it \<Longrightarrow> wf d \<Longrightarrow> buried EEntry u it (apply_entry E u it d)"
  unfolding apply_entry_def apply_entry_upsert_def Let_def
  by (auto simp: entry_phantom_def Let_def intro!: entries.buried_leaf_delete)

lemma gated_apply_bookmark:
  "\<not> is_delete it \<Longrightarrow> gated EBookmark u it d (apply_bookmark E u it d)"
  unfolding apply_bookmark_def Let_def
  by (auto simp: new_bookmark_def Let_def split: option.split sum.split
      intro!: gated_bind_value bookmarks.gated_new gated_gate bookmarks.gated_merge gated_refused)

lemma buried_apply_bookmark:
  "is_delete it \<Longrightarrow> wf d \<Longrightarrow> buried EBookmark u it (apply_bookmark E u
      it d)"
  unfolding apply_bookmark_def Let_def
  by (auto simp: bookmark_phantom_def Let_def intro!: bookmarks.buried_leaf_delete)

lemma gated_apply_favorite:
  "\<not> is_delete it \<Longrightarrow> gated EFavorite u it d (apply_favorite E u it d)"
  unfolding apply_favorite_def Let_def
  by (auto simp: new_favorite_def Let_def split: option.split sum.split
      intro!: gated_bind_value favorites.gated_new gated_gate favorites.gated_merge gated_refused)

lemma buried_apply_favorite:
  "is_delete it \<Longrightarrow> wf d \<Longrightarrow> buried EFavorite u it (apply_favorite E u
      it d)"
  unfolding apply_favorite_def Let_def
  by (auto simp: favorite_phantom_def Let_def intro!: favorites.buried_leaf_delete)

lemma gated_apply_course:
  "\<not> is_delete it \<Longrightarrow> gated ECourse u it d (apply_course E u it d)"
  unfolding apply_course_def Let_def
  by (auto simp: new_course_def Let_def split: option.split sum.split
      intro!: gated_bind_value courses.gated_new gated_gate courses.gated_merge gated_refused)

lemma cascade_schedules_look:
  "cascade_schedules E u bs d = Inr d' \<Longrightarrow> e \<noteq> EScheduleException
      \<Longrightarrow> look e i d' = look e i d"
  by (induction bs arbitrary: d)
    (auto simp: bindE_eq_Inr cascade_delete_exceptions_def dest!: exceptions.look_sweep_other)

lemma course_detach_look:
  "detach_course_from_sessions E u cid d = Inr d' \<Longrightarrow> look ECourse i d' = look ECourse
      i d"
  "detach_course_from_materials E u cid d = Inr d' \<Longrightarrow> look ECourse i d' = look
      ECourse i d"
  "detach_course_from_threads E u cid d = Inr d' \<Longrightarrow> look ECourse i d' = look ECourse
      i d"
  unfolding detach_course_from_sessions_def detach_course_from_materials_def
    detach_course_from_threads_def
  by (erule sessions.look_sweep_other materials.look_sweep_other threads.look_sweep_other, simp)+

lemma course_detach_study_look:
  "detach_course_from_study_data E u cid d = Inr d' \<Longrightarrow> look ECourse i d' = look
      ECourse i d"
  unfolding detach_course_from_study_data_def
  by (elim bindE_InrE)
    (simp add: terms.look_sweep_other [where e = ECourse] cards.look_sweep_other [where e = ECourse]
      tasks.look_sweep_other [where e = ECourse])

lemma course_detach_exams_look:
  "detach_course_from_exams E u cid d = Inr d' \<Longrightarrow> look ECourse i d' = look ECourse i
      d"
  unfolding detach_course_from_exams_def
  by (elim bindE_InrE)
    (simp add: exams.look_sweep_other [where e = ECourse] activities.look_sweep_other [where e =
        ECourse])

lemma course_schedules_look:
  "cascade_delete_schedules E u cid d = Inr d' \<Longrightarrow> look ECourse i d' = look ECourse i
      d"
  unfolding cascade_delete_schedules_def
  by (auto simp: bindE_eq_Inr cascade_schedules_look schedules.look_put_other sql_sweep_def Let_def
      split: if_splits)

lemma course_cascade_look:
  "course_cascade E u cid d = Inr d' \<Longrightarrow> look ECourse i d' = look ECourse i d"
  unfolding course_cascade_def
  by (elim bindE_InrE)
    (simp add: course_detach_look course_detach_study_look course_detach_exams_look
      course_schedules_look)

lemma buried_apply_course:
  "is_delete it \<Longrightarrow> wf d \<Longrightarrow> buried ECourse u it (apply_course E u it
      d)"
  unfolding apply_course_def Let_def
  by (auto simp: apply_course_delete_def course_phantom_def course_cascade_look split: option.split
      intro!: buried_settle buried_bind_frame courses.buried_insert courses.buried_again
        courses.buried_update)

lemma gated_apply_note:
  "\<not> is_delete it \<Longrightarrow> gated ENote u it d (apply_note E u it d)"
  unfolding apply_note_def Let_def
  by (auto simp: new_note_def Let_def split: option.split sum.split
      intro!: gated_bind_value session_notes.gated_new gated_gate session_notes.gated_merge
          gated_refused)

lemma buried_apply_note:
  "is_delete it \<Longrightarrow> wf d \<Longrightarrow> buried ENote u it (apply_note E u it d)"
  unfolding apply_note_def Let_def
  by (auto simp: note_phantom_def Let_def intro!: session_notes.buried_leaf_delete)

lemma gated_apply_study_review:
  "\<not> is_delete it \<Longrightarrow> gated EStudyReview u it d (apply_study_review E u it d)"
  unfolding apply_study_review_def Let_def
  by (auto simp: new_review_def Let_def split: option.split sum.split
      intro!: gated_bind_value reviews.gated_new gated_gate reviews.gated_merge gated_refused)

lemma buried_apply_study_review:
  "is_delete it \<Longrightarrow> wf d \<Longrightarrow> buried EStudyReview u it
      (apply_study_review E u it d)"
  unfolding apply_study_review_def Let_def
  by (auto simp: review_phantom_def Let_def intro!: reviews.buried_leaf_delete)

lemma gated_apply_attachment:
  "\<not> is_delete it \<Longrightarrow> gated EAttachment u it d (apply_attachment E u it d)"
  unfolding apply_attachment_def Let_def
  by (auto simp: new_attachment_def Let_def split: option.split sum.split
      intro!: gated_bind_value attachments.gated_new gated_gate attachments.gated_merge
          gated_refused)

lemma buried_apply_attachment:
  "is_delete it \<Longrightarrow> wf d \<Longrightarrow> buried EAttachment u it (apply_attachment E
      u it d)"
  unfolding apply_attachment_def Let_def
  by (auto simp: apply_attachment_delete_def add_hook_def split: option.split
      intro!: buried_settle attachments.buried_again attachments.buried_update)

lemma gated_apply_term:
  "\<not> is_delete it \<Longrightarrow> gated ETerm u it d (apply_term E u it d)"
  unfolding apply_term_def Let_def
  by (auto simp: Let_def split: option.split sum.split
      intro!: gated_bind_value terms.gated_new gated_gate terms.gated_merge gated_refused)

lemma buried_apply_term:
  "is_delete it \<Longrightarrow> wf d \<Longrightarrow> buried ETerm u it (apply_term E u it d)"
  unfolding apply_term_def Let_def
  by (auto simp: term_stub_def intro!: terms.buried_learning_delete)

lemma gated_apply_study_card:
  "\<not> is_delete it \<Longrightarrow> gated EStudyCard u it d (apply_study_card E u it d)"
  unfolding apply_study_card_def Let_def
  by (auto simp: Let_def split: option.split sum.split
      intro!: gated_bind_value cards.gated_new gated_gate cards.gated_merge gated_refused)

lemma buried_apply_study_card:
  "is_delete it \<Longrightarrow> wf d \<Longrightarrow> buried EStudyCard u it (apply_study_card E
      u it d)"
  unfolding apply_study_card_def Let_def
  by (auto simp: card_stub_def intro!: cards.buried_learning_delete)

lemma gated_apply_study_task:
  "\<not> is_delete it \<Longrightarrow> gated EStudyTask u it d (apply_study_task E u it d)"
  unfolding apply_study_task_def Let_def
  by (auto simp: Let_def split: option.split sum.split
      intro!: gated_bind_value tasks.gated_new gated_gate tasks.gated_merge gated_refused)

lemma buried_apply_study_task:
  "is_delete it \<Longrightarrow> wf d \<Longrightarrow> buried EStudyTask u it (apply_study_task E
      u it d)"
  unfolding apply_study_task_def Let_def
  by (auto simp: task_stub_def intro!: tasks.buried_learning_delete)

lemma gated_apply_correction:
  "\<not> is_delete it \<Longrightarrow> gated ETranscriptCorrection u it d (apply_correction E u it
      d)"
  unfolding apply_correction_def Let_def
  by (auto simp: new_correction_def Let_def split: option.split sum.split
      intro!: gated_bind_value corrections.gated_new gated_gate corrections.gated_merge
          gated_refused)

lemma buried_apply_correction:
  "is_delete it \<Longrightarrow> wf d \<Longrightarrow> buried ETranscriptCorrection u it
      (apply_correction E u it d)"
  unfolding apply_correction_def Let_def
  by (auto simp: correction_phantom_def Let_def intro!: corrections.buried_leaf_delete)

lemma gated_apply_course_schedule:
  "\<not> is_delete it \<Longrightarrow> gated ECourseSchedule u it d (apply_course_schedule E u it
      d)"
  unfolding apply_course_schedule_def Let_def
  by (auto simp: new_schedule_def Let_def split: option.split sum.split
      intro!: gated_bind_value schedules.gated_new gated_gate schedules.gated_merge gated_refused)

lemma buried_apply_course_schedule:
  "is_delete it \<Longrightarrow> wf d \<Longrightarrow> buried ECourseSchedule u it
      (apply_course_schedule E u it d)"
  unfolding apply_course_schedule_def Let_def
  by (auto simp: quiet_cascade_delete_exceptions cascade_exceptions_fetch
      intro!: schedules.buried_delete_with_children)

lemma gated_apply_schedule_exception:
  "\<not> is_delete it \<Longrightarrow> gated EScheduleException u it d (apply_schedule_exception E
      u it d)"
  unfolding apply_schedule_exception_def Let_def
  by (auto simp: new_exception_def Let_def split: option.split sum.split
      intro!: gated_bind_value exceptions.gated_new gated_gate exceptions.gated_merge gated_refused)

lemma buried_apply_schedule_exception:
  "is_delete it \<Longrightarrow> wf d \<Longrightarrow> buried EScheduleException u it
      (apply_schedule_exception E u it d)"
  unfolding apply_schedule_exception_def Let_def
  by (auto intro!: exceptions.buried_learning_delete)

lemma gated_apply_material:
  "\<not> is_delete it \<Longrightarrow> gated EMaterial u it d (apply_material E u it d)"
  unfolding apply_material_def apply_material_upsert_def Let_def
  by (rule gated_bind_value)
    (auto simp: new_material_def fetch_material_def Let_def split: option.splits
      intro!: gated_bind_value materials.gated_new gated_gate materials.gated_merge)

lemma buried_apply_material:
  "is_delete it \<Longrightarrow> wf d \<Longrightarrow> buried EMaterial u it (apply_material E u
      it d)"
  unfolding apply_material_def apply_material_upsert_def Let_def
  by (rule buried_bind_value)
    (auto simp: material_stub_def fetch_material_def quiet_cascade_delete_material_children
      cascade_material_fetch split: option.splits
      intro!: buried_hooks materials.buried_delete_with_children)

lemma gated_apply_material_page:
  "\<not> is_delete it \<Longrightarrow> gated EMaterialPage u it d (apply_material_page E u it d)"
  unfolding apply_material_page_def Let_def
  by (auto simp: new_page_def Let_def split: option.split sum.split
      intro!: gated_bind_value pages.gated_new gated_gate pages.gated_merge gated_refused)

lemma buried_apply_material_page:
  "is_delete it \<Longrightarrow> wf d \<Longrightarrow> buried EMaterialPage u it
      (apply_material_page E u it d)"
  unfolding apply_material_page_def Let_def
  by (auto intro!: pages.buried_learning_delete)

lemma gated_apply_material_annotation:
  "\<not> is_delete it \<Longrightarrow> gated EMaterialAnnotation u it d (apply_material_annotation
      E u it d)"
  unfolding apply_material_annotation_def Let_def
  by (auto simp: new_annotation_def Let_def split: option.split sum.split
      intro!: gated_bind_value annotations.gated_new gated_gate annotations.gated_merge
          gated_refused)

lemma buried_apply_material_annotation:
  "is_delete it \<Longrightarrow> wf d \<Longrightarrow> buried EMaterialAnnotation u it
      (apply_material_annotation E u it d)"
  unfolding apply_material_annotation_def Let_def
  by (auto intro!: annotations.buried_learning_delete)

lemma gated_apply_assistant_thread:
  "\<not> is_delete it \<Longrightarrow> gated EAssistantThread u it d (apply_assistant_thread E u
      it d)"
  unfolding apply_assistant_thread_def Let_def
  by (auto simp: new_thread_def Let_def split: option.split sum.split
      intro!: gated_bind_value threads.gated_new gated_gate threads.gated_merge gated_refused)

lemma buried_apply_assistant_thread:
  "is_delete it \<Longrightarrow> wf d \<Longrightarrow> buried EAssistantThread u it
      (apply_assistant_thread E u it d)"
  unfolding apply_assistant_thread_def Let_def
  by (auto simp: thread_stub_def quiet_cascade_delete_messages cascade_messages_fetch
      intro!: threads.buried_delete_with_children)

lemma gated_apply_assistant_message:
  "\<not> is_delete it \<Longrightarrow> gated EAssistantMessage u it d (apply_assistant_message E u
      it d)"
  unfolding apply_assistant_message_def Let_def
  by (auto simp: new_message_def Let_def split: option.split sum.split
      intro!: gated_cast_message gated_bind_value messages.gated_new gated_gate messages.gated_merge
          gated_refused)

lemma buried_apply_assistant_message:
  "is_delete it \<Longrightarrow> wf d \<Longrightarrow> buried EAssistantMessage u it
      (apply_assistant_message E u it d)"
  unfolding apply_assistant_message_def Let_def
  by (auto intro!: messages.buried_learning_delete)

lemma gated_apply_exam:
  "\<not> is_delete it \<Longrightarrow> gated EExam u it d (apply_exam E u it d)"
  unfolding apply_exam_def apply_exam_delete_def Let_def
  by (auto simp: new_exam_def Let_def split: option.split sum.split
      intro!: gated_bind_value exams.gated_new gated_gate exams.gated_merge gated_refused)

lemma buried_apply_exam:
  "is_delete it \<Longrightarrow> wf d \<Longrightarrow> buried EExam u it (apply_exam E u it d)"
  unfolding apply_exam_def apply_exam_delete_def Let_def
  by (auto simp: bindE_eq_Inr  cascade_exam_fetch detach_exam_fetch
      intro!: quiet_bind quiet_cascade_delete_exam_children quiet_detach_activities
          exams.buried_delete_with_children)

lemma gated_apply_exam_topic:
  "\<not> is_delete it \<Longrightarrow> gated EExamTopic u it d (apply_exam_topic E u it d)"
  unfolding apply_exam_topic_def Let_def
  by (auto simp: new_topic_def Let_def split: option.split sum.split
      intro!: gated_bind_value topics.gated_new gated_gate topics.gated_merge gated_refused)

lemma buried_apply_exam_topic:
  "is_delete it \<Longrightarrow> wf d \<Longrightarrow> buried EExamTopic u it (apply_exam_topic E
      u it d)"
  unfolding apply_exam_topic_def Let_def
  by (auto intro!: topics.buried_learning_delete)

lemma gated_apply_study_plan:
  "\<not> is_delete it \<Longrightarrow> gated EStudyPlan u it d (apply_study_plan E u it d)"
  unfolding apply_study_plan_def apply_study_plan_upsert_def Let_def
  by (auto simp: new_plan_def Let_def split: option.split sum.split
      intro!: gated_cast_plan gated_bind_value plans.gated_new gated_gate plans.gated_merge
          gated_refused)

lemma buried_apply_study_plan:
  "is_delete it \<Longrightarrow> wf d \<Longrightarrow> buried EStudyPlan u it (apply_study_plan E
      u it d)"
  unfolding apply_study_plan_def apply_study_plan_upsert_def Let_def
  by (auto simp: quiet_cascade_delete_plan_items cascade_plan_items_fetch
      intro!: plans.buried_delete_with_children)

lemma gated_apply_study_plan_item:
  "\<not> is_delete it \<Longrightarrow> gated EStudyPlanItem u it d (apply_study_plan_item E u it
      d)"
  unfolding apply_study_plan_item_def apply_study_plan_item_upsert_def Let_def
  by (auto simp: new_plan_item_def Let_def split: option.split sum.split
      intro!: gated_bind_value plan_items.gated_new gated_gate plan_items.gated_merge gated_refused)

lemma buried_apply_study_plan_item:
  "is_delete it \<Longrightarrow> wf d \<Longrightarrow> buried EStudyPlanItem u it
      (apply_study_plan_item E u it d)"
  unfolding apply_study_plan_item_def apply_study_plan_item_upsert_def Let_def
  by (auto simp: quiet_detach_activities detach_plan_item_fetch
      intro!: plan_items.buried_delete_with_children)

lemma gated_apply_study_activity:
  "\<not> is_delete it \<Longrightarrow> gated EStudyActivity u it d (apply_study_activity E u it
      d)"
  unfolding apply_study_activity_def Let_def
  by (auto simp: new_activity_def Let_def split: option.split sum.split
      intro!: gated_bind_value activities.gated_new gated_gate activities.gated_merge gated_refused)

lemma buried_apply_study_activity:
  "is_delete it \<Longrightarrow> wf d \<Longrightarrow> buried EStudyActivity u it
      (apply_study_activity E u it d)"
  unfolding apply_study_activity_def Let_def
  by (auto intro!: activities.buried_learning_delete)

lemma gated_apply_interpreter_conversation:
  "\<not> is_delete it \<Longrightarrow> gated EInterpreterConversation u it d
      (apply_interpreter_conversation E u it d)"
  unfolding apply_interpreter_conversation_def Let_def
  by (auto simp: new_conversation_def Let_def split: option.split sum.split
      intro!: gated_bind_value conversations.gated_new gated_gate conversations.gated_merge
          gated_refused)

lemma buried_apply_interpreter_conversation:
  "is_delete it \<Longrightarrow> wf d \<Longrightarrow> buried EInterpreterConversation u it
      (apply_interpreter_conversation E u it d)"
  unfolding apply_interpreter_conversation_def Let_def
  by (auto simp: quiet_cascade_delete_turns cascade_turns_fetch
      intro!: conversations.buried_delete_with_children)

lemma gated_apply_interpreter_turn:
  "\<not> is_delete it \<Longrightarrow> gated EInterpreterTurn u it d (apply_interpreter_turn E u
      it d)"
  unfolding apply_interpreter_turn_def Let_def
  by (auto simp: new_turn_def Let_def split: option.split sum.split
      intro!: gated_bind_value turns.gated_new gated_gate turns.gated_merge gated_refused)

lemma buried_apply_interpreter_turn:
  "is_delete it \<Longrightarrow> wf d \<Longrightarrow> buried EInterpreterTurn u it
      (apply_interpreter_turn E u it d)"
  unfolding apply_interpreter_turn_def Let_def
  by (auto intro!: turns.buried_learning_delete)

lemma gated_apply_errand_case:
  "\<not> is_delete it \<Longrightarrow> gated EErrandCase u it d (apply_errand_case E u it d)"
  unfolding apply_errand_case_def Let_def
  by (auto simp: new_case_def Let_def split: option.split sum.split
      intro!: gated_bind_value errand_cases.gated_new gated_gate errand_cases.gated_merge
          gated_refused)

lemma buried_apply_errand_case:
  "is_delete it \<Longrightarrow> wf d \<Longrightarrow> buried EErrandCase u it (apply_errand_case
      E u it d)"
  unfolding apply_errand_case_def Let_def
  by (auto simp: case_stub_def quiet_cascade_delete_case_items cascade_case_items_fetch
      intro!: errand_cases.buried_delete_with_children)

lemma gated_apply_errand_case_item:
  "\<not> is_delete it \<Longrightarrow> gated EErrandCaseItem u it d (apply_errand_case_item E u it
      d)"
  unfolding apply_errand_case_item_def Let_def
  by (auto simp: new_case_item_def Let_def split: option.split sum.split
      intro!: gated_bind_value case_items.gated_new gated_gate case_items.gated_merge gated_refused)

lemma buried_apply_errand_case_item:
  "is_delete it \<Longrightarrow> wf d \<Longrightarrow> buried EErrandCaseItem u it
      (apply_errand_case_item E u it d)"
  unfolding apply_errand_case_item_def Let_def
  by (auto intro!: case_items.buried_learning_delete)

text \<open>The dispatch inherits both.\<close>

lemma gated_handler: "\<not> is_delete it \<Longrightarrow> gated e u it d (handler e E u it d)"
  by (cases e) (simp_all add: gated_apply_session gated_apply_entry gated_apply_bookmark
      gated_apply_favorite gated_apply_course gated_apply_note gated_apply_study_review
      gated_apply_attachment gated_apply_term gated_apply_study_card gated_apply_study_task
      gated_apply_correction gated_apply_course_schedule gated_apply_schedule_exception
      gated_apply_material gated_apply_material_page gated_apply_material_annotation
      gated_apply_assistant_thread gated_apply_assistant_message gated_apply_exam gated_apply_exam_topic
      gated_apply_study_plan gated_apply_study_plan_item gated_apply_study_activity
      gated_apply_interpreter_conversation gated_apply_interpreter_turn gated_apply_errand_case
      gated_apply_errand_case_item)

lemma buried_handler: "is_delete it \<Longrightarrow> wf d \<Longrightarrow> buried e u it (handler
    e E u it d)"
  by (cases e) (simp_all add: buried_apply_session buried_apply_entry buried_apply_bookmark
      buried_apply_favorite buried_apply_course buried_apply_note buried_apply_study_review
      buried_apply_attachment buried_apply_term buried_apply_study_card buried_apply_study_task
      buried_apply_correction buried_apply_course_schedule buried_apply_schedule_exception
      buried_apply_material buried_apply_material_page buried_apply_material_annotation
      buried_apply_assistant_thread buried_apply_assistant_message buried_apply_exam
      buried_apply_exam_topic buried_apply_study_plan buried_apply_study_plan_item
      buried_apply_study_activity buried_apply_interpreter_conversation buried_apply_interpreter_turn
      buried_apply_errand_case buried_apply_errand_case_item)

end
