(* ===== verification/Cascades.thy ===== *)
theory Cascades
  imports Outcomes
begin

text \<open>
  What the cascades of a delete leave behind: after a session, a course or a schedule has been
  deleted, no live row of the user refers to it from the tables the cascade covers.
\<close>

section \<open>The state after a sweep\<close>

lemma log_change_shape: "\<exists>cs sq. log_change u e i op v d = d\<lparr>db_changes := cs, db_seq := sq\<rparr>"
  unfolding log_change_def by blast

lemma log_all_shape: "\<exists>cs sq. log_all u e op bs d = d\<lparr>db_changes := cs, db_seq := sq\<rparr>"
proof (induction bs arbitrary: d)
  case Nil
  show ?case by (rule exI [of _ "db_changes d"], rule exI [of _ "db_seq d"]) simp
next
  case (Cons b bs)
  obtain cs sq where "log_change u e (fst b) op (snd b) d = d\<lparr>db_changes := cs, db_seq := sq\<rparr>"
    using log_change_shape by blast
  moreover obtain cs' sq' where "log_all u e op bs (d\<lparr>db_changes := cs, db_seq := sq\<rparr>) =
      d\<lparr>db_changes := cs, db_seq := sq\<rparr>\<lparr>db_changes := cs', db_seq := sq'\<rparr>"
    using Cons.IH by blast
  ultimately show ?case by auto
qed

definition swept :: "('a \<Rightarrow> bool) \<Rightarrow> ('a \<Rightarrow> 'a) \<Rightarrow> 'a list \<Rightarrow> 'a list" where
  "swept P f rs = map (\<lambda>x. if P x then f x else x) rs"

lemma sweep_logged_shape:
  assumes "sweep_logged T u P f op t d = Inr d'"
  shows "\<exists>cs sq. d' = (tb_put T (swept P (bump t \<circ> f) (tb_get T d)) d)\<lparr>db_changes := cs, db_seq := sq\<rparr>"
proof -
  obtain bs where "d' = log_all u (tb_etype T) op bs (tb_put T (swept P (bump t \<circ> f) (tb_get T d)) d)"
    using assms by (auto simp: sweep_logged_def sql_sweep_def Let_def bindE_eq_Inr swept_def comp_def
        split: if_splits)
  with log_all_shape [of u "tb_etype T" op bs] show ?thesis by metis
qed

lemma swept_none:
  "(\<And>r. P r \<Longrightarrow> \<not> P (f r)) \<Longrightarrow> r \<in> set (swept P f rs) \<Longrightarrow> \<not> P r"
  by (auto simp: swept_def)

text \<open>A sweep shows in the table it sweeps, and in no other.\<close>

lemma sweep_gone:
  assumes "sweep_logged T u P f op t d = Inr d'"
    and "\<And>xs cs sq. tb_get T ((tb_put T xs d)\<lparr>db_changes := cs, db_seq := sq\<rparr>) = xs"
    and "\<And>r. P r \<Longrightarrow> \<not> P (bump t (f r))" and "r \<in> set (tb_get T d')"
  shows "\<not> P r"
proof -
  obtain cs sq where
    "d' = (tb_put T (swept P (bump t \<circ> f) (tb_get T d)) d)\<lparr>db_changes := cs, db_seq := sq\<rparr>"
    using sweep_logged_shape [OF assms(1)] by blast
  with assms(2,4) have "r \<in> set (swept P (bump t \<circ> f) (tb_get T d))" by simp
  then show ?thesis by (rule swept_none [rotated]) (simp add: assms(3))
qed

lemma sweep_frame:
  assumes "sweep_logged T u P f op t d = Inr d'"
    and "\<And>xs cs sq. g ((tb_put T xs d)\<lparr>db_changes := cs, db_seq := sq\<rparr>) = g d"
  shows "g d' = g d"
  using sweep_logged_shape [OF assms(1)] assms(2) by blast

lemma settle_shape: "settle u it res d = Inr (d', res') \<Longrightarrow> \<exists>l. d' = d\<lparr>db_ledger := l\<rparr>"
  by (auto simp: settle_def store_ledger_def bindE_eq_Inr split: if_splits)

section \<open>Sessions\<close>

definition session_children_gone :: "uuid \<Rightarrow> uuid \<Rightarrow> db \<Rightarrow> bool" where
  "session_children_gone u sid d \<longleftrightarrow>
     (\<forall>r\<in>set (entries d). ruser r = u \<and> e_session_id r = sid \<longrightarrow> is_deleted r) \<and>
     (\<forall>r\<in>set (bookmarks d). ruser r = u \<and> b_session_id r = sid \<longrightarrow> is_deleted r) \<and>
     (\<forall>r\<in>set (favorites d). ruser r = u \<and> f_session_id r = sid \<longrightarrow> is_deleted r) \<and>
     (\<forall>r\<in>set (session_notes d). ruser r = u \<and> n_session_id r = sid \<longrightarrow> is_deleted r) \<and>
     (\<forall>r\<in>set (reviews d). ruser r = u \<and> rv_session_id r = sid \<longrightarrow> is_deleted r) \<and>
     (\<forall>r\<in>set (attachments d). ruser r = u \<and> a_session_id r = sid \<longrightarrow> is_deleted r) \<and>
     (\<forall>r\<in>set (corrections d). ruser r = u \<and> c_session_id r = sid \<longrightarrow> is_deleted r) \<and>
     (\<forall>r\<in>set (materials d). ruser r = u \<and> m_session_id r = Some sid \<longrightarrow> is_deleted r)"

lemmas session_tabs =
  entries_tab_def bookmarks_tab_def favorites_tab_def session_notes_tab_def reviews_tab_def
  attachments_tab_def corrections_tab_def materials_tab_def

lemma bookmarks_sweep_frame:
  assumes "sweep_logged bookmarks_tab u P f op t d = Inr d'"
  shows "entries d' = entries d"
  by (rule sweep_frame [OF assms]; simp add: bookmarks_tab_def)+

lemma favorites_sweep_frame:
  assumes "sweep_logged favorites_tab u P f op t d = Inr d'"
  shows "entries d' = entries d"
    and "bookmarks d' = bookmarks d"
  by (rule sweep_frame [OF assms]; simp add: favorites_tab_def)+

lemma session_notes_sweep_frame:
  assumes "sweep_logged session_notes_tab u P f op t d = Inr d'"
  shows "entries d' = entries d"
    and "bookmarks d' = bookmarks d"
    and "favorites d' = favorites d"
  by (rule sweep_frame [OF assms]; simp add: session_notes_tab_def)+

lemma reviews_sweep_frame:
  assumes "sweep_logged reviews_tab u P f op t d = Inr d'"
  shows "entries d' = entries d"
    and "bookmarks d' = bookmarks d"
    and "favorites d' = favorites d"
    and "session_notes d' = session_notes d"
  by (rule sweep_frame [OF assms]; simp add: reviews_tab_def)+

lemma attachments_sweep_frame:
  assumes "sweep_logged attachments_tab u P f op t d = Inr d'"
  shows "entries d' = entries d"
    and "bookmarks d' = bookmarks d"
    and "favorites d' = favorites d"
    and "session_notes d' = session_notes d"
    and "reviews d' = reviews d"
  by (rule sweep_frame [OF assms]; simp add: attachments_tab_def)+

lemma corrections_sweep_frame:
  assumes "sweep_logged corrections_tab u P f op t d = Inr d'"
  shows "entries d' = entries d"
    and "bookmarks d' = bookmarks d"
    and "favorites d' = favorites d"
    and "session_notes d' = session_notes d"
    and "reviews d' = reviews d"
    and "attachments d' = attachments d"
  by (rule sweep_frame [OF assms]; simp add: corrections_tab_def)+

lemma materials_sweep_frame:
  assumes "sweep_logged materials_tab u P f op t d = Inr d'"
  shows "entries d' = entries d"
    and "bookmarks d' = bookmarks d"
    and "favorites d' = favorites d"
    and "session_notes d' = session_notes d"
    and "reviews d' = reviews d"
    and "attachments d' = attachments d"
    and "corrections d' = corrections d"
  by (rule sweep_frame [OF assms]; simp add: materials_tab_def)+

lemma cascade_children_gone:
  assumes "cascade_delete_children E u sid d = Inr d'"
  shows "session_children_gone u sid d'"
proof -
  from assms obtain d1 d2 d3 d4 d5 d6 d7 where
    e: "sweep_logged entries_tab u (\<lambda>r. ruser r = u \<and> e_session_id r = sid \<and> \<not> is_deleted r)
       (tombstone (en_now E)) Delete (en_now E) d = Inr d1" and
    b: "sweep_logged bookmarks_tab u (\<lambda>r. ruser r = u \<and> b_session_id r = sid \<and> \<not> is_deleted r)
       (tombstone (en_now E)) Delete (en_now E) d1 = Inr d2" and
    f: "sweep_logged favorites_tab u (\<lambda>r. ruser r = u \<and> f_session_id r = sid \<and> \<not> is_deleted r)
       (tombstone (en_now E)) Delete (en_now E) d2 = Inr d3" and
    n: "sweep_logged session_notes_tab u (\<lambda>r. ruser r = u \<and> n_session_id r = sid \<and> \<not> is_deleted r)
       (tombstone (en_now E)) Delete (en_now E) d3 = Inr d4" and
    r: "sweep_logged reviews_tab u (\<lambda>r. ruser r = u \<and> rv_session_id r = sid \<and> \<not> is_deleted r)
       (tombstone (en_now E)) Delete (en_now E) d4 = Inr d5" and
    a: "sweep_logged attachments_tab u (\<lambda>r. ruser r = u \<and> a_session_id r = sid \<and> \<not> is_deleted r)
       (tombstone (en_now E)) Delete (en_now E) d5 = Inr d6" and
    c: "sweep_logged corrections_tab u (\<lambda>r. ruser r = u \<and> c_session_id r = sid \<and> \<not> is_deleted r)
       (tombstone (en_now E)) Delete (en_now E) d6 = Inr d7" and
    m: "sweep_logged materials_tab u (\<lambda>r. ruser r = u \<and> m_session_id r = Some sid \<and> \<not> is_deleted r)
       (\<lambda>r. r\<lparr>m_session_id := None\<rparr>) Upsert (en_now E) d7 = Inr d'"
    unfolding cascade_delete_children_def Let_def by (elim bindE_InrE)
  note frames = bookmarks_sweep_frame [OF b] favorites_sweep_frame [OF f]
    session_notes_sweep_frame [OF n] reviews_sweep_frame [OF r] attachments_sweep_frame [OF a]
    corrections_sweep_frame [OF c] materials_sweep_frame [OF m]
  have "\<forall>x\<in>set (entries d1). ruser x = u \<and> e_session_id x = sid \<longrightarrow> is_deleted x"
    using sweep_gone [OF e] by (auto simp: entries_tab_def bump_def)
  moreover
  have "\<forall>x\<in>set (bookmarks d2). ruser x = u \<and> b_session_id x = sid \<longrightarrow> is_deleted x"
    using sweep_gone [OF b] by (auto simp: bookmarks_tab_def bump_def)
  moreover
  have "\<forall>x\<in>set (favorites d3). ruser x = u \<and> f_session_id x = sid \<longrightarrow> is_deleted x"
    using sweep_gone [OF f] by (auto simp: favorites_tab_def bump_def)
  moreover
  have "\<forall>x\<in>set (session_notes d4). ruser x = u \<and> n_session_id x = sid \<longrightarrow> is_deleted x"
    using sweep_gone [OF n] by (auto simp: session_notes_tab_def bump_def)
  moreover
  have "\<forall>x\<in>set (reviews d5). ruser x = u \<and> rv_session_id x = sid \<longrightarrow> is_deleted x"
    using sweep_gone [OF r] by (auto simp: reviews_tab_def bump_def)
  moreover
  have "\<forall>x\<in>set (attachments d6). ruser x = u \<and> a_session_id x = sid \<longrightarrow> is_deleted x"
    using sweep_gone [OF a] by (auto simp: attachments_tab_def bump_def)
  moreover
  have "\<forall>x\<in>set (corrections d7). ruser x = u \<and> c_session_id x = sid \<longrightarrow> is_deleted x"
    using sweep_gone [OF c] by (auto simp: corrections_tab_def bump_def)
  moreover
  have "\<forall>x\<in>set (materials d'). ruser x = u \<and> m_session_id x = Some sid \<longrightarrow> is_deleted x"
    using sweep_gone [OF m] by (auto simp: materials_tab_def bump_def)
  ultimately show ?thesis unfolding session_children_gone_def frames by blast
qed

lemma session_children_gone_ledger [simp]:
  "session_children_gone u sid (d\<lparr>db_ledger := l\<rparr>) = session_children_gone u sid d"
  by (simp add: session_children_gone_def)

lemma session_delete_gone:
  assumes "apply_session_delete E u it (Some s) d = Inr (d', res)" and "\<not> is_deleted s"
  shows "session_children_gone u (it_eid it) d'"
  using assms cascade_children_gone
  by (auto simp: apply_session_delete_def bindE_eq_Inr dest!: settle_shape)

section \<open>Courses\<close>

definition course_references_gone :: "uuid \<Rightarrow> uuid \<Rightarrow> db \<Rightarrow> bool" where
  "course_references_gone u cid d \<longleftrightarrow>
     (\<forall>r\<in>set (sessions d). ruser r = u \<and> s_course_id r = Some cid \<longrightarrow> is_deleted r) \<and>
     (\<forall>r\<in>set (terms d). ruser r = u \<and> t_course_id r = Some cid \<longrightarrow> is_deleted r) \<and>
     (\<forall>r\<in>set (cards d). ruser r = u \<and> k_course_id r = Some cid \<longrightarrow> is_deleted r) \<and>
     (\<forall>r\<in>set (tasks d). ruser r = u \<and> ta_course_id r = Some cid \<longrightarrow> is_deleted r) \<and>
     (\<forall>r\<in>set (materials d). ruser r = u \<and> m_course_id r = Some cid \<longrightarrow> is_deleted r) \<and>
     (\<forall>r\<in>set (threads d). ruser r = u \<and> th_course_id r = Some cid \<longrightarrow> is_deleted r) \<and>
     (\<forall>r\<in>set (exams d). ruser r = u \<and> ex_course_id r = Some cid \<longrightarrow> is_deleted r) \<and>
     (\<forall>r\<in>set (activities d). ruser r = u \<and> ac_course_id r = Some cid \<longrightarrow> is_deleted r) \<and>
     (\<forall>r\<in>set (schedules d). ruser r = u \<and> sc_course_id r = Some cid \<longrightarrow> is_deleted r)"

lemma course_terms_frame:
  assumes "sweep_logged terms_tab u P f op t d = Inr d'"
  shows "sessions d' = sessions d"
  by (rule sweep_frame [OF assms]; simp add: terms_tab_def)+

lemma course_cards_frame:
  assumes "sweep_logged cards_tab u P f op t d = Inr d'"
  shows "sessions d' = sessions d"
    and "terms d' = terms d"
  by (rule sweep_frame [OF assms]; simp add: cards_tab_def)+

lemma course_tasks_frame:
  assumes "sweep_logged tasks_tab u P f op t d = Inr d'"
  shows "sessions d' = sessions d"
    and "terms d' = terms d"
    and "cards d' = cards d"
  by (rule sweep_frame [OF assms]; simp add: tasks_tab_def)+

lemma course_materials_frame:
  assumes "sweep_logged materials_tab u P f op t d = Inr d'"
  shows "sessions d' = sessions d"
    and "terms d' = terms d"
    and "cards d' = cards d"
    and "tasks d' = tasks d"
  by (rule sweep_frame [OF assms]; simp add: materials_tab_def)+

lemma course_threads_frame:
  assumes "sweep_logged threads_tab u P f op t d = Inr d'"
  shows "sessions d' = sessions d"
    and "terms d' = terms d"
    and "cards d' = cards d"
    and "tasks d' = tasks d"
    and "materials d' = materials d"
  by (rule sweep_frame [OF assms]; simp add: threads_tab_def)+

lemma course_exams_frame:
  assumes "sweep_logged exams_tab u P f op t d = Inr d'"
  shows "sessions d' = sessions d"
    and "terms d' = terms d"
    and "cards d' = cards d"
    and "tasks d' = tasks d"
    and "materials d' = materials d"
    and "threads d' = threads d"
  by (rule sweep_frame [OF assms]; simp add: exams_tab_def)+

lemma course_activities_frame:
  assumes "sweep_logged activities_tab u P f op t d = Inr d'"
  shows "sessions d' = sessions d"
    and "terms d' = terms d"
    and "cards d' = cards d"
    and "tasks d' = tasks d"
    and "materials d' = materials d"
    and "threads d' = threads d"
    and "exams d' = exams d"
  by (rule sweep_frame [OF assms]; simp add: activities_tab_def)+

text \<open>The exception cascade touches none of these tables.\<close>

definition course_tables ::
  "db \<Rightarrow> session_row list \<times> term_row list \<times> card_row list \<times> task_row list \<times> material_row list
     \<times> thread_row list \<times> exam_row list \<times> activity_row list \<times> schedule_row list" where
  "course_tables d =
     (sessions d, terms d, cards d, tasks d, materials d, threads d, exams d, activities d,
      schedules d)"

lemma course_tables_log [simp]: "course_tables (log_change u e i op v d) = course_tables d"
  by (simp add: course_tables_def log_change_def)

lemma course_tables_exceptions:
  "cascade_delete_exceptions E u sid d = Inr d' \<Longrightarrow> course_tables d' = course_tables d"
  unfolding cascade_delete_exceptions_def
  by (erule sweep_frame) (simp add: exceptions_tab_def course_tables_def)

lemma course_tables_schedules:
  "cascade_schedules E u bs d = Inr d' \<Longrightarrow> course_tables d' = course_tables d"
proof (induction bs arbitrary: d)
  case (Cons b bs)
  then show ?case by (auto simp: bindE_eq_Inr dest!: course_tables_exceptions)
qed simp

lemma schedules_gone:
  assumes "cascade_delete_schedules E u cid d = Inr d'"
  shows "\<forall>r\<in>set (schedules d'). ruser r = u \<and> sc_course_id r = Some cid \<longrightarrow> is_deleted r"
    and "sessions d' = sessions d"
    and "terms d' = terms d"
    and "cards d' = cards d"
    and "tasks d' = tasks d"
    and "materials d' = materials d"
    and "threads d' = threads d"
    and "exams d' = exams d"
    and "activities d' = activities d"
proof -
  from assms obtain d1 bs where sw: "sql_sweep schedules_tab
        (\<lambda>r. ruser r = u \<and> sc_course_id r = Some cid \<and> \<not> is_deleted r)
        (tombstone (en_now E)) (en_now E) d = Inr (d1, bs)"
    and "cascade_schedules E u bs d1 = Inr d'"
    by (auto simp: cascade_delete_schedules_def bindE_eq_Inr)
  from course_tables_schedules [OF this(2)] have t: "course_tables d' = course_tables d1" .
  let ?P = "\<lambda>x. ruser x = u \<and> sc_course_id x = Some cid \<and> \<not> is_deleted x"
  define ss where "ss = swept ?P (bump (en_now E) \<circ> tombstone (en_now E)) (schedules d)"
  have get: "tb_get schedules_tab d = schedules d" and
    put: "tb_put schedules_tab ss d = d\<lparr>schedules := ss\<rparr>"
    by (simp_all add: schedules_tab_def)
  have "d1 = tb_put schedules_tab ss d"
    using sw unfolding sql_sweep_def Let_def ss_def swept_def get comp_apply
    by (auto split: if_split_asm)
  with t have eq: "course_tables d' = course_tables (d\<lparr>schedules := ss\<rparr>)"
    by (simp only: put)
  then have "schedules d' = ss" by (simp add: course_tables_def)
  moreover have "\<not> ?P r" if "r \<in> set ss" for r
    using that unfolding ss_def by (rule swept_none [rotated]) (simp add: bump_def)
  ultimately show
    "\<forall>r\<in>set (schedules d'). ruser r = u \<and> sc_course_id r = Some cid \<longrightarrow> is_deleted r"
    by blast
  from eq show "sessions d' = sessions d"
    and "terms d' = terms d"
    and "cards d' = cards d"
    and "tasks d' = tasks d"
    and "materials d' = materials d"
    and "threads d' = threads d"
    and "exams d' = exams d"
    and "activities d' = activities d"
    by (simp_all add: course_tables_def)
qed

lemma course_cascade_gone:
  assumes "course_cascade E u cid d = Inr d'"
  shows "course_references_gone u cid d'"
proof -
  from assms obtain d1 d2 d3 d4 d5 d6 d7 d8 where
    a: "sweep_logged sessions_tab u (\<lambda>r. ruser r = u \<and> s_course_id r = Some cid \<and> \<not> is_deleted r)
       (\<lambda>r. r\<lparr>s_course_id := None\<rparr>) Upsert (en_now E) d = Inr d1" and
    b: "sweep_logged terms_tab u (\<lambda>r. ruser r = u \<and> t_course_id r = Some cid \<and> \<not> is_deleted r)
       (\<lambda>r. r\<lparr>t_course_id := None\<rparr>) Upsert (en_now E) d1 = Inr d2" and
    c: "sweep_logged cards_tab u (\<lambda>r. ruser r = u \<and> k_course_id r = Some cid \<and> \<not> is_deleted r)
       (\<lambda>r. r\<lparr>k_course_id := None\<rparr>) Upsert (en_now E) d2 = Inr d3" and
    t: "sweep_logged tasks_tab u (\<lambda>r. ruser r = u \<and> ta_course_id r = Some cid \<and> \<not> is_deleted r)
       (\<lambda>r. r\<lparr>ta_course_id := None\<rparr>) Upsert (en_now E) d3 = Inr d4" and
    m: "sweep_logged materials_tab u (\<lambda>r. ruser r = u \<and> m_course_id r = Some cid \<and> \<not> is_deleted r)
       (\<lambda>r. r\<lparr>m_course_id := None\<rparr>) Upsert (en_now E) d4 = Inr d5" and
    h: "sweep_logged threads_tab u (\<lambda>r. ruser r = u \<and> th_course_id r = Some cid \<and> \<not> is_deleted r)
       (\<lambda>r. r\<lparr>th_course_id := None\<rparr>) Upsert (en_now E) d5 = Inr d6" and
    x: "sweep_logged exams_tab u (\<lambda>r. ruser r = u \<and> ex_course_id r = Some cid \<and> \<not> is_deleted r)
       (\<lambda>r. r\<lparr>ex_course_id := None\<rparr>) Upsert (en_now E) d6 = Inr d7" and
    v: "sweep_logged activities_tab u (\<lambda>r. ruser r = u \<and> ac_course_id r = Some cid \<and> \<not> is_deleted r)
       (\<lambda>r. r\<lparr>ac_course_id := None\<rparr>) Upsert (en_now E) d7 = Inr d8" and
    s: "cascade_delete_schedules E u cid d8 = Inr d'"
    unfolding course_cascade_def detach_course_from_sessions_def detach_course_from_study_data_def
      detach_course_from_materials_def detach_course_from_threads_def detach_course_from_exams_def
    by (elim bindE_InrE)
  note frames = course_terms_frame [OF b] course_cards_frame [OF c] course_tasks_frame [OF t]
    course_materials_frame [OF m] course_threads_frame [OF h] course_exams_frame [OF x]
    course_activities_frame [OF v] schedules_gone(2-9) [OF s]
  have "\<forall>r\<in>set (sessions d1). ruser r = u \<and> s_course_id r = Some cid \<longrightarrow> is_deleted r"
    using sweep_gone [OF a] by (auto simp: sessions_tab_def bump_def)
  moreover
  have "\<forall>r\<in>set (terms d2). ruser r = u \<and> t_course_id r = Some cid \<longrightarrow> is_deleted r"
    using sweep_gone [OF b] by (auto simp: terms_tab_def bump_def)
  moreover
  have "\<forall>r\<in>set (cards d3). ruser r = u \<and> k_course_id r = Some cid \<longrightarrow> is_deleted r"
    using sweep_gone [OF c] by (auto simp: cards_tab_def bump_def)
  moreover
  have "\<forall>r\<in>set (tasks d4). ruser r = u \<and> ta_course_id r = Some cid \<longrightarrow> is_deleted r"
    using sweep_gone [OF t] by (auto simp: tasks_tab_def bump_def)
  moreover
  have "\<forall>r\<in>set (materials d5). ruser r = u \<and> m_course_id r = Some cid \<longrightarrow> is_deleted r"
    using sweep_gone [OF m] by (auto simp: materials_tab_def bump_def)
  moreover
  have "\<forall>r\<in>set (threads d6). ruser r = u \<and> th_course_id r = Some cid \<longrightarrow> is_deleted r"
    using sweep_gone [OF h] by (auto simp: threads_tab_def bump_def)
  moreover
  have "\<forall>r\<in>set (exams d7). ruser r = u \<and> ex_course_id r = Some cid \<longrightarrow> is_deleted r"
    using sweep_gone [OF x] by (auto simp: exams_tab_def bump_def)
  moreover
  have "\<forall>r\<in>set (activities d8). ruser r = u \<and> ac_course_id r = Some cid \<longrightarrow> is_deleted r"
    using sweep_gone [OF v] by (auto simp: activities_tab_def bump_def)
  moreover
  note schedules_gone(1) [OF s]
  ultimately show ?thesis unfolding course_references_gone_def frames by blast
qed

lemma course_references_gone_ledger [simp]:
  "course_references_gone u cid (d\<lparr>db_ledger := l\<rparr>) = course_references_gone u cid d"
  by (simp add: course_references_gone_def)

lemma course_delete_gone:
  assumes "apply_course_delete E u it (Some s) d = Inr (d', res)" and "\<not> is_deleted s"
  shows "course_references_gone u (it_eid it) d'"
  using assms course_cascade_gone
  by (auto simp: apply_course_delete_def bindE_eq_Inr dest!: settle_shape)

end
