(* ===== verification/History.thy ===== *)
theory History
  imports Push
begin

text \<open>
  The states the engine can reach by pushes from an empty database, and the invariant they keep:
  the change log tells the whole life of every row. What the pull side relies on follows from
  it: the version of a row counts its changes, its last change describes it as it is, a delete
  is its last change, and a row's changes belong to its owner.
\<close>

section \<open>The invariant\<close>

definition told_history :: "db \<Rightarrow> bool" where
  "told_history d \<longleftrightarrow>
     (\<forall>e i. \<exists>u. life_run u e i None (about e i (change_log d)) (look e i d))"

definition history_ok :: "db \<Rightarrow> bool" where
  "history_ok d \<longleftrightarrow> wf d \<and> ledger_ok d \<and> told_history d"

lemma history_okD:
  "history_ok d \<Longrightarrow> wf d" "history_ok d \<Longrightarrow> ledger_ok d" "history_ok d \<Longrightarrow> told_history d"
  by (simp_all add: history_ok_def)

lemma view_empty [simp]: "view e empty_db = []"
  by (cases e) (simp_all add: empty_db_def)

lemma history_ok_empty: "history_ok empty_db"
  by (simp add: history_ok_def wf_def keys_ok_def seqs_ok_def ledger_ok_def told_history_def look_def
      change_log_def) (simp add: empty_db_def)

lemma look_history:
  assumes "told_history d"
  obtains u where "life_run u e i None (about e i (change_log d)) (look e i d)"
  using assms by (auto simp: told_history_def)

lemma look_rid: "look e i d = Some (r, j) \<Longrightarrow> rid r = i"
  using find_in_set [of "\<lambda>x. rid (fst x) = i" "view e d"] by (fastforce simp: look_def)

lemma told_history_evolves:
  assumes "told_history d" and "change_log d' = change_log d @ cs" and "lives u d cs d'"
  shows "told_history d'"
  unfolding told_history_def
proof (intro allI)
  fix e i
  from assms(3) have step: "life_run u e i (look e i d) (about e i cs) (look e i d')"
    by (simp add: lives_def)
  obtain v where past: "life_run v e i None (about e i (change_log d)) (look e i d)"
    using look_history [OF assms(1)] .
  show "\<exists>u. life_run u e i None (about e i (change_log d')) (look e i d')"
  proof (cases "about e i (change_log d) = [] \<or> v = u")
    case True
    with past have "life_run u e i None (about e i (change_log d)) (look e i d)" by auto
    from life_run_append [OF step this] show ?thesis by (auto simp: assms(2))
  next
    case False
    with life_run_last [OF past] obtain r j where "look e i d = Some (r, j)" "ruser r \<noteq> u"
      by auto
    with life_run_foreign [OF step] have "about e i cs = [] \<and> look e i d' = look e i d" by simp
    with past show ?thesis by (auto simp: assms(2))
  qed
qed

lemma history_ok_push:
  assumes "history_ok d" and "apply_push E u its d = (d', x)"
  shows "history_ok d'"
proof -
  from apply_push_evolves [OF assms(2)] history_okD(1) [OF assms(1)] obtain cs where
    "wf d'" "change_log d' = change_log d @ cs" "lives u d cs d'" by (auto simp: evolves_def)
  with told_history_evolves history_okD [OF assms(1)] apply_push_ledger_ok [OF assms(2)]
  show ?thesis by (auto simp: history_ok_def)
qed

section \<open>Reachable states\<close>

inductive reachable :: "db \<Rightarrow> bool" where
  start: "reachable empty_db"
| push: "reachable d \<Longrightarrow> apply_push E u its d = (d', x) \<Longrightarrow> reachable d'"

lemma reachable_history_ok: "reachable d \<Longrightarrow> history_ok d"
  by (induction rule: reachable.induct) (auto intro: history_ok_empty history_ok_push)

section \<open>What the log says of a row\<close>

lemma about_set: "c \<in> set (about e i cs) \<longleftrightarrow> c \<in> set cs \<and> ch_etype c = e \<and> ch_eid c = i"
  by (auto simp: about_def)

lemma history_version:
  assumes "told_history d" and "look e i d = Some (r, j)"
  shows "rver r = int (length (about e i (change_log d)))"
proof -
  obtain u where "life_run u e i None (about e i (change_log d)) (look e i d)"
    using look_history [OF assms(1)] .
  from life_run_version [OF this] show ?thesis by (simp add: assms(2))
qed

lemma history_unlogged:
  assumes "told_history d" and "about e i (change_log d) = []"
  shows "look e i d = None"
proof -
  obtain u where "life_run u e i None (about e i (change_log d)) (look e i d)"
    using look_history [OF assms(1)] .
  with assms(2) show ?thesis by simp
qed

lemma history_last:
  assumes "told_history d" and "about e i (change_log d) \<noteq> []"
  shows "\<exists>r j. look e i d = Some (r, j) \<and> rid r = i \<and> last (about e i (change_log d)) = change_for e r"
proof -
  obtain u where "life_run u e i None (about e i (change_log d)) (look e i d)"
    using look_history [OF assms(1)] .
  from life_run_last [OF this assms(2)] show ?thesis by auto
qed

lemma life_run_users:
  "life_run u e i x cs z \<Longrightarrow> \<forall>c\<in>set cs. ch_user c = u"
  by (induction rule: life_run.induct) (auto elim: life_step_toE)

lemma history_owner:
  assumes "told_history d" and "c \<in> set (change_log d)" and "look (ch_etype c) (ch_eid c) d = Some (r, j)"
  shows "ruser r = ch_user c"
proof -
  let ?cs = "about (ch_etype c) (ch_eid c) (change_log d)"
  have c: "c \<in> set ?cs" using assms(2) by (simp add: about_set)
  obtain u where run: "life_run u (ch_etype c) (ch_eid c) None ?cs (look (ch_etype c) (ch_eid c) d)"
    using look_history [OF assms(1)] .
  from c have "?cs \<noteq> []" by auto
  from life_run_users [OF run] life_run_last [OF run this] c assms(3) show ?thesis by auto
qed

lemma life_run_snocE:
  assumes "life_run u e i x (cs @ [c]) z"
  obtains y where "life_run u e i x cs y" and "life_step u e i y c z"
  using assms by (cases rule: life_run.cases) auto

text \<open>A delete ends the life of its row.\<close>

lemma life_run_delete_last:
  "life_run u e i x cs z \<Longrightarrow> cs = as @ c # bs \<Longrightarrow> ch_op c = Delete \<Longrightarrow> bs = []"
proof (induction arbitrary: bs rule: life_run.induct)
  case (go y cs' y' c' z)
  show ?case
  proof (cases bs rule: rev_cases)
    case (snoc bs' b)
    with go.prems have cs': "cs' = as @ c # bs'" by auto
    with go.IH go.prems have "cs' = as @ [c]" by simp
    with life_run_last [OF go.hyps(1)] go.prems(2) obtain r j where
      "y' = Some (r, j)" "c = change_for e r" by auto
    with go.hyps(2) go.prems(2) show ?thesis by (auto simp: life_step_from_tombstone)
  qed simp
qed simp

lemma history_delete_last:
  assumes "told_history d" and "about e i (change_log d) = as @ c # bs" and "ch_op c = Delete"
  shows "bs = []"
proof -
  obtain u where "life_run u e i None (about e i (change_log d)) (look e i d)"
    using look_history [OF assms(1)] .
  from life_run_delete_last [OF this assms(2,3)] show ?thesis .
qed

section \<open>What a push cannot do to a row\<close>

lemma evolves_row:
  assumes "evolves u d d'" and "wf d"
  obtains cs where "change_log d' = change_log d @ cs" "\<forall>c\<in>set cs. ch_user c = u" "wf d'"
    and "\<And>e i. life_run u e i (look e i d) (about e i cs) (look e i d')"
  using assms by (auto simp: evolves_def lives_def)

lemma evolves_tombstone:
  assumes "evolves u d d'" and "wf d" and "look e i d = Some (r, j)" and "is_deleted r"
  shows "look e i d' = look e i d"
proof -
  obtain cs where "life_run u e i (look e i d) (about e i cs) (look e i d')"
    using evolves_row [OF assms(1,2)] by metis
  from life_run_tombstone [OF this] assms(3,4) show ?thesis by simp
qed

lemma evolves_foreign:
  assumes "evolves u d d'" and "wf d" and "look e i d = Some (r, j)" and "ruser r \<noteq> u"
  shows "look e i d' = look e i d"
proof -
  obtain cs where "life_run u e i (look e i d) (about e i cs) (look e i d')"
    using evolves_row [OF assms(1,2)] by metis
  from life_run_foreign [OF this] assms(3,4) show ?thesis by simp
qed

end
