(* ===== verification/Pull.thy ===== *)
theory Pull
  imports History
begin

text \<open>
  The read side (Pull, loadRecord and Status, internal/sync/service.go): pages of the user's
  change log after a cursor, each upsert with the current record of its row. The lemmas show
  what a client that follows the pages reconstructs.
\<close>

section \<open>Records\<close>

text \<open>\<open>fetchX\<close> and \<open>xRecordJSON\<close>; an absent row gives no record.\<close>

definition load :: "'a row_scheme tab \<Rightarrow> uuid \<Rightarrow> uuid \<Rightarrow> db \<Rightarrow> db_error + json option" where
  "load T u i d = Inr (map_option (tb_json T) (fetch T u i d))"

primrec load_record :: "uuid \<Rightarrow> etype \<Rightarrow> uuid \<Rightarrow> db \<Rightarrow> db_error + json option" where
  "load_record u ESession i d = load sessions_tab u i d"
| "load_record u EEntry i d = load entries_tab u i d"
| "load_record u EBookmark i d = load bookmarks_tab u i d"
| "load_record u EFavorite i d = load favorites_tab u i d"
| "load_record u ECourse i d = load courses_tab u i d"
| "load_record u ENote i d = load session_notes_tab u i d"
| "load_record u EStudyReview i d = load reviews_tab u i d"
| "load_record u EAttachment i d = load attachments_tab u i d"
| "load_record u ETerm i d = load terms_tab u i d"
| "load_record u EStudyCard i d = load cards_tab u i d"
| "load_record u EStudyTask i d = load tasks_tab u i d"
| "load_record u ETranscriptCorrection i d = load corrections_tab u i d"
| "load_record u ECourseSchedule i d = load schedules_tab u i d"
| "load_record u EScheduleException i d = load exceptions_tab u i d"
| "load_record u EMaterial i d =
     bindE (fetch_material u i d) (\<lambda>m. Inr (map_option material_record_json m))"
| "load_record u EMaterialPage i d = load pages_tab u i d"
| "load_record u EMaterialAnnotation i d = load annotations_tab u i d"
| "load_record u EAssistantThread i d = load threads_tab u i d"
| "load_record u EAssistantMessage i d = load messages_tab u i d"
| "load_record u EExam i d = load exams_tab u i d"
| "load_record u EExamTopic i d = load topics_tab u i d"
| "load_record u EStudyPlan i d = load plans_tab u i d"
| "load_record u EStudyPlanItem i d = load plan_items_tab u i d"
| "load_record u EStudyActivity i d = load activities_tab u i d"
| "load_record u EInterpreterConversation i d = load conversations_tab u i d"
| "load_record u EInterpreterTurn i d = load turns_tab u i d"
| "load_record u EErrandCase i d = load errand_cases_tab u i d"
| "load_record u EErrandCaseItem i d = load case_items_tab u i d"

definition owned :: "uuid \<Rightarrow> (row \<times> json) option \<Rightarrow> json option" where
  "owned u x = (case x of None \<Rightarrow> None | Some (r, j) \<Rightarrow> if ruser r = u then Some j else None)"

context synced_table
begin

lemma load_look:
  assumes "wf d"
  shows "load T u i d = Inr (owned u (look (tb_etype T) i d))"
proof (cases "find (\<lambda>r. rid r = i) (tb_get T d)")
  case None
  then have "fetch T u i d = None" by (auto simp: fetch_def find_None)
  with None show ?thesis by (simp add: load_def look_own owned_def)
next
  case (Some r)
  show ?thesis
  proof (cases "ruser r = u")
    case True
    with find_in_set [OF Some] have "fetch T u i d \<noteq> None" by (auto simp: fetch_def find_None)
    then obtain q where q: "fetch T u i d = Some q" by auto
    with fetch_look [OF assms this] Some True show ?thesis
      by (simp add: load_def look_own owned_def abs_row_def)
  next
    case False
    have "fetch T u i d = None"
    proof (rule ccontr)
      assume "fetch T u i d \<noteq> None"
      then obtain q where q: "fetch T u i d = Some q" by auto
      from fetch_look [OF assms q] fetch_Some [OF q] Some False show False by simp
    qed
    with Some False show ?thesis by (simp add: load_def look_own owned_def abs_row_def)
  qed
qed

end

lemmas load_looks =
  sessions.load_look entries.load_look bookmarks.load_look favorites.load_look courses.load_look
  session_notes.load_look reviews.load_look attachments.load_look terms.load_look cards.load_look
  tasks.load_look corrections.load_look schedules.load_look exceptions.load_look materials.load_look
  pages.load_look annotations.load_look threads.load_look messages.load_look exams.load_look
  topics.load_look plans.load_look plan_items.load_look activities.load_look
  conversations.load_look turns.load_look errand_cases.load_look case_items.load_look

lemma load_record_look:
  assumes "wf d" and "load_record u e i d = Inr x"
  shows "x = owned u (look e i d)"
proof (cases "e = EMaterial")
  case True
  with assms(2) have "fetch materials_tab u i d = None" "x = None"
    by (auto simp: fetch_material_def split: option.splits)
  then have "load materials_tab u i d = Inr x" by (simp add: load_def)
  with materials.load_look [OF assms(1)] True show ?thesis by (simp add: materials_tab_def)
next
  case False
  with assms(2) load_looks [OF assms(1)] show ?thesis
    by (cases e) (simp_all add: sessions_tab_def entries_tab_def bookmarks_tab_def
        favorites_tab_def courses_tab_def session_notes_tab_def reviews_tab_def
        attachments_tab_def terms_tab_def cards_tab_def tasks_tab_def corrections_tab_def
        schedules_tab_def exceptions_tab_def pages_tab_def annotations_tab_def threads_tab_def
        messages_tab_def exams_tab_def topics_tab_def plans_tab_def plan_items_tab_def
        activities_tab_def conversations_tab_def turns_tab_def errand_cases_tab_def
        case_items_tab_def)
qed

section \<open>A page of changes\<close>

record pull_change =
  pc_seq :: int
  pc_etype :: etype
  pc_eid :: uuid
  pc_op :: change_op
  pc_version :: int
  pc_record :: "json option"

record pull_response =
  pr_changes :: "pull_change list"
  pr_next :: int
  pr_more :: bool

definition clamp_limit :: "int \<Rightarrow> nat" where
  "clamp_limit n = (if n < 1 then 1 else if 500 < n then 500 else nat n)"

text \<open>\<open>WHERE user_id = $1 AND change_sequence > $2 ORDER BY change_sequence\<close>\<close>

definition changes_after :: "uuid \<Rightarrow> int \<Rightarrow> db \<Rightarrow> (int \<times> change) list" where
  "changes_after u cursor d =
     sort_key fst (filter (\<lambda>c. ch_user (snd c) = u \<and> cursor < fst c) (db_changes d))"

definition load_change :: "uuid \<Rightarrow> db \<Rightarrow> int \<times> change \<Rightarrow> db_error + pull_change" where
  "load_change u d sc =
     (let c = snd sc;
          resp = \<lparr>pc_seq = fst sc, pc_etype = ch_etype c, pc_eid = ch_eid c, pc_op = ch_op c,
                  pc_version = ch_version c, pc_record = None\<rparr> in
      if ch_op c = Upsert then
        bindE (load_record u (ch_etype c) (ch_eid c) d) (\<lambda>r. Inr (resp\<lparr>pc_record := r\<rparr>))
      else Inr resp)"

primrec load_changes :: "uuid \<Rightarrow> db \<Rightarrow> (int \<times> change) list \<Rightarrow> db_error + pull_change list" where
  "load_changes u d [] = Inr []"
| "load_changes u d (c # cs) =
     bindE (load_change u d c) (\<lambda>x. bindE (load_changes u d cs) (\<lambda>xs. Inr (x # xs)))"

definition pull :: "uuid \<Rightarrow> int \<Rightarrow> int \<Rightarrow> db \<Rightarrow> db_error + pull_response" where
  "pull u cursor maxn d =
     (let n = clamp_limit maxn; got = take (n + 1) (changes_after u cursor d);
          more = n < length got; rows = (if more then take n got else got) in
      bindE (load_changes u d rows) (\<lambda>cs.
        Inr \<lparr>pr_changes = cs, pr_next = (if rows = [] then cursor else fst (last rows)),
             pr_more = more\<rparr>))"

section \<open>Status\<close>

definition live_count :: "'a row_scheme tab \<Rightarrow> uuid \<Rightarrow> db \<Rightarrow> nat" where
  "live_count T u d = length (filter (\<lambda>r. ruser r = u \<and> \<not> is_deleted r) (tb_get T d))"

definition change_log_tail :: "uuid \<Rightarrow> db \<Rightarrow> int" where
  "change_log_tail u d =
     (case filter (\<lambda>c. ch_user (snd c) = u) (db_changes d) of
        [] \<Rightarrow> 0 | c # cs \<Rightarrow> foldl max (fst c) (map fst cs))"

text \<open>The log tail and the live rows per table, in the order of the SELECT.\<close>

definition sync_status :: "uuid \<Rightarrow> db \<Rightarrow> int \<times> nat list" where
  "sync_status u d =
     (change_log_tail u d,
      [live_count sessions_tab u d, live_count entries_tab u d, live_count courses_tab u d,
       live_count session_notes_tab u d, live_count reviews_tab u d, live_count attachments_tab u d,
       live_count terms_tab u d, live_count cards_tab u d, live_count tasks_tab u d,
       live_count corrections_tab u d, live_count schedules_tab u d, live_count exceptions_tab u d,
       live_count materials_tab u d, live_count pages_tab u d, live_count annotations_tab u d,
       live_count threads_tab u d, live_count messages_tab u d, live_count exams_tab u d,
       live_count topics_tab u d, live_count plans_tab u d, live_count plan_items_tab u d,
       live_count activities_tab u d, live_count conversations_tab u d, live_count turns_tab u d,
       live_count errand_cases_tab u d, live_count case_items_tab u d])"

section \<open>Paging\<close>

lemma clamp_limit_pos: "0 < clamp_limit n"
  by (simp add: clamp_limit_def)

lemma sorted_wrt_filter_fst:
  "sorted_wrt (<) (map fst xs) \<Longrightarrow> sorted_wrt (<) (map fst (filter P xs))" for xs :: "(int \<times> change) list"
  by (induction xs) auto

lemma changes_after_eq:
  assumes "seqs_ok d"
  shows "changes_after u cursor d =
    filter (\<lambda>c. ch_user (snd c) = u \<and> cursor < fst c) (db_changes d)"
proof -
  let ?xs = "filter (\<lambda>c. ch_user (snd c) = u \<and> cursor < fst c) (db_changes d)"
  from assms have "sorted_wrt (<) (map fst ?xs)"
    by (simp add: seqs_ok_def sorted_wrt_filter_fst)
  then have "sorted (map fst ?xs)"
    by (rule strict_sorted_imp_sorted)
  then show ?thesis
    unfolding changes_after_def by (rule sort_key_id_if_sorted)
qed

lemma changes_after_sorted:
  "seqs_ok d \<Longrightarrow> sorted_wrt (<) (map fst (changes_after u cursor d))"
  by (simp add: changes_after_eq sorted_wrt_filter_fst seqs_ok_def)

text \<open>A sorted log splits at any of its own sequence numbers.\<close>

lemma filter_after_split:
  fixes xs :: "(int \<times> 'a) list"
  assumes "sorted_wrt (<) (map fst xs)" and "xs = ps @ qs" and "ps \<noteq> []"
  shows "filter (\<lambda>c. fst (last ps) < fst c) xs = qs"
  using assms by (cases ps rule: rev_cases)
    (auto simp: sorted_wrt_append filter_empty_conv filter_id_conv not_less)

lemma changes_after_rest:
  assumes "seqs_ok d" and "changes_after u cursor d = ps @ qs" and "ps \<noteq> []"
  shows "changes_after u (fst (last ps)) d = qs"
proof -
  have "last ps \<in> set (changes_after u cursor d)" using assms(2,3) by simp
  then have later: "cursor < fst (last ps)" by (auto simp: changes_after_eq [OF assms(1)])
  have "changes_after u (fst (last ps)) d =
      filter (\<lambda>c. fst (last ps) < fst c) (changes_after u cursor d)"
    using later by (auto simp: changes_after_eq [OF assms(1)] intro: filter_cong)
  with filter_after_split [OF changes_after_sorted [OF assms(1)] assms(2,3)] show ?thesis by simp
qed

definition page :: "int \<Rightarrow> (int \<times> change) list \<Rightarrow> (int \<times> change) list" where
  "page maxn cs = take (clamp_limit maxn) cs"

text \<open>What a page holds and where it leaves the cursor.\<close>

lemma pull_Inr:
  assumes "pull u cursor maxn d = Inr resp"
  shows "load_changes u d (page maxn (changes_after u cursor d)) = Inr (pr_changes resp)"
    and "pr_more resp \<longleftrightarrow> clamp_limit maxn < length (changes_after u cursor d)"
    and "pr_next resp = (if changes_after u cursor d = [] then cursor
           else fst (last (page maxn (changes_after u cursor d))))"
proof -
  let ?cs = "changes_after u cursor d" and ?n = "clamp_limit maxn"
  have rows: "(if ?n < length (take (?n + 1) ?cs) then take ?n (take (?n + 1) ?cs)
      else take (?n + 1) ?cs) = page maxn ?cs"
    by (auto simp: page_def min_def)
  have empty: "page maxn ?cs = [] \<longleftrightarrow> ?cs = []"
    using clamp_limit_pos [of maxn] by (simp add: page_def)
  from assms obtain cs where "load_changes u d (page maxn ?cs) = Inr cs"
    and "resp = \<lparr>pr_changes = cs, pr_next = (if page maxn ?cs = [] then cursor else fst (last (page maxn ?cs))),
      pr_more = ?n < length (take (?n + 1) ?cs)\<rparr>"
    unfolding pull_def Let_def rows by (auto simp: bindE_eq_Inr)
  then show "load_changes u d (page maxn ?cs) = Inr (pr_changes resp)"
    and "pr_more resp \<longleftrightarrow> ?n < length ?cs"
    and "pr_next resp = (if ?cs = [] then cursor else fst (last (page maxn ?cs)))"
    by (auto simp: empty min_def)
qed

end
