(* ===== verification/Convergence.thy ===== *)
theory Convergence
  imports Pull
begin

text \<open>
  What the protocol is for: a client that follows the pages of Pull ends with the server's live
  records of its user, whatever pushes (its own or of other devices and users) ran in between.
  The client is a specification device: a map from keys to records, updated by each change in
  turn.
\<close>

section \<open>The replica\<close>

type_synonym replica = "etype \<Rightarrow> uuid \<Rightarrow> json option"

definition absorb :: "replica \<Rightarrow> pull_change \<Rightarrow> replica" where
  "absorb R c =
     (\<lambda>e i. if e = pc_etype c \<and> i = pc_eid c
            then (case pc_op c of Upsert \<Rightarrow> pc_record c | Delete \<Rightarrow> None) else R e i)"

definition live_view :: "uuid \<Rightarrow> db \<Rightarrow> replica" where
  "live_view u d = (\<lambda>e i.
     case look e i d of
       None \<Rightarrow> None
     | Some (r, j) \<Rightarrow> if ruser r = u \<and> \<not> is_deleted r then Some j else None)"

text \<open>Follow the pages until the server has no more; the fuel bounds the number of requests.\<close>

primrec follow ::
  "nat \<Rightarrow> uuid \<Rightarrow> int \<Rightarrow> int \<Rightarrow> db \<Rightarrow> (db_error + pull_change list \<times> int) option" where
  "follow 0 u maxn cursor d = None"
| "follow (Suc n) u maxn cursor d =
     (case pull u cursor maxn d of
        Inl e \<Rightarrow> Some (Inl e)
      | Inr resp \<Rightarrow>
          if \<not> pr_more resp then Some (Inr (pr_changes resp, pr_next resp))
          else
            (case follow n u maxn (pr_next resp) d of
               Some (Inr (cs, c)) \<Rightarrow> Some (Inr (pr_changes resp @ cs, c))
             | x \<Rightarrow> x))"

definition caught_up :: "uuid \<Rightarrow> replica \<Rightarrow> int \<Rightarrow> db \<Rightarrow> bool" where
  "caught_up u R c d \<longleftrightarrow>
     R = live_view u d \<and> (c = 0 \<or> c \<in> fst ` set (db_changes d)) \<and>
     (\<forall>x\<in>set (db_changes d). ch_user (snd x) = u \<longrightarrow> fst x \<le> c)"

section \<open>Following the pages reads the whole log\<close>

lemma load_changes_append:
  "load_changes u d (xs @ ys) =
     bindE (load_changes u d xs) (\<lambda>a. bindE (load_changes u d ys) (\<lambda>b. Inr (a @ b)))"
proof (induction xs)
  case Nil
  then show ?case by (cases "load_changes u d ys") simp_all
next
  case (Cons x xs)
  then show ?case
    by (cases "load_change u d x"; cases "load_changes u d xs"; cases "load_changes u d ys") simp_all
qed

lemma load_changes_Nil_iff: "load_changes u d cs = Inr [] \<longleftrightarrow> cs = []"
  by (cases cs) (auto simp: bindE_eq_Inr)

lemma follow_total:
  assumes "seqs_ok d"
  shows "length (changes_after u cursor d) < n \<Longrightarrow>
    follow n u maxn cursor d = Some (bindE (load_changes u d (changes_after u cursor d))
      (\<lambda>cs. Inr (cs, if changes_after u cursor d = [] then cursor
                     else fst (last (changes_after u cursor d)))))
    \<or> (\<exists>e. follow n u maxn cursor d = Some (Inl e) \<and>
          (\<exists>e'. load_changes u d (changes_after u cursor d) = Inl e'))"
proof (induction n arbitrary: cursor)
  case (Suc n)
  let ?cs = "changes_after u cursor d"
  let ?p = "page maxn ?cs" and ?q = "drop (clamp_limit maxn) ?cs"
  have cs: "?cs = ?p @ ?q" by (simp add: page_def)
  show ?case
  proof (cases "pull u cursor maxn d")
    case (Inl e)
    then have "\<exists>e'. load_changes u d ?p = Inl e'"
      by (auto simp: pull_def Let_def bindE_def page_def min_def split: sum.splits if_splits)
    then have "\<exists>e'. load_changes u d ?cs = Inl e'"
      using load_changes_append [of u d ?p ?q] cs by auto
    with Inl show ?thesis by simp
  next
    case (Inr resp)
    note r = pull_Inr [OF Inr]
    show ?thesis
    proof (cases "pr_more resp")
      case False
      with r have "?p = ?cs" by (simp add: page_def)
      with r Inr False show ?thesis by simp
    next
      case True
      with r have more: "clamp_limit maxn < length ?cs" by simp
      with clamp_limit_pos [of maxn] have ne: "?p \<noteq> []" "?cs \<noteq> []" "?q \<noteq> []"
        by (auto simp: page_def)
      with r have nxt: "pr_next resp = fst (last ?p)" by simp
      have rest: "changes_after u (pr_next resp) d = ?q"
        unfolding nxt by (rule changes_after_rest [OF assms cs ne(1)])
      have "length ?q < n" using Suc.prems clamp_limit_pos [of maxn] more by simp
      with Suc.IH [of "pr_next resp"] have
        ih: "follow n u maxn (pr_next resp) d =
            Some (bindE (load_changes u d ?q) (\<lambda>cs. Inr (cs, fst (last ?q))))
          \<or> (\<exists>e. follow n u maxn (pr_next resp) d = Some (Inl e) \<and>
              (\<exists>e'. load_changes u d ?q = Inl e'))"
        using ne(3) unfolding rest by (simp del: drop_eq_Nil)
      have last: "last ?cs = last ?q" using cs ne(3) by (metis last_appendR)
      have load: "load_changes u d ?cs =
          bindE (load_changes u d ?q) (\<lambda>b. Inr (pr_changes resp @ b))"
        using load_changes_append [of u d ?p ?q] cs r(1) by simp
      show ?thesis
        using ih True Inr ne(2) last load
        by (cases "load_changes u d ?q") auto
    qed
  qed
qed simp

lemma follow_Inr:
  assumes "seqs_ok d" and "follow n u maxn cursor d = Some (Inr (cs, c))"
  shows "load_changes u d (changes_after u cursor d) = Inr cs \<and>
    c = (if changes_after u cursor d = [] then cursor else fst (last (changes_after u cursor d)))"
  using assms(2)
proof (induction n arbitrary: cursor cs c)
  case (Suc n)
  let ?cs = "changes_after u cursor d"
  let ?p = "page maxn ?cs" and ?q = "drop (clamp_limit maxn) ?cs"
  have split: "?cs = ?p @ ?q" by (simp add: page_def)
  from Suc.prems obtain resp where resp: "pull u cursor maxn d = Inr resp"
    by (auto split: sum.splits)
  note r = pull_Inr [OF resp]
  show ?case
  proof (cases "pr_more resp")
    case False
    with r have "?p = ?cs" by (simp add: page_def)
    with r resp False Suc.prems show ?thesis by auto
  next
    case True
    with r have more: "clamp_limit maxn < length ?cs" by simp
    with clamp_limit_pos [of maxn] have ne: "?p \<noteq> []" "?cs \<noteq> []" "?q \<noteq> []"
      by (auto simp: page_def)
    with r have nxt: "pr_next resp = fst (last ?p)" by simp
    have rest: "changes_after u (pr_next resp) d = ?q"
      unfolding nxt by (rule changes_after_rest [OF assms(1) split ne(1)])
    from Suc.prems resp True obtain cs' where
      f: "follow n u maxn (pr_next resp) d = Some (Inr (cs', c))" "cs = pr_changes resp @ cs'"
      by (auto split: option.splits sum.splits prod.splits)
    from Suc.IH [OF f(1)] have "load_changes u d ?q = Inr cs'" "c = fst (last ?q)"
      using ne(3) unfolding rest by (simp_all del: drop_eq_Nil)
    moreover have "last ?cs = last ?q" using split ne(3) by (metis last_appendR)
    ultimately show ?thesis
      using load_changes_append [of u d ?p ?q] split r(1) f(2) ne(2) by simp
  qed
qed simp

lemma follow_terminates:
  "seqs_ok d \<Longrightarrow> length (changes_after u cursor d) < n \<Longrightarrow> \<exists>x. follow n u maxn cursor d = Some x"
  using follow_total by blast

section \<open>What the changes of a page say\<close>

definition loaded :: "uuid \<Rightarrow> db \<Rightarrow> int \<times> change \<Rightarrow> pull_change" where
  "loaded u d sc =
     \<lparr>pc_seq = fst sc, pc_etype = ch_etype (snd sc), pc_eid = ch_eid (snd sc),
      pc_op = ch_op (snd sc), pc_version = ch_version (snd sc),
      pc_record = (if ch_op (snd sc) = Upsert
                   then owned u (look (ch_etype (snd sc)) (ch_eid (snd sc)) d) else None)\<rparr>"

lemma loaded_simps [simp]:
  "pc_etype (loaded u d sc) = ch_etype (snd sc)" "pc_eid (loaded u d sc) = ch_eid (snd sc)"
  "pc_op (loaded u d sc) = ch_op (snd sc)"
  by (simp_all add: loaded_def)

lemma load_change_loaded:
  "wf d \<Longrightarrow> load_change u d sc = Inr x \<Longrightarrow> x = loaded u d sc"
  by (auto simp: load_change_def loaded_def Let_def bindE_eq_Inr load_record_look split: if_splits)

lemma load_changes_loaded:
  "wf d \<Longrightarrow> load_changes u d cs = Inr xs \<Longrightarrow> xs = map (loaded u d) cs"
  by (induction cs arbitrary: xs) (auto simp: bindE_eq_Inr load_change_loaded)

text \<open>A replica keeps, per key, what the last change about it says.\<close>

lemma foldl_absorb:
  "foldl absorb R (map (loaded u d) cs) e i =
     (if about e i (map snd cs) = [] then R e i
      else case ch_op (last (about e i (map snd cs))) of
             Upsert \<Rightarrow> owned u (look e i d) | Delete \<Rightarrow> None)"
proof (induction cs rule: rev_induct)
  case (snoc c cs)
  show ?case
  proof (cases "ch_etype (snd c) = e \<and> ch_eid (snd c) = i")
    case True
    then show ?thesis by (auto simp: absorb_def loaded_def split: change_op.split)
  next
    case False
    with snoc show ?thesis by (auto simp: absorb_def)
  qed
qed simp

section \<open>Histories between two visits\<close>

text \<open>Pushes by anyone, in any order and number.\<close>

inductive served :: "db \<Rightarrow> db \<Rightarrow> bool" where
  here: "served d d"
| later: "served d d' \<Longrightarrow> apply_push E u its d' = (d'', x) \<Longrightarrow> served d d''"

lemma served_history: "served d d' \<Longrightarrow> history_ok d \<Longrightarrow> history_ok d'"
  by (induction rule: served.induct) (auto intro: history_ok_push)

lemma served_grows: "served d d' \<Longrightarrow> grows d d'"
proof (induction rule: served.induct)
  case (later d d' E u its d'' x)
  then show ?case using apply_push_evolves grows_trans by (metis evolves_def)
qed (simp add: grows_same)

text \<open>A row no change is about has not moved.\<close>

definition steady :: "db \<Rightarrow> db \<Rightarrow> bool" where
  "steady d d' \<longleftrightarrow>
     (\<forall>e i. length (about e i (change_log d')) = length (about e i (change_log d)) \<longrightarrow>
            look e i d' = look e i d)"

lemma change_log_grows: "grows d d' \<Longrightarrow> \<exists>cs. change_log d' = change_log d @ cs"
  by (auto simp: grows_def change_log_def)

lemma steady_push:
  assumes "history_ok d" and "apply_push E u its d = (d', x)"
  shows "steady d d'"
proof -
  obtain cs where cs: "change_log d' = change_log d @ cs"
    and run: "\<And>e i. life_run u e i (look e i d) (about e i cs) (look e i d')"
    using evolves_row [OF apply_push_evolves [OF assms(2)] history_okD(1) [OF assms(1)]] by metis
  show ?thesis
    unfolding steady_def
  proof (intro allI impI)
    fix e i
    assume "length (about e i (change_log d')) = length (about e i (change_log d))"
    then have "about e i cs = []" by (simp add: cs)
    with run [of e i] show "look e i d' = look e i d" by simp
  qed
qed

lemma about_length_mono:
  "grows d d' \<Longrightarrow> length (about e i (change_log d)) \<le> length (about e i (change_log d'))"
  using change_log_grows by fastforce

lemma served_steady: "served d d' \<Longrightarrow> history_ok d \<Longrightarrow> steady d d'"
proof (induction rule: served.induct)
  case (later d d' E u its d'' x)
  from later.prems later.hyps(1) have ok: "history_ok d'" by (rule served_history [rotated])
  have g: "grows d d'" "grows d' d''"
    using served_grows [OF later.hyps(1)] apply_push_evolves [OF later.hyps(2)]
    by (simp_all add: evolves_def)
  show ?case
    unfolding steady_def
  proof (intro allI impI)
    fix e i
    assume "length (about e i (change_log d'')) = length (about e i (change_log d))"
    with about_length_mono [OF g(1), of e i] about_length_mono [OF g(2), of e i]
    have "length (about e i (change_log d'')) = length (about e i (change_log d'))"
      and "length (about e i (change_log d')) = length (about e i (change_log d))" by simp_all
    with steady_push [OF ok later.hyps(2)] later.IH [OF later.prems]
    show "look e i d'' = look e i d" by (simp add: steady_def)
  qed
qed (simp add: steady_def)

section \<open>Convergence\<close>

lemma changes_after_new:
  assumes "seqs_ok d'" and ns: "db_changes d' = db_changes d @ ns" and "caught_up u R c d"
  shows "changes_after u c d' = filter (\<lambda>x. ch_user (snd x) = u) ns"
proof -
  have "filter (\<lambda>x. ch_user (snd x) = u \<and> c < fst x) (db_changes d) = []"
    using assms(3) by (fastforce simp: caught_up_def filter_empty_conv not_less)
  moreover have "\<forall>x\<in>set ns. c < fst x"
    using assms(1,3) unfolding caught_up_def seqs_ok_def ns
    by (auto simp: sorted_wrt_append)
  then have "filter (\<lambda>x. ch_user (snd x) = u \<and> c < fst x) ns = filter (\<lambda>x. ch_user (snd x) = u) ns"
    by (auto intro: filter_cong)
  ultimately show ?thesis by (simp add: changes_after_eq [OF assms(1)] ns)
qed

lemma live_view_tombstone_or_owned:
  "live_view u d e i =
     (case look e i d of None \<Rightarrow> None | Some (r, j) \<Rightarrow> if is_deleted r then None else owned u (look e i d))"
  by (auto simp: live_view_def owned_def split: option.split)

text \<open>All changes about one row are its owner's.\<close>

lemma about_owner:
  assumes "told_history d" and "look e i d = Some (r, j)" and "c \<in> set (about e i (change_log d))"
  shows "ch_user c = ruser r"
  using history_owner [OF assms(1), of c r j] assms(2,3) by (auto simp: about_set)

lemma replica_key:
  assumes "history_ok d" and "history_ok d'" and "steady d d'"
    and log: "change_log d' = change_log d @ cs"
  shows "(if about e i (filter (\<lambda>c. ch_user c = u) cs) = [] then live_view u d e i
          else case ch_op (last (about e i (filter (\<lambda>c. ch_user c = u) cs))) of
                 Upsert \<Rightarrow> owned u (look e i d') | Delete \<Rightarrow> None) = live_view u d' e i"
proof (cases "about e i cs = []")
  case True
  then have "look e i d' = look e i d" using assms(3) by (simp add: steady_def log)
  moreover have "about e i (filter (\<lambda>c. ch_user c = u) cs) = []"
    using True by (auto simp: about_def filter_empty_conv)
  ultimately show ?thesis by (simp add: live_view_def)
next
  case False
  note hist' = history_okD(3) [OF assms(2)] and hist = history_okD(3) [OF assms(1)]
  from False have ne: "about e i (change_log d') \<noteq> []" by (simp add: log)
  from history_last [OF hist' ne] obtain r j where
    r: "look e i d' = Some (r, j)" "last (about e i (change_log d')) = change_for e r" by auto
  have users: "ch_user c = ruser r" if "c \<in> set (about e i (change_log d'))" for c
    by (rule about_owner [OF hist' r(1) that])
  have last: "last (about e i cs) = change_for e r" using r(2) False by (simp add: log)
  show ?thesis
  proof (cases "ruser r = u")
    case True
    have "about e i (filter (\<lambda>c. ch_user c = u) cs) = about e i cs"
      using users True by (auto simp: about_def log intro!: filter_cong)
    with False last r(1) True show ?thesis by (simp add: live_view_def owned_def)
  next
    case other: False
    have "about e i (filter (\<lambda>c. ch_user c = u) cs) = []"
      using users other by (auto simp: about_def log filter_empty_conv)
    moreover have "live_view u d e i = None"
    proof (cases "look e i d")
      case (Some x)
      obtain r0 j0 where x: "x = (r0, j0)" by (cases x)
      from Some x history_unlogged [OF hist, of e i] have "about e i (change_log d) \<noteq> []" by auto
      then obtain c where c: "c \<in> set (about e i (change_log d))" by (cases "about e i (change_log d)") auto
      with users log about_owner [OF hist Some [unfolded x]] have "ruser r0 = ruser r" by auto
      with other Some x show ?thesis by (simp add: live_view_def)
    qed (simp add: live_view_def)
    ultimately show ?thesis using r(1) other by (simp add: live_view_def)
  qed
qed

lemma caught_up_start: "caught_up u (\<lambda>e i. None) 0 empty_db"
  by (simp add: caught_up_def live_view_def look_def) (simp add: empty_db_def)

lemma caught_up_follow:
  assumes "history_ok d" and "served d d'" and "caught_up u R c d"
    and "follow n u maxn c d' = Some (Inr (cs, c'))"
  shows "caught_up u (foldl absorb R cs) c' d'"
proof -
  note ok' = served_history [OF assms(2,1)]
  note w' = history_okD(1) [OF ok']
  note s' = wfD(2) [OF w']
  obtain ns where ns: "db_changes d' = db_changes d @ ns"
    using served_grows [OF assms(2)] by (auto simp: grows_def)
  have log: "change_log d' = change_log d @ map snd ns" by (simp add: change_log_def ns)
  note new = changes_after_new [OF s' ns assms(3)]
  from follow_Inr [OF s' assms(4)] have
    load: "load_changes u d' (changes_after u c d') = Inr cs"
    and c': "c' = (if changes_after u c d' = [] then c else fst (last (changes_after u c d')))"
    by auto
  from load_changes_loaded [OF w' load] new
  have cs: "cs = map (loaded u d') (filter (\<lambda>x. ch_user (snd x) = u) ns)" by simp
  have snds: "map snd (filter (\<lambda>x. ch_user (snd x) = u) ns) = filter (\<lambda>c. ch_user c = u) (map snd ns)"
    by (simp add: filter_map_eq)
  have "foldl absorb R cs = live_view u d'"
  proof (intro ext)
    fix e i
    have R: "R e i = live_view u d e i" using assms(3) by (simp add: caught_up_def)
    show "foldl absorb R cs e i = live_view u d' e i"
      using replica_key [OF assms(1) ok' served_steady [OF assms(2,1)] log, of e i u]
      unfolding cs foldl_absorb snds R .
  qed
  moreover have "c' = 0 \<or> c' \<in> fst ` set (db_changes d')"
  proof (cases "changes_after u c d' = []")
    case True
    with c' assms(3) show ?thesis by (auto simp: caught_up_def ns)
  next
    case False
    then have "last (changes_after u c d') \<in> set ns" using last_in_set [OF False] by (simp add: new)
    with c' False ns show ?thesis by (auto intro: rev_image_eqI)
  qed
  moreover have "fst x \<le> c'" if x: "x \<in> set (db_changes d')" "ch_user (snd x) = u" for x
  proof (cases "x \<in> set (changes_after u c d')")
    case True
    then obtain as bs where split: "changes_after u c d' = as @ x # bs" by (meson split_list)
    have "sorted_wrt (<) (map fst (changes_after u c d'))" by (rule changes_after_sorted [OF s'])
    with split c' show ?thesis
      by (cases bs rule: rev_cases) (auto simp: sorted_wrt_append)
  next
    case False
    with x have "fst x \<le> c" by (auto simp: changes_after_eq [OF s'] not_less)
    moreover have "c \<le> c'"
      using c' last_in_set [of "changes_after u c d'"] by (auto simp: changes_after_eq [OF s'])
    ultimately show ?thesis by simp
  qed
  ultimately show ?thesis by (simp add: caught_up_def)
qed

end
