(* ===== verification/Examples.thy ===== *)
theory Examples
  imports Cascades Convergence
begin

text \<open>
  Concrete inputs for the witnesses: an environment, an item without any payload field, and the
  items and states the witnesses build from them.
\<close>

definition no_refs :: refs_p where
  "no_refs = \<lparr>p_session_id = None, p_entry_id = None, p_course_id = None,
     p_anchor_entry = None, p_source_attachment = None, p_source_review = None,
     p_source_term = None, p_schedule_id = None, p_material_id = None,
     p_thread_id = None, p_exam_id = None, p_plan_id = None,
     p_plan_item_id = None, p_topic_id = None, p_conversation_id = None,
     p_case_id = None\<rparr>"

definition no_session :: session_p where
  "no_session = \<lparr>p_started_at = None, p_ended_at = None, p_duration = None,
     p_session_status = None, p_abnormal = None, p_source_language = None,
     p_target_language = None\<rparr>"

definition no_entry :: entry_p where
  "no_entry = \<lparr>p_sequence_id = None, p_start_offset = None, p_end_offset = None,
     p_russian_text = None, p_chinese_text = None, p_translation_status = None,
     p_time_source = None\<rparr>"

definition no_correction :: correction_p where
  "no_correction = \<lparr>p_corr_russian = None, p_corr_chinese = None, p_corr_modified_at = None,
     p_corr_retranslate = None\<rparr>"

definition no_flags :: flags_p where
  "no_flags = \<lparr>p_is_bookmarked = None, p_is_favorite = None\<rparr>"

definition no_course :: course_p where
  "no_course = \<lparr>p_teacher = None, p_location = None, p_color_index = None,
     p_is_archived = None\<rparr>"

definition no_note :: note_p where
  "no_note = \<lparr>p_note_text = None, p_note_time_offset = None\<rparr>"

definition no_review :: review_p where
  "no_review = \<lparr>p_review_status = None, p_review_content = None, p_review_generated = None,
     p_review_model = None, p_review_generated_at = None, p_review_source_at = None\<rparr>"

definition no_attachment :: attachment_p where
  "no_attachment = \<lparr>p_att_kind = None, p_att_mime = None, p_att_width = None,
     p_att_height = None, p_att_file_size = None, p_att_hash = None,
     p_att_captured_at = None, p_att_caption = None, p_att_sort_index = None,
     p_att_transform = None, p_att_analysis_state = None, p_att_analysis = None,
     p_att_ocr_text = None\<rparr>"

definition no_term :: term_p where
  "no_term = \<lparr>p_term_russian = None, p_term_chinese = None, p_term_explanation = None,
     p_term_part_of_speech = None, p_term_user_note = None, p_term_source_sessions = None,
     p_term_favorite = None, p_term_status = None\<rparr>"

definition no_card :: card_p where
  "no_card = \<lparr>p_card_front = None, p_card_back = None, p_card_type = None,
     p_card_user_note = None, p_card_origin = None, p_card_stage = None,
     p_card_review_count = None, p_card_interval_hours = None, p_card_due_at = None,
     p_card_last_reviewed_at = None, p_card_last_grade = None\<rparr>"

definition no_task :: task_p where
  "no_task = \<lparr>p_task_detail = None, p_task_due_at = None, p_task_priority = None,
     p_task_status = None, p_task_origin = None, p_task_uncertainty = None,
     p_task_user_note = None, p_task_completed_at = None\<rparr>"

definition no_schedule :: schedule_p where
  "no_schedule = \<lparr>p_sched_weekday = None, p_sched_start_secs = None, p_sched_end_secs = None,
     p_sched_recurrence = None, p_sched_parity_anchor = None, p_sched_first_week_odd = None,
     p_sched_semester_start = None, p_sched_semester_end = None, p_sched_timezone = None,
     p_sched_teacher = None, p_sched_location = None, p_sched_note = None,
     p_sched_reminder_mins = None, p_sched_enabled = None, p_sched_once_date = None\<rparr>"

definition no_exception :: exception_p where
  "no_exception = \<lparr>p_exc_original_date = None, p_exc_kind = None, p_exc_changed_start = None,
     p_exc_changed_end = None, p_exc_moved_to = None\<rparr>"

definition no_material :: material_p where
  "no_material = \<lparr>p_mat_kind = None, p_mat_mime = None, p_mat_file_name = None,
     p_mat_format = None, p_mat_file_size = None, p_mat_hash = None,
     p_mat_page_count = None, p_mat_source_url = None, p_mat_shared_text = None,
     p_mat_extraction = None, p_mat_digest_status = None, p_mat_digest = None,
     p_mat_digest_model = None, p_mat_digest_at = None, p_mat_digest_src_hash = None,
     p_mat_last_read_page = None, p_mat_last_opened_at = None, p_page_text = None,
     p_page_ocr = None, p_page_ocr_state = None, p_annotation_kind = None\<rparr>"

definition no_assistant :: assistant_p where
  "no_assistant = \<lparr>p_as_role = None, p_as_text = None, p_as_citations = None,
     p_as_mode = None, p_as_evidence = None, p_as_answer = None,
     p_as_model = None\<rparr>"

definition no_exam :: exam_p where
  "no_exam = \<lparr>p_exam_kind = None, p_exam_date = None, p_exam_start_secs = None,
     p_exam_end_secs = None, p_exam_location = None, p_exam_scope = None,
     p_exam_note = None, p_exam_target_score = None, p_exam_status = None,
     p_exam_origin = None, p_exam_source = None, p_topic_detail = None,
     p_topic_importance = None, p_topic_self_rating = None, p_topic_status = None,
     p_topic_source = None, p_topic_user_edited = None\<rparr>"

definition no_plan :: plan_p where
  "no_plan = \<lparr>p_plan_start_date = None, p_plan_end_date = None, p_plan_weekday_mins = None,
     p_plan_weekend_mins = None, p_plan_rest_days = None, p_plan_finish_early = None,
     p_plan_cards = None, p_plan_tasks = None, p_plan_materials = None,
     p_plan_sessions = None, p_plan_focus_topics = None, p_plan_blocked_times = None,
     p_plan_status = None\<rparr>"

definition no_plan_item :: plan_item_p where
  "no_plan_item = \<lparr>p_pitem_date = None, p_pitem_kind = None, p_pitem_est_mins = None,
     p_pitem_actual = None, p_pitem_status = None, p_pitem_status_at = None,
     p_pitem_order = None, p_pitem_source = None, p_pitem_user_note = None,
     p_pitem_user_edit = None\<rparr>"

definition no_activity :: activity_p where
  "no_activity = \<lparr>p_act_status = None, p_act_started_at = None, p_act_ended_at = None,
     p_act_duration = None, p_act_note = None\<rparr>"

definition no_interpreter :: interpreter_p where
  "no_interpreter = \<lparr>p_conv_scene = None, p_conv_context = None, p_conv_status = None,
     p_conv_started_at = None, p_conv_ended_at = None, p_turn_speaker = None,
     p_turn_direction = None, p_turn_input_method = None, p_turn_sequence = None,
     p_turn_source = None, p_turn_plain_russian = None, p_turn_stressed_russian = None,
     p_turn_chinese = None, p_turn_back_translation = None, p_turn_details = None,
     p_turn_modified_at = None\<rparr>"

definition no_errand :: errand_p where
  "no_errand = \<lparr>p_err_scene = None, p_err_status = None, p_err_purpose = None,
     p_err_note = None, p_err_timezone = None, p_err_location = None,
     p_err_contact = None, p_err_expected_at = None, p_err_pinned = None,
     p_err_local_sources = None\<rparr>"

definition no_errand_item :: errand_item_p where
  "no_errand_item = \<lparr>p_eitem_kind = None, p_eitem_status = None, p_eitem_sequence = None,
     p_eitem_detail = None, p_eitem_due_at = None, p_eitem_date_text = None,
     p_eitem_date_relative = None, p_eitem_date_uncertain = None, p_eitem_origin = None,
     p_eitem_confirmed = None, p_eitem_fee_text = None, p_eitem_fee_amount = None,
     p_eitem_fee_currency = None, p_eitem_modified_at = None, p_eitem_completed_at = None\<rparr>"

definition no_payload :: payload where
  "no_payload = \<lparr>p_title = None, p_refs = no_refs, p_session = no_session,
     p_entry = no_entry, p_correction = no_correction, p_flags = no_flags,
     p_course = no_course, p_note = no_note, p_review = no_review,
     p_attachment = no_attachment, p_term = no_term, p_card = no_card,
     p_task = no_task, p_schedule = no_schedule, p_exception = no_exception,
     p_material_page_number = None, p_occurrence_key = None, p_material = no_material,
     p_assistant = no_assistant, p_exam = no_exam, p_plan = no_plan,
     p_plan_item = no_plan_item, p_activity = no_activity, p_interpreter = no_interpreter,
     p_errand = no_errand, p_errand_item = no_errand_item\<rparr>"

definition blank_item :: "uuid \<Rightarrow> etype \<Rightarrow> uuid \<Rightarrow> string \<Rightarrow> int \<Rightarrow> payload \<Rightarrow> push_item" where
  "blank_item op e i what base pl =
     \<lparr>it_op_id = op, it_etype = etype_str e, it_eid = i, it_operation = what, it_base = base,
      it_client_at = 5, it_payload = pl\<rparr>"

definition env0 :: env where
  "env0 = \<lparr>en_now = 100, en_wall = (\<lambda>_. 100), en_tz_known = (\<lambda>_. True),
     en_jsonb = (\<lambda>s. if json_valid s then Some s else None), en_files = True,
     en_decode = (\<lambda>_. None), en_encode = (\<lambda>_. [])\<rparr>"

text \<open>A course, created and deleted by user 1.\<close>

definition course_item :: push_item where
  "course_item = blank_item 11 ECourse 7 ''upsert'' 0 (no_payload\<lparr>p_title := Some ''Physics''\<rparr>)"

definition course_delete_item :: push_item where
  "course_delete_item = blank_item 12 ECourse 7 ''delete'' 1 no_payload"

definition course_row0 :: course_row where
  "course_row0 =
     \<lparr>rid = 7, ruser = 1, rver = 1, rupdated = 100, rdeleted = None, co_name = ''Physics'',
      co_teacher = [], co_location = [], co_color_index = 0, co_archived = False\<rparr>"

definition db1 :: db where
  "db1 = empty_db\<lparr>courses := [course_row0],
     db_changes := [(1, \<lparr>ch_user = 1, ch_etype = ECourse, ch_eid = 7, ch_op = Upsert, ch_version = 1\<rparr>)],
     db_seq := 1,
     db_ledger := [ledger_entry 1 course_item (accepted course_item 1 100)]\<rparr>"

end
