(* ===== verification/Protocol.thy ===== *)
theory Protocol
  imports Examples
begin

text \<open>
  Properties of the protocol as a whole, over every entity type: atomicity and idempotence of
  push, the version gate, deletes that win, isolation of users, the change log, paging, and the
  convergence of a client that follows it.
\<close>

section \<open>Concrete runs\<close>

lemma run1: "apply_push env0 1 [course_item] empty_db = (db1, Inr ([accepted course_item 1 100], []))"
  by code_simp

lemma reachable_db1: "reachable db1"
  by (rule reachable.push [OF reachable.start run1])

lemma served_db1: "served empty_db db1"
  by (rule served.later [OF served.here run1])

lemma look_db1: "look ECourse 7 db1 = Some (row.truncate course_row0, course_record_json course_row0)"
  by (simp add: look_def db1_def course_row0_def abs_row_def)

lemma row0_simps [simp]: "rver course_row0 = 1" "ruser course_row0 = 1" "rdeleted course_row0 = None"
  by (simp_all add: course_row0_def)

lemma hooks_after_push: "apply_push E u its d = (d', x) \<Longrightarrow> db_hooks d = [] \<Longrightarrow> db_hooks d' = []"
  by (auto simp: apply_push_def split: sum.splits)

lemma served_hooks: "served d d' \<Longrightarrow> db_hooks d = [] \<Longrightarrow> db_hooks d' = []"
  by (induction rule: served.induct) (auto intro: hooks_after_push)

lemma served_ledger:
  "served d d' \<Longrightarrow> find_ledger u op d = Some l \<Longrightarrow> find_ledger u op d' = Some l"
  by (induction rule: served.induct) (auto dest!: apply_push_ledger intro: find_ledger_append)

section \<open>Push\<close>

text \<open>
  C1: A push is all or nothing and complete. On an error the database is what it was; otherwise
  there is one result per item, in order, and each is in the ledger.
\<close>

theorem push_all_or_nothing:
  "case apply_push E u its d of
     (d', Inl err) \<Rightarrow> d' = d
   | (d', Inr (rs, hs)) \<Rightarrow> list_all2 (answered u d') its rs"
proof (cases "run_items handler E u its (d\<lparr>db_hooks := []\<rparr>)")
  case (Inr y)
  obtain d1 rs where y: "y = (d1, rs)" by (cases y)
  from engine.run_items_answered [OF Inr [unfolded y]] Inr y show ?thesis
    by (simp add: apply_push_def list_all2_conv_all_nth)
qed (simp add: apply_push_def)

text \<open>
  C2: Pushes are idempotent. A batch that went through, sent again at any later time, after any
  pushes by anyone and from any environment, returns the same results and changes nothing, file
  cleanups included.
\<close>

theorem push_replay:
  assumes "apply_push E u its d = (d1, Inr (rs, hs))" and "served d1 d2"
  shows "apply_push E' u its d2 = (d2, Inr (rs, []))"
proof -
  obtain d0 where run: "run_items handler E u its (d\<lparr>db_hooks := []\<rparr>) = Inr (d0, rs)"
    and d1: "d1 = d0\<lparr>db_hooks := []\<rparr>"
    using apply_push_Inr [OF assms(1)] by metis
  have hooks: "db_hooks d2 = []"
    by (rule served_hooks [OF assms(2)]) (simp add: d1)
  have "list_all2 (answered u d2) its rs"
    using engine.run_items_answered [OF run] served_ledger [OF assms(2)] d1
    by (auto simp: list_all2_conv_all_nth answered_def)
  note replay = engine.run_items_replay [OF this, of E']
  have same: "d2\<lparr>db_hooks := []\<rparr> = d2" using hooks by simp
  show ?thesis unfolding apply_push_def same replay by (simp add: hooks)
qed

lemma push_replay_witness: "apply_push env0 1 [course_item] db1 = (db1, Inr ([accepted course_item 1 100], []))"
  by (rule push_replay [OF run1 served.here])

text \<open>
  C3: Optimistic concurrency, for all 28 entity types. An upsert that is not a replay is accepted
  only if the row did not exist, and is then created at version 1, or was live, the user's own
  and at exactly the version the client based its edit on, and is then live one version further.
\<close>

theorem accepted_upsert_was_current:
  assumes "reachable d" and "apply_one E u it d = Inr (d', res)" and "res_status res = Accepted"
    and "find_ledger u (it_op_id it) d = None" and "it_operation it = ''upsert''"
    and "it_etype it = etype_str e"
  shows "\<exists>r j. look e (it_eid it) d' = Some (r, j) \<and> ruser r = u \<and> \<not> is_deleted r \<and>
      res_version res = Some (rver r) \<and>
      (case look e (it_eid it) d of
         None \<Rightarrow> rver r = 1
       | Some (q, k) \<Rightarrow>
           ruser q = u \<and> \<not> is_deleted q \<and> it_base it = rver q \<and> rver r = rver q + 1)"
proof -
  have "handler e E u it d = Inr (d', res)"
    using assms(2,4-6) by (simp add: apply_one_def run_one_def process_def valid_entity_type_iff)
  moreover have "\<not> is_delete it" by (simp add: is_delete_def assms(5))
  ultimately show ?thesis
    using gated_handler [of it e u d E] history_okD(1) [OF reachable_history_ok [OF assms(1)]] assms(3)
    by (simp add: gated_def accepted_upsert_def)
qed

definition rename_item :: push_item where
  "rename_item = blank_item 13 ECourse 7 ''upsert'' 1 (no_payload\<lparr>p_title := Some ''Optics''\<rparr>)"

definition renamed :: "db_error + db \<times> push_result" where
  "renamed = apply_one env0 1 rename_item db1"

lemma renamed_status:
  "case renamed of Inl e \<Rightarrow> False | Inr (d, res) \<Rightarrow> res_status res = Accepted \<and> res_version res = Some 2"
  by code_simp

lemma accepted_upsert_was_current_witness:
  "case renamed of Inl e \<Rightarrow> False | Inr (d, res) \<Rightarrow>
     \<exists>r j. look ECourse 7 d = Some (r, j) \<and> rver r = 2"
proof -
  obtain d' res where r: "renamed = Inr (d', res)" "res_status res = Accepted"
    using renamed_status by (auto split: sum.splits prod.splits)
  have "find_ledger 1 (it_op_id rename_item) db1 = None" by code_simp
  from accepted_upsert_was_current [where e = ECourse, OF reachable_db1 r(1) [unfolded renamed_def] r(2) this]
  show ?thesis by (auto simp: r(1) rename_item_def blank_item_def look_db1)
qed

text \<open>
  C5: A delete that is not a replay and goes through is accepted, whatever version it was based
  on, and leaves a tombstone of the user at the version it reports; for all 28 entity types.
\<close>

theorem delete_leaves_tombstone:
  assumes "reachable d" and "apply_one E u it d = Inr (d', res)"
    and "find_ledger u (it_op_id it) d = None" and "it_operation it = ''delete''"
    and "it_etype it = etype_str e"
  shows "res_status res = Accepted \<and>
    (\<exists>r j. look e (it_eid it) d' = Some (r, j) \<and> ruser r = u \<and> is_deleted r \<and>
       res_version res = Some (rver r))"
proof -
  have "handler e E u it d = Inr (d', res)"
    using assms(2-5) by (simp add: apply_one_def run_one_def process_def valid_entity_type_iff)
  moreover have "is_delete it" by (simp add: is_delete_def assms(4))
  ultimately show ?thesis
    using buried_handler [of it d e u E] history_okD(1) [OF reachable_history_ok [OF assms(1)]]
    by (simp add: buried_def)
qed

definition course_deleted :: "db_error + db \<times> push_result" where
  "course_deleted = apply_one env0 1 course_delete_item db1"

lemma course_deleted_Inr: "case course_deleted of Inl e \<Rightarrow> False | Inr x \<Rightarrow> True"
  by code_simp

lemma delete_leaves_tombstone_witness:
  "case course_deleted of Inl e \<Rightarrow> False | Inr (d, res) \<Rightarrow>
     \<exists>r j. look ECourse 7 d = Some (r, j) \<and> is_deleted r"
proof -
  obtain d' res where r: "course_deleted = Inr (d', res)"
    using course_deleted_Inr by (auto split: sum.splits)
  have "find_ledger 1 (it_op_id course_delete_item) db1 = None" by code_simp
  from delete_leaves_tombstone [where e = ECourse, OF reachable_db1 r [unfolded course_deleted_def] this]
  show ?thesis by (auto simp: r course_delete_item_def blank_item_def)
qed

text \<open>
  C6: Deletes win. Once a row is a tombstone, no sequence of pushes by anyone changes it again:
  neither its record, nor its version, nor its deletion.
\<close>

theorem tombstones_are_final:
  assumes "reachable d" and "served d d'" and "look e i d = Some (r, j)" and "is_deleted r"
  shows "look e i d' = Some (r, j)"
  using assms(2,1,3,4)
proof (induction rule: served.induct)
  case (later d d' E u its d'' x)
  have "history_ok d'"
    using served_history [OF later.hyps(1)] reachable_history_ok [OF later.prems(1)] by simp
  with evolves_tombstone [OF apply_push_evolves [OF later.hyps(2)]] later show ?case
    by (metis history_okD(1))
qed simp

definition db2 :: db where
  "db2 = fst (apply_push env0 1 [course_delete_item] db1)"

lemma run2: "apply_push env0 1 [course_delete_item] db1 = (db2, snd (apply_push env0 1 [course_delete_item] db1))"
  by (simp add: db2_def)

lemma look_db2: "(case look ECourse 7 db2 of None \<Rightarrow> False | Some (r, j) \<Rightarrow> is_deleted r)"
  by code_simp

lemma reachable_db2: "reachable db2"
  by (rule reachable.push [OF reachable_db1 run2])

definition revive_item :: push_item where
  "revive_item = blank_item 14 ECourse 7 ''upsert'' 2 (no_payload\<lparr>p_title := Some ''Optics''\<rparr>)"

lemma tombstones_are_final_witness:
  "look ECourse 7 (fst (apply_push env0 1 [revive_item] db2)) = look ECourse 7 db2"
proof -
  obtain r j where "look ECourse 7 db2 = Some (r, j)" "is_deleted r"
    using look_db2 by (auto split: option.splits)
  from tombstones_are_final [OF reachable_db2 served.later [OF served.here prod.collapse [symmetric]] this]
  show ?thesis by (simp add: \<open>look ECourse 7 db2 = Some (r, j)\<close>)
qed

text \<open>
  C7: Users are isolated. A push of one user leaves every row and record another user owns, the
  changes that user pulls, and that user's ledger as they were, and hands out no row to them.
\<close>

theorem push_isolates_users:
  assumes "reachable d" and "apply_push E u its d = (d', x)" and "v \<noteq> u"
  shows "owned v (look e i d') = owned v (look e i d) \<and> live_view v d' = live_view v d \<and>
    changes_after v c d' = changes_after v c d \<and> find_ledger v op d' = find_ledger v op d"
proof -
  note ok = reachable_history_ok [OF assms(1)]
  note ok' = history_ok_push [OF ok assms(2)]
  note ev = apply_push_evolves [OF assms(2)]
  obtain cs where cs: "change_log d' = change_log d @ cs" "\<forall>c\<in>set cs. ch_user c = u"
    and run: "\<And>e i. life_run u e i (look e i d) (about e i cs) (look e i d')"
    using evolves_row [OF ev history_okD(1) [OF ok]] by metis
  have same: "look e i d' = look e i d \<or> (\<exists>r j. look e i d' = Some (r, j) \<and> ruser r = u) \<and>
      owned v (look e i d) = None" for e i
  proof (cases "about e i cs = []")
    case True
    with run [of e i] show ?thesis by simp
  next
    case False
    note last = life_run_last [OF run [of e i] this]
    show ?thesis
    proof (cases "look e i d")
      case None
      with last show ?thesis by (auto simp: owned_def)
    next
      case (Some p)
      then obtain q k where q: "look e i d = Some (q, k)" by (cases p) auto
      then have "ruser q = u"
        using life_run_foreign [OF run [of e i]] False by (metis (no_types, lifting))
      with q last assms(3) show ?thesis by (auto simp: owned_def)
    qed
  qed
  have own: "owned v (look e i d') = owned v (look e i d)"
    using same [of e i] assms(3) by (auto simp: owned_def)
  have "live_view v d' = live_view v d"
  proof (intro ext)
    fix e i
    from same [of e i] show "live_view v d' e i = live_view v d e i"
    proof (elim disjE conjE exE)
      fix r j assume "look e i d' = Some (r, j)" "ruser r = u" "owned v (look e i d) = None"
      with assms(3) show ?thesis by (cases "look e i d") (auto simp: live_view_def owned_def)
    qed (simp add: live_view_def)
  qed
  moreover obtain ns where ns: "db_changes d' = db_changes d @ ns"
    using ev by (auto simp: evolves_def grows_def)
  with cs have "cs = map snd ns" by (simp add: change_log_def)
  with cs(2) assms(3) have "filter (\<lambda>y. ch_user (snd y) = v \<and> c < fst y) ns = []"
    by (auto simp: filter_empty_conv)
  then have "changes_after v c d' = changes_after v c d"
    by (simp add: changes_after_def ns)
  moreover obtain ls where "db_ledger d' = db_ledger d @ ls" "\<forall>l\<in>set ls. lg_user l = u"
    using apply_push_ledger [OF assms(2)] by blast
  then have "find_ledger v op d' = find_ledger v op d"
    using assms(3) find_None [of "\<lambda>l. lg_user l = v \<and> lg_op_id l = op" ls]
    by (auto simp: find_ledger_def find_append split: option.split)
  ultimately show ?thesis using own by simp
qed

lemma push_isolates_users_witness:
  "look ECourse 7 db1 \<noteq> None \<and>
   owned 1 (look ECourse 7 (fst (apply_push env0 2 [course_delete_item] db1))) =
     owned 1 (look ECourse 7 db1)"
  using push_isolates_users [OF reachable_db1 prod.collapse [symmetric],
      where v = 1 and u = 2 and its = "[course_delete_item]" and E = env0 and e = ECourse and i = 7]
  by (simp add: look_db1)

section \<open>The change log\<close>

lemma only_last_deletes:
  assumes "told_history d"
  shows "Delete \<notin> ch_op ` set (butlast (about e i (change_log d)))"
proof
  let ?l = "about e i (change_log d)"
  assume "Delete \<in> ch_op ` set (butlast ?l)"
  then obtain c as bs where c: "butlast ?l = as @ c # bs" "ch_op c = Delete"
    by (metis image_iff split_list)
  then have "?l \<noteq> []" by auto
  then have "?l = as @ c # (bs @ [last ?l])"
    using c(1) append_butlast_last_id [of ?l] by simp
  from history_delete_last [OF assms this c(2)] show False by simp
qed

text \<open>
  C8: The change log tells the whole truth about a row: its version is the number of its changes,
  they are all its owner's and numbered 1, 2, 3 and so on, and the last one gives the row's
  version and says whether it is deleted; only the last one can be its delete. A row that no change is
  about does not exist.
\<close>

theorem log_describes_rows:
  assumes "reachable d"
  shows "case look e i d of
      None \<Rightarrow> about e i (change_log d) = []
    | Some (r, j) \<Rightarrow>
        map ch_version (about e i (change_log d)) = map (\<lambda>k. 1 + int k) [0..<nat (rver r)] \<and>
        (\<forall>c\<in>set (about e i (change_log d)). ch_user c = ruser r) \<and>
        last (about e i (change_log d)) = change_for e r \<and> 1 \<le> rver r \<and>
        Delete \<notin> ch_op ` set (butlast (about e i (change_log d)))"
proof -
  note hist = history_okD(3) [OF reachable_history_ok [OF assms]]
  obtain u where run: "life_run u e i None (about e i (change_log d)) (look e i d)"
    using look_history [OF hist] .
  show ?thesis
  proof (cases "about e i (change_log d) = []")
    case True
    with run show ?thesis by simp
  next
    case False
    from life_run_last [OF run False] obtain r j where
      r: "look e i d = Some (r, j)" "last (about e i (change_log d)) = change_for e r" by auto
    have "0 < length (about e i (change_log d))" using False by simp
    then have "0 < int (length (about e i (change_log d)))" by linarith
    then have "1 \<le> rver r" using life_run_version [OF run] r(1) by (simp del: of_nat_0_less_iff)
    with life_run_version [OF run] about_owner [OF hist r(1)] r only_last_deletes [OF hist]
    show ?thesis by simp
  qed
qed

lemma log_describes_rows_witness: "map ch_version (about ECourse 7 (change_log db1)) = [1]"
  using log_describes_rows [OF reachable_db1, of ECourse 7] by (simp add: look_db1)

end
