(* ===== verification/Delivery.thy ===== *)
theory Delivery
  imports Protocol
begin

text \<open>
  Properties of the read side: which pulls succeed, that the pages of a log neither skip nor
  repeat a change, that a device that follows them ends with the live records of its user, and
  that the status counts are the sizes of that replica.
\<close>

section \<open>Which pulls fail\<close>

definition material_upsert :: "int \<times> change \<Rightarrow> bool" where
  "material_upsert sc \<longleftrightarrow> ch_op (snd sc) = Upsert \<and> ch_etype (snd sc) = EMaterial"

lemma changes_after_set:
  "x \<in> set (changes_after u c d) \<longleftrightarrow> x \<in> set (db_changes d) \<and> ch_user (snd x) = u \<and> c < fst x"
  by (auto simp: changes_after_def)

lemma changed_material_fetched:
  assumes "history_ok d" and "x \<in> set (db_changes d)" and "ch_etype (snd x) = EMaterial"
  shows "fetch materials_tab (ch_user (snd x)) (ch_eid (snd x)) d \<noteq> None"
proof -
  note hist = history_okD(3) [OF assms(1)]
  have "snd x \<in> set (change_log d)" using assms(2) by (simp add: change_log_def)
  then have log: "snd x \<in> set (about EMaterial (ch_eid (snd x)) (change_log d))"
    by (simp add: about_set assms(3))
  then have "about EMaterial (ch_eid (snd x)) (change_log d) \<noteq> []" by auto
  from history_last [OF hist this] obtain r j where
    "look EMaterial (ch_eid (snd x)) d = Some (r, j)" by auto
  with about_owner [OF hist this log]
  have "owned (ch_user (snd x)) (look EMaterial (ch_eid (snd x)) d) \<noteq> None"
    by (simp add: owned_def)
  moreover have "load materials_tab v i d = Inr (owned v (look EMaterial i d))" for v i
    using materials.load_look [OF history_okD(1) [OF assms(1)]] by simp
  ultimately show ?thesis by (metis load_def option.simps(8) sum.inject(2))
qed

lemma load_change_fails_iff:
  assumes "history_ok d" and "x \<in> set (changes_after u c d)"
  shows "(\<exists>e. load_change u d x = Inl e) \<longleftrightarrow> material_upsert x"
proof (cases "ch_etype (snd x) = EMaterial")
  case True
  with assms changed_material_fetched [of d x]
  have "fetch materials_tab u (ch_eid (snd x)) d \<noteq> None"
    by (simp add: changes_after_set)
  with True show ?thesis
    by (auto simp: load_change_def material_upsert_def Let_def fetch_material_def)
next
  case False
  then show ?thesis
    by (cases "ch_etype (snd x)") (simp_all add: load_change_def material_upsert_def Let_def load_def)
qed

lemma load_changes_fails_iff:
  "(\<exists>e. load_changes u d cs = Inl e) \<longleftrightarrow> (\<exists>x\<in>set cs. \<exists>e. load_change u d x = Inl e)"
proof (induction cs)
  case (Cons c cs)
  then show ?case
    by (cases "load_change u d c"; cases "load_changes u d cs") auto
qed simp

lemma pull_Inl_iff:
  "(\<exists>e. pull u c maxn d = Inl e) \<longleftrightarrow>
     (\<exists>e. load_changes u d (page maxn (changes_after u c d)) = Inl e)"
proof -
  let ?cs = "changes_after u c d" and ?n = "clamp_limit maxn"
  have rows: "(if ?n < length (take (?n + 1) ?cs) then take ?n (take (?n + 1) ?cs)
      else take (?n + 1) ?cs) = page maxn ?cs"
    by (auto simp: page_def min_def)
  show ?thesis
    unfolding pull_def Let_def rows by (cases "load_changes u d (page maxn ?cs)") simp_all
qed

text \<open>
  C9: Pull serves every page, and for every entity type but one: it fails exactly on the pages
  that hold an upsert of a course material, whose SELECT lists more columns than its Scan.
\<close>

theorem pull_fails_iff:
  assumes "reachable d"
  shows "(\<exists>e. pull u c maxn d = Inl e) \<longleftrightarrow>
    (\<exists>x\<in>set (page maxn (changes_after u c d)). material_upsert x)"
proof -
  have "set (page maxn (changes_after u c d)) \<subseteq> set (changes_after u c d)"
    by (simp add: page_def set_take_subset)
  with load_change_fails_iff [OF reachable_history_ok [OF assms]]
  have "(\<exists>e. load_change u d x = Inl e) \<longleftrightarrow> material_upsert x"
    if "x \<in> set (page maxn (changes_after u c d))" for x
    using that by blast
  then show ?thesis by (simp add: pull_Inl_iff load_changes_fails_iff)
qed

lemma pull_fails_iff_witness: "\<nexists>e. pull 1 0 10 db1 = Inl e"
proof -
  have "changes_after 1 0 db1 = db_changes db1"
    by (simp add: changes_after_def db1_def)
  then show ?thesis
    by (simp add: pull_fails_iff [OF reachable_db1] material_upsert_def page_def clamp_limit_def)
      (simp add: db1_def)
qed

section \<open>Pages\<close>

lemma load_changes_seqs:
  "load_changes u d cs = Inr xs \<Longrightarrow> map pc_seq xs = map fst cs"
  by (induction cs arbitrary: xs)
    (auto simp: bindE_eq_Inr load_change_def Let_def split: if_splits)

text \<open>
  C11: Paging terminates and is complete. A device that asks for the next page until there is no
  more, at any page size, gets an answer within one request more than there are changes; if no
  page fails, it has then received each of its changes after the cursor once, in order, and its
  cursor is past all of them.
\<close>

theorem paging_complete:
  assumes "reachable d" and "length (changes_after u c d) < n"
  shows "case follow n u maxn c d of
      None \<Rightarrow> False
    | Some (Inl e) \<Rightarrow> \<exists>x\<in>set (changes_after u c d). material_upsert x
    | Some (Inr (xs, c')) \<Rightarrow>
        map pc_seq xs = map fst (changes_after u c d) \<and> changes_after u c' d = [] \<and> c \<le> c'"
proof -
  note ok = reachable_history_ok [OF assms(1)]
  note s = wfD(2) [OF history_okD(1) [OF ok]]
  from follow_terminates [OF s assms(2)] obtain x where x: "follow n u maxn c d = Some x" by blast
  show ?thesis
  proof (cases x)
    case (Inl e)
    with x follow_total [OF s assms(2), of maxn] have "\<exists>e'. load_changes u d (changes_after u c d) = Inl e'"
      by (auto simp: bindE_def split: sum.splits)
    with load_changes_fails_iff load_change_fails_iff [OF ok] show ?thesis
      unfolding x Inl by auto
  next
    case (Inr y)
    obtain xs c' where y: "y = (xs, c')" by (cases y)
    from follow_Inr [OF s x [unfolded Inr y]] have load: "load_changes u d (changes_after u c d) = Inr xs"
      and c': "c' = (if changes_after u c d = [] then c else fst (last (changes_after u c d)))" by auto
    have "changes_after u c' d = []"
      using changes_after_rest [OF s, of u c "changes_after u c d" "[]"] c' by auto
    moreover have "c \<le> c'"
      using c' last_in_set [of "changes_after u c d"] by (auto simp: changes_after_set)
    ultimately show ?thesis using x Inr y load_changes_seqs [OF load] by simp
  qed
qed

lemma paging_complete_witness: "follow 2 1 500 0 db1 \<noteq> None"
proof -
  have "length (changes_after 1 0 db1) < 2" by (simp add: changes_after_def db1_def)
  from paging_complete [OF reachable_db1 this, of 500] show ?thesis by (auto split: option.splits)
qed

section \<open>Convergence\<close>

text \<open>
  C12: Convergence. A device that was up to date at some state, and visits again after any pushes
  by any users and devices, has exactly the live records of its user when its pages are read, and
  is up to date again; so is a new device, which starts with nothing at cursor 0.
\<close>

theorem replica_converges:
  assumes "reachable d" and "served d d'" and "follow n u maxn c d' = Some (Inr (xs, c'))"
    and "caught_up u R c d \<or> d = empty_db \<and> c = 0 \<and> R = (\<lambda>e i. None)"
  shows "foldl absorb R xs = live_view u d' \<and> caught_up u (foldl absorb R xs) c' d'"
proof -
  have "caught_up u R c d" using assms(4) caught_up_start by auto
  from caught_up_follow [OF reachable_history_ok [OF assms(1)] assms(2) this assms(3)]
  show ?thesis by (simp add: caught_up_def)
qed

definition first_sync :: "pull_change list" where
  "first_sync = [\<lparr>pc_seq = 1, pc_etype = ECourse, pc_eid = 7, pc_op = Upsert, pc_version = 1,
     pc_record = Some (course_record_json course_row0)\<rparr>]"

lemma follow_db1: "follow 2 1 500 0 db1 = Some (Inr (first_sync, 1))"
  by code_simp

lemma replica_converges_witness:
  "foldl absorb (\<lambda>e i. None) first_sync = live_view 1 db1"
  using replica_converges [OF reachable.start served_db1 follow_db1, of "\<lambda>e i. None"] by simp

section \<open>Status\<close>

lemma foldl_max: "foldl max a xs = Max (set (a # xs))" for a :: int
proof -
  have "foldl max a xs = fold max xs a"
    by (simp add: foldl_conv_fold max.commute)
  then show ?thesis by (simp only: Max.set_eq_fold)
qed

lemma change_log_tail_Max:
  "change_log_tail u d =
     (if \<forall>x\<in>set (db_changes d). ch_user (snd x) \<noteq> u then 0
      else Max (fst ` {x \<in> set (db_changes d). ch_user (snd x) = u}))"
proof (cases "filter (\<lambda>c. ch_user (snd c) = u) (db_changes d)")
  case Nil
  then show ?thesis by (simp add: change_log_tail_def filter_empty_conv)
next
  case (Cons c cs)
  then have "set (c # cs) = {x \<in> set (db_changes d). ch_user (snd x) = u}" by (metis set_filter)
  moreover from this have "\<not> (\<forall>x\<in>set (db_changes d). ch_user (snd x) \<noteq> u)" by auto
  ultimately show ?thesis
    by (simp only: change_log_tail_def Cons list.case foldl_max if_False)
      (metis (no_types, lifting) list.set_map list.simps(9))
qed

context synced_table
begin

lemma live_count_card:
  assumes "wf d"
  shows "live_count T u d = card {i. live_view u d (tb_etype T) i \<noteq> None}"
proof -
  let ?P = "\<lambda>r. ruser r = u \<and> \<not> is_deleted r"
  let ?rs = "filter ?P (tb_get T d)"
  note ids = keys_get [OF wfD(1) [OF assms]]
  have "live_view u d (tb_etype T) i \<noteq> None \<longleftrightarrow> i \<in> rid ` set ?rs" for i
  proof (cases "find (\<lambda>r. rid r = i) (tb_get T d)")
    case None
    then have "\<forall>r\<in>set (tb_get T d). rid r \<noteq> i" by (simp add: find_None)
    then have "i \<notin> rid ` set ?rs" by auto
    with None show ?thesis by (simp add: live_view_def look_own)
  next
    case (Some q)
    then have q: "q \<in> set (tb_get T d)" "rid q = i" by (auto dest: find_in_set)
    have "r = q" if "r \<in> set (tb_get T d)" "rid r = i" for r
      using ids q that by (auto simp: distinct_map inj_on_def)
    with q have "i \<in> rid ` set ?rs \<longleftrightarrow> ?P q"
      unfolding set_filter by blast
    with Some show ?thesis by (simp add: live_view_def look_own abs_row_def)
  qed
  then have "{i. live_view u d (tb_etype T) i \<noteq> None} = rid ` set ?rs" by blast
  moreover have "distinct (map rid ?rs)" using ids by (simp add: distinct_map_filter)
  then have "card (rid ` set ?rs) = length ?rs"
    using distinct_card by fastforce
  ultimately show ?thesis by (simp only: live_count_def)
qed

end

lemmas live_count_cards =
  sessions.live_count_card entries.live_count_card courses.live_count_card
  session_notes.live_count_card reviews.live_count_card attachments.live_count_card
  terms.live_count_card cards.live_count_card tasks.live_count_card corrections.live_count_card
  schedules.live_count_card exceptions.live_count_card materials.live_count_card
  pages.live_count_card annotations.live_count_card threads.live_count_card
  messages.live_count_card exams.live_count_card topics.live_count_card plans.live_count_card
  plan_items.live_count_card activities.live_count_card conversations.live_count_card
  turns.live_count_card errand_cases.live_count_card case_items.live_count_card

text \<open>The order of the counts in the status response.\<close>

definition status_types :: "etype list" where
  "status_types =
     [ESession, EEntry, ECourse, ENote, EStudyReview, EAttachment, ETerm, EStudyCard, EStudyTask,
      ETranscriptCorrection, ECourseSchedule, EScheduleException, EMaterial, EMaterialPage,
      EMaterialAnnotation, EAssistantThread, EAssistantMessage, EExam, EExamTopic, EStudyPlan,
      EStudyPlanItem, EStudyActivity, EInterpreterConversation, EInterpreterTurn, EErrandCase,
      EErrandCaseItem]"

text \<open>
  C13: The status tells a device whether it is up to date: its cursor is past the device's exactly
  when there is a change to pull, and its counts are the numbers of live records, per entity type,
  that a device that has pulled everything holds.
\<close>

theorem status_is_replica_size:
  assumes "reachable d"
  shows "(c < fst (sync_status u d) \<and> 0 \<le> c \<longrightarrow> changes_after u c d \<noteq> []) \<and>
    (fst (sync_status u d) \<le> c \<longrightarrow> changes_after u c d = []) \<and>
    snd (sync_status u d) = map (\<lambda>e. card {i. live_view u d e i \<noteq> None}) status_types"
proof -
  have w: "wf d" by (rule history_okD(1) [OF reachable_history_ok [OF assms]])
  have fin: "finite (fst ` {x \<in> set (db_changes d). ch_user (snd x) = u})" by simp
  have "c < change_log_tail u d \<and> 0 \<le> c \<longrightarrow> changes_after u c d \<noteq> []"
    using changes_after_set [of _ u c d] Max_gr_iff [OF fin, of c]
    by (auto simp: change_log_tail_Max split: if_splits) (metis empty_iff empty_set)
  moreover have "changes_after u c d = []" if "change_log_tail u d \<le> c"
  proof -
    have "fst x \<le> c" if "x \<in> set (db_changes d)" "ch_user (snd x) = u" for x
    proof -
      have "fst x \<in> fst ` {x \<in> set (db_changes d). ch_user (snd x) = u}" using that by auto
      from Max_ge [OF fin this] have "fst x \<le> change_log_tail u d"
        using that by (subst change_log_tail_Max) (simp, blast)
      with \<open>change_log_tail u d \<le> c\<close> show ?thesis by simp
    qed
    then have "x \<notin> set (changes_after u c d)" for x by (auto simp: changes_after_set not_less)
    then show ?thesis by (cases "changes_after u c d") auto
  qed
  ultimately show ?thesis
    using live_count_cards [OF w]
    by (simp add: sync_status_def status_types_def)
qed

lemma status_is_replica_size_witness: "changes_after 1 (fst (sync_status 1 db1)) db1 = []"
  using status_is_replica_size [OF reachable_db1] by blast

end
