(* ===== verification/Promises.thy ===== *)
theory Promises
  imports Delivery
begin

text \<open>
  What the merges promise over time, whatever else happens: which fields of a row never change,
  which only grow, and which values a stored row can have at all. For each table, an invariant of
  its rows and a relation between a row and its later states; every statement of every handler
  keeps both, so they hold along any sequence of pushes.
\<close>

section \<open>The promise of a table\<close>

definition row_step ::
  "('a row_scheme \<Rightarrow> bool) \<Rightarrow> ('a row_scheme \<Rightarrow> 'a row_scheme \<Rightarrow> bool) \<Rightarrow> 'a row_scheme list
     \<Rightarrow> 'a row_scheme list \<Rightarrow> bool" where
  "row_step I R rs rs' \<longleftrightarrow>
     (\<forall>r\<in>set rs. \<exists>r'\<in>set rs'. rid r' = rid r \<and> ruser r' = ruser r \<and> R r r') \<and>
     ((\<forall>r\<in>set rs. I r) \<longrightarrow> (\<forall>r\<in>set rs'. I r))"

lemma row_step_same: "(\<And>r. R r r) \<Longrightarrow> row_step I R rs rs"
  by (auto simp: row_step_def)

lemma row_step_trans:
  assumes "\<And>a b c. R a b \<Longrightarrow> R b c \<Longrightarrow> R a c" and "row_step I R x y" and "row_step I R y z"
  shows "row_step I R x z"
proof -
  have "\<exists>r'\<in>set z. rid r' = rid r \<and> ruser r' = ruser r \<and> R r r'" if "r \<in> set x" for r
  proof -
    from that assms(2) obtain q where
      q: "q \<in> set y" "rid q = rid r" "ruser q = ruser r" "R r q" by (auto simp: row_step_def)
    with assms(3) obtain s where "s \<in> set z" "rid s = rid q" "ruser s = ruser q" "R q s"
      unfolding row_step_def by blast
    with q assms(1) show ?thesis by metis
  qed
  with assms(2,3) show ?thesis by (simp add: row_step_def)
qed

lemma row_step_append:
  "(\<And>r. R r r) \<Longrightarrow> \<forall>r\<in>set xs. I r \<Longrightarrow> row_step I R rs (rs @ xs)"
  by (auto simp: row_step_def)

lemma row_step_map:
  assumes "\<And>r. r \<in> set rs \<Longrightarrow> rid (f r) = rid r \<and> ruser (f r) = ruser r \<and> R r (f r)"
    and "\<And>r. r \<in> set rs \<Longrightarrow> I r \<Longrightarrow> I (f r)"
  shows "row_step I R rs (map f rs)"
  using assms by (auto simp: row_step_def)

section \<open>The promises\<close>

definition session_kept :: "session_row \<Rightarrow> session_row \<Rightarrow> bool" where
  "session_kept r r' \<longleftrightarrow>
     s_started_at r' = s_started_at r \<and> s_src_lang r' = s_src_lang r \<and>
     s_tgt_lang r' = s_tgt_lang r \<and> (s_abnormal r \<longrightarrow> s_abnormal r')"

definition entry_kept :: "entry_row \<Rightarrow> entry_row \<Rightarrow> bool" where
  "entry_kept r r' \<longleftrightarrow>
     e_russian r' = e_russian r \<and> e_session_id r' = e_session_id r \<and>
     e_sequence_id r' = e_sequence_id r \<and>
     (e_start_offset r \<noteq> 0 \<longrightarrow> e_start_offset r' = e_start_offset r) \<and>
     (e_end_offset r \<noteq> 0 \<longrightarrow> e_end_offset r' = e_end_offset r) \<and>
     (e_time_source r = ''audio'' \<longrightarrow> e_time_source r' = ''audio'')"

definition correction_kept :: "correction_row \<Rightarrow> correction_row \<Rightarrow> bool" where
  "correction_kept r r' \<longleftrightarrow>
     c_session_id r' = c_session_id r \<and> c_modified_at r \<le> c_modified_at r'"

definition bookmark_kept :: "bookmark_row \<Rightarrow> bookmark_row \<Rightarrow> bool" where
  "bookmark_kept r r' \<longleftrightarrow> b_session_id r' = b_session_id r \<and> b_entry_id r' = b_entry_id r"

definition favorite_kept :: "favorite_row \<Rightarrow> favorite_row \<Rightarrow> bool" where
  "favorite_kept r r' \<longleftrightarrow> f_session_id r' = f_session_id r"

definition note_kept :: "note_row \<Rightarrow> note_row \<Rightarrow> bool" where
  "note_kept r r' \<longleftrightarrow> n_session_id r' = n_session_id r"

definition review_kept :: "review_row \<Rightarrow> review_row \<Rightarrow> bool" where
  "review_kept r r' \<longleftrightarrow> rv_session_id r' = rv_session_id r"

definition attachment_kept :: "attachment_row \<Rightarrow> attachment_row \<Rightarrow> bool" where
  "attachment_kept r r' \<longleftrightarrow>
     a_session_id r' = a_session_id r \<and> a_hash r' = a_hash r \<and> a_file_size r' = a_file_size r \<and>
     a_width r' = a_width r \<and> a_height r' = a_height r"

text \<open>Everything but the two links a cascade may clear.\<close>

definition material_core :: "material_row \<Rightarrow> material_row" where
  "material_core r = r\<lparr>rver := 0, rupdated := 0, m_course_id := None, m_session_id := None\<rparr>"

definition material_kept :: "material_row \<Rightarrow> material_row \<Rightarrow> bool" where
  "material_kept r r' \<longleftrightarrow>
     material_core r' = material_core r \<and>
     (m_course_id r' = m_course_id r \<or> m_course_id r' = None) \<and>
     (m_session_id r' = m_session_id r \<or> m_session_id r' = None)"

definition plan_item_kept :: "plan_item_row \<Rightarrow> plan_item_row \<Rightarrow> bool" where
  "plan_item_kept r r' \<longleftrightarrow> pi_actual_minutes r \<le> pi_actual_minutes r'"

definition ended_le :: "time option \<Rightarrow> time option \<Rightarrow> bool" where
  "ended_le a b \<longleftrightarrow> (case a of None \<Rightarrow> True | Some s \<Rightarrow> (case b of None \<Rightarrow> False | Some t \<Rightarrow> s \<le> t))"

definition activity_kept :: "activity_row \<Rightarrow> activity_row \<Rightarrow> bool" where
  "activity_kept r r' \<longleftrightarrow>
     ac_duration r \<le> ac_duration r' \<and> ended_le (ac_ended_at r) (ac_ended_at r') \<and>
     (ac_status r \<in> {''completed'', ''abandoned''} \<longrightarrow> ac_status r' \<in> {''completed'', ''abandoned''})"

definition case_item_kept :: "case_item_row \<Rightarrow> case_item_row \<Rightarrow> bool" where
  "case_item_kept r r' \<longleftrightarrow>
     ei_title r' = ei_title r \<and> ei_case_id r' = ei_case_id r \<and> (ei_confirmed r \<longrightarrow> ei_confirmed r')"

definition turn_kept :: "turn_row \<Rightarrow> turn_row \<Rightarrow> bool" where
  "turn_kept r r' \<longleftrightarrow> tu_conversation_id r' = tu_conversation_id r"

definition any_step :: "'a \<Rightarrow> 'a \<Rightarrow> bool" where
  "any_step r r' \<longleftrightarrow> True"

definition any_row :: "'a \<Rightarrow> bool" where
  "any_row r \<longleftrightarrow> True"

lemmas kept_defs =
  session_kept_def entry_kept_def correction_kept_def bookmark_kept_def favorite_kept_def
  note_kept_def review_kept_def attachment_kept_def material_kept_def plan_item_kept_def
  activity_kept_def case_item_kept_def turn_kept_def any_step_def

section \<open>The values of a stored row\<close>

definition buried_row :: "'a row_scheme \<Rightarrow> bool" where
  "buried_row r \<longleftrightarrow> is_deleted r"

definition material_values :: "material_row \<Rightarrow> bool" where
  "material_values r \<longleftrightarrow>
     valid_material_kind (m_kind r) \<and> valid_material_format (m_format r) \<and>
     valid_material_extraction (m_extraction r) \<and> valid_material_digest (m_digest_status r)"

definition page_values :: "page_row \<Rightarrow> bool" where
  "page_values r \<longleftrightarrow> 1 \<le> pg_number r \<and> valid_ocr_status (pg_ocr_status r)"

definition annotation_values :: "annotation_row \<Rightarrow> bool" where
  "annotation_values r \<longleftrightarrow> an_kind r = ''note'' \<or> an_kind r = ''bookmark''"

definition message_values :: "message_row \<Rightarrow> bool" where
  "message_values r \<longleftrightarrow>
     (ms_role r = ''user'' \<or> ms_role r = ''assistant'') \<and> (ms_mode r = ''text'' \<or> ms_mode r = ''visual'')"

definition exam_values :: "exam_row \<Rightarrow> bool" where
  "exam_values r \<longleftrightarrow>
     ex_title r \<noteq> [] \<and> valid_exam_kind (ex_kind r) \<and> valid_exam_status (ex_status r) \<and>
     valid_exam_origin (ex_origin r)"

definition topic_values :: "topic_row \<Rightarrow> bool" where
  "topic_values r \<longleftrightarrow>
     tp_title r \<noteq> [] \<and> valid_topic_importance (tp_importance r) \<and>
     valid_topic_rating (tp_self_rating r) \<and> valid_topic_status (tp_status r)"

definition plan_values :: "plan_row \<Rightarrow> bool" where
  "plan_values r \<longleftrightarrow> pl_title r \<noteq> [] \<and> valid_plan_status (pl_status r)"

definition plan_item_values :: "plan_item_row \<Rightarrow> bool" where
  "plan_item_values r \<longleftrightarrow>
     pi_title r \<noteq> [] \<and> valid_plan_item_kind (pi_kind r) \<and> valid_plan_item_status (pi_status r)"

definition activity_values :: "activity_row \<Rightarrow> bool" where
  "activity_values r \<longleftrightarrow> valid_activity_status (ac_status r)"

definition schedule_values :: "schedule_row \<Rightarrow> bool" where
  "schedule_values r \<longleftrightarrow> valid_recurrence (sc_recurrence r)"

definition exception_values :: "exception_row \<Rightarrow> bool" where
  "exception_values r \<longleftrightarrow> valid_exception_kind (x_kind r) \<and> x_schedule_id r \<noteq> uuid_nil"

definition conversation_values :: "conversation_row \<Rightarrow> bool" where
  "conversation_values r \<longleftrightarrow> valid_scene (cv_scene r) \<and> valid_conversation_status (cv_status r)"

definition turn_values :: "turn_row \<Rightarrow> bool" where
  "turn_values r \<longleftrightarrow>
     valid_speaker (tu_speaker r) \<and> valid_direction (tu_direction r) \<and>
     valid_input_method (tu_input_method r)"

definition case_values :: "case_row \<Rightarrow> bool" where
  "case_values r \<longleftrightarrow> valid_scene (ec_scene r) \<and> valid_case_status (ec_status r)"

definition case_item_values :: "case_item_row \<Rightarrow> bool" where
  "case_item_values r \<longleftrightarrow>
     valid_item_kind (ei_kind r) \<and> valid_item_status (ei_status r) \<and>
     valid_item_origin (ei_origin r) \<and> 0 \<le> ei_sequence r \<and> length (ei_fee_currency r) \<le> 8"

lemmas values_defs =
  buried_row_def any_row_def material_values_def page_values_def annotation_values_def
  message_values_def exam_values_def topic_values_def plan_values_def plan_item_values_def
  activity_values_def schedule_values_def exception_values_def conversation_values_def
  turn_values_def case_values_def case_item_values_def

section \<open>All tables together\<close>

definition class_step :: "db \<Rightarrow> db \<Rightarrow> bool" where
  "class_step d d' \<longleftrightarrow>
     row_step any_row session_kept (sessions d) (sessions d') \<and>
     row_step any_row entry_kept (entries d) (entries d') \<and>
     row_step any_row correction_kept (corrections d) (corrections d') \<and>
     row_step any_row bookmark_kept (bookmarks d) (bookmarks d') \<and>
     row_step any_row favorite_kept (favorites d) (favorites d') \<and>
     row_step any_row note_kept (session_notes d) (session_notes d') \<and>
     row_step any_row review_kept (reviews d) (reviews d') \<and>
     row_step any_row attachment_kept (attachments d) (attachments d')"

definition study_step :: "db \<Rightarrow> db \<Rightarrow> bool" where
  "study_step d d' \<longleftrightarrow>
     row_step any_row any_step (courses d) (courses d') \<and>
     row_step any_row any_step (threads d) (threads d') \<and>
     row_step buried_row any_step (terms d) (terms d') \<and>
     row_step buried_row any_step (cards d) (cards d') \<and>
     row_step buried_row any_step (tasks d) (tasks d') \<and>
     row_step schedule_values any_step (schedules d) (schedules d') \<and>
     row_step exception_values any_step (exceptions d) (exceptions d') \<and>
     row_step material_values material_kept (materials d) (materials d') \<and>
     row_step page_values any_step (pages d) (pages d') \<and>
     row_step annotation_values any_step (annotations d) (annotations d') \<and>
     row_step message_values any_step (messages d) (messages d')"

definition exam_step :: "db \<Rightarrow> db \<Rightarrow> bool" where
  "exam_step d d' \<longleftrightarrow>
     row_step exam_values any_step (exams d) (exams d') \<and>
     row_step topic_values any_step (topics d) (topics d') \<and>
     row_step plan_values any_step (plans d) (plans d') \<and>
     row_step plan_item_values plan_item_kept (plan_items d) (plan_items d') \<and>
     row_step activity_values activity_kept (activities d) (activities d') \<and>
     row_step conversation_values any_step (conversations d) (conversations d') \<and>
     row_step turn_values turn_kept (turns d) (turns d') \<and>
     row_step case_values any_step (errand_cases d) (errand_cases d') \<and>
     row_step case_item_values case_item_kept (case_items d) (case_items d')"

definition promised :: "db \<Rightarrow> db \<Rightarrow> bool" where
  "promised d d' \<longleftrightarrow> class_step d d' \<and> study_step d d' \<and> exam_step d d'"

lemma kept_refl [simp]:
  "session_kept r1 r1" "entry_kept r2 r2" "correction_kept r3 r3" "bookmark_kept r4 r4"
  "favorite_kept r5 r5" "note_kept r6 r6" "review_kept r7 r7" "attachment_kept r8 r8"
  "material_kept r9 r9" "plan_item_kept r10 r10" "activity_kept r11 r11" "case_item_kept r12 r12"
  "turn_kept r13 r13" "any_step r14 r14"
  by (auto simp: kept_defs ended_le_def split: option.split)

lemma ended_le_trans: "ended_le a b \<Longrightarrow> ended_le b c \<Longrightarrow> ended_le a c"
  by (auto simp: ended_le_def split: option.splits)

lemma kept_trans:
  "session_kept a1 b1 \<Longrightarrow> session_kept b1 c1 \<Longrightarrow> session_kept a1 c1"
  "entry_kept a2 b2 \<Longrightarrow> entry_kept b2 c2 \<Longrightarrow> entry_kept a2 c2"
  "correction_kept a3 b3 \<Longrightarrow> correction_kept b3 c3 \<Longrightarrow> correction_kept a3 c3"
  "bookmark_kept a4 b4 \<Longrightarrow> bookmark_kept b4 c4 \<Longrightarrow> bookmark_kept a4 c4"
  "favorite_kept a5 b5 \<Longrightarrow> favorite_kept b5 c5 \<Longrightarrow> favorite_kept a5 c5"
  "note_kept a6 b6 \<Longrightarrow> note_kept b6 c6 \<Longrightarrow> note_kept a6 c6"
  "review_kept a7 b7 \<Longrightarrow> review_kept b7 c7 \<Longrightarrow> review_kept a7 c7"
  "attachment_kept a8 b8 \<Longrightarrow> attachment_kept b8 c8 \<Longrightarrow> attachment_kept a8 c8"
  "material_kept a9 b9 \<Longrightarrow> material_kept b9 c9 \<Longrightarrow> material_kept a9 c9"
  "plan_item_kept a10 b10 \<Longrightarrow> plan_item_kept b10 c10 \<Longrightarrow> plan_item_kept a10 c10"
  "activity_kept a11 b11 \<Longrightarrow> activity_kept b11 c11 \<Longrightarrow> activity_kept a11 c11"
  "case_item_kept a12 b12 \<Longrightarrow> case_item_kept b12 c12 \<Longrightarrow> case_item_kept a12 c12"
  "turn_kept a13 b13 \<Longrightarrow> turn_kept b13 c13 \<Longrightarrow> turn_kept a13 c13"
  "any_step a14 b14 \<Longrightarrow> any_step b14 c14 \<Longrightarrow> any_step a14 c14"
  by (auto simp: kept_defs elim: ended_le_trans)

lemma promised_same: "promised d d"
  by (simp add: promised_def class_step_def study_step_def exam_step_def row_step_same)

lemma class_step_trans: "class_step d d' \<Longrightarrow> class_step d' d'' \<Longrightarrow> class_step d d''"
  unfolding class_step_def by (blast intro: row_step_trans kept_trans)

lemma study_step_trans: "study_step d d' \<Longrightarrow> study_step d' d'' \<Longrightarrow> study_step d d''"
  unfolding study_step_def by (blast intro: row_step_trans kept_trans)

lemma exam_step_trans: "exam_step d d' \<Longrightarrow> exam_step d' d'' \<Longrightarrow> exam_step d d''"
  unfolding exam_step_def by (blast intro: row_step_trans kept_trans)

lemma promised_trans: "promised d d' \<Longrightarrow> promised d' d'' \<Longrightarrow> promised d d''"
  unfolding promised_def using class_step_trans study_step_trans exam_step_trans by blast

lemma step_frame:
  "promised d (d'\<lparr>db_ledger := l\<rparr>) = promised d d'"
  "promised d (d'\<lparr>db_hooks := h\<rparr>) = promised d d'"
  "promised d (log_change u e i op v d') = promised d d'"
  by (simp_all add: promised_def class_step_def study_step_def exam_step_def log_change_def)

lemma step_hooks: "promised (d\<lparr>db_hooks := h\<rparr>) d' = promised d d'"
  by (simp add: promised_def class_step_def study_step_def exam_step_def)

lemma step_log_all: "promised d (log_all u e op bs d') = promised d d'"
  by (induction bs arbitrary: d') (simp_all add: step_frame)

section \<open>Statements keep the promise of their table\<close>

definition keeping :: "db \<Rightarrow> db_error + db \<Rightarrow> bool" where
  "keeping d m \<longleftrightarrow> (\<forall>d'. m = Inr d' \<longrightarrow> promised d d')"

definition keeps :: "db \<Rightarrow> db_error + db \<times> 'b \<Rightarrow> bool" where
  "keeps d m \<longleftrightarrow> (\<forall>d' x. m = Inr (d', x) \<longrightarrow> promised d d')"

lemma keeps_Inl [simp, intro]: "keeps d (Inl e)" "keeping d (Inl e)"
  by (simp_all add: keeps_def keeping_def)

lemma keeping_same: "keeping d (Inr d)"
  by (simp add: keeping_def promised_same)

lemma keeping_bind:
  "keeping d m \<Longrightarrow> (\<And>d'. keeping d' (k d')) \<Longrightarrow> keeping d (bindE m k)"
  by (cases m) (auto simp: keeping_def intro: promised_trans)

lemma keeps_bind:
  "keeping d m \<Longrightarrow> (\<And>d'. m = Inr d' \<Longrightarrow> keeps d' (k d')) \<Longrightarrow> keeps d (bindE m k)"
  by (cases m) (auto simp: keeping_def keeps_def intro: promised_trans)

lemma keeps_bind_pair:
  "keeps d m \<Longrightarrow> (\<And>d' x. m = Inr (d', x) \<Longrightarrow> keeps d' (k (d', x))) \<Longrightarrow> keeps d (bindE m k)"
  by (cases m) (auto simp: keeps_def intro: promised_trans)

lemma keeps_bind_value:
  "(\<And>v. m = Inr v \<Longrightarrow> keeps d (k v)) \<Longrightarrow> keeps d (bindE m k)"
  by (cases m) auto

lemma keeps_settle [simp, intro]: "keeps d (settle u it res d)"
  by (auto simp: keeps_def step_frame promised_same dest!: settle_Inr)

lemma keeps_settle_hook: "keeps d (settle u it res (add_hook v i d))"
  by (auto simp: keeps_def step_frame promised_same add_hook_def dest!: settle_Inr)

lemma keeps_reject [simp, intro]: "keeps d (reject u it d)"
  by (simp add: reject_def)

lemma keeps_gate: "(\<not> is_deleted q \<Longrightarrow> keeps d m) \<Longrightarrow> keeps d (version_gate T u it q d m)"
  by (simp add: version_gate_def)

lemma keeps_cast_message:
  "(\<And>c v a. keeps d (k c v a)) \<Longrightarrow> keeps d (cast_message E cit ev ans k)"
  unfolding cast_message_def by (intro keeps_bind_value) simp

lemma keeps_cast_plan:
  "(\<And>a b c. keeps d (k a b c)) \<Longrightarrow> keeps d (cast_plan E p x y z k)"
  unfolding cast_plan_def by (intro keeps_bind_value) simp

text \<open>An update whose result is promised for every row it may hit.\<close>

definition fine ::
  "('a row_scheme \<Rightarrow> bool) \<Rightarrow> ('a row_scheme \<Rightarrow> 'a row_scheme \<Rightarrow> bool)
     \<Rightarrow> ('a row_scheme \<Rightarrow> 'a row_scheme) \<Rightarrow> bool" where
  "fine I R f \<longleftrightarrow>
     keeps_meta f \<and> (\<forall>r t. R r (bump t (f r))) \<and> (\<forall>r t. I r \<longrightarrow> I (bump t (f r)))"

locale promising = synced_table +
  fixes I :: "'a row_scheme \<Rightarrow> bool" and R :: "'a row_scheme \<Rightarrow> 'a row_scheme \<Rightarrow> bool"
  assumes R_refl: "R r r"
    and put_promised: "row_step I R (tb_get T d) t \<Longrightarrow> promised d (tb_put T t d)"
    and promised_rows: "promised d d' \<Longrightarrow> row_step I R (tb_get T d) (tb_get T d')"
begin

lemma keeps_insert: "I r \<Longrightarrow> keeping d (sql_insert T r d)"
  by (auto simp: keeping_def sql_insert_def R_refl intro!: put_promised row_step_append split: if_splits)

lemma keeps_commit_insert: "I r \<Longrightarrow> keeps d (commit_insert T u it op r d)"
  unfolding commit_insert_def
  by (rule keeps_bind [OF keeps_insert]) (auto simp: keeps_def step_frame promised_same dest!: settle_Inr)

lemma fine_step: "fine I R f \<Longrightarrow> row_step I R rs (map (\<lambda>x. if P x then bump t (f x) else x) rs)"
  by (rule row_step_map) (auto simp: fine_def keeps_meta_def R_refl)

lemma keeps_update: "fine I R f \<Longrightarrow> keeps d (update_logged T u i op f t d)"
  by (auto simp: keeps_def update_logged_def sql_update_def bindE_eq_Inr step_frame fine_step
      intro!: put_promised split: option.splits if_splits)

lemma keeps_commit_update: "fine I R f \<Longrightarrow> keeps d (commit_update T u it op f t d)"
  unfolding commit_update_def by (rule keeps_bind_pair [OF keeps_update]) simp_all

lemma keeping_sweep: "fine I R f \<Longrightarrow> keeping d (sweep_logged T u P f op t d)"
  by (auto simp: keeping_def sweep_logged_def sql_sweep_def Let_def bindE_eq_Inr step_log_all fine_step
      intro!: put_promised split: if_splits)

lemma keeps_sweep: "fine I R f \<Longrightarrow> keeps d (sql_sweep T P f t d)"
  by (auto simp: keeps_def sql_sweep_def Let_def fine_step intro!: put_promised split: if_splits)

lemma keeps_leaf_delete: "I r \<Longrightarrow> fine I R (tombstone (en_now E)) \<Longrightarrow> keeps d (leaf_delete E T r u it obj d)"
  unfolding leaf_delete_def by (auto intro!: keeps_commit_insert keeps_commit_update split: option.split)

lemma keeps_learning_delete:
  "(\<And>r. stub = Some r \<Longrightarrow> I r) \<Longrightarrow> fine I R (tombstone (en_now E)) \<Longrightarrow>
     keeps d (apply_learning_delete E T stub u it obj d)"
  unfolding apply_learning_delete_def
  by (auto intro!: keeps_commit_insert keeps_commit_update split: option.split)

lemma keeps_delete_with_children:
  "(\<And>r. stub = Some r \<Longrightarrow> I r) \<Longrightarrow> fine I R (tombstone (en_now E)) \<Longrightarrow> (\<And>d. keeping d (cascade d)) \<Longrightarrow>
     keeps d (delete_with_children E T stub u it obj cascade d)"
  unfolding delete_with_children_def
  by (rule keeps_bind) (auto simp: keeping_same intro!: keeps_learning_delete split: option.split)

end

end
