(* ===== verification/Kept.thy ===== *)
theory Kept
  imports Promises
begin

text \<open>
  Every table keeps its promise under its own statements (the interpretations of
  \<open>promising\<close>), every handler under all of its branches, and so does every push.
\<close>

section \<open>The tables\<close>

interpretation kept_sessions: promising sessions_tab any_row session_kept
  by unfold_locales
    (simp_all add: sessions_tab_def promised_def class_step_def study_step_def exam_step_def row_step_same)

interpretation kept_entries: promising entries_tab any_row entry_kept
  by unfold_locales
    (simp_all add: entries_tab_def promised_def class_step_def study_step_def exam_step_def row_step_same)

interpretation kept_corrections: promising corrections_tab any_row correction_kept
  by unfold_locales
    (simp_all add: corrections_tab_def promised_def class_step_def study_step_def exam_step_def row_step_same)

interpretation kept_bookmarks: promising bookmarks_tab any_row bookmark_kept
  by unfold_locales
    (simp_all add: bookmarks_tab_def promised_def class_step_def study_step_def exam_step_def row_step_same)

interpretation kept_favorites: promising favorites_tab any_row favorite_kept
  by unfold_locales
    (simp_all add: favorites_tab_def promised_def class_step_def study_step_def exam_step_def row_step_same)

interpretation kept_session_notes: promising session_notes_tab any_row note_kept
  by unfold_locales
    (simp_all add: session_notes_tab_def promised_def class_step_def study_step_def exam_step_def row_step_same)

interpretation kept_reviews: promising reviews_tab any_row review_kept
  by unfold_locales
    (simp_all add: reviews_tab_def promised_def class_step_def study_step_def exam_step_def row_step_same)

interpretation kept_attachments: promising attachments_tab any_row attachment_kept
  by unfold_locales
    (simp_all add: attachments_tab_def promised_def class_step_def study_step_def exam_step_def row_step_same)

interpretation kept_courses: promising courses_tab any_row any_step
  by unfold_locales
    (simp_all add: courses_tab_def promised_def class_step_def study_step_def exam_step_def row_step_same)

interpretation kept_terms: promising terms_tab buried_row any_step
  by unfold_locales
    (simp_all add: terms_tab_def promised_def class_step_def study_step_def exam_step_def row_step_same)

interpretation kept_cards: promising cards_tab buried_row any_step
  by unfold_locales
    (simp_all add: cards_tab_def promised_def class_step_def study_step_def exam_step_def row_step_same)

interpretation kept_tasks: promising tasks_tab buried_row any_step
  by unfold_locales
    (simp_all add: tasks_tab_def promised_def class_step_def study_step_def exam_step_def row_step_same)

interpretation kept_schedules: promising schedules_tab schedule_values any_step
  by unfold_locales
    (simp_all add: schedules_tab_def promised_def class_step_def study_step_def exam_step_def row_step_same)

interpretation kept_exceptions: promising exceptions_tab exception_values any_step
  by unfold_locales
    (simp_all add: exceptions_tab_def promised_def class_step_def study_step_def exam_step_def row_step_same)

interpretation kept_materials: promising materials_tab material_values material_kept
  by unfold_locales
    (simp_all add: materials_tab_def promised_def class_step_def study_step_def exam_step_def row_step_same)

interpretation kept_pages: promising pages_tab page_values any_step
  by unfold_locales
    (simp_all add: pages_tab_def promised_def class_step_def study_step_def exam_step_def row_step_same)

interpretation kept_annotations: promising annotations_tab annotation_values any_step
  by unfold_locales
    (simp_all add: annotations_tab_def promised_def class_step_def study_step_def exam_step_def row_step_same)

interpretation kept_threads: promising threads_tab any_row any_step
  by unfold_locales
    (simp_all add: threads_tab_def promised_def class_step_def study_step_def exam_step_def row_step_same)

interpretation kept_messages: promising messages_tab message_values any_step
  by unfold_locales
    (simp_all add: messages_tab_def promised_def class_step_def study_step_def exam_step_def row_step_same)

interpretation kept_exams: promising exams_tab exam_values any_step
  by unfold_locales
    (simp_all add: exams_tab_def promised_def class_step_def study_step_def exam_step_def row_step_same)

interpretation kept_topics: promising topics_tab topic_values any_step
  by unfold_locales
    (simp_all add: topics_tab_def promised_def class_step_def study_step_def exam_step_def row_step_same)

interpretation kept_plans: promising plans_tab plan_values any_step
  by unfold_locales
    (simp_all add: plans_tab_def promised_def class_step_def study_step_def exam_step_def row_step_same)

interpretation kept_plan_items: promising plan_items_tab plan_item_values plan_item_kept
  by unfold_locales
    (simp_all add: plan_items_tab_def promised_def class_step_def study_step_def exam_step_def row_step_same)

interpretation kept_activities: promising activities_tab activity_values activity_kept
  by unfold_locales
    (simp_all add: activities_tab_def promised_def class_step_def study_step_def exam_step_def row_step_same)

interpretation kept_conversations: promising conversations_tab conversation_values any_step
  by unfold_locales
    (simp_all add: conversations_tab_def promised_def class_step_def study_step_def exam_step_def row_step_same)

interpretation kept_turns: promising turns_tab turn_values turn_kept
  by unfold_locales
    (simp_all add: turns_tab_def promised_def class_step_def study_step_def exam_step_def row_step_same)

interpretation kept_errand_cases: promising errand_cases_tab case_values any_step
  by unfold_locales
    (simp_all add: errand_cases_tab_def promised_def class_step_def study_step_def exam_step_def row_step_same)

interpretation kept_case_items: promising case_items_tab case_item_values case_item_kept
  by unfold_locales
    (simp_all add: case_items_tab_def promised_def class_step_def study_step_def exam_step_def row_step_same)

section \<open>The updates\<close>

lemma merge_ended_le: "ended_le s (merge_ended i s)"
  by (auto simp: ended_le_def merge_ended_def split: option.split)

lemmas update_defs = fine_def keeps_meta_def bump_def tombstone_def Let_def

lemma fine_class [simp]:
  "fine any_row session_kept (merge_session pl)"
  "fine any_row session_kept (finish_session t)"
  "fine any_row session_kept (\<lambda>r. r\<lparr>s_course_id := None\<rparr>)"
  "fine any_row entry_kept (merge_entry pe)"
  "fine any_row correction_kept (merge_correction t pc)"
  "fine any_row bookmark_kept (merge_bookmark pf)"
  "fine any_row favorite_kept (merge_favorite pf)"
  "fine any_row note_kept (merge_note pl txt)"
  "fine any_row review_kept (merge_review pr st)"
  "fine any_row attachment_kept (merge_attachment pl an)"
  by (simp_all add: update_defs any_row_def kept_defs merge_session_def finish_session_def
      merge_entry_def merge_correction_def merge_bookmark_def merge_favorite_def merge_note_def
      merge_review_def merge_attachment_def audio_or_def max_time_def split: option.split)

lemma fine_class_tombstone [simp]:
  "fine any_row entry_kept (tombstone t)"
  "fine any_row correction_kept (tombstone t)"
  "fine any_row bookmark_kept (tombstone t)"
  "fine any_row favorite_kept (tombstone t)"
  "fine any_row note_kept (tombstone t)"
  "fine any_row review_kept (tombstone t)"
  "fine any_row attachment_kept (tombstone t)"
  by (simp_all add: update_defs any_row_def kept_defs)

lemma fine_any [simp]: "keeps_meta f \<Longrightarrow> fine any_row any_step f"
  by (simp add: fine_def any_row_def any_step_def)

lemma fine_any_row [simp]: "keeps_row f \<Longrightarrow> fine any_row any_step f"
  by (simp add: keeps_row_meta)

lemma fine_buried [simp]: "keeps_row f \<Longrightarrow> fine buried_row any_step f"
  by (simp add: fine_def buried_row_def any_step_def keeps_row_def)

lemma fine_buried_tombstone [simp]: "fine buried_row any_step (tombstone t)"
  by (simp add: fine_def buried_row_def any_step_def)

lemma fine_study_tombstone [simp]:
  "fine schedule_values any_step (tombstone t)"
  "fine exception_values any_step (tombstone t)"
  "fine page_values any_step (tombstone t)"
  "fine annotation_values any_step (tombstone t)"
  "fine message_values any_step (tombstone t)"
  "fine exam_values any_step (tombstone t)"
  "fine topic_values any_step (tombstone t)"
  "fine plan_values any_step (tombstone t)"
  "fine plan_item_values plan_item_kept (tombstone t)"
  "fine activity_values activity_kept (tombstone t)"
  "fine conversation_values any_step (tombstone t)"
  "fine turn_values turn_kept (tombstone t)"
  "fine case_values any_step (tombstone t)"
  "fine case_item_values case_item_kept (tombstone t)"
  by (simp_all add: update_defs values_defs kept_defs ended_le_def split: option.split)

lemma fine_detach [simp]:
  "fine material_values material_kept (\<lambda>r. r\<lparr>m_session_id := None\<rparr>)"
  "fine material_values material_kept (\<lambda>r. r\<lparr>m_course_id := None\<rparr>)"
  "fine exam_values any_step (\<lambda>r. r\<lparr>ex_course_id := None\<rparr>)"
  "fine activity_values activity_kept (\<lambda>r. r\<lparr>ac_exam_id := None\<rparr>)"
  "fine activity_values activity_kept (\<lambda>r. r\<lparr>ac_plan_item_id := None\<rparr>)"
  "fine activity_values activity_kept (\<lambda>r. r\<lparr>ac_course_id := None\<rparr>)"
  by (simp_all add: update_defs values_defs kept_defs material_core_def ended_le_def split: option.split)

lemma fine_study [simp]:
  "valid_recurrence (sched_recurrence (p_schedule pl)) \<Longrightarrow>
     fine schedule_values any_step (merge_schedule pl ds)"
  "valid_exception_kind (exception_kind (p_exception pl)) \<Longrightarrow> sid \<noteq> uuid_nil \<Longrightarrow>
     fine exception_values any_step (merge_exception pl sid a b)"
  "1 \<le> n \<Longrightarrow> valid_ocr_status ocr \<Longrightarrow> fine page_values any_step (merge_page pm n ocr)"
  "k = ''note'' \<or> k = ''bookmark'' \<Longrightarrow> fine annotation_values any_step (merge_annotation mid n k txt)"
  "role = ''user'' \<or> role = ''assistant'' \<Longrightarrow> mode = ''text'' \<or> mode = ''visual'' \<Longrightarrow>
     fine message_values any_step (merge_message pl tid role mode c v an)"
  by (simp_all add: update_defs values_defs kept_defs merge_schedule_def merge_exception_def
      merge_page_def merge_annotation_def merge_message_def)

lemma fine_exam [simp]:
  "title \<noteq> [] \<Longrightarrow> exam_enums_ok (p_exam pl) \<Longrightarrow> fine exam_values any_step (merge_exam pl title dt src)"
  "title \<noteq> [] \<Longrightarrow> topic_enums_ok pe \<Longrightarrow> fine topic_values any_step (merge_topic pe eid title src)"
  "title \<noteq> [] \<Longrightarrow> valid_plan_status (nonempty_or ''active'' (p_plan_status pp)) \<Longrightarrow>
     fine plan_values any_step (merge_plan pp eid title a b x y z)"
  "title \<noteq> [] \<Longrightarrow> valid_plan_item_kind (nonempty_or ''custom'' (p_pitem_kind (p_plan_item pl))) \<Longrightarrow>
     valid_plan_item_status (nonempty_or ''pending'' (p_pitem_status (p_plan_item pl))) \<Longrightarrow>
     fine plan_item_values plan_item_kept (merge_plan_item now pl pid title dt src)"
  "valid_activity_status (nonempty_or ''in_progress'' (p_act_status (p_activity pl))) \<Longrightarrow>
     fine activity_values activity_kept (merge_activity pl started)"
  by (auto simp add: update_defs values_defs kept_defs merge_exam_def merge_topic_def merge_plan_def
      merge_plan_item_def merge_activity_def exam_enums_ok_def topic_enums_ok_def merge_item_status_def
      merge_activity_status_def merge_ended_le valid_activity_status_def split: option.split)

lemma fine_errand [simp]:
  "valid_scene (conv_scene (p_interpreter pl)) \<Longrightarrow> valid_conversation_status (conv_status (p_interpreter pl)) \<Longrightarrow>
     fine conversation_values any_step (merge_conversation pl started)"
  "valid_speaker (turn_speaker pin) \<Longrightarrow> valid_direction (turn_direction pin) \<Longrightarrow>
     valid_input_method (turn_input pin) \<Longrightarrow> fine turn_values turn_kept (merge_turn pin details)"
  "valid_scene scene \<Longrightarrow> valid_case_status st \<Longrightarrow> fine case_values any_step (merge_case pl scene st)"
  "valid_item_kind k \<Longrightarrow> valid_item_status st \<Longrightarrow> valid_item_origin org \<Longrightarrow>
     0 \<le> or_keep 0 (p_eitem_sequence pei) \<Longrightarrow> length (or_keep [] (p_eitem_fee_currency pei)) \<le> 8 \<Longrightarrow>
     fine case_item_values case_item_kept (merge_case_item pei k st org)"
  by (auto simp add: update_defs values_defs kept_defs merge_conversation_def merge_turn_def
      merge_case_def merge_case_item_def merge_item_terminal_def or_keep_def split: option.splits)

section \<open>The handlers\<close>

lemma values_stub [simp]:
  "buried_row (term_stub E u it)" "buried_row (card_stub E u it)" "buried_row (task_stub E u it)"
  "material_values (material_stub E u it)" "case_values (case_stub E u it)" "any_row x"
  by (simp_all add: values_defs term_stub_def card_stub_def task_stub_def material_stub_def
      case_stub_def valid_material_kind_def valid_material_format_def valid_material_extraction_def
      valid_material_digest_def valid_scene_def valid_case_status_def)

lemmas keep_rules =
  keeps_bind_value keeps_gate keeps_cast_message keeps_cast_plan

lemma keeping_children: "keeping d (cascade_delete_children E u sid d)"
  unfolding cascade_delete_children_def Let_def
  by (intro keeping_bind kept_entries.keeping_sweep kept_bookmarks.keeping_sweep
      kept_favorites.keeping_sweep kept_session_notes.keeping_sweep kept_reviews.keeping_sweep
      kept_attachments.keeping_sweep kept_corrections.keeping_sweep kept_materials.keeping_sweep)
    simp_all

lemma keeps_apply_session: "keeps d (apply_session E u it d)"
  unfolding apply_session_def apply_session_delete_def Let_def
  by (auto intro!: kept_sessions.keeps_commit_insert kept_sessions.keeps_commit_update keeps_gate
      keeps_bind_pair [OF kept_sessions.keeps_update] keeps_bind [OF keeping_children]
      split: option.split)

lemma keeps_apply_entry: "keeps d (apply_entry E u it d)"
  unfolding apply_entry_def apply_entry_upsert_def Let_def
  by (auto intro!: kept_entries.keeps_leaf_delete kept_entries.keeps_commit_insert
      kept_entries.keeps_commit_update keeps_gate split: option.split)

lemma keeps_apply_correction: "keeps d (apply_correction E u it d)"
  unfolding apply_correction_def Let_def
  by (auto intro!: kept_corrections.keeps_leaf_delete kept_corrections.keeps_commit_insert
      kept_corrections.keeps_commit_update keeps_gate split: option.split)

lemma keeps_apply_bookmark: "keeps d (apply_bookmark E u it d)"
  unfolding apply_bookmark_def Let_def
  by (auto intro!: kept_bookmarks.keeps_leaf_delete kept_bookmarks.keeps_commit_insert
      kept_bookmarks.keeps_commit_update keeps_gate split: option.split)

lemma keeps_apply_favorite: "keeps d (apply_favorite E u it d)"
  unfolding apply_favorite_def Let_def
  by (auto intro!: kept_favorites.keeps_leaf_delete kept_favorites.keeps_commit_insert
      kept_favorites.keeps_commit_update keeps_gate split: option.split)

lemma keeps_apply_note: "keeps d (apply_note E u it d)"
  unfolding apply_note_def Let_def
  by (auto intro!: kept_session_notes.keeps_leaf_delete kept_session_notes.keeps_commit_insert
      kept_session_notes.keeps_commit_update keeps_gate split: option.split)

lemma keeps_apply_study_review: "keeps d (apply_study_review E u it d)"
  unfolding apply_study_review_def Let_def
  by (auto intro!: kept_reviews.keeps_leaf_delete kept_reviews.keeps_commit_insert
      kept_reviews.keeps_commit_update keeps_gate split: option.split)

lemma keeps_apply_attachment_delete: "keeps d (apply_attachment_delete E u it obj d)"
  unfolding apply_attachment_delete_def
  by (auto intro!: keeps_bind_pair [OF kept_attachments.keeps_update] keeps_settle_hook
      split: option.split)

lemma keeps_apply_attachment: "keeps d (apply_attachment E u it d)"
  unfolding apply_attachment_def Let_def
  by (auto intro!: keeps_apply_attachment_delete kept_attachments.keeps_commit_insert
      kept_attachments.keeps_commit_update keep_rules split: option.split)

lemma keeps_apply_term: "keeps d (apply_term E u it d)"
  unfolding apply_term_def Let_def
  by (auto intro!: kept_terms.keeps_learning_delete kept_terms.keeps_commit_update keeps_gate
      split: option.split)

lemma keeps_apply_study_card: "keeps d (apply_study_card E u it d)"
  unfolding apply_study_card_def Let_def
  by (auto intro!: kept_cards.keeps_learning_delete kept_cards.keeps_commit_update keeps_gate
      split: option.split)

lemma keeps_apply_study_task: "keeps d (apply_study_task E u it d)"
  unfolding apply_study_task_def Let_def
  by (auto intro!: kept_tasks.keeps_learning_delete kept_tasks.keeps_commit_update keeps_gate
      split: option.split)

lemma keeping_cascade_exceptions: "keeping d (cascade_delete_exceptions E u sid d)"
  unfolding cascade_delete_exceptions_def by (rule kept_exceptions.keeping_sweep) simp

lemma keeping_log: "keeping (log_change u e i op v d) m \<Longrightarrow> keeping d m"
  unfolding keeping_def using promised_trans step_frame(3) promised_same by blast

lemma keeping_cascade_schedules: "keeping d (cascade_schedules E u bs d)"
proof (induction bs arbitrary: d)
  case (Cons b bs)
  then show ?case
    by (auto intro!: keeping_log [OF keeping_bind] keeping_cascade_exceptions)
qed (simp add: keeping_same)

lemma keeping_cascade_delete_schedules: "keeping d (cascade_delete_schedules E u cid d)"
  unfolding cascade_delete_schedules_def
proof (cases "sql_sweep schedules_tab (\<lambda>r. ruser r = u \<and> sc_course_id r = Some cid \<and> \<not> is_deleted r)
      (tombstone (en_now E)) (en_now E) d")
  case (Inr x)
  obtain d1 bs where x: "x = (d1, bs)" by (cases x)
  have "promised d d1"
    using kept_schedules.keeps_sweep [OF fine_study_tombstone(1)] Inr x unfolding keeps_def by blast
  with keeping_cascade_schedules [of d1 E u bs] Inr x
  show "keeping d (bindE (sql_sweep schedules_tab
      (\<lambda>r. ruser r = u \<and> sc_course_id r = Some cid \<and> \<not> is_deleted r)
      (tombstone (en_now E)) (en_now E) d) (\<lambda>db. cascade_schedules E u (snd db) (fst db)))"
    by (auto simp: keeping_def intro: promised_trans)
qed simp

lemma keeping_course_cascade: "keeping d (course_cascade E u cid d)"
  unfolding course_cascade_def detach_course_from_sessions_def detach_course_from_study_data_def
    detach_course_from_materials_def detach_course_from_threads_def detach_course_from_exams_def
  by (intro keeping_bind kept_sessions.keeping_sweep kept_terms.keeping_sweep
      kept_cards.keeping_sweep kept_tasks.keeping_sweep kept_materials.keeping_sweep
      kept_threads.keeping_sweep kept_exams.keeping_sweep kept_activities.keeping_sweep
      keeping_cascade_delete_schedules) (simp_all add: keeps_row_def keeps_meta_def)

lemma keeps_apply_course: "keeps d (apply_course E u it d)"
  unfolding apply_course_def apply_course_delete_def Let_def
  by (auto intro!: kept_courses.keeps_commit_insert kept_courses.keeps_commit_update keeps_gate
      keeps_bind_pair [OF kept_courses.keeps_update] keeps_bind [OF keeping_course_cascade]
      split: option.split)

lemma keeps_apply_course_schedule: "keeps d (apply_course_schedule E u it d)"
  unfolding apply_course_schedule_def Let_def
  by (auto simp: schedule_values_def new_schedule_def Let_def
      intro!: kept_schedules.keeps_delete_with_children kept_schedules.keeps_commit_insert
      kept_schedules.keeps_commit_update keeps_gate keeping_cascade_exceptions
      split: option.split sum.split)

lemma merge_ref_schedule_Some:
  "merge_ref_schedule stored (Some sid) = Some s \<Longrightarrow> s = sid \<and> s \<noteq> uuid_nil"
  by (auto simp: merge_ref_schedule_def split: if_splits)

lemma required_ref_Some: "required_ref p = Some i \<Longrightarrow> p = Some i \<and> i \<noteq> uuid_nil"
  by (auto simp: required_ref_def split: option.splits if_splits)

lemma keeps_apply_schedule_exception: "keeps d (apply_schedule_exception E u it d)"
  unfolding apply_schedule_exception_def Let_def
  by (auto simp: exception_values_def new_exception_def Let_def
      dest: merge_ref_schedule_Some required_ref_Some
      intro!: kept_exceptions.keeps_learning_delete kept_exceptions.keeps_commit_insert
      kept_exceptions.keeps_commit_update keeps_gate split: option.split sum.split)

lemma keeping_material_children: "keeping d (cascade_delete_material_children E u mid d)"
  unfolding cascade_delete_material_children_def
  by (intro keeping_bind kept_pages.keeping_sweep kept_annotations.keeping_sweep) simp_all

lemma keeps_hooks: "keeps d m \<Longrightarrow> keeps d (bindE m (\<lambda>x. Inr ((fst x)\<lparr>db_hooks := h x\<rparr>, snd x)))"
  by (cases m) (auto simp: keeps_def step_frame)

lemma keeps_apply_material_upsert: "keeps d (apply_material_upsert E u it None d)"
  unfolding apply_material_upsert_def Let_def
  by (auto simp: new_material_def material_values_def Let_def
      intro!: kept_materials.keeps_commit_insert keeps_bind_value)

lemma keeps_apply_material: "keeps d (apply_material E u it d)"
  unfolding apply_material_def fetch_material_def
  by (cases "fetch materials_tab u (it_eid it) d")
    (simp_all add: delete_with_children_def apply_learning_delete_def keeps_apply_material_upsert
      keeps_hooks kept_materials.keeps_commit_insert)

lemma keeps_apply_material_page: "keeps d (apply_material_page E u it d)"
  unfolding apply_material_page_def Let_def
  by (auto simp: page_values_def new_page_def Let_def
      intro!: kept_pages.keeps_learning_delete kept_pages.keeps_commit_insert
      kept_pages.keeps_commit_update keeps_gate split: option.split)

lemma keeps_apply_material_annotation: "keeps d (apply_material_annotation E u it d)"
  unfolding apply_material_annotation_def Let_def
  by (auto simp: annotation_values_def new_annotation_def Let_def
      intro!: kept_annotations.keeps_learning_delete kept_annotations.keeps_commit_insert
      kept_annotations.keeps_commit_update keeps_gate split: option.split)

lemma keeping_messages: "keeping d (cascade_delete_messages E u tid d)"
  unfolding cascade_delete_messages_def by (rule kept_messages.keeping_sweep) simp

lemma keeps_apply_assistant_thread: "keeps d (apply_assistant_thread E u it d)"
  unfolding apply_assistant_thread_def Let_def
  by (auto intro!: kept_threads.keeps_delete_with_children kept_threads.keeps_commit_insert
      kept_threads.keeps_commit_update keeps_gate keeping_messages keeps_row_meta
      split: option.split)

lemma keeps_apply_assistant_message: "keeps d (apply_assistant_message E u it d)"
  unfolding apply_assistant_message_def Let_def
  by (auto simp: message_values_def new_message_def Let_def
      intro!: kept_messages.keeps_learning_delete kept_messages.keeps_commit_insert
      kept_messages.keeps_commit_update keeps_gate keeps_cast_message split: option.split)

section \<open>Exams, interpreter and errands\<close>

lemma keeping_plan_items: "keeping d (cascade_delete_plan_items E u pid d)"
  unfolding cascade_delete_plan_items_def by (rule kept_plan_items.keeping_sweep) simp

lemma keeping_cascade_plans: "keeping d (cascade_plans E u is d)"
  by (induction "is" arbitrary: d) (auto simp: keeping_same intro!: keeping_bind keeping_plan_items)

lemma keeping_exam_children: "keeping d (cascade_delete_exam_children E u eid d)"
  unfolding cascade_delete_exam_children_def
  by (intro keeping_bind kept_topics.keeping_sweep keeping_cascade_plans kept_plans.keeping_sweep)
    simp_all

lemma keeping_detach_activities:
  "keeping d (detach_exam_from_activities E u eid d)"
  "keeping d (detach_plan_item_from_activities E u iid d)"
  unfolding detach_exam_from_activities_def detach_plan_item_from_activities_def
  by (rule kept_activities.keeping_sweep; simp)+

lemma keeps_apply_exam: "keeps d (apply_exam E u it d)"
  unfolding apply_exam_def apply_exam_delete_def Let_def
  by (auto simp: exam_values_def exam_enums_ok_def new_exam_def Let_def
      intro!: kept_exams.keeps_delete_with_children kept_exams.keeps_commit_insert
      kept_exams.keeps_commit_update keep_rules keeping_bind keeping_exam_children
      keeping_detach_activities split: option.split)

lemma keeps_apply_exam_topic: "keeps d (apply_exam_topic E u it d)"
  unfolding apply_exam_topic_def Let_def
  by (auto simp: topic_values_def topic_enums_ok_def new_topic_def Let_def
      intro!: kept_topics.keeps_learning_delete kept_topics.keeps_commit_insert
      kept_topics.keeps_commit_update keep_rules split: option.split)

lemma keeps_apply_study_plan: "keeps d (apply_study_plan E u it d)"
  unfolding apply_study_plan_def apply_study_plan_upsert_def Let_def
  by (auto simp: plan_values_def new_plan_def Let_def
      intro!: kept_plans.keeps_delete_with_children kept_plans.keeps_commit_insert
      kept_plans.keeps_commit_update keeps_gate keeps_cast_plan keeping_plan_items
      split: option.split)

lemma keeps_apply_study_plan_item: "keeps d (apply_study_plan_item E u it d)"
  unfolding apply_study_plan_item_def apply_study_plan_item_upsert_def Let_def
  by (auto simp: plan_item_values_def new_plan_item_def Let_def
      intro!: kept_plan_items.keeps_delete_with_children kept_plan_items.keeps_commit_insert
      kept_plan_items.keeps_commit_update keep_rules keeping_detach_activities
      split: option.split)

lemma keeps_apply_study_activity: "keeps d (apply_study_activity E u it d)"
  unfolding apply_study_activity_def Let_def
  by (auto simp: activity_values_def new_activity_def Let_def
      intro!: kept_activities.keeps_learning_delete kept_activities.keeps_commit_insert
      kept_activities.keeps_commit_update keeps_gate split: option.split)

lemma keeping_turns: "keeping d (cascade_delete_turns E u cid d)"
  unfolding cascade_delete_turns_def by (rule kept_turns.keeping_sweep) simp

lemma keeps_apply_interpreter_conversation: "keeps d (apply_interpreter_conversation E u it d)"
  unfolding apply_interpreter_conversation_def Let_def
  by (auto simp: conversation_values_def new_conversation_def Let_def
      intro!: kept_conversations.keeps_delete_with_children kept_conversations.keeps_commit_insert
      kept_conversations.keeps_commit_update keeps_gate keeping_turns split: option.split)

lemma keeps_apply_interpreter_turn: "keeps d (apply_interpreter_turn E u it d)"
  unfolding apply_interpreter_turn_def Let_def
  by (auto simp: turn_values_def new_turn_def Let_def
      intro!: kept_turns.keeps_learning_delete kept_turns.keeps_commit_insert
      kept_turns.keeps_commit_update keep_rules split: option.split)

lemma keeping_case_items: "keeping d (cascade_delete_case_items E u cid d)"
  unfolding cascade_delete_case_items_def by (rule kept_case_items.keeping_sweep) simp

lemma new_case_values:
  "valid_scene scene \<Longrightarrow> valid_case_status st \<Longrightarrow> case_values (new_case E u it scene st)"
  by (simp add: case_values_def new_case_def Let_def)

lemma keeps_apply_errand_case: "keeps d (apply_errand_case E u it d)"
  unfolding apply_errand_case_def Let_def
  by (cases "fetch errand_cases_tab u (it_eid it) d")
    (auto simp: new_case_values
      intro!: kept_errand_cases.keeps_delete_with_children kept_errand_cases.keeps_commit_insert
      kept_errand_cases.keeps_commit_update keeps_gate keeping_case_items)

lemma keeps_apply_errand_case_item: "keeps d (apply_errand_case_item E u it d)"
  unfolding apply_errand_case_item_def Let_def
  by (cases "fetch case_items_tab u (it_eid it) d")
    (auto simp: case_item_values_def new_case_item_def Let_def
      intro!: kept_case_items.keeps_learning_delete kept_case_items.keeps_commit_insert
      kept_case_items.keeps_commit_update keeps_gate split: option.split)

section \<open>Pushes\<close>

lemma keeps_handler: "keeps d (handler e E u it d)"
  by (cases e)
    (simp_all add: keeps_apply_session keeps_apply_entry keeps_apply_bookmark keeps_apply_favorite
      keeps_apply_course keeps_apply_note keeps_apply_study_review keeps_apply_attachment
      keeps_apply_term keeps_apply_study_card keeps_apply_study_task keeps_apply_correction
      keeps_apply_course_schedule keeps_apply_schedule_exception keeps_apply_material
      keeps_apply_material_page keeps_apply_material_annotation keeps_apply_assistant_thread
      keeps_apply_assistant_message keeps_apply_exam keeps_apply_exam_topic keeps_apply_study_plan
      keeps_apply_study_plan_item keeps_apply_study_activity keeps_apply_interpreter_conversation
      keeps_apply_interpreter_turn keeps_apply_errand_case keeps_apply_errand_case_item)

lemma keeps_run_one: "keeps d (run_one handler E u it d)"
proof -
  have same: "keeps d (Inr (d, res))" for res :: push_result
    by (simp add: keeps_def promised_same)
  show ?thesis
    unfolding run_one_def process_def by (auto simp: same keeps_handler keeps_apply_study_review split: option.split)
qed

lemma keeps_run_items: "run_items handler E u its d = Inr (d', rs) \<Longrightarrow> promised d d'"
proof (induction its arbitrary: d d' rs)
  case (Cons it its)
  then obtain d1 res rs' where
    "run_one handler E u it d = Inr (d1, res)" "run_items handler E u its d1 = Inr (d', rs')"
    by (auto simp: bindE_eq_Inr)
  with Cons.IH keeps_run_one [of d E u it] show ?case
    by (auto simp: keeps_def intro: promised_trans)
qed (simp add: promised_same)

lemma promised_push:
  assumes "apply_push E u its d = (d', x)"
  shows "promised d d'"
proof (cases "run_items handler E u its (d\<lparr>db_hooks := []\<rparr>)")
  case (Inl err)
  with assms show ?thesis by (auto simp: apply_push_def promised_same)
next
  case (Inr y)
  obtain d1 rs where y: "y = (d1, rs)" by (cases y)
  with keeps_run_items Inr have "promised (d\<lparr>db_hooks := []\<rparr>) d1" by blast
  with assms Inr y show ?thesis by (auto simp: apply_push_def step_frame step_hooks)
qed

lemma promised_served: "served d d' \<Longrightarrow> promised d d'"
  by (induction rule: served.induct) (auto simp: promised_same intro: promised_push promised_trans)

lemma reachable_served: "reachable d \<Longrightarrow> served empty_db d"
  by (induction rule: reachable.induct) (auto intro: served.intros)

text \<open>What a row fetched at one time says of the row fetched later.\<close>

context promising
begin

lemma later:
  assumes "promised d d'" and "wf d'" and "fetch T u i d = Some r"
  shows "\<exists>r'. fetch T u i d' = Some r' \<and> R r r'"
proof -
  note r = fetch_Some [OF assms(3)]
  with promised_rows [OF assms(1)] obtain r' where
    r': "r' \<in> set (tb_get T d')" "rid r' = i" "ruser r' = u" "R r r'"
    unfolding row_step_def by blast
  obtain q where q: "fetch T u i d' = Some q"
    using r' by (cases "fetch T u i d'") (auto simp: fetch_def find_None)
  with fetch_Some [OF q] r' keys_get [OF wfD(1) [OF assms(2)]] have "q = r'"
    by (auto simp: distinct_map inj_on_def)
  with q r' show ?thesis by simp
qed

lemma stored_values:
  assumes "promised empty_db d" and "r \<in> set (tb_get T d)"
  shows "I r"
proof -
  have "tb_get T empty_db = []" using view_get [of empty_db] by simp
  with promised_rows [OF assms(1)] assms(2) show ?thesis by (simp add: row_step_def)
qed

end

end
