(* ===== verification/Merges.thy ===== *)
theory Merges
  imports Kept
begin

text \<open>
  Properties of the merges: what holds of a row at any later time, and what values a stored row
  can have, along any sequence of pushes by any users.
\<close>

lemma distinct_tab:
  "reachable d \<Longrightarrow> served d d' \<Longrightarrow> wf d'"
  by (rule history_okD(1) [OF served_history [OF _ reachable_history_ok]])

lemma promised_reachable: "reachable d \<Longrightarrow> promised empty_db d"
  by (rule promised_served [OF reachable_served])

section \<open>A class, an exam and an errand\<close>

definition session_item :: push_item where
  "session_item = blank_item 21 ESession 20 ''upsert'' 0
     (no_payload\<lparr>p_session := no_session\<lparr>p_started_at := Some 10\<rparr>\<rparr>)"

definition entry_item :: "uuid \<Rightarrow> int \<Rightarrow> string \<Rightarrow> push_item" where
  "entry_item op base ru = blank_item op EEntry 30 ''upsert'' base
     (no_payload\<lparr>p_refs := no_refs\<lparr>p_session_id := Some 20\<rparr>,
       p_entry := no_entry\<lparr>p_sequence_id := Some 1, p_russian_text := Some ru\<rparr>\<rparr>)"

definition correction_item :: "uuid \<Rightarrow> int \<Rightarrow> time \<Rightarrow> push_item" where
  "correction_item op base t = blank_item op ETranscriptCorrection 30 ''upsert'' base
     (no_payload\<lparr>p_correction := no_correction\<lparr>p_corr_russian := Some ''da'',
       p_corr_modified_at := Some t\<rparr>\<rparr>)"

definition attachment_item :: "uuid \<Rightarrow> int \<Rightarrow> string \<Rightarrow> push_item" where
  "attachment_item op base h = blank_item op EAttachment 40 ''upsert'' base
     (no_payload\<lparr>p_refs := no_refs\<lparr>p_session_id := Some 20\<rparr>,
       p_attachment := no_attachment\<lparr>p_att_captured_at := Some 10, p_att_hash := Some h\<rparr>\<rparr>)"

definition material_item :: push_item where
  "material_item = blank_item 24 EMaterial 50 ''upsert'' 0 (no_payload\<lparr>p_title := Some ''Notes''\<rparr>)"

definition class_items :: "push_item list" where
  "class_items = [session_item, entry_item 22 0 ''net'', correction_item 23 0 50,
     attachment_item 25 0 ''ab'', material_item]"

definition class_db :: db where
  "class_db = fst (apply_push env0 1 class_items empty_db)"

lemma reachable_class: "reachable class_db"
  unfolding class_db_def by (rule reachable.push [OF reachable.start prod.collapse [symmetric]])

lemma served_once: "served d (fst (apply_push E u its d))"
  by (rule served.later [OF served.here prod.collapse [symmetric]])

definition row_there :: "('a row_scheme \<Rightarrow> bool) \<Rightarrow> 'a row_scheme option \<Rightarrow> bool" where
  "row_there P x = (case x of None \<Rightarrow> False | Some r \<Rightarrow> P r)"

lemma row_thereE:
  assumes "row_there P x"
  obtains r where "x = Some r" and "P r"
  using assms by (auto simp: row_there_def split: option.splits)

lemma class_row_1: "row_there (\<lambda>r. e_russian r = ''net'') (fetch entries_tab 1 30 class_db)"
  by code_simp

lemma class_row_2: "row_there (\<lambda>r. c_modified_at r = 50) (fetch corrections_tab 1 30 class_db)"
  by code_simp

lemma class_row_3: "row_there (\<lambda>r. s_started_at r = 10) (fetch sessions_tab 1 20 class_db)"
  by code_simp

lemma class_row_4: "row_there (\<lambda>r. a_hash r = ''ab'') (fetch attachments_tab 1 40 class_db)"
  by code_simp

lemma class_row_5: "row_there (\<lambda>r. m_title r = ''Notes'' \<and> rdeleted r = None) (fetch materials_tab 1 50 class_db)"
  by code_simp

lemmas class_rows = class_row_1 class_row_2 class_row_3 class_row_4 class_row_5

definition plan_item :: push_item where
  "plan_item = blank_item 62 EStudyPlanItem 61 ''upsert'' 0
     (no_payload\<lparr>p_title := Some ''Read'', p_refs := no_refs\<lparr>p_plan_id := Some 60\<rparr>,
       p_plan_item := no_plan_item\<lparr>p_pitem_date := Some ''2026-05-01'', p_pitem_actual := Some 20,
         p_pitem_status := Some ''done'', p_pitem_status_at := Some 90\<rparr>\<rparr>)"

definition activity_item :: push_item where
  "activity_item = blank_item 64 EStudyActivity 63 ''upsert'' 0
     (no_payload\<lparr>p_activity := no_activity\<lparr>p_act_started_at := Some 10, p_act_duration := Some 60,
       p_act_status := Some ''completed'', p_act_ended_at := Some 70\<rparr>\<rparr>)"

definition errand_item :: "uuid \<Rightarrow> int \<Rightarrow> string \<Rightarrow> push_item" where
  "errand_item op base title = blank_item op EErrandCaseItem 65 ''upsert'' base
     (no_payload\<lparr>p_title := Some title, p_refs := no_refs\<lparr>p_case_id := Some 66\<rparr>,
       p_errand_item := no_errand_item\<lparr>p_eitem_confirmed := Some True\<rparr>\<rparr>)"

definition study_db :: db where
  "study_db = fst (apply_push env0 1 [plan_item, activity_item, errand_item 67 0 ''Passport''] empty_db)"

lemma reachable_study_db: "reachable study_db"
  unfolding study_db_def by (rule reachable.push [OF reachable.start prod.collapse [symmetric]])

lemma study_row_1: "row_there (\<lambda>r. pi_actual_minutes r = 20) (fetch plan_items_tab 1 61 study_db)"
  by code_simp

lemma study_row_2: "row_there (\<lambda>r. ac_duration r = 60 \<and> ac_status r = ''completed'') (fetch activities_tab 1 63 study_db)"
  by code_simp

lemma study_row_3: "row_there (\<lambda>r. ei_title r = ''Passport'') (fetch case_items_tab 1 65 study_db)"
  by code_simp

lemmas study_rows = study_row_1 study_row_2 study_row_3

section \<open>What never changes, and what only grows\<close>

text \<open>
  C14: A transcript is immutable. Whatever is pushed by whomever, an entry keeps its session, its
  sequence number and its Russian text, its offsets once they are known, and the mark that its
  times come from the audio; what a user changes goes into a correction.
\<close>

theorem transcripts_are_immutable:
  assumes "reachable d" and "served d d'" and "fetch entries_tab u i d = Some r"
  shows "\<exists>r'. fetch entries_tab u i d' = Some r' \<and> entry_kept r r'"
  by (rule kept_entries.later [OF promised_served [OF assms(2)] distinct_tab [OF assms(1,2)] assms(3)])

lemma transcripts_are_immutable_witness:
  "row_there (\<lambda>r. e_russian r = ''net'')
     (fetch entries_tab 1 30 (fst (apply_push env0 1 [entry_item 70 1 ''da''] class_db)))"
  by (rule row_thereE [OF class_rows(1)],
      drule transcripts_are_immutable
        [OF reachable_class served_once [where E = env0 and u = 1 and its = "[entry_item 70 1 ''da'']"]])
    (auto simp: row_there_def entry_kept_def)








text \<open>
  The time of a plan item's status does go back: a status that loses because it is older leaves the
  status but overwrites its time. So does the start of an activity, which every upsert writes.
\<close>

definition late_plan_item :: push_item where
  "late_plan_item = blank_item 76 EStudyPlanItem 61 ''upsert'' 1
     (no_payload\<lparr>p_title := Some ''Read'', p_refs := no_refs\<lparr>p_plan_id := Some 60\<rparr>,
       p_plan_item := no_plan_item\<lparr>p_pitem_date := Some ''2026-05-01'',
         p_pitem_status := Some ''pending'', p_pitem_status_at := Some 40\<rparr>\<rparr>)"

definition late_activity :: push_item where
  "late_activity = blank_item 77 EStudyActivity 63 ''upsert'' 1
     (no_payload\<lparr>p_activity := no_activity\<lparr>p_act_started_at := Some 5\<rparr>\<rparr>)"

lemma status_time_before:
  "row_there (\<lambda>r. pi_status r = ''done'' \<and> pi_status_changed_at r = Some 90)
     (fetch plan_items_tab 1 61 (fst (apply_push env0 1 [plan_item] empty_db)))"
  by code_simp

lemma status_time_goes_back:
  "row_there (\<lambda>r. pi_status r = ''done'' \<and> pi_status_changed_at r = Some 40)
     (fetch plan_items_tab 1 61 (fst (apply_push env0 1 [plan_item, late_plan_item] empty_db)))"
  by code_simp

lemma activity_start_before:
  "row_there (\<lambda>r. ac_started_at r = 10)
     (fetch activities_tab 1 63 (fst (apply_push env0 1 [activity_item] empty_db)))"
  by code_simp

lemma activity_start_goes_back:
  "row_there (\<lambda>r. ac_started_at r = 5)
     (fetch activities_tab 1 63 (fst (apply_push env0 1 [activity_item, late_activity] empty_db)))"
  by code_simp

section \<open>What faulty statements do\<close>

text \<open>
  A course material is, at any later time, the row of its first upsert, up to its version and to the
  links to a course and a session that a cascade may have cleared.
\<close>

lemma materials_are_frozen:
  assumes "reachable d" and "served d d'" and "fetch materials_tab u i d = Some r"
  shows "\<exists>r'. fetch materials_tab u i d' = Some r' \<and> material_kept r r'"
  by (rule kept_materials.later [OF promised_served [OF assms(2)] distinct_tab [OF assms(1,2)] assms(3)])

lemma material_core_eq:
  "material_core r' = material_core r \<Longrightarrow> m_title r' = m_title r \<and> rdeleted r' = rdeleted r"
  by (metis (no_types, lifting) material_core_def material_row.select_convs(4)
      material_row.surjective material_row.update_convs(1,2) row.select_convs(5) row.update_convs(3,4))

lemma learning_tables_hold_only_tombstones:
  assumes "reachable d"
  shows "(\<forall>r\<in>set (terms d). is_deleted r) \<and> (\<forall>r\<in>set (cards d). is_deleted r) \<and>
    (\<forall>r\<in>set (tasks d). is_deleted r)"
  using kept_terms.stored_values [OF promised_reachable [OF assms]]
    kept_cards.stored_values [OF promised_reachable [OF assms]]
    kept_tasks.stored_values [OF promised_reachable [OF assms]]
  by (simp add: buried_row_def terms_tab_def cards_tab_def tasks_tab_def)

definition term_db :: db where
  "term_db = fst (apply_push env0 1 [blank_item 81 ETerm 80 ''delete'' 0 no_payload] empty_db)"

lemma reachable_term_db: "reachable term_db"
  unfolding term_db_def by (rule reachable.push [OF reachable.start prod.collapse [symmetric]])

lemma term_there: "row_there (\<lambda>r. rver r = 1) (fetch terms_tab 1 80 term_db)"
  by code_simp

text \<open>
  C16: Four kinds of entities are stuck by faulty statements. A course material can never be edited nor
  deleted once it exists: at any later time it is the row of its first upsert, up to its version and
  to the links to a course and a session that a cascade may have cleared, since every upsert or delete
  of it runs into a SELECT with fewer destinations than columns. And no user ever has a live glossary
  term, study card or study task: all rows of the three tables are tombstones, since their INSERTs name
  more values than columns, so the first upsert always fails.
\<close>

theorem faulty_statements_block:
  assumes "reachable d" and "served d d'"
  shows "(\<forall>r. fetch materials_tab u i d = Some r \<longrightarrow>
      (\<exists>r'. fetch materials_tab u i d' = Some r' \<and> material_kept r r')) \<and>
    (\<forall>r\<in>set (terms d). is_deleted r) \<and> (\<forall>r\<in>set (cards d). is_deleted r) \<and>
    (\<forall>r\<in>set (tasks d). is_deleted r)"
  using materials_are_frozen [OF assms] learning_tables_hold_only_tombstones [OF assms(1)] by blast

lemma faulty_statements_block_witness:
  "row_there (\<lambda>r. m_title r = ''Notes'' \<and> rdeleted r = None)
     (fetch materials_tab 1 50
       (fst (apply_push env0 1 [blank_item 76 EMaterial 50 ''delete'' 1 no_payload] class_db))) \<and>
   row_there (\<lambda>r. is_deleted r) (fetch terms_tab 1 80 term_db)"
proof
  show "row_there (\<lambda>r. m_title r = ''Notes'' \<and> rdeleted r = None)
     (fetch materials_tab 1 50
       (fst (apply_push env0 1 [blank_item 76 EMaterial 50 ''delete'' 1 no_payload] class_db)))"
    using class_rows(5) faulty_statements_block [OF reachable_class
        served_once [where E = env0 and u = 1 and its = "[blank_item 76 EMaterial 50 ''delete'' 1 no_payload]"], of 1 50]
    by (elim row_thereE conjE) (auto simp: row_there_def material_kept_def dest: material_core_eq)
  show "row_there (\<lambda>r. is_deleted r) (fetch terms_tab 1 80 term_db)"
  proof (rule row_thereE [OF term_there])
    fix r assume r: "fetch terms_tab 1 80 term_db = Some r"
    then have "r \<in> set (terms term_db)" using terms.fetch_Some [OF r] by (simp add: terms_tab_def)
    with faulty_statements_block [OF reachable_term_db served_once [where E = env0 and u = 1 and its = "[]"]] r
    show ?thesis by (auto simp: row_there_def)
  qed
qed

section \<open>What is stored\<close>

text \<open>Every exam, topic, plan, plan item and activity of a reachable state.\<close>

lemma exam_rows_are_valid:
  assumes "reachable d"
  shows "(\<forall>r\<in>set (exams d). exam_values r) \<and> (\<forall>r\<in>set (topics d). topic_values r) \<and>
    (\<forall>r\<in>set (plans d). plan_values r) \<and> (\<forall>r\<in>set (plan_items d). plan_item_values r) \<and>
    (\<forall>r\<in>set (activities d). activity_values r)"
  using kept_exams.stored_values [OF promised_reachable [OF assms]]
    kept_topics.stored_values [OF promised_reachable [OF assms]]
    kept_plans.stored_values [OF promised_reachable [OF assms]]
    kept_plan_items.stored_values [OF promised_reachable [OF assms]]
    kept_activities.stored_values [OF promised_reachable [OF assms]]
  by (simp add: exams_tab_def topics_tab_def plans_tab_def plan_items_tab_def activities_tab_def)

text \<open>Every row of schedules, materials, the assistant, the interpreter and errands.\<close>

lemma other_rows_are_valid:
  assumes "reachable d"
  shows "(\<forall>r\<in>set (schedules d). schedule_values r) \<and> (\<forall>r\<in>set (exceptions d). exception_values r) \<and>
    (\<forall>r\<in>set (materials d). material_values r) \<and> (\<forall>r\<in>set (pages d). page_values r) \<and>
    (\<forall>r\<in>set (annotations d). annotation_values r) \<and> (\<forall>r\<in>set (messages d). message_values r) \<and>
    (\<forall>r\<in>set (conversations d). conversation_values r) \<and> (\<forall>r\<in>set (turns d). turn_values r) \<and>
    (\<forall>r\<in>set (errand_cases d). case_values r) \<and> (\<forall>r\<in>set (case_items d). case_item_values r)"
  using kept_schedules.stored_values [OF promised_reachable [OF assms]]
    kept_exceptions.stored_values [OF promised_reachable [OF assms]]
    kept_materials.stored_values [OF promised_reachable [OF assms]]
    kept_pages.stored_values [OF promised_reachable [OF assms]]
    kept_annotations.stored_values [OF promised_reachable [OF assms]]
    kept_messages.stored_values [OF promised_reachable [OF assms]]
    kept_conversations.stored_values [OF promised_reachable [OF assms]]
    kept_turns.stored_values [OF promised_reachable [OF assms]]
    kept_errand_cases.stored_values [OF promised_reachable [OF assms]]
    kept_case_items.stored_values [OF promised_reachable [OF assms]]
  by (simp add: schedules_tab_def exceptions_tab_def materials_tab_def pages_tab_def
      annotations_tab_def messages_tab_def conversations_tab_def turns_tab_def
      errand_cases_tab_def case_items_tab_def)

text \<open>
  C17: What is stored is well formed. Every exam, topic, plan, plan item and activity of a reachable
  state has a title where it needs one and enum values of its allowlists; schedules, materials, the
  assistant, the interpreter and errands have allowlisted enum values, page numbers from 1, a
  schedule for every exception, sequence numbers of errand items that are not negative and
  currencies of at most eight bytes.
\<close>

theorem stored_rows_are_valid:
  assumes "reachable d"
  shows "(\<forall>r\<in>set (exams d). exam_values r) \<and> (\<forall>r\<in>set (topics d). topic_values r) \<and>
    (\<forall>r\<in>set (plans d). plan_values r) \<and> (\<forall>r\<in>set (plan_items d). plan_item_values r) \<and>
    (\<forall>r\<in>set (activities d). activity_values r) \<and>
    (\<forall>r\<in>set (schedules d). schedule_values r) \<and> (\<forall>r\<in>set (exceptions d). exception_values r) \<and>
    (\<forall>r\<in>set (materials d). material_values r) \<and> (\<forall>r\<in>set (pages d). page_values r) \<and>
    (\<forall>r\<in>set (annotations d). annotation_values r) \<and> (\<forall>r\<in>set (messages d). message_values r) \<and>
    (\<forall>r\<in>set (conversations d). conversation_values r) \<and> (\<forall>r\<in>set (turns d). turn_values r) \<and>
    (\<forall>r\<in>set (errand_cases d). case_values r) \<and> (\<forall>r\<in>set (case_items d). case_item_values r)"
  using exam_rows_are_valid [OF assms] other_rows_are_valid [OF assms] by simp

lemma stored_rows_are_valid_witness:
  "row_there plan_item_values (fetch plan_items_tab 1 61 study_db) \<and>
    row_there material_values (fetch materials_tab 1 50 class_db)"
proof
  show "row_there plan_item_values (fetch plan_items_tab 1 61 study_db)"
  proof (rule row_thereE [OF study_rows(1)])
    fix r assume r: "fetch plan_items_tab 1 61 study_db = Some r"
    then have "r \<in> set (plan_items study_db)"
      using plan_items.fetch_Some [OF r] by (simp add: plan_items_tab_def)
    with stored_rows_are_valid [OF reachable_study_db] r show ?thesis
      by (auto simp: row_there_def)
  qed
  show "row_there material_values (fetch materials_tab 1 50 class_db)"
  proof (rule row_thereE [OF class_rows(5)])
    fix r assume r: "fetch materials_tab 1 50 class_db = Some r"
    then have "r \<in> set (materials class_db)"
      using materials.fetch_Some [OF r] by (simp add: materials_tab_def)
    with stored_rows_are_valid [OF reachable_class] r show ?thesis
      by (auto simp: row_there_def)
  qed
qed

end
