(* ===== verification/Wire_Shapes.thy ===== *)
theory Wire_Shapes
  imports Pull
begin

text \<open>
  The shapes of the served records (the record structs of internal/sync/wire.go): for every kind the
  members of its JSON object in their order, with their types and with what leaves a member out. Every
  record that is built has the shape of its kind, so that a client decodes it unambiguously.
\<close>

section \<open>Members\<close>

text \<open>
  A member is always there; or null for a nil pointer; or left out for a nil pointer; or left out for
  the zero value of its type.
\<close>

datatype wire_type = W_Str | W_Int | W_Float | W_Bool | W_Time

datatype presence = Always | Or_Null | If_Set | If_Nonzero

datatype wire_field = Field string wire_type presence

fun has_type :: "wire_type \<Rightarrow> json \<Rightarrow> bool" where
  "has_type W_Str (JStr _) \<longleftrightarrow> True"
| "has_type W_Str (JUuid _) \<longleftrightarrow> True"
| "has_type W_Int (JInt _) \<longleftrightarrow> True"
| "has_type W_Float (JFloat _) \<longleftrightarrow> True"
| "has_type W_Bool (JBool _) \<longleftrightarrow> True"
| "has_type W_Time (JTime _) \<longleftrightarrow> True"
| "has_type _ _ \<longleftrightarrow> False"

definition value_ok :: "wire_type \<Rightarrow> presence \<Rightarrow> json \<Rightarrow> bool" where
  "value_ok t p v \<longleftrightarrow>
     (p = Or_Null \<and> v = JNull) \<or>
     (has_type t v \<and> (p = If_Nonzero \<longrightarrow> v \<noteq> JStr [] \<and> v \<noteq> JInt 0 \<and> v \<noteq> JFloat 0 \<and> v \<noteq> JBool False))"

text \<open>The members of an object are those of the struct in their order, some of the omittable ones left out.\<close>

fun encodes :: "wire_field list \<Rightarrow> (string \<times> json) list \<Rightarrow> bool" where
  "encodes [] kvs \<longleftrightarrow> kvs = []"
| "encodes (Field k t p # fs) kvs \<longleftrightarrow>
     ((p = If_Set \<or> p = If_Nonzero) \<and> encodes fs kvs) \<or>
     (case kvs of [] \<Rightarrow> False | (k', v) # kvs \<Rightarrow> k' = k \<and> value_ok t p v \<and> encodes fs kvs)"

definition shaped :: "wire_field list \<Rightarrow> json \<Rightarrow> bool" where
  "shaped fs j \<longleftrightarrow> (case j of JObj kvs \<Rightarrow> encodes fs kvs | _ \<Rightarrow> False)"

section \<open>The structs\<close>

definition session_shape :: "wire_field list" where
  "session_shape =
    [Field ''entityType'' W_Str Always, Field ''id'' W_Str Always, Field ''title'' W_Str Always,
     Field ''startedAt'' W_Time Or_Null, Field ''endedAt'' W_Time Or_Null,
     Field ''duration'' W_Float Always, Field ''sessionStatus'' W_Str Always,
     Field ''abnormalTermination'' W_Bool Always, Field ''sourceLanguage'' W_Str If_Nonzero,
     Field ''targetLanguage'' W_Str If_Nonzero, Field ''courseId'' W_Str If_Set,
     Field ''serverVersion'' W_Int Always, Field ''deleted'' W_Bool Always]"

definition entry_shape :: "wire_field list" where
  "entry_shape =
    [Field ''entityType'' W_Str Always, Field ''id'' W_Str Always, Field ''sessionId'' W_Str Always,
     Field ''sequenceId'' W_Int Always, Field ''startOffset'' W_Float Always,
     Field ''endOffset'' W_Float Always, Field ''russianText'' W_Str Always,
     Field ''chineseText'' W_Str Or_Null, Field ''translationStatus'' W_Str Always,
     Field ''timeSource'' W_Str If_Nonzero, Field ''serverVersion'' W_Int Always,
     Field ''deleted'' W_Bool Always]"

definition bookmark_shape :: "wire_field list" where
  "bookmark_shape =
    [Field ''entityType'' W_Str Always, Field ''id'' W_Str Always, Field ''sessionId'' W_Str Always,
     Field ''entryId'' W_Str Always, Field ''isBookmarked'' W_Bool Always,
     Field ''serverVersion'' W_Int Always, Field ''deleted'' W_Bool Always]"

definition favorite_shape :: "wire_field list" where
  "favorite_shape =
    [Field ''entityType'' W_Str Always, Field ''id'' W_Str Always, Field ''sessionId'' W_Str Always,
     Field ''isFavorite'' W_Bool Always, Field ''serverVersion'' W_Int Always,
     Field ''deleted'' W_Bool Always]"

definition course_shape :: "wire_field list" where
  "course_shape =
    [Field ''entityType'' W_Str Always, Field ''id'' W_Str Always, Field ''title'' W_Str Always,
     Field ''teacher'' W_Str Always, Field ''location'' W_Str Always, Field ''colorIndex'' W_Int Always,
     Field ''isArchived'' W_Bool Always, Field ''serverVersion'' W_Int Always,
     Field ''deleted'' W_Bool Always]"

definition note_shape :: "wire_field list" where
  "note_shape =
    [Field ''entityType'' W_Str Always, Field ''id'' W_Str Always, Field ''sessionId'' W_Str Always,
     Field ''anchorEntryId'' W_Str If_Set, Field ''noteText'' W_Str Always,
     Field ''noteTimeOffset'' W_Float If_Set, Field ''serverVersion'' W_Int Always,
     Field ''deleted'' W_Bool Always]"

definition study_review_shape :: "wire_field list" where
  "study_review_shape =
    [Field ''entityType'' W_Str Always, Field ''id'' W_Str Always, Field ''sessionId'' W_Str Always,
     Field ''reviewStatus'' W_Str Always, Field ''reviewContent'' W_Str Always,
     Field ''reviewGeneratedContent'' W_Str Always, Field ''reviewModel'' W_Str Always,
     Field ''reviewGeneratedAt'' W_Time If_Set, Field ''reviewSourceUpdatedAt'' W_Time If_Set,
     Field ''serverVersion'' W_Int Always, Field ''deleted'' W_Bool Always]"

definition attachment_shape :: "wire_field list" where
  "attachment_shape =
    [Field ''entityType'' W_Str Always, Field ''id'' W_Str Always, Field ''sessionId'' W_Str Always,
     Field ''courseId'' W_Str If_Set, Field ''anchorEntryId'' W_Str If_Set,
     Field ''attachmentCapturedAt'' W_Time Always, Field ''title'' W_Str Always,
     Field ''attachmentCaption'' W_Str Always, Field ''attachmentKind'' W_Str Always,
     Field ''attachmentMime'' W_Str Always, Field ''attachmentWidth'' W_Int Always,
     Field ''attachmentHeight'' W_Int Always, Field ''attachmentFileSize'' W_Int Always,
     Field ''attachmentHash'' W_Str Always, Field ''attachmentSortIndex'' W_Int Always,
     Field ''attachmentTransform'' W_Str If_Nonzero, Field ''attachmentAnalysisStatus'' W_Str Always,
     Field ''attachmentAnalysis'' W_Str If_Set, Field ''attachmentOcrText'' W_Str If_Nonzero,
     Field ''serverVersion'' W_Int Always, Field ''deleted'' W_Bool Always]"

definition term_shape :: "wire_field list" where
  "term_shape =
    [Field ''entityType'' W_Str Always, Field ''id'' W_Str Always, Field ''courseId'' W_Str If_Set,
     Field ''sessionId'' W_Str If_Set, Field ''sourceReviewId'' W_Str If_Set,
     Field ''sourceEntryId'' W_Str If_Set, Field ''sourceAttachmentId'' W_Str If_Set,
     Field ''materialId'' W_Str If_Set, Field ''materialPageNumber'' W_Int If_Nonzero,
     Field ''termSourceSessions'' W_Str If_Nonzero, Field ''termRussian'' W_Str Always,
     Field ''termChinese'' W_Str Always, Field ''termExplanation'' W_Str Always,
     Field ''termPartOfSpeech'' W_Str Always, Field ''termUserNote'' W_Str Always,
     Field ''termFavorite'' W_Bool Always, Field ''termStatus'' W_Str Always,
     Field ''serverVersion'' W_Int Always, Field ''deleted'' W_Bool Always]"

definition study_card_shape :: "wire_field list" where
  "study_card_shape =
    [Field ''entityType'' W_Str Always, Field ''id'' W_Str Always, Field ''courseId'' W_Str If_Set,
     Field ''sessionId'' W_Str If_Set, Field ''sourceEntryId'' W_Str If_Set,
     Field ''sourceAttachmentId'' W_Str If_Set, Field ''sourceTermId'' W_Str If_Set,
     Field ''materialId'' W_Str If_Set, Field ''materialPageNumber'' W_Int If_Nonzero,
     Field ''cardFront'' W_Str Always, Field ''cardBack'' W_Str Always, Field ''cardType'' W_Str Always,
     Field ''cardUserNote'' W_Str Always, Field ''cardOrigin'' W_Str Always,
     Field ''cardStage'' W_Str Always, Field ''cardReviewCount'' W_Int Always,
     Field ''cardIntervalHours'' W_Int Always, Field ''cardDueAt'' W_Time If_Set,
     Field ''cardLastReviewedAt'' W_Time If_Set, Field ''cardLastGrade'' W_Str Always,
     Field ''serverVersion'' W_Int Always, Field ''deleted'' W_Bool Always]"

definition study_task_shape :: "wire_field list" where
  "study_task_shape =
    [Field ''entityType'' W_Str Always, Field ''id'' W_Str Always, Field ''title'' W_Str Always,
     Field ''courseId'' W_Str If_Set, Field ''sessionId'' W_Str If_Set,
     Field ''sourceReviewId'' W_Str If_Set, Field ''sourceEntryId'' W_Str If_Set,
     Field ''sourceAttachmentId'' W_Str If_Set, Field ''materialId'' W_Str If_Set,
     Field ''materialPageNumber'' W_Int If_Nonzero, Field ''taskDetail'' W_Str Always,
     Field ''taskDueAt'' W_Time If_Set, Field ''taskPriority'' W_Str Always,
     Field ''taskStatus'' W_Str Always, Field ''taskOrigin'' W_Str Always,
     Field ''taskUncertainty'' W_Str Always, Field ''taskUserNote'' W_Str Always,
     Field ''taskCompletedAt'' W_Time If_Set, Field ''serverVersion'' W_Int Always,
     Field ''deleted'' W_Bool Always]"

definition transcript_correction_shape :: "wire_field list" where
  "transcript_correction_shape =
    [Field ''entityType'' W_Str Always, Field ''id'' W_Str Always, Field ''sessionId'' W_Str Always,
     Field ''correctionRussian'' W_Str Always, Field ''correctionChinese'' W_Str If_Set,
     Field ''correctionModifiedAt'' W_Time Always, Field ''correctionNeedsRetranslation'' W_Bool Always,
     Field ''serverVersion'' W_Int Always, Field ''deleted'' W_Bool Always]"

definition course_schedule_shape :: "wire_field list" where
  "course_schedule_shape =
    [Field ''entityType'' W_Str Always, Field ''id'' W_Str Always, Field ''courseId'' W_Str If_Set,
     Field ''scheduleWeekday'' W_Int Always, Field ''scheduleStartSecs'' W_Int Always,
     Field ''scheduleEndSecs'' W_Int Always, Field ''scheduleRecurrence'' W_Str Always,
     Field ''scheduleParityAnchor'' W_Str If_Set, Field ''scheduleFirstWeekIsOdd'' W_Bool Always,
     Field ''scheduleSemesterStart'' W_Str Always, Field ''scheduleSemesterEnd'' W_Str Always,
     Field ''scheduleTimezone'' W_Str Always, Field ''scheduleTeacher'' W_Str Always,
     Field ''scheduleLocation'' W_Str Always, Field ''scheduleNote'' W_Str Always,
     Field ''scheduleReminderMins'' W_Int Always, Field ''scheduleEnabled'' W_Bool Always,
     Field ''scheduleOnceDate'' W_Str If_Set, Field ''serverVersion'' W_Int Always,
     Field ''deleted'' W_Bool Always]"

definition schedule_exception_shape :: "wire_field list" where
  "schedule_exception_shape =
    [Field ''entityType'' W_Str Always, Field ''id'' W_Str Always, Field ''scheduleId'' W_Str Always,
     Field ''courseId'' W_Str If_Set, Field ''scheduleOriginalDate'' W_Str If_Set,
     Field ''scheduleExceptionKind'' W_Str Always, Field ''scheduleChangedStart'' W_Int If_Set,
     Field ''scheduleChangedEnd'' W_Int If_Set, Field ''scheduleMovedToDate'' W_Str If_Set,
     Field ''scheduleLocation'' W_Str Always, Field ''scheduleTeacher'' W_Str Always,
     Field ''scheduleNote'' W_Str Always, Field ''serverVersion'' W_Int Always,
     Field ''deleted'' W_Bool Always]"

definition course_material_shape :: "wire_field list" where
  "course_material_shape =
    [Field ''entityType'' W_Str Always, Field ''id'' W_Str Always, Field ''title'' W_Str Always,
     Field ''courseId'' W_Str If_Set, Field ''sessionId'' W_Str If_Set,
     Field ''scheduleOccurrenceKey'' W_Str If_Nonzero, Field ''sourceAttachmentId'' W_Str If_Set,
     Field ''materialKind'' W_Str Always, Field ''materialMime'' W_Str Always,
     Field ''materialFileName'' W_Str Always, Field ''materialFormat'' W_Str Always,
     Field ''materialFileSize'' W_Int Always, Field ''materialHash'' W_Str Always,
     Field ''materialPageCount'' W_Int Always, Field ''materialSourceURL'' W_Str Always,
     Field ''materialSharedText'' W_Str Always, Field ''materialExtraction'' W_Str Always,
     Field ''materialDigestStatus'' W_Str Always, Field ''materialDigest'' W_Str If_Set,
     Field ''materialDigestModel'' W_Str Always, Field ''materialDigestAt'' W_Time If_Set,
     Field ''materialDigestSourceHash'' W_Str Always, Field ''materialLastReadPage'' W_Int Always,
     Field ''materialLastOpenedAt'' W_Time If_Set, Field ''serverVersion'' W_Int Always,
     Field ''deleted'' W_Bool Always]"

definition material_page_shape :: "wire_field list" where
  "material_page_shape =
    [Field ''entityType'' W_Str Always, Field ''id'' W_Str Always, Field ''materialId'' W_Str Always,
     Field ''materialPageNumber'' W_Int Always, Field ''materialPageText'' W_Str Always,
     Field ''materialPageOCR'' W_Str Always, Field ''materialPageOCRStatus'' W_Str Always,
     Field ''serverVersion'' W_Int Always, Field ''deleted'' W_Bool Always]"

definition material_annotation_shape :: "wire_field list" where
  "material_annotation_shape =
    [Field ''entityType'' W_Str Always, Field ''id'' W_Str Always, Field ''materialId'' W_Str Always,
     Field ''materialPageNumber'' W_Int Always, Field ''materialAnnotationKind'' W_Str Always,
     Field ''noteText'' W_Str Always, Field ''serverVersion'' W_Int Always,
     Field ''deleted'' W_Bool Always]"

definition assistant_thread_shape :: "wire_field list" where
  "assistant_thread_shape =
    [Field ''entityType'' W_Str Always, Field ''id'' W_Str Always, Field ''title'' W_Str Always,
     Field ''courseId'' W_Str If_Set, Field ''serverVersion'' W_Int Always,
     Field ''deleted'' W_Bool Always]"

definition assistant_message_shape :: "wire_field list" where
  "assistant_message_shape =
    [Field ''entityType'' W_Str Always, Field ''id'' W_Str Always, Field ''threadId'' W_Str Always,
     Field ''assistantRole'' W_Str Always, Field ''assistantText'' W_Str Always,
     Field ''assistantCitations'' W_Str If_Set, Field ''materialId'' W_Str If_Set,
     Field ''sessionId'' W_Str If_Set, Field ''materialPageNumber'' W_Int If_Nonzero,
     Field ''assistantMode'' W_Str If_Set, Field ''assistantEvidence'' W_Str If_Set,
     Field ''assistantAnswer'' W_Str If_Set, Field ''assistantModel'' W_Str If_Set,
     Field ''serverVersion'' W_Int Always, Field ''deleted'' W_Bool Always]"

definition exam_shape :: "wire_field list" where
  "exam_shape =
    [Field ''entityType'' W_Str Always, Field ''id'' W_Str Always, Field ''title'' W_Str Always,
     Field ''courseId'' W_Str If_Set, Field ''examKind'' W_Str Always, Field ''examDate'' W_Str Always,
     Field ''examStartSecs'' W_Int Always, Field ''examEndSecs'' W_Int Always,
     Field ''examLocation'' W_Str Always, Field ''examScope'' W_Str Always,
     Field ''examNote'' W_Str Always, Field ''examTargetScore'' W_Str Always,
     Field ''examStatus'' W_Str Always, Field ''examOrigin'' W_Str Always,
     Field ''examSource'' W_Str If_Set, Field ''serverVersion'' W_Int Always,
     Field ''deleted'' W_Bool Always]"

definition exam_topic_shape :: "wire_field list" where
  "exam_topic_shape =
    [Field ''entityType'' W_Str Always, Field ''id'' W_Str Always, Field ''examId'' W_Str Always,
     Field ''title'' W_Str Always, Field ''topicDetail'' W_Str Always,
     Field ''topicImportance'' W_Str Always, Field ''topicSelfRating'' W_Str Always,
     Field ''topicStatus'' W_Str Always, Field ''topicSource'' W_Str If_Set,
     Field ''topicUserEdited'' W_Bool Always, Field ''serverVersion'' W_Int Always,
     Field ''deleted'' W_Bool Always]"

definition study_plan_shape :: "wire_field list" where
  "study_plan_shape =
    [Field ''entityType'' W_Str Always, Field ''id'' W_Str Always, Field ''examId'' W_Str Always,
     Field ''title'' W_Str Always, Field ''planStartDate'' W_Str Always,
     Field ''planEndDate'' W_Str Always, Field ''planWeekdayMinutes'' W_Int Always,
     Field ''planWeekendMinutes'' W_Int Always, Field ''planRestDays'' W_Str If_Set,
     Field ''planFinishEarlyDays'' W_Int Always, Field ''planIncludeCards'' W_Bool Always,
     Field ''planIncludeTasks'' W_Bool Always, Field ''planIncludeMaterials'' W_Bool Always,
     Field ''planIncludeSessions'' W_Bool Always, Field ''planFocusTopics'' W_Str If_Set,
     Field ''planBlockedTimes'' W_Str If_Set, Field ''planStatus'' W_Str Always,
     Field ''serverVersion'' W_Int Always, Field ''deleted'' W_Bool Always]"

definition study_plan_item_shape :: "wire_field list" where
  "study_plan_item_shape =
    [Field ''entityType'' W_Str Always, Field ''id'' W_Str Always, Field ''planId'' W_Str Always,
     Field ''examId'' W_Str If_Set, Field ''planItemDate'' W_Str Always, Field ''title'' W_Str Always,
     Field ''planItemKind'' W_Str Always, Field ''planItemEstimatedMinutes'' W_Int Always,
     Field ''planItemActualMinutes'' W_Int Always, Field ''planItemStatus'' W_Str Always,
     Field ''planItemStatusChangedAt'' W_Time If_Set, Field ''planItemOrder'' W_Int Always,
     Field ''planItemSource'' W_Str If_Set, Field ''planItemUserNote'' W_Str Always,
     Field ''planItemUserEdited'' W_Bool Always, Field ''serverVersion'' W_Int Always,
     Field ''deleted'' W_Bool Always]"

definition study_activity_shape :: "wire_field list" where
  "study_activity_shape =
    [Field ''entityType'' W_Str Always, Field ''id'' W_Str Always, Field ''planItemId'' W_Str If_Set,
     Field ''examId'' W_Str If_Set, Field ''courseId'' W_Str If_Set, Field ''topicId'' W_Str If_Set,
     Field ''activityStartedAt'' W_Time Always, Field ''activityEndedAt'' W_Time If_Set,
     Field ''activityDurationSeconds'' W_Int Always, Field ''activityStatus'' W_Str Always,
     Field ''activityNote'' W_Str Always, Field ''serverVersion'' W_Int Always,
     Field ''deleted'' W_Bool Always]"

definition interpreter_conversation_shape :: "wire_field list" where
  "interpreter_conversation_shape =
    [Field ''entityType'' W_Str Always, Field ''id'' W_Str Always, Field ''title'' W_Str Always,
     Field ''interpreterScene'' W_Str Always, Field ''interpreterContextNote'' W_Str Always,
     Field ''interpreterStatus'' W_Str Always, Field ''interpreterStartedAt'' W_Time Always,
     Field ''interpreterEndedAt'' W_Time If_Set, Field ''serverVersion'' W_Int Always,
     Field ''deleted'' W_Bool Always]"

definition interpreter_turn_shape :: "wire_field list" where
  "interpreter_turn_shape =
    [Field ''entityType'' W_Str Always, Field ''id'' W_Str Always,
     Field ''conversationId'' W_Str Always, Field ''turnSpeaker'' W_Str Always,
     Field ''turnDirection'' W_Str Always, Field ''turnInputMethod'' W_Str Always,
     Field ''turnSequence'' W_Int Always, Field ''turnSourceText'' W_Str Always,
     Field ''turnPlainRussian'' W_Str Always, Field ''turnStressedRussian'' W_Str Always,
     Field ''turnChineseText'' W_Str Always, Field ''turnBackTranslation'' W_Str Always,
     Field ''turnDetails'' W_Str If_Set, Field ''turnModifiedAt'' W_Time If_Set,
     Field ''serverVersion'' W_Int Always, Field ''deleted'' W_Bool Always]"

definition errand_case_shape :: "wire_field list" where
  "errand_case_shape =
    [Field ''entityType'' W_Str Always, Field ''id'' W_Str Always, Field ''title'' W_Str Always,
     Field ''errandScene'' W_Str Always, Field ''errandStatus'' W_Str Always,
     Field ''errandPurpose'' W_Str Always, Field ''errandNote'' W_Str Always,
     Field ''errandTimezone'' W_Str Always, Field ''errandLocation'' W_Str Always,
     Field ''errandContact'' W_Str Always, Field ''errandExpectedResultAt'' W_Time If_Set,
     Field ''errandPinned'' W_Bool Always, Field ''errandHasLocalSources'' W_Bool Always,
     Field ''serverVersion'' W_Int Always, Field ''deleted'' W_Bool Always]"

definition errand_case_item_shape :: "wire_field list" where
  "errand_case_item_shape =
    [Field ''entityType'' W_Str Always, Field ''id'' W_Str Always, Field ''caseId'' W_Str Always,
     Field ''title'' W_Str Always, Field ''errandItemKind'' W_Str Always,
     Field ''errandItemStatus'' W_Str Always, Field ''errandItemSequence'' W_Int Always,
     Field ''errandItemDetail'' W_Str Always, Field ''errandItemDueAt'' W_Time If_Set,
     Field ''errandItemDateText'' W_Str Always, Field ''errandItemDateIsRelative'' W_Bool Always,
     Field ''errandItemDateUncertain'' W_Bool Always, Field ''errandItemOrigin'' W_Str Always,
     Field ''errandItemConfirmed'' W_Bool Always, Field ''errandItemFeeText'' W_Str Always,
     Field ''errandItemFeeAmount'' W_Float If_Set, Field ''errandItemFeeCurrency'' W_Str Always,
     Field ''errandItemModifiedAt'' W_Time If_Set, Field ''errandItemCompletedAt'' W_Time If_Set,
     Field ''serverVersion'' W_Int Always, Field ''deleted'' W_Bool Always]"

primrec shape_of :: "etype \<Rightarrow> wire_field list" where
  "shape_of ESession = session_shape"
| "shape_of EEntry = entry_shape"
| "shape_of EBookmark = bookmark_shape"
| "shape_of EFavorite = favorite_shape"
| "shape_of ECourse = course_shape"
| "shape_of ENote = note_shape"
| "shape_of EStudyReview = study_review_shape"
| "shape_of EAttachment = attachment_shape"
| "shape_of ETerm = term_shape"
| "shape_of EStudyCard = study_card_shape"
| "shape_of EStudyTask = study_task_shape"
| "shape_of ETranscriptCorrection = transcript_correction_shape"
| "shape_of ECourseSchedule = course_schedule_shape"
| "shape_of EScheduleException = schedule_exception_shape"
| "shape_of EMaterial = course_material_shape"
| "shape_of EMaterialPage = material_page_shape"
| "shape_of EMaterialAnnotation = material_annotation_shape"
| "shape_of EAssistantThread = assistant_thread_shape"
| "shape_of EAssistantMessage = assistant_message_shape"
| "shape_of EExam = exam_shape"
| "shape_of EExamTopic = exam_topic_shape"
| "shape_of EStudyPlan = study_plan_shape"
| "shape_of EStudyPlanItem = study_plan_item_shape"
| "shape_of EStudyActivity = study_activity_shape"
| "shape_of EInterpreterConversation = interpreter_conversation_shape"
| "shape_of EInterpreterTurn = interpreter_turn_shape"
| "shape_of EErrandCase = errand_case_shape"
| "shape_of EErrandCaseItem = errand_case_item_shape"

section \<open>Every record has its shape\<close>

lemma encode_member: "value_ok t p v \<Longrightarrow> encodes fs kvs \<Longrightarrow> encodes (Field k t p # fs) ((k, v) # kvs)"
  by simp

lemma encode_skip:
  "encodes fs kvs \<Longrightarrow> encodes (Field k t If_Set # fs) kvs"
  "encodes fs kvs \<Longrightarrow> encodes (Field k t If_Nonzero # fs) kvs"
  by simp_all

lemma encode_opt:
  "(\<And>v. value_ok t If_Set (f v)) \<Longrightarrow> encodes fs kvs \<Longrightarrow> encodes (Field k t If_Set # fs) (opt_field k f x @ kvs)"
  by (cases x) (auto simp: opt_field_def)

lemma encode_null:
  "(\<And>v. value_ok t Or_Null (f v)) \<Longrightarrow> encodes fs kvs \<Longrightarrow> encodes (Field k t Or_Null # fs) (null_field k f x @ kvs)"
  by (cases x) (auto simp: null_field_def value_ok_def)

lemma encode_str:
  "encodes fs kvs \<Longrightarrow> encodes (Field k W_Str If_Nonzero # fs) (omit_empty_str k s @ kvs)"
  "encodes fs kvs \<Longrightarrow> encodes (Field k W_Str If_Set # fs) (omit_empty_str k s @ kvs)"
  by (auto simp: omit_empty_str_def value_ok_def)

lemma encode_int: "encodes fs kvs \<Longrightarrow> encodes (Field k W_Int If_Nonzero # fs) (omit_zero_int k i @ kvs)"
  by (auto simp: omit_zero_int_def value_ok_def)

lemma encode_if:
  "encodes fs kvs \<Longrightarrow> encodes fs (xs @ kvs) \<Longrightarrow> encodes fs ((if b then [] else xs) @ kvs)"
  by simp

lemma value_ok_simps [simp]:
  "value_ok W_Str Always (JStr s)" "value_ok W_Str Always (JUuid i)" "value_ok W_Int Always (JInt n)"
  "value_ok W_Float Always (JFloat q)" "value_ok W_Bool Always (JBool b)" "value_ok W_Time Always (JTime a)"
  "value_ok W_Time Or_Null (JTime a)" "value_ok W_Str Or_Null (JStr s)"
  "value_ok W_Str If_Set (JStr s)" "value_ok W_Str If_Set (JUuid i)" "value_ok W_Int If_Set (JInt n)"
  "value_ok W_Float If_Set (JFloat q)" "value_ok W_Time If_Set (JTime a)"
  by (simp_all add: value_ok_def)

lemmas encode_rules = encode_member encode_opt encode_null encode_str encode_int

lemma session_shaped: "shaped session_shape (session_record_json r)"
  unfolding session_record_json_def session_shape_def json_record_def shaped_def json.case append_assoc append.simps
  by (rule encode_rules encode_if encode_skip | simp)+

lemma entry_shaped: "shaped entry_shape (entry_record_json r)"
  unfolding entry_record_json_def entry_shape_def json_record_def shaped_def json.case append_assoc append.simps
  by (rule encode_rules encode_if encode_skip | simp)+

lemma bookmark_shaped: "shaped bookmark_shape (bookmark_record_json r)"
  unfolding bookmark_record_json_def bookmark_shape_def json_record_def shaped_def json.case append_assoc append.simps
  by (rule encode_rules encode_if encode_skip | simp)+

lemma favorite_shaped: "shaped favorite_shape (favorite_record_json r)"
  unfolding favorite_record_json_def favorite_shape_def json_record_def shaped_def json.case append_assoc append.simps
  by (rule encode_rules encode_if encode_skip | simp)+

lemma course_shaped: "shaped course_shape (course_record_json r)"
  unfolding course_record_json_def course_shape_def json_record_def shaped_def json.case append_assoc append.simps
  by (rule encode_rules encode_if encode_skip | simp)+

lemma note_shaped: "shaped note_shape (note_record_json r)"
  unfolding note_record_json_def note_shape_def json_record_def shaped_def json.case append_assoc append.simps
  by (rule encode_rules encode_if encode_skip | simp)+

lemma study_review_shaped: "shaped study_review_shape (study_review_record_json r)"
  unfolding study_review_record_json_def study_review_shape_def json_record_def shaped_def json.case append_assoc append.simps
  by (rule encode_rules encode_if encode_skip | simp)+

lemma attachment_shaped: "shaped attachment_shape (attachment_record_json r)"
  unfolding attachment_record_json_def attachment_shape_def json_record_def shaped_def json.case append_assoc append.simps
  by (rule encode_rules encode_if encode_skip | simp)+

lemma term_shaped: "shaped term_shape (term_record_json r)"
  unfolding term_record_json_def term_shape_def json_record_def shaped_def json.case append_assoc append.simps
  by (rule encode_rules encode_if encode_skip | simp)+

lemma study_card_shaped: "shaped study_card_shape (study_card_record_json r)"
  unfolding study_card_record_json_def study_card_shape_def json_record_def shaped_def json.case append_assoc append.simps
  by (rule encode_rules encode_if encode_skip | simp)+

lemma study_task_shaped: "shaped study_task_shape (study_task_record_json r)"
  unfolding study_task_record_json_def study_task_shape_def json_record_def shaped_def json.case append_assoc append.simps
  by (rule encode_rules encode_if encode_skip | simp)+

lemma correction_shaped: "shaped transcript_correction_shape (correction_record_json r)"
  unfolding correction_record_json_def transcript_correction_shape_def json_record_def shaped_def json.case append_assoc append.simps
  by (rule encode_rules encode_if encode_skip | simp)+

lemma course_schedule_shaped: "shaped course_schedule_shape (course_schedule_record_json r)"
  unfolding course_schedule_record_json_def course_schedule_shape_def json_record_def shaped_def json.case append_assoc append.simps
  by (rule encode_rules encode_if encode_skip | simp)+

lemma schedule_exception_shaped: "shaped schedule_exception_shape (schedule_exception_record_json r)"
  unfolding schedule_exception_record_json_def schedule_exception_shape_def json_record_def shaped_def json.case append_assoc append.simps
  by (rule encode_rules encode_if encode_skip | simp)+

lemma material_shaped: "shaped course_material_shape (material_record_json r)"
  unfolding material_record_json_def course_material_shape_def json_record_def shaped_def json.case append_assoc append.simps
  by (rule encode_rules encode_if encode_skip | simp)+

lemma material_page_shaped: "shaped material_page_shape (material_page_record_json r)"
  unfolding material_page_record_json_def material_page_shape_def json_record_def shaped_def json.case append_assoc append.simps
  by (rule encode_rules encode_if encode_skip | simp)+

lemma material_annotation_shaped: "shaped material_annotation_shape (material_annotation_record_json r)"
  unfolding material_annotation_record_json_def material_annotation_shape_def json_record_def shaped_def json.case append_assoc append.simps
  by (rule encode_rules encode_if encode_skip | simp)+

lemma assistant_thread_shaped: "shaped assistant_thread_shape (assistant_thread_record_json r)"
  unfolding assistant_thread_record_json_def assistant_thread_shape_def json_record_def shaped_def json.case append_assoc append.simps
  by (rule encode_rules encode_if encode_skip | simp)+

lemma assistant_message_shaped: "shaped assistant_message_shape (assistant_message_record_json r)"
  unfolding assistant_message_record_json_def assistant_message_shape_def json_record_def shaped_def json.case append_assoc append.simps
  by (rule encode_rules encode_if encode_skip | simp)+

lemma exam_shaped: "shaped exam_shape (exam_record_json r)"
  unfolding exam_record_json_def exam_shape_def json_record_def shaped_def json.case append_assoc append.simps
  by (rule encode_rules encode_if encode_skip | simp)+

lemma exam_topic_shaped: "shaped exam_topic_shape (exam_topic_record_json r)"
  unfolding exam_topic_record_json_def exam_topic_shape_def json_record_def shaped_def json.case append_assoc append.simps
  by (rule encode_rules encode_if encode_skip | simp)+

lemma study_plan_shaped: "shaped study_plan_shape (study_plan_record_json r)"
  unfolding study_plan_record_json_def study_plan_shape_def json_record_def shaped_def json.case append_assoc append.simps
  by (rule encode_rules encode_if encode_skip | simp)+

lemma study_plan_item_shaped: "shaped study_plan_item_shape (study_plan_item_record_json r)"
  unfolding study_plan_item_record_json_def study_plan_item_shape_def json_record_def shaped_def json.case append_assoc append.simps
  by (rule encode_rules encode_if encode_skip | simp)+

lemma study_activity_shaped: "shaped study_activity_shape (study_activity_record_json r)"
  unfolding study_activity_record_json_def study_activity_shape_def json_record_def shaped_def json.case append_assoc append.simps
  by (rule encode_rules encode_if encode_skip | simp)+

lemma interpreter_conversation_shaped: "shaped interpreter_conversation_shape (interpreter_conversation_record_json r)"
  unfolding interpreter_conversation_record_json_def interpreter_conversation_shape_def json_record_def shaped_def json.case append_assoc append.simps
  by (rule encode_rules encode_if encode_skip | simp)+

lemma interpreter_turn_shaped: "shaped interpreter_turn_shape (interpreter_turn_record_json r)"
  unfolding interpreter_turn_record_json_def interpreter_turn_shape_def json_record_def shaped_def json.case append_assoc append.simps
  by (rule encode_rules encode_if encode_skip | simp)+

lemma errand_case_shaped: "shaped errand_case_shape (errand_case_record_json r)"
  unfolding errand_case_record_json_def errand_case_shape_def json_record_def shaped_def json.case append_assoc append.simps
  by (rule encode_rules encode_if encode_skip | simp)+

lemma errand_case_item_shaped: "shaped errand_case_item_shape (errand_case_item_record_json r)"
  unfolding errand_case_item_record_json_def errand_case_item_shape_def json_record_def shaped_def json.case append_assoc append.simps
  by (rule encode_rules encode_if encode_skip | simp)+

section \<open>Records on the wire\<close>

text \<open>A record of a kind and an id: the members of its struct, none twice, with that kind and that id.\<close>

definition wire_record :: "etype \<Rightarrow> uuid \<Rightarrow> json \<Rightarrow> bool" where
  "wire_record e i j \<longleftrightarrow>
     (case j of
        JObj kvs \<Rightarrow> encodes (shape_of e) kvs \<and> distinct (map fst kvs) \<and>
          map_of kvs ''entityType'' = Some (JStr (etype_str e)) \<and> map_of kvs ''id'' = Some (JUuid i)
      | _ \<Rightarrow> False)"

primrec member_name :: "wire_field \<Rightarrow> string" where
  "member_name (Field k t p) = k"

lemma encodes_distinct:
  "encodes fs kvs \<Longrightarrow> distinct (map member_name fs) \<Longrightarrow>
     distinct (map fst kvs) \<and> set (map fst kvs) \<subseteq> set (map member_name fs)"
proof (induction fs kvs rule: encodes.induct)
  case (2 k t p fs kvs)
  show ?case
  proof (cases "(p = If_Set \<or> p = If_Nonzero) \<and> encodes fs kvs")
    case True
    with 2 show ?thesis by auto
  next
    case False
    with 2(3) obtain v kvs' where kvs: "kvs = (k, v) # kvs'" and e: "encodes fs kvs'"
      by (auto split: list.splits)
    have "distinct (map fst kvs') \<and> set (map fst kvs') \<subseteq> set (map member_name fs)"
      using 2(2) [OF kvs _ e] 2(4) by simp
    with 2(4) kvs show ?thesis by auto
  qed
qed simp

lemmas shape_defs =
  session_shape_def entry_shape_def bookmark_shape_def favorite_shape_def
  course_shape_def note_shape_def study_review_shape_def attachment_shape_def
  term_shape_def study_card_shape_def study_task_shape_def transcript_correction_shape_def
  course_schedule_shape_def schedule_exception_shape_def course_material_shape_def material_page_shape_def
  material_annotation_shape_def assistant_thread_shape_def assistant_message_shape_def exam_shape_def
  exam_topic_shape_def study_plan_shape_def study_plan_item_shape_def study_activity_shape_def
  interpreter_conversation_shape_def interpreter_turn_shape_def errand_case_shape_def errand_case_item_shape_def

lemma shape_names_distinct: "distinct (map member_name (shape_of e))"
  by (cases e) (simp_all add: shape_defs)

lemma wired:
  assumes "shape_of e = fs" and "shaped fs j" and "j = json_record e r kvs"
  shows "wire_record e (rid r) j"
proof -
  have e: "encodes (shape_of e) ((''entityType'', JStr (etype_str e)) # (''id'', JUuid (rid r)) # kvs @
      [(''serverVersion'', JInt (rver r)), (''deleted'', JBool (is_deleted r))])"
    using assms by (simp add: shaped_def json_record_def)
  from conjunct1 [OF encodes_distinct [OF e shape_names_distinct]] e show ?thesis
    unfolding assms(3) wire_record_def json_record_def by (simp del: encodes.simps)
qed

lemma session_wired: "wire_record ESession (rid r) (session_record_json r)"
  by (rule wired [OF shape_of.simps(1) session_shaped session_record_json_def])

lemma entry_wired: "wire_record EEntry (rid r) (entry_record_json r)"
  by (rule wired [OF shape_of.simps(2) entry_shaped entry_record_json_def])

lemma bookmark_wired: "wire_record EBookmark (rid r) (bookmark_record_json r)"
  by (rule wired [OF shape_of.simps(3) bookmark_shaped bookmark_record_json_def])

lemma favorite_wired: "wire_record EFavorite (rid r) (favorite_record_json r)"
  by (rule wired [OF shape_of.simps(4) favorite_shaped favorite_record_json_def])

lemma course_wired: "wire_record ECourse (rid r) (course_record_json r)"
  by (rule wired [OF shape_of.simps(5) course_shaped course_record_json_def])

lemma note_wired: "wire_record ENote (rid r) (note_record_json r)"
  by (rule wired [OF shape_of.simps(6) note_shaped note_record_json_def])

lemma study_review_wired: "wire_record EStudyReview (rid r) (study_review_record_json r)"
  by (rule wired [OF shape_of.simps(7) study_review_shaped study_review_record_json_def])

lemma attachment_wired: "wire_record EAttachment (rid r) (attachment_record_json r)"
  by (rule wired [OF shape_of.simps(8) attachment_shaped attachment_record_json_def])

lemma term_wired: "wire_record ETerm (rid r) (term_record_json r)"
  by (rule wired [OF shape_of.simps(9) term_shaped term_record_json_def])

lemma study_card_wired: "wire_record EStudyCard (rid r) (study_card_record_json r)"
  by (rule wired [OF shape_of.simps(10) study_card_shaped study_card_record_json_def])

lemma study_task_wired: "wire_record EStudyTask (rid r) (study_task_record_json r)"
  by (rule wired [OF shape_of.simps(11) study_task_shaped study_task_record_json_def])

lemma correction_wired: "wire_record ETranscriptCorrection (rid r) (correction_record_json r)"
  by (rule wired [OF shape_of.simps(12) correction_shaped correction_record_json_def])

lemma course_schedule_wired: "wire_record ECourseSchedule (rid r) (course_schedule_record_json r)"
  by (rule wired [OF shape_of.simps(13) course_schedule_shaped course_schedule_record_json_def])

lemma schedule_exception_wired: "wire_record EScheduleException (rid r) (schedule_exception_record_json r)"
  by (rule wired [OF shape_of.simps(14) schedule_exception_shaped schedule_exception_record_json_def])

lemma material_wired: "wire_record EMaterial (rid r) (material_record_json r)"
  by (rule wired [OF shape_of.simps(15) material_shaped material_record_json_def])

lemma material_page_wired: "wire_record EMaterialPage (rid r) (material_page_record_json r)"
  by (rule wired [OF shape_of.simps(16) material_page_shaped material_page_record_json_def])

lemma material_annotation_wired: "wire_record EMaterialAnnotation (rid r) (material_annotation_record_json r)"
  by (rule wired [OF shape_of.simps(17) material_annotation_shaped material_annotation_record_json_def])

lemma assistant_thread_wired: "wire_record EAssistantThread (rid r) (assistant_thread_record_json r)"
  by (rule wired [OF shape_of.simps(18) assistant_thread_shaped assistant_thread_record_json_def])

lemma assistant_message_wired: "wire_record EAssistantMessage (rid r) (assistant_message_record_json r)"
  by (rule wired [OF shape_of.simps(19) assistant_message_shaped assistant_message_record_json_def])

lemma exam_wired: "wire_record EExam (rid r) (exam_record_json r)"
  by (rule wired [OF shape_of.simps(20) exam_shaped exam_record_json_def])

lemma exam_topic_wired: "wire_record EExamTopic (rid r) (exam_topic_record_json r)"
  by (rule wired [OF shape_of.simps(21) exam_topic_shaped exam_topic_record_json_def])

lemma study_plan_wired: "wire_record EStudyPlan (rid r) (study_plan_record_json r)"
  by (rule wired [OF shape_of.simps(22) study_plan_shaped study_plan_record_json_def])

lemma study_plan_item_wired: "wire_record EStudyPlanItem (rid r) (study_plan_item_record_json r)"
  by (rule wired [OF shape_of.simps(23) study_plan_item_shaped study_plan_item_record_json_def])

lemma study_activity_wired: "wire_record EStudyActivity (rid r) (study_activity_record_json r)"
  by (rule wired [OF shape_of.simps(24) study_activity_shaped study_activity_record_json_def])

lemma interpreter_conversation_wired: "wire_record EInterpreterConversation (rid r) (interpreter_conversation_record_json r)"
  by (rule wired [OF shape_of.simps(25) interpreter_conversation_shaped interpreter_conversation_record_json_def])

lemma interpreter_turn_wired: "wire_record EInterpreterTurn (rid r) (interpreter_turn_record_json r)"
  by (rule wired [OF shape_of.simps(26) interpreter_turn_shaped interpreter_turn_record_json_def])

lemma errand_case_wired: "wire_record EErrandCase (rid r) (errand_case_record_json r)"
  by (rule wired [OF shape_of.simps(27) errand_case_shaped errand_case_record_json_def])

lemma errand_case_item_wired: "wire_record EErrandCaseItem (rid r) (errand_case_item_record_json r)"
  by (rule wired [OF shape_of.simps(28) errand_case_item_shaped errand_case_item_record_json_def])

lemmas records_wired =
  session_wired entry_wired bookmark_wired favorite_wired course_wired
  note_wired study_review_wired attachment_wired term_wired study_card_wired
  study_task_wired correction_wired course_schedule_wired schedule_exception_wired material_wired
  material_page_wired material_annotation_wired assistant_thread_wired assistant_message_wired exam_wired
  exam_topic_wired study_plan_wired study_plan_item_wired study_activity_wired interpreter_conversation_wired
  interpreter_turn_wired errand_case_wired errand_case_item_wired

end
