(* ===== verification/Refusals.thy ===== *)
theory Refusals
  imports Outcomes Wire_Shapes Delivery
begin

text \<open>
  What a device is told when an item of its push is refused, and in which form it gets records: a
  refused item writes its ledger row and nothing else, a conflict reports the record and the version
  that the server has, and every record that a conflict or a pull carries has the shape of its kind.
\<close>

section \<open>Refused items\<close>

definition refusal_ok ::
  "etype \<Rightarrow> uuid \<Rightarrow> push_item \<Rightarrow> db \<Rightarrow> db_error + db \<times> push_result \<Rightarrow> bool" where
  "refusal_ok e u it d m \<longleftrightarrow>
     (\<forall>d' res. m = Inr (d', res) \<longrightarrow> wf d \<longrightarrow> res_status res \<noteq> Accepted \<longrightarrow>
        d' = d\<lparr>db_ledger := db_ledger d @ [ledger_entry u it res]\<rparr> \<and>
        (case res_record res of
           None \<Rightarrow> res_status res = Rejected
         | Some j \<Rightarrow> res_status res = Conflict \<and>
             (\<exists>r. look e (it_eid it) d = Some (r, j) \<and> ruser r = u \<and> res_version res = Some (rver r))))"

lemma settle_ledger: "settle u it res d = Inr (d', res') \<Longrightarrow>
    res' = res \<and> d' = d\<lparr>db_ledger := db_ledger d @ [ledger_entry u it res]\<rparr>"
  by (auto simp: settle_def store_ledger_def bindE_eq_Inr split: if_splits)

lemma refusal_Inl [simp, intro]: "refusal_ok e u it d (Inl x)"
  by (simp add: refusal_ok_def)

lemma refusal_reject [simp]: "refusal_ok e u it d (reject u it d)"
  by (auto simp: refusal_ok_def reject_def dest!: settle_ledger)

lemma refusal_insert [simp, intro]: "refusal_ok e u it d (commit_insert T u it op r d)"
  by (auto simp: refusal_ok_def commit_insert_def bindE_eq_Inr dest!: settle_ledger)

lemma refusal_update [simp, intro]: "refusal_ok e u it d (commit_update T u it op f t d)"
  by (auto simp: refusal_ok_def commit_update_def bindE_eq_Inr dest!: settle_ledger)

lemma refusal_bind_value:
  "(\<And>v. m = Inr v \<Longrightarrow> refusal_ok e u it d (k v)) \<Longrightarrow> refusal_ok e u it d (bindE m k)"
  by (cases m) auto

lemma refusal_cast_message:
  "(\<And>c v a. refusal_ok e u it d (k c v a)) \<Longrightarrow> refusal_ok e u it d (cast_message E cit ev ans k)"
  unfolding cast_message_def by (intro refusal_bind_value) simp

lemma refusal_cast_plan:
  "(\<And>a b c. refusal_ok e u it d (k a b c)) \<Longrightarrow> refusal_ok e u it d (cast_plan E p x y z k)"
  unfolding cast_plan_def by (intro refusal_bind_value) simp

context synced_table
begin

lemma refusal_conflict:
  assumes "fetch T u (it_eid it) d = Some q" and "e = tb_etype T"
  shows "refusal_ok e u it d (settle u it (conflict it (rver q) (rupdated q) (tb_json T q)) d)"
proof -
  have "look e (it_eid it) d = Some (abs_row (tb_json T) q) \<and> ruser q = u" if "wf d"
    using fetch_look [OF that assms(1)] fetch_Some [OF assms(1)] assms(2) by (simp add: look_own)
  then show ?thesis by (auto simp: refusal_ok_def abs_row_def dest!: settle_ledger)
qed

lemma refusal_gate:
  assumes "fetch T u (it_eid it) d = Some q" and "e = tb_etype T" and "refusal_ok e u it d m"
  shows "refusal_ok e u it d (version_gate T u it q d m)"
  using assms by (auto simp: version_gate_def intro: refusal_conflict)

end

text \<open>The 28 handlers.\<close>

lemma entry_conflict:
  assumes "fetch entries_tab u (it_eid it) d = Some r"
  shows "refusal_ok EEntry u it d (settle u it (conflict it (rver r) (rupdated r) (entry_record_json r)) d)"
  using entries.refusal_conflict [OF assms, of EEntry] by (simp add: entries_tab_def)

lemma refusal_apply_session:
  "\<not> is_delete it \<Longrightarrow> refusal_ok ESession u it d (apply_session E u it d)"
  unfolding apply_session_def Let_def
  by (auto simp: new_session_def Let_def split: option.split sum.split
      intro!: refusal_bind_value sessions.refusal_gate refusal_reject)

lemma refusal_apply_entry:
  "\<not> is_delete it \<Longrightarrow> refusal_ok EEntry u it d (apply_entry E u it d)"
  unfolding apply_entry_def apply_entry_upsert_def Let_def
  by (auto simp: new_entry_def Let_def split: option.split sum.split
      intro!: refusal_bind_value entries.refusal_gate refusal_reject entry_conflict)

lemma refusal_apply_bookmark:
  "\<not> is_delete it \<Longrightarrow> refusal_ok EBookmark u it d (apply_bookmark E u it d)"
  unfolding apply_bookmark_def Let_def
  by (auto simp: new_bookmark_def Let_def split: option.split sum.split
      intro!: refusal_bind_value bookmarks.refusal_gate refusal_reject)

lemma refusal_apply_favorite:
  "\<not> is_delete it \<Longrightarrow> refusal_ok EFavorite u it d (apply_favorite E u it d)"
  unfolding apply_favorite_def Let_def
  by (auto simp: new_favorite_def Let_def split: option.split sum.split
      intro!: refusal_bind_value favorites.refusal_gate refusal_reject)

lemma refusal_apply_course:
  "\<not> is_delete it \<Longrightarrow> refusal_ok ECourse u it d (apply_course E u it d)"
  unfolding apply_course_def Let_def
  by (auto simp: new_course_def Let_def split: option.split sum.split
      intro!: refusal_bind_value courses.refusal_gate refusal_reject)

lemma refusal_apply_note:
  "\<not> is_delete it \<Longrightarrow> refusal_ok ENote u it d (apply_note E u it d)"
  unfolding apply_note_def Let_def
  by (auto simp: new_note_def Let_def split: option.split sum.split
      intro!: refusal_bind_value session_notes.refusal_gate refusal_reject)

lemma refusal_apply_study_review:
  "\<not> is_delete it \<Longrightarrow> refusal_ok EStudyReview u it d (apply_study_review E u it d)"
  unfolding apply_study_review_def Let_def
  by (auto simp: new_review_def Let_def split: option.split sum.split
      intro!: refusal_bind_value reviews.refusal_gate refusal_reject)

lemma refusal_apply_attachment:
  "\<not> is_delete it \<Longrightarrow> refusal_ok EAttachment u it d (apply_attachment E u it d)"
  unfolding apply_attachment_def Let_def
  by (auto simp: new_attachment_def Let_def split: option.split sum.split
      intro!: refusal_bind_value attachments.refusal_gate refusal_reject)

lemma refusal_apply_term:
  "\<not> is_delete it \<Longrightarrow> refusal_ok ETerm u it d (apply_term E u it d)"
  unfolding apply_term_def Let_def
  by (auto simp: Let_def split: option.split sum.split
      intro!: refusal_bind_value terms.refusal_gate refusal_reject)

lemma refusal_apply_study_card:
  "\<not> is_delete it \<Longrightarrow> refusal_ok EStudyCard u it d (apply_study_card E u it d)"
  unfolding apply_study_card_def Let_def
  by (auto simp: Let_def split: option.split sum.split
      intro!: refusal_bind_value cards.refusal_gate refusal_reject)

lemma refusal_apply_study_task:
  "\<not> is_delete it \<Longrightarrow> refusal_ok EStudyTask u it d (apply_study_task E u it d)"
  unfolding apply_study_task_def Let_def
  by (auto simp: Let_def split: option.split sum.split
      intro!: refusal_bind_value tasks.refusal_gate refusal_reject)

lemma refusal_apply_correction:
  "\<not> is_delete it \<Longrightarrow> refusal_ok ETranscriptCorrection u it d (apply_correction E u it d)"
  unfolding apply_correction_def Let_def
  by (auto simp: new_correction_def Let_def split: option.split sum.split
      intro!: refusal_bind_value corrections.refusal_gate refusal_reject)

lemma refusal_apply_course_schedule:
  "\<not> is_delete it \<Longrightarrow> refusal_ok ECourseSchedule u it d (apply_course_schedule E u it d)"
  unfolding apply_course_schedule_def Let_def
  by (auto simp: new_schedule_def Let_def split: option.split sum.split
      intro!: refusal_bind_value schedules.refusal_gate refusal_reject)

lemma refusal_apply_schedule_exception:
  "\<not> is_delete it \<Longrightarrow> refusal_ok EScheduleException u it d (apply_schedule_exception E u it d)"
  unfolding apply_schedule_exception_def Let_def
  by (auto simp: new_exception_def Let_def split: option.split sum.split
      intro!: refusal_bind_value exceptions.refusal_gate refusal_reject)

lemma refusal_apply_material:
  "\<not> is_delete it \<Longrightarrow> refusal_ok EMaterial u it d (apply_material E u it d)"
  unfolding apply_material_def apply_material_upsert_def Let_def
  by (rule refusal_bind_value) (auto simp: new_material_def fetch_material_def Let_def split: option.splits
      intro!: refusal_bind_value materials.refusal_gate)

lemma refusal_apply_material_page:
  "\<not> is_delete it \<Longrightarrow> refusal_ok EMaterialPage u it d (apply_material_page E u it d)"
  unfolding apply_material_page_def Let_def
  by (auto simp: new_page_def Let_def split: option.split sum.split
      intro!: refusal_bind_value pages.refusal_gate refusal_reject)

lemma refusal_apply_material_annotation:
  "\<not> is_delete it \<Longrightarrow> refusal_ok EMaterialAnnotation u it d (apply_material_annotation E u it d)"
  unfolding apply_material_annotation_def Let_def
  by (auto simp: new_annotation_def Let_def split: option.split sum.split
      intro!: refusal_bind_value annotations.refusal_gate refusal_reject)

lemma refusal_apply_assistant_thread:
  "\<not> is_delete it \<Longrightarrow> refusal_ok EAssistantThread u it d (apply_assistant_thread E u it d)"
  unfolding apply_assistant_thread_def Let_def
  by (auto simp: new_thread_def Let_def split: option.split sum.split
      intro!: refusal_bind_value threads.refusal_gate refusal_reject)

lemma refusal_apply_assistant_message:
  "\<not> is_delete it \<Longrightarrow> refusal_ok EAssistantMessage u it d (apply_assistant_message E u it d)"
  unfolding apply_assistant_message_def Let_def
  by (auto simp: new_message_def Let_def split: option.split sum.split
      intro!: refusal_cast_message refusal_bind_value messages.refusal_gate refusal_reject)

lemma refusal_apply_exam:
  "\<not> is_delete it \<Longrightarrow> refusal_ok EExam u it d (apply_exam E u it d)"
  unfolding apply_exam_def apply_exam_delete_def Let_def
  by (auto simp: new_exam_def Let_def split: option.split sum.split
      intro!: refusal_bind_value exams.refusal_gate refusal_reject)

lemma refusal_apply_exam_topic:
  "\<not> is_delete it \<Longrightarrow> refusal_ok EExamTopic u it d (apply_exam_topic E u it d)"
  unfolding apply_exam_topic_def Let_def
  by (auto simp: new_topic_def Let_def split: option.split sum.split
      intro!: refusal_bind_value topics.refusal_gate refusal_reject)

lemma refusal_apply_study_plan:
  "\<not> is_delete it \<Longrightarrow> refusal_ok EStudyPlan u it d (apply_study_plan E u it d)"
  unfolding apply_study_plan_def apply_study_plan_upsert_def Let_def
  by (auto simp: new_plan_def Let_def split: option.split sum.split
      intro!: refusal_cast_plan refusal_bind_value plans.refusal_gate refusal_reject)

lemma refusal_apply_study_plan_item:
  "\<not> is_delete it \<Longrightarrow> refusal_ok EStudyPlanItem u it d (apply_study_plan_item E u it d)"
  unfolding apply_study_plan_item_def apply_study_plan_item_upsert_def Let_def
  by (auto simp: new_plan_item_def Let_def split: option.split sum.split
      intro!: refusal_bind_value plan_items.refusal_gate refusal_reject)

lemma refusal_apply_study_activity:
  "\<not> is_delete it \<Longrightarrow> refusal_ok EStudyActivity u it d (apply_study_activity E u it d)"
  unfolding apply_study_activity_def Let_def
  by (auto simp: new_activity_def Let_def split: option.split sum.split
      intro!: refusal_bind_value activities.refusal_gate refusal_reject)

lemma refusal_apply_interpreter_conversation:
  "\<not> is_delete it \<Longrightarrow> refusal_ok EInterpreterConversation u it d (apply_interpreter_conversation E u it d)"
  unfolding apply_interpreter_conversation_def Let_def
  by (auto simp: new_conversation_def Let_def split: option.split sum.split
      intro!: refusal_bind_value conversations.refusal_gate refusal_reject)

lemma refusal_apply_interpreter_turn:
  "\<not> is_delete it \<Longrightarrow> refusal_ok EInterpreterTurn u it d (apply_interpreter_turn E u it d)"
  unfolding apply_interpreter_turn_def Let_def
  by (auto simp: new_turn_def Let_def split: option.split sum.split
      intro!: refusal_bind_value turns.refusal_gate refusal_reject)

lemma refusal_apply_errand_case:
  "\<not> is_delete it \<Longrightarrow> refusal_ok EErrandCase u it d (apply_errand_case E u it d)"
  unfolding apply_errand_case_def Let_def
  by (auto simp: new_case_def Let_def split: option.split sum.split
      intro!: refusal_bind_value errand_cases.refusal_gate refusal_reject)

lemma refusal_apply_errand_case_item:
  "\<not> is_delete it \<Longrightarrow> refusal_ok EErrandCaseItem u it d (apply_errand_case_item E u it d)"
  unfolding apply_errand_case_item_def Let_def
  by (auto simp: new_case_item_def Let_def split: option.split sum.split
      intro!: refusal_bind_value case_items.refusal_gate refusal_reject)

lemmas handlers_answer =
  refusal_apply_session refusal_apply_entry refusal_apply_bookmark
  refusal_apply_favorite refusal_apply_course refusal_apply_note
  refusal_apply_study_review refusal_apply_attachment refusal_apply_term
  refusal_apply_study_card refusal_apply_study_task refusal_apply_correction
  refusal_apply_course_schedule refusal_apply_schedule_exception refusal_apply_material
  refusal_apply_material_page refusal_apply_material_annotation refusal_apply_assistant_thread
  refusal_apply_assistant_message refusal_apply_exam refusal_apply_exam_topic
  refusal_apply_study_plan refusal_apply_study_plan_item refusal_apply_study_activity
  refusal_apply_interpreter_conversation refusal_apply_interpreter_turn refusal_apply_errand_case
  refusal_apply_errand_case_item

lemma refusal_handler: "\<not> is_delete it \<Longrightarrow> refusal_ok e u it d (handler e E u it d)"
  by (cases e) (simp_all add: handlers_answer)

definition handled_as :: "push_item \<Rightarrow> etype" where
  "handled_as it = (case entity_of (it_etype it) of None \<Rightarrow> EStudyReview | Some e \<Rightarrow> e)"

lemma refusal_process:
  assumes "process handler E u it d = Inr (d', res)" and "wf d" and "res_status res \<noteq> Accepted"
  shows "refusal_ok (handled_as it) u it d (Inr (d', res))"
proof (cases "process handler E u it d = reject u it d")
  case True
  with assms(1) refusal_reject [of "handled_as it" u it d] show ?thesis by simp
next
  case False
  then have h: "handler (handled_as it) E u it d = Inr (d', res)"
    using assms(1) by (auto simp: process_def handled_as_def split: if_splits option.splits)
  have "\<not> is_delete it"
  proof
    assume "is_delete it"
    from buried_handler [OF this assms(2), of "handled_as it" u E] h assms(3) show False
      by (simp add: buried_def)
  qed
  from refusal_handler [OF this, of "handled_as it" u d E] h show ?thesis by simp
qed

section \<open>Records have their shape\<close>

text \<open>The languages of a session are members of its wire type that no record has.\<close>

lemma languages_are_never_sent:
  "session_record_json s = JObj kvs \<Longrightarrow> ''sourceLanguage'' \<notin> fst ` set kvs \<and> ''targetLanguage'' \<notin> fst ` set kvs"
  by (auto simp: session_record_json_def json_record_def null_field_def opt_field_def split: option.splits)

lemma view_wired: "\<forall>x\<in>set (view e d). wire_record e (rid (fst x)) (snd x)"
  by (cases e) (auto simp: abs_row_def records_wired)

lemma look_wired: "look e i d = Some (r, j) \<Longrightarrow> wire_record e i j"
  using view_wired [of e d] find_in_set [of "\<lambda>x. rid (fst x) = i" "view e d" "(r, j)"]
  by (auto simp: look_def)

text \<open>
  C4: An item that is not a replay and is not accepted changes no row and adds no change: it only
  writes its ledger row. It is rejected without a record, or it is a conflict with the version and the
  record of the row that the server has, whatever the item asked for; the record has the members of
  the wire type of its kind, none twice, with that kind and that id.
\<close>

theorem refusals_change_nothing:
  assumes "reachable d" and "apply_one E u it d = Inr (d', res)"
    and "find_ledger u (it_op_id it) d = None" and "res_status res \<noteq> Accepted"
  shows "d' = d\<lparr>db_ledger := db_ledger d @ [ledger_entry u it res]\<rparr> \<and>
    (case res_record res of
       None \<Rightarrow> res_status res = Rejected
     | Some j \<Rightarrow> res_status res = Conflict \<and> wire_record (handled_as it) (it_eid it) j \<and>
         (\<exists>r. look (handled_as it) (it_eid it) d = Some (r, j) \<and> ruser r = u \<and>
            res_version res = Some (rver r)))"
proof -
  have w: "wf d" by (rule history_okD(1) [OF reachable_history_ok [OF assms(1)]])
  from assms(2,3) have "process handler E u it d = Inr (d', res)"
    by (simp add: apply_one_def run_one_def)
  from refusal_process [OF this w assms(4)] w assms(4) show ?thesis
    by (auto simp: refusal_ok_def look_wired split: option.splits)
qed

definition stale_item :: push_item where
  "stale_item = blank_item 14 ECourse 7 ''upsert'' 0 (no_payload\<lparr>p_title := Some ''Optics''\<rparr>)"

definition refused :: "db_error + db \<times> push_result" where
  "refused = apply_one env0 1 stale_item db1"

lemma refused_status:
  "case refused of Inl e \<Rightarrow> False | Inr (d, res) \<Rightarrow> res_status res = Conflict \<and> res_record res \<noteq> None"
  by code_simp

lemma refusals_change_nothing_witness:
  "case refused of Inl e \<Rightarrow> False | Inr (d, res) \<Rightarrow>
     courses d = courses db1 \<and> res_record res = Some (course_record_json course_row0)"
proof -
  obtain d' res where r: "refused = Inr (d', res)" "res_status res = Conflict" "res_record res \<noteq> None"
    using refused_status by (auto split: sum.splits prod.splits)
  have f: "find_ledger 1 (it_op_id stale_item) db1 = None" by code_simp
  have h: "handled_as stale_item = ECourse" "it_eid stale_item = 7" by code_simp+
  have "res_status res \<noteq> Accepted" using r(2) by simp
  from refusals_change_nothing [OF reachable_db1 r(1) [unfolded refused_def] f this] r(3)
  show ?thesis by (auto simp: r(1) h look_db1)
qed

text \<open>Pulls.\<close>

lemma load_change_wired:
  assumes "load_change u d c = Inr x" and "pc_record x = Some j" and "wf d"
  shows "wire_record (pc_etype x) (pc_eid x) j \<and>
    (\<exists>r. look (pc_etype x) (pc_eid x) d = Some (r, j) \<and> ruser r = u)"
proof -
  from assms have "load_record u (pc_etype x) (pc_eid x) d = Inr (Some j)"
    by (auto simp: load_change_def Let_def bindE_eq_Inr split: if_splits)
  from load_record_look [OF assms(3) this] show ?thesis
    by (auto simp: owned_def look_wired split: option.splits if_splits)
qed

lemma load_changes_each:
  "load_changes u d cs = Inr xs \<Longrightarrow> x \<in> set xs \<Longrightarrow> \<exists>c\<in>set cs. load_change u d c = Inr x"
  by (induction cs arbitrary: xs) (auto simp: bindE_eq_Inr)

lemma pulled_change:
  assumes "pull u cursor n d = Inr resp" and "x \<in> set (pr_changes resp)"
  shows "\<exists>c. load_change u d c = Inr x"
proof -
  from assms(1) obtain cs where "load_changes u d cs = Inr (pr_changes resp)"
    by (auto simp: pull_def Let_def bindE_eq_Inr)
  from load_changes_each [OF this assms(2)] show ?thesis by blast
qed

text \<open>
  C10: Every record that a pull delivers is the user's own row as it is now, and has the members of the
  wire type of its kind, none twice, with the kind and the id of its change: the client decodes it
  without ambiguity.
\<close>

theorem pulled_records_have_their_shape:
  assumes "reachable d" and "pull u cursor n d = Inr resp" and "x \<in> set (pr_changes resp)"
    and "pc_record x = Some j"
  shows "wire_record (pc_etype x) (pc_eid x) j \<and>
    (\<exists>r. look (pc_etype x) (pc_eid x) d = Some (r, j) \<and> ruser r = u)"
proof -
  from pulled_change [OF assms(2,3)] obtain c where "load_change u d c = Inr x" by blast
  from load_change_wired [OF this assms(4) history_okD(1) [OF reachable_history_ok [OF assms(1)]]]
  show ?thesis .
qed

definition first_change :: pull_change where
  "first_change = \<lparr>pc_seq = 1, pc_etype = ECourse, pc_eid = 7, pc_op = Upsert, pc_version = 1,
     pc_record = Some (course_record_json course_row0)\<rparr>"

definition first_page :: pull_response where
  "first_page = \<lparr>pr_changes = [first_change], pr_next = 1, pr_more = False\<rparr>"

lemma pull_db1: "pull 1 0 10 db1 = Inr first_page"
  by code_simp

lemma pulled_records_have_their_shape_witness: "wire_record ECourse 7 (course_record_json course_row0)"
proof -
  have "first_change \<in> set (pr_changes first_page)" by (simp add: first_page_def)
  moreover have "pc_record first_change = Some (course_record_json course_row0)"
    by (simp add: first_change_def)
  ultimately show ?thesis
    using pulled_records_have_their_shape [OF reachable_db1 pull_db1, of first_change]
    by (simp add: first_change_def)
qed

end
