(* ===== verification/Retention.thy ===== *)
theory Retention
  imports Delivery
begin

text \<open>
  Rows leave the database in two ways only: the periodic cleanup (internal/sync/cleanup.go) removes
  tombstones, change-log entries and ledger rows that are older than the retention, and a purge
  (PurgeUserSyncData, internal/store/users.go) removes everything of one user. Both are sweeps of
  DELETE statements over all tables.
\<close>

section \<open>DELETE over the tables\<close>

definition drop_rows :: "'a row_scheme tab \<Rightarrow> (row \<Rightarrow> bool) \<Rightarrow> db \<Rightarrow> db" where
  "drop_rows T P d = tb_put T (filter (\<lambda>r. \<not> P (row.truncate r)) (tb_get T d)) d"

context synced_table
begin

lemma view_drop:
  "view e (drop_rows T P d) =
     (if e = tb_etype T then filter (\<lambda>x. \<not> P (fst x)) (view e d) else view e d)"
  by (simp add: drop_rows_def view_put view_get filter_map_eq abs_row_def)

lemma drop_others [simp]:
  "db_changes (drop_rows T P d) = db_changes d" "db_seq (drop_rows T P d) = db_seq d"
  "db_ledger (drop_rows T P d) = db_ledger d" "db_hooks (drop_rows T P d) = db_hooks d"
  by (simp_all add: drop_rows_def put_simps)

end

text \<open>A sweep runs one statement after the other.\<close>

primrec sweep :: "(db \<Rightarrow> db) list \<Rightarrow> db \<Rightarrow> db" where
  "sweep [] d = d"
| "sweep (f # fs) d = sweep fs (f d)"

text \<open>The tables in the order of RunTombstoneCleanup, the two with files first.\<close>

definition gc_tables :: "(row \<Rightarrow> bool) \<Rightarrow> db \<Rightarrow> db" where
  "gc_tables P =
     sweep
      [drop_rows attachments_tab P, drop_rows materials_tab P, drop_rows entries_tab P,
       drop_rows bookmarks_tab P, drop_rows favorites_tab P, drop_rows session_notes_tab P,
       drop_rows reviews_tab P, drop_rows sessions_tab P, drop_rows courses_tab P,
       drop_rows terms_tab P, drop_rows cards_tab P, drop_rows tasks_tab P,
       drop_rows corrections_tab P, drop_rows exceptions_tab P, drop_rows schedules_tab P,
       drop_rows pages_tab P, drop_rows annotations_tab P, drop_rows messages_tab P,
       drop_rows threads_tab P, drop_rows plan_items_tab P, drop_rows plans_tab P,
       drop_rows topics_tab P, drop_rows exams_tab P, drop_rows activities_tab P,
       drop_rows turns_tab P, drop_rows conversations_tab P, drop_rows case_items_tab P,
       drop_rows errand_cases_tab P]"

text \<open>The tables in the order of PurgeUserSyncData.\<close>

definition purge_tables :: "(row \<Rightarrow> bool) \<Rightarrow> db \<Rightarrow> db" where
  "purge_tables P =
     sweep
      [drop_rows entries_tab P, drop_rows bookmarks_tab P, drop_rows favorites_tab P,
       drop_rows session_notes_tab P, drop_rows reviews_tab P, drop_rows attachments_tab P,
       drop_rows sessions_tab P, drop_rows courses_tab P, drop_rows terms_tab P,
       drop_rows cards_tab P, drop_rows tasks_tab P, drop_rows corrections_tab P,
       drop_rows exceptions_tab P, drop_rows schedules_tab P, drop_rows pages_tab P,
       drop_rows annotations_tab P, drop_rows materials_tab P, drop_rows messages_tab P,
       drop_rows threads_tab P, drop_rows plan_items_tab P, drop_rows plans_tab P,
       drop_rows topics_tab P, drop_rows exams_tab P, drop_rows activities_tab P,
       drop_rows turns_tab P, drop_rows conversations_tab P, drop_rows case_items_tab P,
       drop_rows errand_cases_tab P]"

text \<open>What one statement of a sweep does: it drops rows of one type and touches nothing else.\<close>

definition drops :: "(row \<Rightarrow> bool) \<Rightarrow> (db \<Rightarrow> db) \<Rightarrow> etype \<Rightarrow> bool" where
  "drops P f e' \<longleftrightarrow>
     (\<forall>d. (\<forall>e. view e (f d) = (if e = e' then filter (\<lambda>x. \<not> P (fst x)) (view e d) else view e d)) \<and>
        db_changes (f d) = db_changes d \<and> db_seq (f d) = db_seq d \<and> db_ledger (f d) = db_ledger d \<and>
        db_hooks (f d) = db_hooks d)"

context synced_table
begin

lemma drops_rows: "drops P (drop_rows T P) (tb_etype T)"
  by (simp add: drops_def view_drop)

end

lemmas drops_tables =
  sessions.drops_rows entries.drops_rows bookmarks.drops_rows favorites.drops_rows
  courses.drops_rows session_notes.drops_rows reviews.drops_rows attachments.drops_rows
  terms.drops_rows cards.drops_rows tasks.drops_rows corrections.drops_rows schedules.drops_rows
  exceptions.drops_rows materials.drops_rows pages.drops_rows annotations.drops_rows
  threads.drops_rows messages.drops_rows exams.drops_rows topics.drops_rows plans.drops_rows
  plan_items.drops_rows activities.drops_rows conversations.drops_rows turns.drops_rows
  errand_cases.drops_rows case_items.drops_rows

lemmas drops_each = drops_tables [unfolded tab_etypes]

lemma sweep_drops:
  assumes "list_all2 (drops P) fs es"
  shows "(\<forall>e. view e (sweep fs d) = (if e \<in> set es then filter (\<lambda>x. \<not> P (fst x)) (view e d) else view e d)) \<and>
    db_changes (sweep fs d) = db_changes d \<and> db_seq (sweep fs d) = db_seq d \<and>
    db_ledger (sweep fs d) = db_ledger d \<and> db_hooks (sweep fs d) = db_hooks d"
  using assms
proof (induction fs es arbitrary: d rule: list_all2_induct)
  case (Cons f fs e es)
  then show ?case by (simp add: drops_def)
qed simp

lemma gc_drops:
  "view e (gc_tables P d) = filter (\<lambda>x. \<not> P (fst x)) (view e d) \<and> db_changes (gc_tables P d) = db_changes d \<and>
   db_seq (gc_tables P d) = db_seq d \<and> db_ledger (gc_tables P d) = db_ledger d \<and>
   db_hooks (gc_tables P d) = db_hooks d"
proof -
  have "list_all2 (drops P)
      [drop_rows attachments_tab P, drop_rows materials_tab P, drop_rows entries_tab P,
       drop_rows bookmarks_tab P, drop_rows favorites_tab P, drop_rows session_notes_tab P,
       drop_rows reviews_tab P, drop_rows sessions_tab P, drop_rows courses_tab P,
       drop_rows terms_tab P, drop_rows cards_tab P, drop_rows tasks_tab P,
       drop_rows corrections_tab P, drop_rows exceptions_tab P, drop_rows schedules_tab P,
       drop_rows pages_tab P, drop_rows annotations_tab P, drop_rows messages_tab P,
       drop_rows threads_tab P, drop_rows plan_items_tab P, drop_rows plans_tab P,
       drop_rows topics_tab P, drop_rows exams_tab P, drop_rows activities_tab P,
       drop_rows turns_tab P, drop_rows conversations_tab P, drop_rows case_items_tab P,
       drop_rows errand_cases_tab P]
      [EAttachment, EMaterial, EEntry, EBookmark, EFavorite, ENote, EStudyReview, ESession,
       ECourse, ETerm, EStudyCard, EStudyTask, ETranscriptCorrection, EScheduleException,
       ECourseSchedule, EMaterialPage, EMaterialAnnotation, EAssistantMessage,
       EAssistantThread, EStudyPlanItem, EStudyPlan, EExamTopic, EExam, EStudyActivity,
       EInterpreterTurn, EInterpreterConversation, EErrandCaseItem, EErrandCase]"
    by (simp only: list.rel_inject drops_each list.rel_intros simp_thms)
  from sweep_drops [OF this, of d] show ?thesis
    unfolding gc_tables_def by (cases e) simp_all
qed

lemma purge_drops:
  "view e (purge_tables P d) = filter (\<lambda>x. \<not> P (fst x)) (view e d) \<and>
   db_changes (purge_tables P d) = db_changes d \<and> db_seq (purge_tables P d) = db_seq d \<and>
   db_ledger (purge_tables P d) = db_ledger d \<and> db_hooks (purge_tables P d) = db_hooks d"
proof -
  have "list_all2 (drops P)
      [drop_rows entries_tab P, drop_rows bookmarks_tab P, drop_rows favorites_tab P,
       drop_rows session_notes_tab P, drop_rows reviews_tab P, drop_rows attachments_tab P,
       drop_rows sessions_tab P, drop_rows courses_tab P, drop_rows terms_tab P,
       drop_rows cards_tab P, drop_rows tasks_tab P, drop_rows corrections_tab P,
       drop_rows exceptions_tab P, drop_rows schedules_tab P, drop_rows pages_tab P,
       drop_rows annotations_tab P, drop_rows materials_tab P, drop_rows messages_tab P,
       drop_rows threads_tab P, drop_rows plan_items_tab P, drop_rows plans_tab P,
       drop_rows topics_tab P, drop_rows exams_tab P, drop_rows activities_tab P,
       drop_rows turns_tab P, drop_rows conversations_tab P, drop_rows case_items_tab P,
       drop_rows errand_cases_tab P]
      [EEntry, EBookmark, EFavorite, ENote, EStudyReview, EAttachment, ESession, ECourse,
       ETerm, EStudyCard, EStudyTask, ETranscriptCorrection, EScheduleException,
       ECourseSchedule, EMaterialPage, EMaterialAnnotation, EMaterial, EAssistantMessage,
       EAssistantThread, EStudyPlanItem, EStudyPlan, EExamTopic, EExam, EStudyActivity,
       EInterpreterTurn, EInterpreterConversation, EErrandCaseItem, EErrandCase]"
    by (simp only: list.rel_inject drops_each list.rel_intros simp_thms)
  from sweep_drops [OF this, of d] show ?thesis
    unfolding purge_tables_def by (cases e) simp_all
qed

lemmas view_gc_tables = gc_drops [THEN conjunct1]

lemmas view_purge_tables = purge_drops [THEN conjunct1]

lemma sweep_frames [simp]:
  "db_changes (gc_tables P d) = db_changes d" "db_seq (gc_tables P d) = db_seq d"
  "db_ledger (gc_tables P d) = db_ledger d" "db_hooks (gc_tables P d) = db_hooks d"
  "db_changes (purge_tables P d) = db_changes d" "db_seq (purge_tables P d) = db_seq d"
  "db_ledger (purge_tables P d) = db_ledger d" "db_hooks (purge_tables P d) = db_hooks d"
  using gc_drops [of undefined P d] purge_drops [of undefined P d] by simp_all

section \<open>The purge of a user\<close>

definition purge_user_sync_data :: "uuid \<Rightarrow> db \<Rightarrow> db" where
  "purge_user_sync_data u d =
     (purge_tables (\<lambda>r. ruser r = u) d)
       \<lparr>db_changes := filter (\<lambda>c. ch_user (snd c) \<noteq> u) (db_changes d),
        db_ledger := filter (\<lambda>l. lg_user l \<noteq> u) (db_ledger d)\<rparr>"

lemma view_changes_put [simp]: "view e (d\<lparr>db_changes := cs\<rparr>) = view e d"
  by (cases e) simp_all

lemma purge_simps [simp]:
  "view e (purge_user_sync_data u d) = filter (\<lambda>x. ruser (fst x) \<noteq> u) (view e d)"
  "db_changes (purge_user_sync_data u d) = filter (\<lambda>c. ch_user (snd c) \<noteq> u) (db_changes d)"
  "db_ledger (purge_user_sync_data u d) = filter (\<lambda>l. lg_user l \<noteq> u) (db_ledger d)"
  "db_seq (purge_user_sync_data u d) = db_seq d"
  by (simp_all add: purge_user_sync_data_def view_purge_tables)

section \<open>The cleanup\<close>

text \<open>
  The created\_at columns of the change log, by change\_sequence, and of the ledger, by user and
  operation: both are now() of the push that wrote the row.
\<close>

record stamped =
  st_db :: db
  st_changed :: "int \<Rightarrow> time"
  st_processed :: "uuid \<times> uuid \<Rightarrow> time"

definition push_at ::
  "env \<Rightarrow> uuid \<Rightarrow> push_item list \<Rightarrow> stamped \<Rightarrow> stamped \<times> (db_error + push_result list \<times> (uuid \<times> uuid) list)" where
  "push_at E u its X =
     (let d = st_db X; (d', r) = apply_push E u its d in
      (X\<lparr>st_db := d',
         st_changed := (\<lambda>s. if db_seq d < s then en_now E else st_changed X s),
         st_processed := (\<lambda>k. if find_ledger (fst k) (snd k) d = None then en_now E else st_processed X k)\<rparr>,
       r))"

text \<open>
  \<open>time.Duration(days) * 24 * time.Hour\<close> is a product of signed 64-bit nanoseconds, which wraps
  around; half a year replaces a retention that is not positive.
\<close>

definition retention_ns :: "int \<Rightarrow> int" where
  "retention_ns days =
     (let r = sint (word_of_int days * 24 * 3600000000000 :: 64 word) in
      if r \<le> 0 then 180 * 24 * 3600000000000 else r)"

definition retention :: "int \<Rightarrow> time" where
  "retention days = retention_ns days div 1000"

definition expired :: "time \<Rightarrow> row \<Rightarrow> bool" where
  "expired cutoff r \<longleftrightarrow> (case rdeleted r of None \<Rightarrow> False | Some t \<Rightarrow> t < cutoff)"

definition expired_ids :: "'a row_scheme tab \<Rightarrow> time \<Rightarrow> db \<Rightarrow> (uuid \<times> uuid) list" where
  "expired_ids T cutoff d =
     map (\<lambda>r. (ruser r, rid r)) (filter (\<lambda>r. expired cutoff (row.truncate r)) (tb_get T d))"

text \<open>
  \<open>RunTombstoneCleanup\<close>: the database afterwards, and the owners and ids of the attachments and
  materials whose files it removes when a file store is wired.
\<close>

definition run_tombstone_cleanup :: "bool \<Rightarrow> int \<Rightarrow> time \<Rightarrow> stamped \<Rightarrow> stamped \<times> (uuid \<times> uuid) list" where
  "run_tombstone_cleanup files days wall X =
     (let cutoff = wall - retention days; d = st_db X in
      (X\<lparr>st_db := (gc_tables (expired cutoff) d)
           \<lparr>db_changes := filter (\<lambda>c. \<not> st_changed X (fst c) < cutoff) (db_changes d),
            db_ledger := filter (\<lambda>l. \<not> st_processed X (lg_user l, lg_op_id l) < cutoff) (db_ledger d)\<rparr>\<rparr>,
       if files then expired_ids attachments_tab cutoff d @ expired_ids materials_tab cutoff d else []))"

lemma cleanup_simps:
  assumes "run_tombstone_cleanup files days wall X = (X', reaped)"
  shows "view e (st_db X') = filter (\<lambda>x. \<not> expired (wall - retention days) (fst x)) (view e (st_db X))"
    and "db_changes (st_db X') =
      filter (\<lambda>c. \<not> st_changed X (fst c) < wall - retention days) (db_changes (st_db X))"
    and "db_ledger (st_db X') =
      filter (\<lambda>l. \<not> st_processed X (lg_user l, lg_op_id l) < wall - retention days) (db_ledger (st_db X))"
    and "db_seq (st_db X') = db_seq (st_db X)"
  using assms by (auto simp: run_tombstone_cleanup_def Let_def view_gc_tables)

end
