(* ===== verification/Tokens.thy ===== *)
theory Tokens
  imports Prelude
begin

text \<open>
  Tokens (internal/token/token.go): the textual form of random refresh tokens, the six-digit email
  codes, the hashes the database stores, and the access tokens with key rotation. SHA-256 and the
  JWT library are parameters.
\<close>

unbundle bit_operations_syntax

section \<open>Text of random bytes\<close>

definition b64_alphabet :: string where
  "b64_alphabet = ''ABCDEFGHIJKLMNOPQRSTUVWXYZabcdefghijklmnopqrstuvwxyz0123456789-_''"

text \<open>
  \<open>base64URL\<close>: the accumulator is a Go int, never masked, so that old bytes are shifted out of
  its 64 bits; the shift to the right is arithmetic.
\<close>

definition b64_char :: "64 word \<Rightarrow> nat \<Rightarrow> char" where
  "b64_char acc bits = b64_alphabet ! unat (signed_drop_bit bits acc AND 0x3f)"

function b64_drain :: "64 word \<Rightarrow> nat \<Rightarrow> string \<Rightarrow> nat \<times> string" where
  "b64_drain acc bits out =
     (if 6 \<le> bits then b64_drain acc (bits - 6) (out @ [b64_char acc (bits - 6)]) else (bits, out))"
  by auto
termination by (relation "measure (\<lambda>(acc, bits, out). bits)") auto

declare b64_drain.simps [simp del]

definition shift_in :: "64 word \<Rightarrow> 8 word \<Rightarrow> 64 word" where
  "shift_in acc v = push_bit 8 acc OR ucast v"

primrec b64_loop :: "8 word list \<Rightarrow> 64 word \<Rightarrow> nat \<Rightarrow> string \<Rightarrow> string" where
  "b64_loop [] acc bits out = out"
| "b64_loop (v # bs) acc bits out =
     (let acc = shift_in acc v; (bits, out) = b64_drain acc (bits + 8) out in
      b64_loop bs acc bits out)"

definition base64_url :: "8 word list \<Rightarrow> string" where
  "base64_url bs = b64_loop bs 0 0 []"

text \<open>RFC 4648, section 5, without padding: three bytes are four sextets.\<close>

definition sextet :: "8 word \<Rightarrow> char" where
  "sextet w = b64_alphabet ! unat w"

fun rfc4648 :: "(8 word \<Rightarrow> char) \<Rightarrow> 8 word list \<Rightarrow> string" where
  "rfc4648 enc (a # b # c # bs) =
     [enc (drop_bit 2 a),
      enc (push_bit 4 (a AND 0x03) OR drop_bit 4 b),
      enc (push_bit 2 (b AND 0x0f) OR drop_bit 6 c),
      enc (c AND 0x3f)] @ rfc4648 enc bs"
| "rfc4648 enc [a, b] =
     [enc (drop_bit 2 a), enc (push_bit 4 (a AND 0x03) OR drop_bit 4 b),
      enc (push_bit 2 (b AND 0x0f))]"
| "rfc4648 enc [a] = [enc (drop_bit 2 a), enc (push_bit 4 (a AND 0x03))]"
| "rfc4648 enc [] = []"

lemma b64_drain_8: "b64_drain acc 8 out = (2, out @ [b64_char acc 2])"
  and b64_drain_10: "b64_drain acc 10 out = (4, out @ [b64_char acc 4])"
  and b64_drain_12: "b64_drain acc 12 out = (0, out @ [b64_char acc 6, b64_char acc 0])"
  by (simp_all add: b64_drain.simps)

lemma bit_shift_in: "bit (shift_in acc v) n \<longleftrightarrow> n < 64 \<and> (if n < 8 then bit v n else bit acc (n - 8))"
  unfolding shift_in_def
  using bit_imp_le_length [of v n]
  by (cases "n < 8") (auto simp: bit_or_iff bit_push_bit_iff bit_unsigned_iff)

text \<open>A character is determined by the six bits it stands for.\<close>

lemma b64_char_sextet:
  assumes "\<And>n. n < 6 \<Longrightarrow> bit acc (bits + n) = bit w n" and "\<And>n. 6 \<le> n \<Longrightarrow> \<not> bit w n" and "bits < 58"
  shows "b64_char acc bits = sextet w"
proof -
  have "signed_drop_bit bits acc AND mask 6 = (ucast w :: 64 word)"
  proof (rule bit_word_eqI)
    fix n
    show "bit (signed_drop_bit bits acc AND mask 6) n = bit (ucast w :: 64 word) n"
      using assms(1) [of n] assms(2) [of n] assms(3)
      by (cases "n < 6") (auto simp: bit_and_iff bit_mask_iff bit_unsigned_iff bit_signed_drop_bit_iff)
  qed
  moreover have "unat (ucast w :: 64 word) = unat w" 
    using unsigned_less [of w, where ?'a = nat] by (simp add: unsigned_ucast_eq take_bit_nat_eq_self)
  ultimately show ?thesis by (simp add: b64_char_def sextet_def mask_eq_exp_minus_1)
qed

lemma byte_bit: "bit (v :: 8 word) n \<Longrightarrow> n < 8"
  by (auto dest: bit_imp_le_length)

lemma b64_chars:
  fixes acc :: "64 word" and a b c :: "8 word"
  defines "A \<equiv> shift_in acc a"
  defines "B \<equiv> shift_in A b"
  defines "C \<equiv> shift_in B c"
  shows "b64_char A 2 = sextet (drop_bit 2 a)"
    and "b64_char B 4 = sextet (push_bit 4 (a AND mask 2) OR drop_bit 4 b)"
    and "b64_char C 6 = sextet (push_bit 2 (b AND mask 4) OR drop_bit 6 c)"
    and "b64_char C 0 = sextet (c AND mask 6)"
proof -
  show "b64_char A 2 = sextet (drop_bit 2 a)"
    unfolding A_def
    by (rule b64_char_sextet) (auto simp: bit_shift_in bit_drop_bit_eq dest: byte_bit)
  show "b64_char B 4 = sextet (push_bit 4 (a AND mask 2) OR drop_bit 4 b)"
    unfolding B_def A_def
    by (rule b64_char_sextet)
      (auto simp: bit_shift_in bit_or_iff bit_and_iff bit_push_bit_iff bit_drop_bit_eq bit_mask_iff
        dest: byte_bit)
  show "b64_char C 6 = sextet (push_bit 2 (b AND mask 4) OR drop_bit 6 c)"
  proof (rule b64_char_sextet)
    fix n :: nat
    have sum: "bit (push_bit 2 (b AND mask 4) OR drop_bit 6 c) n \<longleftrightarrow>
        (if n < 2 then bit c (6 + n) else n < 6 \<and> bit b (n - 2))"
      using byte_bit [of c "6 + n"]
      by (simp only: bit_or_iff bit_and_iff bit_push_bit_iff bit_drop_bit_eq bit_mask_iff comp_def
          possible_bit_word) auto
    show "bit C (6 + n) = bit (push_bit 2 (b AND mask 4) OR drop_bit 6 c) n" if "n < 6"
    proof (cases "n < 2")
      case True
      then show ?thesis by (simp only: sum) (simp add: C_def bit_shift_in)
    next
      case False
      then obtain k where "n = 2 + k" using le_Suc_ex not_less by blast
      with that have "bit C (6 + n) = bit b (n - 2)" by (simp add: C_def B_def bit_shift_in)
      with that False show ?thesis unfolding sum by simp
    qed
    show "\<not> bit (push_bit 2 (b AND mask 4) OR drop_bit 6 c) n" if "6 \<le> n"
      using that by (simp only: sum) simp
  qed simp
  show "b64_char C 0 = sextet (c AND mask 6)"
    unfolding C_def
    by (rule b64_char_sextet) (auto simp: bit_shift_in bit_and_iff bit_mask_iff)
qed

lemma masks: "(0x3f :: 8 word) = mask 6" "(0x0f :: 8 word) = mask 4" "(0x03 :: 8 word) = mask 2"
  by (simp_all add: mask_eq_exp_minus_1)

lemma b64_loop_rfc:
  "enc = sextet \<Longrightarrow> 3 dvd length bs \<Longrightarrow> b64_loop bs acc 0 out = out @ rfc4648 enc bs"
proof (induction enc bs arbitrary: acc out rule: rfc4648.induct)
  case (1 enc a b c bs)
  have "b64_loop (a # b # c # bs) acc 0 out =
      b64_loop bs (shift_in (shift_in (shift_in acc a) b) c) 0
        (out @ [sextet (drop_bit 2 a), sextet (push_bit 4 (a AND mask 2) OR drop_bit 4 b),
          sextet (push_bit 2 (b AND mask 4) OR drop_bit 6 c), sextet (c AND mask 6)])"
    by (simp only: b64_loop.simps Let_def add_0 prod.case b64_chars append_assoc append_Cons append_Nil
        b64_drain_8 b64_drain_10 b64_drain_12 one_add_one arith_simps)
  moreover have "3 dvd length bs" using "1.prems" by simp presburger
  ultimately show ?case using "1.prems"(1) by (simp only: "1.IH" rfc4648.simps masks append_assoc)
next
  case (2 enc a b)
  have "\<not> 3 dvd length [a, b]" by (simp, presburger)
  with 2 show ?case by blast
next
  case (3 enc a)
  have "\<not> 3 dvd length [a]" by simp
  with 3 show ?case by blast
qed simp

section \<open>Codes and hashes\<close>

definition hex_digit :: "nat \<Rightarrow> char" where
  "hex_digit n = ''0123456789abcdef'' ! n"

text \<open>\<open>hex.EncodeToString\<close>, over the bytes of \<open>NewOpaqueToken\<close> and of a SHA-256 sum.\<close>

definition hex_encode :: "8 word list \<Rightarrow> string" where
  "hex_encode bs =
     concat (map (\<lambda>b. [hex_digit (unat b div 16), hex_digit (unat b mod 16)]) bs)"

text \<open>\<open>fmt.Sprintf("%06d", n)\<close> for n below a million: six digits.\<close>

definition digit :: "nat \<Rightarrow> char" where
  "digit n = ''0123456789'' ! n"

primrec pad_digits :: "nat \<Rightarrow> nat \<Rightarrow> string" where
  "pad_digits 0 n = []"
| "pad_digits (Suc k) n = pad_digits k (n div 10) @ [digit (n mod 10)]"

definition email_code :: "8 word \<Rightarrow> 8 word \<Rightarrow> 8 word \<Rightarrow> 8 word \<Rightarrow> string" where
  "email_code b0 b1 b2 b3 =
     (let n = push_bit 24 (ucast b0) OR push_bit 16 (ucast b1) OR push_bit 8 (ucast b2) OR ucast b3
        :: 32 word
      in pad_digits 6 (unat (n mod 1000000)))"

definition hash_token :: "(string \<Rightarrow> 8 word list) \<Rightarrow> string \<Rightarrow> string" where
  "hash_token sha256 plain = hex_encode (sha256 plain)"

definition digit_value :: "char \<Rightarrow> nat" where
  "digit_value c = of_char c - 48"

definition is_digit :: "char \<Rightarrow> bool" where
  "is_digit c \<longleftrightarrow> c \<in> set ''0123456789''"

definition decimal_value :: "string \<Rightarrow> nat" where
  "decimal_value s = foldl (\<lambda>n c. 10 * n + digit_value c) 0 s"

lemma digit_value_digit: "n < 10 \<Longrightarrow> digit_value (digit n) = n"
  by (auto simp: digit_def digit_value_def less_Suc_eq numeral_eq_Suc)

lemma digit_is_digit: "n < 10 \<Longrightarrow> is_digit (digit n)"
  by (auto simp: digit_def is_digit_def less_Suc_eq numeral_eq_Suc)

lemma decimal_value_snoc: "decimal_value (s @ [c]) = 10 * decimal_value s + digit_value c"
  by (simp add: decimal_value_def)

lemma decimal_value_pad: "decimal_value (pad_digits k n) = n mod 10 ^ k"
proof (induction k arbitrary: n)
  case 0
  then show ?case by (simp add: decimal_value_def)
next
  case (Suc k)
  have "10 * (n div 10 mod 10 ^ k) + n mod 10 = n mod 10 ^ Suc k"
    by (simp add: mod_mult2_eq)
  then show ?case
    by (simp only: pad_digits.simps decimal_value_snoc Suc.IH digit_value_digit mod_less_divisor zero_less_numeral)
qed

lemma pad_digits_length [simp]: "length (pad_digits k n) = k"
  by (induction k arbitrary: n) simp_all

lemma pad_digits_digits: "list_all is_digit (pad_digits k n)"
  by (induction k arbitrary: n) (simp_all add: digit_is_digit)

text \<open>Two tokens are equal only if their random bytes are.\<close>

lemma hex_digit_inj: "m < 16 \<Longrightarrow> n < 16 \<Longrightarrow> hex_digit m = hex_digit n \<longleftrightarrow> m = n"
  by (auto simp: hex_digit_def less_Suc_eq numeral_eq_Suc)

lemma hex_encode_inj: "hex_encode bs = hex_encode cs \<longleftrightarrow> bs = cs"
proof (induction bs arbitrary: cs)
  case (Cons b bs)
  show ?case
  proof (cases cs)
    case (Cons c cs')
    have "b = c" if "unat b div 16 = unat c div 16" "unat b mod 16 = unat c mod 16"
      using that by (metis div_mult_mod_eq word_unat_eq_iff)
    moreover have "unat x div 16 < 16" for x :: "8 word"
      using unsigned_less [of x, where ?'a = nat] by (simp add: less_mult_imp_div_less)
    ultimately show ?thesis
      using Cons.IH by (auto simp: Cons hex_encode_def hex_digit_inj)
  qed (simp add: hex_encode_def)
next
  case Nil
  then show ?case by (cases cs) (simp_all add: hex_encode_def)
qed

section \<open>Access tokens\<close>

text \<open>
  The JWT library: \<open>jw_sign\<close> makes the signed text of the string claims with their iat and exp
  (in seconds) under a secret; \<open>jw_parse\<close> checks a text with HS256, a secret, an issuer and the
  time, and gives the string claims.
\<close>

type_synonym claims = "(string \<times> string) list"

record jwt_library =
  jw_sign :: "string \<Rightarrow> claims \<Rightarrow> int \<Rightarrow> int \<Rightarrow> string"
  jw_parse :: "time \<Rightarrow> string \<Rightarrow> string \<Rightarrow> string \<Rightarrow> claims option"

record manager =
  mg_secret :: string
  mg_previous :: "string option"
  mg_issuer :: string
  mg_access_ttl :: time
  mg_refresh_ttl :: time

definition new_manager :: "string \<Rightarrow> string \<Rightarrow> string \<Rightarrow> time \<Rightarrow> time \<Rightarrow> manager" where
  "new_manager secret previous issuer access refresh =
     \<lparr>mg_secret = secret,
      mg_previous = (if previous \<noteq> [] \<and> previous \<noteq> secret then Some previous else None),
      mg_issuer = issuer, mg_access_ttl = access, mg_refresh_ttl = refresh\<rparr>"

record access_claims =
  acl_user :: string
  acl_device :: string
  acl_token :: string
  acl_role :: string

definition unix_seconds :: "time \<Rightarrow> int" where
  "unix_seconds t = t div 1000000"

definition access_token_claims :: "manager \<Rightarrow> 8 word list \<Rightarrow> string \<Rightarrow> string \<Rightarrow> string \<Rightarrow> claims" where
  "access_token_claims M jti user device role =
     [(''iss'', mg_issuer M), (''sub'', user), (''dev'', device), (''jti'', hex_encode jti),
      (''rol'', role)]"

definition new_access_token ::
  "jwt_library \<Rightarrow> manager \<Rightarrow> time \<Rightarrow> 8 word list \<Rightarrow> string \<Rightarrow> string \<Rightarrow> string \<Rightarrow> string \<times> time" where
  "new_access_token J M now jti user device role =
     (jw_sign J (mg_secret M)
        (access_token_claims M jti user device role)
        (unix_seconds now) (unix_seconds (now + mg_access_ttl M)),
      mg_access_ttl M)"

definition string_claim :: "claims \<Rightarrow> string \<Rightarrow> string" where
  "string_claim c k = (case map_of c k of None \<Rightarrow> [] | Some v \<Rightarrow> v)"

definition parse_with_secret ::
  "jwt_library \<Rightarrow> manager \<Rightarrow> time \<Rightarrow> string \<Rightarrow> string \<Rightarrow> access_claims option" where
  "parse_with_secret J M now raw secret =
     (case jw_parse J now (mg_issuer M) secret raw of
        None \<Rightarrow> None
      | Some c \<Rightarrow>
          if string_claim c ''sub'' = [] \<or> string_claim c ''dev'' = [] then None
          else Some \<lparr>acl_user = string_claim c ''sub'', acl_device = string_claim c ''dev'',
                     acl_token = string_claim c ''jti'', acl_role = string_claim c ''rol''\<rparr>)"

definition verify_access_token ::
  "jwt_library \<Rightarrow> manager \<Rightarrow> time \<Rightarrow> string \<Rightarrow> access_claims option" where
  "verify_access_token J M now raw =
     (case parse_with_secret J M now raw (mg_secret M) of
        Some c \<Rightarrow> Some c
      | None \<Rightarrow>
          (case mg_previous M of
             None \<Rightarrow> None
           | Some p \<Rightarrow> parse_with_secret J M now raw p))"

text \<open>
  What the library documents of a token signed under a secret for an issuer: with that secret and
  issuer it parses to its claims before its expiry and not from then on; under another secret it
  does not parse.
\<close>

definition signed_ok :: "jwt_library \<Rightarrow> string \<Rightarrow> string \<Rightarrow> claims \<Rightarrow> int \<Rightarrow> int \<Rightarrow> bool" where
  "signed_ok J iss s c iat expiry \<longleftrightarrow>
     (\<forall>now s'. jw_parse J now iss s' (jw_sign J s c iat expiry) =
        (if s' = s \<and> unix_seconds now < expiry then Some c else None))"

lemma string_claims [simp]:
  "string_claim (access_token_claims M jti user device role) ''sub'' = user"
  "string_claim (access_token_claims M jti user device role) ''dev'' = device"
  "string_claim (access_token_claims M jti user device role) ''jti'' = hex_encode jti"
  "string_claim (access_token_claims M jti user device role) ''rol'' = role"
  by (simp_all add: string_claim_def access_token_claims_def)

text \<open>A manager knows a secret if it signs with it, or signed with it before the last rotation.\<close>

definition knows :: "manager \<Rightarrow> string \<Rightarrow> bool" where
  "knows M s \<longleftrightarrow> mg_secret M = s \<or> mg_previous M = Some s"

lemma verify_signed:
  assumes "signed_ok J (mg_issuer M) s (access_token_claims N jti user device role) iat expiry"
    and "user \<noteq> []" and "device \<noteq> []"
  shows "verify_access_token J M now (jw_sign J s (access_token_claims N jti user device role) iat expiry) =
    (if knows M s \<and> unix_seconds now < expiry
     then Some \<lparr>acl_user = user, acl_device = device, acl_token = hex_encode jti, acl_role = role\<rparr>
     else None)"
  using assms by (auto simp: verify_access_token_def parse_with_secret_def signed_ok_def knows_def
      split: option.split)

end
