(* ===== verification/Passwords.thy ===== *)
theory Passwords
  imports Tokens
begin

text \<open>
  Passwords (internal/password/password.go): Argon2id hashes in the PHC string format, their
  verification, the re-hash test, and the password policy. The Argon2id key derivation and the
  Unicode tables (lower case, printable characters, white space) are parameters.
\<close>

section \<open>Base64 without padding\<close>

definition std_alphabet :: string where
  "std_alphabet = ''ABCDEFGHIJKLMNOPQRSTUVWXYZabcdefghijklmnopqrstuvwxyz0123456789+/''"

definition std_sextet :: "8 word \<Rightarrow> char" where
  "std_sextet w = std_alphabet ! unat w"

definition std_value :: "char \<Rightarrow> 8 word option" where
  "std_value c = map_option of_nat (find (\<lambda>i. std_alphabet ! i = c) [0..<64])"

text \<open>
  \<open>base64.RawStdEncoding\<close>: the decoder skips line ends, refuses any other character outside the
  alphabet, and does not look at the bits that a short last group leaves over.
\<close>

fun std_bytes :: "8 word list \<Rightarrow> 8 word list option" where
  "std_bytes (p # q # r # s # ws) =
     map_option (\<lambda>bs. [push_bit 2 p OR drop_bit 4 q, push_bit 4 q OR drop_bit 2 r, push_bit 6 r OR s] @ bs)
       (std_bytes ws)"
| "std_bytes [p, q, r] = Some [push_bit 2 p OR drop_bit 4 q, push_bit 4 q OR drop_bit 2 r]"
| "std_bytes [p, q] = Some [push_bit 2 p OR drop_bit 4 q]"
| "std_bytes [p] = None"
| "std_bytes [] = Some []"

definition std_encode :: "8 word list \<Rightarrow> string" where
  "std_encode bs = rfc4648 std_sextet bs"

definition std_decode :: "string \<Rightarrow> 8 word list option" where
  "std_decode s =
     (let vs = map std_value (filter (\<lambda>c. c \<noteq> CHR 0x0A \<and> c \<noteq> CHR 0x0D) s) in
      if None \<in> set vs then None else std_bytes (map the vs))"

section \<open>Reading numbers\<close>

primrec decimal_aux :: "nat \<Rightarrow> nat \<Rightarrow> string \<Rightarrow> string" where
  "decimal_aux 0 n s = s"
| "decimal_aux (Suc k) n s =
     (if n < 10 then digit n # s else decimal_aux k (n div 10) (digit (n mod 10) # s))"

text \<open>\<open>%d\<close> of a non-negative number, and what Sscanf reads for it: white space, then digits.\<close>

definition decimal :: "nat \<Rightarrow> string" where
  "decimal n = decimal_aux (Suc n) n []"

definition scan_space :: "string \<Rightarrow> string" where
  "scan_space s = dropWhile (\<lambda>c. c \<in> {CHR 0x09, CHR 0x0B, CHR 0x0C, CHR 0x0D, CHR '' ''}) s"

definition scan_digits :: "nat \<Rightarrow> string \<Rightarrow> (nat \<times> string) option" where
  "scan_digits bound s =
     (let ds = takeWhile is_digit s in
      if ds = [] \<or> bound < decimal_value ds then None
      else Some (decimal_value ds, dropWhile is_digit s))"

definition scan_uint :: "nat \<Rightarrow> string \<Rightarrow> (nat \<times> string) option" where
  "scan_uint bound s = scan_digits bound (scan_space s)"

definition scan_int :: "string \<Rightarrow> (int \<times> string) option" where
  "scan_int s =
     (let s = scan_space s in
      if s \<noteq> [] \<and> hd s = CHR ''-''
      then map_option (\<lambda>x. (- int (fst x), snd x)) (scan_digits 9223372036854775808 (tl s))
      else if s \<noteq> [] \<and> hd s = CHR ''+''
      then map_option (\<lambda>x. (int (fst x), snd x)) (scan_digits 9223372036854775807 (tl s))
      else map_option (\<lambda>x. (int (fst x), snd x)) (scan_digits 9223372036854775807 s))"

definition scan_literal :: "string \<Rightarrow> string \<Rightarrow> string option" where
  "scan_literal p s = (if take (length p) s = p then Some (drop (length p) s) else None)"

definition scan_field :: "string \<Rightarrow> nat \<Rightarrow> string \<Rightarrow> (nat \<times> string) option" where
  "scan_field p bound s = (case scan_literal p s of None \<Rightarrow> None | Some s \<Rightarrow> scan_uint bound s)"

section \<open>PHC strings\<close>

record params =
  pm_memory :: "32 word"
  pm_iterations :: "32 word"
  pm_parallel :: "8 word"
  pm_salt_len :: nat
  pm_key_len :: "32 word"

text \<open>
  The Argon2id library: its version number, and the key of a password, a salt, the iterations,
  the memory, the parallelism and the length of the key.
\<close>

record argon_library =
  ar_version :: nat
  ar_key :: "string \<Rightarrow> 8 word list \<Rightarrow> 32 word \<Rightarrow> 32 word \<Rightarrow> 8 word \<Rightarrow> 32 word \<Rightarrow> 8 word list"

definition hash_password :: "argon_library \<Rightarrow> 8 word list \<Rightarrow> string \<Rightarrow> params \<Rightarrow> string" where
  "hash_password A salt plain p =
     (let key = ar_key A plain salt (pm_iterations p) (pm_memory p) (pm_parallel p) (pm_key_len p) in
      ''$argon2id$v='' @ decimal (ar_version A) @ ''$m='' @ decimal (unat (pm_memory p)) @ '',t='' @
      decimal (unat (pm_iterations p)) @ '',p='' @ decimal (unat (pm_parallel p)) @ ''$'' @
      std_encode salt @ ''$'' @ std_encode key)"

record decoded =
  dc_salt :: "8 word list"
  dc_key :: "8 word list"
  dc_params :: params

fun split_on :: "char \<Rightarrow> string \<Rightarrow> string list" where
  "split_on c [] = [[]]"
| "split_on c (x # s) =
     (if x = c then [] # split_on c s
      else (case split_on c s of [] \<Rightarrow> [[x]] | w # ws \<Rightarrow> (x # w) # ws))"

definition scan_params :: "string \<Rightarrow> (nat \<times> nat \<times> nat) option" where
  "scan_params s =
     (case scan_field ''m='' 4294967295 s of
        None \<Rightarrow> None
      | Some (m, s) \<Rightarrow>
          (case scan_field '',t='' 4294967295 s of
             None \<Rightarrow> None
           | Some (t, s) \<Rightarrow>
               (case scan_field '',p='' 255 s of
                  None \<Rightarrow> None
                | Some (p, s) \<Rightarrow> Some (m, t, p))))"

definition decode_phc :: "argon_library \<Rightarrow> string \<Rightarrow> decoded option" where
  "decode_phc A hash =
     (let parts = split_on CHR ''$'' hash in
      if length parts \<noteq> 6 \<or> parts ! 1 \<noteq> ''argon2id'' then None
      else
        (case scan_literal ''v='' (parts ! 2) of
           None \<Rightarrow> None
         | Some s \<Rightarrow>
             (case scan_int s of
                None \<Rightarrow> None
              | Some (version, s) \<Rightarrow>
                  if version \<noteq> int (ar_version A) then None
                  else
                    (case scan_params (parts ! 3) of
                       None \<Rightarrow> None
                     | Some (m, t, p) \<Rightarrow>
                         (case std_decode (parts ! 4) of
                            None \<Rightarrow> None
                          | Some salt \<Rightarrow>
                              (case std_decode (parts ! 5) of
                                 None \<Rightarrow> None
                               | Some key \<Rightarrow>
                                   Some \<lparr>dc_salt = salt, dc_key = key,
                                     dc_params = \<lparr>pm_memory = of_nat m, pm_iterations = of_nat t,
                                       pm_parallel = of_nat p, pm_salt_len = 16,
                                       pm_key_len = of_nat (length key)\<rparr>\<rparr>))))))"

text \<open>\<open>Verify\<close>: \<open>None\<close> is the error for a hash that does not decode.\<close>

definition verify_password :: "argon_library \<Rightarrow> string \<Rightarrow> string \<Rightarrow> bool option" where
  "verify_password A plain hash =
     (case decode_phc A hash of
        None \<Rightarrow> None
      | Some d \<Rightarrow>
          (let p = dc_params d in
           Some (ar_key A plain (dc_salt d) (pm_iterations p) (pm_memory p) (pm_parallel p)
                   (pm_key_len p) = dc_key d)))"

definition needs_rehash :: "argon_library \<Rightarrow> string \<Rightarrow> params \<Rightarrow> bool" where
  "needs_rehash A hash current =
     (case decode_phc A hash of
        None \<Rightarrow> True
      | Some d \<Rightarrow>
          (let p = dc_params d in
           pm_memory p \<noteq> pm_memory current \<or> pm_iterations p \<noteq> pm_iterations current \<or>
           pm_parallel p \<noteq> pm_parallel current))"

section \<open>What is written can be read\<close>

lemma std_alphabet_length: "length std_alphabet = 64"
  by (simp add: std_alphabet_def)

lemma std_alphabet_distinct: "distinct std_alphabet"
  by (simp add: std_alphabet_def)

lemma std_value_sextet:
  assumes "w < 64"
  shows "std_value (std_sextet w) = Some w"
proof -
  have "unat w < 64" using assms by (simp add: word_less_nat_alt)
  then have "find (\<lambda>i. std_alphabet ! i = std_alphabet ! unat w) [0..<64] = Some (unat w)"
    using std_alphabet_distinct find_distinct_key [of "\<lambda>i. std_alphabet ! i" "[0..<64]" "unat w"]
    by (simp add: std_alphabet_length map_nth flip: std_alphabet_length)
  then show ?thesis by (simp add: std_value_def std_sextet_def)
qed

fun sextets :: "8 word list \<Rightarrow> 8 word list" where
  "sextets (a # b # c # bs) =
     [drop_bit 2 a, push_bit 4 (a AND 0x03) OR drop_bit 4 b, push_bit 2 (b AND 0x0f) OR drop_bit 6 c,
      c AND 0x3f] @ sextets bs"
| "sextets [a, b] =
     [drop_bit 2 a, push_bit 4 (a AND 0x03) OR drop_bit 4 b, push_bit 2 (b AND 0x0f)]"
| "sextets [a] = [drop_bit 2 a, push_bit 4 (a AND 0x03)]"
| "sextets [] = []"

lemma rfc4648_sextets: "rfc4648 enc bs = map enc (sextets bs)"
  by (induction bs rule: sextets.induct) simp_all

lemma byte_eqI:
  assumes "\<And>n. n \<in> {0, 1, 2, 3, 4, 5, 6, 7} \<Longrightarrow> bit x n = bit y n"
  shows "x = (y :: 8 word)"
proof (rule bit_word_eqI)
  fix n :: nat
  assume "n < LENGTH(8)"
  then have "n \<in> {0, 1, 2, 3, 4, 5, 6, 7}" by auto
  then show "bit x n = bit y n" by (rule assms)
qed

lemmas bit_shapes = bit_or_iff bit_and_iff bit_push_bit_iff bit_drop_bit_eq bit_mask_iff comp_def
  possible_bit_word

lemma high_bits: "8 \<le> n \<Longrightarrow> \<not> bit (w :: 8 word) n"
  using byte_bit [of w n] by auto

lemma sextet_joins:
  fixes a b c :: "8 word"
  shows "push_bit 2 (drop_bit 2 a) OR drop_bit 4 (push_bit 4 (a AND mask 2) OR drop_bit 4 b) = a"
    and "push_bit 4 (push_bit 4 (a AND mask 2) OR drop_bit 4 b) OR
      drop_bit 2 (push_bit 2 (b AND mask 4) OR drop_bit 6 c) = b"
    and "push_bit 6 (push_bit 2 (b AND mask 4) OR drop_bit 6 c) OR (c AND mask 6) = c"
  by (rule byte_eqI, simp only: bit_shapes insert_iff empty_iff, elim disjE;
      simp add: high_bits numeral_eq_Suc)+

lemma sextet_tails:
  fixes a b :: "8 word"
  shows "push_bit 2 (drop_bit 2 a) OR drop_bit 4 (push_bit 4 (a AND mask 2)) = a"
    and "push_bit 4 (push_bit 4 (a AND mask 2) OR drop_bit 4 b) OR drop_bit 2 (push_bit 2 (b AND mask 4)) = b"
  by (rule byte_eqI, simp only: bit_shapes insert_iff empty_iff, elim disjE;
      simp add: high_bits numeral_eq_Suc)+

lemma bytes_sextets: "std_bytes (sextets bs) = Some bs"
  by (induction bs rule: sextets.induct)
    (simp_all only: sextets.simps std_bytes.simps append_Cons append_Nil masks sextet_joins
      sextet_tails option.map)

lemma below_64:
  assumes "\<And>n. 6 \<le> n \<Longrightarrow> \<not> bit w n"
  shows "w < (64 :: 8 word)"
proof -
  have "take_bit 6 w = w" by (rule bit_word_eqI) (use assms not_le in \<open>auto simp: bit_take_bit_iff\<close>)
  then have "unat w = take_bit 6 (unat w)" by (metis unsigned_take_bit_eq)
  also have "\<dots> < 64" using take_bit_nat_less_exp [of 6 "unat w"] by simp
  finally show ?thesis by (simp add: word_less_nat_alt)
qed

lemma sextet_bounds:
  fixes a b c :: "8 word"
  shows "drop_bit 2 a < 64" "push_bit 4 (a AND mask 2) OR drop_bit 4 b < 64"
    "push_bit 2 (b AND mask 4) OR drop_bit 6 c < 64" "c AND mask 6 < 64"
    "push_bit 4 (a AND mask 2) < 64" "push_bit 2 (b AND mask 4) < 64"
  by (rule below_64, simp only: bit_shapes, force simp: high_bits)+

lemma sextets_small: "\<forall>w\<in>set (sextets bs). w < 64"
  by (induction bs rule: sextets.induct)
    (simp_all only: sextets.simps append_Cons append_Nil list.set ball_simps masks sextet_bounds simp_thms)

lemma std_encode_chars: "c \<in> set (std_encode bs) \<Longrightarrow> c \<in> set std_alphabet"
proof -
  assume "c \<in> set (std_encode bs)"
  then obtain w where "w \<in> set (sextets bs)" "c = std_sextet w"
    by (auto simp: std_encode_def rfc4648_sextets)
  moreover from this have "unat w < 64" using sextets_small [of bs] by (simp add: word_less_nat_alt)
  ultimately show ?thesis by (simp add: std_sextet_def std_alphabet_length)
qed

lemma std_alphabet_plain: "set std_alphabet \<inter> {CHR 0x0A, CHR 0x0D, CHR ''$''} = {}"
  by (simp add: std_alphabet_def)

lemma std_decode_encode: "std_decode (std_encode bs) = Some bs"
proof -
  have "filter (\<lambda>c. c \<noteq> CHR 0x0A \<and> c \<noteq> CHR 0x0D) (std_encode bs) = std_encode bs"
    using std_encode_chars std_alphabet_plain by (intro filter_True) blast
  moreover have "map std_value (std_encode bs) = map Some (sextets bs)"
    by (simp add: std_encode_def rfc4648_sextets std_value_sextet sextets_small)
  ultimately show ?thesis
    using bytes_sextets [of bs] by (simp add: std_decode_def Let_def image_iff comp_def)
qed

text \<open>Decimal numbers.\<close>

lemma decimal_aux_digits:
  "n < k \<Longrightarrow> \<exists>ds. decimal_aux k n s = ds @ s \<and> ds \<noteq> [] \<and> list_all is_digit ds \<and> decimal_value ds = n"
proof (induction k arbitrary: n s)
  case (Suc k)
  show ?case
  proof (cases "n < 10")
    case True
    then have "decimal_aux (Suc k) n s = [digit n] @ s \<and> list_all is_digit [digit n] \<and>
        decimal_value [digit n] = n"
      by (simp add: digit_is_digit decimal_value_def digit_value_digit)
    then show ?thesis by blast
  next
    case False
    then have "n div 10 < k" using Suc.prems by simp
    from Suc.IH [OF this, of "digit (n mod 10) # s"] obtain ds
      where ds: "decimal_aux k (n div 10) (digit (n mod 10) # s) = ds @ digit (n mod 10) # s"
        "ds \<noteq> []" "list_all is_digit ds" "decimal_value ds = n div 10" by blast
    then have "decimal_aux (Suc k) n s = (ds @ [digit (n mod 10)]) @ s" using False by simp
    moreover have "list_all is_digit (ds @ [digit (n mod 10)])"
      using ds(3) by (simp add: digit_is_digit)
    moreover have "decimal_value (ds @ [digit (n mod 10)]) = n"
      by (simp add: decimal_value_snoc ds(4) digit_value_digit)
    ultimately show ?thesis by blast
  qed
qed simp

lemma decimal_digits: "decimal n \<noteq> []" "list_all is_digit (decimal n)" "decimal_value (decimal n) = n"
  using decimal_aux_digits [of n "Suc n" "[]"] by (auto simp: decimal_def)

lemma takeWhile_digits:
  assumes "list_all P ds" and "r = [] \<or> \<not> P (hd r)"
  shows "takeWhile P (ds @ r) = ds" and "dropWhile P (ds @ r) = r"
  using assms by (induction ds; cases r; simp)+

lemma scan_digits_decimal:
  assumes "n \<le> bound" and "r = [] \<or> \<not> is_digit (hd r)"
  shows "scan_digits bound (decimal n @ r) = Some (n, r)"
  using assms decimal_digits [of n]
  by (simp add: scan_digits_def Let_def takeWhile_digits not_less)

lemma digit_char: "is_digit c \<Longrightarrow> c \<notin> {CHR 0x09, CHR 0x0B, CHR 0x0C, CHR 0x0D, CHR '' '', CHR ''-'', CHR ''+'', CHR ''$''}"
  by (auto simp: is_digit_def)

lemma decimal_hd: "is_digit (hd (decimal n @ r))" "decimal n @ r \<noteq> []"
  using decimal_digits(1,2) [of n] by (cases "decimal n"; simp)+

lemma scan_space_decimal: "scan_space (decimal n @ r) = decimal n @ r"
  using decimal_hd [of n r] digit_char by (cases "decimal n @ r") (auto simp: scan_space_def)

lemma scan_uint_decimal:
  "n \<le> bound \<Longrightarrow> r = [] \<or> \<not> is_digit (hd r) \<Longrightarrow> scan_uint bound (decimal n @ r) = Some (n, r)"
  by (simp add: scan_uint_def scan_space_decimal scan_digits_decimal)

lemma scan_int_decimal:
  "n \<le> 9223372036854775807 \<Longrightarrow> r = [] \<or> \<not> is_digit (hd r) \<Longrightarrow>
     scan_int (decimal n @ r) = Some (int n, r)"
  using decimal_hd [of n r] digit_char [of "hd (decimal n @ r)"]
  by (auto simp: scan_int_def scan_space_decimal scan_digits_decimal Let_def)

lemma scan_literal_append [simp]: "scan_literal p (p @ s) = Some s"
  by (simp add: scan_literal_def)

lemma scan_params_written:
  assumes "m \<le> 4294967295" "t \<le> 4294967295" "p \<le> 255"
  shows "scan_params (''m='' @ decimal m @ '',t='' @ decimal t @ '',p='' @ decimal p) = Some (m, t, p)"
proof -
  have field: "scan_field q b (q @ decimal n @ r) = Some (n, r)"
    if "n \<le> b" "r = [] \<or> \<not> is_digit (hd r)" for q b n r
    using that by (simp add: scan_field_def scan_uint_decimal)
  have stop: "\<not> is_digit (hd ('',t='' @ s))" "\<not> is_digit (hd ('',p='' @ s))" for s
    by (simp_all add: is_digit_def)
  show ?thesis
    using field [of m 4294967295 "'',t='' @ decimal t @ '',p='' @ decimal p" "''m=''"]
      field [of t 4294967295 "'',p='' @ decimal p" "'',t=''"] field [of p 255 "[]" "'',p=''"] assms stop
    by (simp only: scan_params_def option.case prod.case append_Nil2 simp_thms)
qed

lemma split_on_append: "c \<notin> set w \<Longrightarrow> split_on c (w @ c # s) = w # split_on c s"
  by (induction w) auto

lemma split_on_last: "c \<notin> set w \<Longrightarrow> split_on c w = [w]"
  by (induction w) auto

lemma decimal_no_dollar: "CHR ''$'' \<notin> set (decimal n)"
  using decimal_digits(2) [of n] digit_char by (auto simp: list_all_iff)

lemma encode_no_dollar: "CHR ''$'' \<notin> set (std_encode bs)"
  using std_encode_chars std_alphabet_plain by blast

lemma hash_parts:
  "split_on CHR ''$'' (hash_password A salt plain p) =
     [[], ''argon2id'', ''v='' @ decimal (ar_version A),
      ''m='' @ decimal (unat (pm_memory p)) @ '',t='' @ decimal (unat (pm_iterations p)) @ '',p='' @
        decimal (unat (pm_parallel p)),
      std_encode salt,
      std_encode (ar_key A plain salt (pm_iterations p) (pm_memory p) (pm_parallel p) (pm_key_len p))]"
proof -
  define v m k where "v = ''v='' @ decimal (ar_version A)"
    and "m = ''m='' @ decimal (unat (pm_memory p)) @ '',t='' @ decimal (unat (pm_iterations p)) @
      '',p='' @ decimal (unat (pm_parallel p))"
    and "k = std_encode (ar_key A plain salt (pm_iterations p) (pm_memory p) (pm_parallel p) (pm_key_len p))"
  have form: "hash_password A salt plain p =
      [] @ CHR ''$'' # ''argon2id'' @ CHR ''$'' # v @ CHR ''$'' # m @ CHR ''$'' # std_encode salt @ CHR ''$'' # k"
    by (simp add: hash_password_def v_def m_def k_def Let_def)
  have no: "CHR ''$'' \<notin> set v" "CHR ''$'' \<notin> set m" "CHR ''$'' \<notin> set k"
    "CHR ''$'' \<notin> set []" "CHR ''$'' \<notin> set ''argon2id''" "CHR ''$'' \<notin> set (std_encode salt)"
    by (simp_all add: v_def m_def k_def decimal_no_dollar encode_no_dollar)
  show ?thesis
    unfolding form split_on_append [OF no(1)] split_on_append [OF no(2)] split_on_last [OF no(3)]
      split_on_append [OF no(4)] split_on_append [OF no(5)] split_on_append [OF no(6)]
    by (simp only: v_def m_def k_def)
qed

text \<open>
  The library returns a key of the length asked for, and its version is a small number.
\<close>

definition argon_ok :: "argon_library \<Rightarrow> bool" where
  "argon_ok A \<longleftrightarrow> ar_version A \<le> 9223372036854775807 \<and>
     (\<forall>plain salt t m p n. length (ar_key A plain salt t m p n) = unat n)"

lemma decode_hash:
  assumes "argon_ok A"
  shows "decode_phc A (hash_password A salt plain p) =
    Some \<lparr>dc_salt = salt,
      dc_key = ar_key A plain salt (pm_iterations p) (pm_memory p) (pm_parallel p) (pm_key_len p),
      dc_params = p\<lparr>pm_salt_len := 16\<rparr>\<rparr>"
proof -
  have bounds: "unat (pm_memory p) \<le> 4294967295" "unat (pm_iterations p) \<le> 4294967295"
    "unat (pm_parallel p) \<le> 255"
    using unsigned_less [of "pm_memory p", where ?'a = nat] unsigned_less [of "pm_iterations p", where ?'a = nat]
      unsigned_less [of "pm_parallel p", where ?'a = nat] by simp_all
  have version: "scan_int (decimal (ar_version A)) = Some (int (ar_version A), [])"
    using scan_int_decimal [of "ar_version A" "[]"] assms by (simp add: argon_ok_def)
  have len: "length (ar_key A plain salt t m q n) = unat n" for t m q n
    using assms by (simp add: argon_ok_def)
  have p: "p\<lparr>pm_salt_len := 16\<rparr> = \<lparr>pm_memory = pm_memory p, pm_iterations = pm_iterations p,
      pm_parallel = pm_parallel p, pm_salt_len = 16, pm_key_len = pm_key_len p\<rparr>"
    by (cases p) simp
  note lit = scan_literal_append [of "''v=''" "decimal (ar_version A)"]
  show ?thesis
    unfolding decode_phc_def hash_parts Let_def p
    using lit scan_params_written [OF bounds] by (simp add: version std_decode_encode len)
qed

lemma verify_hash:
  "argon_ok A \<Longrightarrow> verify_password A q (hash_password A salt plain p) =
     Some (ar_key A q salt (pm_iterations p) (pm_memory p) (pm_parallel p) (pm_key_len p) =
           ar_key A plain salt (pm_iterations p) (pm_memory p) (pm_parallel p) (pm_key_len p))"
  by (simp add: verify_password_def decode_hash Let_def)

lemma rehash_hash:
  "argon_ok A \<Longrightarrow> needs_rehash A (hash_password A salt plain p) current \<longleftrightarrow>
     pm_memory p \<noteq> pm_memory current \<or> pm_iterations p \<noteq> pm_iterations current \<or>
     pm_parallel p \<noteq> pm_parallel current"
  by (simp add: needs_rehash_def decode_hash Let_def)

section \<open>The password policy\<close>

text \<open>
  The white space of Go's strings package, as UTF-8: the ASCII blanks, U+0085, U+00A0, U+1680,
  U+2000 to U+200A, U+2028, U+2029, U+202F, U+205F and U+3000.
\<close>

definition space_runes :: "string list" where
  "space_runes =
     [[CHR 0x09], [CHR 0x0A], [CHR 0x0B], [CHR 0x0C], [CHR 0x0D], [CHR '' ''],
      [CHR 0xC2, CHR 0x85], [CHR 0xC2, CHR 0xA0], [CHR 0xE1, CHR 0x9A, CHR 0x80],
      [CHR 0xE2, CHR 0x80, CHR 0x80], [CHR 0xE2, CHR 0x80, CHR 0x81], [CHR 0xE2, CHR 0x80, CHR 0x82],
      [CHR 0xE2, CHR 0x80, CHR 0x83], [CHR 0xE2, CHR 0x80, CHR 0x84], [CHR 0xE2, CHR 0x80, CHR 0x85],
      [CHR 0xE2, CHR 0x80, CHR 0x86], [CHR 0xE2, CHR 0x80, CHR 0x87], [CHR 0xE2, CHR 0x80, CHR 0x88],
      [CHR 0xE2, CHR 0x80, CHR 0x89], [CHR 0xE2, CHR 0x80, CHR 0x8A], [CHR 0xE2, CHR 0x80, CHR 0xA8],
      [CHR 0xE2, CHR 0x80, CHR 0xA9], [CHR 0xE2, CHR 0x80, CHR 0xAF], [CHR 0xE2, CHR 0x81, CHR 0x9F],
      [CHR 0xE3, CHR 0x80, CHR 0x80]]"

text \<open>The length of the white-space rune a string starts, or ends, with; 0 if there is none.\<close>

definition space_at_start :: "string \<Rightarrow> nat" where
  "space_at_start s =
     (case find (\<lambda>p. take (length p) s = p) space_runes of None \<Rightarrow> 0 | Some p \<Rightarrow> length p)"

definition space_at_end :: "string \<Rightarrow> nat" where
  "space_at_end s =
     (case find (\<lambda>p. length p \<le> length s \<and> drop (length s - length p) s = p) space_runes of
        None \<Rightarrow> 0 | Some p \<Rightarrow> length p)"

function trim_left :: "string \<Rightarrow> string" where
  "trim_left s =
     (if s = [] \<or> space_at_start s = 0 then s else trim_left (drop (space_at_start s) s))"
  by auto
termination by (relation "measure length") auto

function trim_right :: "string \<Rightarrow> string" where
  "trim_right s =
     (if s = [] \<or> space_at_end s = 0 then s else trim_right (take (length s - space_at_end s) s))"
  by auto
termination by (relation "measure length") auto

declare trim_left.simps [simp del] trim_right.simps [simp del]

text \<open>\<open>strings.TrimSpace\<close> and \<open>strings.Fields\<close>\<close>

definition trim_space :: "string \<Rightarrow> string" where
  "trim_space s = trim_right (trim_left s)"

function split_fields :: "string \<Rightarrow> string \<Rightarrow> string list" where
  "split_fields w s =
     (let done = (if w = [] then [] else [w]) in
      if s = [] then done
      else if space_at_start s = 0 then split_fields (w @ [hd s]) (tl s)
      else done @ split_fields [] (drop (space_at_start s) s))"
  by auto
termination by (relation "measure (\<lambda>(w, s). length s)") auto

declare split_fields.simps [simp del]

definition str_fields :: "string \<Rightarrow> string list" where
  "str_fields s = split_fields [] s"

text \<open>
  The Unicode tables: \<open>strings.ToLower\<close> and \<open>strings.ToUpper\<close>, and whether all runes of a string satisfy
  \<open>unicode.IsPrint\<close>.
\<close>

record unicode =
  un_lower :: "string \<Rightarrow> string"
  un_upper :: "string \<Rightarrow> string"
  un_print :: "string \<Rightarrow> bool"

datatype policy_error =
    UnsupportedCharacters
  | PasswordCommon
  | PasswordTooShort
  | PasswordTooLong
  | SimilarToAccount

definition parol :: string where
  "parol = [CHR 0xD0, CHR 0xBF, CHR 0xD0, CHR 0xB0, CHR 0xD1, CHR 0x80, CHR 0xD0, CHR 0xBE,
            CHR 0xD0, CHR 0xBB, CHR 0xD1, CHR 0x8C]"

definition blocklist :: "string list" where
  "blocklist =
     [''password'', ''123456'', ''123456789'', ''12345678'', ''111111'', ''1234567'', ''password123'',
      ''qwerty123'', ''qwertyuiop'', ''iloveyou'', ''admin123'', ''letmein123'', ''livetranslate'',
      parol, parol @ ''123'', ''11111111'', ''000000'', ''abc123456'']"

text \<open>\<open>strings.Contains\<close>\<close>

fun str_contains :: "string \<Rightarrow> string \<Rightarrow> bool" where
  "str_contains [] p = (p = [])"
| "str_contains (x # s) p = (take (length p) (x # s) = p \<or> str_contains s p)"

definition similar :: "unicode \<Rightarrow> string \<Rightarrow> string \<Rightarrow> bool" where
  "similar U a b =
     (let a = un_lower U (trim_space a); b = un_lower U (trim_space b) in
      if length a < 6 \<or> length b < 6 then False
      else if list_ex (\<lambda>i. 6 \<le> length b \<and> str_contains b (take 6 (drop i a))) [0..<length a - 5] then True
      else length b \<le> 32 \<and> length b \<le> length a \<and> str_contains a b)"

definition printable_or_space :: "unicode \<Rightarrow> string \<Rightarrow> bool" where
  "printable_or_space U s \<longleftrightarrow>
     list_all (\<lambda>c. c \<noteq> CHR 0x0A \<and> c \<noteq> CHR 0x0D \<and> c \<noteq> CHR 0x09) s \<and> un_print U s"

definition validate_password :: "unicode \<Rightarrow> string \<Rightarrow> string \<Rightarrow> string \<Rightarrow> policy_error option" where
  "validate_password U plain email name =
     (if \<not> printable_or_space U plain then Some UnsupportedCharacters
      else
        (let lower = un_lower U plain in
         if lower \<in> set blocklist then Some PasswordCommon
         else if utf8_length plain < 10 then Some PasswordTooShort
         else if utf8_length plain > 128 then Some PasswordTooLong
         else if similar U lower email \<or> similar U lower name then Some SimilarToAccount
         else None))"

text \<open>A piece of six bytes that two strings share.\<close>

definition share_six :: "string \<Rightarrow> string \<Rightarrow> bool" where
  "share_six a b \<longleftrightarrow> (\<exists>p. length p = 6 \<and> str_contains a p \<and> str_contains b p)"

lemma str_contains_iff: "str_contains s p \<longleftrightarrow> (\<exists>i. take (length p) (drop i s) = p)"
proof (induction s)
  case (Cons x s)
  have "(\<exists>i. take (length p) (drop i (x # s)) = p) \<longleftrightarrow>
      take (length p) (x # s) = p \<or> (\<exists>i. take (length p) (drop i s) = p)"
    by (metis drop0 drop_Suc_Cons not0_implies_Suc)
  with Cons show ?case by simp
qed auto

lemma str_contains_append: "str_contains s p \<longleftrightarrow> (\<exists>xs ys. s = xs @ p @ ys)"
proof
  assume "str_contains s p"
  then obtain i where "take (length p) (drop i s) = p" by (auto simp: str_contains_iff)
  then have "s = take i s @ p @ drop (length p) (drop i s)" by (metis append_take_drop_id)
  then show "\<exists>xs ys. s = xs @ p @ ys" by blast
next
  assume "\<exists>xs ys. s = xs @ p @ ys"
  then obtain xs ys where s: "s = xs @ p @ ys" by blast
  then have "take (length p) (drop (length xs) s) = p" by simp
  then show "str_contains s p" using str_contains_iff by blast
qed

lemma pieces_of_six:
  "list_ex (\<lambda>i. str_contains b (take 6 (drop i a))) [0..<length a - 5] \<longleftrightarrow> share_six a b"
proof
  assume "list_ex (\<lambda>i. str_contains b (take 6 (drop i a))) [0..<length a - 5]"
  then obtain i where i: "i < length a - 5" "str_contains b (take 6 (drop i a))"
    by (auto simp: list_ex_iff)
  then have len: "length (take 6 (drop i a)) = 6" by simp
  moreover have "str_contains a (take 6 (drop i a))"
    unfolding str_contains_iff len by blast
  ultimately show "share_six a b" using i(2) share_six_def by blast
next
  assume "share_six a b"
  then obtain p where six: "length p = 6" "str_contains a p" "str_contains b p"
    by (auto simp: share_six_def)
  then obtain xs ys where p: "length p = 6" "a = xs @ p @ ys" "str_contains b p"
    unfolding str_contains_append [of a] by blast
  then have "take 6 (drop (length xs) a) = p" "length xs \<in> set [0..<length a - 5]" by auto
  with p(3) show "list_ex (\<lambda>i. str_contains b (take 6 (drop i a))) [0..<length a - 5]"
    unfolding list_ex_iff by (intro bexI [of _ "length xs"]) simp_all
qed

lemma share_six_whole:
  assumes "str_contains a b" and "6 \<le> length b"
  shows "share_six a b"
proof -
  obtain xs ys where a: "a = xs @ b @ ys" using assms(1) by (auto simp: str_contains_append)
  have b: "b = take 6 b @ drop 6 b" by simp
  have "str_contains b (take 6 b)"
    unfolding str_contains_append by (rule exI [of _ "[]"], rule exI [of _ "drop 6 b"]) simp
  moreover have "str_contains a (take 6 b)"
    unfolding str_contains_append a by (rule exI [of _ xs], rule exI [of _ "drop 6 b @ ys"]) simp
  moreover have "length (take 6 b) = 6" using assms(2) by simp
  ultimately show ?thesis using share_six_def by blast
qed

lemma share_six_long: "share_six a b \<Longrightarrow> 6 \<le> length a \<and> 6 \<le> length b"
  by (auto simp: share_six_def str_contains_append)

lemma similar_share:
  "similar U a b \<longleftrightarrow> share_six (un_lower U (trim_space a)) (un_lower U (trim_space b))"
  (is "_ \<longleftrightarrow> share_six ?a ?b")
proof (cases "length ?a < 6 \<or> length ?b < 6")
  case True
  with share_six_long [of ?a ?b] show ?thesis by (auto simp: similar_def Let_def)
next
  case False
  then have "similar U a b \<longleftrightarrow> share_six ?a ?b \<or>
      (length ?b \<le> 32 \<and> length ?b \<le> length ?a \<and> str_contains ?a ?b)"
    by (simp add: similar_def Let_def pieces_of_six)
  with False share_six_whole [of ?a ?b] show ?thesis by auto
qed

end
