(* ===== verification/Accounts.thy ===== *)
theory Accounts
  imports Passwords
begin

text \<open>
  The account database (internal/store/users.go, identity.go, devices\_tokens.go, the write side of
  internal/audit): users, sign-in identities, password hashes, email challenges, reset tokens,
  login events, invitations, devices, refresh tokens and the audit log, with the statements the
  services issue on them.
\<close>

section \<open>Rows\<close>

record user =
  us_id :: uuid
  us_email :: "string option"
  us_norm :: "string option"
  us_name :: string
  us_status :: string
  us_role :: string
  us_apple :: "string option"
  us_dev :: "string option"
  us_verified :: "time option"
  us_created :: time
  us_updated :: time
  us_last_login :: "time option"
  us_deletion :: "time option"
  us_deleted :: "time option"

record auth_identity =
  ai_id :: uuid
  ai_user :: uuid
  ai_provider :: string
  ai_subject :: string
  ai_created :: time
  ai_used :: "time option"

record credential =
  cr_user :: uuid
  cr_hash :: string
  cr_changed :: time
  cr_created :: time
  cr_updated :: time

record challenge =
  cg_id :: uuid
  cg_user :: uuid
  cg_purpose :: string
  cg_hash :: string
  cg_target :: "string option"
  cg_expires :: time
  cg_attempts :: int
  cg_consumed :: "time option"
  cg_created :: time

record reset_token =
  rs_id :: uuid
  rs_user :: uuid
  rs_hash :: string
  rs_expires :: time
  rs_consumed :: "time option"
  rs_created :: time

record login_event =
  le_user :: "uuid option"
  le_email_hash :: string
  le_device :: string
  le_ip_hash :: string
  le_result :: string
  le_created :: time

record invitation =
  iv_code :: string
  iv_note :: string
  iv_created_by :: "uuid option"
  iv_max :: int
  iv_used :: int
  iv_expires :: "time option"
  iv_revoked :: "time option"
  iv_created :: time

record device =
  dv_id :: uuid
  dv_user :: uuid
  dv_client :: string
  dv_name :: string
  dv_version :: string
  dv_seen :: time
  dv_revoked :: "time option"

record refresh_token =
  rt_id :: uuid
  rt_user :: uuid
  rt_device :: uuid
  rt_hash :: string
  rt_expires :: time
  rt_revoked :: "time option"
  rt_replaced :: "uuid option"
  rt_created :: time

text \<open>The status snapshots of an audit event are the pairs that are marshalled.\<close>

record audit_event =
  ae_actor_type :: string
  ae_actor :: "uuid option"
  ae_action :: string
  ae_target :: "uuid option"
  ae_reason :: string
  ae_ip_hash :: string
  ae_before :: "(string \<times> string) list"
  ae_after :: "(string \<times> string) list"
  ae_created :: time

record admin_account =
  ad_id :: uuid
  ad_name :: string
  ad_hash :: string
  ad_totp :: "string option"
  ad_failed :: int
  ad_locked :: "time option"
  ad_last_login :: "time option"

record admin_session =
  as_id :: uuid
  as_admin :: uuid
  as_hash :: string
  as_csrf :: string
  as_ip_hash :: string
  as_agent :: string
  as_expires :: time
  as_revoked :: "time option"

datatype mail =
    VerifyCodeMail string string
  | EmailChangeMail string string string
  | NewDeviceMail string string string
  | PasswordChangedMail string
  | EmailChangedMail string string
  | DeletionMail string
  | ResetMail string string string

text \<open>The last field is the mails handed to the transport, in order.\<close>

record accounts =
  ac_users :: "user list"
  ac_identities :: "auth_identity list"
  ac_credentials :: "credential list"
  ac_challenges :: "challenge list"
  ac_resets :: "reset_token list"
  ac_logins :: "login_event list"
  ac_invitations :: "invitation list"
  ac_devices :: "device list"
  ac_refresh :: "refresh_token list"
  ac_audit :: "audit_event list"
  ac_admins :: "admin_account list"
  ac_admin_sessions :: "admin_session list"
  ac_outbox :: "mail list"

definition no_accounts :: accounts where
  "no_accounts = \<lparr>ac_users = [], ac_identities = [], ac_credentials = [], ac_challenges = [],
     ac_resets = [], ac_logins = [], ac_invitations = [], ac_devices = [], ac_refresh = [],
     ac_audit = [], ac_admins = [], ac_admin_sessions = [], ac_outbox = []\<rparr>"

section \<open>One call\<close>

text \<open>
  What a request takes from outside: now() of the database and time.Now(), which row of several an
  unordered SELECT ... returns, the new UUIDs and random bytes it draws, and whether the mail
  transport delivers.
\<close>

record call =
  ca_now :: time
  ca_wall :: time
  ca_pick :: nat
  ca_user_id :: uuid
  ca_challenge_id :: uuid
  ca_device_id :: uuid
  ca_refresh_id :: uuid
  ca_identity_id :: uuid
  ca_reset_id :: uuid
  ca_session_id :: uuid
  ca_refresh_bytes :: "8 word list"
  ca_code_bytes :: "8 word \<times> 8 word \<times> 8 word \<times> 8 word"
  ca_opaque_bytes :: "8 word list"
  ca_hex_bytes :: "8 word list"
  ca_jti_bytes :: "8 word list"
  ca_salt :: "8 word list"
  ca_delivers :: bool

definition pick_row :: "nat \<Rightarrow> 'a list \<Rightarrow> 'a option" where
  "pick_row n xs = (if xs = [] then None else Some (xs ! (n mod length xs)))"

definition newest :: "nat \<Rightarrow> ('a \<Rightarrow> time) \<Rightarrow> 'a list \<Rightarrow> 'a option" where
  "newest n k xs = pick_row n (filter (\<lambda>x. list_all (\<lambda>y. k y \<le> k x) xs) xs)"

lemma pick_row_None [simp]: "pick_row n xs = None \<longleftrightarrow> xs = []"
  by (simp add: pick_row_def)

lemma pick_row_in: "pick_row n xs = Some x \<Longrightarrow> x \<in> set xs"
  by (auto simp: pick_row_def split: if_splits)

lemma pick_row_single [simp]: "pick_row n [x] = Some x"
  by (simp add: pick_row_def)

lemma newest_in: "newest n k xs = Some x \<Longrightarrow> x \<in> set xs \<and> (\<forall>y\<in>set xs. k y \<le> k x)"
  by (auto simp: newest_def list_all_iff dest: pick_row_in)

section \<open>Tables\<close>

text \<open>A table: its rows, the domains of its columns, its PRIMARY KEY and UNIQUE constraints.\<close>

record 'a atab =
  at_get :: "accounts \<Rightarrow> 'a list"
  at_put :: "'a list \<Rightarrow> accounts \<Rightarrow> accounts"
  at_ok :: "'a \<Rightarrow> bool"
  at_unique :: "'a list \<Rightarrow> bool"

definition a_insert :: "'a atab \<Rightarrow> 'a \<Rightarrow> accounts \<Rightarrow> db_error + accounts" where
  "a_insert T r A =
     (if \<not> at_ok T r then Inl ColumnDomain
      else if \<not> at_unique T (at_get T A @ [r]) then Inl UniqueViolation
      else Inr (at_put T (at_get T A @ [r]) A))"

definition set_rows :: "('a \<Rightarrow> bool) \<Rightarrow> ('a \<Rightarrow> 'a) \<Rightarrow> 'a list \<Rightarrow> 'a list" where
  "set_rows P f rs = map (\<lambda>r. if P r then f r else r) rs"

definition a_update ::
  "'a atab \<Rightarrow> ('a \<Rightarrow> bool) \<Rightarrow> ('a \<Rightarrow> 'a) \<Rightarrow> accounts \<Rightarrow> db_error + accounts" where
  "a_update T P f A =
     (if list_ex (\<lambda>r. P r \<and> \<not> at_ok T (f r)) (at_get T A) then Inl ColumnDomain
      else if \<not> at_unique T (set_rows P f (at_get T A)) then Inl UniqueViolation
      else Inr (at_put T (set_rows P f (at_get T A)) A))"

text \<open>An UPDATE of columns that no constraint mentions, and a DELETE, cannot fail.\<close>

definition a_set :: "'a atab \<Rightarrow> ('a \<Rightarrow> bool) \<Rightarrow> ('a \<Rightarrow> 'a) \<Rightarrow> accounts \<Rightarrow> accounts" where
  "a_set T P f A = at_put T (set_rows P f (at_get T A)) A"

definition a_delete :: "'a atab \<Rightarrow> ('a \<Rightarrow> bool) \<Rightarrow> accounts \<Rightarrow> accounts" where
  "a_delete T P A = at_put T (filter (\<lambda>r. \<not> P r) (at_get T A)) A"

definition a_hits :: "'a atab \<Rightarrow> ('a \<Rightarrow> bool) \<Rightarrow> accounts \<Rightarrow> bool" where
  "a_hits T P A \<longleftrightarrow> list_ex P (at_get T A)"

lemma set_rows_simps [simp]:
  "set_rows P f [] = []"
  "set_rows P f (r # rs) = (if P r then f r else r) # set_rows P f rs"
  "length (set_rows P f rs) = length rs"
  by (simp_all add: set_rows_def)

lemma set_rows_set: "set (set_rows P f rs) = (\<lambda>r. if P r then f r else r) ` set rs"
  by (simp add: set_rows_def)

lemma map_set_rows: "(\<And>r. k (f r) = k r) \<Longrightarrow> map k (set_rows P f rs) = map k rs"
  by (simp add: set_rows_def)

text \<open>A nullable column.\<close>

definition nullable :: "('a \<Rightarrow> bool) \<Rightarrow> 'a option \<Rightarrow> bool" where
  "nullable P x = (case x of None \<Rightarrow> True | Some y \<Rightarrow> P y)"

lemma nullable_simps [simp]: "nullable P None" "nullable P (Some x) \<longleftrightarrow> P x"
  by (simp_all add: nullable_def)

definition user_ok :: "user \<Rightarrow> bool" where
  "user_ok u \<longleftrightarrow> nullable (varchar 320) (us_email u) \<and> nullable (varchar 320) (us_norm u) \<and>
     varchar 128 (us_name u) \<and> varchar 32 (us_status u) \<and> varchar 16 (us_role u) \<and>
     nullable (varchar 128) (us_apple u) \<and> nullable (varchar 64) (us_dev u)"

text \<open>users\_email\_active\_uidx indexes the rows that are neither soft-deleted nor 'deleted'.\<close>

definition email_indexed :: "user \<Rightarrow> bool" where
  "email_indexed u \<longleftrightarrow> us_deleted u = None \<and> us_status u \<noteq> ''deleted'' \<and> us_norm u \<noteq> None"

definition users_unique :: "user list \<Rightarrow> bool" where
  "users_unique us \<longleftrightarrow> distinct (map us_id us) \<and>
     distinct (map us_norm (filter email_indexed us)) \<and>
     distinct (map us_apple (filter (\<lambda>u. us_apple u \<noteq> None) us))"

definition users_tab :: "user atab" where
  "users_tab = \<lparr>at_get = ac_users, at_put = (\<lambda>t A. A\<lparr>ac_users := t\<rparr>), at_ok = user_ok,
     at_unique = users_unique\<rparr>"

definition identities_tab :: "auth_identity atab" where
  "identities_tab = \<lparr>at_get = ac_identities, at_put = (\<lambda>t A. A\<lparr>ac_identities := t\<rparr>),
     at_ok = (\<lambda>r. varchar 32 (ai_provider r) \<and> varchar 190 (ai_subject r)),
     at_unique = (\<lambda>t. distinct (map ai_id t) \<and> distinct (map (\<lambda>r. (ai_provider r, ai_subject r)) t))\<rparr>"

definition credentials_tab :: "credential atab" where
  "credentials_tab = \<lparr>at_get = ac_credentials, at_put = (\<lambda>t A. A\<lparr>ac_credentials := t\<rparr>),
     at_ok = (\<lambda>r. varchar 256 (cr_hash r)), at_unique = (\<lambda>t. distinct (map cr_user t))\<rparr>"

definition challenges_tab :: "challenge atab" where
  "challenges_tab = \<lparr>at_get = ac_challenges, at_put = (\<lambda>t A. A\<lparr>ac_challenges := t\<rparr>),
     at_ok = (\<lambda>r. varchar 32 (cg_purpose r) \<and> varchar 64 (cg_hash r) \<and> int4 (cg_attempts r) \<and>
       nullable (varchar 320) (cg_target r)),
     at_unique = (\<lambda>t. distinct (map cg_id t))\<rparr>"

definition resets_tab :: "reset_token atab" where
  "resets_tab = \<lparr>at_get = ac_resets, at_put = (\<lambda>t A. A\<lparr>ac_resets := t\<rparr>),
     at_ok = (\<lambda>r. varchar 64 (rs_hash r)),
     at_unique = (\<lambda>t. distinct (map rs_id t) \<and> distinct (map rs_hash t))\<rparr>"

definition logins_tab :: "login_event atab" where
  "logins_tab = \<lparr>at_get = ac_logins, at_put = (\<lambda>t A. A\<lparr>ac_logins := t\<rparr>),
     at_ok = (\<lambda>r. varchar 64 (le_email_hash r) \<and> varchar 128 (le_device r) \<and>
       varchar 64 (le_ip_hash r) \<and> varchar 32 (le_result r)),
     at_unique = (\<lambda>t. True)\<rparr>"

definition invitations_tab :: "invitation atab" where
  "invitations_tab = \<lparr>at_get = ac_invitations, at_put = (\<lambda>t A. A\<lparr>ac_invitations := t\<rparr>),
     at_ok = (\<lambda>r. varchar 32 (iv_code r) \<and> varchar 256 (iv_note r) \<and> int4 (iv_max r) \<and> int4 (iv_used r)),
     at_unique = (\<lambda>t. distinct (map iv_code t))\<rparr>"

definition devices_tab :: "device atab" where
  "devices_tab = \<lparr>at_get = ac_devices, at_put = (\<lambda>t A. A\<lparr>ac_devices := t\<rparr>),
     at_ok = (\<lambda>r. varchar 128 (dv_client r) \<and> varchar 128 (dv_name r) \<and> varchar 32 (dv_version r)),
     at_unique = (\<lambda>t. distinct (map dv_id t) \<and> distinct (map (\<lambda>r. (dv_user r, dv_client r)) t))\<rparr>"

definition refresh_tab :: "refresh_token atab" where
  "refresh_tab = \<lparr>at_get = ac_refresh, at_put = (\<lambda>t A. A\<lparr>ac_refresh := t\<rparr>),
     at_ok = (\<lambda>r. varchar 64 (rt_hash r)),
     at_unique = (\<lambda>t. distinct (map rt_id t) \<and> distinct (map rt_hash t))\<rparr>"

definition audit_tab :: "audit_event atab" where
  "audit_tab = \<lparr>at_get = ac_audit, at_put = (\<lambda>t A. A\<lparr>ac_audit := t\<rparr>),
     at_ok = (\<lambda>r. varchar 16 (ae_actor_type r) \<and> varchar 64 (ae_action r) \<and> varchar 256 (ae_reason r) \<and>
       varchar 64 (ae_ip_hash r)),
     at_unique = (\<lambda>t. True)\<rparr>"

definition admins_tab :: "admin_account atab" where
  "admins_tab = \<lparr>at_get = ac_admins, at_put = (\<lambda>t A. A\<lparr>ac_admins := t\<rparr>),
     at_ok = (\<lambda>r. varchar 64 (ad_name r) \<and> varchar 256 (ad_hash r) \<and>
       nullable (varchar 128) (ad_totp r) \<and> int4 (ad_failed r)),
     at_unique = (\<lambda>t. distinct (map ad_id t) \<and> distinct (map ad_name t))\<rparr>"

definition admin_sessions_tab :: "admin_session atab" where
  "admin_sessions_tab = \<lparr>at_get = ac_admin_sessions, at_put = (\<lambda>t A. A\<lparr>ac_admin_sessions := t\<rparr>),
     at_ok = (\<lambda>r. varchar 64 (as_hash r) \<and> varchar 64 (as_csrf r) \<and> varchar 64 (as_ip_hash r) \<and>
       varchar 256 (as_agent r)),
     at_unique = (\<lambda>t. distinct (map as_id t) \<and> distinct (map as_hash t))\<rparr>"

lemmas atab_defs = users_tab_def identities_tab_def credentials_tab_def challenges_tab_def
  resets_tab_def logins_tab_def invitations_tab_def devices_tab_def refresh_tab_def audit_tab_def
  admins_tab_def admin_sessions_tab_def

text \<open>
  What a table descriptor promises: it reads what it wrote, and a row list that satisfies the
  constraints still does after rows are deleted. The statements keep the constraints.
\<close>

locale account_table =
  fixes T :: "'a atab"
  assumes at_get_put: "at_get T (at_put T t A) = t"
    and at_unique_filter: "at_unique T t \<Longrightarrow> at_unique T (filter P t)"
    and at_unique_Nil: "at_unique T []"
begin

lemma a_insert_Inr:
  "a_insert T r A = Inr A' \<Longrightarrow> at_get T A' = at_get T A @ [r] \<and> at_unique T (at_get T A') \<and> at_ok T r"
  by (auto simp: a_insert_def at_get_put split: if_splits)

lemma a_update_Inr:
  "a_update T P f A = Inr A' \<Longrightarrow>
     at_get T A' = set_rows P f (at_get T A) \<and> at_unique T (at_get T A')"
  by (auto simp: a_update_def at_get_put split: if_splits)

lemma a_set_get [simp]: "at_get T (a_set T P f A) = set_rows P f (at_get T A)"
  by (simp add: a_set_def at_get_put)

lemma a_delete_get [simp]: "at_get T (a_delete T P A) = filter (\<lambda>r. \<not> P r) (at_get T A)"
  by (simp add: a_delete_def at_get_put)

lemma a_delete_unique: "at_unique T (at_get T A) \<Longrightarrow> at_unique T (at_get T (a_delete T P A))"
  by (simp add: at_unique_filter)

end

lemma distinct_map_filter_key: "distinct (map k t) \<Longrightarrow> distinct (map k (filter P t))"
  by (rule distinct_map_filter)

lemma users_unique_filter: "users_unique us \<Longrightarrow> users_unique (filter P us)"
proof -
  have swap: "filter Q (filter P us) = filter P (filter Q us)" for Q
    by (simp add: conj_commute)
  show "users_unique us \<Longrightarrow> users_unique (filter P us)"
    by (simp only: users_unique_def swap distinct_map_filter_key)
qed

interpretation users: account_table users_tab
  by unfold_locales (simp_all add: users_tab_def users_unique_filter, simp add: users_unique_def)

interpretation identities: account_table identities_tab
  by unfold_locales (simp_all add: identities_tab_def distinct_map_filter_key)

interpretation credentials: account_table credentials_tab
  by unfold_locales (simp_all add: credentials_tab_def distinct_map_filter_key)

interpretation challenges: account_table challenges_tab
  by unfold_locales (simp_all add: challenges_tab_def distinct_map_filter_key)

interpretation resets: account_table resets_tab
  by unfold_locales (simp_all add: resets_tab_def distinct_map_filter_key)

interpretation logins: account_table logins_tab
  by unfold_locales (simp_all add: logins_tab_def)

interpretation invitations: account_table invitations_tab
  by unfold_locales (simp_all add: invitations_tab_def distinct_map_filter_key)

interpretation devices: account_table devices_tab
  by unfold_locales (simp_all add: devices_tab_def distinct_map_filter_key)

interpretation refresh: account_table refresh_tab
  by unfold_locales (simp_all add: refresh_tab_def distinct_map_filter_key)

interpretation audit: account_table audit_tab
  by unfold_locales (simp_all add: audit_tab_def)

interpretation admins: account_table admins_tab
  by unfold_locales (simp_all add: admins_tab_def distinct_map_filter_key)

interpretation admin_sessions: account_table admin_sessions_tab
  by unfold_locales (simp_all add: admin_sessions_tab_def distinct_map_filter_key)

end
