(* ===== verification/Account_Store.thy ===== *)
theory Account_Store
  imports Accounts
begin

text \<open>
  The statements of the account database, one definition per function of internal/store (users.go,
  identity.go, devices\_tokens.go) and the recorder of internal/audit.
\<close>

section \<open>Users (users.go)\<close>

definition get_user_by_id :: "uuid \<Rightarrow> accounts \<Rightarrow> user option" where
  "get_user_by_id i A = find (\<lambda>u. us_id u = i) (ac_users A)"

text \<open>
  No ORDER BY and no unique column behind the two next SELECTs (the index on the address leaves
  out deleted accounts), so any matching row can come back.
\<close>

definition get_user_by_normalized_email :: "call \<Rightarrow> string \<Rightarrow> accounts \<Rightarrow> user option" where
  "get_user_by_normalized_email c e A =
     pick_row (ca_pick c) (filter (\<lambda>u. us_norm u = Some e) (ac_users A))"

definition get_user_by_dev_name :: "call \<Rightarrow> string \<Rightarrow> accounts \<Rightarrow> user option" where
  "get_user_by_dev_name c n A =
     pick_row (ca_pick c) (filter (\<lambda>u. us_dev u = Some n \<and> us_deleted u = None) (ac_users A))"

definition get_user_by_apple_subject :: "string \<Rightarrow> accounts \<Rightarrow> user option" where
  "get_user_by_apple_subject s A = find (\<lambda>u. us_apple u = Some s) (ac_users A)"

definition create_user :: "user \<Rightarrow> accounts \<Rightarrow> db_error + accounts" where
  "create_user u A = a_insert users_tab u A"

definition touch_last_login :: "call \<Rightarrow> uuid \<Rightarrow> accounts \<Rightarrow> accounts" where
  "touch_last_login c i A =
     a_set users_tab (\<lambda>u. us_id u = i)
       (\<lambda>u. u\<lparr>us_last_login := Some (ca_now c), us_updated := ca_now c\<rparr>) A"

definition update_user_status :: "call \<Rightarrow> uuid \<Rightarrow> string \<Rightarrow> accounts \<Rightarrow> db_error + accounts" where
  "update_user_status c i s A =
     a_update users_tab (\<lambda>u. us_id u = i) (\<lambda>u. u\<lparr>us_status := s, us_updated := ca_now c\<rparr>) A"

definition mark_email_verified :: "call \<Rightarrow> uuid \<Rightarrow> accounts \<Rightarrow> db_error + accounts" where
  "mark_email_verified c i A =
     a_update users_tab (\<lambda>u. us_id u = i)
       (\<lambda>u. u\<lparr>us_verified := Some (ca_now c), us_status := ''active'', us_updated := ca_now c\<rparr>) A"

definition soft_delete_user :: "call \<Rightarrow> uuid \<Rightarrow> accounts \<Rightarrow> db_error + accounts" where
  "soft_delete_user c i A =
     a_update users_tab (\<lambda>u. us_id u = i)
       (\<lambda>u. u\<lparr>us_deleted := Some (ca_now c), us_status := ''deleted'',
           us_deletion := (case us_deletion u of None \<Rightarrow> Some (ca_now c) | Some t \<Rightarrow> Some t),
           us_updated := ca_now c\<rparr>) A"

definition update_user_email :: "call \<Rightarrow> uuid \<Rightarrow> string \<Rightarrow> string \<Rightarrow> accounts \<Rightarrow> db_error + accounts" where
  "update_user_email c i email norm_email A =
     a_update users_tab (\<lambda>u. us_id u = i)
       (\<lambda>u. u\<lparr>us_email := Some email, us_norm := Some norm_email, us_updated := ca_now c\<rparr>) A"

definition update_display_name :: "call \<Rightarrow> uuid \<Rightarrow> string \<Rightarrow> accounts \<Rightarrow> db_error + accounts" where
  "update_display_name c i n A =
     a_update users_tab (\<lambda>u. us_id u = i) (\<lambda>u. u\<lparr>us_name := n, us_updated := ca_now c\<rparr>) A"

definition display_label :: "(uuid \<Rightarrow> string) \<Rightarrow> user \<Rightarrow> string" where
  "display_label uuid_text u =
     (case us_norm u of
        Some (x # n) \<Rightarrow> (case us_email u of Some (y # e) \<Rightarrow> y # e | _ \<Rightarrow> x # n)
      | _ \<Rightarrow>
          (case us_dev u of
             Some (x # d) \<Rightarrow> ''dev:'' @ x # d
           | _ \<Rightarrow> (case us_apple u of Some s \<Rightarrow> ''apple:'' @ s | None \<Rightarrow> uuid_text (us_id u))))"

section \<open>Passwords, challenges and reset tokens (identity.go)\<close>

text \<open>Rows of these tables reference a user.\<close>

definition references_user :: "uuid \<Rightarrow> accounts \<Rightarrow> db_error + accounts" where
  "references_user i A =
     (if get_user_by_id i A = None then Inl ForeignKeyViolation else Inr A)"

definition upsert_password_credential :: "call \<Rightarrow> uuid \<Rightarrow> string \<Rightarrow> accounts \<Rightarrow> db_error + accounts" where
  "upsert_password_credential c i h A =
     (if a_hits credentials_tab (\<lambda>r. cr_user r = i) A
      then a_update credentials_tab (\<lambda>r. cr_user r = i)
             (\<lambda>r. r\<lparr>cr_hash := h, cr_changed := ca_now c, cr_updated := ca_now c\<rparr>) A
      else bindE (references_user i A)
             (a_insert credentials_tab
               \<lparr>cr_user = i, cr_hash = h, cr_changed = ca_now c, cr_created = ca_now c,
                cr_updated = ca_now c\<rparr>))"

definition get_password_hash :: "uuid \<Rightarrow> accounts \<Rightarrow> string option" where
  "get_password_hash i A = map_option cr_hash (find (\<lambda>r. cr_user r = i) (ac_credentials A))"

definition has_password_credential :: "uuid \<Rightarrow> accounts \<Rightarrow> bool" where
  "has_password_credential i A \<longleftrightarrow> list_ex (\<lambda>r. cr_user r = i) (ac_credentials A)"

definition live_challenge :: "uuid \<Rightarrow> string \<Rightarrow> challenge \<Rightarrow> bool" where
  "live_challenge i purpose g \<longleftrightarrow> cg_user g = i \<and> cg_purpose g = purpose \<and> cg_consumed g = None"

definition invalidate_pending_challenges :: "call \<Rightarrow> uuid \<Rightarrow> string \<Rightarrow> accounts \<Rightarrow> accounts" where
  "invalidate_pending_challenges c i purpose A =
     a_set challenges_tab (live_challenge i purpose) (\<lambda>g. g\<lparr>cg_consumed := Some (ca_now c)\<rparr>) A"

definition create_email_challenge :: "challenge \<Rightarrow> accounts \<Rightarrow> db_error + accounts" where
  "create_email_challenge g A = bindE (references_user (cg_user g) A) (a_insert challenges_tab g)"

definition latest_live_challenge :: "call \<Rightarrow> uuid \<Rightarrow> string \<Rightarrow> accounts \<Rightarrow> challenge option" where
  "latest_live_challenge c i purpose A =
     newest (ca_pick c) cg_created (filter (live_challenge i purpose) (ac_challenges A))"

definition bump_challenge_attempt :: "uuid \<Rightarrow> accounts \<Rightarrow> db_error + accounts" where
  "bump_challenge_attempt i A =
     a_update challenges_tab (\<lambda>g. cg_id g = i) (\<lambda>g. g\<lparr>cg_attempts := cg_attempts g + 1\<rparr>) A"

text \<open>\<open>None\<close> is ErrNotFound: no row was live.\<close>

definition consume_challenge :: "call \<Rightarrow> uuid \<Rightarrow> accounts \<Rightarrow> accounts option" where
  "consume_challenge c i A =
     (let live = (\<lambda>g. cg_id g = i \<and> cg_consumed g = None) in
      if a_hits challenges_tab live A
      then Some (a_set challenges_tab live (\<lambda>g. g\<lparr>cg_consumed := Some (ca_now c)\<rparr>) A)
      else None)"

definition invalidate_password_reset_token :: "call \<Rightarrow> uuid \<Rightarrow> accounts \<Rightarrow> accounts" where
  "invalidate_password_reset_token c i A =
     a_set resets_tab (\<lambda>t. rs_id t = i \<and> rs_consumed t = None) (\<lambda>t. t\<lparr>rs_consumed := Some (ca_now c)\<rparr>) A"

definition create_password_reset_token :: "reset_token \<Rightarrow> accounts \<Rightarrow> db_error + accounts" where
  "create_password_reset_token t A = bindE (references_user (rs_user t) A) (a_insert resets_tab t)"

text \<open>The newest unconsumed reset token of a user, expired or not.\<close>

definition last_reset :: "call \<Rightarrow> uuid \<Rightarrow> accounts \<Rightarrow> reset_token option" where
  "last_reset c i A =
     newest (ca_pick c) rs_created
       (filter (\<lambda>t. rs_user t = i \<and> rs_consumed t = None) (ac_resets A))"

datatype reset_state = ResetUnknown | ResetUsed | ResetExpired | ResetValid

definition lookup_password_reset_token_state :: "call \<Rightarrow> string \<Rightarrow> accounts \<Rightarrow> reset_state" where
  "lookup_password_reset_token_state c h A =
     (case find (\<lambda>t. rs_hash t = h) (ac_resets A) of
        None \<Rightarrow> ResetUnknown
      | Some t \<Rightarrow>
          if rs_consumed t \<noteq> None then ResetUsed
          else if rs_expires t < ca_wall c then ResetExpired else ResetValid)"

definition consume_password_reset_token :: "call \<Rightarrow> string \<Rightarrow> accounts \<Rightarrow> (accounts \<times> uuid) option" where
  "consume_password_reset_token c h A =
     (case find (\<lambda>t. rs_hash t = h) (ac_resets A) of
        None \<Rightarrow> None
      | Some t \<Rightarrow>
          if rs_consumed t \<noteq> None \<or> rs_expires t < ca_wall c then None
          else Some (a_set resets_tab (\<lambda>x. rs_id x = rs_id t \<and> rs_consumed x = None)
                       (\<lambda>x. x\<lparr>rs_consumed := Some (ca_now c)\<rparr>) A,
                     rs_user t))"

section \<open>Login events, identities and invitations (identity.go)\<close>

definition record_login_event ::
  "call \<Rightarrow> uuid option \<Rightarrow> string \<Rightarrow> string \<Rightarrow> string \<Rightarrow> string \<Rightarrow> accounts \<Rightarrow> db_error + accounts" where
  "record_login_event c i email_hash dev ip_hash result A =
     a_insert logins_tab
       \<lparr>le_user = i, le_email_hash = email_hash, le_device = dev, le_ip_hash = ip_hash,
        le_result = result, le_created = ca_now c\<rparr> A"

definition failed_login :: "login_event \<Rightarrow> bool" where
  "failed_login e \<longleftrightarrow>
     le_result e \<in> {''invalid_password'', ''unknown_email'', ''unverified'', ''suspended''}"

definition count_recent_failures_by_email :: "call \<Rightarrow> string \<Rightarrow> time \<Rightarrow> accounts \<Rightarrow> nat" where
  "count_recent_failures_by_email c h window A =
     length (filter (\<lambda>e. le_email_hash e = h \<and> failed_login e \<and> ca_now c - window < le_created e)
       (ac_logins A))"

definition count_recent_failures_by_ip :: "call \<Rightarrow> string \<Rightarrow> time \<Rightarrow> accounts \<Rightarrow> nat" where
  "count_recent_failures_by_ip c h window A =
     length (filter (\<lambda>e. le_ip_hash e = h \<and> failed_login e \<and> ca_now c - window < le_created e)
       (ac_logins A))"

definition list_auth_identities :: "uuid \<Rightarrow> accounts \<Rightarrow> auth_identity list" where
  "list_auth_identities i A = filter (\<lambda>r. ai_user r = i) (ac_identities A)"

definition bind_auth_identity :: "call \<Rightarrow> uuid \<Rightarrow> string \<Rightarrow> string \<Rightarrow> accounts \<Rightarrow> db_error + accounts" where
  "bind_auth_identity c i provider subject A =
     bindE (references_user i A)
       (a_insert identities_tab
         \<lparr>ai_id = ca_identity_id c, ai_user = i, ai_provider = provider, ai_subject = subject,
          ai_created = ca_now c, ai_used = Some (ca_now c)\<rparr>)"

definition unbind_auth_identity :: "uuid \<Rightarrow> string \<Rightarrow> accounts \<Rightarrow> accounts option" where
  "unbind_auth_identity i provider A =
     (let P = (\<lambda>r. ai_user r = i \<and> ai_provider r = provider) in
      if a_hits identities_tab P A then Some (a_delete identities_tab P A) else None)"

definition count_user_devices :: "call \<Rightarrow> uuid \<Rightarrow> accounts \<Rightarrow> nat \<times> nat" where
  "count_user_devices c i A =
     (length (filter (\<lambda>d. dv_user d = i) (ac_devices A)),
      length (filter (\<lambda>t. rt_user t = i \<and> rt_revoked t = None \<and> ca_now c < rt_expires t) (ac_refresh A)))"

definition consume_invitation :: "call \<Rightarrow> string \<Rightarrow> accounts \<Rightarrow> db_error + accounts option" where
  "consume_invitation c code A =
     (let P = (\<lambda>v. iv_code v = code \<and> iv_revoked v = None \<and>
                (case iv_expires v of None \<Rightarrow> True | Some t \<Rightarrow> ca_now c < t) \<and> iv_used v < iv_max v) in
      bindE (a_update invitations_tab P (\<lambda>v. v\<lparr>iv_used := iv_used v + 1\<rparr>) A) (\<lambda>A'.
        Inr (if a_hits invitations_tab P A then Some A' else None)))"

section \<open>Devices and refresh tokens (devices\_tokens.go)\<close>

definition device_of :: "uuid \<Rightarrow> string \<Rightarrow> accounts \<Rightarrow> device option" where
  "device_of i client A = find (\<lambda>d. dv_user d = i \<and> dv_client d = client) (ac_devices A)"

text \<open>The result: the device row, and whether it is new.\<close>

definition get_or_create_device ::
  "call \<Rightarrow> uuid \<Rightarrow> string \<Rightarrow> string \<Rightarrow> string \<Rightarrow> accounts \<Rightarrow> db_error + accounts \<times> device \<times> bool" where
  "get_or_create_device c i client name version A =
     (case device_of i client A of
        None \<Rightarrow>
          (let d = \<lparr>dv_id = ca_device_id c, dv_user = i, dv_client = client, dv_name = name,
                    dv_version = version, dv_seen = ca_now c, dv_revoked = None\<rparr> in
           bindE (a_insert devices_tab d A) (\<lambda>A. Inr (A, d, True)))
      | Some old \<Rightarrow>
          (let f = (\<lambda>d. d\<lparr>dv_revoked := None, dv_name := name, dv_version := version, dv_seen := ca_now c\<rparr>) in
           bindE (a_update devices_tab (\<lambda>d. dv_user d = i \<and> dv_client d = client) f A) (\<lambda>A.
             Inr (A, f old, False))))"

definition list_user_devices :: "uuid \<Rightarrow> accounts \<Rightarrow> device list" where
  "list_user_devices i A =
     rev (sort_key dv_seen (filter (\<lambda>d. dv_user d = i) (ac_devices A)))"

definition touch_device_seen :: "call \<Rightarrow> uuid \<Rightarrow> accounts \<Rightarrow> accounts" where
  "touch_device_seen c i A = a_set devices_tab (\<lambda>d. dv_id d = i) (\<lambda>d. d\<lparr>dv_seen := ca_now c\<rparr>) A"

definition insert_refresh_token :: "refresh_token \<Rightarrow> accounts \<Rightarrow> db_error + accounts" where
  "insert_refresh_token t A = a_insert refresh_tab t A"

definition lock_refresh_token :: "string \<Rightarrow> accounts \<Rightarrow> refresh_token option" where
  "lock_refresh_token h A = find (\<lambda>t. rt_hash t = h) (ac_refresh A)"

definition revoke :: "call \<Rightarrow> refresh_token \<Rightarrow> refresh_token" where
  "revoke c t = t\<lparr>rt_revoked := Some (ca_now c)\<rparr>"

definition revoke_device_tokens :: "call \<Rightarrow> uuid \<Rightarrow> accounts \<Rightarrow> accounts" where
  "revoke_device_tokens c dev A =
     a_set refresh_tab (\<lambda>t. rt_device t = dev \<and> rt_revoked t = None) (revoke c) A"

definition mark_replaced :: "uuid \<Rightarrow> uuid \<Rightarrow> accounts \<Rightarrow> accounts" where
  "mark_replaced old new A =
     a_set refresh_tab (\<lambda>t. rt_id t = old) (\<lambda>t. t\<lparr>rt_replaced := Some new\<rparr>) A"

definition revoke_refresh_token :: "call \<Rightarrow> string \<Rightarrow> bool \<Rightarrow> accounts \<Rightarrow> accounts option" where
  "revoke_refresh_token c h whole_device A =
     (case find (\<lambda>t. rt_hash t = h \<and> rt_revoked t = None) (ac_refresh A) of
        None \<Rightarrow> None
      | Some t \<Rightarrow>
          (let A = a_set refresh_tab (\<lambda>t. rt_hash t = h \<and> rt_revoked t = None) (revoke c) A in
           if whole_device
           then Some (a_set devices_tab (\<lambda>d. dv_id d = rt_device t) (\<lambda>d. d\<lparr>dv_revoked := Some (ca_now c)\<rparr>)
                       (revoke_device_tokens c (rt_device t) A))
           else Some A))"

definition revoke_all_user_refresh_tokens :: "call \<Rightarrow> uuid \<Rightarrow> accounts \<Rightarrow> accounts" where
  "revoke_all_user_refresh_tokens c i A =
     a_set refresh_tab (\<lambda>t. rt_user t = i \<and> rt_revoked t = None) (revoke c) A"

definition revoke_all_user_refresh_tokens_except_device :: "call \<Rightarrow> uuid \<Rightarrow> uuid \<Rightarrow> accounts \<Rightarrow> accounts" where
  "revoke_all_user_refresh_tokens_except_device c i keep A =
     a_set refresh_tab (\<lambda>t. rt_user t = i \<and> rt_device t \<noteq> keep \<and> rt_revoked t = None) (revoke c) A"

section \<open>The audit log (audit.go)\<close>

definition record_audit ::
  "call \<Rightarrow> string \<Rightarrow> uuid option \<Rightarrow> string \<Rightarrow> uuid option \<Rightarrow> string \<Rightarrow> string \<Rightarrow>
     (string \<times> string) list \<Rightarrow> (string \<times> string) list \<Rightarrow> accounts \<Rightarrow> db_error + accounts" where
  "record_audit c actor_type actor action target reason ip_hash prior after A =
     a_insert audit_tab
       \<lparr>ae_actor_type = actor_type, ae_actor = actor, ae_action = action, ae_target = target,
        ae_reason = reason, ae_ip_hash = ip_hash, ae_before = prior, ae_after = after,
        ae_created = ca_wall c\<rparr> A"

end
