(* ===== verification/Auth.thy ===== *)
theory Auth
  imports Account_Store
begin

text \<open>
  The account service (internal/auth/service.go), first part: registration, verification codes,
  login, refresh tokens and logout. Every operation maps the account database to the database
  after it and to an error or a response; a transaction that fails leaves the database alone.
\<close>

section \<open>The service\<close>

text \<open>The libraries the service calls, and its configuration.\<close>

record service =
  sv_sha256 :: "string \<Rightarrow> 8 word list"
  sv_sha3 :: "string \<Rightarrow> 8 word list"
  sv_argon :: argon_library
  sv_unicode :: unicode
  sv_jwt :: jwt_library
  sv_uuid_text :: "uuid \<Rightarrow> string"
  sv_uuid_parse :: "string \<Rightarrow> uuid option"
  sv_hmac :: "8 word list \<Rightarrow> 8 word list \<Rightarrow> 8 word list"
  sv_base32 :: "string \<Rightarrow> 8 word list option"
  sv_mode :: string
  sv_dev_mode :: bool
  sv_mailer :: bool
  sv_params :: params
  sv_manager :: manager
  sv_verify_ttl :: time
  sv_reset_ttl :: time
  sv_cooldown :: time
  sv_fail_window :: time
  sv_ip_max :: int
  sv_session_ttl :: time
  sv_base_url :: string
  sv_reset_path :: string

datatype auth_error =
    InvalidCredentials
  | EmailTaken
  | NotVerified
  | Suspended
  | WeakPassword "policy_error option"
  | BadCode
  | TooManyAttempts
  | ResendCooldown
  | RateLimited
  | NoMailTransport
  | RegistrationClosed
  | SameEmail
  | DisplayNameInvalid
  | AppleAlreadyBound
  | InvitationRequired
  | InvalidInvitation
  | ReuseDetected
  | TokenExpired
  | AccountUnavailable
  | NotFound
  | BadAdminCredentials
  | AccountLocked
  | BadTotp
  | MailCooldown
  | Sql db_error

definition sql :: "db_error + 'a \<Rightarrow> auth_error + 'a" where
  "sql x = (case x of Inl e \<Rightarrow> Inl (Sql e) | Inr y \<Rightarrow> Inr y)"

lemma sql_simps [simp]: "sql (Inl e) = Inl (Sql e)" "sql (Inr y) = Inr y"
  by (simp_all add: sql_def)

lemma sql_Inr [simp]: "sql x = Inr y \<longleftrightarrow> x = Inr y"
  by (cases x) simp_all

text \<open>\<open>DB.Tx\<close>: roll back on an error, commit otherwise.\<close>

definition tx :: "(accounts \<Rightarrow> auth_error + accounts \<times> 'a) \<Rightarrow> accounts \<Rightarrow> accounts \<times> (auth_error + 'a)" where
  "tx body A = (case body A of Inl e \<Rightarrow> (A, Inl e) | Inr (A', x) \<Rightarrow> (A', Inr x))"

definition found :: "auth_error \<Rightarrow> 'a option \<Rightarrow> auth_error + 'a" where
  "found e x = (case x of None \<Rightarrow> Inl e | Some y \<Rightarrow> Inr y)"

lemma found_simps [simp]: "found e None = Inl e" "found e (Some y) = Inr y"
  by (simp_all add: found_def)

lemma found_Inr [simp]: "found e x = Inr y \<longleftrightarrow> x = Some y"
  by (cases x) simp_all

section \<open>Requests and responses\<close>

record device_info =
  di_client :: string
  di_name :: string
  di_version :: string

record register_request =
  rr_email :: string
  rr_password :: string
  rr_name :: string
  rr_invitation :: string

record public_user =
  pu_id :: uuid
  pu_email :: "string option"
  pu_name :: string
  pu_status :: string
  pu_verified :: bool

record login_response =
  lr_access :: string
  lr_refresh :: string
  lr_expires_in :: int
  lr_user :: uuid
  lr_public :: public_user
  lr_device :: "device option"
  lr_verified :: bool
  lr_new :: bool

definition public_user :: "user \<Rightarrow> public_user" where
  "public_user u = \<lparr>pu_id = us_id u, pu_email = us_email u, pu_name = us_name u, pu_status = us_status u,
     pu_verified = (us_verified u \<noteq> None)\<rparr>"

section \<open>Helpers\<close>

definition normalize_email :: "service \<Rightarrow> string \<Rightarrow> string" where
  "normalize_email S raw = un_lower (sv_unicode S) (trim_space raw)"

text \<open>The regular expression \<open>^[^@\s]+@[^@\s]+\.[^@\s]+$\<close>\<close>

definition email_re :: "string \<Rightarrow> bool" where
  "email_re s \<longleftrightarrow>
     list_all (\<lambda>c. c \<notin> {CHR 0x09, CHR 0x0A, CHR 0x0C, CHR 0x0D, CHR '' ''}) s \<and>
     (case split_on CHR ''@'' s of
        [l, d] \<Rightarrow> l \<noteq> [] \<and> list_ex (\<lambda>i. d ! i = CHR ''.'') [1..<length d - 1]
      | _ \<Rightarrow> False)"

definition valid_email :: "string \<Rightarrow> bool" where
  "valid_email raw \<longleftrightarrow>
     (let s = trim_space raw in length s \<le> 320 \<and> email_re s)"

definition hash_pii :: "service \<Rightarrow> string \<Rightarrow> string" where
  "hash_pii S s = hex_encode (sv_sha3 S s)"

definition token_hash :: "service \<Rightarrow> string \<Rightarrow> string" where
  "token_hash S s = hash_token (sv_sha256 S) s"

definition current_params :: "service \<Rightarrow> params" where
  "current_params S = (sv_params S)\<lparr>pm_salt_len := 16, pm_key_len := 32\<rparr>"

definition new_hash :: "service \<Rightarrow> call \<Rightarrow> string \<Rightarrow> string" where
  "new_hash S c plain = hash_password (sv_argon S) (ca_salt c) plain (current_params S)"

text \<open>What follows the last @ of an address.\<close>

definition domain_of :: "string \<Rightarrow> string" where
  "domain_of e = (if CHR ''@'' \<in> set e then last (split_on CHR ''@'' e) else [])"

text \<open>Mail can leave: a transport is configured, or the server runs in development mode.\<close>

definition can_mail :: "service \<Rightarrow> bool" where
  "can_mail S \<longleftrightarrow> sv_mailer S \<or> sv_dev_mode S"

definition send_mail :: "mail \<Rightarrow> accounts \<Rightarrow> accounts" where
  "send_mail m A = A\<lparr>ac_outbox := ac_outbox A @ [m]\<rparr>"

text \<open>The record written for an action of a user on the own account.\<close>

definition audit_user ::
  "service \<Rightarrow> call \<Rightarrow> uuid \<Rightarrow> string \<Rightarrow> string \<Rightarrow> (string \<times> string) list \<Rightarrow> (string \<times> string) list \<Rightarrow> accounts
     \<Rightarrow> auth_error + accounts" where
  "audit_user S c i action ip prior after A =
     sql (record_audit c ''user'' (Some i) action (Some i) [] (hash_pii S ip) prior after A)"

section \<open>Verification codes\<close>

definition fresh_code :: "call \<Rightarrow> string" where
  "fresh_code c = (case ca_code_bytes c of (b0, b1, b2, b3) \<Rightarrow> email_code b0 b1 b2 b3)"

text \<open>\<open>createTargetedChallengeTx\<close>: older codes for the purpose are consumed.\<close>

definition create_challenge ::
  "service \<Rightarrow> call \<Rightarrow> uuid \<Rightarrow> string \<Rightarrow> string option \<Rightarrow> accounts \<Rightarrow> auth_error + accounts \<times> string \<times> uuid" where
  "create_challenge S c i purpose target A =
     (let code = fresh_code c;
          g = \<lparr>cg_id = ca_challenge_id c, cg_user = i, cg_purpose = purpose,
               cg_hash = token_hash S code, cg_target = target,
               cg_expires = ca_wall c + sv_verify_ttl S, cg_attempts = 0, cg_consumed = None,
               cg_created = ca_now c\<rparr> in
      bindE (sql (create_email_challenge g (invalidate_pending_challenges c i purpose A))) (\<lambda>A.
        Inr (A, code, ca_challenge_id c)))"

text \<open>A code that could not be delivered is consumed.\<close>

definition deliver_code :: "call \<Rightarrow> mail \<Rightarrow> uuid \<Rightarrow> accounts \<Rightarrow> accounts" where
  "deliver_code c m i A =
     (let A = send_mail m A in
      if ca_delivers c then A
      else (case consume_challenge c i A of None \<Rightarrow> A | Some A' \<Rightarrow> A'))"

text \<open>\<open>issueAndSendVerification\<close>; \<open>None\<close> is the silent end without a code.\<close>

definition issue_verification_tx ::
  "service \<Rightarrow> call \<Rightarrow> string \<Rightarrow> accounts \<Rightarrow> auth_error + accounts \<times> (string \<times> uuid) option" where
  "issue_verification_tx S c email A =
     (case get_user_by_normalized_email c email A of
        None \<Rightarrow> Inr (A, None)
      | Some u \<Rightarrow>
          if us_status u \<noteq> ''pending'' then Inr (A, None)
          else if (case latest_live_challenge c (us_id u) ''verify_email'' A of
                     None \<Rightarrow> False
                   | Some g \<Rightarrow> ca_wall c - cg_created g < sv_cooldown S)
          then Inl ResendCooldown
          else bindE (create_challenge S c (us_id u) ''verify_email'' None A) (\<lambda>(A, k). Inr (A, Some k)))"

definition deliver_if :: "call \<Rightarrow> string \<Rightarrow> (string \<times> uuid) option \<Rightarrow> accounts \<Rightarrow> accounts" where
  "deliver_if c email k A =
     (case k of None \<Rightarrow> A | Some (code, i) \<Rightarrow> deliver_code c (VerifyCodeMail email code) i A)"

definition resend :: "service \<Rightarrow> call \<Rightarrow> string \<Rightarrow> accounts \<Rightarrow> accounts \<times> (auth_error + unit)" where
  "resend S c raw A =
     (let email = normalize_email S raw in
      if \<not> valid_email email then (A, Inr ())
      else if \<not> can_mail S then (A, Inl NoMailTransport)
      else (case tx (issue_verification_tx S c email) A of
              (A, Inl e) \<Rightarrow> (A, Inl e)
            | (A, Inr k) \<Rightarrow> (deliver_if c email k A, Inr ())))"

section \<open>Registration\<close>

text \<open>A new pending account with its password and code.\<close>

definition register_new ::
  "service \<Rightarrow> call \<Rightarrow> register_request \<Rightarrow> string \<Rightarrow> string \<Rightarrow> string \<Rightarrow> accounts
     \<Rightarrow> auth_error + accounts \<times> bool \<times> string \<times> uuid" where
  "register_new S c req email hash ip A =
     (let u = \<lparr>us_id = ca_user_id c, us_email = Some email, us_norm = Some email, us_name = rr_name req,
               us_status = ''pending'', us_role = ''user'', us_apple = None, us_dev = None,
               us_verified = None, us_created = ca_wall c, us_updated = ca_wall c,
               us_last_login = None, us_deletion = None, us_deleted = None\<rparr> in
      bindE (sql (create_user u A)) (\<lambda>A.
      bindE (sql (upsert_password_credential c (us_id u) hash A)) (\<lambda>A.
      bindE (create_challenge S c (us_id u) ''verify_email'' None A) (\<lambda>(A, k).
      bindE (audit_user S c (us_id u) ''account.register'' ip []
               [(''status'', ''pending''), (''email_domain'', domain_of email)] A) (\<lambda>A.
        Inr (A, True, k))))))"

definition register_tx ::
  "service \<Rightarrow> call \<Rightarrow> register_request \<Rightarrow> string \<Rightarrow> string \<Rightarrow> string \<Rightarrow> accounts
     \<Rightarrow> auth_error + accounts \<times> bool \<times> string \<times> uuid" where
  "register_tx S c req email hash ip A =
     (let existing = get_user_by_normalized_email c email A;
          fresh =
            (if sv_mode S = ''invite_only'' then
               if rr_invitation req = [] then Inl InvitationRequired
               else
                 (case consume_invitation c (rr_invitation req) A of
                    Inr (Some A) \<Rightarrow> register_new S c req email hash ip A
                  | _ \<Rightarrow> Inl InvalidInvitation)
             else register_new S c req email hash ip A) in
      case existing of
        None \<Rightarrow> fresh
      | Some u \<Rightarrow>
          if us_deleted u = None \<and> us_status u \<noteq> ''pending'' then Inl EmailTaken
          else if us_status u = ''pending'' then
            bindE (sql (upsert_password_credential c (us_id u) hash A)) (\<lambda>A.
            bindE (sql (a_update users_tab (\<lambda>v. us_id v = us_id u) (\<lambda>v. v\<lparr>us_name := rr_name req\<rparr>) A)) (\<lambda>A.
            bindE (create_challenge S c (us_id u) ''verify_email'' None A) (\<lambda>(A, k).
              Inr (A, False, k))))
          else fresh)"

text \<open>The response says only whether an account was created.\<close>

definition register ::
  "service \<Rightarrow> call \<Rightarrow> register_request \<Rightarrow> string \<Rightarrow> accounts \<Rightarrow> accounts \<times> (auth_error + bool)" where
  "register S c req ip A =
     (if sv_mode S = ''disabled'' then (A, Inl RegistrationClosed)
      else
        (let email = normalize_email S (rr_email req) in
         if \<not> valid_email email then (A, Inr False)
         else
           (case validate_password (sv_unicode S) (rr_password req) email (rr_name req) of
              Some e \<Rightarrow> (A, Inl (WeakPassword (Some e)))
            | None \<Rightarrow>
                if \<not> can_mail S then (A, Inl NoMailTransport)
                else
                  (case tx (register_tx S c req email (new_hash S c (rr_password req)) ip) A of
                     (A, Inl e) \<Rightarrow> (A, Inl e)
                   | (A, Inr (created, k)) \<Rightarrow> (deliver_if c email (Some k) A, Inr created)))))"

section \<open>Tokens for a device\<close>

definition new_refresh :: "service \<Rightarrow> call \<Rightarrow> uuid \<Rightarrow> uuid \<Rightarrow> refresh_token" where
  "new_refresh S c i dev =
     \<lparr>rt_id = ca_refresh_id c, rt_user = i, rt_device = dev,
      rt_hash = token_hash S (base64_url (ca_refresh_bytes c)),
      rt_expires = ca_wall c + mg_refresh_ttl (sv_manager S), rt_revoked = None, rt_replaced = None,
      rt_created = ca_now c\<rparr>"

definition token_pair :: "service \<Rightarrow> call \<Rightarrow> user \<Rightarrow> uuid \<Rightarrow> device option \<Rightarrow> bool \<Rightarrow> login_response" where
  "token_pair S c u dev d verified =
     (let (access, ttl) = new_access_token (sv_jwt S) (sv_manager S) (ca_wall c) (ca_jti_bytes c)
                            (sv_uuid_text S (us_id u)) (sv_uuid_text S dev) (us_role u) in
      \<lparr>lr_access = access, lr_refresh = base64_url (ca_refresh_bytes c),
       lr_expires_in = unix_seconds ttl, lr_user = us_id u, lr_public = public_user u,
       lr_device = d, lr_verified = verified, lr_new = False\<rparr>)"

text \<open>\<open>issueTokensForDeviceTx\<close>; the last component says whether the device is new.\<close>

definition issue_tokens ::
  "service \<Rightarrow> call \<Rightarrow> user \<Rightarrow> device_info \<Rightarrow> accounts \<Rightarrow> auth_error + accounts \<times> login_response \<times> bool" where
  "issue_tokens S c u di A =
     (if us_status u \<noteq> ''active'' \<or> us_deleted u \<noteq> None then Inl Suspended
      else
        (let client = (if di_client di = [] then ''verify-'' @ hex_encode (ca_hex_bytes c) else di_client di) in
         bindE (sql (get_or_create_device c (us_id u) client (di_name di) (di_version di) A)) (\<lambda>(A, d, created).
         bindE (sql (insert_refresh_token (new_refresh S c (us_id u) (dv_id d)) A)) (\<lambda>A.
           Inr (A, token_pair S c u (dv_id d) (Some d) (us_verified u \<noteq> None), created)))))"

section \<open>Verification of an address\<close>

text \<open>The checks that VerifyEmail and VerifyEmailChange make before they consume a challenge.\<close>

definition check_code :: "service \<Rightarrow> call \<Rightarrow> string \<Rightarrow> challenge \<Rightarrow> auth_error option" where
  "check_code S c code g =
     (if cg_expires g < ca_wall c then Some BadCode
      else if 5 \<le> cg_attempts g then Some TooManyAttempts
      else if token_hash S (trim_space code) \<noteq> cg_hash g then Some BadCode
      else None)"

text \<open>The wrong code is counted outside the transaction, and only a wrong code is.\<close>

definition count_wrong_code :: "service \<Rightarrow> call \<Rightarrow> string \<Rightarrow> challenge \<Rightarrow> accounts \<Rightarrow> accounts" where
  "count_wrong_code S c code g A =
     (if \<not> cg_expires g < ca_wall c \<and> cg_attempts g < 5 \<and> token_hash S (trim_space code) \<noteq> cg_hash g
      then (case bump_challenge_attempt (cg_id g) A of Inl _ \<Rightarrow> A | Inr A' \<Rightarrow> A')
      else A)"

definition activate_tx ::
  "service \<Rightarrow> call \<Rightarrow> uuid \<Rightarrow> uuid \<Rightarrow> device_info \<Rightarrow> string \<Rightarrow> accounts
     \<Rightarrow> auth_error + accounts \<times> login_response" where
  "activate_tx S c i g di ip A =
     bindE (found BadCode (consume_challenge c g A)) (\<lambda>A.
     bindE (sql (mark_email_verified c i A)) (\<lambda>A.
     bindE (audit_user S c i ''account.email_verified'' ip [] [] A) (\<lambda>A.
     bindE (found NotFound (get_user_by_id i A)) (\<lambda>u.
     bindE (issue_tokens S c u di A) (\<lambda>(A, resp, _). Inr (A, resp))))))"

definition verify_email ::
  "service \<Rightarrow> call \<Rightarrow> string \<Rightarrow> string \<Rightarrow> device_info \<Rightarrow> string \<Rightarrow> accounts
     \<Rightarrow> accounts \<times> (auth_error + login_response)" where
  "verify_email S c email code di ip A =
     (case get_user_by_normalized_email c (normalize_email S email) A of
        None \<Rightarrow> (A, Inl BadCode)
      | Some u \<Rightarrow>
          if us_status u \<noteq> ''pending'' \<or> us_deleted u \<noteq> None then (A, Inl BadCode)
          else
            (case latest_live_challenge c (us_id u) ''verify_email'' A of
               None \<Rightarrow> (A, Inl BadCode)
             | Some g \<Rightarrow>
                 (case check_code S c code g of
                    Some e \<Rightarrow> (count_wrong_code S c code g A, Inl e)
                  | None \<Rightarrow> tx (activate_tx S c (us_id u) (cg_id g) di ip) A)))"

section \<open>Login\<close>

text \<open>A login event outside a transaction: a failing INSERT is ignored.\<close>

definition note_login ::
  "service \<Rightarrow> call \<Rightarrow> uuid option \<Rightarrow> string \<Rightarrow> device_info \<Rightarrow> string \<Rightarrow> string \<Rightarrow> accounts \<Rightarrow> accounts" where
  "note_login S c i email di ip result A =
     (case record_login_event c i (hash_pii S email) (di_client di) (hash_pii S ip) result A of
        Inl _ \<Rightarrow> A | Inr A' \<Rightarrow> A')"

text \<open>
  The transaction of a login that passed. Errors of the re-hash and of the login event are
  ignored by the code, but PostgreSQL then fails every later statement of the transaction.
\<close>

definition login_tx ::
  "service \<Rightarrow> call \<Rightarrow> user \<Rightarrow> string \<Rightarrow> string \<Rightarrow> string \<Rightarrow> device_info \<Rightarrow> string \<Rightarrow> accounts
     \<Rightarrow> auth_error + accounts \<times> login_response \<times> bool" where
  "login_tx S c u email password hash di ip A =
     bindE (if needs_rehash (sv_argon S) hash (current_params S)
            then (case upsert_password_credential c (us_id u) (new_hash S c password) A of
                    Inl _ \<Rightarrow> Inl (Sql TransactionAborted) | Inr A' \<Rightarrow> Inr A')
            else Inr A) (\<lambda>A.
     (case record_login_event c (Some (us_id u)) (hash_pii S email) (di_client di) (hash_pii S ip) ''success''
             (touch_last_login c (us_id u) A) of
        Inl _ \<Rightarrow>
          if us_status u \<noteq> ''active'' \<or> us_deleted u \<noteq> None then Inl Suspended
          else Inl (Sql TransactionAborted)
      | Inr A \<Rightarrow> issue_tokens S c u di A))"

definition login ::
  "service \<Rightarrow> call \<Rightarrow> string \<Rightarrow> string \<Rightarrow> device_info \<Rightarrow> string \<Rightarrow> accounts
     \<Rightarrow> accounts \<times> (auth_error + login_response)" where
  "login S c raw password di ip A =
     (let email = normalize_email S raw;
          fail = (\<lambda>i result e. (note_login S c i email di ip result A, Inl e)) in
      case get_user_by_normalized_email c email A of
        None \<Rightarrow> fail None ''unknown_email'' InvalidCredentials
      | Some u \<Rightarrow>
          if us_deleted u \<noteq> None \<or> us_status u = ''deleted''
          then fail None ''unknown_email'' InvalidCredentials
          else if us_status u = ''pending'' then fail (Some (us_id u)) ''unverified'' NotVerified
          else if us_status u = ''suspended'' \<or> us_status u = ''pending_deletion''
          then fail (Some (us_id u)) ''suspended'' Suspended
          else if sv_ip_max S \<le> int (count_recent_failures_by_ip c (hash_pii S ip) (sv_fail_window S) A)
          then fail (Some (us_id u)) ''rate_limited'' RateLimited
          else
            (case get_password_hash (us_id u) A of
               None \<Rightarrow> fail (Some (us_id u)) ''invalid_password'' InvalidCredentials
             | Some hash \<Rightarrow>
                 if verify_password (sv_argon S) password hash \<noteq> Some True
                 then fail (Some (us_id u)) ''invalid_password'' InvalidCredentials
                 else
                   (case tx (login_tx S c u email password hash di ip) A of
                      (A, Inl e) \<Rightarrow> (A, Inl e)
                    | (A, Inr (resp, created)) \<Rightarrow>
                        (case us_email u of
                           Some (x # e) \<Rightarrow>
                             (if created then send_mail (NewDeviceMail (x # e) (di_name di) (di_version di)) A
                              else A, Inr resp)
                         | _ \<Rightarrow> (A, Inr resp)))))"

section \<open>Refresh and logout\<close>

text \<open>
  \<open>Refresh\<close>: the successor is issued in the transaction that retires the old token; a token that
  was revoked or replaced costs its device all its tokens, and that is committed.
\<close>

definition unavailable :: "user \<Rightarrow> bool" where
  "unavailable u \<longleftrightarrow> us_deleted u \<noteq> None \<or> us_status u = ''suspended'' \<or>
     us_status u = ''pending_deletion'' \<or> us_status u = ''deleted'' \<or>
     (us_status u = ''pending'' \<and> us_verified u = None)"

definition refresh_tx ::
  "service \<Rightarrow> call \<Rightarrow> string \<Rightarrow> accounts \<Rightarrow> auth_error + accounts \<times> login_response option" where
  "refresh_tx S c h A =
     bindE (found NotFound (lock_refresh_token h A)) (\<lambda>old.
       if rt_revoked old \<noteq> None \<or> rt_replaced old \<noteq> None
       then Inr (revoke_device_tokens c (rt_device old) A, None)
       else if rt_expires old < ca_wall c then Inl TokenExpired
       else
         bindE (found NotFound (get_user_by_id (rt_user old) A)) (\<lambda>u.
           if unavailable u then Inl AccountUnavailable
           else
             bindE (sql (insert_refresh_token (new_refresh S c (us_id u) (rt_device old)) A)) (\<lambda>A.
               let A = mark_replaced (rt_id old) (ca_refresh_id c) A;
                   A = touch_last_login c (us_id u) (touch_device_seen c (rt_device old) A) in
               Inr (A, Some (token_pair S c u (rt_device old) None False)))))"

definition refresh ::
  "service \<Rightarrow> call \<Rightarrow> string \<Rightarrow> accounts \<Rightarrow> accounts \<times> (auth_error + login_response)" where
  "refresh S c plain A =
     (case tx (refresh_tx S c (token_hash S plain)) A of
        (A, Inl e) \<Rightarrow> (A, Inl e)
      | (A, Inr None) \<Rightarrow> (A, Inl ReuseDetected)
      | (A, Inr (Some resp)) \<Rightarrow> (A, Inr resp))"

definition logout :: "service \<Rightarrow> call \<Rightarrow> string \<Rightarrow> bool \<Rightarrow> accounts \<Rightarrow> accounts \<times> (auth_error + unit)" where
  "logout S c plain whole_device A =
     (case revoke_refresh_token c (token_hash S plain) whole_device A of
        None \<Rightarrow> (A, Inl NotFound) | Some A' \<Rightarrow> (A', Inr ()))"

definition logout_all_user ::
  "service \<Rightarrow> call \<Rightarrow> uuid \<Rightarrow> string \<Rightarrow> accounts \<Rightarrow> accounts \<times> (auth_error + unit)" where
  "logout_all_user S c i ip A =
     tx (\<lambda>A. bindE (audit_user S c i ''account.logout_all'' ip [] [] (revoke_all_user_refresh_tokens c i A))
               (\<lambda>A. Inr (A, ()))) A"

end
