(* ===== verification/Auth_Profile.thy ===== *)
theory Auth_Profile
  imports Auth
begin

text \<open>
  The account service (internal/auth/service.go), second part: passwords, Apple and development
  sign-in, devices, the profile, the change of the login address, and what the administration
  starts. The deletion of accounts and data is in the theory of the whole server.
\<close>

section \<open>Passwords\<close>

definition reset_link :: "service \<Rightarrow> string \<Rightarrow> string" where
  "reset_link S tok =
     (if sv_base_url S = [] \<or> sv_reset_path S = [] then []
      else sv_base_url S @ sv_reset_path S @ ''?token='' @ tok)"

definition fresh_opaque :: "call \<Rightarrow> string" where
  "fresh_opaque c = hex_encode (ca_opaque_bytes c)"

definition new_reset :: "service \<Rightarrow> call \<Rightarrow> uuid \<Rightarrow> reset_token" where
  "new_reset S c i = \<lparr>rs_id = ca_reset_id c, rs_user = i, rs_hash = token_hash S (fresh_opaque c),
     rs_expires = ca_wall c + sv_reset_ttl S, rs_consumed = None, rs_created = ca_now c\<rparr>"

text \<open>\<open>sendResetEmail\<close>: a token that could not be delivered is consumed.\<close>

definition deliver_reset :: "service \<Rightarrow> call \<Rightarrow> string \<Rightarrow> accounts \<Rightarrow> accounts" where
  "deliver_reset S c email A =
     (let A = send_mail (ResetMail email (fresh_opaque c) (reset_link S (fresh_opaque c))) A in
      if ca_delivers c then A else invalidate_password_reset_token c (ca_reset_id c) A)"

definition in_reset_cooldown :: "service \<Rightarrow> call \<Rightarrow> uuid \<Rightarrow> accounts \<Rightarrow> bool" where
  "in_reset_cooldown S c i A \<longleftrightarrow>
     (case last_reset c i A of None \<Rightarrow> False | Some t \<Rightarrow> ca_wall c - rs_created t < sv_cooldown S)"

definition forgot_tx :: "service \<Rightarrow> call \<Rightarrow> string \<Rightarrow> accounts \<Rightarrow> auth_error + accounts \<times> bool" where
  "forgot_tx S c email A =
     (case get_user_by_normalized_email c email A of
        None \<Rightarrow> Inr (A, False)
      | Some u \<Rightarrow>
          if us_deleted u \<noteq> None \<or> us_status u \<noteq> ''active'' \<or> us_verified u = None then Inr (A, False)
          else if in_reset_cooldown S c (us_id u) A then Inr (A, False)
          else bindE (sql (create_password_reset_token (new_reset S c (us_id u)) A)) (\<lambda>A. Inr (A, True)))"

definition forgot_password ::
  "service \<Rightarrow> call \<Rightarrow> string \<Rightarrow> accounts \<Rightarrow> accounts \<times> (auth_error + unit)" where
  "forgot_password S c raw A =
     (if \<not> can_mail S then (A, Inl NoMailTransport)
      else
        (let email = normalize_email S raw in
         if \<not> valid_email email then (A, Inr ())
         else
           (case tx (forgot_tx S c email) A of
              (A, Inl e) \<Rightarrow> (A, Inl e)
            | (A, Inr sent) \<Rightarrow> (if sent then deliver_reset S c email A else A, Inr ()))))"

definition reset_password_tx ::
  "service \<Rightarrow> call \<Rightarrow> string \<Rightarrow> string \<Rightarrow> string \<Rightarrow> accounts \<Rightarrow> auth_error + accounts \<times> unit" where
  "reset_password_tx S c h password ip A =
     bindE (found BadCode (consume_password_reset_token c h A)) (\<lambda>(A, i).
     bindE (found BadCode (get_user_by_id i A)) (\<lambda>u.
       if us_deleted u \<noteq> None then Inl BadCode
       else
         bindE (sql (upsert_password_credential c i (new_hash S c password) A)) (\<lambda>A.
         bindE (audit_user S c i ''account.password_reset'' ip [] [] (revoke_all_user_refresh_tokens c i A)) (\<lambda>A.
           Inr (A, ())))))"

definition reset_password ::
  "service \<Rightarrow> call \<Rightarrow> string \<Rightarrow> string \<Rightarrow> string \<Rightarrow> accounts \<Rightarrow> accounts \<times> (auth_error + unit)" where
  "reset_password S c tok password ip A =
     (case validate_password (sv_unicode S) password [] [] of
        Some _ \<Rightarrow> (A, Inl (WeakPassword None))
      | None \<Rightarrow> tx (reset_password_tx S c (token_hash S (trim_space tok)) password ip) A)"

definition deref :: "string option \<Rightarrow> string" where
  "deref s = (case s of None \<Rightarrow> [] | Some x \<Rightarrow> x)"

text \<open>A notice to the address of an account, if it has one.\<close>

definition notify :: "(string \<Rightarrow> mail) \<Rightarrow> string option \<Rightarrow> accounts \<Rightarrow> accounts" where
  "notify m email A = (case email of Some (x # e) \<Rightarrow> send_mail (m (x # e)) A | _ \<Rightarrow> A)"

definition change_password ::
  "service \<Rightarrow> call \<Rightarrow> uuid \<Rightarrow> uuid \<Rightarrow> string \<Rightarrow> string \<Rightarrow> string \<Rightarrow> accounts
     \<Rightarrow> accounts \<times> (auth_error + unit)" where
  "change_password S c i dev current new ip A =
     (case get_user_by_id i A of
        None \<Rightarrow> (A, Inl InvalidCredentials)
      | Some u \<Rightarrow>
          (case get_password_hash i A of
             None \<Rightarrow> (A, Inl InvalidCredentials)
           | Some hash \<Rightarrow>
               if verify_password (sv_argon S) current hash \<noteq> Some True then (A, Inl InvalidCredentials)
               else if validate_password (sv_unicode S) new (deref (us_norm u)) (us_name u) \<noteq> None
               then (A, Inl (WeakPassword None))
               else
                 (case tx (\<lambda>A.
                         bindE (sql (upsert_password_credential c i (new_hash S c new) A)) (\<lambda>A.
                         bindE (audit_user S c i ''account.password_change'' ip []
                                  [(''other_sessions_revoked'', ''true'')]
                                  (revoke_all_user_refresh_tokens_except_device c i dev A)) (\<lambda>A.
                           Inr (A, ())))) A of
                    (A, Inl e) \<Rightarrow> (A, Inl e)
                  | (A, Inr _) \<Rightarrow> (notify PasswordChangedMail (us_email u) A, Inr ()))))"

section \<open>Apple and development sign-in\<close>

text \<open>The INSERT ... ON CONFLICT (provider, provider\_subject) DO UPDATE SET last\_used\_at\<close>

definition touch_identity :: "call \<Rightarrow> uuid \<Rightarrow> string \<Rightarrow> accounts \<Rightarrow> db_error + accounts" where
  "touch_identity c i subject A =
     (let same = (\<lambda>r. ai_provider r = ''apple'' \<and> ai_subject r = subject) in
      if a_hits identities_tab same A
      then Inr (a_set identities_tab same (\<lambda>r. r\<lparr>ai_used := Some (ca_now c)\<rparr>) A)
      else bind_auth_identity c i ''apple'' subject A)"

definition apple_user :: "call \<Rightarrow> string \<Rightarrow> user" where
  "apple_user c subject =
     \<lparr>us_id = ca_user_id c, us_email = None, us_norm = None, us_name = [], us_status = ''active'',
      us_role = ''user'', us_apple = Some subject, us_dev = None, us_verified = Some (ca_wall c),
      us_created = ca_wall c, us_updated = ca_wall c, us_last_login = None, us_deletion = None,
      us_deleted = None\<rparr>"

definition apple_tx ::
  "service \<Rightarrow> call \<Rightarrow> string \<Rightarrow> device_info \<Rightarrow> accounts \<Rightarrow> auth_error + accounts \<times> login_response" where
  "apple_tx S c subject di A =
     (case get_user_by_apple_subject subject A of
        None \<Rightarrow>
          bindE (sql (create_user (apple_user c subject) A)) (\<lambda>A.
          bindE (sql (bind_auth_identity c (ca_user_id c) ''apple'' subject A)) (\<lambda>A.
          bindE (issue_tokens S c (apple_user c subject) di A) (\<lambda>(A, resp, _).
            Inr (A, resp\<lparr>lr_new := True\<rparr>))))
      | Some u \<Rightarrow>
          if us_deleted u \<noteq> None \<or> us_status u \<noteq> ''active'' then Inl Suspended
          else
            (case touch_identity c (us_id u) subject A of
               Inl _ \<Rightarrow> Inl (Sql TransactionAborted)
             | Inr A \<Rightarrow> bindE (issue_tokens S c u di A) (\<lambda>(A, resp, _). Inr (A, resp\<lparr>lr_new := False\<rparr>))))"

definition apple_login ::
  "service \<Rightarrow> call \<Rightarrow> string \<Rightarrow> device_info \<Rightarrow> accounts \<Rightarrow> accounts \<times> (auth_error + login_response)" where
  "apple_login S c subject di A = tx (apple_tx S c subject di) A"

definition dev_user :: "call \<Rightarrow> string \<Rightarrow> user" where
  "dev_user c name =
     \<lparr>us_id = ca_user_id c, us_email = None, us_norm = None, us_name = name, us_status = ''active'',
      us_role = ''user'', us_apple = None, us_dev = Some name, us_verified = None,
      us_created = ca_wall c, us_updated = ca_wall c, us_last_login = None, us_deletion = None,
      us_deleted = None\<rparr>"

definition dev_tx ::
  "service \<Rightarrow> call \<Rightarrow> string \<Rightarrow> device_info \<Rightarrow> accounts \<Rightarrow> auth_error + accounts \<times> login_response" where
  "dev_tx S c name di A =
     bindE (case get_user_by_dev_name c name A of
              None \<Rightarrow> bindE (sql (create_user (dev_user c name) A)) (\<lambda>A. Inr (A, dev_user c name))
            | Some u \<Rightarrow>
                if us_deleted u \<noteq> None \<or> us_status u \<noteq> ''active'' then Inl Suspended else Inr (A, u)) (\<lambda>(A, u).
     bindE (issue_tokens S c u di A) (\<lambda>(A, resp, _). Inr (A, resp)))"

definition dev_login ::
  "service \<Rightarrow> call \<Rightarrow> string \<Rightarrow> device_info \<Rightarrow> accounts \<Rightarrow> accounts \<times> (auth_error + login_response)" where
  "dev_login S c name di A =
     (if name = [] then (A, Inl InvalidCredentials) else tx (dev_tx S c name di) A)"

section \<open>Devices\<close>

text \<open>The answer of \<open>ListDevices\<close>: each device with whether it is the current one.\<close>

definition list_devices :: "uuid \<Rightarrow> uuid \<Rightarrow> accounts \<Rightarrow> (device \<times> bool) list" where
  "list_devices i current A = map (\<lambda>d. (d, dv_id d = current)) (list_user_devices i A)"

text \<open>The two statements that RevokeDevice shares with the administration.\<close>

definition revoke_user_device :: "call \<Rightarrow> uuid \<Rightarrow> uuid \<Rightarrow> accounts \<Rightarrow> accounts option" where
  "revoke_user_device c i dev A =
     (let P = (\<lambda>d. dv_id d = dev \<and> dv_user d = i \<and> dv_revoked d = None) in
      if a_hits devices_tab P A
      then Some (revoke_device_tokens c dev (a_set devices_tab P (\<lambda>d. d\<lparr>dv_revoked := Some (ca_now c)\<rparr>) A))
      else None)"

definition revoke_device ::
  "service \<Rightarrow> call \<Rightarrow> uuid \<Rightarrow> uuid \<Rightarrow> string \<Rightarrow> accounts \<Rightarrow> accounts \<times> (auth_error + unit)" where
  "revoke_device S c i dev ip A =
     tx (\<lambda>A. bindE (found NotFound (revoke_user_device c i dev A)) (\<lambda>A.
             bindE (audit_user S c i ''user.revoke_device'' ip [] [] A) (\<lambda>A. Inr (A, ())))) A"

section \<open>The profile\<close>

text \<open>\<open>CleanDisplayName\<close>: the words of the name, one blank between them.\<close>

fun join_words :: "string list \<Rightarrow> string" where
  "join_words [] = []"
| "join_words [w] = w"
| "join_words (w # ws) = w @ CHR '' '' # join_words ws"

definition clean_display_name :: "string \<Rightarrow> string" where
  "clean_display_name raw = join_words (str_fields raw)"

definition update_profile ::
  "service \<Rightarrow> call \<Rightarrow> uuid \<Rightarrow> string \<Rightarrow> string \<Rightarrow> accounts \<Rightarrow> accounts \<times> (auth_error + public_user)" where
  "update_profile S c i raw ip A =
     (let name = clean_display_name raw in
      if 64 < utf8_length name then (A, Inl DisplayNameInvalid)
      else
        (case tx (\<lambda>A.
               bindE (sql (update_display_name c i name A)) (\<lambda>A.
               bindE (audit_user S c i ''account.profile_update'' ip []
                        [(''display_name_len'', decimal (length name))] A) (\<lambda>A. Inr (A, ())))) A of
           (A, Inl e) \<Rightarrow> (A, Inl e)
         | (A, Inr _) \<Rightarrow>
             (A, map_sum id public_user (found NotFound (get_user_by_id i A)))))"

section \<open>Change of the login address\<close>

definition request_email_change_tx ::
  "service \<Rightarrow> call \<Rightarrow> uuid \<Rightarrow> string \<Rightarrow> string \<Rightarrow> accounts \<Rightarrow> auth_error + accounts \<times> string \<times> uuid" where
  "request_email_change_tx S c i email ip A =
     (if (case get_user_by_normalized_email c email A of
            None \<Rightarrow> False | Some v \<Rightarrow> us_deleted v = None \<and> us_id v \<noteq> i)
      then Inl EmailTaken
      else if (case latest_live_challenge c i ''change_email'' A of
                 None \<Rightarrow> False | Some g \<Rightarrow> ca_wall c - cg_created g < sv_cooldown S)
      then Inl ResendCooldown
      else
        bindE (create_challenge S c i ''change_email'' (Some email) A) (\<lambda>(A, k).
        bindE (audit_user S c i ''account.email_change_start'' ip [] [(''email_domain'', domain_of email)] A) (\<lambda>A.
          Inr (A, k))))"

text \<open>The answer is the address the code went to and when it expires.\<close>

definition request_email_change ::
  "service \<Rightarrow> call \<Rightarrow> uuid \<Rightarrow> string \<Rightarrow> string \<Rightarrow> string \<Rightarrow> accounts
     \<Rightarrow> accounts \<times> (auth_error + string \<times> time)" where
  "request_email_change S c i password raw ip A =
     (if \<not> can_mail S then (A, Inl NoMailTransport)
      else
        (let email = normalize_email S raw in
         if \<not> valid_email email then (A, Inl BadCode)
         else
           (case get_user_by_id i A of
              None \<Rightarrow> (A, Inl InvalidCredentials)
            | Some u \<Rightarrow>
                if us_deleted u \<noteq> None \<or> us_status u \<noteq> ''active'' then (A, Inl InvalidCredentials)
                else if us_norm u = Some email then (A, Inl SameEmail)
                else
                  (case get_password_hash i A of
                     None \<Rightarrow> (A, Inl InvalidCredentials)
                   | Some hash \<Rightarrow>
                       if verify_password (sv_argon S) password hash \<noteq> Some True
                       then (A, Inl InvalidCredentials)
                       else
                         (case tx (request_email_change_tx S c i email ip) A of
                            (A, Inl e) \<Rightarrow> (A, Inl e)
                          | (A, Inr (code, k)) \<Rightarrow>
                              (deliver_code c (EmailChangeMail email (deref (us_norm u)) code) k A,
                               Inr (email, ca_wall c + sv_verify_ttl S)))))))"

definition change_email_tx ::
  "service \<Rightarrow> call \<Rightarrow> uuid \<Rightarrow> uuid \<Rightarrow> uuid \<Rightarrow> string \<Rightarrow> string \<Rightarrow> device_info \<Rightarrow> string \<Rightarrow> accounts
     \<Rightarrow> auth_error + accounts \<times> login_response" where
  "change_email_tx S c i dev g old email di ip A =
     (if (case get_user_by_normalized_email c email A of
            None \<Rightarrow> False | Some v \<Rightarrow> us_id v \<noteq> i \<and> us_deleted v = None)
      then Inl EmailTaken
      else
        bindE (found BadCode (consume_challenge c g A)) (\<lambda>A.
        bindE (sql (update_user_email c i email email A)) (\<lambda>A.
        bindE (found NotFound (get_user_by_id i (revoke_all_user_refresh_tokens_except_device c i dev A))) (\<lambda>u.
        bindE (issue_tokens S c u di (revoke_all_user_refresh_tokens_except_device c i dev A)) (\<lambda>(A, resp, _).
        bindE (audit_user S c i ''account.email_changed'' ip [(''email_domain'', domain_of old)]
                 [(''email_domain'', domain_of email)] A) (\<lambda>A.
          Inr (A, resp)))))))"

definition verify_email_change ::
  "service \<Rightarrow> call \<Rightarrow> uuid \<Rightarrow> uuid \<Rightarrow> string \<Rightarrow> device_info \<Rightarrow> string \<Rightarrow> accounts
     \<Rightarrow> accounts \<times> (auth_error + login_response)" where
  "verify_email_change S c i dev code di ip A =
     (case get_user_by_id i A of
        None \<Rightarrow> (A, Inl BadCode)
      | Some u \<Rightarrow>
          if us_deleted u \<noteq> None \<or> us_status u \<noteq> ''active'' then (A, Inl BadCode)
          else
            (case latest_live_challenge c i ''change_email'' A of
               None \<Rightarrow> (A, Inl BadCode)
             | Some g \<Rightarrow>
                 (case cg_target g of
                    None \<Rightarrow> (A, Inl BadCode)
                  | Some email \<Rightarrow>
                      (case check_code S c code g of
                         Some e \<Rightarrow> (count_wrong_code S c code g A, Inl e)
                       | None \<Rightarrow>
                           (case tx (change_email_tx S c i dev (cg_id g) (deref (us_norm u)) email di ip) A of
                              (A, Inl e) \<Rightarrow> (A, Inl e)
                            | (A, Inr resp) \<Rightarrow>
                                (if deref (us_norm u) \<noteq> [] \<and> deref (us_norm u) \<noteq> email
                                 then send_mail (EmailChangedMail (deref (us_norm u)) email) A else A,
                                 Inr resp))))))"

section \<open>Binding an Apple account\<close>

definition set_apple_subject :: "call \<Rightarrow> uuid \<Rightarrow> string option \<Rightarrow> accounts \<Rightarrow> db_error + accounts" where
  "set_apple_subject c i subject A =
     a_update users_tab (\<lambda>u. us_id u = i) (\<lambda>u. u\<lparr>us_apple := subject, us_updated := ca_now c\<rparr>) A"

definition bind_apple ::
  "service \<Rightarrow> call \<Rightarrow> uuid \<Rightarrow> string \<Rightarrow> string \<Rightarrow> accounts \<Rightarrow> accounts \<times> (auth_error + unit)" where
  "bind_apple S c i subject ip A =
     (if subject = [] then (A, Inl InvalidCredentials)
      else
        tx (\<lambda>A.
          if (case get_user_by_apple_subject subject A of None \<Rightarrow> False | Some v \<Rightarrow> us_id v \<noteq> i)
          then Inl AppleAlreadyBound
          else
            bindE (sql (bind_auth_identity c i ''apple'' subject A)) (\<lambda>A.
            bindE (sql (set_apple_subject c i (Some subject) A)) (\<lambda>A.
            bindE (audit_user S c i ''account.apple_bind'' ip [] [] A) (\<lambda>A. Inr (A, ()))))) A)"

definition unbind_apple ::
  "service \<Rightarrow> call \<Rightarrow> uuid \<Rightarrow> string \<Rightarrow> string \<Rightarrow> accounts \<Rightarrow> accounts \<times> (auth_error + unit)" where
  "unbind_apple S c i password ip A =
     (case get_password_hash i A of
        None \<Rightarrow> (A, Inl InvalidCredentials)
      | Some hash \<Rightarrow>
          if verify_password (sv_argon S) password hash \<noteq> Some True then (A, Inl InvalidCredentials)
          else
            tx (\<lambda>A.
              bindE (found NotFound (unbind_auth_identity i ''apple'' A)) (\<lambda>A.
              bindE (sql (set_apple_subject c i None A)) (\<lambda>A.
              bindE (audit_user S c i ''account.apple_unbind'' ip [] [] A) (\<lambda>A. Inr (A, ()))))) A)"

text \<open>\<open>GetMeProfile\<close>: the sign-in methods, and the numbers of devices and of live sessions.\<close>

record me_profile =
  mp_user :: uuid
  mp_label :: string
  mp_name :: string
  mp_email :: "string option"
  mp_verified :: bool
  mp_providers :: "string list"
  mp_has_password :: bool
  mp_apple_bound :: bool
  mp_devices :: nat
  mp_live_sessions :: nat

definition get_me_profile :: "service \<Rightarrow> call \<Rightarrow> uuid \<Rightarrow> accounts \<Rightarrow> auth_error + me_profile" where
  "get_me_profile S c i A =
     bindE (found NotFound (get_user_by_id i A)) (\<lambda>u.
       let password = has_password_credential i A;
           bound = filter (\<lambda>r. ai_provider r = ''apple'') (list_auth_identities i A);
           own = (us_apple u \<noteq> None \<and> us_apple u \<noteq> Some []);
           providers = (if password then [''password''] else []) @ map (\<lambda>r. ''apple'') bound;
           (total, live) = count_user_devices c i A in
       Inr \<lparr>mp_user = us_id u, mp_label = display_label (sv_uuid_text S) u, mp_name = us_name u,
            mp_email = us_email u, mp_verified = (us_verified u \<noteq> None),
            mp_providers = (if own \<and> ''apple'' \<notin> set providers then providers @ [''apple''] else providers),
            mp_has_password = password, mp_apple_bound = (bound \<noteq> [] \<or> own),
            mp_devices = total, mp_live_sessions = live\<rparr>)"

section \<open>What the administration starts\<close>

definition issue_verification_for_user ::
  "service \<Rightarrow> call \<Rightarrow> uuid \<Rightarrow> accounts \<Rightarrow> accounts \<times> (auth_error + bool)" where
  "issue_verification_for_user S c i A =
     (if \<not> can_mail S then (A, Inl NoMailTransport)
      else
        (case tx (\<lambda>A. bindE (found NotFound (get_user_by_id i A)) (\<lambda>u.
               if us_status u \<noteq> ''pending'' \<or> us_deleted u \<noteq> None \<or> us_email u = None then Inl NotFound
               else bindE (create_challenge S c i ''verify_email'' None A) (\<lambda>(A, k).
                      Inr (A, deref (us_email u), k)))) A of
           (A, Inl e) \<Rightarrow> (A, Inl e)
         | (A, Inr (email, k)) \<Rightarrow> (deliver_if c email (Some k) A, Inr True)))"

definition issue_password_reset_for_user ::
  "service \<Rightarrow> call \<Rightarrow> uuid \<Rightarrow> accounts \<Rightarrow> accounts \<times> (auth_error + bool)" where
  "issue_password_reset_for_user S c i A =
     (if \<not> can_mail S then (A, Inl NoMailTransport)
      else
        (case tx (\<lambda>A. bindE (found NotFound (get_user_by_id i A)) (\<lambda>u.
               if us_deleted u \<noteq> None \<or> us_status u \<noteq> ''active'' \<or> us_verified u = None \<or> us_email u = None
               then Inl NotFound
               else bindE (sql (create_password_reset_token (new_reset S c i) A)) (\<lambda>A.
                      Inr (A, deref (us_email u))))) A of
           (A, Inl e) \<Rightarrow> (A, Inl e)
         | (A, Inr email) \<Rightarrow> (deliver_reset S c email A, Inr True)))"

definition audit_admin ::
  "service \<Rightarrow> call \<Rightarrow> uuid \<Rightarrow> string \<Rightarrow> uuid option \<Rightarrow> string \<Rightarrow> string \<Rightarrow>
     (string \<times> string) list \<Rightarrow> (string \<times> string) list \<Rightarrow> accounts \<Rightarrow> auth_error + accounts" where
  "audit_admin S c admin action target reason ip_hash prior after A =
     sql (record_audit c ''admin'' (Some admin) action target reason ip_hash prior after A)"

definition start_account_deletion ::
  "service \<Rightarrow> call \<Rightarrow> uuid \<Rightarrow> uuid \<Rightarrow> string \<Rightarrow> string \<Rightarrow> accounts \<Rightarrow> accounts \<times> (auth_error + unit)" where
  "start_account_deletion S c admin i reason ip A =
     (case tx (\<lambda>A. bindE (found NotFound (get_user_by_id i A)) (\<lambda>u.
            if us_deleted u \<noteq> None then Inl NotFound
            else
              bindE (sql (a_update users_tab (\<lambda>v. us_id v = i)
                (\<lambda>v. v\<lparr>us_status := ''pending_deletion'', us_deletion := Some (ca_now c),
                       us_updated := ca_now c\<rparr>) A)) (\<lambda>A.
              bindE (audit_admin S c admin ''user.delete_start'' (Some i) reason (hash_pii S ip)
                       [(''status'', us_status u)] [(''status'', ''pending_deletion'')]
                       (revoke_all_user_refresh_tokens c i A)) (\<lambda>A.
                Inr (A, us_email u))))) A of
        (A, Inl e) \<Rightarrow> (A, Inl e)
      | (A, Inr email) \<Rightarrow> (notify DeletionMail email A, Inr ()))"

definition cancel_account_deletion ::
  "service \<Rightarrow> call \<Rightarrow> uuid \<Rightarrow> uuid \<Rightarrow> string \<Rightarrow> string \<Rightarrow> accounts \<Rightarrow> accounts \<times> (auth_error + unit)" where
  "cancel_account_deletion S c admin i reason ip A =
     tx (\<lambda>A. bindE (found NotFound (get_user_by_id i A)) (\<lambda>u.
       if us_status u \<noteq> ''pending_deletion'' \<or> us_deleted u \<noteq> None then Inl NotFound
       else
         bindE (sql (a_update users_tab (\<lambda>v. us_id v = i)
           (\<lambda>v. v\<lparr>us_status := ''active'', us_deletion := None, us_updated := ca_now c\<rparr>) A)) (\<lambda>A.
         bindE (audit_admin S c admin ''user.delete_cancel'' (Some i) reason (hash_pii S ip)
                  [(''status'', ''pending_deletion'')] [(''status'', ''active'')] A) (\<lambda>A.
           Inr (A, ()))))) A"

end
