(* ===== verification/Admin.thy ===== *)
theory Admin
  imports Auth_Profile
begin

text \<open>
  The administration service (internal/admin/service.go, totp.go and the write side of store.go):
  sign-in with a lockout and one-time codes, cookie sessions, and the actions on users and
  invitations. The views of the pages are not part of the model.
\<close>

section \<open>One-time codes (totp.go)\<close>

definition big_endian :: "nat \<Rightarrow> 8 word list" where
  "big_endian n = map (\<lambda>k. of_nat (n div 256 ^ k)) [7, 6, 5, 4, 3, 2, 1, 0]"

definition totp_code :: "service \<Rightarrow> 8 word list \<Rightarrow> nat \<Rightarrow> string" where
  "totp_code S secret counter =
     (let s = sv_hmac S secret (big_endian counter);
          offset = unat (last s AND 0x0f);
          word = fold (\<lambda>b w. push_bit 8 w OR ucast b) (take 4 (drop offset s)) (0 :: 32 word) in
      pad_digits 6 (unat (word AND 0x7fffffff) mod 1000000))"

definition strip_blanks :: "string \<Rightarrow> string" where
  "strip_blanks s = filter (\<lambda>x. x \<noteq> CHR '' '') s"

definition verify_totp :: "service \<Rightarrow> time \<Rightarrow> string \<Rightarrow> string \<Rightarrow> bool" where
  "verify_totp S wall base32 code =
     (case sv_base32 S (un_upper (sv_unicode S) (strip_blanks (trim_space base32))) of
        None \<Rightarrow> False
      | Some secret \<Rightarrow>
          if secret = [] then False
          else
            (let code = trim_space code; now = unix_seconds wall in
             if length code \<noteq> 6 then False
             else list_ex (\<lambda>drift. totp_code S secret (nat ((now + drift * 30) div 30)) = code) [-1, 0, 1]))"

section \<open>Accounts and sessions (store.go)\<close>

definition get_admin_by_username :: "string \<Rightarrow> accounts \<Rightarrow> admin_account option" where
  "get_admin_by_username n A = find (\<lambda>a. ad_name a = n) (ac_admins A)"

definition minutes :: "int \<Rightarrow> time" where
  "minutes n = n * 60000000"

text \<open>The lock that follows so many failures in a row.\<close>

definition lock_time :: "int \<Rightarrow> time" where
  "lock_time attempts =
     (if 8 \<le> attempts then minutes 60
      else if 6 \<le> attempts then minutes 15
      else if 4 \<le> attempts then minutes 5
      else if 2 \<le> attempts then minutes 1
      else 0)"

definition record_admin_login_failure :: "call \<Rightarrow> uuid \<Rightarrow> int \<Rightarrow> accounts \<Rightarrow> db_error + accounts" where
  "record_admin_login_failure c i attempts A =
     a_update admins_tab (\<lambda>a. ad_id a = i)
       (\<lambda>a. a\<lparr>ad_failed := ad_failed a + 1,
              ad_locked := (if 0 < lock_time attempts then Some (ca_wall c + lock_time attempts) else None)\<rparr>) A"

definition record_admin_login_success :: "call \<Rightarrow> uuid \<Rightarrow> accounts \<Rightarrow> accounts" where
  "record_admin_login_success c i A =
     a_set admins_tab (\<lambda>a. ad_id a = i)
       (\<lambda>a. a\<lparr>ad_failed := 0, ad_locked := None, ad_last_login := Some (ca_now c)\<rparr>) A"

definition create_admin :: "uuid \<Rightarrow> string \<Rightarrow> string \<Rightarrow> string option \<Rightarrow> accounts \<Rightarrow> db_error + accounts" where
  "create_admin i n h totp A =
     a_insert admins_tab \<lparr>ad_id = i, ad_name = n, ad_hash = h, ad_totp = totp, ad_failed = 0,
       ad_locked = None, ad_last_login = None\<rparr> A"

definition get_live_admin_session :: "call \<Rightarrow> string \<Rightarrow> accounts \<Rightarrow> admin_session option" where
  "get_live_admin_session c h A =
     find (\<lambda>s. as_hash s = h \<and> as_revoked s = None \<and> ca_now c < as_expires s) (ac_admin_sessions A)"

definition revoke_admin_session :: "call \<Rightarrow> uuid \<Rightarrow> accounts \<Rightarrow> accounts" where
  "revoke_admin_session c i A =
     a_set admin_sessions_tab (\<lambda>s. as_id s = i) (\<lambda>s. s\<lparr>as_revoked := Some (ca_now c)\<rparr>) A"

definition create_invitation ::
  "call \<Rightarrow> string \<Rightarrow> string \<Rightarrow> int \<Rightarrow> time \<Rightarrow> uuid option \<Rightarrow> accounts \<Rightarrow> db_error + accounts" where
  "create_invitation c code note max_uses ttl by A =
     a_insert invitations_tab \<lparr>iv_code = code, iv_note = note, iv_created_by = by, iv_max = max_uses,
       iv_used = 0, iv_expires = (if 0 < ttl then Some (ca_wall c + ttl) else None), iv_revoked = None,
       iv_created = ca_now c\<rparr> A"

definition revoke_invitation :: "call \<Rightarrow> string \<Rightarrow> accounts \<Rightarrow> accounts" where
  "revoke_invitation c code A =
     a_set invitations_tab (\<lambda>v. iv_code v = code \<and> iv_revoked v = None)
       (\<lambda>v. v\<lparr>iv_revoked := Some (ca_now c)\<rparr>) A"

section \<open>Sign-in (service.go)\<close>

text \<open>\<open>auditAdmin\<close>: a transaction of its own.\<close>

definition audit_step ::
  "service \<Rightarrow> call \<Rightarrow> uuid \<Rightarrow> string \<Rightarrow> uuid option \<Rightarrow> string \<Rightarrow> accounts \<Rightarrow> accounts \<times> (auth_error + unit)" where
  "audit_step S c admin action target reason A =
     tx (\<lambda>A. bindE (audit_admin S c admin action target reason [] [] [] A) (\<lambda>A. Inr (A, ()))) A"

definition count_failure :: "call \<Rightarrow> admin_account \<Rightarrow> accounts \<Rightarrow> accounts" where
  "count_failure c a A =
     (case record_admin_login_failure c (ad_id a) (ad_failed a + 1) A of Inl _ \<Rightarrow> A | Inr A' \<Rightarrow> A')"

definition fresh_csrf :: "call \<Rightarrow> string" where
  "fresh_csrf c = hex_encode (ca_hex_bytes c)"

text \<open>The statements are not in one transaction: an error keeps what was written before it.\<close>

definition admin_login ::
  "service \<Rightarrow> call \<Rightarrow> string \<Rightarrow> string \<Rightarrow> string \<Rightarrow> string \<Rightarrow> string \<Rightarrow> accounts
     \<Rightarrow> accounts \<times> (auth_error + string \<times> string)" where
  "admin_login S c username totp password ip_hash agent A =
     (case get_admin_by_username username A of
        None \<Rightarrow> (A, Inl BadAdminCredentials)
      | Some a \<Rightarrow>
          if (case ad_locked a of None \<Rightarrow> False | Some t \<Rightarrow> ca_wall c < t) then (A, Inl AccountLocked)
          else
            (case verify_password (sv_argon S) password (ad_hash a) of
               None \<Rightarrow> (A, Inl BadAdminCredentials)
             | Some False \<Rightarrow> (count_failure c a A, Inl BadAdminCredentials)
             | Some True \<Rightarrow>
                 if (case ad_totp a of None \<Rightarrow> False | Some k \<Rightarrow> \<not> verify_totp S (ca_wall c) k totp)
                 then (count_failure c a A, Inl BadTotp)
                 else
                   (case a_insert admin_sessions_tab
                           \<lparr>as_id = ca_session_id c, as_admin = ad_id a,
                            as_hash = token_hash S (fresh_opaque c), as_csrf = fresh_csrf c,
                            as_ip_hash = ip_hash, as_agent = take 256 agent,
                            as_expires = ca_wall c + sv_session_ttl S, as_revoked = None\<rparr> A of
                      Inl e \<Rightarrow> (A, Inl (Sql e))
                    | Inr A \<Rightarrow>
                        (fst (audit_step S c (ad_id a) ''admin.login'' None []
                           (record_admin_login_success c (ad_id a) A)),
                         Inr (fresh_opaque c, fresh_csrf c)))))"

text \<open>The cookie is the value of the session cookie of a request.\<close>

definition resolve_session :: "service \<Rightarrow> call \<Rightarrow> string option \<Rightarrow> accounts \<Rightarrow> admin_session option" where
  "resolve_session S c cookie A =
     (case cookie of
        None \<Rightarrow> None
      | Some v \<Rightarrow> if v = [] then None else get_live_admin_session c (token_hash S v) A)"

definition valid_csrf :: "admin_session option \<Rightarrow> string \<Rightarrow> bool" where
  "valid_csrf s form = (case s of None \<Rightarrow> False | Some s \<Rightarrow> form = as_csrf s)"

definition admin_logout ::
  "service \<Rightarrow> call \<Rightarrow> string option \<Rightarrow> accounts \<Rightarrow> accounts \<times> (auth_error + unit)" where
  "admin_logout S c cookie A =
     (case resolve_session S c cookie A of
        None \<Rightarrow> (A, Inr ())
      | Some s \<Rightarrow>
          audit_step S c (as_admin s) ''admin.logout'' None [] (revoke_admin_session c (as_id s) A))"

section \<open>Actions on users\<close>

definition suspend_user ::
  "service \<Rightarrow> call \<Rightarrow> uuid \<Rightarrow> uuid \<Rightarrow> string \<Rightarrow> accounts \<Rightarrow> accounts \<times> (auth_error + unit)" where
  "suspend_user S c admin i reason A =
     tx (\<lambda>A. bindE (sql (update_user_status c i ''suspended'' A)) (\<lambda>A.
             bindE (audit_admin S c admin ''admin.user_suspend'' (Some i)
                      (if reason = [] then ''suspended by admin'' else reason) [] [] []
                      (revoke_all_user_refresh_tokens c i A)) (\<lambda>A. Inr (A, ())))) A"

definition reactivate_user ::
  "service \<Rightarrow> call \<Rightarrow> uuid \<Rightarrow> uuid \<Rightarrow> string \<Rightarrow> accounts \<Rightarrow> accounts \<times> (auth_error + unit)" where
  "reactivate_user S c admin i reason A =
     tx (\<lambda>A. bindE (found NotFound (get_user_by_id i A)) (\<lambda>u.
       if us_status u \<noteq> ''suspended'' then Inl NotFound
       else
         bindE (sql (update_user_status c i ''active'' A)) (\<lambda>A.
         bindE (audit_admin S c admin ''admin.user_reactivate'' (Some i) reason [] [] [] A) (\<lambda>A.
           Inr (A, ()))))) A"

definition force_logout ::
  "service \<Rightarrow> call \<Rightarrow> uuid \<Rightarrow> uuid \<Rightarrow> string \<Rightarrow> accounts \<Rightarrow> accounts \<times> (auth_error + unit)" where
  "force_logout S c admin i reason A =
     tx (\<lambda>A. bindE (audit_admin S c admin ''admin.user_force_logout'' (Some i) reason [] [] []
               (revoke_all_user_refresh_tokens c i A)) (\<lambda>A. Inr (A, ()))) A"

definition admin_revoke_device ::
  "service \<Rightarrow> call \<Rightarrow> uuid \<Rightarrow> uuid \<Rightarrow> uuid \<Rightarrow> string \<Rightarrow> accounts \<Rightarrow> accounts \<times> (auth_error + unit)" where
  "admin_revoke_device S c admin i dev reason A =
     (case revoke_user_device c i dev A of
        None \<Rightarrow> (A, Inl NotFound)
      | Some A' \<Rightarrow> audit_step S c admin ''admin.user_revoke_device'' (Some i) reason A')"

definition resend_verification ::
  "service \<Rightarrow> call \<Rightarrow> uuid \<Rightarrow> uuid \<Rightarrow> accounts \<Rightarrow> accounts \<times> (auth_error + unit)" where
  "resend_verification S c admin i A =
     (case get_user_by_id i A of
        None \<Rightarrow> (A, Inl NotFound)
      | Some u \<Rightarrow>
          if us_status u \<noteq> ''pending'' \<or> us_deleted u \<noteq> None then (A, Inl NotFound)
          else if (case latest_live_challenge c i ''verify_email'' A of
                     None \<Rightarrow> False | Some g \<Rightarrow> ca_wall c - cg_created g < sv_cooldown S)
          then (A, Inl MailCooldown)
          else
            (case issue_verification_for_user S c i A of
               (A, Inl e) \<Rightarrow> (A, Inl e)
             | (A, Inr _) \<Rightarrow> audit_step S c admin ''admin.user_resend_verification'' (Some i) [] A))"

definition send_password_reset ::
  "service \<Rightarrow> call \<Rightarrow> uuid \<Rightarrow> uuid \<Rightarrow> accounts \<Rightarrow> accounts \<times> (auth_error + unit)" where
  "send_password_reset S c admin i A =
     (case get_user_by_id i A of
        None \<Rightarrow> (A, Inl NotFound)
      | Some u \<Rightarrow>
          if us_deleted u \<noteq> None \<or> us_status u \<noteq> ''active'' \<or> us_verified u = None then (A, Inl NotFound)
          else if in_reset_cooldown S c i A then (A, Inl MailCooldown)
          else
            (case issue_password_reset_for_user S c i A of
               (A, Inl e) \<Rightarrow> (A, Inl e)
             | (A, Inr _) \<Rightarrow> audit_step S c admin ''admin.user_send_password_reset'' (Some i) [] A))"

section \<open>Invitations\<close>

definition admin_create_invitation ::
  "service \<Rightarrow> call \<Rightarrow> uuid \<Rightarrow> string \<Rightarrow> int \<Rightarrow> time \<Rightarrow> accounts \<Rightarrow> accounts \<times> (auth_error + string)" where
  "admin_create_invitation S c admin note max_uses ttl A =
     (case create_invitation c (hex_encode (ca_hex_bytes c)) note max_uses ttl (Some admin) A of
        Inl e \<Rightarrow> (A, Inl (Sql e))
      | Inr A \<Rightarrow>
          (fst (audit_step S c admin ''invitation.create'' None note A), Inr (hex_encode (ca_hex_bytes c))))"

definition admin_revoke_invitation ::
  "service \<Rightarrow> call \<Rightarrow> uuid \<Rightarrow> string \<Rightarrow> accounts \<Rightarrow> accounts \<times> (auth_error + unit)" where
  "admin_revoke_invitation S c admin code A =
     audit_step S c admin ''invitation.revoke'' None code (revoke_invitation c code A)"

end
