(* ===== verification/Server.thy ===== *)
theory Server
  imports Retention Admin
begin

text \<open>
  The whole server: the synchronised database and the accounts side by side, the gate that every
  request of a user passes (RequireUser, internal/httpapi/auth/require.go), the synchronisation
  endpoints (internal/httpapi/syncapi), the deletion of accounts and data (internal/auth,
  internal/admin, internal/httpapi/accountapi), and the periodic maintenance.
\<close>

section \<open>The gate\<close>

text \<open>
  \<open>RequireUser\<close>: the header value of Authorization; \<open>None\<close> is the answer 401.
\<close>

definition bearer :: "string \<Rightarrow> string option" where
  "bearer header = (if take 7 header = ''Bearer '' then Some (trim_space (drop 7 header)) else None)"

definition require_user :: "service \<Rightarrow> call \<Rightarrow> string \<Rightarrow> accounts \<Rightarrow> (user \<times> uuid) option" where
  "require_user S c header A =
     (case bearer header of
        None \<Rightarrow> None
      | Some raw \<Rightarrow>
          (case verify_access_token (sv_jwt S) (sv_manager S) (ca_wall c) raw of
             None \<Rightarrow> None
           | Some claims \<Rightarrow>
               (case sv_uuid_parse S (acl_user claims) of
                  None \<Rightarrow> None
                | Some i \<Rightarrow>
                    (case sv_uuid_parse S (acl_device claims) of
                       None \<Rightarrow> None
                     | Some dev \<Rightarrow>
                         (case get_user_by_id i A of
                            None \<Rightarrow> None
                          | Some u \<Rightarrow>
                              if us_deleted u \<noteq> None \<or> us_status u \<noteq> ''active'' then None
                              else Some (u, dev))))))"

section \<open>The state\<close>

record server =
  sr_sync :: stamped
  sr_accounts :: accounts

datatype 'a response =
    Unauthorized
  | SchemaUnsupported
  | InternalError
  | Answer 'a

section \<open>Synchronisation requests\<close>

text \<open>The schema versions a client may have: \<open>MinClientSchemaVersion\<close> to \<open>MaxClientSchemaVersion\<close>.\<close>

definition push_request ::
  "service \<Rightarrow> call \<Rightarrow> env \<Rightarrow> int \<times> int \<Rightarrow> string \<Rightarrow> int \<Rightarrow> push_item list \<Rightarrow> server
     \<Rightarrow> server \<times> push_result list response" where
  "push_request S c E versions header version items R =
     (case require_user S c header (sr_accounts R) of
        None \<Rightarrow> (R, Unauthorized)
      | Some (u, _) \<Rightarrow>
          if version < fst versions \<or> snd versions < version then (R, SchemaUnsupported)
          else
            (case push_at E (us_id u) items (sr_sync R) of
               (X, Inl _) \<Rightarrow> (R\<lparr>sr_sync := X\<rparr>, InternalError)
             | (X, Inr (results, _)) \<Rightarrow> (R\<lparr>sr_sync := X\<rparr>, Answer results)))"

text \<open>A missing or malformed cursor is 0, a missing or malformed limit 200.\<close>

definition pull_request ::
  "service \<Rightarrow> call \<Rightarrow> string \<Rightarrow> int option \<Rightarrow> int option \<Rightarrow> server \<Rightarrow> pull_response response" where
  "pull_request S c header cursor maxn R =
     (case require_user S c header (sr_accounts R) of
        None \<Rightarrow> Unauthorized
      | Some (u, _) \<Rightarrow>
          (let cursor = (case cursor of None \<Rightarrow> 0 | Some n \<Rightarrow> if n < 0 then 0 else n);
               maxn = (case maxn of None \<Rightarrow> 200 | Some n \<Rightarrow> n) in
           (case pull (us_id u) cursor maxn (st_db (sr_sync R)) of
              Inl _ \<Rightarrow> InternalError
            | Inr resp \<Rightarrow> Answer resp)))"

definition status_request :: "service \<Rightarrow> call \<Rightarrow> string \<Rightarrow> server \<Rightarrow> (int \<times> nat list) response" where
  "status_request S c header R =
     (case require_user S c header (sr_accounts R) of
        None \<Rightarrow> Unauthorized
      | Some (u, _) \<Rightarrow> Answer (sync_status (us_id u) (st_db (sr_sync R))))"

section \<open>Deletion\<close>

definition purge_sync :: "uuid \<Rightarrow> server \<Rightarrow> server" where
  "purge_sync i R =
     R\<lparr>sr_sync := (sr_sync R)\<lparr>st_db := purge_user_sync_data i (st_db (sr_sync R))\<rparr>\<rparr>"

text \<open>
  The statements that a deletion by the user (deleteAccountTx) and one by an administrator
  (DeleteUser) share; they differ in the audit record.
\<close>

definition delete_user_rows ::
  "call \<Rightarrow> (user \<Rightarrow> accounts \<Rightarrow> auth_error + accounts) \<Rightarrow> uuid \<Rightarrow> server \<Rightarrow> server \<times> (auth_error + unit)" where
  "delete_user_rows c audit i R =
     (case tx (\<lambda>A.
             bindE (found NotFound (get_user_by_id i A)) (\<lambda>u.
             bindE (sql (soft_delete_user c i (revoke_all_user_refresh_tokens c i A))) (\<lambda>A.
             bindE (audit u A) (\<lambda>A. Inr (A, ()))))) (sr_accounts R) of
        (A, Inl e) \<Rightarrow> (R, Inl e)
      | (A, Inr _) \<Rightarrow> ((purge_sync i R)\<lparr>sr_accounts := A\<rparr>, Inr ()))"

text \<open>The notice goes to the address of the row after the transaction.\<close>

definition delete_account :: "service \<Rightarrow> call \<Rightarrow> uuid \<Rightarrow> string \<Rightarrow> server \<Rightarrow> server \<times> (auth_error + unit)" where
  "delete_account S c i ip R =
     (case delete_user_rows c
             (\<lambda>u. audit_user S c i ''user.deleted'' ip [(''status'', us_status u)] [(''status'', ''deleted'')]) i R of
        (R, Inl e) \<Rightarrow> (R, Inl e)
      | (R, Inr _) \<Rightarrow>
          (R\<lparr>sr_accounts := notify DeletionMail
               (case get_user_by_id i (sr_accounts R) of None \<Rightarrow> None | Some u \<Rightarrow> us_email u) (sr_accounts R)\<rparr>,
           Inr ()))"

definition admin_delete_user ::
  "service \<Rightarrow> call \<Rightarrow> uuid \<Rightarrow> uuid \<Rightarrow> string \<Rightarrow> server \<Rightarrow> server \<times> (auth_error + unit)" where
  "admin_delete_user S c admin i reason R =
     delete_user_rows c
       (\<lambda>u. audit_admin S c admin ''admin.user_delete'' (Some i) reason [] [(''status'', us_status u)]
              [(''status'', ''deleted'')]) i R"

definition purge_cloud_data ::
  "service \<Rightarrow> call \<Rightarrow> uuid \<Rightarrow> string \<Rightarrow> server \<Rightarrow> server \<times> (auth_error + unit)" where
  "purge_cloud_data S c i ip R =
     (case tx (\<lambda>A. bindE (audit_user S c i ''account.cloud_data_purge'' ip [] [] A) (\<lambda>A. Inr (A, ())))
             (sr_accounts R) of
        (A, Inl e) \<Rightarrow> (R, Inl e)
      | (A, Inr _) \<Rightarrow> ((purge_sync i R)\<lparr>sr_accounts := A\<rparr>, Inr ()))"

text \<open>DELETE cloud-data; the purge of this route is neither audited nor in a transaction.\<close>

definition delete_cloud_data :: "service \<Rightarrow> call \<Rightarrow> string \<Rightarrow> server \<Rightarrow> server \<times> unit response" where
  "delete_cloud_data S c header R =
     (case require_user S c header (sr_accounts R) of
        None \<Rightarrow> (R, Unauthorized)
      | Some (u, _) \<Rightarrow> (purge_sync (us_id u) R, Answer ()))"

section \<open>Maintenance (cleanup.go)\<close>

definition hours :: "int \<Rightarrow> time" where
  "hours n = minutes (60 * n)"

definition days :: "int \<Rightarrow> time" where
  "days n = hours (24 * n)"

definition past :: "time \<Rightarrow> time option \<Rightarrow> bool" where
  "past t x \<longleftrightarrow> (case x of None \<Rightarrow> False | Some y \<Rightarrow> y < t)"

text \<open>\<open>RunMaintenanceCleanup\<close>; a retention of 0 days or less keeps everything.\<close>

definition run_maintenance_cleanup :: "call \<Rightarrow> int \<Rightarrow> int \<Rightarrow> accounts \<Rightarrow> accounts" where
  "run_maintenance_cleanup c login_days audit_days A =
     (let now = ca_now c;
          A = a_delete challenges_tab (\<lambda>g. past (now - hours 24) (cg_consumed g) \<or> cg_expires g < now - hours 24) A;
          A = a_delete resets_tab (\<lambda>t. past (now - hours 24) (rs_consumed t) \<or> rs_expires t < now - hours 24) A;
          A = a_delete refresh_tab (\<lambda>t. rt_expires t < now - days 7 \<or> past (now - days 7) (rt_revoked t)) A;
          A = a_delete admin_sessions_tab (\<lambda>s. as_expires s < now - days 7 \<or> past (now - days 7) (as_revoked s)) A;
          A = (if 0 < login_days then a_delete logins_tab (\<lambda>e. le_created e < now - days login_days) A else A) in
      if 0 < audit_days then a_delete audit_tab (\<lambda>e. ae_created e < now - days audit_days) A else A)"

text \<open>One tick of the cleanup loop.\<close>

definition cleanup_tick :: "call \<Rightarrow> bool \<Rightarrow> int \<Rightarrow> int \<Rightarrow> int \<Rightarrow> server \<Rightarrow> server \<times> (uuid \<times> uuid) list" where
  "cleanup_tick c files retention_days login_days audit_days R =
     (let (X, reaped) = run_tombstone_cleanup files retention_days (ca_wall c) (sr_sync R) in
      (R\<lparr>sr_sync := X, sr_accounts := run_maintenance_cleanup c login_days audit_days (sr_accounts R)\<rparr>, reaped))"

end
