(* ===== verification/Account_Moves.thy ===== *)
theory Account_Moves
  imports Server
begin

text \<open>
  What the operations on accounts do to the users and the refresh tokens. A relation between
  account states that is reflexive and transitive, that does not look at the other tables, and that
  holds of the few statements on users and refresh tokens the services issue, holds of every
  operation: the locales \<open>account_moves\<close> (all operations but the two that lock an account) and
  \<open>all_account_moves\<close>. Invariants of account histories are proved by interpreting them.
\<close>

section \<open>Statements on the other tables\<close>

definition still :: "accounts \<Rightarrow> accounts \<Rightarrow> bool" where
  "still A A' \<longleftrightarrow> ac_users A' = ac_users A \<and> ac_refresh A' = ac_refresh A"

lemma still_refl [simp]: "still A A"
  by (simp add: still_def)

lemma still_trans: "still A B \<Longrightarrow> still B C \<Longrightarrow> still A C"
  by (simp add: still_def)

locale side_table = account_table T for T :: "'a atab" +
  assumes side_users: "ac_users (at_put T t A) = ac_users A"
    and side_refresh: "ac_refresh (at_put T t A) = ac_refresh A"
begin

lemma still_insert: "a_insert T r A = Inr A' \<Longrightarrow> still A A'"
  by (auto simp: a_insert_def still_def side_users side_refresh split: if_splits)

lemma still_update: "a_update T P f A = Inr A' \<Longrightarrow> still A A'"
  by (auto simp: a_update_def still_def side_users side_refresh split: if_splits)

lemma still_set: "still A (a_set T P f A)"
  by (simp add: a_set_def still_def side_users side_refresh)

lemma still_delete: "still A (a_delete T P A)"
  by (simp add: a_delete_def still_def side_users side_refresh)

end

interpretation identities: side_table identities_tab by unfold_locales (simp_all add: identities_tab_def)

interpretation credentials: side_table credentials_tab by unfold_locales (simp_all add: credentials_tab_def)

interpretation challenges: side_table challenges_tab by unfold_locales (simp_all add: challenges_tab_def)

interpretation resets: side_table resets_tab by unfold_locales (simp_all add: resets_tab_def)

interpretation logins: side_table logins_tab by unfold_locales (simp_all add: logins_tab_def)

interpretation invitations: side_table invitations_tab by unfold_locales (simp_all add: invitations_tab_def)

interpretation devices: side_table devices_tab by unfold_locales (simp_all add: devices_tab_def)

interpretation audit: side_table audit_tab by unfold_locales (simp_all add: audit_tab_def)

interpretation admins: side_table admins_tab by unfold_locales (simp_all add: admins_tab_def)

interpretation admin_sessions: side_table admin_sessions_tab
  by unfold_locales (simp_all add: admin_sessions_tab_def)

lemmas still_inserts = identities.still_insert credentials.still_insert challenges.still_insert
  resets.still_insert logins.still_insert invitations.still_insert devices.still_insert
  audit.still_insert admins.still_insert admin_sessions.still_insert

lemmas still_updates = credentials.still_update challenges.still_update invitations.still_update
  devices.still_update admins.still_update

lemmas still_sets = identities.still_set challenges.still_set resets.still_set devices.still_set
  invitations.still_set admins.still_set admin_sessions.still_set

lemmas still_deletes = identities.still_delete challenges.still_delete resets.still_delete
  logins.still_delete audit.still_delete admin_sessions.still_delete

lemma still_side [simp]:
  "still A (send_mail m A)" "still A (notify n email A)"
  by (auto simp: send_mail_def notify_def still_def split: option.splits list.splits)

lemma still_upsert: "upsert_password_credential c i h A = Inr A' \<Longrightarrow> still A A'"
  by (auto simp: upsert_password_credential_def references_user_def bindE_eq_Inr
      dest: still_inserts still_updates split: if_splits)

lemma still_create_challenge: "create_challenge S c i p t A = Inr (A', x) \<Longrightarrow> still A A'"
  by (auto simp: create_challenge_def create_email_challenge_def references_user_def bindE_eq_Inr Let_def
      invalidate_pending_challenges_def split: if_splits dest!: still_inserts intro: still_trans [OF still_sets(2)])

lemma still_audit: "record_audit c ty ac n tg r h b a A = Inr A' \<Longrightarrow> still A A'"
  by (auto simp: record_audit_def dest: still_inserts)

lemma still_audit_user: "audit_user S c i n ip b a A = Inr A' \<Longrightarrow> still A A'"
  by (auto simp: audit_user_def dest: still_audit)

lemma still_audit_admin: "audit_admin S c ad n t r h b a A = Inr A' \<Longrightarrow> still A A'"
  by (auto simp: audit_admin_def dest: still_audit)

lemma still_bump: "bump_challenge_attempt i A = Inr A' \<Longrightarrow> still A A'"
  by (auto simp: bump_challenge_attempt_def dest: still_updates)

lemma still_consume: "consume_challenge c i A = Some A' \<Longrightarrow> still A A'"
  by (auto simp: consume_challenge_def Let_def intro: still_sets split: if_splits)

lemma still_count_wrong: "still A (count_wrong_code S c code g A)"
  by (auto simp: count_wrong_code_def dest: still_bump split: sum.splits)

lemma still_deliver: "still A (deliver_code c m i A)" "still A (deliver_if c e k A)"
  "still A (deliver_reset S c e A)"
proof -
  show code: "still A (deliver_code c m i A)" for m i
    by (auto simp: deliver_code_def Let_def split: option.splits
        dest!: still_consume intro: still_trans [OF still_side(1)])
  show "still A (deliver_if c e k A)"
    by (auto simp: deliver_if_def code split: option.splits)
  show "still A (deliver_reset S c e A)"
    by (auto simp: deliver_reset_def Let_def invalidate_password_reset_token_def
        intro: still_trans [OF still_side(1) still_sets(3)])
qed

lemma still_invitation: "consume_invitation c code A = Inr (Some A') \<Longrightarrow> still A A'"
  by (auto simp: consume_invitation_def Let_def bindE_eq_Inr dest: still_updates split: if_splits)

lemma still_login_event: "record_login_event c i e d ip r A = Inr A' \<Longrightarrow> still A A'"
  by (auto simp: record_login_event_def dest: still_inserts)

lemma still_note_login: "still A (note_login S c i e d ip r A)"
  by (auto simp: note_login_def dest: still_login_event split: sum.splits)

lemma still_device: "get_or_create_device c i cl n v A = Inr (A', x) \<Longrightarrow> still A A'"
  by (auto simp: get_or_create_device_def Let_def bindE_eq_Inr dest: still_inserts still_updates
      split: option.splits)

lemma still_create_reset: "create_password_reset_token t A = Inr A' \<Longrightarrow> still A A'"
  by (auto simp: create_password_reset_token_def references_user_def bindE_eq_Inr dest: still_inserts
      split: if_splits)

lemma still_consume_reset: "consume_password_reset_token c h A = Some (A', i) \<Longrightarrow> still A A'"
  by (auto simp: consume_password_reset_token_def intro: still_sets split: option.splits if_splits)

lemma still_bind: "bind_auth_identity c i p s A = Inr A' \<Longrightarrow> still A A'"
  by (auto simp: bind_auth_identity_def references_user_def bindE_eq_Inr dest: still_inserts split: if_splits)

lemma still_touch_identity: "touch_identity c i s A = Inr A' \<Longrightarrow> still A A'"
  by (auto simp: touch_identity_def Let_def dest: still_bind intro: still_sets split: if_splits)

lemma still_unbind: "unbind_auth_identity i p A = Some A' \<Longrightarrow> still A A'"
  by (auto simp: unbind_auth_identity_def Let_def intro: still_deletes split: if_splits)

lemma still_count_failure: "still A (count_failure c a A)"
  by (auto simp: count_failure_def record_admin_login_failure_def dest: still_updates split: sum.splits)

lemma still_audit_step: "still A (fst (audit_step S c ad n t r A))"
  by (auto simp: audit_step_def tx_def bindE_def dest: still_audit_admin split: sum.splits)

lemmas still_facts = still_upsert still_create_challenge still_audit_user still_audit_admin still_bump
  still_consume still_invitation still_login_event still_device still_create_reset
  still_consume_reset still_bind still_touch_identity still_unbind

lemmas still_always = still_side still_count_wrong still_deliver still_note_login still_count_failure
  still_audit_step still_sets still_deletes

text \<open>A change of a user row that leaves the standing of the account alone.\<close>

definition same_standing :: "user \<Rightarrow> user \<Rightarrow> bool" where
  "same_standing u v \<longleftrightarrow> us_id u = us_id v \<and> us_status u = us_status v \<and> us_deleted u = us_deleted v \<and>
     us_verified u = us_verified v \<and> us_dev u = us_dev v"

definition lifted :: "user \<Rightarrow> user \<Rightarrow> bool" where
  "lifted u v \<longleftrightarrow> us_id u = us_id v \<and> us_status u = ''active'' \<and> us_deleted u = us_deleted v \<and>
     us_verified u = us_verified v \<and> us_dev u = us_dev v"

definition entitled :: "user \<Rightarrow> bool" where
  "entitled u \<longleftrightarrow> (us_status u = ''pending'' \<or>
     us_status u = ''active'' \<and> (us_verified u \<noteq> None \<or> us_dev u \<noteq> None)) \<and> us_deleted u = None"

definition locked_out :: "user \<Rightarrow> bool" where
  "locked_out u \<longleftrightarrow> us_status u = ''suspended'' \<or> us_status u = ''pending_deletion''"

definition issued :: "service \<Rightarrow> call \<Rightarrow> string" where
  "issued S c = token_hash S (base64_url (ca_refresh_bytes c))"

text \<open>The outcome of a transaction.\<close>

lemma tx_eq:
  "tx body A = (A', Inr x) \<longleftrightarrow> body A = Inr (A', x)"
  "tx body A = (A', Inl e) \<longleftrightarrow> A' = A \<and> body A = Inl e"
  by (auto simp: tx_def split: sum.splits)

lemma fst_tx: "fst (tx body A) = (case body A of Inl e \<Rightarrow> A | Inr (A', x) \<Rightarrow> A')"
  by (auto simp: tx_def split: sum.splits)

lemma login_txE:
  assumes "login_tx S c u e pw h di ip A = Inr (A', x)"
  obtains B C where "B = A \<or> (\<exists>h. upsert_password_credential c (us_id u) h A = Inr B)"
    and "record_login_event c (Some (us_id u)) (hash_pii S e) (di_client di) (hash_pii S ip) ''success''
      (touch_last_login c (us_id u) B) = Inr C"
    and "issue_tokens S c u di C = Inr (A', x)"
proof -
  from assms obtain B where B: "(if needs_rehash (sv_argon S) h (current_params S)
            then (case upsert_password_credential c (us_id u) (new_hash S c pw) A of
                    Inl _ \<Rightarrow> Inl (Sql TransactionAborted) | Inr A' \<Rightarrow> Inr A')
            else Inr A) = Inr B"
    and rest: "(case record_login_event c (Some (us_id u)) (hash_pii S e) (di_client di) (hash_pii S ip)
             ''success'' (touch_last_login c (us_id u) B) of
        Inl _ \<Rightarrow>
          if us_status u \<noteq> ''active'' \<or> us_deleted u \<noteq> None then Inl Suspended
          else Inl (Sql TransactionAborted)
      | Inr A \<Rightarrow> issue_tokens S c u di A) = Inr (A', x)"
    unfolding login_tx_def by (rule bindE_InrE)
  from rest obtain C where "record_login_event c (Some (us_id u)) (hash_pii S e) (di_client di) (hash_pii S ip)
      ''success'' (touch_last_login c (us_id u) B) = Inr C" "issue_tokens S c u di C = Inr (A', x)"
    by (auto split: sum.splits if_splits)
  moreover from B have "B = A \<or> (\<exists>h. upsert_password_credential c (us_id u) h A = Inr B)"
    by (auto split: sum.splits if_splits)
  ultimately show ?thesis by (intro that)
qed

locale account_moves =
  fixes R :: "accounts \<Rightarrow> accounts \<Rightarrow> bool" and fresh :: "string \<Rightarrow> bool"
  assumes move_trans: "R A B \<Longrightarrow> R B C \<Longrightarrow> R A C"
    and move_still: "still A A' \<Longrightarrow> R A A'"
    and move_create: "create_user u A = Inr A' \<Longrightarrow> entitled u \<Longrightarrow> R A A'"
    and move_touch: "R A (touch_last_login c i A)"
    and move_edit: "a_update users_tab P f A = Inr A' \<Longrightarrow> (\<And>u. same_standing (f u) u) \<Longrightarrow> R A A'"
    and move_verify: "mark_email_verified c i A = Inr A' \<Longrightarrow> R A A'"
    and move_delete: "soft_delete_user c i A = Inr A' \<Longrightarrow> R A A'"
    and move_lift: "get_user_by_id i A = Some u \<Longrightarrow> locked_out u \<Longrightarrow>
      a_update users_tab (\<lambda>v. us_id v = i) f A = Inr A' \<Longrightarrow> (\<And>u. lifted (f u) u) \<Longrightarrow> R A A'"
    and move_issue: "insert_refresh_token t A = Inr A' \<Longrightarrow> fresh (rt_hash t) \<Longrightarrow> rt_revoked t = None \<Longrightarrow>
      rt_replaced t = None \<Longrightarrow> R A A'"
    and move_revoke: "R A (a_set refresh_tab Q (revoke c) A)"
    and move_replace: "R A (mark_replaced old new A)"
    and move_prune: "R A (a_delete refresh_tab Q A)"
begin

lemma move_refl [simp]: "R A A"
  by (rule move_still) simp

text \<open>The steps of a computation are added at the end.\<close>

lemma then_move: "R B C \<Longrightarrow> R A B \<Longrightarrow> R A C"
  by (rule move_trans)

lemma then_edit: "a_update users_tab P f B = Inr C \<Longrightarrow> (\<And>u. same_standing (f u) u) \<Longrightarrow> R A B \<Longrightarrow> R A C"
  by (rule then_move [OF move_edit])

lemma then_revoke:
  "R A B \<Longrightarrow> R A (revoke_device_tokens c dev B)"
  "R A B \<Longrightarrow> R A (revoke_all_user_refresh_tokens c i B)"
  "R A B \<Longrightarrow> R A (revoke_all_user_refresh_tokens_except_device c i dev B)"
  by (simp_all add: revoke_device_tokens_def revoke_all_user_refresh_tokens_def
      revoke_all_user_refresh_tokens_except_device_def move_trans [OF _ move_revoke])

lemma then_update_email: "update_user_email c i e n B = Inr C \<Longrightarrow> R A B \<Longrightarrow> R A C"
  unfolding update_user_email_def by (erule then_edit) (simp_all add: same_standing_def)

lemma then_update_name: "update_display_name c i n B = Inr C \<Longrightarrow> R A B \<Longrightarrow> R A C"
  unfolding update_display_name_def by (erule then_edit) (simp_all add: same_standing_def)

lemma then_set_apple: "set_apple_subject c i s B = Inr C \<Longrightarrow> R A B \<Longrightarrow> R A C"
  unfolding set_apple_subject_def by (erule then_edit) (simp_all add: same_standing_def)

lemmas then_still = then_move [OF move_still]

lemmas then_fact = still_facts [THEN then_still] move_verify [THEN then_move]
  move_delete [THEN then_move] then_update_email then_update_name then_set_apple

lemmas then_step = still_always [THEN then_still] then_revoke move_touch [THEN then_move]
  move_replace [THEN then_move] move_prune [THEN then_move]

lemma then_issue:
  assumes "issue_tokens S c u di B = Inr (C, x)" and "fresh (issued S c)" and "R A B"
  shows "R A C"
  using assms
  by (auto simp: issue_tokens_def Let_def bindE_eq_Inr new_refresh_def issued_def split: if_splits
      dest!: still_device [THEN then_still, OF _ assms(3)] move_issue elim: move_trans)

lemma issue_verification_tx_move: "issue_verification_tx S c e A = Inr (A', k) \<Longrightarrow> R A A'"
  by (auto simp: issue_verification_tx_def bindE_eq_Inr split: option.splits if_splits
      elim!: then_fact)

lemma resend_move: "R A (fst (resend S c raw A))"
  by (auto simp: resend_def Let_def deliver_if_def tx_eq split: prod.splits sum.splits option.splits
      intro!: then_step dest!: issue_verification_tx_move)

lemma register_new_move: "register_new S c req e h ip A = Inr (A', x) \<Longrightarrow> R A A'"
  by (auto simp: register_new_def Let_def bindE_eq_Inr entitled_def
      elim!: then_fact intro: move_create)

lemma register_tx_move: "register_tx S c req e h ip A = Inr (A', x) \<Longrightarrow> R A A'"
  by (auto simp: register_tx_def Let_def bindE_eq_Inr same_standing_def
      split: option.splits if_splits sum.splits
      elim!: then_fact then_edit register_new_move [THEN then_move])

lemma register_move: "R A (fst (register S c req ip A))"
  by (auto simp: register_def Let_def tx_eq split: prod.splits sum.splits option.splits
      intro!: then_step dest!: register_tx_move)

lemma verify_email_move:
  assumes "fresh (issued S c)"
  shows "R A (fst (verify_email S c e code di ip A))"
  using assms
  by (auto simp: verify_email_def activate_tx_def fst_tx bindE_eq_Inr
      split: option.splits sum.splits prod.splits intro!: then_step elim!: then_fact then_issue)

lemma login_tx_move:
  assumes "login_tx S c u e pw h di ip A = Inr (A', x)" and "fresh (issued S c)"
  shows "R A A'"
  using assms(1)
proof (rule login_txE)
  fix B C
  assume B: "B = A \<or> (\<exists>h. upsert_password_credential c (us_id u) h A = Inr B)"
    and C: "record_login_event c (Some (us_id u)) (hash_pii S e) (di_client di) (hash_pii S ip) ''success''
      (touch_last_login c (us_id u) B) = Inr C"
    and iss: "issue_tokens S c u di C = Inr (A', x)"
  from B have "R A B" by (auto elim!: then_fact)
  with C have "R A C" by (auto elim!: then_fact intro!: then_step)
  with iss assms(2) show ?thesis by (rule then_issue)
qed

lemma login_move:
  assumes "fresh (issued S c)"
  shows "R A (fst (login S c raw pw di ip A))"
  using assms
  by (auto simp: login_def Let_def tx_eq split: option.splits sum.splits prod.splits list.splits
      intro!: then_step dest!: login_tx_move)

lemma refresh_tx_move:
  assumes "refresh_tx S c h A = Inr (A', x)" and "fresh (issued S c)"
  shows "R A A'"
  using assms
  by (auto simp: refresh_tx_def Let_def bindE_eq_Inr new_refresh_def issued_def touch_device_seen_def
      split: if_splits intro!: then_step dest!: move_issue)

lemma refresh_move:
  assumes "fresh (issued S c)"
  shows "R A (fst (refresh S c plain A))"
  using assms
  by (auto simp: refresh_def tx_eq split: sum.splits prod.splits option.splits dest!: refresh_tx_move)

lemma logout_move: "R A (fst (logout S c plain whole A))"
  by (auto simp: logout_def revoke_refresh_token_def Let_def split: option.splits if_splits
      intro!: then_step move_revoke)

lemma logout_all_move: "R A (fst (logout_all_user S c i ip A))"
  by (auto simp: logout_all_user_def fst_tx bindE_eq_Inr split: sum.splits
      intro!: then_step elim!: then_fact)

lemma forgot_move: "R A (fst (forgot_password S c raw A))"
  by (auto simp: forgot_password_def forgot_tx_def Let_def tx_eq bindE_eq_Inr
      split: option.splits sum.splits prod.splits if_splits intro!: then_step elim!: then_fact)

lemma reset_password_move: "R A (fst (reset_password S c tok pw ip A))"
  by (auto simp: reset_password_def reset_password_tx_def fst_tx bindE_eq_Inr
      split: option.splits sum.splits prod.splits if_splits intro!: then_step elim!: then_fact)

lemma change_password_move: "R A (fst (change_password S c i dev cur new ip A))"
  by (auto simp: change_password_def tx_eq bindE_eq_Inr
      split: option.splits sum.splits prod.splits if_splits intro!: then_step elim!: then_fact)

lemma apple_login_move:
  assumes "fresh (issued S c)"
  shows "R A (fst (apple_login S c subject di A))"
  using assms
  by (auto simp: apple_login_def apple_tx_def fst_tx bindE_eq_Inr entitled_def apple_user_def
      split: option.splits sum.splits prod.splits if_splits
      elim!: then_fact then_issue move_create [THEN then_move])

lemma dev_login_move:
  assumes "fresh (issued S c)"
  shows "R A (fst (dev_login S c name di A))"
  using assms
  by (auto simp: dev_login_def dev_tx_def fst_tx bindE_eq_Inr entitled_def dev_user_def
      split: option.splits sum.splits prod.splits if_splits
      elim!: then_fact then_issue move_create [THEN then_move])

lemma revoke_user_device_move: "revoke_user_device c i dev A = Some A' \<Longrightarrow> R A A'"
  by (auto simp: revoke_user_device_def Let_def split: if_splits intro!: then_step)

lemma revoke_device_move: "R A (fst (revoke_device S c i dev ip A))"
  by (auto simp: revoke_device_def fst_tx bindE_eq_Inr split: sum.splits
      elim!: then_fact dest!: revoke_user_device_move)

lemma update_profile_move: "R A (fst (update_profile S c i raw ip A))"
  by (auto simp: update_profile_def Let_def tx_eq bindE_eq_Inr
      split: sum.splits prod.splits elim!: then_fact)

lemma request_email_change_move: "R A (fst (request_email_change S c i pw raw ip A))"
  by (auto simp: request_email_change_def request_email_change_tx_def Let_def tx_eq bindE_eq_Inr
      split: option.splits sum.splits prod.splits if_splits intro!: then_step elim!: then_fact)

lemma change_email_tx_move:
  assumes "change_email_tx S c i dev g old email di ip A = Inr (A', x)" and "fresh (issued S c)"
  shows "R A A'"
  using assms
  by (auto simp: change_email_tx_def bindE_eq_Inr split: option.splits if_splits
      intro!: then_step elim!: then_fact then_issue)

lemma verify_email_change_move:
  assumes "fresh (issued S c)"
  shows "R A (fst (verify_email_change S c i dev code di ip A))"
  using assms
  by (auto simp: verify_email_change_def tx_eq split: option.splits sum.splits prod.splits if_splits
      intro!: then_step dest!: change_email_tx_move)

lemma bind_apple_move: "R A (fst (bind_apple S c i subject ip A))"
  by (auto simp: bind_apple_def fst_tx bindE_eq_Inr split: option.splits sum.splits if_splits
      elim!: then_fact)

lemma unbind_apple_move: "R A (fst (unbind_apple S c i pw ip A))"
  by (auto simp: unbind_apple_def fst_tx bindE_eq_Inr split: option.splits sum.splits if_splits
      elim!: then_fact)

lemma issue_verification_move: "R A (fst (issue_verification_for_user S c i A))"
  by (auto simp: issue_verification_for_user_def tx_eq bindE_eq_Inr
      split: sum.splits prod.splits if_splits intro!: then_step elim!: then_fact)

lemma issue_reset_move: "R A (fst (issue_password_reset_for_user S c i A))"
  by (auto simp: issue_password_reset_for_user_def tx_eq bindE_eq_Inr
      split: sum.splits prod.splits if_splits intro!: then_step elim!: then_fact)

lemma cancel_deletion_move: "R A (fst (cancel_account_deletion S c admin i reason ip A))"
  by (auto simp: cancel_account_deletion_def fst_tx bindE_eq_Inr locked_out_def lifted_def
      split: sum.splits if_splits elim!: then_fact dest!: move_lift)

text \<open>The administration, the deletion of an account, the maintenance.\<close>

lemma admin_login_move: "R A (fst (admin_login S c n totp pw iph agent A))"
  by (auto simp: admin_login_def record_admin_login_success_def split: option.splits sum.splits bool.splits
      intro!: then_step elim!: still_inserts [THEN then_still])

lemma admin_logout_move: "R A (fst (admin_logout S c cookie A))"
  by (auto simp: admin_logout_def revoke_admin_session_def split: option.splits intro!: then_step)

lemma reactivate_move: "R A (fst (reactivate_user S c admin i reason A))"
  by (auto simp: reactivate_user_def update_user_status_def fst_tx bindE_eq_Inr locked_out_def lifted_def
      split: sum.splits if_splits elim!: then_fact dest!: move_lift)

lemma force_logout_move: "R A (fst (force_logout S c admin i reason A))"
  by (auto simp: force_logout_def fst_tx bindE_eq_Inr split: sum.splits intro!: then_step elim!: then_fact)

lemma admin_revoke_device_move: "R A (fst (admin_revoke_device S c admin i dev reason A))"
  by (auto simp: admin_revoke_device_def split: option.splits intro!: then_step
      dest: revoke_user_device_move)

lemma resend_verification_move: "R A (fst (resend_verification S c admin i A))"
  using issue_verification_move [of A S c i]
  by (auto simp: resend_verification_def split: option.splits sum.splits prod.splits if_splits
      intro!: then_step)

lemma send_password_reset_move: "R A (fst (send_password_reset S c admin i A))"
  using issue_reset_move [of A S c i]
  by (auto simp: send_password_reset_def split: option.splits sum.splits prod.splits if_splits
      intro!: then_step)

lemma create_invitation_move: "R A (fst (admin_create_invitation S c admin note n ttl A))"
  by (auto simp: admin_create_invitation_def create_invitation_def split: sum.splits
      intro!: then_step elim!: still_inserts [THEN then_still])

lemma revoke_invitation_move: "R A (fst (admin_revoke_invitation S c admin code A))"
  by (auto simp: admin_revoke_invitation_def revoke_invitation_def intro!: then_step)

lemma delete_user_rows_move:
  assumes "\<And>u B C. audit u B = Inr C \<Longrightarrow> still B C"
  shows "R (sr_accounts X) (sr_accounts (fst (delete_user_rows c audit i X)))"
  by (auto simp: delete_user_rows_def purge_sync_def tx_eq bindE_eq_Inr split: sum.splits prod.splits
      intro!: then_step elim!: then_fact assms [THEN then_still])

lemma delete_account_move: "R (sr_accounts X) (sr_accounts (fst (delete_account S c i ip X)))"
  using delete_user_rows_move [of "\<lambda>u. audit_user S c i ''user.deleted'' ip [(''status'', us_status u)]
    [(''status'', ''deleted'')]" X c i, OF still_audit_user]
  by (auto simp: delete_account_def split: sum.splits prod.splits intro!: then_step)

lemma admin_delete_move: "R (sr_accounts X) (sr_accounts (fst (admin_delete_user S c admin i reason X)))"
  unfolding admin_delete_user_def by (rule delete_user_rows_move) (rule still_audit_admin)

lemma purge_cloud_move: "R (sr_accounts X) (sr_accounts (fst (purge_cloud_data S c i ip X)))"
  by (auto simp: purge_cloud_data_def purge_sync_def tx_eq bindE_eq_Inr split: sum.splits prod.splits
      elim!: then_fact)

lemma maintenance_move: "R A (run_maintenance_cleanup c n m A)"
  by (auto simp: run_maintenance_cleanup_def Let_def intro!: then_step)

end

locale all_account_moves = account_moves +
  assumes move_lock: "a_update users_tab (\<lambda>v. us_id v = i) f A = Inr A' \<Longrightarrow>
      (\<And>u. locked_out (f u)) \<Longrightarrow> (\<And>u. us_id (f u) = us_id u) \<Longrightarrow> (\<And>u. us_deleted (f u) = us_deleted u) \<Longrightarrow>
      R A A'"
begin

lemma suspend_move: "R A (fst (suspend_user S c admin i reason A))"
  by (auto simp: suspend_user_def update_user_status_def fst_tx bindE_eq_Inr locked_out_def
      split: sum.splits if_splits intro!: then_step elim!: then_fact dest!: move_lock)

lemma start_deletion_move: "R A (fst (start_account_deletion S c admin i reason ip A))"
  by (auto simp: start_account_deletion_def tx_eq bindE_eq_Inr locked_out_def
      split: sum.splits prod.splits intro!: then_step elim!: then_fact dest!: move_lock)

end

end
