(* ===== verification/Account_History.thy ===== *)
theory Account_History
  imports Account_Moves
begin

text \<open>
  Histories of the whole server: any sequence of operations of users, administrators, devices and
  the maintenance. The operations on an own account carry the user and the device that the gate
  identified; a history may pick any.
\<close>

section \<open>Operations\<close>

datatype deed =
    Register register_request string
  | Resend string
  | VerifyEmail string string device_info string
  | Login string string device_info string
  | Refresh string
  | Logout string bool
  | LogoutAll uuid string
  | ForgotPassword string
  | ResetPassword string string string
  | ChangePassword uuid uuid string string string
  | AppleLogin string device_info
  | DevLogin string device_info
  | RevokeDevice uuid uuid string
  | UpdateProfile uuid string string
  | RequestEmailChange uuid string string string
  | VerifyEmailChange uuid uuid string device_info string
  | BindApple uuid string string
  | UnbindApple uuid string string
  | DeleteAccount uuid string
  | PurgeCloud uuid string
  | AdminLogin string string string string string
  | AdminLogout "string option"
  | Suspend uuid uuid string
  | Reactivate uuid uuid string
  | ForceLogout uuid uuid string
  | AdminRevokeDevice uuid uuid uuid string
  | AdminResend uuid uuid
  | AdminReset uuid uuid
  | StartDeletion uuid uuid string string
  | CancelDeletion uuid uuid string string
  | AdminDelete uuid uuid string
  | CreateInvitation uuid string int time
  | RevokeInvitation uuid string
  | Push env uuid "push_item list"
  | Cleanup bool int int int

datatype outcome = Refused | Done | Granted login_response

definition settled :: "'e + 'a \<Rightarrow> outcome" where
  "settled r = (case r of Inl _ \<Rightarrow> Refused | Inr _ \<Rightarrow> Done)"

definition granted :: "'e + login_response \<Rightarrow> outcome" where
  "granted r = (case r of Inl _ \<Rightarrow> Refused | Inr resp \<Rightarrow> Granted resp)"

lemma outcome_simps [simp]:
  "settled (Inl e) = Refused" "settled (Inr x) = Done"
  "granted (Inl e) = Refused" "granted (Inr resp) = Granted resp"
  by (simp_all add: settled_def granted_def)

lemma granted_iff [simp]: "granted r = Granted resp \<longleftrightarrow> r = Inr resp" "granted r \<noteq> Done"
  by (cases r; simp)+

lemma settled_iff [simp]: "settled r \<noteq> Granted resp" "settled r = Done \<longleftrightarrow> (\<exists>x. r = Inr x)"
  by (cases r; simp)+

definition on_accounts :: "server \<Rightarrow> ('a \<Rightarrow> outcome) \<Rightarrow> accounts \<times> 'a \<Rightarrow> server \<times> outcome" where
  "on_accounts X k r = (X\<lparr>sr_accounts := fst r\<rparr>, k (snd r))"

definition on_server :: "('a \<Rightarrow> outcome) \<Rightarrow> server \<times> 'a \<Rightarrow> server \<times> outcome" where
  "on_server k r = (fst r, k (snd r))"

primrec perform :: "service \<Rightarrow> call \<Rightarrow> deed \<Rightarrow> server \<Rightarrow> server \<times> outcome" where
  "perform S c (Register req ip) X = on_accounts X settled (register S c req ip (sr_accounts X))"
| "perform S c (Resend raw) X = on_accounts X settled (resend S c raw (sr_accounts X))"
| "perform S c (VerifyEmail e code di ip) X = on_accounts X granted (verify_email S c e code di ip (sr_accounts X))"
| "perform S c (Login e pw di ip) X = on_accounts X granted (login S c e pw di ip (sr_accounts X))"
| "perform S c (Refresh t) X = on_accounts X granted (refresh S c t (sr_accounts X))"
| "perform S c (Logout t whole) X = on_accounts X settled (logout S c t whole (sr_accounts X))"
| "perform S c (LogoutAll i ip) X = on_accounts X settled (logout_all_user S c i ip (sr_accounts X))"
| "perform S c (ForgotPassword e) X = on_accounts X settled (forgot_password S c e (sr_accounts X))"
| "perform S c (ResetPassword t pw ip) X = on_accounts X settled (reset_password S c t pw ip (sr_accounts X))"
| "perform S c (ChangePassword i dev cur new ip) X =
     on_accounts X settled (change_password S c i dev cur new ip (sr_accounts X))"
| "perform S c (AppleLogin sub di) X = on_accounts X granted (apple_login S c sub di (sr_accounts X))"
| "perform S c (DevLogin n di) X = on_accounts X granted (dev_login S c n di (sr_accounts X))"
| "perform S c (RevokeDevice i dev ip) X = on_accounts X settled (revoke_device S c i dev ip (sr_accounts X))"
| "perform S c (UpdateProfile i n ip) X = on_accounts X settled (update_profile S c i n ip (sr_accounts X))"
| "perform S c (RequestEmailChange i pw e ip) X =
     on_accounts X settled (request_email_change S c i pw e ip (sr_accounts X))"
| "perform S c (VerifyEmailChange i dev code di ip) X =
     on_accounts X granted (verify_email_change S c i dev code di ip (sr_accounts X))"
| "perform S c (BindApple i sub ip) X = on_accounts X settled (bind_apple S c i sub ip (sr_accounts X))"
| "perform S c (UnbindApple i pw ip) X = on_accounts X settled (unbind_apple S c i pw ip (sr_accounts X))"
| "perform S c (DeleteAccount i ip) X = on_server settled (delete_account S c i ip X)"
| "perform S c (PurgeCloud i ip) X = on_server settled (purge_cloud_data S c i ip X)"
| "perform S c (AdminLogin n totp pw ip agent) X =
     on_accounts X settled (admin_login S c n totp pw ip agent (sr_accounts X))"
| "perform S c (AdminLogout cookie) X = on_accounts X settled (admin_logout S c cookie (sr_accounts X))"
| "perform S c (Suspend admin i reason) X = on_accounts X settled (suspend_user S c admin i reason (sr_accounts X))"
| "perform S c (Reactivate admin i reason) X =
     on_accounts X settled (reactivate_user S c admin i reason (sr_accounts X))"
| "perform S c (ForceLogout admin i reason) X =
     on_accounts X settled (force_logout S c admin i reason (sr_accounts X))"
| "perform S c (AdminRevokeDevice admin i dev reason) X =
     on_accounts X settled (admin_revoke_device S c admin i dev reason (sr_accounts X))"
| "perform S c (AdminResend admin i) X = on_accounts X settled (resend_verification S c admin i (sr_accounts X))"
| "perform S c (AdminReset admin i) X = on_accounts X settled (send_password_reset S c admin i (sr_accounts X))"
| "perform S c (StartDeletion admin i reason ip) X =
     on_accounts X settled (start_account_deletion S c admin i reason ip (sr_accounts X))"
| "perform S c (CancelDeletion admin i reason ip) X =
     on_accounts X settled (cancel_account_deletion S c admin i reason ip (sr_accounts X))"
| "perform S c (AdminDelete admin i reason) X = on_server settled (admin_delete_user S c admin i reason X)"
| "perform S c (CreateInvitation admin note n ttl) X =
     on_accounts X settled (admin_create_invitation S c admin note n ttl (sr_accounts X))"
| "perform S c (RevokeInvitation admin code) X =
     on_accounts X settled (admin_revoke_invitation S c admin code (sr_accounts X))"
| "perform S c (Push E u its) X =
     (let (Y, r) = push_at E u its (sr_sync X) in (X\<lparr>sr_sync := Y\<rparr>, settled r))"
| "perform S c (Cleanup files r l a) X = (fst (cleanup_tick c files r l a X), Done)"

definition locks :: "deed \<Rightarrow> bool" where
  "locks a = (case a of Suspend _ _ _ \<Rightarrow> True | StartDeletion _ _ _ _ \<Rightarrow> True | _ \<Rightarrow> False)"

fun history :: "service \<Rightarrow> (call \<times> deed) list \<Rightarrow> server \<Rightarrow> server" where
  "history S [] X = X"
| "history S ((c, a) # h) X = history S h (fst (perform S c a X))"

lemma history_append: "history S (h @ k) X = history S k (history S h X)"
  by (induction S h X rule: history.induct) simp_all

definition new_server :: server where
  "new_server = \<lparr>sr_sync = \<lparr>st_db = empty_db, st_changed = (\<lambda>_. 0), st_processed = (\<lambda>_. 0)\<rparr>,
     sr_accounts = no_accounts\<rparr>"

section \<open>Histories move accounts\<close>

context account_moves
begin

lemma perform_move:
  assumes "\<not> locks a" and "fresh (issued S c)"
  shows "R (sr_accounts X) (sr_accounts (fst (perform S c a X)))"
proof (cases a)
  case (Push E u its)
  then show ?thesis by (simp split: prod.splits)
next
  case (Cleanup files r l m)
  then show ?thesis by (simp add: cleanup_tick_def split: prod.splits) (rule maintenance_move)
qed (use assms in \<open>simp_all add: on_accounts_def on_server_def locks_def register_move resend_move
    verify_email_move login_move refresh_move logout_move logout_all_move forgot_move reset_password_move
    change_password_move apple_login_move dev_login_move revoke_device_move update_profile_move
    request_email_change_move verify_email_change_move bind_apple_move unbind_apple_move
    delete_account_move purge_cloud_move admin_login_move admin_logout_move reactivate_move
    force_logout_move admin_revoke_device_move resend_verification_move send_password_reset_move
    cancel_deletion_move admin_delete_move create_invitation_move revoke_invitation_move\<close>)

lemma history_move:
  assumes "list_all (\<lambda>(c, a). \<not> locks a \<and> fresh (issued S c)) h"
  shows "R (sr_accounts X) (sr_accounts (history S h X))"
  using assms by (induction S h X rule: history.induct) (auto intro: move_trans perform_move)

end

context all_account_moves
begin

lemma perform_any_move:
  assumes "fresh (issued S c)"
  shows "R (sr_accounts X) (sr_accounts (fst (perform S c a X)))"
proof (cases "locks a")
  case True
  then show ?thesis
    by (cases a) (simp_all add: locks_def on_accounts_def suspend_move start_deletion_move)
next
  case False
  with assms show ?thesis by (rule perform_move [rotated])
qed

lemma history_any_move:
  assumes "list_all (\<lambda>(c, a). fresh (issued S c)) h"
  shows "R (sr_accounts X) (sr_accounts (history S h X))"
  using assms by (induction S h X rule: history.induct) (auto intro: move_trans perform_any_move)

end

end
