(* ===== verification/Account_Laws.thy ===== *)
theory Account_Laws
  imports Account_History
begin

text \<open>
  Three invariants of account histories, as instances of the moves: the keys of users and refresh
  tokens stay unique; a refresh token that was used or revoked stays so; as long as nobody is
  suspended or marked for deletion, every active account has a verified address or is a
  development account.
\<close>

definition keyed :: "accounts \<Rightarrow> bool" where
  "keyed A \<longleftrightarrow> users_unique (ac_users A) \<and> distinct (map rt_id (ac_refresh A)) \<and>
     distinct (map rt_hash (ac_refresh A))"

definition spent :: "string \<Rightarrow> accounts \<Rightarrow> bool" where
  "spent h A \<longleftrightarrow> (\<forall>t\<in>set (ac_refresh A). rt_hash t = h \<longrightarrow> rt_revoked t \<noteq> None \<or> rt_replaced t \<noteq> None)"

definition proven :: "user \<Rightarrow> bool" where
  "proven u \<longleftrightarrow> \<not> locked_out u \<and> (us_status u = ''active'' \<longrightarrow> us_verified u \<noteq> None \<or> us_dev u \<noteq> None)"

text \<open>How the statements on users and refresh tokens change the two tables.\<close>

lemma users_update_Inr:
  "a_update users_tab P f A = Inr A' \<Longrightarrow>
     ac_users A' = set_rows P f (ac_users A) \<and> users_unique (ac_users A') \<and> ac_refresh A' = ac_refresh A"
  by (auto simp: a_update_def users_tab_def split: if_splits)

lemma create_user_Inr:
  "create_user u A = Inr A' \<Longrightarrow>
     ac_users A' = ac_users A @ [u] \<and> users_unique (ac_users A') \<and> ac_refresh A' = ac_refresh A"
  by (auto simp: create_user_def a_insert_def users_tab_def split: if_splits)

lemma insert_refresh_Inr:
  "insert_refresh_token t A = Inr A' \<Longrightarrow>
     ac_users A' = ac_users A \<and> ac_refresh A' = ac_refresh A @ [t] \<and>
     distinct (map rt_id (ac_refresh A')) \<and> distinct (map rt_hash (ac_refresh A'))"
  by (auto simp: insert_refresh_token_def a_insert_def refresh_tab_def split: if_splits)

lemma set_users_simps [simp]:
  "ac_users (a_set users_tab P f A) = set_rows P f (ac_users A)"
  "ac_refresh (a_set users_tab P f A) = ac_refresh A"
  by (simp_all add: a_set_def users_tab_def)

lemma set_refresh_simps [simp]:
  "ac_users (a_set refresh_tab Q g A) = ac_users A"
  "ac_refresh (a_set refresh_tab Q g A) = set_rows Q g (ac_refresh A)"
  "ac_users (a_delete refresh_tab Q A) = ac_users A"
  "ac_refresh (a_delete refresh_tab Q A) = filter (\<lambda>t. \<not> Q t) (ac_refresh A)"
  by (simp_all add: a_set_def a_delete_def refresh_tab_def)

lemma set_rows_ball:
  "(\<forall>x\<in>set (set_rows P f rs). J x) \<longleftrightarrow> (\<forall>x\<in>set rs. J (if P x then f x else x))"
  by (induction rs) auto

text \<open>Keys stay unique when the rewritten rows keep them.\<close>

lemma users_unique_touch:
  assumes "\<And>u. us_id (f u) = us_id u" and "\<And>u. us_norm (f u) = us_norm u" and "\<And>u. us_apple (f u) = us_apple u"
    and "\<And>u. email_indexed (f u) = email_indexed u"
  shows "users_unique (set_rows P f us) = users_unique us"
proof -
  let ?g = "\<lambda>u. if P u then f u else u"
  have g: "us_id (?g u) = us_id u" "us_norm (?g u) = us_norm u" "us_apple (?g u) = us_apple u"
    "email_indexed (?g u) = email_indexed u" for u using assms by simp_all
  have "map us_norm (filter email_indexed (map ?g us)) = map us_norm (filter email_indexed us)"
    "map us_apple (filter (\<lambda>u. us_apple u \<noteq> None) (map ?g us)) = map us_apple (filter (\<lambda>u. us_apple u \<noteq> None) us)"
    "map us_id (map ?g us) = map us_id us"
    by (induction us) (simp_all add: g del: not_None_eq)
  then show ?thesis by (simp only: users_unique_def set_rows_def)
qed

lemma keyed_still: "still A A' \<Longrightarrow> keyed A \<Longrightarrow> keyed A'"
  by (simp add: still_def keyed_def)

lemma keyed_users: "ac_refresh A' = ac_refresh A \<Longrightarrow> users_unique (ac_users A') \<Longrightarrow> keyed A \<Longrightarrow> keyed A'"
  by (simp add: keyed_def)

lemma keyed_refresh:
  "ac_users A' = ac_users A \<Longrightarrow> distinct (map rt_id (ac_refresh A')) \<Longrightarrow>
     distinct (map rt_hash (ac_refresh A')) \<Longrightarrow> keyed A \<Longrightarrow> keyed A'"
  by (simp add: keyed_def)

lemma touch_simps [simp]:
  "ac_users (touch_last_login c i A) =
     set_rows (\<lambda>u. us_id u = i) (\<lambda>u. u\<lparr>us_last_login := Some (ca_now c), us_updated := ca_now c\<rparr>) (ac_users A)"
  "ac_refresh (touch_last_login c i A) = ac_refresh A"
  by (simp_all add: touch_last_login_def)

lemma replace_simps [simp]:
  "ac_users (mark_replaced old new A) = ac_users A"
  "ac_refresh (mark_replaced old new A) =
     set_rows (\<lambda>t. rt_id t = old) (\<lambda>t. t\<lparr>rt_replaced := Some new\<rparr>) (ac_refresh A)"
  by (simp_all add: mark_replaced_def)

lemma keyed_update: "a_update users_tab P f A = Inr A' \<Longrightarrow> keyed A \<Longrightarrow> keyed A'"
  by (auto dest: users_update_Inr intro: keyed_users)

lemma keyed_sets:
  "keyed A \<Longrightarrow> keyed (touch_last_login c i A)"
  "keyed A \<Longrightarrow> keyed (a_set refresh_tab Q (revoke c) A)"
  "keyed A \<Longrightarrow> keyed (mark_replaced old new A)"
  "keyed A \<Longrightarrow> keyed (a_delete refresh_tab Q A)"
  by (simp_all add: keyed_def users_unique_touch email_indexed_def revoke_def map_set_rows
      distinct_map_filter_key)

interpretation keys: all_account_moves "\<lambda>A A'. keyed A \<longrightarrow> keyed A'" "\<lambda>h. True"
  by unfold_locales
    (auto dest: create_user_Inr insert_refresh_Inr intro: keyed_still keyed_update keyed_users keyed_refresh
      keyed_sets simp: mark_email_verified_def soft_delete_user_def)

lemma keyed_history: "keyed (sr_accounts (history S h new_server))"
proof -
  have "keyed (sr_accounts new_server)"
    by (simp add: new_server_def no_accounts_def keyed_def users_unique_def)
  moreover have "list_all (\<lambda>(c, a). True) h" by (simp add: list_all_iff split_def)
  ultimately show ?thesis using keys.history_any_move by blast
qed

text \<open>Refresh tokens that are spent.\<close>

lemma spent_same: "ac_refresh A' = ac_refresh A \<Longrightarrow> spent h A \<Longrightarrow> spent h A'"
  by (simp add: spent_def)

lemma spent_users: "a_update users_tab P f A = Inr A' \<Longrightarrow> spent h A \<Longrightarrow> spent h A'"
  by (rule spent_same) (simp_all add: users_update_Inr)

lemma spent_insert:
  assumes "insert_refresh_token t A = Inr A'" and "rt_hash t \<noteq> h" and "spent h A"
  shows "spent h A'"
  using insert_refresh_Inr [OF assms(1)] assms(2,3) by (auto simp: spent_def)

lemma spent_sets:
  "spent h A \<Longrightarrow> spent h (a_set refresh_tab Q (revoke c) A)"
  "spent h A \<Longrightarrow> spent h (mark_replaced old new A)"
  "spent h A \<Longrightarrow> spent h (a_delete refresh_tab Q A)"
  by (auto simp: spent_def revoke_def set_rows_set)

interpretation spending: all_account_moves "\<lambda>A A'. spent h A \<longrightarrow> spent h A'" "\<lambda>x. x \<noteq> h" for h
  by unfold_locales
    (auto dest: create_user_Inr spent_users spent_insert intro: spent_same spent_sets
      simp: still_def mark_email_verified_def soft_delete_user_def)

text \<open>Accounts that are active.\<close>

lemma proven_update:
  assumes "a_update users_tab P f A = Inr A'" and "\<And>u. proven u \<Longrightarrow> proven (f u)"
    and "list_all proven (ac_users A)"
  shows "list_all proven (ac_users A')"
  using users_update_Inr [OF assms(1)] assms(2,3) by (auto simp: list_all_iff set_rows_set)

interpretation proving: account_moves
  "\<lambda>A A'. list_all proven (ac_users A) \<longrightarrow> list_all proven (ac_users A')" "\<lambda>h. True"
proof (unfold_locales, goal_cases)
  case (3 u A A')
  then show ?case by (auto dest: create_user_Inr simp: entitled_def proven_def locked_out_def)
next
  case (4 A c i)
  show ?case by (auto simp: list_all_iff set_rows_set proven_def locked_out_def)
next
  case (5 P f A A')
  then show ?case by (auto elim!: proven_update simp: proven_def locked_out_def same_standing_def)
next
  case (6 c i A A')
  then show ?case by (auto elim!: proven_update simp: mark_email_verified_def proven_def locked_out_def)
next
  case (7 c i A A')
  then show ?case by (auto elim!: proven_update simp: soft_delete_user_def proven_def locked_out_def)
next
  case (8 i A u f A')
  from 8(1) have "u \<in> set (ac_users A)" by (auto simp: get_user_by_id_def dest: find_in_set)
  with 8(2) show ?case by (auto simp: list_all_iff proven_def)
qed (auto dest: insert_refresh_Inr simp: still_def)

end
