(* ===== verification/Account_Examples.thy ===== *)
theory Account_Examples
  imports Account_Laws
begin

text \<open>
  A small concrete service and small concrete accounts, on which the properties of the accounts
  are evaluated. The libraries are replaced by short functions with the documented behaviour.
\<close>

definition argon0 :: argon_library where
  "argon0 = \<lparr>ar_version = 19, ar_key = (\<lambda>plain salt t m p n. replicate (unat n) (of_nat (length plain)))\<rparr>"

definition unicode0 :: unicode where
  "unicode0 = \<lparr>un_lower = (\<lambda>s. s), un_upper = (\<lambda>s. s), un_print = (\<lambda>s. True)\<rparr>"

text \<open>Signed texts of this library are the user, a zero byte and the device; nothing is checked.\<close>

definition jwt0 :: jwt_library where
  "jwt0 = \<lparr>jw_sign = (\<lambda>secret c iat expiry. ''signed''), jw_parse = (\<lambda>now iss secret raw. None)\<rparr>"

definition manager0 :: manager where
  "manager0 = \<lparr>mg_secret = ''secret'', mg_previous = None, mg_issuer = ''livetranslate'',
     mg_access_ttl = minutes 15, mg_refresh_ttl = minutes 1440\<rparr>"

definition params0 :: params where
  "params0 = \<lparr>pm_memory = 8, pm_iterations = 2, pm_parallel = 1, pm_salt_len = 16, pm_key_len = 32\<rparr>"

definition service0 :: service where
  "service0 =
     \<lparr>sv_sha256 = (\<lambda>s. [of_nat (length s)]), sv_sha3 = (\<lambda>s. [of_nat (length s)]), sv_argon = argon0,
      sv_unicode = unicode0, sv_jwt = jwt0, sv_uuid_text = (\<lambda>i. ''id''), sv_uuid_parse = (\<lambda>s. Some 1),
      sv_hmac = (\<lambda>k m. replicate 20 0), sv_base32 = (\<lambda>s. None), sv_mode = ''open'', sv_dev_mode = True,
      sv_mailer = False, sv_params = params0, sv_manager = manager0, sv_verify_ttl = minutes 15,
      sv_reset_ttl = minutes 30, sv_cooldown = minutes 1, sv_fail_window = minutes 15, sv_ip_max = 20,
      sv_session_ttl = minutes 60, sv_base_url = [], sv_reset_path = []\<rparr>"

text \<open>The n-th call: its ids are n, its random bytes are n times the byte 1.\<close>

definition call_no :: "nat \<Rightarrow> call" where
  "call_no n =
     \<lparr>ca_now = int n, ca_wall = int n, ca_pick = 0, ca_user_id = of_nat n, ca_challenge_id = of_nat n,
      ca_device_id = of_nat n, ca_refresh_id = of_nat n, ca_identity_id = of_nat n, ca_reset_id = of_nat n,
      ca_session_id = of_nat n, ca_refresh_bytes = replicate (3 * n) 1, ca_code_bytes = (0, 0, 0, 7),
      ca_opaque_bytes = replicate n 1, ca_hex_bytes = [1], ca_jti_bytes = [1], ca_salt = [1],
      ca_delivers = True\<rparr>"

definition phone :: device_info where
  "phone = \<lparr>di_client = ''phone'', di_name = [], di_version = []\<rparr>"

text \<open>Bob signs in with the development login, and refreshes his token.\<close>

definition bob :: user where
  "bob = dev_user (call_no 1) ''bob''"

definition bob_phone :: device where
  "bob_phone = \<lparr>dv_id = 1, dv_user = 1, dv_client = ''phone'', dv_name = [], dv_version = [],
     dv_seen = 1, dv_revoked = None\<rparr>"

definition bob_first :: refresh_token where
  "bob_first = \<lparr>rt_id = 1, rt_user = 1, rt_device = 1, rt_hash = ''04'', rt_expires = 86400000001,
     rt_revoked = None, rt_replaced = None, rt_created = 1\<rparr>"

definition bob_second :: refresh_token where
  "bob_second = \<lparr>rt_id = 2, rt_user = 1, rt_device = 1, rt_hash = ''08'', rt_expires = 86400000002,
     rt_revoked = None, rt_replaced = None, rt_created = 2\<rparr>"

definition bob_signed_in :: accounts where
  "bob_signed_in = no_accounts\<lparr>ac_users := [bob], ac_devices := [bob_phone], ac_refresh := [bob_first]\<rparr>"

definition bob_refreshed :: accounts where
  "bob_refreshed = no_accounts\<lparr>ac_users := [bob\<lparr>us_updated := 2, us_last_login := Some 2\<rparr>],
     ac_devices := [bob_phone\<lparr>dv_seen := 2\<rparr>],
     ac_refresh := [bob_first\<lparr>rt_replaced := Some 2\<rparr>, bob_second]\<rparr>"

lemma bob_signs_in:
  "fst (dev_login service0 (call_no 1) ''bob'' phone no_accounts) = bob_signed_in"
  by code_simp

lemma bob_refreshes:
  "fst (refresh service0 (call_no 2) ''AQEB'' bob_signed_in) = bob_refreshed"
  "\<not> isl (snd (refresh service0 (call_no 2) ''AQEB'' bob_signed_in))"
  by code_simp+

text \<open>Ann has registered and not entered her code.\<close>

definition ann :: user where
  "ann = \<lparr>us_id = 7, us_email = Some ''ann@mail.org'', us_norm = Some ''ann@mail.org'', us_name = ''Ann'',
     us_status = ''pending'', us_role = ''user'', us_apple = None, us_dev = None, us_verified = None,
     us_created = 1, us_updated = 1, us_last_login = None, us_deletion = None, us_deleted = None\<rparr>"

definition ann_code :: challenge where
  "ann_code = \<lparr>cg_id = 1, cg_user = 7, cg_purpose = ''verify_email'', cg_hash = ''06'', cg_target = None,
     cg_expires = 900000001, cg_attempts = 0, cg_consumed = None, cg_created = 1\<rparr>"

definition ann_pending :: accounts where
  "ann_pending = no_accounts\<lparr>ac_users := [ann], ac_challenges := [ann_code]\<rparr>"

text \<open>The server with these accounts and an empty synchronised database.\<close>

definition serving :: "accounts \<Rightarrow> server" where
  "serving A = new_server\<lparr>sr_accounts := A\<rparr>"

lemma serving_simps [simp]: "sr_accounts (serving A) = A" "serving A\<lparr>sr_accounts := B\<rparr> = serving B"
  by (simp_all add: serving_def)

end
