(* ===== verification/Account_Properties.thy ===== *)
theory Account_Properties
  imports Account_Examples
begin

text \<open>Properties of the accounts and their sessions, over all histories of the server.\<close>

section \<open>Refresh tokens\<close>

lemma refresh_Inr:
  assumes "refresh S c tok A = (A', Inr resp)"
  obtains old u B where "lock_refresh_token (token_hash S tok) A = Some old"
    and "rt_revoked old = None" and "rt_replaced old = None" and "ca_wall c \<le> rt_expires old"
    and "get_user_by_id (rt_user old) A = Some u" and "\<not> unavailable u"
    and "insert_refresh_token (new_refresh S c (us_id u) (rt_device old)) A = Inr B"
    and "A' = touch_last_login c (us_id u)
      (touch_device_seen c (rt_device old) (mark_replaced (rt_id old) (ca_refresh_id c) B))"
    and "resp = token_pair S c u (rt_device old) None False"
  using assms
  by (auto simp: refresh_def tx_eq refresh_tx_def bindE_eq_Inr Let_def not_less
      split: prod.splits sum.splits option.splits if_splits)

lemma touch_device_simps [simp]:
  "ac_users (touch_device_seen c dev A) = ac_users A" "ac_refresh (touch_device_seen c dev A) = ac_refresh A"
  by (simp_all add: touch_device_seen_def a_set_def devices_tab_def)

lemma lock_in: "lock_refresh_token h A = Some t \<Longrightarrow> t \<in> set (ac_refresh A) \<and> rt_hash t = h"
  by (auto simp: lock_refresh_token_def dest: find_in_set)

lemma refresh_spends:
  assumes "refresh S c tok A = (A', Inr resp)"
  shows "spent (token_hash S tok) A'"
  using assms
proof (rule refresh_Inr)
  fix old u B
  assume old: "lock_refresh_token (token_hash S tok) A = Some old"
    and ins: "insert_refresh_token (new_refresh S c (us_id u) (rt_device old)) A = Inr B"
    and A': "A' = touch_last_login c (us_id u)
      (touch_device_seen c (rt_device old) (mark_replaced (rt_id old) (ca_refresh_id c) B))"
  have "old \<in> set (ac_refresh B)" "distinct (map rt_hash (ac_refresh B))" "rt_hash old = token_hash S tok"
    using insert_refresh_Inr [OF ins] lock_in [OF old] by auto
  then have "t = old" if "t \<in> set (ac_refresh B)" "rt_hash t = token_hash S tok" for t
    using that by (metis distinct_map inj_on_def)
  then show "spent (token_hash S tok) A'" by (auto simp: A' spent_def set_rows_set)
qed

lemma refresh_spent:
  assumes "spent (token_hash S tok) A" and "refresh S c tok A = (A', r)"
  shows "r = Inl NotFound \<and> A' = A \<or>
    (\<exists>old. r = Inl ReuseDetected \<and> lock_refresh_token (token_hash S tok) A = Some old \<and>
      A' = revoke_device_tokens c (rt_device old) A)"
proof (cases "lock_refresh_token (token_hash S tok) A")
  case None
  with assms(2) show ?thesis by (simp add: refresh_def refresh_tx_def tx_def)
next
  case (Some old)
  with assms(1) have "rt_revoked old \<noteq> None \<or> rt_replaced old \<noteq> None"
    by (auto simp: spent_def dest: lock_in)
  with Some assms(2) show ?thesis by (simp add: refresh_def refresh_tx_def tx_def)
qed

text \<open>
  C18: A refresh token works once. After a successful refresh, and whatever happens in between as
  long as no call draws the same token again, presenting the old token is refused; unless its row
  was pruned, every token of its device is revoked then.
\<close>

theorem refresh_token_works_once:
  assumes "perform S c (Refresh tok) X = (Y, Granted resp)"
    and "list_all (\<lambda>(c, a). issued S c \<noteq> token_hash S tok) h"
  shows "case refresh S c' tok (sr_accounts (history S h Y)) of (A', r) \<Rightarrow>
    r = Inl NotFound \<or>
    (\<exists>old. r = Inl ReuseDetected \<and>
      lock_refresh_token (token_hash S tok) (sr_accounts (history S h Y)) = Some old \<and>
      A' = revoke_device_tokens c' (rt_device old) (sr_accounts (history S h Y)))"
proof -
  from assms(1) have "refresh S c tok (sr_accounts X) = (sr_accounts Y, Inr resp)"
    by (cases "refresh S c tok (sr_accounts X)") (auto simp: on_accounts_def)
  then have "spent (token_hash S tok) (sr_accounts Y)" by (rule refresh_spends)
  with spending.history_any_move [OF assms(2)] have "spent (token_hash S tok) (sr_accounts (history S h Y))"
    by blast
  from refresh_spent [OF this] show ?thesis by (auto split: prod.split)
qed

lemma bob_refresh_performed:
  "\<exists>resp. perform service0 (call_no 2) (Refresh ''AQEB'') (serving bob_signed_in) =
     (serving bob_refreshed, Granted resp)"
  using bob_refreshes by (cases "snd (refresh service0 (call_no 2) ''AQEB'' bob_signed_in)")
    (auto simp: on_accounts_def)

lemma refresh_token_works_once_witness:
  "snd (refresh service0 (call_no 3) ''AQEB'' (sr_accounts (history service0
     [(call_no 4, LogoutAll 1 [])] (serving bob_refreshed)))) \<in> {Inl NotFound, Inl ReuseDetected}"
proof -
  obtain resp where did: "perform service0 (call_no 2) (Refresh ''AQEB'') (serving bob_signed_in) =
     (serving bob_refreshed, Granted resp)" using bob_refresh_performed by blast
  have "issued service0 (call_no 4) \<noteq> token_hash service0 ''AQEB''" by code_simp
  then have "list_all (\<lambda>(c, a). issued service0 c \<noteq> token_hash service0 ''AQEB'')
      [(call_no 4, LogoutAll 1 [])]" by simp
  from refresh_token_works_once [OF did this, of "call_no 3"] show ?thesis
    by (auto split: prod.splits)
qed

section \<open>The end of all sessions\<close>

text \<open>The user whose sessions an operation ends.\<close>

definition ends_sessions :: "service \<Rightarrow> deed \<Rightarrow> accounts \<Rightarrow> uuid option" where
  "ends_sessions S a A =
     (case a of
        LogoutAll i _ \<Rightarrow> Some i
      | DeleteAccount i _ \<Rightarrow> Some i
      | Suspend _ i _ \<Rightarrow> Some i
      | ForceLogout _ i _ \<Rightarrow> Some i
      | StartDeletion _ i _ _ \<Rightarrow> Some i
      | AdminDelete _ i _ \<Rightarrow> Some i
      | ResetPassword tok _ _ \<Rightarrow>
          map_option rs_user (find (\<lambda>t. rs_hash t = token_hash S (trim_space tok)) (ac_resets A))
      | _ \<Rightarrow> None)"

lemma revoke_all_refresh [simp]:
  "ac_refresh (revoke_all_user_refresh_tokens c i A) =
     set_rows (\<lambda>t. rt_user t = i \<and> rt_revoked t = None) (revoke c) (ac_refresh A)"
  by (simp add: revoke_all_user_refresh_tokens_def)

lemma still_refresh: "still A A' \<Longrightarrow> ac_refresh A' = ac_refresh A"
  by (simp add: still_def)

lemmas same_refresh = still_facts [THEN still_refresh]

lemmas same_refresh_always = still_always [THEN still_refresh]

lemma update_refresh: "a_update users_tab P f A = Inr A' \<Longrightarrow> ac_refresh A' = ac_refresh A"
  by (simp add: users_update_Inr)

lemma delete_rows_refresh:
  assumes "delete_user_rows c audit i X = (Y, Inr r)"
    and "\<And>u B C. audit u B = Inr C \<Longrightarrow> still B C"
  shows "ac_refresh (sr_accounts Y) =
    set_rows (\<lambda>t. rt_user t = i \<and> rt_revoked t = None) (revoke c) (ac_refresh (sr_accounts X))"
  using assms(1)
  by (auto simp: delete_user_rows_def purge_sync_def tx_eq bindE_eq_Inr soft_delete_user_def
      dest!: update_refresh assms(2) [THEN still_refresh] split: prod.splits sum.splits)

lemma ends_sessions_revokes:
  assumes "perform S c a X = (Y, Done)" and "ends_sessions S a (sr_accounts X) = Some i"
  shows "ac_refresh (sr_accounts Y) =
    set_rows (\<lambda>t. rt_user t = i \<and> rt_revoked t = None) (revoke c) (ac_refresh (sr_accounts X))"
proof (cases a)
  case (ResetPassword tok pw ip)
  with assms show ?thesis
    by (auto simp: ends_sessions_def on_accounts_def reset_password_def tx_def reset_password_tx_def
        bindE_eq_Inr consume_password_reset_token_def same_refresh_always dest!: same_refresh
        split: option.splits sum.splits prod.splits if_splits)
next
  case (DeleteAccount i' ip)
  with assms show ?thesis
    by (auto simp: ends_sessions_def on_server_def delete_account_def same_refresh_always
        dest!: delete_rows_refresh [OF _ still_audit_user] split: prod.splits sum.splits)
next
  case (AdminDelete admin i' reason)
  with assms show ?thesis
    by (cases "admin_delete_user S c admin i' reason X")
      (auto simp: ends_sessions_def on_server_def admin_delete_user_def
        dest!: delete_rows_refresh [OF _ still_audit_admin])
qed (use assms in \<open>auto simp: ends_sessions_def on_accounts_def logout_all_user_def suspend_user_def
    update_user_status_def force_logout_def start_account_deletion_def tx_def bindE_eq_Inr same_refresh_always
    dest!: same_refresh update_refresh split: prod.splits sum.splits if_splits\<close>)

text \<open>
  C19: What ends the sessions of a user ends them for good. Once everything was signed out, the
  password was reset, or the account was suspended or deleted, no refresh token the user had
  refreshes ever again.
\<close>

theorem ended_sessions_stay_ended:
  assumes "X = history S h0 new_server" and "perform S c a X = (Y, Done)"
    and "ends_sessions S a (sr_accounts X) = Some i"
    and "t \<in> set (ac_refresh (sr_accounts X))" and "rt_user t = i" and "rt_hash t = token_hash S tok"
    and "list_all (\<lambda>(c, a). issued S c \<noteq> token_hash S tok) h"
  shows "snd (perform S c' (Refresh tok) (history S h Y)) = Refused"
proof -
  have "keyed (sr_accounts X)" unfolding assms(1) by (rule keyed_history)
  then have "distinct (map rt_hash (ac_refresh (sr_accounts X)))" by (simp add: keyed_def)
  with assms(4,6) have "s = t" if "s \<in> set (ac_refresh (sr_accounts X))" "rt_hash s = token_hash S tok" for s
    using that by (metis distinct_map inj_on_def)
  with assms(5) have "spent (token_hash S tok) (sr_accounts Y)"
    by (auto simp: spent_def ends_sessions_revokes [OF assms(2,3)] set_rows_set revoke_def)
  with spending.history_any_move [OF assms(7)] have "spent (token_hash S tok) (sr_accounts (history S h Y))"
    by blast
  moreover obtain A' r where "refresh S c' tok (sr_accounts (history S h Y)) = (A', r)" by fastforce
  ultimately show ?thesis using refresh_spent by (fastforce simp: on_accounts_def)
qed

lemma bob_history: "serving bob_signed_in = history service0 [(call_no 1, DevLogin ''bob'' phone)] new_server"
proof -
  have "sr_accounts new_server = no_accounts" by (simp add: new_server_def)
  then show ?thesis by (simp add: on_accounts_def serving_def flip: bob_signs_in)
qed

lemma ended_sessions_stay_ended_witness:
  "snd (perform service0 (call_no 3) (Refresh ''AQEB'') (history service0 [(call_no 4, DevLogin ''eve'' phone)]
     (fst (perform service0 (call_no 2) (LogoutAll 1 []) (serving bob_signed_in))))) = Refused"
proof -
  have "snd (logout_all_user service0 (call_no 2) 1 [] bob_signed_in) = Inr ()" by code_simp
  then have "perform service0 (call_no 2) (LogoutAll 1 []) (serving bob_signed_in) =
      (fst (perform service0 (call_no 2) (LogoutAll 1 []) (serving bob_signed_in)), Done)"
    by (simp add: on_accounts_def)
  moreover have "ends_sessions service0 (LogoutAll 1 []) (sr_accounts (serving bob_signed_in)) = Some 1"
    by (simp add: ends_sessions_def)
  moreover have "bob_first \<in> set (ac_refresh (sr_accounts (serving bob_signed_in)))"
    by (simp add: bob_signed_in_def)
  moreover have "rt_user bob_first = 1" "rt_hash bob_first = token_hash service0 ''AQEB''" by code_simp+
  moreover have "issued service0 (call_no 4) \<noteq> token_hash service0 ''AQEB''" by code_simp
  then have "list_all (\<lambda>(c, a). issued service0 c \<noteq> token_hash service0 ''AQEB'')
      [(call_no 4, DevLogin ''eve'' phone)]" by simp
  ultimately show ?thesis by (rule ended_sessions_stay_ended [OF bob_history])
qed

section \<open>Who gets tokens\<close>

definition granted_to :: "service \<Rightarrow> accounts \<Rightarrow> login_response \<Rightarrow> bool" where
  "granted_to S A resp \<longleftrightarrow>
     (\<exists>u t. get_user_by_id (lr_user resp) A = Some u \<and> \<not> unavailable u \<and>
        t \<in> set (ac_refresh A) \<and> rt_user t = us_id u \<and> rt_hash t = token_hash S (lr_refresh resp) \<and>
        rt_revoked t = None \<and> rt_replaced t = None)"

lemma granted_still: "still A A' \<Longrightarrow> granted_to S A resp \<Longrightarrow> granted_to S A' resp"
  by (simp add: still_def granted_to_def get_user_by_id_def)

lemma granted_response [simp]:
  "granted_to S A (resp\<lparr>lr_new := x\<rparr>) = granted_to S A resp" "granted_to S (send_mail m A) resp = granted_to S A resp"
  by (simp_all add: granted_to_def send_mail_def get_user_by_id_def)

lemma token_pair_simps [simp]:
  "lr_user (token_pair S c u dev d v) = us_id u"
  "lr_refresh (token_pair S c u dev d v) = base64_url (ca_refresh_bytes c)"
  by (simp_all add: token_pair_def Let_def split: prod.split)

lemma get_user_id: "get_user_by_id i A = Some u \<Longrightarrow> us_id u = i"
  by (auto simp: get_user_by_id_def dest: find_in_set)

lemma issue_granted:
  assumes iss: "issue_tokens S c u di B = Inr (C, resp, new)" and u: "get_user_by_id (us_id u) B = Some v"
    and v: "unavailable v = unavailable u"
  shows "granted_to S C resp"
proof -
  from iss obtain B' d where act: "us_status u = ''active''" "us_deleted u = None"
    and d: "still B B'" and ins: "insert_refresh_token (new_refresh S c (us_id u) (dv_id d)) B' = Inr C"
    and resp: "resp = token_pair S c u (dv_id d) (Some d) (us_verified u \<noteq> None)"
    by (auto simp: issue_tokens_def Let_def bindE_eq_Inr dest: still_device split: if_splits)
  from act v have "\<not> unavailable v" by (simp add: unavailable_def)
  moreover from u d insert_refresh_Inr [OF ins] have "get_user_by_id (us_id u) C = Some v"
    by (simp add: get_user_by_id_def still_def)
  moreover have "new_refresh S c (us_id u) (dv_id d) \<in> set (ac_refresh C)"
    using insert_refresh_Inr [OF ins] by simp
  ultimately show ?thesis
    using get_user_id [OF u] by (force simp: granted_to_def resp new_refresh_def)
qed

lemma issue_granted_id:
  assumes "issue_tokens S c u di B = Inr (C, resp, new)" and "get_user_by_id i B = Some u"
  shows "granted_to S C resp"
  using issue_granted [OF assms(1)] assms(2) get_user_id [OF assms(2)] by simp

lemma keyed_get: "keyed A \<Longrightarrow> u \<in> set (ac_users A) \<Longrightarrow> get_user_by_id (us_id u) A = Some u"
  by (simp add: keyed_def users_unique_def get_user_by_id_def find_distinct_key)

lemma touched_get:
  assumes "get_user_by_id i A = Some u"
  shows "\<exists>v. get_user_by_id i (touch_last_login c j A) = Some v \<and> unavailable v = unavailable u"
proof -
  let ?h = "\<lambda>u. if us_id u = j then u\<lparr>us_last_login := Some (ca_now c), us_updated := ca_now c\<rparr> else u"
  have "get_user_by_id i (touch_last_login c j A) = map_option ?h (get_user_by_id i A)"
    unfolding get_user_by_id_def touch_simps set_rows_def by (rule find_map_same_key) simp
  with assms show ?thesis by (simp add: unavailable_def)
qed

lemma created_get:
  assumes "create_user u A = Inr B"
  shows "get_user_by_id (us_id u) B = Some u"
proof -
  from create_user_Inr [OF assms] have d: "distinct (map us_id (ac_users B))" and m: "u \<in> set (ac_users B)"
    unfolding users_unique_def by auto
  show ?thesis unfolding get_user_by_id_def by (rule find_distinct_key [OF d m])
qed

lemma email_user_in: "get_user_by_normalized_email c e A = Some u \<Longrightarrow> u \<in> set (ac_users A)"
  by (auto simp: get_user_by_normalized_email_def dest!: pick_row_in)

lemma still_get: "still A B \<Longrightarrow> get_user_by_id i B = get_user_by_id i A"
  by (simp add: still_def get_user_by_id_def)

lemma login_granted:
  assumes "login_tx S c u e pw h di ip A = Inr (A', resp, new)" and "get_user_by_id (us_id u) A = Some u"
  shows "granted_to S A' resp"
  using assms(1)
proof (rule login_txE)
  fix B C
  assume B: "B = A \<or> (\<exists>h. upsert_password_credential c (us_id u) h A = Inr B)"
    and C: "record_login_event c (Some (us_id u)) (hash_pii S e) (di_client di) (hash_pii S ip) ''success''
      (touch_last_login c (us_id u) B) = Inr C"
    and iss: "issue_tokens S c u di C = Inr (A', resp, new)"
  from B assms(2) have "get_user_by_id (us_id u) B = Some u"
    using still_get still_upsert by (metis)
  from touched_get [OF this, of c "us_id u"] still_get [OF still_login_event [OF C]]
  obtain v where "get_user_by_id (us_id u) C = Some v" "unavailable v = unavailable u" by auto
  with iss show ?thesis by (rule issue_granted)
qed

lemma refresh_granted:
  assumes "refresh S c tok A = (A', Inr resp)"
  shows "granted_to S A' resp"
  using assms
proof (rule refresh_Inr)
  fix old u B
  assume u: "get_user_by_id (rt_user old) A = Some u" "\<not> unavailable u"
    and old: "lock_refresh_token (token_hash S tok) A = Some old"
    and ins: "insert_refresh_token (new_refresh S c (us_id u) (rt_device old)) A = Inr B"
    and A': "A' = touch_last_login c (us_id u)
      (touch_device_seen c (rt_device old) (mark_replaced (rt_id old) (ca_refresh_id c) B))"
    and resp: "resp = token_pair S c u (rt_device old) None False"
  note B = insert_refresh_Inr [OF ins]
  let ?t = "new_refresh S c (us_id u) (rt_device old)"
  have get: "get_user_by_id (us_id u)
      (touch_device_seen c (rt_device old) (mark_replaced (rt_id old) (ca_refresh_id c) B)) = Some u"
    using u(1) get_user_id [OF u(1)] B by (simp add: get_user_by_id_def)
  obtain v where v: "get_user_by_id (us_id u) A' = Some v" "unavailable v = unavailable u"
    using touched_get [OF get, of c "us_id u"] unfolding A' by auto
  have "rt_id ?t \<noteq> rt_id old" using B lock_in [OF old] by (auto simp: distinct_append)
  then have "?t \<in> set (ac_refresh A')" using B by (force simp: A' set_rows_set)
  with v u get_user_id [OF v(1)] show "granted_to S A' resp"
    by (force simp: granted_to_def resp new_refresh_def)
qed

lemma verify_granted: "verify_email S c e code di ip A = (A', Inr resp) \<Longrightarrow> granted_to S A' resp"
  by (auto simp: verify_email_def tx_eq activate_tx_def bindE_eq_Inr elim!: issue_granted_id
      split: option.splits if_splits)

lemma change_email_tx_granted:
  assumes "change_email_tx S c i dev g old email di ip A = Inr (A', resp)"
  shows "granted_to S A' resp"
proof -
  let ?kept = "revoke_all_user_refresh_tokens_except_device c i dev"
  from assms have "\<exists>B u C new. get_user_by_id i (?kept B) = Some u \<and>
      issue_tokens S c u di (?kept B) = Inr (C, resp, new) \<and> still C A'"
    by (auto simp: change_email_tx_def bindE_eq_Inr dest!: still_audit_user split: if_splits)
  then show ?thesis by (elim exE conjE) (rule granted_still [OF _ issue_granted_id])
qed

lemma change_email_granted:
  "verify_email_change S c i dev code di ip A = (A', Inr resp) \<Longrightarrow> granted_to S A' resp"
  by (auto simp: verify_email_change_def tx_eq dest!: change_email_tx_granted
      split: option.splits if_splits sum.splits prod.splits)

lemma subject_user_in: "get_user_by_apple_subject s A = Some u \<Longrightarrow> u \<in> set (ac_users A)"
  by (auto simp: get_user_by_apple_subject_def dest: find_in_set)

lemma dev_user_in: "get_user_by_dev_name c n A = Some u \<Longrightarrow> u \<in> set (ac_users A)"
  by (auto simp: get_user_by_dev_name_def dest!: pick_row_in)

lemma apple_granted:
  assumes "keyed A" and "apple_login S c sub di A = (A', Inr resp)"
  shows "granted_to S A' resp"
proof (cases "get_user_by_apple_subject sub A")
  case None
  with assms(2) obtain B C x y where new: "create_user (apple_user c sub) A = Inr B"
    "bind_auth_identity c (ca_user_id c) ''apple'' sub B = Inr C"
    "issue_tokens S c (apple_user c sub) di C = Inr (A', x, y)" "resp = x\<lparr>lr_new := True\<rparr>"
    by (auto simp: apple_login_def tx_eq apple_tx_def bindE_eq_Inr)
  from created_get [OF new(1)] still_get [OF still_bind [OF new(2)]]
  show ?thesis unfolding new(4) granted_response by (intro issue_granted [OF new(3)]) auto
next
  case (Some u)
  with assms(2) obtain C x y where old: "touch_identity c (us_id u) sub A = Inr C"
    "issue_tokens S c u di C = Inr (A', x, y)" "resp = x\<lparr>lr_new := False\<rparr>"
    by (auto simp: apple_login_def tx_eq apple_tx_def bindE_eq_Inr split: if_splits sum.splits)
  from keyed_get [OF assms(1) subject_user_in [OF Some]] still_get [OF still_touch_identity [OF old(1)]]
  show ?thesis unfolding old(3) granted_response by (intro issue_granted [OF old(2)]) auto
qed

lemma dev_granted:
  assumes "keyed A" and "dev_login S c n di A = (A', Inr resp)"
  shows "granted_to S A' resp"
proof (cases "get_user_by_dev_name c n A")
  case None
  with assms(2) obtain B y where "create_user (dev_user c n) A = Inr B"
    "issue_tokens S c (dev_user c n) di B = Inr (A', resp, y)"
    by (auto simp: dev_login_def tx_eq dev_tx_def bindE_eq_Inr split: if_splits)
  from issue_granted [OF this(2) created_get [OF this(1)]] show ?thesis by simp
next
  case (Some u)
  with assms(2) obtain y where "issue_tokens S c u di A = Inr (A', resp, y)"
    by (auto simp: dev_login_def tx_eq dev_tx_def bindE_eq_Inr split: if_splits)
  from issue_granted [OF this keyed_get [OF assms(1) dev_user_in [OF Some]]] show ?thesis by simp
qed

lemma password_login_granted:
  assumes "keyed A" and "login S c e pw di ip A = (A', Inr resp)"
  shows "granted_to S A' resp"
  using assms(2)
  by (auto simp: login_def Let_def tx_eq elim!: login_granted intro!: keyed_get [OF assms(1)]
      dest: email_user_in split: option.splits list.splits if_splits sum.splits prod.splits)

text \<open>
  C20: Tokens go to available accounts only. Whichever way an operation hands out a pair of
  tokens, the account it names exists, is neither deleted, suspended, marked for deletion nor
  waiting for its verification, and the refresh token is stored for it and is unspent.
\<close>

theorem tokens_go_to_available_accounts:
  assumes "X = history S h new_server" and "perform S c a X = (Y, Granted resp)"
  shows "granted_to S (sr_accounts Y) resp"
proof -
  have keyed: "keyed (sr_accounts X)" unfolding assms(1) by (rule keyed_history)
  show ?thesis
  proof (cases a)
    case (VerifyEmail e code di ip)
    with assms(2) show ?thesis
      by (cases "verify_email S c e code di ip (sr_accounts X)") (auto simp: on_accounts_def verify_granted)
  next
    case (Login e pw di ip)
    with assms(2) show ?thesis
      by (cases "login S c e pw di ip (sr_accounts X)")
        (auto simp: on_accounts_def password_login_granted [OF keyed])
  next
    case (Refresh tok)
    with assms(2) show ?thesis
      by (cases "refresh S c tok (sr_accounts X)") (auto simp: on_accounts_def refresh_granted)
  next
    case (AppleLogin sub di)
    with assms(2) show ?thesis
      by (cases "apple_login S c sub di (sr_accounts X)")
        (auto simp: on_accounts_def apple_granted [OF keyed])
  next
    case (DevLogin n di)
    with assms(2) show ?thesis
      by (cases "dev_login S c n di (sr_accounts X)") (auto simp: on_accounts_def dev_granted [OF keyed])
  next
    case (VerifyEmailChange i dev code di ip)
    with assms(2) show ?thesis
      by (cases "verify_email_change S c i dev code di ip (sr_accounts X)")
        (auto simp: on_accounts_def change_email_granted)
  qed (use assms(2) in \<open>auto simp: on_accounts_def on_server_def split: prod.splits\<close>)
qed

lemma tokens_go_to_available_accounts_witness:
  "case snd (refresh service0 (call_no 2) ''AQEB'' bob_signed_in) of
     Inl e \<Rightarrow> False | Inr resp \<Rightarrow> granted_to service0 bob_refreshed resp"
proof -
  obtain resp where did: "perform service0 (call_no 2) (Refresh ''AQEB'') (serving bob_signed_in) =
     (serving bob_refreshed, Granted resp)" using bob_refresh_performed by blast
  then have "snd (refresh service0 (call_no 2) ''AQEB'' bob_signed_in) = Inr resp"
    by (simp add: on_accounts_def)
  with tokens_go_to_available_accounts [OF bob_history did] show ?thesis by simp
qed

section \<open>Verified addresses\<close>

text \<open>
  C21: Without the two operations that lock an account, every active account either has a verified
  address or was made by the development sign-in: there is no other way from pending to active
  than the code that was mailed.
\<close>

theorem active_accounts_are_verified:
  assumes "list_all (\<lambda>(c, a). \<not> locks a) h"
    and "u \<in> set (ac_users (sr_accounts (history S h new_server)))" and "us_status u = ''active''"
  shows "us_verified u \<noteq> None \<or> us_dev u \<noteq> None"
proof -
  have "list_all proven (ac_users (sr_accounts new_server))" by (simp add: new_server_def no_accounts_def)
  moreover from assms(1) have "list_all (\<lambda>(c, a). \<not> locks a \<and> True) h" by simp
  ultimately have "list_all proven (ac_users (sr_accounts (history S h new_server)))"
    using proving.history_move by blast
  with assms(2,3) show ?thesis by (auto simp: list_all_iff proven_def)
qed

lemma active_accounts_are_verified_witness: "(us_verified bob, us_dev bob) \<noteq> (None, None)"
proof -
  have "list_all (\<lambda>(c, a). \<not> locks a) [(call_no 1, DevLogin ''bob'' phone)]" by (simp add: locks_def)
  moreover have "bob \<in> set (ac_users (sr_accounts (history service0 [(call_no 1, DevLogin ''bob'' phone)] new_server)))"
    by (simp only: bob_history [symmetric] serving_simps) (simp add: bob_signed_in_def)
  moreover have "us_status bob = ''active''" by (simp add: bob_def dev_user_def)
  ultimately have "us_verified bob \<noteq> None \<or> us_dev bob \<noteq> None" by (rule active_accounts_are_verified)
  then show ?thesis by simp
qed

lemma get_after_update:
  assumes "a_update users_tab (\<lambda>v. us_id v = i) f A = Inr A'" and "get_user_by_id i A = Some u"
    and "\<And>u. us_id (f u) = us_id u"
  shows "get_user_by_id i A' = Some (f u)"
proof -
  let ?h = "\<lambda>u. if us_id u = i then f u else u"
  have "get_user_by_id i A' = map_option ?h (get_user_by_id i A)"
    using users_update_Inr [OF assms(1)] unfolding get_user_by_id_def set_rows_def
    by (simp add: find_map_same_key [where k = us_id and h = ?h] assms(3))
  with assms(2) get_user_id [OF assms(2)] show ?thesis by simp
qed

lemma same_get_side [simp]:
  "get_user_by_id i (revoke_all_user_refresh_tokens c j A) = get_user_by_id i A"
  "get_user_by_id i (notify m email A) = get_user_by_id i A"
  by (simp_all add: get_user_by_id_def revoke_all_user_refresh_tokens_def still_def [THEN iffD1, OF still_side(2)])

text \<open>The row of an account after a lock and after its end.\<close>

definition same_proof :: "user \<Rightarrow> user \<Rightarrow> bool" where
  "same_proof u v \<longleftrightarrow> us_verified v = us_verified u \<and> us_deleted v = us_deleted u"

lemma suspended_get:
  assumes "suspend_user S c ad i r A = (B, Inr ())" and "get_user_by_id i A = Some u"
  shows "\<exists>v. get_user_by_id i B = Some v \<and> same_proof u v"
  using assms
  by (auto simp: suspend_user_def tx_eq bindE_eq_Inr update_user_status_def same_proof_def
      dest!: get_after_update still_get [where i = i, OF still_audit_admin])

lemma deletion_started_get:
  assumes "start_account_deletion S c ad i r ip A = (B, Inr ())" and "get_user_by_id i A = Some u"
  shows "\<exists>v. get_user_by_id i B = Some v \<and> same_proof u v"
  using assms
  by (auto simp: start_account_deletion_def tx_eq bindE_eq_Inr same_proof_def
      dest!: get_after_update still_get [where i = i, OF still_audit_admin]
      split: prod.splits sum.splits if_splits)

lemma reactivated_get:
  assumes "reactivate_user S c ad i r A = (B, Inr ())" and "get_user_by_id i A = Some u"
  shows "\<exists>v. get_user_by_id i B = Some v \<and> same_proof u v \<and> us_status v = ''active''"
  using assms
  by (auto simp: reactivate_user_def tx_eq bindE_eq_Inr update_user_status_def same_proof_def
      dest!: get_after_update still_get [where i = i, OF still_audit_admin] split: if_splits)

lemma deletion_cancelled_get:
  assumes "cancel_account_deletion S c ad i r ip A = (B, Inr ())" and "get_user_by_id i A = Some u"
  shows "\<exists>v. get_user_by_id i B = Some v \<and> same_proof u v \<and> us_status v = ''active''"
  using assms
  by (auto simp: cancel_account_deletion_def tx_eq bindE_eq_Inr same_proof_def
      dest!: get_after_update still_get [where i = i, OF still_audit_admin] split: if_splits)

text \<open>An operation that locks an account, and the one that lifts the lock again.\<close>

definition unlocks :: "uuid \<Rightarrow> deed \<Rightarrow> deed \<Rightarrow> bool" where
  "unlocks i a b \<longleftrightarrow>
     (case (a, b) of
        (Suspend _ j _, Reactivate _ k _) \<Rightarrow> j = i \<and> k = i
      | (StartDeletion _ j _ _, CancelDeletion _ k _ _) \<Rightarrow> j = i \<and> k = i
      | _ \<Rightarrow> False)"

text \<open>
  C22: Locking and unlocking skips the verification. An account that never verified its address
  is active after an administrator suspended and reactivated it, or started and cancelled its
  deletion: the status before the lock is not restored.
\<close>

theorem unlocking_skips_verification:
  assumes "get_user_by_id i (sr_accounts X) = Some u" and "us_status u = ''pending''"
    and "us_deleted u = None" and "unlocks i a b"
    and "perform S c a X = (Y, Done)" and "perform S c' b Y = (Z, Done)"
  shows "\<exists>v. get_user_by_id i (sr_accounts Z) = Some v \<and> us_status v = ''active'' \<and>
    us_verified v = us_verified u \<and> \<not> unavailable v"
proof -
  have "\<exists>v. get_user_by_id i (sr_accounts Z) = Some v \<and> same_proof u v \<and> us_status v = ''active''"
  proof (cases a)
    case (Suspend ad j r)
    with assms(4) obtain ad' r' where ab: "a = Suspend ad i r" "b = Reactivate ad' i r'"
      by (auto simp: unlocks_def split: deed.splits)
    with assms(5,6) have Y: "suspend_user S c ad i r (sr_accounts X) = (sr_accounts Y, Inr ())"
      and Z: "reactivate_user S c' ad' i r' (sr_accounts Y) = (sr_accounts Z, Inr ())"
      by (auto simp: on_accounts_def prod_eq_iff)
    from suspended_get [OF Y assms(1)] reactivated_get [OF Z] show ?thesis
      by (fastforce simp: same_proof_def)
  next
    case (StartDeletion ad j r ip)
    with assms(4) obtain ad' r' ip' where ab: "a = StartDeletion ad i r ip" "b = CancelDeletion ad' i r' ip'"
      by (auto simp: unlocks_def split: deed.splits)
    with assms(5,6) have Y: "start_account_deletion S c ad i r ip (sr_accounts X) = (sr_accounts Y, Inr ())"
      and Z: "cancel_account_deletion S c' ad' i r' ip' (sr_accounts Y) = (sr_accounts Z, Inr ())"
      by (auto simp: on_accounts_def prod_eq_iff)
    from deletion_started_get [OF Y assms(1)] deletion_cancelled_get [OF Z] show ?thesis
      by (fastforce simp: same_proof_def)
  qed (use assms(4) in \<open>simp_all add: unlocks_def\<close>)
  with assms(3) show ?thesis by (auto simp: same_proof_def unavailable_def)
qed

lemma unlocking_skips_verification_witness:
  "\<exists>v. get_user_by_id 7 (fst (reactivate_user service0 (call_no 3) 9 7 []
      (fst (suspend_user service0 (call_no 2) 9 7 [] ann_pending)))) = Some v \<and>
    us_status v = ''active'' \<and> us_verified v = None \<and> \<not> unavailable v"
proof -
  let ?A = "fst (suspend_user service0 (call_no 2) 9 7 [] ann_pending)"
  have "snd (suspend_user service0 (call_no 2) 9 7 [] ann_pending) = Inr ()" by code_simp
  then have Y: "perform service0 (call_no 2) (Suspend 9 7 []) (serving ann_pending) = (serving ?A, Done)"
    by (simp add: on_accounts_def)
  have "snd (reactivate_user service0 (call_no 3) 9 7 [] ?A) = Inr ()" by code_simp
  then have Z: "perform service0 (call_no 3) (Reactivate 9 7 []) (serving ?A) =
      (serving (fst (reactivate_user service0 (call_no 3) 9 7 [] ?A)), Done)"
    by (simp add: on_accounts_def)
  have "get_user_by_id 7 (sr_accounts (serving ann_pending)) = Some ann" "us_status ann = ''pending''"
    "us_deleted ann = None" "unlocks 7 (Suspend 9 7 []) (Reactivate 9 7 [])"
    by (simp_all add: get_user_by_id_def ann_pending_def ann_def unlocks_def)
  from unlocking_skips_verification [OF this Y Z] show ?thesis by (simp add: ann_def)
qed

end
