(* ===== verification/Account_Safety.thy ===== *)
theory Account_Safety
  imports Account_Properties
begin

text \<open>
  Properties of single operations on accounts: the limit on guessed codes, the effect of a password
  reset, access tokens across a change of the secret, and what a deletion leaves.
\<close>

section \<open>Guessing a code\<close>

text \<open>The state that a sequence of attempts to verify an address leaves.\<close>

fun guesses :: "service \<Rightarrow> string \<Rightarrow> device_info \<Rightarrow> string \<Rightarrow> (call \<times> string) list \<Rightarrow> accounts \<Rightarrow> accounts" where
  "guesses S email di ip [] A = A"
| "guesses S email di ip ((c, code) # gs) A =
     guesses S email di ip gs (fst (verify_email S c email code di ip A))"

text \<open>One account with the address, which waits for the one live code.\<close>

definition awaiting :: "service \<Rightarrow> string \<Rightarrow> user \<Rightarrow> challenge \<Rightarrow> accounts \<Rightarrow> bool" where
  "awaiting S email u g A \<longleftrightarrow>
     filter (\<lambda>v. us_norm v = Some (normalize_email S email)) (ac_users A) = [u] \<and>
     us_status u = ''pending'' \<and> us_deleted u = None \<and>
     filter (live_challenge (us_id u) ''verify_email'') (ac_challenges A) = [g] \<and>
     distinct (map cg_id (ac_challenges A)) \<and> at_ok challenges_tab g"

definition wrong_guess :: "service \<Rightarrow> challenge \<Rightarrow> call \<times> string \<Rightarrow> bool" where
  "wrong_guess S g x \<longleftrightarrow>
     ca_wall (fst x) \<le> cg_expires g \<and> token_hash S (trim_space (snd x)) \<noteq> cg_hash g"

lemma awaiting_verify:
  assumes "awaiting S email u g A"
  shows "verify_email S c email code di ip A =
    (case check_code S c code g of
       Some e \<Rightarrow> (count_wrong_code S c code g A, Inl e)
     | None \<Rightarrow> tx (activate_tx S c (us_id u) (cg_id g) di ip) A)"
  using assms
  by (simp add: awaiting_def verify_email_def get_user_by_normalized_email_def latest_live_challenge_def
      newest_def)

lemma filter_one_update:
  assumes "filter P xs = [x]" and "distinct (map k xs)" and "\<And>y. P (f y) = P y"
  shows "filter P (set_rows (\<lambda>y. k y = k x) f xs) = [f x]"
proof -
  have "filter P (set_rows Q f xs) = map (\<lambda>y. if Q y then f y else y) (filter P xs)" for Q
    by (induction xs) (simp_all add: assms(3))
  then show ?thesis by (simp add: assms(1))
qed

lemma count_wrong_awaiting:
  assumes "awaiting S email u g A" and "wrong_guess S g (c, code)" and "cg_attempts g < 5"
  shows "awaiting S email u (g\<lparr>cg_attempts := cg_attempts g + 1\<rparr>) (count_wrong_code S c code g A)"
proof -
  let ?f = "\<lambda>h. h\<lparr>cg_attempts := cg_attempts h + 1\<rparr>"
  have g: "filter (live_challenge (us_id u) ''verify_email'') (ac_challenges A) = [g]"
    and d: "distinct (map cg_id (ac_challenges A))" and ok: "at_ok challenges_tab g"
    using assms(1) by (simp_all add: awaiting_def)
  have "g \<in> set (filter (live_challenge (us_id u) ''verify_email'') (ac_challenges A))" by (simp add: g)
  then have g_in: "g \<in> set (ac_challenges A)" by simp
  have same: "h = g" if "h \<in> set (ac_challenges A)" "cg_id h = cg_id g" for h
    using that d g_in by (metis distinct_map inj_onD)
  have ok': "at_ok challenges_tab (?f g)"
    using ok assms(3) by (simp add: challenges_tab_def int4_def int4_max_def)
  have "bump_challenge_attempt (cg_id g) A =
      Inr (at_put challenges_tab (set_rows (\<lambda>h. cg_id h = cg_id g) ?f (ac_challenges A)) A)"
    unfolding bump_challenge_attempt_def a_update_def
    using same ok' d by (auto simp: list_ex_iff challenges_tab_def map_set_rows)
  then have count: "count_wrong_code S c code g A =
      A\<lparr>ac_challenges := set_rows (\<lambda>h. cg_id h = cg_id g) ?f (ac_challenges A)\<rparr>"
    using assms(2,3) by (simp add: count_wrong_code_def wrong_guess_def challenges_tab_def)
  have "filter (live_challenge (us_id u) ''verify_email'')
      (set_rows (\<lambda>h. cg_id h = cg_id g) ?f (ac_challenges A)) = [?f g]"
    by (rule filter_one_update [OF g d]) (simp add: live_challenge_def)
  with assms(1) ok' show ?thesis by (simp add: awaiting_def count map_set_rows)
qed

lemma wrong_awaiting:
  assumes "awaiting S email u g A" and "wrong_guess S g (c, code)"
  shows "\<exists>n. awaiting S email u (g\<lparr>cg_attempts := n\<rparr>) (fst (verify_email S c email code di ip A)) \<and>
    min 5 (cg_attempts g + 1) \<le> n"
proof (cases "cg_attempts g < 5")
  case True
  with assms(2) have "check_code S c code g = Some BadCode" by (simp add: check_code_def wrong_guess_def)
  with awaiting_verify [OF assms(1)] count_wrong_awaiting [OF assms True] show ?thesis
    by (intro exI [of _ "cg_attempts g + 1"]) simp
next
  case False
  with assms(2) have "check_code S c code g = Some TooManyAttempts"
    by (simp add: check_code_def wrong_guess_def)
  with awaiting_verify [OF assms(1)] False have "fst (verify_email S c email code di ip A) = A"
    by (simp add: count_wrong_code_def)
  with assms(1) False show ?thesis by (intro exI [of _ "cg_attempts g"]) simp
qed

lemma guesses_awaiting:
  assumes "awaiting S email u g A" and "list_all (wrong_guess S g) gs"
  shows "\<exists>n. awaiting S email u (g\<lparr>cg_attempts := n\<rparr>) (guesses S email di ip gs A) \<and>
    min 5 (cg_attempts g + int (length gs)) \<le> n"
  using assms
proof (induction gs arbitrary: g A)
  case Nil
  then show ?case by (intro exI [of _ "cg_attempts g"]) simp
next
  case (Cons x gs)
  obtain c code where x: "x = (c, code)" by (cases x)
  from Cons.prems(2) x have w: "wrong_guess S g (c, code)" by simp
  from wrong_awaiting [where di = di and ip = ip, OF Cons.prems(1) w] obtain n where
    n: "awaiting S email u (g\<lparr>cg_attempts := n\<rparr>) (fst (verify_email S c email code di ip A))"
    "min 5 (cg_attempts g + 1) \<le> n"
    by blast
  have "list_all (wrong_guess S (g\<lparr>cg_attempts := n\<rparr>)) gs"
    using Cons.prems(2) by (simp add: list_all_iff wrong_guess_def)
  from Cons.IH [OF n(1) this] n(2) show ?case by (fastforce simp: x)
qed

text \<open>
  C23: A code can be guessed at most five times. After five wrong entries nobody verifies the
  address with that code, not even with the right one: an attempt is refused as one too many, or
  because the code has expired.
\<close>

theorem five_guesses_lock_a_code:
  assumes "awaiting S email u g A" and "0 \<le> cg_attempts g" and "list_all (wrong_guess S g) gs"
    and "5 \<le> length gs"
  shows "snd (verify_email S c email code di ip (guesses S email di ip gs A)) \<in>
    {Inl TooManyAttempts, Inl BadCode}"
proof -
  from guesses_awaiting [OF assms(1,3)] obtain n where
    n: "awaiting S email u (g\<lparr>cg_attempts := n\<rparr>) (guesses S email di ip gs A)"
    and "min 5 (cg_attempts g + int (length gs)) \<le> n" by blast
  with assms(2,4) have "5 \<le> n" by simp
  then have "check_code S c code (g\<lparr>cg_attempts := n\<rparr>) \<in> {Some TooManyAttempts, Some BadCode}"
    by (simp add: check_code_def)
  with awaiting_verify [OF n] show ?thesis by auto
qed

lemma five_guesses_lock_a_code_witness:
  "snd (verify_email service0 (call_no 9) ''ann@mail.org'' ''000007'' phone ''ip''
     (guesses service0 ''ann@mail.org'' phone ''ip'' (replicate 5 (call_no 2, ''1234567'')) ann_pending)) \<in>
   {Inl TooManyAttempts, Inl BadCode}"
proof (rule five_guesses_lock_a_code)
  show "awaiting service0 ''ann@mail.org'' ann ann_code ann_pending" by code_simp
  show "list_all (wrong_guess service0 ann_code) (replicate 5 (call_no 2, ''1234567''))" by code_simp
qed (simp_all add: ann_code_def)

section \<open>Resetting a password\<close>

lemma credential_after:
  assumes "upsert_password_credential c i h A = Inr A'"
  shows "get_password_hash i A' = Some h"
proof (cases "list_ex (\<lambda>r. cr_user r = i) (ac_credentials A)")
  case True
  let ?f = "\<lambda>r. r\<lparr>cr_hash := h, cr_changed := ca_now c, cr_updated := ca_now c\<rparr>"
  from True obtain r where "find (\<lambda>r. cr_user r = i) (ac_credentials A) = Some r"
    by (cases "find (\<lambda>r. cr_user r = i) (ac_credentials A)") (auto simp: find_None list_ex_iff)
  then have "find (\<lambda>r. cr_user r = i) (set_rows (\<lambda>r. cr_user r = i) ?f (ac_credentials A)) = Some (?f r)"
    unfolding set_rows_def
    by (simp add: find_map_same_key [where k = cr_user and h = "\<lambda>r. if cr_user r = i then ?f r else r"])
      (auto dest: find_in_set)
  moreover have "ac_credentials A' = set_rows (\<lambda>r. cr_user r = i) ?f (ac_credentials A)"
    using assms True
    by (auto simp: upsert_password_credential_def a_hits_def a_update_def credentials_tab_def split: if_splits)
  ultimately show ?thesis by (simp add: get_password_hash_def)
next
  case False
  then have "find (\<lambda>r. cr_user r = i) (ac_credentials A) = None" by (auto simp: find_None list_ex_iff)
  with assms False show ?thesis
    by (auto simp: upsert_password_credential_def a_hits_def bindE_eq_Inr references_user_def a_insert_def
        credentials_tab_def get_password_hash_def find_append split: if_splits)
qed

lemma upsert_resets: "upsert_password_credential c i h A = Inr A' \<Longrightarrow> ac_resets A' = ac_resets A"
  by (auto simp: upsert_password_credential_def a_hits_def bindE_eq_Inr references_user_def a_insert_def
      a_update_def credentials_tab_def split: if_splits)

lemma audit_others:
  "audit_user S c i n ip p q A = Inr A' \<Longrightarrow>
     ac_resets A' = ac_resets A \<and> ac_credentials A' = ac_credentials A \<and> ac_refresh A' = ac_refresh A"
  by (auto simp: audit_user_def record_audit_def a_insert_def audit_tab_def split: if_splits)

lemma revoke_all_others [simp]:
  "ac_resets (revoke_all_user_refresh_tokens c i A) = ac_resets A"
  "ac_credentials (revoke_all_user_refresh_tokens c i A) = ac_credentials A"
  by (simp_all add: revoke_all_user_refresh_tokens_def a_set_def refresh_tab_def)

lemma consumed_reset:
  assumes "consume_password_reset_token c h A = Some (A', i)" and "ac_resets B = ac_resets A'"
  shows "consume_password_reset_token c' h B = None"
proof -
  from assms(1) obtain t where t: "find (\<lambda>t. rs_hash t = h) (ac_resets A) = Some t"
    and A': "A' = a_set resets_tab (\<lambda>x. rs_id x = rs_id t \<and> rs_consumed x = None)
        (\<lambda>x. x\<lparr>rs_consumed := Some (ca_now c)\<rparr>) A"
    by (auto simp: consume_password_reset_token_def split: option.splits if_splits)
  let ?h = "\<lambda>x. if rs_id x = rs_id t \<and> rs_consumed x = None then x\<lparr>rs_consumed := Some (ca_now c)\<rparr> else x"
  have "find (\<lambda>t. rs_hash t = h) (ac_resets B) = map_option ?h (find (\<lambda>t. rs_hash t = h) (ac_resets A))"
    unfolding assms(2) A' a_set_def resets_tab_def set_rows_def
    by (simp add: find_map_same_key [where k = rs_hash and h = ?h])
  with t show ?thesis by (auto simp: consume_password_reset_token_def)
qed

lemma upsert_others:
  assumes "upsert_password_credential c i h A = Inr A'"
  shows "filter (\<lambda>k. cr_user k \<noteq> i) (ac_credentials A') = filter (\<lambda>k. cr_user k \<noteq> i) (ac_credentials A)"
proof -
  have "filter (\<lambda>k. cr_user k \<noteq> i) (set_rows (\<lambda>r. cr_user r = i) (\<lambda>r. r\<lparr>cr_hash := h, cr_changed := a, cr_updated := b\<rparr>) rs) =
      filter (\<lambda>k. cr_user k \<noteq> i) rs" for rs a b
    by (induction rs) (auto simp: set_rows_def)
  with assms show ?thesis
    by (auto simp: upsert_password_credential_def a_hits_def bindE_eq_Inr references_user_def a_insert_def
        a_update_def credentials_tab_def split: if_splits)
qed

lemma consumed_token:
  assumes "consume_password_reset_token c h A = Some (A', i)"
  shows "\<exists>t. find (\<lambda>t. rs_hash t = h) (ac_resets A) = Some t \<and> rs_user t = i \<and> rs_consumed t = None \<and>
    ca_wall c \<le> rs_expires t \<and> ac_credentials A' = ac_credentials A"
  using assms
  by (auto simp: consume_password_reset_token_def a_set_def resets_tab_def split: option.splits if_splits)

text \<open>
  C24: A password reset takes effect at once, only once, and only for the owner of the token. The
  token presented is there, not used and not expired; for the account that it was issued to the stored
  hash accepts exactly the passwords with the key of the new one, and every refresh token is revoked;
  passwords and refresh tokens of all other accounts stay as they are; and the same reset token is
  refused from then on.
\<close>

theorem password_reset_takes_effect:
  assumes "reset_password S c tok new ip A = (A', Inr ())" and "argon_ok (sv_argon S)"
  shows "\<exists>t hash. find (\<lambda>t. rs_hash t = token_hash S (trim_space tok)) (ac_resets A) = Some t \<and>
      rs_consumed t = None \<and> ca_wall c \<le> rs_expires t \<and>
      get_password_hash (rs_user t) A' = Some hash \<and>
      verify_password (sv_argon S) new hash = Some True \<and>
      (verify_password (sv_argon S) q hash = Some True \<longleftrightarrow>
        ar_key (sv_argon S) q (ca_salt c) (pm_iterations (current_params S)) (pm_memory (current_params S))
          (pm_parallel (current_params S)) 32 =
        ar_key (sv_argon S) new (ca_salt c) (pm_iterations (current_params S)) (pm_memory (current_params S))
          (pm_parallel (current_params S)) 32) \<and>
      ac_refresh A' = set_rows (\<lambda>x. rt_user x = rs_user t \<and> rt_revoked x = None) (revoke c) (ac_refresh A) \<and>
      filter (\<lambda>k. cr_user k \<noteq> rs_user t) (ac_credentials A') =
        filter (\<lambda>k. cr_user k \<noteq> rs_user t) (ac_credentials A) \<and>
      snd (reset_password S c' tok new' ip' A') \<in> {Inl (WeakPassword None), Inl BadCode}"
proof -
  from assms(1) obtain B C i where use: "consume_password_reset_token c (token_hash S (trim_space tok)) A = Some (B, i)"
    and up: "upsert_password_credential c i (new_hash S c new) B = Inr C"
    and aud: "audit_user S c i ''account.password_reset'' ip [] [] (revoke_all_user_refresh_tokens c i C) = Inr A'"
    by (auto simp: reset_password_def tx_eq reset_password_tx_def bindE_eq_Inr
        split: option.splits prod.splits if_splits)
  note A' = audit_others [OF aud]
  from consumed_token [OF use] obtain t where
    t: "find (\<lambda>t. rs_hash t = token_hash S (trim_space tok)) (ac_resets A) = Some t" "rs_user t = i"
      "rs_consumed t = None" "ca_wall c \<le> rs_expires t" "ac_credentials B = ac_credentials A" by blast
  have hash: "get_password_hash i A' = Some (new_hash S c new)"
    using credential_after [OF up] A' by (simp add: get_password_hash_def)
  have refresh: "ac_refresh A' = set_rows (\<lambda>x. rt_user x = i \<and> rt_revoked x = None) (revoke c) (ac_refresh A)"
    using A' same_refresh(1) [OF up] still_consume_reset [OF use] by (simp add: still_def)
  have others: "filter (\<lambda>k. cr_user k \<noteq> i) (ac_credentials A') = filter (\<lambda>k. cr_user k \<noteq> i) (ac_credentials A)"
    using A' upsert_others [OF up] t(5) by simp
  have "ac_resets A' = ac_resets B" using A' upsert_resets [OF up] by simp
  from consumed_reset [OF use this] have "snd (reset_password S c' tok new' ip' A') \<in> {Inl (WeakPassword None), Inl BadCode}"
    by (auto simp: reset_password_def reset_password_tx_def tx_def split: option.split)
  with t hash refresh others show ?thesis
    by (intro exI [of _ t] exI [of _ "new_hash S c new"])
      (simp add: new_hash_def verify_hash [OF assms(2)] current_params_def)
qed

definition ann_reset :: accounts where
  "ann_reset = no_accounts\<lparr>ac_users := [ann],
     ac_resets := [\<lparr>rs_id = 1, rs_user = 7, rs_hash = ''05'', rs_expires = 900, rs_consumed = None, rs_created = 1\<rparr>],
     ac_refresh := [bob_first\<lparr>rt_user := 7\<rparr>]\<rparr>"

lemma argon0_ok: "argon_ok argon0"
  by (simp add: argon_ok_def argon0_def)

lemma password_reset_takes_effect_witness:
  "snd (reset_password service0 (call_no 3) ''token'' ''another password'' ''ip''
      (fst (reset_password service0 (call_no 2) ''token'' ''correct horse'' ''ip'' ann_reset))) \<in>
    {Inl (WeakPassword None), Inl BadCode}"
proof -
  have "snd (reset_password service0 (call_no 2) ''token'' ''correct horse'' ''ip'' ann_reset) = Inr ()"
    by code_simp
  then have "reset_password service0 (call_no 2) ''token'' ''correct horse'' ''ip'' ann_reset =
      (fst (reset_password service0 (call_no 2) ''token'' ''correct horse'' ''ip'' ann_reset), Inr ())"
    by (metis prod.collapse)
  moreover have "argon_ok (sv_argon service0)" by (simp add: service0_def argon0_ok)
  ultimately show ?thesis using password_reset_takes_effect by blast
qed

section \<open>Access tokens\<close>

text \<open>
  C25: An access token is honoured exactly until it expires, by the server that made it and by one
  whose secret was changed once since and which keeps the old secret; it then gives the user, the
  device and the role it was made for.
\<close>

theorem access_token_round_trip:
  assumes "signed_ok J (mg_issuer M) (mg_secret M) (access_token_claims M jti user device role)
      (unix_seconds now) (unix_seconds (now + mg_access_ttl M))"
    and "user \<noteq> []" and "device \<noteq> []" and "mg_secret M \<noteq> []"
    and "N = M \<or> N = new_manager fresh (mg_secret M) (mg_issuer M) at' rt'"
  shows "verify_access_token J N later (fst (new_access_token J M now jti user device role)) =
    (if unix_seconds later < unix_seconds (now + mg_access_ttl M)
     then Some \<lparr>acl_user = user, acl_device = device, acl_token = hex_encode jti, acl_role = role\<rparr>
     else None)"
proof -
  from assms(4,5) have "mg_issuer N = mg_issuer M" and "knows N (mg_secret M)"
    by (auto simp: new_manager_def knows_def split: if_splits)
  with assms(1-3) show ?thesis by (simp add: new_access_token_def verify_signed)
qed

text \<open>A library that signs by writing the secret, and the claims it knows.\<close>

definition jwt1 :: jwt_library where
  "jwt1 = \<lparr>jw_sign = (\<lambda>secret c iat expiry. secret),
     jw_parse = (\<lambda>now iss secret raw.
       if raw = secret \<and> unix_seconds now < 900
       then Some (access_token_claims manager0 [1] ''user'' ''device'' ''user'') else None)\<rparr>"

lemma access_token_round_trip_witness:
  "verify_access_token jwt1 (new_manager ''fresh'' ''secret'' ''livetranslate'' 1 1) 5
     (fst (new_access_token jwt1 manager0 0 [1] ''user'' ''device'' ''user'')) =
   Some \<lparr>acl_user = ''user'', acl_device = ''device'', acl_token = hex_encode [1], acl_role = ''user''\<rparr>"
proof -
  have sign: "signed_ok jwt1 (mg_issuer manager0) (mg_secret manager0)
      (access_token_claims manager0 [1] ''user'' ''device'' ''user'') (unix_seconds 0)
      (unix_seconds (0 + mg_access_ttl manager0))"
    by (auto simp: signed_ok_def jwt1_def manager0_def minutes_def unix_seconds_def)
  let ?N = "new_manager ''fresh'' ''secret'' ''livetranslate'' 1 1"
  have "mg_secret manager0 = ''secret''" "mg_issuer manager0 = ''livetranslate''"
    by (simp_all add: manager0_def)
  then have "?N = manager0 \<or> ?N = new_manager ''fresh'' (mg_secret manager0) (mg_issuer manager0) 1 1"
    by simp
  from access_token_round_trip [OF sign _ _ _ this, of 5] show ?thesis
    by (simp add: manager0_def minutes_def unix_seconds_def)
qed

section \<open>Deleting an account\<close>

definition gone :: "uuid \<Rightarrow> accounts \<Rightarrow> bool" where
  "gone i A \<longleftrightarrow> keyed A \<and> (\<exists>u\<in>set (ac_users A). us_id u = i \<and> us_deleted u \<noteq> None)"

lemma gone_get:
  assumes "gone i A" and "get_user_by_id i A = Some u"
  shows "us_deleted u \<noteq> None"
proof -
  from assms(1) obtain v where v: "v \<in> set (ac_users A)" "us_id v = i" "us_deleted v \<noteq> None" and k: "keyed A"
    by (auto simp: gone_def)
  from keyed_get [OF k v(1)] assms(2) v show ?thesis by simp
qed

lemma gone_update:
  assumes "a_update users_tab P f A = Inr A'" and "gone i A"
    and "\<And>u. us_id (f u) = us_id u" and "\<And>u. us_deleted u \<noteq> None \<Longrightarrow> us_deleted (f u) \<noteq> None"
  shows "gone i A'"
proof -
  from assms(2) obtain u where u: "u \<in> set (ac_users A)" "us_id u = i" "us_deleted u \<noteq> None" and k: "keyed A"
    by (auto simp: gone_def)
  let ?h = "\<lambda>u. if P u then f u else u"
  have "?h u \<in> set (ac_users A')" "us_id (?h u) = i" "us_deleted (?h u) \<noteq> None"
    using users_update_Inr [OF assms(1)] u assms(3,4) by (auto simp: set_rows_set)
  with keyed_update [OF assms(1) k] show ?thesis by (auto simp: gone_def)
qed

lemma gone_users: "ac_users A' = ac_users A \<Longrightarrow> keyed A' \<Longrightarrow> gone i A \<Longrightarrow> gone i A'"
  by (simp add: gone_def)

interpretation going: all_account_moves "\<lambda>A A'. gone i A \<longrightarrow> gone i A'" "\<lambda>h. True" for i
proof (unfold_locales, goal_cases)
  case (2 A A')
  then show ?case by (auto simp: still_def intro: gone_users keyed_still [OF 2] simp: gone_def)
next
  case (3 u A A')
  then show ?case
    using create_user_Inr [OF 3(1)] by (auto simp: gone_def intro: keyed_users)
next
  case (4 A c j)
  show ?case
  proof
    assume "gone i A"
    then obtain u where u: "u \<in> set (ac_users A)" "us_id u = i" "us_deleted u \<noteq> None" and k: "keyed A"
      by (auto simp: gone_def)
    let ?v = "if us_id u = j then u\<lparr>us_last_login := Some (ca_now c), us_updated := ca_now c\<rparr> else u"
    have "?v \<in> set (ac_users (touch_last_login c j A))" using u(1) by (auto simp: set_rows_set)
    moreover have "us_id ?v = i" "us_deleted ?v \<noteq> None" using u by simp_all
    ultimately show "gone i (touch_last_login c j A)"
      using keyed_sets(1) [OF k, of c j] unfolding gone_def by blast
  qed
next
  case (5 P f A A')
  then show ?case by (auto elim!: gone_update simp: same_standing_def)
next
  case (6 c j A A')
  then show ?case by (auto elim!: gone_update simp: mark_email_verified_def)
next
  case (7 c j A A')
  then show ?case by (auto elim!: gone_update simp: soft_delete_user_def)
next
  case (8 j A u f A')
  then show ?case by (auto elim!: gone_update simp: lifted_def)
next
  case (9 t A A')
  then show ?case using insert_refresh_Inr [OF 9(1)] by (auto simp: gone_def intro: keyed_refresh)
next
  case (13 j f A A')
  then show ?case by (auto elim!: gone_update)
qed (auto simp: gone_def intro: keyed_sets)

text \<open>An operation that deletes an account.\<close>

definition deletes :: "uuid \<Rightarrow> deed \<Rightarrow> bool" where
  "deletes i a \<longleftrightarrow> (case a of DeleteAccount j _ \<Rightarrow> j = i | AdminDelete _ j _ \<Rightarrow> j = i | _ \<Rightarrow> False)"

lemma delete_rows_Inr:
  assumes "delete_user_rows c audit i X = (Y, Inr r)" and "\<And>u B C. audit u B = Inr C \<Longrightarrow> still B C"
    and "keyed (sr_accounts X)"
  shows "sr_sync Y = sr_sync (purge_sync i X) \<and> gone i (sr_accounts Y)"
proof -
  from assms(1) obtain u B where u: "get_user_by_id i (sr_accounts X) = Some u"
    and del: "soft_delete_user c i (revoke_all_user_refresh_tokens c i (sr_accounts X)) = Inr B"
    and aud: "audit u B = Inr (sr_accounts Y)" and sync: "sr_sync Y = sr_sync (purge_sync i X)"
    by (auto simp: delete_user_rows_def tx_eq bindE_eq_Inr split: prod.splits sum.splits)
  have u': "get_user_by_id i (revoke_all_user_refresh_tokens c i (sr_accounts X)) = Some u" using u by simp
  from get_after_update [OF del [unfolded soft_delete_user_def] u'] obtain v
    where "get_user_by_id i B = Some v" and v: "us_deleted v \<noteq> None" by auto
  then have get: "get_user_by_id i (sr_accounts Y) = Some v" using still_get [OF assms(2) [OF aud]] by simp
  have "keyed (sr_accounts (fst (delete_user_rows c audit i X)))"
    using assms(3) keys.delete_user_rows_move [where audit = audit and X = X and c = c and i = i] assms(2)
    by blast
  then have "keyed (sr_accounts Y)" by (simp add: assms(1))
  with get v get_user_id [OF get] sync show ?thesis
    by (auto simp: gone_def get_user_by_id_def dest: find_in_set)
qed

lemma gone_notify: "gone i A \<Longrightarrow> gone i (notify m email A)"
  using going.move_still [OF still_side(2)] by blast

lemma deletes_Done:
  assumes "perform S c a X = (Y, Done)" and "deletes i a" and "keyed (sr_accounts X)"
  shows "sr_sync Y = sr_sync (purge_sync i X) \<and> gone i (sr_accounts Y)"
proof (cases a)
  case (DeleteAccount j ip)
  with assms show ?thesis
    by (auto simp: deletes_def on_server_def delete_account_def gone_notify
        dest!: delete_rows_Inr [OF _ still_audit_user] split: prod.splits sum.splits)
next
  case (AdminDelete admin j reason)
  with assms show ?thesis
    by (cases "admin_delete_user S c admin j reason X")
      (auto simp: deletes_def on_server_def admin_delete_user_def
        dest!: delete_rows_Inr [OF _ still_audit_admin])
qed (use assms(2) in \<open>simp_all add: deletes_def\<close>)

text \<open>
  C26: A deleted account leaves nothing behind and does not come back. After the deletion the
  synchronised database holds every row, change and ledger entry of the other users as before and
  none of the deleted user's; and in no later history does the gate let a request through in the
  name of the deleted user, whatever access token it carries.
\<close>

theorem deletion_is_complete:
  assumes "X = history S h0 new_server" and "perform S c a X = (Y, Done)" and "deletes i a"
  shows "view e (st_db (sr_sync Y)) = filter (\<lambda>x. ruser (fst x) \<noteq> i) (view e (st_db (sr_sync X))) \<and>
    db_changes (st_db (sr_sync Y)) = filter (\<lambda>x. ch_user (snd x) \<noteq> i) (db_changes (st_db (sr_sync X))) \<and>
    db_ledger (st_db (sr_sync Y)) = filter (\<lambda>l. lg_user l \<noteq> i) (db_ledger (st_db (sr_sync X))) \<and>
    (case require_user S c' header (sr_accounts (history S h Y)) of None \<Rightarrow> True | Some (u, _) \<Rightarrow> us_id u \<noteq> i)"
proof -
  have "keyed (sr_accounts X)" unfolding assms(1) by (rule keyed_history)
  from deletes_Done [OF assms(2,3) this] have sync: "sr_sync Y = sr_sync (purge_sync i X)"
    and gone: "gone i (sr_accounts Y)" by auto
  have "list_all (\<lambda>(c, a). True) h" by (simp add: list_all_iff split_def)
  with gone have gone': "gone i (sr_accounts (history S h Y))" using going.history_any_move by blast
  have "us_id u \<noteq> i" if "require_user S c' header (sr_accounts (history S h Y)) = Some (u, dev)" for u dev
    using that gone_get [OF gone'] get_user_id
    by (fastforce simp: require_user_def split: option.splits if_splits)
  then show ?thesis by (auto simp: sync purge_sync_def split: option.split)
qed

lemma deletion_is_complete_witness:
  "case require_user service0 (call_no 3) ''Bearer signed''
     (sr_accounts (history service0 [(call_no 4, DevLogin ''bob'' phone)]
       (fst (perform service0 (call_no 2) (DeleteAccount 1 ''ip'') (serving bob_signed_in))))) of
     None \<Rightarrow> True | Some (u, _) \<Rightarrow> us_id u \<noteq> 1"
proof -
  let ?audit = "\<lambda>u. audit_user service0 (call_no 2) 1 ''user.deleted'' ''ip''
    [(''status'', us_status u)] [(''status'', ''deleted'')]"
  have "\<not> isl (snd (tx (\<lambda>A. bindE (found NotFound (get_user_by_id 1 A)) (\<lambda>u.
      bindE (sql (soft_delete_user (call_no 2) 1 (revoke_all_user_refresh_tokens (call_no 2) 1 A))) (\<lambda>A.
      bindE (?audit u A) (\<lambda>A. Inr (A, ()))))) bob_signed_in))"
    by code_simp
  then have "snd (delete_account service0 (call_no 2) 1 ''ip'' (serving bob_signed_in)) = Inr ()"
    by (auto simp: delete_account_def delete_user_rows_def split: prod.splits sum.splits)
  then have "perform service0 (call_no 2) (DeleteAccount 1 ''ip'') (serving bob_signed_in) =
      (fst (perform service0 (call_no 2) (DeleteAccount 1 ''ip'') (serving bob_signed_in)), Done)"
    by (simp add: on_server_def)
  from deletion_is_complete [OF bob_history this, where i = 1] show ?thesis
    unfolding deletes_def deed.case by blast
qed

end
