(* ===== verification/Retention_Properties.thy ===== *)
theory Retention_Properties
  imports Retention
begin

text \<open>Properties of the periodic cleanup: what it removes, for how long rows are kept, and whom it strands.\<close>

section \<open>What the cleanup removes\<close>

text \<open>
  C28: The cleanup removes exactly what is older than the retention: the tombstones whose deletion
  is, and the change-log and ledger rows whose creation is. A live row is never removed, whatever
  its age. The files it reports are those of the removed attachments and materials.
\<close>

theorem cleanup_removes_the_expired:
  assumes "run_tombstone_cleanup files kept wall X = (Y, reaped)"
  shows "(x \<in> set (view e (st_db Y)) \<longleftrightarrow>
      x \<in> set (view e (st_db X)) \<and>
      (case rdeleted (fst x) of None \<Rightarrow> True | Some t \<Rightarrow> wall - retention kept \<le> t)) \<and>
    (c \<in> set (db_changes (st_db Y)) \<longleftrightarrow>
      c \<in> set (db_changes (st_db X)) \<and> wall - retention kept \<le> st_changed X (fst c)) \<and>
    (l \<in> set (db_ledger (st_db Y)) \<longleftrightarrow>
      l \<in> set (db_ledger (st_db X)) \<and> wall - retention kept \<le> st_processed X (lg_user l, lg_op_id l)) \<and>
    reaped = (if files
      then expired_ids attachments_tab (wall - retention kept) (st_db X) @
        expired_ids materials_tab (wall - retention kept) (st_db X)
      else [])"
proof -
  have "reaped = (if files
      then expired_ids attachments_tab (wall - retention kept) (st_db X) @
        expired_ids materials_tab (wall - retention kept) (st_db X)
      else [])"
    using assms by (auto simp: run_tombstone_cleanup_def Let_def)
  then show ?thesis
    by (auto simp: cleanup_simps [OF assms] expired_def not_less split: option.splits)
qed

section \<open>The retention\<close>

lemma retention_ns_int:
  "retention_ns n =
     (let r = (n * 86400000000000 + 9223372036854775808) mod 18446744073709551616 - 9223372036854775808 in
      if r \<le> 0 then 15552000000000000 else r)"
proof -
  have w: "word_of_int n * 24 * 3600000000000 = (word_of_int (n * 86400000000000) :: 64 word)"
    by (simp add: wi_hom_mult [symmetric] mult.assoc)
  have "sint (word_of_int n * 24 * 3600000000000 :: 64 word) = signed_take_bit 63 (n * 86400000000000)"
    unfolding w by (subst signed_of_int) (simp only: len_num1 len_bit0 len_bit1 One_nat_def, simp)
  then show ?thesis
    by (simp add: retention_ns_def Let_def signed_take_bit_eq_take_bit_shift take_bit_eq_mod)
qed

text \<open>
  C29: The configured retention is kept for up to 106751 days and not beyond. TOMBSTONE_RETENTION_DAYS
  is multiplied out in 64-bit nanoseconds: up to 106751 days the result is exact; 106752 days become
  half a year, and 213504 days become 25 minutes and 26 seconds.
\<close>

theorem retention_wraps:
  "(0 < n \<and> n \<le> 106751 \<longrightarrow> retention n = n * 86400000000) \<and>
   (n \<le> 0 \<and> -106751 \<le> n \<longrightarrow> retention n = 180 * 86400000000) \<and>
   retention 106752 = 180 * 86400000000 \<and>
   retention 213504 = 25 * 60000000 + 26290448"
proof (intro conjI impI)
  assume n: "0 < n \<and> n \<le> 106751"
  then have "(n * 86400000000000 + 9223372036854775808) mod 18446744073709551616 =
      n * 86400000000000 + 9223372036854775808"
    by (intro mod_pos_pos_trivial) simp_all
  with n show "retention n = n * 86400000000" by (simp add: retention_def retention_ns_int)
next
  assume n: "n \<le> 0 \<and> -106751 \<le> n"
  then have "(n * 86400000000000 + 9223372036854775808) mod 18446744073709551616 =
      n * 86400000000000 + 9223372036854775808"
    by (intro mod_pos_pos_trivial) simp_all
  with n show "retention n = 180 * 86400000000" by (simp add: retention_def retention_ns_int)
qed (simp_all add: retention_def retention_ns_int)

lemma retention_wraps_witness: "retention 180 = 15552000000000"
  using retention_wraps [of 180] by simp

section \<open>Devices that start after a cleanup\<close>

lemma load_changes_keys:
  "load_changes u d cs = Inr xs \<Longrightarrow>
     map (\<lambda>x. (pc_etype x, pc_eid x)) xs = map (\<lambda>c. (ch_etype (snd c), ch_eid (snd c))) cs"
  by (induction cs arbitrary: xs) (auto simp: bindE_eq_Inr load_change_def Let_def split: if_splits)

lemma pulled_from_log:
  assumes "pull u cursor maxn d = Inr resp" and "(e, i) \<in> set (map (\<lambda>x. (pc_etype x, pc_eid x)) (pr_changes resp))"
  shows "about e i (change_log d) \<noteq> []"
proof -
  from load_changes_keys [OF pull_Inr(1) [OF assms(1)]] assms(2)
  obtain c where "c \<in> set (page maxn (changes_after u cursor d))" "ch_etype (snd c) = e" "ch_eid (snd c) = i"
    by auto
  then have "snd c \<in> set (about e i (change_log d))"
    by (auto simp: page_def changes_after_def about_set change_log_def dest: in_set_takeD)
  then show ?thesis by auto
qed

text \<open>Along pushes by anybody a row moves as many versions as the log gains changes about it.\<close>

lemma served_moves:
  assumes "served d d'" and "wf d"
  shows "wf d' \<and> (\<exists>cs. change_log d' = change_log d @ cs \<and>
    life_version (look e i d') = life_version (look e i d) + int (length (about e i cs)) \<and>
    (look e i d \<noteq> None \<longrightarrow> look e i d' \<noteq> None))"
  using assms
proof (induction rule: served.induct)
  case (here d)
  then show ?case by simp
next
  case (later d d' E u its d'' x)
  then obtain cs where w: "wf d'" and cs: "change_log d' = change_log d @ cs"
    "life_version (look e i d') = life_version (look e i d) + int (length (about e i cs))"
    "look e i d \<noteq> None \<longrightarrow> look e i d' \<noteq> None" by blast
  from apply_push_evolves [OF later(2)] w obtain bs where
    w'': "wf d''" and bs: "change_log d'' = change_log d' @ bs" and "lives u d' bs d''"
    by (auto simp: evolves_def)
  then have run: "life_run u e i (look e i d') (about e i bs) (look e i d'')" by (simp add: lives_def)
  have "change_log d'' = change_log d @ (cs @ bs)" using cs bs by simp
  moreover have "life_version (look e i d'') = life_version (look e i d) + int (length (about e i (cs @ bs)))"
    using life_run_version [OF run] cs(2) by simp
  moreover have "look e i d \<noteq> None \<longrightarrow> look e i d'' \<noteq> None" using life_run_exists [OF run] cs(3) by blast
  ultimately show ?case using w'' by blast
qed

lemma cleanup_wf:
  assumes "run_tombstone_cleanup files kept wall X = (Y, reaped)" and "wf (st_db X)"
  shows "wf (st_db Y)"
proof -
  have "keys_ok (st_db Y)"
    using wfD(1) [OF assms(2)] by (simp add: keys_ok_def cleanup_simps(1) [OF assms(1)] distinct_map_filter)
  moreover have "seqs_ok (st_db Y)"
    using wfD(2) [OF assms(2)]
    by (auto simp: seqs_ok_def cleanup_simps [OF assms(1)] intro: sorted_wrt_filter_fst)
  ultimately show ?thesis by (simp add: wf_def)
qed

lemma look_survives:
  assumes "run_tombstone_cleanup files kept wall X = (Y, reaped)" and "look e i (st_db X) = Some (r, j)"
    and "rdeleted r = None"
  shows "look e i (st_db Y) = Some (r, j)"
proof -
  let ?keep = "\<lambda>x. \<not> expired (wall - retention kept) (fst x)"
  have "find (\<lambda>x. rid (fst x) = i) (filter ?keep xs) = Some (r, j)"
    if "find (\<lambda>x. rid (fst x) = i) xs = Some (r, j)" for xs :: "(row \<times> json) list"
    using that by (induction xs) (auto simp: expired_def assms(3) split: if_splits)
  with assms(2) show ?thesis by (simp add: look_def cleanup_simps(1) [OF assms(1)])
qed

text \<open>
  C30: A device that signs in late misses the rows that nobody edits. Once all changes of a live row
  are older than the retention, the cleanup drops them and keeps the row. Whatever is pushed by whomever
  after that, the row stays, and as long as it has the version that it had at the cleanup no pull of any
  user, from any cursor, names it: a new device that starts at 0 receives it only after the next change
  to it.
\<close>

theorem cleanup_strands_new_devices:
  assumes "run_tombstone_cleanup files kept wall X = (Y, reaped)" and "wf (st_db X)"
    and "look e i (st_db X) = Some (r, j)" and "rdeleted r = None"
    and "list_all (\<lambda>c. ch_etype (snd c) = e \<and> ch_eid (snd c) = i \<longrightarrow> st_changed X (fst c) < wall - retention kept)
      (db_changes (st_db X))"
    and "served (st_db Y) d"
  shows "look e i (st_db Y) = Some (r, j) \<and>
    (\<exists>r' j'. look e i d = Some (r', j') \<and> rver r \<le> rver r' \<and>
      (case pull u cursor maxn d of
         Inl _ \<Rightarrow> True
       | Inr resp \<Rightarrow>
           (e, i) \<in> set (map (\<lambda>x. (pc_etype x, pc_eid x)) (pr_changes resp)) \<longrightarrow> rver r < rver r'))"
proof -
  note kept_row = look_survives [OF assms(1,3,4)]
  have silent: "about e i (change_log (st_db Y)) = []"
    using assms(5) by (auto simp: about_def change_log_def filter_empty_conv cleanup_simps(2) [OF assms(1)] list_all_iff)
  from served_moves [OF assms(6) cleanup_wf [OF assms(1,2)], of e i] kept_row obtain cs r' j' where
    cs: "change_log d = change_log (st_db Y) @ cs" and l: "look e i d = Some (r', j')"
    and v: "rver r' = rver r + int (length (about e i cs))" by auto
  have "rver r < rver r'" if "pull u cursor maxn d = Inr resp"
    and "(e, i) \<in> set (map (\<lambda>x. (pc_etype x, pc_eid x)) (pr_changes resp))" for resp
    using pulled_from_log [OF that] silent v by (simp add: cs)
  with kept_row l v show ?thesis by (auto split: sum.split)
qed

text \<open>The course of user 1, last changed at time 0, after 181 days.\<close>

definition old_course :: stamped where
  "old_course = \<lparr>st_db = db1, st_changed = (\<lambda>_. 0), st_processed = (\<lambda>_. 0)\<rparr>"

lemma look_old_course: "look ECourse 7 db1 = Some (row.truncate course_row0, snd (the (look ECourse 7 db1)))"
  by (simp add: look_def db1_def course_row0_def row.defs abs_row_def)

lemma cleanup_strands_new_devices_witness:
  "case pull 1 0 200 (st_db (fst (run_tombstone_cleanup True 180 (181 * 86400000000) old_course))) of
     Inl _ \<Rightarrow> True
   | Inr resp \<Rightarrow> (ECourse, 7) \<notin> set (map (\<lambda>x. (pc_etype x, pc_eid x)) (pr_changes resp))"
proof -
  let ?Y = "fst (run_tombstone_cleanup True 180 (181 * 86400000000) old_course)"
  have r: "retention 180 = 15552000000000" by (simp add: retention_def retention_ns_int)
  have run: "run_tombstone_cleanup True 180 (181 * 86400000000) old_course =
      (?Y, snd (run_tombstone_cleanup True 180 (181 * 86400000000) old_course))" by simp
  have w: "wf (st_db old_course)"
    using history_okD(1) [OF reachable_history_ok [OF reachable_db1]] by (simp add: old_course_def)
  have l: "look ECourse 7 (st_db old_course) = Some (row.truncate course_row0, snd (the (look ECourse 7 db1)))"
    unfolding old_course_def stamped.simps by (rule look_old_course)
  have "rdeleted (row.truncate course_row0) = None" by (simp add: course_row0_def row.defs)
  moreover have "list_all (\<lambda>c. ch_etype (snd c) = ECourse \<and> ch_eid (snd c) = 7 \<longrightarrow>
      st_changed old_course (fst c) < 181 * 86400000000 - retention 180) (db_changes (st_db old_course))"
    by (simp add: old_course_def db1_def r)
  ultimately show ?thesis
    using cleanup_strands_new_devices [OF run w l _ _ served.here, of 1 0 200]
    by (auto split: sum.split)
qed

lemma cleanup_removes_the_expired_witness:
  "db_changes (st_db (fst (run_tombstone_cleanup True 180 (181 * 86400000000) old_course))) = []"
proof -
  have r: "retention 180 = 15552000000000" by (simp add: retention_def retention_ns_int)
  have run: "run_tombstone_cleanup True 180 (181 * 86400000000) old_course =
      (fst (run_tombstone_cleanup True 180 (181 * 86400000000) old_course),
       snd (run_tombstone_cleanup True 180 (181 * 86400000000) old_course))" by simp
  have "c \<notin> set (db_changes (st_db (fst (run_tombstone_cleanup True 180 (181 * 86400000000) old_course))))" for c
    using cleanup_removes_the_expired [OF run, where c = c] by (simp add: old_course_def r)
  then show ?thesis using list.set_sel(1) by blast
qed

end
