(* ===== verification/Secret_Properties.thy ===== *)
theory Secret_Properties
  imports Passwords
begin

text \<open>Properties of the text of tokens and of the password policy.\<close>

section \<open>The text of a token\<close>

lemma url_alphabet: "length b64_alphabet = 64" "distinct b64_alphabet"
  by (simp_all add: b64_alphabet_def)

lemma sextet_inj: "v < 64 \<Longrightarrow> w < 64 \<Longrightarrow> sextet v = sextet w \<longleftrightarrow> v = w"
  using url_alphabet nth_eq_iff_index_eq [of b64_alphabet "unat v" "unat w"]
  by (simp add: sextet_def word_less_nat_alt word_unat_eq_iff)

lemma sextets_text_inj: "map sextet (sextets bs) = map sextet (sextets cs) \<longleftrightarrow> bs = cs"
proof
  have small: "\<forall>w\<in>set (sextets xs). w < 64" for xs by (rule sextets_small)
  assume "map sextet (sextets bs) = map sextet (sextets cs)"
  then have "sextets bs = sextets cs"
    by (rule map_inj_on) (use small [of bs] small [of cs] sextet_inj in \<open>auto simp: inj_on_def\<close>)
  then show "bs = cs" by (metis bytes_sextets option.inject)
qed simp

lemma rfc4648_length: "3 dvd length bs \<Longrightarrow> 3 * length (rfc4648 enc bs) = 4 * length bs"
proof (induction enc bs rule: rfc4648.induct)
  case (1 enc a b c bs)
  then have "3 dvd length bs" by simp presburger
  with 1 show ?case by simp
next
  case (2 enc a b)
  then have False by (simp, presburger)
  then show ?case ..
qed simp_all

text \<open>
  C27: The text of a refresh token is the base64url encoding of its random bytes. For a number of
  bytes that is a multiple of three, such as the 48 of a token, the shift loop with its unmasked
  64-bit accumulator writes what RFC 4648 asks for, four characters of the URL alphabet for three bytes;
  and two tokens are equal only if their bytes are.
\<close>

theorem token_text_is_base64url:
  assumes "3 dvd length bs" and "3 dvd length cs"
  shows "base64_url bs = rfc4648 sextet bs \<and> 3 * length (base64_url bs) = 4 * length bs \<and>
    set (base64_url bs) \<subseteq> set b64_alphabet \<and> (base64_url bs = base64_url cs \<longleftrightarrow> bs = cs)"
proof -
  have "base64_url bs = rfc4648 sextet bs" "base64_url cs = rfc4648 sextet cs"
    using b64_loop_rfc [OF refl assms(1), of 0 "[]"] b64_loop_rfc [OF refl assms(2), of 0 "[]"]
    by (simp_all add: base64_url_def)
  moreover have "set (map sextet (sextets bs)) \<subseteq> set b64_alphabet"
    using sextets_small [of bs] url_alphabet(1) by (auto simp: sextet_def word_less_nat_alt intro: nth_mem)
  ultimately show ?thesis
    by (simp add: rfc4648_length assms) (simp add: rfc4648_sextets sextets_text_inj)
qed

lemma token_text_is_base64url_witness: "3 * length (base64_url (replicate 48 255)) = 192"
proof -
  have "3 dvd length (replicate 48 (255 :: 8 word))" "3 dvd length ([] :: 8 word list)" by simp_all
  from token_text_is_base64url [OF this]
  have "3 * length (base64_url (replicate 48 255)) = 4 * length (replicate 48 (255 :: 8 word))" by blast
  then show ?thesis by (simp only: length_replicate)
qed

section \<open>The password policy\<close>

text \<open>
  A password is accepted if and only if it is printable, not on the blocklist, 10 to 128 characters
  long, and shares no six consecutive bytes with the address or the name of the account (lower case,
  blanks trimmed); the last clause of the similarity test never decides.
\<close>

lemma password_policy:
  "validate_password U plain email name = None \<longleftrightarrow>
     printable_or_space U plain \<and> un_lower U plain \<notin> set blocklist \<and>
     10 \<le> utf8_length plain \<and> utf8_length plain \<le> 128 \<and>
     \<not> share_six (un_lower U (trim_space (un_lower U plain))) (un_lower U (trim_space email)) \<and>
     \<not> share_six (un_lower U (trim_space (un_lower U plain))) (un_lower U (trim_space name))"
  by (simp add: validate_password_def Let_def similar_share not_less)

text \<open>
  Six bytes are not six characters: three Cyrillic letters of a name, of two bytes each, are enough to
  refuse a password, where the comment in the code asks for six characters.
\<close>

definition cyrillic_name :: string where
  "cyrillic_name = [CHR 0xD0, CHR 0xBE, CHR 0xD0, CHR 0xBB, CHR 0xD1, CHR 0x8F]"

lemma three_letters_are_similar:
  "utf8_length cyrillic_name = 3 \<and>
   validate_password \<lparr>un_lower = (\<lambda>s. s), un_upper = (\<lambda>s. s), un_print = (\<lambda>s. True)\<rparr> (''longenough'' @ cyrillic_name) [] cyrillic_name =
     Some SimilarToAccount"
  by code_simp

end
