(* ===== verification/Http.thy ===== *)
theory Http
  imports Server
begin

text \<open>
  What the HTTP handlers share: the answers they write, the decoding of a JSON body, the caps on a
  body and the CORS answer (internal/httpapi/httpapi.go), the rate limiter and the address of the
  client (internal/httpapi/middleware). Times of this theory are nanoseconds of the process clock.
\<close>

section \<open>Answers\<close>

text \<open>
  \<open>WriteDetail\<close> with a text or with an error code and a text, the 429 of a limiter with the text of
  its Retry-After header, \<open>WriteJSON\<close> with status 200, and an empty 204.
\<close>

datatype detail =
    Text string
  | Coded string string

datatype 'a reply =
    Failed int detail
  | Throttled string string
  | Json 'a
  | No_Content

fun status_code :: "'a reply \<Rightarrow> int" where
  "status_code (Failed n _) = n"
| "status_code (Throttled _ _) = 429"
| "status_code (Json _) = 200"
| "status_code No_Content = 204"

definition internal_error :: "'a reply" where
  "internal_error = Failed 500 (Text ''internal server error'')"

section \<open>Bodies\<close>

text \<open>
  A body as its reader delivers it: the bytes, and whether the stream ends properly.
  \<open>MaxBytesReader\<close> fails once more than the cap has been read.
\<close>

type_synonym stream = "string \<times> bool"

definition max_bytes :: "int \<Rightarrow> stream \<Rightarrow> stream" where
  "max_bytes n s = (if n < int (length (fst s)) then (take (nat n) (fst s), False) else s)"

text \<open>
  What decoding a body into the struct of a request gives: unknown members are refused, and a
  body above the cap is told from a malformed one.
\<close>

datatype 'a body =
    Decoded 'a
  | Oversized
  | Undecodable

definition decode_json :: "'a body \<Rightarrow> 'b reply + 'a" where
  "decode_json b =
     (case b of
        Decoded x \<Rightarrow> Inr x
      | Oversized \<Rightarrow> Inl (Failed 413 (Text ''request body too large''))
      | Undecodable \<Rightarrow> Inl (Failed 400 (Text ''invalid JSON body'')))"

lemma decode_json_simps [simp]: "decode_json (Decoded x) = Inr x"
  by (simp add: decode_json_def)

section \<open>CORS\<close>

text \<open>The headers of a listed origin, and whether the request goes on to the routes.\<close>

definition cors_headers :: "string \<Rightarrow> (string \<times> string) list" where
  "cors_headers origin =
     [(''Access-Control-Allow-Origin'', origin), (''Vary'', ''Origin''),
      (''Access-Control-Allow-Methods'', ''GET, POST, DELETE, OPTIONS''),
      (''Access-Control-Allow-Headers'', ''Authorization, Content-Type''),
      (''Access-Control-Max-Age'', ''600'')]"

definition cors :: "string list \<Rightarrow> string \<Rightarrow> string \<Rightarrow> (string \<times> string) list \<times> bool" where
  "cors allowed origin method =
     (if origin \<noteq> [] \<and> origin \<in> set allowed then cors_headers origin else [], method \<noteq> ''OPTIONS'')"

text \<open>The headers of every answer.\<close>

definition hardening_headers :: "string \<Rightarrow> (string \<times> string) list" where
  "hardening_headers request_id =
     [(''X-Request-Id'', request_id), (''X-Content-Type-Options'', ''nosniff''),
      (''X-Frame-Options'', ''DENY''), (''Referrer-Policy'', ''no-referrer''),
      (''Cache-Control'', ''no-store'')]"

text \<open>
  \<open>Handler\<close>: the body is capped before the routes see it; a panic is answered 500 unless the
  header is out already. \<open>None\<close> stands for the panic of a route.
\<close>

definition hardened :: "int \<Rightarrow> (stream \<Rightarrow> 'a reply option) \<Rightarrow> stream \<Rightarrow> 'a reply" where
  "hardened cap route s = (case route (max_bytes cap s) of None \<Rightarrow> internal_error | Some r \<Rightarrow> r)"

section \<open>The rate limiter\<close>

record hit =
  ht_count :: int
  ht_start :: int

record limiter =
  li_window :: int
  li_max :: int
  li_hits :: "(string \<times> hit) list"

definition new_limiter :: "int \<Rightarrow> int \<Rightarrow> limiter" where
  "new_limiter n w = \<lparr>li_window = w, li_max = n, li_hits = []\<rparr>"

definition put_hit :: "string \<Rightarrow> hit \<Rightarrow> (string \<times> hit) list \<Rightarrow> (string \<times> hit) list" where
  "put_hit k h hs = (k, h) # filter (\<lambda>x. fst x \<noteq> k) hs"

text \<open>Windows that are over go once more than 10000 are kept.\<close>

definition drop_old :: "int \<Rightarrow> int \<Rightarrow> (string \<times> hit) list \<Rightarrow> (string \<times> hit) list" where
  "drop_old now w hs =
     (if 10000 < length hs then filter (\<lambda>x. \<not> w \<le> now - ht_start (snd x)) hs else hs)"

text \<open>\<open>Allow\<close>: \<open>None\<close> lets the request pass, \<open>Some d\<close> refuses it for the time d.\<close>

definition allow :: "int \<Rightarrow> string \<Rightarrow> string \<Rightarrow> limiter \<Rightarrow> limiter \<times> int option" where
  "allow now bucket key L =
     (let k = bucket @ ''|'' @ key in
      case map_of (li_hits L) k of
        None \<Rightarrow>
          (L\<lparr>li_hits := drop_old now (li_window L) (put_hit k \<lparr>ht_count = 1, ht_start = now\<rparr> (li_hits L))\<rparr>, None)
      | Some h \<Rightarrow>
          if li_window L \<le> now - ht_start h
          then (L\<lparr>li_hits := drop_old now (li_window L) (put_hit k \<lparr>ht_count = 1, ht_start = now\<rparr> (li_hits L))\<rparr>, None)
          else if li_max L \<le> ht_count h then (L, Some (li_window L - (now - ht_start h)))
          else (L\<lparr>li_hits := put_hit k (h\<lparr>ht_count := ht_count h + 1\<rparr>) (li_hits L)\<rparr>, None))"

text \<open>\<open>retry.Round(time.Second).String()\<close> for a time that is not negative.\<close>

definition second_ns :: int where
  "second_ns = 1000000000"

definition minute_ns :: int where
  "minute_ns = 60 * second_ns"

definition round_seconds :: "int \<Rightarrow> nat" where
  "round_seconds d =
     nat (d div second_ns + (if d mod second_ns + d mod second_ns < second_ns then 0 else 1))"

definition duration_text :: "nat \<Rightarrow> string" where
  "duration_text s =
     (if s < 60 then []
      else (if s < 3600 then [] else decimal (s div 3600) @ ''h'') @ decimal (s div 60 mod 60) @ ''m'') @
     decimal (s mod 60) @ ''s''"

definition retry_after :: "int \<Rightarrow> string" where
  "retry_after d = duration_text (round_seconds d)"

section \<open>The address of the client\<close>

text \<open>
  The library for addresses: the host of a host and port, the bytes of an address, its text, and
  the number and mask of a network.
\<close>

type_synonym address = "8 word list"

record net_library =
  nt_split_host :: "string \<Rightarrow> string option"
  nt_parse_ip :: "string \<Rightarrow> address option"
  nt_ip_text :: "address \<Rightarrow> string"
  nt_parse_cidr :: "string \<Rightarrow> (address \<times> address) option"

definition to4 :: "address \<Rightarrow> address option" where
  "to4 ip =
     (if length ip = 4 then Some ip
      else if length ip = 16 \<and> take 12 ip = replicate 10 0 @ [255, 255] then Some (drop 12 ip)
      else None)"

text \<open>\<open>IPNet.Contains\<close>\<close>

unbundle bit_operations_syntax

definition net_contains :: "address \<times> address \<Rightarrow> address \<Rightarrow> bool" where
  "net_contains n ip =
     (let ip = (case to4 ip of None \<Rightarrow> ip | Some x \<Rightarrow> x) in
      length ip = length (fst n) \<and>
      list_all (\<lambda>i. (fst n ! i) AND (snd n ! i) = (ip ! i) AND (snd n ! i)) [0..<length ip])"

text \<open>\<open>ParseTrustedProxies\<close>: a plain address is given the mask /32.\<close>

fun parse_trusted_proxies :: "net_library \<Rightarrow> string list \<Rightarrow> (address \<times> address) list option" where
  "parse_trusted_proxies N [] = Some []"
| "parse_trusted_proxies N (s # ss) =
     (if s = [] then parse_trusted_proxies N ss
      else
        (case nt_parse_cidr N (if CHR ''/'' \<in> set s then s else s @ ''/32'') of
           None \<Rightarrow> None
         | Some n \<Rightarrow> map_option (Cons n) (parse_trusted_proxies N ss)))"

definition trusted :: "(address \<times> address) list option \<Rightarrow> address \<Rightarrow> bool" where
  "trusted trust ip = (case trust of None \<Rightarrow> False | Some ns \<Rightarrow> list_ex (\<lambda>n. net_contains n ip) ns)"

definition is_blank :: "char \<Rightarrow> bool" where
  "is_blank c \<longleftrightarrow> c = CHR '' '' \<or> c = CHR 0x09"

definition trim_blanks :: "string \<Rightarrow> string" where
  "trim_blanks s = rev (dropWhile is_blank (rev (dropWhile is_blank s)))"

text \<open>
  \<open>ClientIP\<close>: the first entry of X-Forwarded-For counts when the peer is a trusted proxy; what is
  no address is passed over.
\<close>

definition client_ip ::
  "net_library \<Rightarrow> (address \<times> address) list option \<Rightarrow> string \<Rightarrow> string \<Rightarrow> string" where
  "client_ip N trust remote xff =
     (let host = (case nt_split_host N remote of None \<Rightarrow> remote | Some h \<Rightarrow> h) in
      case nt_parse_ip N host of
        None \<Rightarrow> host
      | Some peer \<Rightarrow>
          (case (if trusted trust peer \<and> xff \<noteq> []
                 then nt_parse_ip N (trim_blanks (takeWhile (\<lambda>c. c \<noteq> CHR '','') xff)) else None) of
             None \<Rightarrow> nt_ip_text N peer
           | Some ip \<Rightarrow> nt_ip_text N ip))"

end
