(* ===== verification/Files.thy ===== *)
theory Files
  imports Http "HOL-Library.List_Lexorder" "HOL-Library.Char_ord"
begin

text \<open>
  The file store (internal/storage/store.go): the renditions of a classroom image and the original
  of a course material, one directory per user and entity, the hash of the content in the name of
  the file. A string stands for bytes, one character per byte.
\<close>

section \<open>Files and names\<close>

text \<open>
  One regular file. The directory of user u and entity a is root/u[0:2]/u[2:4]/u/a, so the two ids
  determine it; empty directories are not kept.
\<close>

record stored =
  sf_user :: uuid
  sf_entity :: uuid
  sf_name :: string
  sf_bytes :: string

type_synonym files = "stored list"

definition variant_original :: string where
  "variant_original = ''original''"

definition variant_preview :: string where
  "variant_preview = ''preview''"

definition valid_variant :: "string \<Rightarrow> bool" where
  "valid_variant v \<longleftrightarrow> v = variant_original \<or> v = variant_preview"

datatype file_error =
    InvalidName
  | FileNotFound
  | HashMismatch
  | DiskError

definition hex_char :: "char \<Rightarrow> bool" where
  "hex_char c \<longleftrightarrow>
     (let n = of_char c :: nat in (48 \<le> n \<and> n \<le> 57) \<or> (97 \<le> n \<and> n \<le> 102) \<or> (65 \<le> n \<and> n \<le> 70))"

definition file_suffix :: "string \<Rightarrow> string" where
  "file_suffix v = ''_'' @ v @ ''.bin''"

definition file_name :: "string \<Rightarrow> string \<Rightarrow> string" where
  "file_name hash v = hash @ file_suffix v"

text \<open>The name that a hash and a variant give, unless either is malformed. An empty hash passes.\<close>

definition path_name :: "string \<Rightarrow> string \<Rightarrow> string option" where
  "path_name hash v = (if valid_variant v \<and> list_all hex_char hash then Some (file_name hash v) else None)"

text \<open>\<open>strings.ToLower\<close> on hexadecimal digits\<close>

definition lower_digit :: "char \<Rightarrow> char" where
  "lower_digit c = (let n = of_char c :: nat in if 65 \<le> n \<and> n \<le> 90 then char_of (n + 32) else c)"

definition lower_hex :: "string \<Rightarrow> string" where
  "lower_hex s = map lower_digit s"

section \<open>The disk\<close>

text \<open>
  What the file system does for one call: which of its operations succeed, and which files are left
  when the removal of a directory fails half way.
\<close>

record disk =
  dk_read :: bool
  dk_mkdir :: bool
  dk_temp :: bool
  dk_append :: bool
  dk_close :: bool
  dk_rename :: bool
  dk_remove :: bool
  dk_left :: "stored \<Rightarrow> bool"

definition good_disk :: disk where
  "good_disk = \<lparr>dk_read = True, dk_mkdir = True, dk_temp = True, dk_append = True, dk_close = True,
     dk_rename = True, dk_remove = True, dk_left = (\<lambda>f. True)\<rparr>"

definition at_path :: "uuid \<Rightarrow> uuid \<Rightarrow> string \<Rightarrow> stored \<Rightarrow> bool" where
  "at_path u a name f \<longleftrightarrow> sf_user f = u \<and> sf_entity f = a \<and> sf_name f = name"

definition file_at :: "uuid \<Rightarrow> uuid \<Rightarrow> string \<Rightarrow> files \<Rightarrow> stored option" where
  "file_at u a name D = find (at_path u a name) D"

text \<open>A rename into place.\<close>

definition place :: "uuid \<Rightarrow> uuid \<Rightarrow> string \<Rightarrow> string \<Rightarrow> files \<Rightarrow> files" where
  "place u a name bytes D =
     filter (\<lambda>f. \<not> at_path u a name f) D @ [\<lparr>sf_user = u, sf_entity = a, sf_name = name, sf_bytes = bytes\<rparr>]"

section \<open>Operations\<close>

definition content_hash :: "(string \<Rightarrow> 8 word list) \<Rightarrow> string \<Rightarrow> string" where
  "content_hash H bytes = hex_encode (H bytes)"

definition verify_file :: "(string \<Rightarrow> 8 word list) \<Rightarrow> disk \<Rightarrow> stored \<Rightarrow> string \<Rightarrow> bool" where
  "verify_file H K f hash \<longleftrightarrow> dk_read K \<and> content_hash H (sf_bytes f) = lower_hex hash"

text \<open>A stored copy that makes an upload a repetition.\<close>

definition good_copy ::
  "(string \<Rightarrow> 8 word list) \<Rightarrow> disk \<Rightarrow> uuid \<Rightarrow> uuid \<Rightarrow> string \<Rightarrow> string \<Rightarrow> files \<Rightarrow> stored option" where
  "good_copy H K u a name hash D =
     (case file_at u a name D of None \<Rightarrow> None | Some f \<Rightarrow> if verify_file H K f hash then Some f else None)"

text \<open>
  \<open>Write\<close>: a file that is there with the right content is left alone, without reading the body;
  otherwise the body goes to a temporary file that is renamed into place or removed.
\<close>

definition write_file ::
  "(string \<Rightarrow> 8 word list) \<Rightarrow> disk \<Rightarrow> uuid \<Rightarrow> uuid \<Rightarrow> string \<Rightarrow> string \<Rightarrow> stream \<Rightarrow> files
     \<Rightarrow> files \<times> (file_error + nat)" where
  "write_file H K u a hash v body D =
     (case path_name hash v of
        None \<Rightarrow> (D, Inl InvalidName)
      | Some name \<Rightarrow>
          (case good_copy H K u a name hash D of
             Some f \<Rightarrow> (D, Inr (length (sf_bytes f)))
           | None \<Rightarrow>
               if \<not> dk_mkdir K \<or> \<not> dk_temp K then (D, Inl DiskError)
               else if \<not> snd body \<or> \<not> dk_append K then (D, Inl DiskError)
               else if \<not> dk_close K then (D, Inl DiskError)
               else if hash \<noteq> [] \<and> content_hash H (fst body) \<noteq> lower_hex hash
               then (D, Inl HashMismatch)
               else if \<not> dk_rename K then (D, Inl DiskError)
               else (place u a name (fst body) D, Inr (length (fst body)))))"

text \<open>The entries of a directory, in the order of their names.\<close>

definition dir_entries :: "uuid \<Rightarrow> uuid \<Rightarrow> files \<Rightarrow> stored list" where
  "dir_entries u a D = sort_key sf_name (filter (\<lambda>f. sf_user f = u \<and> sf_entity f = a) D)"

definition has_suffix :: "string \<Rightarrow> string \<Rightarrow> bool" where
  "has_suffix s x \<longleftrightarrow> length x \<le> length s \<and> drop (length s - length x) s = x"

definition valid_hex_prefix :: "string \<Rightarrow> bool" where
  "valid_hex_prefix s \<longleftrightarrow> s \<noteq> [] \<and> list_all hex_char s"

text \<open>A file that \<open>Open\<close> takes for the variant.\<close>

definition is_variant :: "string \<Rightarrow> stored \<Rightarrow> bool" where
  "is_variant v f \<longleftrightarrow>
     has_suffix (sf_name f) (file_suffix v) \<and>
     valid_hex_prefix (take (length (sf_name f) - length (file_suffix v)) (sf_name f))"

definition open_file :: "disk \<Rightarrow> uuid \<Rightarrow> uuid \<Rightarrow> string \<Rightarrow> files \<Rightarrow> stored option" where
  "open_file K u a v D =
     (if dk_read K then find (is_variant v) (dir_entries u a D) else None)"

definition has_file :: "disk \<Rightarrow> uuid \<Rightarrow> uuid \<Rightarrow> string \<Rightarrow> files \<Rightarrow> bool" where
  "has_file K u a v D \<longleftrightarrow> open_file K u a v D \<noteq> None"

definition delete_files :: "disk \<Rightarrow> uuid \<Rightarrow> uuid \<Rightarrow> files \<Rightarrow> files \<times> bool" where
  "delete_files K u a D =
     (filter (\<lambda>f. \<not> (sf_user f = u \<and> sf_entity f = a) \<or> (\<not> dk_remove K \<and> dk_left K f)) D, dk_remove K)"

definition delete_user_files :: "disk \<Rightarrow> uuid \<Rightarrow> files \<Rightarrow> files \<times> bool" where
  "delete_user_files K u D =
     (filter (\<lambda>f. sf_user f \<noteq> u \<or> (\<not> dk_remove K \<and> dk_left K f)) D, dk_remove K)"

text \<open>The best-effort removals after a transaction: failures are only logged.\<close>

definition reap_files :: "disk \<Rightarrow> (uuid \<times> uuid) list \<Rightarrow> files \<Rightarrow> files" where
  "reap_files K ps D = foldl (\<lambda>D p. fst (delete_files K (fst p) (snd p) D)) D ps"

section \<open>Names\<close>

lemma has_suffix_append [simp]: "has_suffix (s @ x) x"
  by (simp add: has_suffix_def)

lemma has_suffixE:
  assumes "has_suffix s x"
  obtains p where "s = p @ x" "take (length s - length x) s = p"
proof
  show "s = take (length s - length x) s @ x"
    using assms unfolding has_suffix_def by (metis append_take_drop_id)
qed simp

lemma is_variant_iff: "is_variant v f \<longleftrightarrow> (\<exists>h. sf_name f = file_name h v \<and> h \<noteq> [] \<and> list_all hex_char h)"
  by (auto simp: is_variant_def file_name_def valid_hex_prefix_def elim!: has_suffixE)

text \<open>A hexadecimal hash and a variant can be read off the name.\<close>

lemma underscore_not_hex: "\<not> hex_char (CHR ''_'')"
  by code_simp

lemma file_name_inj:
  assumes "list_all hex_char h" "list_all hex_char h'"
  shows "file_name h v = file_name h' v' \<longleftrightarrow> h = h' \<and> v = v'"
proof
  assume eq: "file_name h v = file_name h' v'"
  have hash: "takeWhile hex_char (file_name x y) = x" if "list_all hex_char x" for x y
    using that underscore_not_hex
    by (simp add: file_name_def file_suffix_def takeWhile_append list_all_iff)
  have "h = h'" using hash [OF assms(1), of v] hash [OF assms(2), of v'] eq by simp
  then show "h = h' \<and> v = v'" using eq by (simp add: file_name_def file_suffix_def)
qed simp

lemma path_name_Some:
  "path_name hash v = Some name \<longleftrightarrow> valid_variant v \<and> list_all hex_char hash \<and> name = file_name hash v"
  by (auto simp: path_name_def)

section \<open>The store as a table of files\<close>

lemma file_at_Some: "file_at u a name D = Some f \<Longrightarrow> f \<in> set D \<and> at_path u a name f"
  by (simp add: file_at_def find_Some_iff) (metis nth_mem)

lemma file_at_place:
  "file_at u' a' n' (place u a n bytes D) =
     (if (u', a', n') = (u, a, n)
      then Some \<lparr>sf_user = u, sf_entity = a, sf_name = n, sf_bytes = bytes\<rparr> else file_at u' a' n' D)"
proof (cases "(u', a', n') = (u, a, n)")
  case True
  then show ?thesis
    by (simp add: file_at_def place_def find_append find_None_iff [THEN iffD2]) (simp add: at_path_def)
next
  case False
  have "find (at_path u' a' n') (filter (\<lambda>f. \<not> at_path u a n f) D) = find (at_path u' a' n') D"
    using False by (induction D) (auto simp: at_path_def)
  then show ?thesis
    using False by (auto simp: file_at_def place_def find_append at_path_def split: option.splits)
qed

lemma place_set: "f \<in> set (place u a n bytes D) \<Longrightarrow>
    f = \<lparr>sf_user = u, sf_entity = a, sf_name = n, sf_bytes = bytes\<rparr> \<or> f \<in> set D"
  by (auto simp: place_def)

lemma dir_entries_set [simp]: "set (dir_entries u a D) = {f \<in> set D. sf_user f = u \<and> sf_entity f = a}"
  by (auto simp: dir_entries_def)

lemma open_file_Some:
  "open_file K u a v D = Some f \<Longrightarrow>
     f \<in> set D \<and> sf_user f = u \<and> sf_entity f = a \<and> is_variant v f"
  by (auto simp: open_file_def find_Some_iff split: if_splits dest!: nth_mem)

text \<open>When all files of the variant are the same, \<open>Open\<close> gives that file.\<close>

lemma open_file_unique:
  assumes "dk_read K" and "f \<in> set D" "sf_user f = u" "sf_entity f = a" "is_variant v f"
    and "\<And>g. g \<in> set D \<Longrightarrow> sf_user g = u \<Longrightarrow> sf_entity g = a \<Longrightarrow> is_variant v g \<Longrightarrow> g = f"
  shows "open_file K u a v D = Some f"
proof (cases "open_file K u a v D")
  case None
  then have "find (is_variant v) (dir_entries u a D) = None" using assms(1) by (simp add: open_file_def)
  then show ?thesis using assms(2-5) by (auto simp: find_None_iff)
next
  case (Some g)
  then show ?thesis using open_file_Some [OF Some] assms(6) by blast
qed

lemma good_copy_Some:
  "good_copy H K u a name hash D = Some f \<Longrightarrow>
     file_at u a name D = Some f \<and> content_hash H (sf_bytes f) = lower_hex hash"
  by (auto simp: good_copy_def verify_file_def split: option.splits if_splits)

lemma write_fileE:
  assumes "write_file H K u a hash v body D = (D', r)"
  obtains (Refused) e where "r = Inl e" "D' = D"
    | (Repeated) f where "path_name hash v = Some (file_name hash v)" "r = Inr (length (sf_bytes f))" "D' = D"
        "file_at u a (file_name hash v) D = Some f" "content_hash H (sf_bytes f) = lower_hex hash"
    | (Placed) "path_name hash v = Some (file_name hash v)" "r = Inr (length (fst body))"
        "D' = place u a (file_name hash v) (fst body) D"
        "hash \<noteq> [] \<Longrightarrow> content_hash H (fst body) = lower_hex hash"
proof (cases "path_name hash v")
  case None
  with assms show thesis by (intro Refused [of InvalidName]) (auto simp: write_file_def)
next
  case (Some name)
  then have nm: "name = file_name hash v" by (simp add: path_name_Some)
  show thesis
  proof (cases "good_copy H K u a name hash D")
    case None
    with assms Some nm show thesis
      by (simp add: write_file_def split: if_splits) (use Refused Placed in \<open>blast+\<close>)
  next
    case (Some f)
    with assms \<open>path_name hash v = Some name\<close> nm show thesis
      using good_copy_Some [OF Some] by (intro Repeated [of f]) (auto simp: write_file_def)
  qed
qed

text \<open>A successful write leaves the declared content under its name.\<close>

lemma write_file_Inr:
  assumes "write_file H K u a hash v body D = (D', Inr n)"
  obtains f where "path_name hash v = Some (file_name hash v)"
    and "file_at u a (file_name hash v) D' = Some f" and "length (sf_bytes f) = n"
    and "hash \<noteq> [] \<Longrightarrow> content_hash H (sf_bytes f) = lower_hex hash"
    and "D' = D \<or> D' = place u a (file_name hash v) (fst body) D"
  using assms
proof (cases rule: write_fileE)
  case (Repeated f)
  then show thesis using that by simp
next
  case Placed
  then show thesis
    using that [of "\<lparr>sf_user = u, sf_entity = a, sf_name = file_name hash v, sf_bytes = fst body\<rparr>"]
    by (simp add: file_at_place)
qed simp_all

end
