(* ===== verification/Routes.thy ===== *)
theory Routes
  imports Http
begin

text \<open>
  The HTTP handlers of the accounts (internal/httpapi/auth): what they check before they call the
  account service, and the answer they give for each of its errors. The web state is the account
  database, the two limiters of the handlers, and the cache of Apple's keys.
\<close>

section \<open>Requests and answers\<close>

record request =
  rq_remote :: string
  rq_forwarded :: string
  rq_authorization :: string
  rq_at :: int

record jwk =
  jk_kid :: string
  jk_kty :: string
  jk_n :: string
  jk_e :: string

type_synonym rsa_key = "int \<times> int"

record key_cache =
  kc_keys :: "(string \<times> rsa_key) list"
  kc_fetched :: "int option"

record web =
  wb_accounts :: accounts
  wb_limiter :: limiter
  wb_resend :: limiter
  wb_keys :: key_cache

text \<open>
  The library for signed tokens: the algorithm and the key id of the header, and the subject and
  issue time of a token that is signed by the key, issued by Apple for the configured bundle, and
  not expired.
\<close>

record apple_library =
  al_header :: "string \<Rightarrow> (string \<times> string option) option"
  al_claims :: "rsa_key \<Rightarrow> time \<Rightarrow> string \<Rightarrow> (string \<times> float64 option) option"
  al_base64 :: "string \<Rightarrow> 8 word list option"

record front =
  fr_service :: service
  fr_net :: net_library
  fr_apple :: apple_library
  fr_trust :: "(address \<times> address) list option"
  fr_dev_login :: bool
  fr_schemas :: "int \<times> int"

definition new_web :: "int \<Rightarrow> web" where
  "new_web per_minute =
     \<lparr>wb_accounts = no_accounts, wb_limiter = new_limiter per_minute minute_ns,
      wb_resend = new_limiter 5 (10 * minute_ns),
      wb_keys = \<lparr>kc_keys = [], kc_fetched = None\<rparr>\<rparr>"

record capabilities =
  cp_registration :: string
  cp_requires_invitation :: bool
  cp_password_login :: bool
  cp_apple_login :: bool
  cp_maintenance :: bool
  cp_schemas :: "int \<times> int"

datatype account_answer =
    Sent string
  | Signed_In login_response
  | Password_Reset
  | Password_Changed
  | Device_List "(device \<times> bool) list"
  | Profile public_user
  | Me me_profile
  | Email_Change string time
  | Apple_Bound bool
  | Capabilities capabilities

definition code_sent :: "account_answer reply" where
  "code_sent = Json (Sent ''If the email is valid, a verification code has been sent.'')"

section \<open>Errors\<close>

fun policy_reason :: "policy_error \<Rightarrow> string" where
  "policy_reason UnsupportedCharacters = ''password_unsupported_characters''"
| "policy_reason PasswordCommon = ''password_common''"
| "policy_reason PasswordTooShort = ''password_too_short''"
| "policy_reason PasswordTooLong = ''password_too_long''"
| "policy_reason SimilarToAccount = ''password_similar_to_account''"

definition weak_password_text :: "policy_error option \<Rightarrow> string" where
  "weak_password_text e =
     ''password rejected'' @ (case e of None \<Rightarrow> [] | Some p \<Rightarrow> '': '' @ policy_reason p)"

text \<open>\<open>mapAuthError\<close>; the errors of invitations are not among those it knows.\<close>

fun map_auth_error :: "auth_error \<Rightarrow> account_answer reply" where
  "map_auth_error InvalidCredentials = Failed 401 (Text ''invalid email or password'')"
| "map_auth_error NotVerified = Failed 403 (Text ''email not verified'')"
| "map_auth_error Suspended = Failed 403 (Text ''account is not available'')"
| "map_auth_error EmailTaken = code_sent"
| "map_auth_error (WeakPassword e) = Failed 400 (Text (weak_password_text e))"
| "map_auth_error BadCode = Failed 400 (Text ''invalid or expired code'')"
| "map_auth_error TooManyAttempts = Failed 429 (Text ''too many attempts, request a new code'')"
| "map_auth_error ResendCooldown = Failed 429 (Text ''please wait before requesting another code'')"
| "map_auth_error RateLimited = Failed 429 (Text ''too many attempts, try later'')"
| "map_auth_error NoMailTransport = Failed 503 (Text ''mail transport unavailable'')"
| "map_auth_error RegistrationClosed = Failed 403 (Text ''registration is currently closed'')"
| "map_auth_error SameEmail = Failed 400 (Text ''the new email equals the current email'')"
| "map_auth_error DisplayNameInvalid = Failed 400 (Text ''display name is too long'')"
| "map_auth_error AppleAlreadyBound =
     Failed 409 (Text ''this Apple ID is already linked to another account'')"
| "map_auth_error ReuseDetected = Failed 401 (Text ''refresh token reuse detected'')"
| "map_auth_error TokenExpired = Failed 401 (Text ''refresh token expired'')"
| "map_auth_error AccountUnavailable = Failed 401 (Text ''account or device no longer exists'')"
| "map_auth_error NotFound = Failed 401 (Text ''invalid credentials'')"
| "map_auth_error _ = internal_error"

section \<open>What the handlers share\<close>

definition address_of :: "front \<Rightarrow> request \<Rightarrow> string" where
  "address_of F q = client_ip (fr_net F) (fr_trust F) (rq_remote q) (rq_forwarded q)"

text \<open>\<open>allowIP\<close>\<close>

definition per_ip :: "front \<Rightarrow> request \<Rightarrow> (web \<Rightarrow> web \<times> 'a reply) \<Rightarrow> web \<Rightarrow> web \<times> 'a reply" where
  "per_ip F q k W =
     (case allow (rq_at q) ''ip'' (address_of F q) (wb_limiter W) of
        (L, Some d) \<Rightarrow> (W\<lparr>wb_limiter := L\<rparr>, Throttled (retry_after d) ''too many requests'')
      | (L, None) \<Rightarrow> k (W\<lparr>wb_limiter := L\<rparr>))"

text \<open>The stricter limiter of an address that mail is sent to.\<close>

definition per_email ::
  "front \<Rightarrow> request \<Rightarrow> string \<Rightarrow> string \<Rightarrow> string \<Rightarrow> (web \<Rightarrow> web \<times> 'a reply) \<Rightarrow> web \<Rightarrow> web \<times> 'a reply" where
  "per_email F q bucket email text k W =
     (case allow (rq_at q) bucket (normalize_email (fr_service F) email) (wb_resend W) of
        (L, Some d) \<Rightarrow> (W\<lparr>wb_resend := L\<rparr>, Throttled (retry_after d) text)
      | (L, None) \<Rightarrow> k (W\<lparr>wb_resend := L\<rparr>))"

definition with_json :: "'b body \<Rightarrow> ('b \<Rightarrow> web \<Rightarrow> web \<times> 'a reply) \<Rightarrow> web \<Rightarrow> web \<times> 'a reply" where
  "with_json b k W = (case decode_json b of Inl r \<Rightarrow> (W, r) | Inr x \<Rightarrow> k x W)"

text \<open>\<open>RequireUser\<close> with the text of each refusal.\<close>

definition gate_user :: "service \<Rightarrow> call \<Rightarrow> string \<Rightarrow> accounts \<Rightarrow> string + user \<times> uuid" where
  "gate_user S c header A =
     (case bearer header of
        None \<Rightarrow> Inl ''missing bearer token''
      | Some raw \<Rightarrow>
          (case verify_access_token (sv_jwt S) (sv_manager S) (ca_wall c) raw of
             None \<Rightarrow> Inl ''invalid access token''
           | Some claims \<Rightarrow>
               (case (sv_uuid_parse S (acl_user claims), sv_uuid_parse S (acl_device claims)) of
                  (Some i, Some dev) \<Rightarrow>
                    (case get_user_by_id i A of
                       None \<Rightarrow> Inl ''account unavailable''
                     | Some u \<Rightarrow>
                         if us_deleted u \<noteq> None \<or> us_status u \<noteq> ''active'' then Inl ''account unavailable''
                         else Inr (u, dev))
                | _ \<Rightarrow> Inl ''malformed token subject'')))"

lemma gate_user_require: "gate_user S c header A = Inr p \<longleftrightarrow> require_user S c header A = Some p"
  by (auto simp: gate_user_def require_user_def split: option.splits if_splits)

definition as_user ::
  "front \<Rightarrow> call \<Rightarrow> request \<Rightarrow> (user \<times> uuid \<Rightarrow> web \<Rightarrow> web \<times> 'a reply) \<Rightarrow> web \<Rightarrow> web \<times> 'a reply" where
  "as_user F c q k W =
     (case gate_user (fr_service F) c (rq_authorization q) (wb_accounts W) of
        Inl t \<Rightarrow> (W, Failed 401 (Text t))
      | Inr p \<Rightarrow> k p W)"

text \<open>Run an operation of the account service and answer its error or its result.\<close>

definition run ::
  "(accounts \<Rightarrow> accounts \<times> (auth_error + 'b)) \<Rightarrow> (auth_error \<Rightarrow> 'a reply) \<Rightarrow> ('b \<Rightarrow> 'a reply) \<Rightarrow> web
     \<Rightarrow> web \<times> 'a reply" where
  "run op bad good W =
     (case op (wb_accounts W) of (A, r) \<Rightarrow> (W\<lparr>wb_accounts := A\<rparr>, case_sum bad good r))"

lemma run_simps [simp]:
  "fst (run op bad good W) = W\<lparr>wb_accounts := fst (op (wb_accounts W))\<rparr>"
  "snd (run op bad good W) = case_sum bad good (snd (op (wb_accounts W)))"
  by (simp_all add: run_def split: prod.split)

section \<open>Registration and verification (routes.go)\<close>

definition register_route ::
  "front \<Rightarrow> call \<Rightarrow> request \<Rightarrow> register_request body \<Rightarrow> web \<Rightarrow> web \<times> account_answer reply" where
  "register_route F c q b =
     per_ip F q (with_json b (\<lambda>req.
       run (register (fr_service F) c req (address_of F q)) map_auth_error (\<lambda>_. code_sent)))"

definition verify_email_route ::
  "front \<Rightarrow> call \<Rightarrow> request \<Rightarrow> (string \<times> string \<times> device_info) body \<Rightarrow> web \<Rightarrow> web \<times> account_answer reply" where
  "verify_email_route F c q b =
     per_ip F q (with_json b (\<lambda>(email, code, di).
       run (verify_email (fr_service F) c email code di (address_of F q)) map_auth_error (Json o Signed_In)))"

text \<open>Of the errors of a resend only the cooldown and a missing mail transport show.\<close>

definition resend_error :: "service \<Rightarrow> auth_error \<Rightarrow> account_answer reply" where
  "resend_error S e =
     (if e = ResendCooldown
      then Throttled (retry_after (1000 * sv_cooldown S)) ''please wait before requesting another code''
      else if e = NoMailTransport then map_auth_error e
      else code_sent)"

definition resend_route :: "front \<Rightarrow> call \<Rightarrow> request \<Rightarrow> string body \<Rightarrow> web \<Rightarrow> web \<times> account_answer reply" where
  "resend_route F c q b =
     per_ip F q (with_json b (\<lambda>email.
       per_email F q ''resend'' email ''please wait before requesting another code''
         (run (resend (fr_service F) c email) (resend_error (fr_service F)) (\<lambda>_. code_sent))))"

section \<open>Login and tokens (routes.go)\<close>

definition login_route ::
  "front \<Rightarrow> call \<Rightarrow> request \<Rightarrow> (string \<times> string \<times> device_info) body \<Rightarrow> web \<Rightarrow> web \<times> account_answer reply" where
  "login_route F c q b =
     per_ip F q (with_json b (\<lambda>(email, password, di).
       run (login (fr_service F) c email password di (address_of F q)) map_auth_error (Json o Signed_In)))"

definition refresh_route :: "front \<Rightarrow> call \<Rightarrow> request \<Rightarrow> string body \<Rightarrow> web \<Rightarrow> web \<times> account_answer reply" where
  "refresh_route F c q b =
     per_ip F q (with_json b (\<lambda>tok.
       run (refresh (fr_service F) c tok) map_auth_error (Json o Signed_In)))"

text \<open>A logout is never limited and never refused.\<close>

definition logout_route :: "front \<Rightarrow> call \<Rightarrow> (string \<times> bool) body \<Rightarrow> web \<Rightarrow> web \<times> account_answer reply" where
  "logout_route F c b =
     with_json b (\<lambda>(tok, whole_device).
       run (logout (fr_service F) c tok whole_device) (\<lambda>_. No_Content) (\<lambda>_. No_Content))"

definition logout_all_route :: "front \<Rightarrow> call \<Rightarrow> request \<Rightarrow> web \<Rightarrow> web \<times> account_answer reply" where
  "logout_all_route F c q =
     as_user F c q (\<lambda>(u, _).
       run (logout_all_user (fr_service F) c (us_id u) (address_of F q)) (\<lambda>_. internal_error) (\<lambda>_. No_Content))"

section \<open>Passwords (routes.go)\<close>

definition forgot_route :: "front \<Rightarrow> call \<Rightarrow> request \<Rightarrow> string body \<Rightarrow> web \<Rightarrow> web \<times> account_answer reply" where
  "forgot_route F c q b =
     (let sent = Json (Sent ''If the email corresponds to a valid account, we have sent reset instructions.'') in
      per_ip F q (with_json b (\<lambda>email.
        per_email F q ''forgot'' email ''please wait before retrying''
          (run (forgot_password (fr_service F) c email) (\<lambda>_. sent) (\<lambda>_. sent)))))"

definition reset_error :: "auth_error \<Rightarrow> account_answer reply" where
  "reset_error e =
     (if e = BadCode then Failed 400 (Text ''invalid or expired reset token'') else map_auth_error e)"

definition reset_route :: "front \<Rightarrow> call \<Rightarrow> request \<Rightarrow> (string \<times> string) body \<Rightarrow> web \<Rightarrow> web \<times> account_answer reply" where
  "reset_route F c q b =
     per_ip F q (with_json b (\<lambda>(tok, password).
       run (reset_password (fr_service F) c tok password (address_of F q)) reset_error
         (\<lambda>_. Json Password_Reset)))"

definition change_password_route ::
  "front \<Rightarrow> call \<Rightarrow> request \<Rightarrow> (string \<times> string) body \<Rightarrow> web \<Rightarrow> web \<times> account_answer reply" where
  "change_password_route F c q b =
     as_user F c q (\<lambda>(u, dev). with_json b (\<lambda>(current, new).
       run (change_password (fr_service F) c (us_id u) dev current new (address_of F q)) map_auth_error
         (\<lambda>_. Json Password_Changed)))"

section \<open>Devices (routes.go)\<close>

definition list_devices_route :: "front \<Rightarrow> call \<Rightarrow> request \<Rightarrow> web \<Rightarrow> web \<times> account_answer reply" where
  "list_devices_route F c q =
     as_user F c q (\<lambda>(u, dev) W. (W, Json (Device_List (list_devices (us_id u) dev (wb_accounts W)))))"

definition revoke_device_route :: "front \<Rightarrow> call \<Rightarrow> request \<Rightarrow> string \<Rightarrow> web \<Rightarrow> web \<times> account_answer reply" where
  "revoke_device_route F c q device =
     as_user F c q (\<lambda>(u, _).
       case sv_uuid_parse (fr_service F) device of
         None \<Rightarrow> (\<lambda>W. (W, Failed 400 (Text ''invalid device id'')))
       | Some i \<Rightarrow>
           run (revoke_device (fr_service F) c (us_id u) i (address_of F q))
             (\<lambda>e. if e = NotFound then Failed 404 (Text ''device not found'') else internal_error)
             (\<lambda>_. No_Content))"

section \<open>Apple identity tokens (apple.go)\<close>

text \<open>The big-endian value of some bytes, and the lowest 64 bits of it as a signed integer.\<close>

definition bytes_value :: "8 word list \<Rightarrow> int" where
  "bytes_value bs = foldl (\<lambda>n b. 256 * n + uint b) 0 bs"

definition decode_b64_int :: "apple_library \<Rightarrow> string \<Rightarrow> int option" where
  "decode_b64_int L s = map_option bytes_value (al_base64 L s)"

definition low_int64 :: "int \<Rightarrow> int" where
  "low_int64 n = sint (word_of_int n :: 64 word)"

text \<open>The keys of an answer; a later key of the same id counts. Keys that do not decode are skipped.\<close>

fun rsa_keys :: "apple_library \<Rightarrow> jwk list \<Rightarrow> (string \<times> rsa_key) list" where
  "rsa_keys L [] = []"
| "rsa_keys L (k # ks) =
     (if jk_kty k \<noteq> ''RSA'' then rsa_keys L ks
      else
        (case (decode_b64_int L (jk_n k), decode_b64_int L (jk_e k)) of
           (Some n, Some e) \<Rightarrow> rsa_keys L ks @ [(jk_kid k, n, low_int64 e)]
         | _ \<Rightarrow> rsa_keys L ks))"

text \<open>What the request for the keys gives; an answer with another status than 200 has its own text.\<close>

datatype fetched =
    Unreachable
  | Bad_Status
  | Key_Set "jwk list"

definition token_failed :: string where
  "token_failed = ''token failed verification''"

text \<open>\<open>jwksCache.get\<close>: keys are kept for an hour; a key that is not among them is fetched.\<close>

definition apple_key ::
  "apple_library \<Rightarrow> fetched \<Rightarrow> int \<Rightarrow> string \<Rightarrow> key_cache \<Rightarrow> key_cache \<times> (string + rsa_key)" where
  "apple_key L f now kid K =
     (case (case kc_fetched K of
              None \<Rightarrow> None
            | Some t \<Rightarrow> if now - t < 60 * minute_ns then map_of (kc_keys K) kid else None) of
        Some k \<Rightarrow> (K, Inr k)
      | None \<Rightarrow>
          (case f of
             Unreachable \<Rightarrow> (K, Inl token_failed)
           | Bad_Status \<Rightarrow> (K, Inl ''jwks unavailable'')
           | Key_Set ks \<Rightarrow>
               (let K = \<lparr>kc_keys = rsa_keys L ks, kc_fetched = Some now\<rparr> in
                case map_of (kc_keys K) kid of
                  None \<Rightarrow> (K, Inl ''no matching JWKS key'')
                | Some k \<Rightarrow> (K, Inr k))))"

text \<open>
  \<open>VerifyAppleIdentity\<close>: the library refuses an algorithm other than RS256 before it asks for a
  key. The issue time may be at most ten minutes ahead.
\<close>

definition verify_apple_identity ::
  "apple_library \<Rightarrow> fetched \<Rightarrow> call \<Rightarrow> int \<Rightarrow> string \<Rightarrow> key_cache \<Rightarrow> key_cache \<times> (string + string)" where
  "verify_apple_identity L f c now raw K =
     (case al_header L raw of
        None \<Rightarrow> (K, Inl token_failed)
      | Some (alg, kid) \<Rightarrow>
          if alg \<noteq> ''RS256'' then (K, Inl token_failed)
          else if kid = None \<or> kid = Some [] then (K, Inl ''token header has no kid'')
          else
            (case apple_key L f now (deref kid) K of
               (K, Inl e) \<Rightarrow> (K, Inl e)
             | (K, Inr key) \<Rightarrow>
                 (K, case al_claims L key (ca_wall c) raw of
                       None \<Rightarrow> Inl token_failed
                     | Some (sub, iat) \<Rightarrow>
                         if sub = [] then Inl ''token has no subject''
                         else if (case iat of None \<Rightarrow> False
                                  | Some t \<Rightarrow> of_int (unix_seconds (ca_wall c + minutes 10)) < t)
                         then Inl ''token issued in the future''
                         else Inr sub)))"

definition with_apple ::
  "front \<Rightarrow> fetched \<Rightarrow> call \<Rightarrow> request \<Rightarrow> string \<Rightarrow> (string \<Rightarrow> web \<Rightarrow> web \<times> 'a reply) \<Rightarrow> web
     \<Rightarrow> web \<times> 'a reply" where
  "with_apple F f c q raw k W =
     (case verify_apple_identity (fr_apple F) f c (rq_at q) raw (wb_keys W) of
        (K, Inl t) \<Rightarrow> (W\<lparr>wb_keys := K\<rparr>, Failed 401 (Text t))
      | (K, Inr sub) \<Rightarrow> k sub (W\<lparr>wb_keys := K\<rparr>))"

definition apple_route ::
  "front \<Rightarrow> fetched \<Rightarrow> call \<Rightarrow> request \<Rightarrow> (string \<times> device_info) body \<Rightarrow> web \<Rightarrow> web \<times> account_answer reply" where
  "apple_route F f c q b =
     per_ip F q (with_json b (\<lambda>(tok, di).
       if tok = [] then (\<lambda>W. (W, Failed 401 (Text ''missing identity token'')))
       else
         with_apple F f c q tok (\<lambda>sub.
           run (apple_login (fr_service F) c sub di) map_auth_error (Json o Signed_In))))"

section \<open>Development login (routes.go)\<close>

definition dev_login_route ::
  "front \<Rightarrow> call \<Rightarrow> (string \<times> device_info) body \<Rightarrow> web \<Rightarrow> web \<times> account_answer reply" where
  "dev_login_route F c b =
     (if \<not> fr_dev_login F then (\<lambda>W. (W, Failed 404 (Text ''Not Found'')))
      else
        with_json b (\<lambda>(name, di).
          run (dev_login (fr_service F) c name di) map_auth_error (Json o Signed_In)))"

section \<open>The profile (profile.go)\<close>

definition patch_me_route ::
  "front \<Rightarrow> call \<Rightarrow> request \<Rightarrow> string option body \<Rightarrow> web \<Rightarrow> web \<times> account_answer reply" where
  "patch_me_route F c q b =
     as_user F c q (\<lambda>(u, _). with_json b (\<lambda>name.
       case name of
         None \<Rightarrow> (\<lambda>W. (W, Failed 400 (Text ''displayName is required'')))
       | Some n \<Rightarrow>
           run (update_profile (fr_service F) c (us_id u) n (address_of F q)) map_auth_error (Json o Profile)))"

definition me_route :: "front \<Rightarrow> call \<Rightarrow> request \<Rightarrow> web \<Rightarrow> web \<times> account_answer reply" where
  "me_route F c q =
     as_user F c q (\<lambda>(u, _) W.
       (W, case get_me_profile (fr_service F) c (us_id u) (wb_accounts W) of
             Inl _ \<Rightarrow> internal_error | Inr p \<Rightarrow> Json (Me p)))"

definition email_change_error :: "auth_error \<Rightarrow> account_answer reply" where
  "email_change_error e =
     (if e = EmailTaken then Failed 409 (Text ''this email is already in use'') else map_auth_error e)"

definition request_email_change_route ::
  "front \<Rightarrow> call \<Rightarrow> request \<Rightarrow> (string \<times> string) body \<Rightarrow> web \<Rightarrow> web \<times> account_answer reply" where
  "request_email_change_route F c q b =
     as_user F c q (\<lambda>(u, _). with_json b (\<lambda>(password, email).
       if password = [] \<or> trim_space email = []
       then (\<lambda>W. (W, Failed 400 (Text ''currentPassword and newEmail are required'')))
       else
         run (request_email_change (fr_service F) c (us_id u) password email (address_of F q))
           email_change_error (\<lambda>(target, expires). Json (Email_Change target expires))))"

definition verify_email_change_route ::
  "front \<Rightarrow> call \<Rightarrow> request \<Rightarrow> (string \<times> device_info) body \<Rightarrow> web \<Rightarrow> web \<times> account_answer reply" where
  "verify_email_change_route F c q b =
     as_user F c q (\<lambda>(u, dev). with_json b (\<lambda>(code, di).
       run (verify_email_change (fr_service F) c (us_id u) dev code di (address_of F q)) map_auth_error
         (Json o Signed_In)))"

definition bind_apple_route ::
  "front \<Rightarrow> fetched \<Rightarrow> call \<Rightarrow> request \<Rightarrow> string body \<Rightarrow> web \<Rightarrow> web \<times> account_answer reply" where
  "bind_apple_route F f c q b =
     as_user F c q (\<lambda>(u, _). with_json b (\<lambda>tok.
       if tok = [] then (\<lambda>W. (W, Failed 400 (Text ''missing identity token'')))
       else
         with_apple F f c q tok (\<lambda>sub.
           run (bind_apple (fr_service F) c (us_id u) sub (address_of F q)) map_auth_error
             (\<lambda>_. Json (Apple_Bound True)))))"

definition unbind_error :: "auth_error \<Rightarrow> account_answer reply" where
  "unbind_error e =
     (if e = NotFound then Failed 404 (Text ''no Apple account is linked'') else map_auth_error e)"

definition unbind_apple_route :: "front \<Rightarrow> call \<Rightarrow> request \<Rightarrow> string body \<Rightarrow> web \<Rightarrow> web \<times> account_answer reply" where
  "unbind_apple_route F c q b =
     as_user F c q (\<lambda>(u, _). with_json b (\<lambda>password.
       if password = [] then (\<lambda>W. (W, Failed 400 (Text ''currentPassword is required'')))
       else
         run (unbind_apple (fr_service F) c (us_id u) password (address_of F q)) unbind_error
           (\<lambda>_. Json (Apple_Bound False))))"

section \<open>Capabilities (capabilities.go)\<close>

definition capabilities_route :: "front \<Rightarrow> web \<Rightarrow> web \<times> account_answer reply" where
  "capabilities_route F W =
     (W, Json (Capabilities
       \<lparr>cp_registration = sv_mode (fr_service F),
        cp_requires_invitation = (sv_mode (fr_service F) = ''invite_only''),
        cp_password_login = True, cp_apple_login = True, cp_maintenance = False,
        cp_schemas = fr_schemas F\<rparr>))"

definition method_not_allowed_route :: "web \<Rightarrow> web \<times> account_answer reply" where
  "method_not_allowed_route W = (W, Failed 405 (Text ''method not allowed''))"

end
