(* ===== verification/File_Routes.thy ===== *)
theory File_Routes
  imports Files Routes
begin

text \<open>
  The endpoints that move the bytes of attachments and of materials (internal/httpapi/attachmentapi,
  internal/httpapi/materialapi), the rows they check (GetAttachmentMeta, GetMaterialMeta), and what
  the other parts of the server do to the files: the hooks after a push, the cleanup, and the
  deletion of accounts and of data.
\<close>

section \<open>Rows\<close>

record attachment_meta =
  at_deleted :: bool
  at_mime :: string
  at_size :: int
  at_hash :: string

definition get_attachment_meta :: "uuid \<Rightarrow> uuid \<Rightarrow> db \<Rightarrow> attachment_meta option" where
  "get_attachment_meta u i d =
     map_option (\<lambda>r. \<lparr>at_deleted = is_deleted r, at_mime = a_mime r, at_size = a_file_size r, at_hash = a_hash r\<rparr>)
       (fetch attachments_tab u i d)"

record material_meta = attachment_meta +
  mt_borrows :: bool
  mt_link :: bool

definition get_material_meta :: "uuid \<Rightarrow> uuid \<Rightarrow> db \<Rightarrow> material_meta option" where
  "get_material_meta u i d =
     map_option (\<lambda>r. \<lparr>at_deleted = is_deleted r, at_mime = m_mime r, at_size = m_file_size r, at_hash = m_hash r,
                      mt_borrows = (m_source_attachment r \<noteq> None), mt_link = (m_source_url r \<noteq> [])\<rparr>)
       (fetch materials_tab u i d)"

section \<open>The site\<close>

record site =
  si_server :: server
  si_files :: files

definition site_db :: "site \<Rightarrow> db" where
  "site_db W = st_db (sr_sync (si_server W))"

record file_request =
  fq_authorization :: string
  fq_id :: string
  fq_variant :: string
  fq_hash :: string
  fq_head :: bool
  fq_body :: stream

datatype file_payload =
    Stored uuid string nat
  | Content string string nat "string option"
  | Uploaded uuid string bool

definition set_max_upload :: "int \<Rightarrow> int \<Rightarrow> int" where
  "set_max_upload n cap = (if 0 < n then n else cap)"

text \<open>The caps the handlers start with: 40 and 200 MiB.\<close>

definition attachment_cap :: int where
  "attachment_cap = 40 * 1048576"

definition material_cap :: int where
  "material_cap = 200 * 1048576"

section \<open>What the handlers share\<close>

text \<open>\<open>parseIDs\<close>, with the noun of the endpoint\<close>

definition parse_ids ::
  "service \<Rightarrow> call \<Rightarrow> string \<Rightarrow> file_request \<Rightarrow> site \<Rightarrow> file_payload reply + uuid \<times> uuid" where
  "parse_ids S c noun q W =
     (case gate_user S c (fq_authorization q) (sr_accounts (si_server W)) of
        Inl t \<Rightarrow> Inl (Failed 401 (Text t))
      | Inr (u, _) \<Rightarrow>
          (case sv_uuid_parse S (fq_id q) of
             None \<Rightarrow> Inl (Failed 400 (Text (''invalid '' @ noun @ '' id'')))
           | Some i \<Rightarrow> Inr (us_id u, i)))"

definition variant_from_path :: "file_request \<Rightarrow> file_payload reply + string" where
  "variant_from_path q =
     (if fq_variant q = ''original'' then Inr variant_original
      else if fq_variant q = ''preview'' then Inr variant_preview
      else Inl (Failed 400 (Text ''invalid variant (original|preview)'')))"

text \<open>A row that exists and is not deleted.\<close>

definition live_meta :: "string \<Rightarrow> 'm attachment_meta_scheme option \<Rightarrow> file_payload reply + 'm attachment_meta_scheme" where
  "live_meta noun m =
     (case m of
        None \<Rightarrow> Inl (Failed 404 (Text (noun @ '' not found'')))
      | Some m \<Rightarrow> if at_deleted m then Inl (Failed 404 (Text (noun @ '' not found''))) else Inr m)"

text \<open>The declared hash: present, and the row's own when the row has one.\<close>

definition declared_hash :: "string \<Rightarrow> 'm attachment_meta_scheme \<Rightarrow> file_request \<Rightarrow> file_payload reply + string" where
  "declared_hash noun m q =
     (if fq_hash q = [] then Inl (Failed 400 (Text ''X-Content-Hash header required''))
      else if at_hash m \<noteq> [] \<and> fq_hash q \<noteq> at_hash m
      then Inl (Failed 409 (Coded ''hash_mismatch'' (''X-Content-Hash does not match the '' @ noun @ '' metadata'')))
      else Inr (fq_hash q))"

fun write_error :: "file_error \<Rightarrow> file_payload reply" where
  "write_error HashMismatch = Failed 409 (Coded ''hash_mismatch'' ''uploaded bytes do not match the declared hash'')"
| "write_error InvalidName = Failed 400 (Text ''invalid content hash'')"
| "write_error _ = internal_error"

definition file_content :: "service \<Rightarrow> 'm attachment_meta_scheme \<Rightarrow> string \<Rightarrow> bool \<Rightarrow> stored \<Rightarrow> file_payload" where
  "file_content S m etag head_only f =
     Content (if at_mime m \<noteq> [] then at_mime m else ''application/octet-stream'') etag
       (length (sf_bytes f)) (if head_only then None else Some (sf_bytes f))"

text \<open>A handler ends with its first refusal, or with what it does to the files.\<close>

definition finish :: "file_payload reply + site \<times> file_payload reply \<Rightarrow> site \<Rightarrow> site \<times> file_payload reply" where
  "finish r W = (case r of Inl e \<Rightarrow> (W, e) | Inr x \<Rightarrow> x)"

definition store_upload ::
  "service \<Rightarrow> disk \<Rightarrow> int \<Rightarrow> uuid \<Rightarrow> uuid \<Rightarrow> string \<Rightarrow> string \<Rightarrow> file_request \<Rightarrow> site \<Rightarrow> site \<times> file_payload reply" where
  "store_upload S K cap u i hash v q W =
     (case write_file (sv_sha256 S) K u i hash v (max_bytes cap (fq_body q)) (si_files W) of
        (D, Inl e) \<Rightarrow> (W\<lparr>si_files := D\<rparr>, write_error e)
      | (D, Inr n) \<Rightarrow> (W\<lparr>si_files := D\<rparr>, Json (Stored i v n)))"

definition remove_files :: "disk \<Rightarrow> uuid \<Rightarrow> uuid \<Rightarrow> site \<Rightarrow> site \<times> file_payload reply" where
  "remove_files K u i W =
     (case delete_files K u i (si_files W) of
        (D, ok) \<Rightarrow> (W\<lparr>si_files := D\<rparr>, if ok then No_Content else internal_error))"

section \<open>Attachments (attachmentapi.go)\<close>

definition upload_attachment ::
  "service \<Rightarrow> call \<Rightarrow> disk \<Rightarrow> int \<Rightarrow> file_request \<Rightarrow> site \<Rightarrow> site \<times> file_payload reply" where
  "upload_attachment S c K cap q W =
     finish
       (bindE (parse_ids S c ''attachment'' q W) (\<lambda>(u, i).
        bindE (variant_from_path q) (\<lambda>v.
        bindE (live_meta ''attachment'' (get_attachment_meta u i (site_db W))) (\<lambda>m.
        bindE (declared_hash ''attachment'' m q) (\<lambda>hash.
          Inr (store_upload S K cap u i hash v q W)))))) W"

definition attachment_etag :: "service \<Rightarrow> uuid \<Rightarrow> string \<Rightarrow> string" where
  "attachment_etag S i v = [CHR 0x22] @ sv_uuid_text S i @ ''_'' @ v @ [CHR 0x22]"

definition download_attachment ::
  "service \<Rightarrow> call \<Rightarrow> disk \<Rightarrow> file_request \<Rightarrow> site \<Rightarrow> site \<times> file_payload reply" where
  "download_attachment S c K q W =
     finish
       (bindE (parse_ids S c ''attachment'' q W) (\<lambda>(u, i).
        bindE (variant_from_path q) (\<lambda>v.
        bindE (live_meta ''attachment'' (get_attachment_meta u i (site_db W))) (\<lambda>m.
          case open_file K u i v (si_files W) of
            None \<Rightarrow> Inl (Failed 404 (Text ''file not uploaded yet''))
          | Some f \<Rightarrow> Inr (W, Json (file_content S m (attachment_etag S i v) (fq_head q) f)))))) W"

text \<open>The probe of an attachment asks the store only: it looks at no row.\<close>

definition attachment_status ::
  "service \<Rightarrow> call \<Rightarrow> disk \<Rightarrow> file_request \<Rightarrow> site \<Rightarrow> site \<times> file_payload reply" where
  "attachment_status S c K q W =
     finish
       (bindE (parse_ids S c ''attachment'' q W) (\<lambda>(u, i).
        bindE (variant_from_path q) (\<lambda>v.
          Inr (W, Json (Uploaded i v (has_file K u i v (si_files W))))))) W"

definition delete_attachment_files ::
  "service \<Rightarrow> call \<Rightarrow> disk \<Rightarrow> file_request \<Rightarrow> site \<Rightarrow> site \<times> file_payload reply" where
  "delete_attachment_files S c K q W =
     finish
       (bindE (parse_ids S c ''attachment'' q W) (\<lambda>(u, i).
        bindE (live_meta ''attachment'' (get_attachment_meta u i (site_db W))) (\<lambda>m.
          Inr (remove_files K u i W)))) W"

section \<open>Materials (materialapi.go)\<close>

text \<open>Materials that borrow the file of an attachment, and links, have no file of their own.\<close>

definition own_file :: "material_meta \<Rightarrow> file_payload reply + material_meta" where
  "own_file m =
     (if mt_borrows m then Inl (Failed 404 (Text (''material borrows an attachment'' @ [CHR 0x27] @ ''s files'')))
      else if mt_link m then Inl (Failed 404 (Text ''material is a link''))
      else Inr m)"

definition upload_material ::
  "service \<Rightarrow> call \<Rightarrow> disk \<Rightarrow> int \<Rightarrow> file_request \<Rightarrow> site \<Rightarrow> site \<times> file_payload reply" where
  "upload_material S c K cap q W =
     finish
       (bindE (parse_ids S c ''material'' q W) (\<lambda>(u, i).
        bindE (live_meta ''material'' (get_material_meta u i (site_db W))) (\<lambda>m.
        bindE (own_file m) (\<lambda>m.
        bindE (declared_hash ''material'' m q) (\<lambda>hash.
          Inr (store_upload S K cap u i hash variant_original q W)))))) W"

definition download_material ::
  "service \<Rightarrow> call \<Rightarrow> disk \<Rightarrow> file_request \<Rightarrow> site \<Rightarrow> site \<times> file_payload reply" where
  "download_material S c K q W =
     finish
       (bindE (parse_ids S c ''material'' q W) (\<lambda>(u, i).
        bindE (live_meta ''material'' (get_material_meta u i (site_db W))) (\<lambda>m.
        bindE (own_file m) (\<lambda>m.
          case open_file K u i variant_original (si_files W) of
            None \<Rightarrow> Inl (Failed 404 (Text ''file not uploaded yet''))
          | Some f \<Rightarrow> Inr (W, Json (file_content S m (attachment_etag S i ''file'') (fq_head q) f)))))) W"

definition material_status ::
  "service \<Rightarrow> call \<Rightarrow> disk \<Rightarrow> file_request \<Rightarrow> site \<Rightarrow> site \<times> file_payload reply" where
  "material_status S c K q W =
     finish
       (bindE (parse_ids S c ''material'' q W) (\<lambda>(u, i).
        bindE (live_meta ''material'' (get_material_meta u i (site_db W))) (\<lambda>m.
          Inr (W, Json (Uploaded i variant_original
            (\<not> mt_borrows m \<and> \<not> mt_link m \<and> has_file K u i variant_original (si_files W))))))) W"

definition delete_material_files ::
  "service \<Rightarrow> call \<Rightarrow> disk \<Rightarrow> file_request \<Rightarrow> site \<Rightarrow> site \<times> file_payload reply" where
  "delete_material_files S c K q W =
     finish
       (bindE (parse_ids S c ''material'' q W) (\<lambda>(u, i).
        bindE (live_meta ''material'' (get_material_meta u i (site_db W))) (\<lambda>m.
          Inr (remove_files K u i W)))) W"

section \<open>Files of other requests\<close>

text \<open>The hooks of a push run after its transaction has committed.\<close>

definition push_with_files ::
  "disk \<Rightarrow> env \<Rightarrow> uuid \<Rightarrow> push_item list \<Rightarrow> site \<Rightarrow> site \<times> (db_error + push_result list)" where
  "push_with_files K E u items W =
     (case push_at E u items (sr_sync (si_server W)) of
        (X, Inl e) \<Rightarrow> (W\<lparr>si_server := (si_server W)\<lparr>sr_sync := X\<rparr>\<rparr>, Inl e)
      | (X, Inr (rs, hooks)) \<Rightarrow>
          (W\<lparr>si_server := (si_server W)\<lparr>sr_sync := X\<rparr>, si_files := reap_files K hooks (si_files W)\<rparr>, Inr rs))"

definition cleanup_with_files :: "disk \<Rightarrow> call \<Rightarrow> bool \<Rightarrow> int \<Rightarrow> int \<Rightarrow> int \<Rightarrow> site \<Rightarrow> site" where
  "cleanup_with_files K c wired retention_days login_days audit_days W =
     (case cleanup_tick c wired retention_days login_days audit_days (si_server W) of
        (R, reaped) \<Rightarrow>
          W\<lparr>si_server := R, si_files := (if wired then reap_files K reaped (si_files W) else si_files W)\<rparr>)"

text \<open>
  \<open>purgeAttachmentFiles\<close> runs after the rows are gone, for requests of the user. A deletion by an
  administrator (internal/admin) leaves the files.
\<close>

definition delete_cloud_data_with_files ::
  "disk \<Rightarrow> service \<Rightarrow> call \<Rightarrow> string \<Rightarrow> site \<Rightarrow> site \<times> unit response" where
  "delete_cloud_data_with_files K S c header W =
     (case require_user S c header (sr_accounts (si_server W)) of
        None \<Rightarrow> (W, Unauthorized)
      | Some (u, _) \<Rightarrow>
          (W\<lparr>si_server := purge_sync (us_id u) (si_server W),
             si_files := fst (delete_user_files K (us_id u) (si_files W))\<rparr>, Answer ()))"

definition delete_account_with_files ::
  "disk \<Rightarrow> service \<Rightarrow> call \<Rightarrow> string \<Rightarrow> string \<Rightarrow> site \<Rightarrow> site \<times> unit response" where
  "delete_account_with_files K S c header ip W =
     (case require_user S c header (sr_accounts (si_server W)) of
        None \<Rightarrow> (W, Unauthorized)
      | Some (u, _) \<Rightarrow>
          (case delete_account S c (us_id u) ip (si_server W) of
             (R, Inl _) \<Rightarrow> (W\<lparr>si_server := R\<rparr>, InternalError)
           | (R, Inr _) \<Rightarrow>
               (W\<lparr>si_server := R, si_files := fst (delete_user_files K (us_id u) (si_files W))\<rparr>, Answer ())))"

definition admin_delete_user_with_files ::
  "service \<Rightarrow> call \<Rightarrow> uuid \<Rightarrow> uuid \<Rightarrow> string \<Rightarrow> site \<Rightarrow> site \<times> (auth_error + unit)" where
  "admin_delete_user_with_files S c admin i reason W =
     (case admin_delete_user S c admin i reason (si_server W) of
        (R, r) \<Rightarrow> (W\<lparr>si_server := R\<rparr>, r))"

end
