(* ===== verification/File_Properties.thy ===== *)
theory File_Properties
  imports File_Routes Account_Examples
begin

text \<open>
  What the file store keeps to: under any interleaving of uploads, crashes and removals every file
  that can be opened has the content its name declares; the operation that the handlers call is one
  of these runs; and what a download gives after an upload.
\<close>

section \<open>The store step by step\<close>

text \<open>
  The published files, and the temporary files of unfinished uploads by their random names. A crash
  of the server changes neither, so it needs no step: its temporary files stay.
\<close>

record temp =
  tm_user :: uuid
  tm_entity :: uuid
  tm_bytes :: string

record shelf =
  sh_files :: files
  sh_temps :: "nat \<Rightarrow> temp option"

inductive shelf_step :: "(string \<Rightarrow> 8 word list) \<Rightarrow> shelf \<Rightarrow> shelf \<Rightarrow> bool"
  for H :: "string \<Rightarrow> 8 word list" where
  begins: "sh_temps X t = None \<Longrightarrow>
     shelf_step H X (X\<lparr>sh_temps := (sh_temps X)(t \<mapsto> \<lparr>tm_user = u, tm_entity = a, tm_bytes = []\<rparr>)\<rparr>)"
| appends: "sh_temps X t = Some tmp \<Longrightarrow>
     shelf_step H X (X\<lparr>sh_temps := (sh_temps X)(t \<mapsto> tmp\<lparr>tm_bytes := tm_bytes tmp @ chunk\<rparr>)\<rparr>)"
| renames: "sh_temps X t = Some tmp \<Longrightarrow> path_name hash v = Some name \<Longrightarrow>
     hash = [] \<or> content_hash H (tm_bytes tmp) = lower_hex hash \<Longrightarrow>
     shelf_step H X
       \<lparr>sh_files = place (tm_user tmp) (tm_entity tmp) name (tm_bytes tmp) (sh_files X),
        sh_temps = (sh_temps X)(t := None)\<rparr>"
| gives_up: "shelf_step H X (X\<lparr>sh_temps := (sh_temps X)(t := None)\<rparr>)"
| removes: "shelf_step H X
     \<lparr>sh_files = fst (delete_files K u a (sh_files X)),
      sh_temps = (\<lambda>t. case sh_temps X t of None \<Rightarrow> None
        | Some tmp \<Rightarrow> if tm_user tmp = u \<and> tm_entity tmp = a then None else Some tmp)\<rparr>"
| removes_user: "shelf_step H X
     \<lparr>sh_files = fst (delete_user_files K u (sh_files X)),
      sh_temps = (\<lambda>t. case sh_temps X t of None \<Rightarrow> None
        | Some tmp \<Rightarrow> if tm_user tmp = u then None else Some tmp)\<rparr>"

inductive shelf_run :: "(string \<Rightarrow> 8 word list) \<Rightarrow> shelf \<Rightarrow> shelf \<Rightarrow> bool"
  for H :: "string \<Rightarrow> 8 word list" where
  stays: "shelf_run H X X"
| goes_on: "shelf_run H X Y \<Longrightarrow> shelf_step H Y Z \<Longrightarrow> shelf_run H X Z"

section \<open>Genuine files\<close>

definition genuine :: "(string \<Rightarrow> 8 word list) \<Rightarrow> files \<Rightarrow> bool" where
  "genuine H D \<longleftrightarrow>
     (\<forall>f\<in>set D. \<forall>hash v. sf_name f = file_name hash v \<longrightarrow> hash \<noteq> [] \<longrightarrow> list_all hex_char hash \<longrightarrow>
        content_hash H (sf_bytes f) = lower_hex hash)"

lemma genuine_place:
  assumes "genuine H D" and "path_name hash v = Some name"
    and "hash = [] \<or> content_hash H bytes = lower_hex hash"
  shows "genuine H (place u a name bytes D)"
  unfolding genuine_def
proof (intro ballI allI impI)
  fix f h w
  assume f: "f \<in> set (place u a name bytes D)" "sf_name f = file_name h w" "h \<noteq> []" "list_all hex_char h"
  from place_set [OF f(1)] show "content_hash H (sf_bytes f) = lower_hex h"
  proof
    assume new: "f = \<lparr>sf_user = u, sf_entity = a, sf_name = name, sf_bytes = bytes\<rparr>"
    then have "file_name hash v = file_name h w" "list_all hex_char hash"
      using f(2) assms(2) by (simp_all add: path_name_Some)
    then have "hash = h" using file_name_inj f(4) by blast
    then show ?thesis using assms(3) f(3) new by simp
  next
    assume "f \<in> set D"
    then show ?thesis using assms(1) f(2-4) unfolding genuine_def by blast
  qed
qed

lemma genuine_subset: "genuine H D \<Longrightarrow> set D' \<subseteq> set D \<Longrightarrow> genuine H D'"
  unfolding genuine_def by blast

lemma genuine_step: "shelf_step H X Y \<Longrightarrow> genuine H (sh_files X) \<Longrightarrow> genuine H (sh_files Y)"
proof (induction rule: shelf_step.induct)
  case (renames X t tmp hash v name)
  then show ?case using genuine_place [OF renames(4) renames(2,3)] by simp
qed (auto elim!: genuine_subset simp: delete_files_def delete_user_files_def)

lemma genuine_run: "shelf_run H X Y \<Longrightarrow> genuine H (sh_files X) \<Longrightarrow> genuine H (sh_files Y)"
  by (induction rule: shelf_run.induct) (auto intro: genuine_step)

lemma genuine_open:
  assumes "genuine H D" and "open_file K u a v D = Some f"
  obtains hash where "sf_user f = u" "sf_entity f = a" "sf_name f = file_name hash v" "hash \<noteq> []"
    "content_hash H (sf_bytes f) = lower_hex hash"
  using open_file_Some [OF assms(2)] assms(1) that unfolding genuine_def is_variant_iff by blast

section \<open>A write is a run\<close>

lemma shelf_run_trans: "shelf_run H Y Z \<Longrightarrow> shelf_run H X Y \<Longrightarrow> shelf_run H X Z"
  by (induction rule: shelf_run.induct) (auto intro: shelf_run.goes_on)

lemma write_is_run:
  assumes "write_file H K u a hash v body D = (D', r)" and t: "T t = None"
  shows "shelf_run H \<lparr>sh_files = D, sh_temps = T\<rparr> \<lparr>sh_files = D', sh_temps = T\<rparr>"
  using assms(1)
proof (cases rule: write_fileE)
  case Placed
  let ?empty = "\<lparr>tm_user = u, tm_entity = a, tm_bytes = []\<rparr>"
  let ?full = "\<lparr>tm_user = u, tm_entity = a, tm_bytes = fst body\<rparr>"
  have "shelf_step H \<lparr>sh_files = D, sh_temps = T\<rparr> \<lparr>sh_files = D, sh_temps = T(t \<mapsto> ?empty)\<rparr>"
    using shelf_step.begins [of "\<lparr>sh_files = D, sh_temps = T\<rparr>" t H u a] t by simp
  moreover have "shelf_step H \<lparr>sh_files = D, sh_temps = T(t \<mapsto> ?empty)\<rparr> \<lparr>sh_files = D, sh_temps = T(t \<mapsto> ?full)\<rparr>"
    using shelf_step.appends [of "\<lparr>sh_files = D, sh_temps = T(t \<mapsto> ?empty)\<rparr>" t ?empty H "fst body"] by simp
  moreover have "shelf_step H \<lparr>sh_files = D, sh_temps = T(t \<mapsto> ?full)\<rparr> \<lparr>sh_files = D', sh_temps = T\<rparr>"
    using shelf_step.renames [of "\<lparr>sh_files = D, sh_temps = T(t \<mapsto> ?full)\<rparr>" t ?full hash v
        "file_name hash v" H] Placed t
    by (auto simp: fun_upd_idem)
  ultimately show ?thesis
    by (meson shelf_run.stays shelf_run.goes_on)
qed (auto intro: shelf_run.stays)

lemma write_is_run_of:
  "write_file H K u a hash v body (sh_files X) = (D', r) \<Longrightarrow> sh_temps X t = None \<Longrightarrow>
     shelf_run H X \<lparr>sh_files = D', sh_temps = sh_temps X\<rparr>"
  by (cases X) (auto intro: write_is_run)

lemma genuine_write: "write_file H K u a hash v body D = (D', r) \<Longrightarrow> genuine H D \<Longrightarrow> genuine H D'"
  using genuine_run [OF write_is_run [where T = "\<lambda>t. None" and t = 0]] by simp

text \<open>
  C32: A file that can be opened is the user's own, and its SHA-256 is the hash in its name: this
  holds under any interleaving of the steps of concurrent uploads, removals and crashes, and what
  Write does to the published files is such an interleaving. No torn and no mislabelled file is
  ever served.
\<close>

theorem opened_files_are_genuine:
  assumes "shelf_run H \<lparr>sh_files = [], sh_temps = (\<lambda>t. None)\<rparr> X" and "sh_temps X t = None"
  shows "(open_file K u a v (sh_files X) = Some f \<longrightarrow>
      (\<exists>hash. sf_user f = u \<and> sf_entity f = a \<and> sf_name f = file_name hash v \<and> hash \<noteq> [] \<and>
        content_hash H (sf_bytes f) = lower_hex hash)) \<and>
    shelf_run H X \<lparr>sh_files = fst (write_file H K u a hash w body (sh_files X)), sh_temps = sh_temps X\<rparr>"
proof
  have "genuine H (sh_files X)" using genuine_run [OF assms(1)] by (simp add: genuine_def)
  then show "open_file K u a v (sh_files X) = Some f \<longrightarrow>
      (\<exists>hash. sf_user f = u \<and> sf_entity f = a \<and> sf_name f = file_name hash v \<and> hash \<noteq> [] \<and>
        content_hash H (sf_bytes f) = lower_hex hash)"
    by (blast elim: genuine_open)
  obtain D' r where w: "write_file H K u a hash w body (sh_files X) = (D', r)" by fastforce
  from write_is_run_of [OF w assms(2)]
  show "shelf_run H X \<lparr>sh_files = fst (write_file H K u a hash w body (sh_files X)), sh_temps = sh_temps X\<rparr>"
    by (simp add: w)
qed

text \<open>A hash of one byte, the length of the content, and a note of three bytes under it.\<close>

definition hash0 :: "string \<Rightarrow> 8 word list" where
  "hash0 = (\<lambda>s. [of_nat (length s)])"

definition note0 :: stored where
  "note0 = \<lparr>sf_user = 1, sf_entity = 2, sf_name = ''03_original.bin'', sf_bytes = ''abc''\<rparr>"

lemma note0_written:
  "fst (write_file hash0 good_disk 1 2 ''03'' ''original'' (''abc'', True) []) = [note0]"
  "open_file good_disk 1 2 ''original'' [note0] = Some note0"
  by code_simp+

lemma opened_files_are_genuine_witness:
  "\<exists>hash. sf_name note0 = file_name hash ''original'' \<and> hash \<noteq> [] \<and>
     content_hash hash0 (sf_bytes note0) = lower_hex hash"
proof -
  have "shelf_run hash0 \<lparr>sh_files = [], sh_temps = (\<lambda>t. None)\<rparr> \<lparr>sh_files = [note0], sh_temps = (\<lambda>t. None)\<rparr>"
    using opened_files_are_genuine
      [where H = hash0 and t = 0 and K = good_disk and u = 1 and a = 2 and hash = "''03''"
        and w = "''original''" and body = "(''abc'', True)", OF shelf_run.stays]
    by (simp add: note0_written)
  from opened_files_are_genuine
    [where t = 0 and K = good_disk and u = 1 and a = 2 and v = "''original''" and f = note0, OF this]
    note0_written(2)
  show ?thesis by auto
qed

section \<open>What a download gives\<close>

text \<open>The answers of an upload and of a download, step by step.\<close>

lemma refusals:
  "parse_ids S c noun q W = Inl e \<Longrightarrow> e \<noteq> Json x"
  "variant_from_path q = Inl e \<Longrightarrow> e \<noteq> Json x"
  "live_meta noun m = Inl e \<Longrightarrow> e \<noteq> Json x"
  "declared_hash noun m' q = Inl e \<Longrightarrow> e \<noteq> Json x"
  by (auto simp: parse_ids_def variant_from_path_def live_meta_def declared_hash_def
      split: sum.splits option.splits if_splits)

lemma finishE:
  assumes "finish (bindE r k) W = (W', Json x)" and "\<And>e. r = Inl e \<Longrightarrow> e \<noteq> Json x"
  obtains y where "r = Inr y" "finish (k y) W = (W', Json x)"
  using assms by (cases r) (auto simp: finish_def)

lemma write_error_fails: "write_error e \<noteq> Json x"
  by (cases e) (simp_all add: internal_error_def)

lemma store_uploadE:
  assumes "store_upload S K cap u i hash v q W = (W', Json (Stored i' v' n))"
  obtains D where "write_file (sv_sha256 S) K u i hash v (max_bytes cap (fq_body q)) (si_files W) = (D, Inr n)"
    "W' = W\<lparr>si_files := D\<rparr>" "i' = i" "v' = v"
  using assms write_error_fails by (auto simp: store_upload_def split: prod.splits sum.splits)

lemma live_meta_Inr: "live_meta noun x = Inr m \<longleftrightarrow> x = Some m \<and> \<not> at_deleted m"
  by (auto simp: live_meta_def split: option.splits if_splits)

lemma upload_attachmentE:
  assumes "upload_attachment S c K cap q W = (W', Json (Stored i v n))"
  obtains u m D hash where "parse_ids S c ''attachment'' q W = Inr (u, i)" "variant_from_path q = Inr v"
    "get_attachment_meta u i (site_db W) = Some m" "\<not> at_deleted m"
    "declared_hash ''attachment'' m q = Inr hash"
    "write_file (sv_sha256 S) K u i hash v (max_bytes cap (fq_body q)) (si_files W) = (D, Inr n)"
    "W' = W\<lparr>si_files := D\<rparr>"
proof -
  obtain p where
    p: "parse_ids S c ''attachment'' q W = Inr p" and 1: "finish ((\<lambda>(u, i).
        bindE (variant_from_path q) (\<lambda>v.
        bindE (live_meta ''attachment'' (get_attachment_meta u i (site_db W))) (\<lambda>m.
        bindE (declared_hash ''attachment'' m q) (\<lambda>hash.
          Inr (store_upload S K cap u i hash v q W))))) p) W = (W', Json (Stored i v n))"
    by (rule finishE [OF assms [unfolded upload_attachment_def]]) (erule refusals, blast)
  obtain u i' where ui: "p = (u, i')" by (cases p)
  obtain v' where
    v: "variant_from_path q = Inr v'" and 2: "finish (
        bindE (live_meta ''attachment'' (get_attachment_meta u i' (site_db W))) (\<lambda>m.
        bindE (declared_hash ''attachment'' m q) (\<lambda>hash.
          Inr (store_upload S K cap u i' hash v' q W)))) W = (W', Json (Stored i v n))"
    by (rule finishE [OF 1 [unfolded ui prod.case]]) (erule refusals, blast)
  obtain m where
    m: "live_meta ''attachment'' (get_attachment_meta u i' (site_db W)) = Inr m" and 3: "finish (
        bindE (declared_hash ''attachment'' m q) (\<lambda>hash.
          Inr (store_upload S K cap u i' hash v' q W))) W = (W', Json (Stored i v n))"
    by (rule finishE [OF 2]) (erule refusals, blast)
  obtain hash where
    h: "declared_hash ''attachment'' m q = Inr hash" and
    4: "store_upload S K cap u i' hash v' q W = (W', Json (Stored i v n))"
    by (rule finishE [OF 3]) (erule refusals, simp add: finish_def)
  from 4 show thesis
    by (rule store_uploadE) (use that p ui v m h in \<open>auto simp: live_meta_Inr\<close>)
qed

lemma declared_hash_row: "declared_hash noun m q = Inr hash \<Longrightarrow> at_hash m \<noteq> [] \<Longrightarrow> hash = at_hash m"
  by (auto simp: declared_hash_def split: if_splits)

lemma place_name: "f \<in> set (place u a n bytes D) \<Longrightarrow> sf_name f = n \<or> f \<in> set D"
  by (auto simp: place_def)

text \<open>The files of the site and the method of a request do not matter to its checks.\<close>

lemma same_checks:
  "parse_ids S c noun (q\<lparr>fq_head := b\<rparr>) (W\<lparr>si_files := D\<rparr>) = parse_ids S c noun q W"
  "variant_from_path (q\<lparr>fq_head := b\<rparr>) = variant_from_path q"
  "site_db (W\<lparr>si_files := D\<rparr>) = site_db W"
  "parse_ids S c noun (q\<lparr>fq_body := s\<rparr>) W = parse_ids S c noun q W"
  "declared_hash noun m (q\<lparr>fq_body := s\<rparr>) = declared_hash noun m q"
  by (simp_all add: parse_ids_def site_db_def variant_from_path_def declared_hash_def split: sum.split prod.split)

text \<open>
  C33: What is uploaded can be downloaded. If the row of an attachment has a hash, and its directory
  has no file of the variant under another hash, then after an accepted upload the download of the
  variant gives a content with the SHA-256 of the row. The row has one hash for both variants, so
  a preview is accepted only with the SHA-256 of the original.
\<close>

theorem upload_then_download:
  assumes "genuine (sv_sha256 S) (si_files W)"
    and "upload_attachment S c K cap q W = (W', Json (Stored i v n))"
    and "get_attachment_meta u i (site_db W) = Some m" and "at_hash m \<noteq> []"
    and "parse_ids S c ''attachment'' q W = Inr (u, i)"
    and "\<forall>f\<in>set (si_files W). sf_user f = u \<longrightarrow> sf_entity f = i \<longrightarrow> is_variant v f \<longrightarrow>
          sf_name f = file_name (at_hash m) v"
    and "dk_read K'"
  shows "\<exists>mime etag bytes.
    download_attachment S c K' (q\<lparr>fq_head := False\<rparr>) W' =
      (W', Json (Content mime etag (length bytes) (Some bytes))) \<and>
    content_hash (sv_sha256 S) bytes = lower_hex (at_hash m)"
proof -
  obtain u' m' D hash where up: "parse_ids S c ''attachment'' q W = Inr (u', i)" "variant_from_path q = Inr v"
    "get_attachment_meta u' i (site_db W) = Some m'" "\<not> at_deleted m'" "declared_hash ''attachment'' m' q = Inr hash"
    "write_file (sv_sha256 S) K u' i hash v (max_bytes cap (fq_body q)) (si_files W) = (D, Inr n)"
    and W': "W' = W\<lparr>si_files := D\<rparr>"
    by (rule upload_attachmentE [OF assms(2)])
  have same: "u' = u" "m' = m" using up(1,3) assms(3,5) by simp_all
  then have "hash = at_hash m" using declared_hash_row [OF up(5)] assms(4) by simp
  then have w: "write_file (sv_sha256 S) K u i (at_hash m) v (max_bytes cap (fq_body q)) (si_files W) = (D, Inr n)"
    using up(6) same by simp
  note v = up(2) and live = up(4) [unfolded same]
  have gen: "genuine (sv_sha256 S) D" using genuine_write [OF w assms(1)] .
  obtain f where name: "path_name (at_hash m) v = Some (file_name (at_hash m) v)"
    and f: "file_at u i (file_name (at_hash m) v) D = Some f"
    and D: "D = si_files W \<or> D = place u i (file_name (at_hash m) v) (fst (max_bytes cap (fq_body q))) (si_files W)"
    using write_file_Inr [OF w] by metis
  have hex: "list_all hex_char (at_hash m)" using name by (simp add: path_name_Some)
  have "f \<in> set D" "sf_user f = u" "sf_entity f = i" "is_variant v f"
    using file_at_Some [OF f] hex assms(4) by (auto simp: at_path_def is_variant_iff)
  then obtain g where g: "open_file K' u i v D = Some g"
    using assms(7) by (cases "open_file K' u i v D") (auto simp: open_file_def find_None_iff)
  then have at: "g \<in> set D" "sf_user g = u" "sf_entity g = i" "is_variant v g"
    using open_file_Some by blast+
  then have "sf_name g = file_name (at_hash m) v \<or> g \<in> set (si_files W)"
    using D place_name by blast
  then have "sf_name g = file_name (at_hash m) v" using assms(6) at(2-4) by blast
  then have "content_hash (sv_sha256 S) (sf_bytes g) = lower_hex (at_hash m)"
    using gen at(1) assms(4) hex unfolding genuine_def by blast
  moreover have "download_attachment S c K' (q\<lparr>fq_head := False\<rparr>) W' =
      (W', Json (file_content S m (attachment_etag S i v) False g))"
    using assms(3,5) v live g
    by (simp add: download_attachment_def W' same_checks finish_def live_meta_def)
  ultimately show ?thesis by (auto simp: file_content_def)
qed

section \<open>Examples\<close>

text \<open>A service that takes every token for one of Bob's phone, and Bob's photo.\<close>

definition door :: service where
  "door = service0\<lparr>sv_sha256 := hash0,
     sv_jwt := \<lparr>jw_sign = (\<lambda>secret c iat expiry. ''signed''),
       jw_parse = (\<lambda>now iss secret raw. Some [(''sub'', ''1''), (''dev'', ''1'')])\<rparr>\<rparr>"

definition photo :: "string \<Rightarrow> attachment_row" where
  "photo hash = \<lparr>rid = 1, ruser = 1, rver = 1, rupdated = 1, rdeleted = None, a_session_id = 20,
     a_course_id = None, a_anchor_entry = None, a_captured_at = 1, a_title = [], a_caption = [],
     a_kind = ''other'', a_mime = ''image/png'', a_width = 0, a_height = 0, a_file_size = 0,
     a_hash = hash, a_sort_index = 0, a_transform = [], a_analysis_status = ''pending'',
     a_analysis = None, a_ocr_text = []\<rparr>"

definition photo_site :: "string \<Rightarrow> files \<Rightarrow> site" where
  "photo_site hash D =
     \<lparr>si_server = \<lparr>sr_sync = \<lparr>st_db = empty_db\<lparr>attachments := [photo hash]\<rparr>, st_changed = (\<lambda>_. 0),
        st_processed = (\<lambda>_. 0)\<rparr>, sr_accounts = bob_signed_in\<rparr>, si_files = D\<rparr>"

definition photo_request :: "string \<Rightarrow> string \<Rightarrow> string \<Rightarrow> file_request" where
  "photo_request v hash bytes =
     \<lparr>fq_authorization = ''Bearer token'', fq_id = ''1'', fq_variant = v, fq_hash = hash,
      fq_head = False, fq_body = (bytes, True)\<rparr>"

definition picture :: "string \<Rightarrow> stored" where
  "picture bytes = \<lparr>sf_user = 1, sf_entity = 1,
     sf_name = file_name (content_hash hash0 bytes) ''original'', sf_bytes = bytes\<rparr>"

lemma photo_site_files [simp]: "photo_site h D\<lparr>si_files := D'\<rparr> = photo_site h D'"
  by (simp add: photo_site_def)

lemma upload_frame:
  "\<exists>D. fst (upload_attachment S c K cap q W) = W\<lparr>si_files := D\<rparr>"
  by (rule exI [of _ "si_files (fst (upload_attachment S c K cap q W))"])
    (auto simp: upload_attachment_def finish_def store_upload_def bindE_def split: sum.splits prod.splits)

lemma upload_site:
  assumes "snd (upload_attachment S c K cap q (photo_site h D)) = r"
    and "si_files (fst (upload_attachment S c K cap q (photo_site h D))) = D'"
  shows "upload_attachment S c K cap q (photo_site h D) = (photo_site h D', r)"
proof -
  obtain D'' where "fst (upload_attachment S c K cap q (photo_site h D)) = photo_site h D''"
    using upload_frame [of S c K cap q "photo_site h D"] by auto
  then show ?thesis using assms by (auto simp: photo_site_def intro!: prod_eqI)
qed

lemma photo_uploaded:
  "upload_attachment door (call_no 1) good_disk 100 (photo_request ''original'' ''03'' ''abc'') (photo_site ''03'' []) =
     (photo_site ''03'' [picture ''abc''], Json (Stored 1 ''original'' 3))"
  by (rule upload_site) (code_simp, code_simp)

lemma photo_there:
  "parse_ids door (call_no 1) ''attachment'' (photo_request ''original'' ''03'' ''abc'') (photo_site ''03'' []) = Inr (1, 1)"
  "map_option at_hash (get_attachment_meta 1 1 (site_db (photo_site ''03'' []))) = Some ''03''"
  by code_simp+

lemma upload_then_download_witness:
  "\<exists>mime etag bytes.
    download_attachment door (call_no 1) good_disk (photo_request ''original'' ''03'' ''abc'')
      (photo_site ''03'' [picture ''abc'']) =
      (photo_site ''03'' [picture ''abc''], Json (Content mime etag (length bytes) (Some bytes))) \<and>
    content_hash hash0 bytes = lower_hex ''03''"
proof -
  obtain m where m: "get_attachment_meta 1 1 (site_db (photo_site ''03'' [])) = Some m" "at_hash m = ''03''"
    using photo_there(2) by auto
  moreover have "genuine (sv_sha256 door) (si_files (photo_site ''03'' []))" "dk_read good_disk"
    by (simp_all add: genuine_def photo_site_def good_disk_def)
  moreover have "sv_sha256 door = hash0" "(photo_request ''original'' ''03'' ''abc'')\<lparr>fq_head := False\<rparr> =
      photo_request ''original'' ''03'' ''abc''" by (simp_all add: door_def photo_request_def)
  ultimately show ?thesis
    using upload_then_download [OF _ photo_uploaded m(1) _ photo_there(1), of good_disk]
    by (simp add: photo_site_def)
qed

text \<open>
  A row without a hash takes uploads under any hash. The one whose hash comes first is served, so a
  later upload can be accepted and never be seen.
\<close>

lemma later_upload_is_hidden:
  "upload_attachment door (call_no 1) good_disk 100 (photo_request ''original'' ''03'' ''new'')
     (photo_site [] [picture ''v1'']) =
     (photo_site [] [picture ''v1'', picture ''new''], Json (Stored 1 ''original'' 3))"
  "snd (download_attachment door (call_no 1) good_disk (photo_request ''original'' [] [])
     (photo_site [] [picture ''v1'', picture ''new''])) =
     Json (Content ''image/png'' (attachment_etag door 1 ''original'') 2 (Some ''v1''))"
  by (rule upload_site, code_simp, code_simp) code_simp

text \<open>
  The cap on every body, 10 MiB by default, is applied before the caps of 40 and 200 MiB that the
  endpoints have: a larger file is answered 500.
\<close>

lemma large_material_fails:
  assumes "parse_ids S c ''material'' q W = Inr (u, i)"
    and "live_meta ''material'' (get_material_meta u i (site_db W)) = Inr m" and "own_file m = Inr m"
    and "declared_hash ''material'' m q = Inr hash"
    and "path_name hash variant_original = Some name"
    and "good_copy (sv_sha256 S) K u i name hash (si_files W) = None"
    and "cap \<le> material_cap" and "cap < int (length (fst (fq_body q)))"
  shows "hardened cap (\<lambda>s. Some (snd (upload_material S c K material_cap (q\<lparr>fq_body := s\<rparr>) W))) (fq_body q) =
    internal_error"
proof -
  have cap: "max_bytes material_cap (max_bytes cap (fq_body q)) = (take (nat cap) (fst (fq_body q)), False)"
    using assms(7,8) by (auto simp: max_bytes_def)
  let ?q = "q\<lparr>fq_body := max_bytes cap (fq_body q)\<rparr>"
  have ids: "parse_ids S c ''material'' ?q W = Inr (u, i)" and h: "declared_hash ''material'' m ?q = Inr hash"
    using assms(1,4) by (simp_all add: same_checks)
  have "write_file (sv_sha256 S) K u i hash variant_original (take (nat cap) (fst (fq_body q)), False) (si_files W) =
      (si_files W, Inl DiskError)"
    by (simp add: write_file_def assms(5,6))
  then have "snd (upload_material S c K material_cap ?q W) = internal_error"
    by (simp add: upload_material_def ids h assms(2,3) finish_def store_upload_def cap)
  then show ?thesis by (simp add: hardened_def)
qed

text \<open>An accepted preview has the hash of the row, which is that of the original.\<close>

lemma preview_has_the_row_hash:
  assumes "upload_attachment S c K cap q W = (W', Json (Stored i v n))"
    and "parse_ids S c ''attachment'' q W = Inr (u, i)"
    and "get_attachment_meta u i (site_db W) = Some m" and "at_hash m \<noteq> []"
  shows "\<exists>f. file_at u i (file_name (at_hash m) v) (si_files W') = Some f \<and>
    content_hash (sv_sha256 S) (sf_bytes f) = lower_hex (at_hash m)"
proof (rule upload_attachmentE [OF assms(1)])
  fix u' m' D hash
  assume up: "parse_ids S c ''attachment'' q W = Inr (u', i)" "get_attachment_meta u' i (site_db W) = Some m'"
    "declared_hash ''attachment'' m' q = Inr hash"
    "write_file (sv_sha256 S) K u' i hash v (max_bytes cap (fq_body q)) (si_files W) = (D, Inr n)"
    "W' = W\<lparr>si_files := D\<rparr>"
  with assms(2,3) have "u' = u" "m' = m" by simp_all
  then have "hash = at_hash m" using declared_hash_row up(3) assms(4) by blast
  with write_file_Inr [OF up(4)] show ?thesis using \<open>u' = u\<close> assms(4) up(5) by auto
qed

end
