(* ===== verification/Rate_Limits.thy ===== *)
theory Rate_Limits
  imports Http
begin

text \<open>
  The rate limiter over a sequence of requests: how many of one key it lets pass in a period as long
  as its window, whatever other keys do.
\<close>

section \<open>A sequence of requests\<close>

text \<open>Requests are a time, a bucket and a key; the answers say which of them pass.\<close>

fun admit :: "(int \<times> string \<times> string) list \<Rightarrow> limiter \<Rightarrow> bool list" where
  "admit [] L = []"
| "admit ((now, b, k) # qs) L =
     (case allow now b k L of (L', r) \<Rightarrow> (r = None) # admit qs L')"

definition slot :: "string \<Rightarrow> string \<Rightarrow> string" where
  "slot b k = b @ ''|'' @ k"

text \<open>The requests of a slot that pass within the period of length w from a on.\<close>

definition passed_in :: "string \<Rightarrow> int \<Rightarrow> int \<Rightarrow> (int \<times> string \<times> string) list \<Rightarrow> bool list \<Rightarrow> int" where
  "passed_in s a w qs rs =
     int (length (filter (\<lambda>((now, b, k), r). slot b k = s \<and> a \<le> now \<and> now < a + w \<and> r) (zip qs rs)))"

section \<open>What is left for a slot\<close>

definition most :: "limiter \<Rightarrow> int" where
  "most L = max 1 (li_max L)"

text \<open>Counts are positive and within the limit, and windows have not started in the future.\<close>

definition hits_ok :: "int \<Rightarrow> limiter \<Rightarrow> bool" where
  "hits_ok now L \<longleftrightarrow>
     distinct (map fst (li_hits L)) \<and>
     (\<forall>k h. map_of (li_hits L) k = Some h \<longrightarrow> 1 \<le> ht_count h \<and> ht_count h \<le> most L \<and> ht_start h \<le> now)"

text \<open>
  The most that can still pass in the period: nothing after it; before it, the rest of a window
  that has begun and one more window; within it
  the rest of the current window, and one more window if the current one is older than the period.
\<close>

definition budget :: "int \<Rightarrow> int \<Rightarrow> string \<Rightarrow> int \<Rightarrow> limiter \<Rightarrow> int" where
  "budget a w s now L =
     (if a + w \<le> now then 0
      else if now < a then 2 * most L - 1
      else
        (case map_of (li_hits L) s of
           None \<Rightarrow> most L
         | Some h \<Rightarrow> if a \<le> ht_start h then most L - ht_count h else 2 * most L - ht_count h))"

lemma map_of_put_hit: "map_of (put_hit k h hs) x = (if x = k then Some h else map_of hs x)"
  by (induction hs) (auto simp: put_hit_def)

lemma distinct_put_hit: "distinct (map fst hs) \<Longrightarrow> distinct (map fst (put_hit k h hs))"
  by (induction hs) (auto simp: put_hit_def)

lemma map_of_filter_snd:
  "distinct (map fst hs) \<Longrightarrow>
     map_of (filter (\<lambda>x. P (snd x)) hs) k =
       (case map_of hs k of None \<Rightarrow> None | Some h \<Rightarrow> if P h then Some h else None)"
proof (induction hs)
  case (Cons x hs)
  have "x \<notin> set hs" "k = fst x \<Longrightarrow> map_of hs k = None" using Cons.prems by (auto simp: map_of_eq_None_iff)
  with Cons show ?case by (cases x) (auto split: option.splits)
qed simp

text \<open>Dropping old windows leaves a window or drops one that is over.\<close>

lemma drop_old_distinct: "distinct (map fst hs) \<Longrightarrow> distinct (map fst (drop_old now w hs))"
  by (simp add: drop_old_def distinct_map_filter)

lemma map_of_drop_old:
  assumes "distinct (map fst hs)"
  shows "map_of (drop_old now w hs) k = map_of hs k \<or>
    (\<exists>h. map_of hs k = Some h \<and> w \<le> now - ht_start h \<and> map_of (drop_old now w hs) k = None)"
  using map_of_filter_snd [OF assms, of "\<lambda>h. \<not> w \<le> now - ht_start h" k]
  by (auto simp: drop_old_def split: option.splits)

section \<open>One request\<close>

lemma allow_frame:
  assumes "allow now b k L = (L', r)"
  shows "li_window L' = li_window L" "li_max L' = li_max L" "most L' = most L"
  using assms by (auto simp: allow_def Let_def most_def split: option.splits if_splits)

text \<open>A request opens a window, is refused, or is counted in a window that goes on.\<close>

lemma allowE:
  assumes "allow now b k L = (L', r)"
  obtains (Opened) "r = None"
      "L' = L\<lparr>li_hits := drop_old now (li_window L) (put_hit (slot b k) \<lparr>ht_count = 1, ht_start = now\<rparr> (li_hits L))\<rparr>"
      "\<And>h. map_of (li_hits L) (slot b k) = Some h \<Longrightarrow> li_window L \<le> now - ht_start h"
    | (Refused) d where "r = Some d" "L' = L"
    | (Counted) h where "r = None" "map_of (li_hits L) (slot b k) = Some h"
      "now - ht_start h < li_window L" "ht_count h < li_max L"
      "L' = L\<lparr>li_hits := put_hit (slot b k) (h\<lparr>ht_count := ht_count h + 1\<rparr>) (li_hits L)\<rparr>"
proof (cases "map_of (li_hits L) (slot b k)")
  case None
  with assms show thesis by (intro Opened) (simp_all add: allow_def slot_def)
next
  case (Some h)
  consider "li_window L \<le> now - ht_start h" | "now - ht_start h < li_window L" "li_max L \<le> ht_count h"
    | "now - ht_start h < li_window L" "ht_count h < li_max L" by linarith
  then show thesis
  proof cases
    case 1
    with Some assms show thesis by (intro Opened) (simp_all add: allow_def slot_def)
  next
    case 2
    with Some assms show thesis
      by (intro Refused [of "li_window L - (now - ht_start h)"]) (auto simp: allow_def slot_def)
  next
    case 3
    with Some assms show thesis by (intro Counted [of h]) (simp_all add: allow_def slot_def)
  qed
qed

lemma hits_ok_after:
  assumes L: "hits_ok t L" and "t \<le> now" and step: "allow now b k L = (L', r)"
  shows "hits_ok now L'"
  using step
proof (cases rule: allowE)
  case Opened
  let ?hs = "put_hit (slot b k) \<lparr>ht_count = 1, ht_start = now\<rparr> (li_hits L)"
  have d: "distinct (map fst ?hs)" using L by (simp add: hits_ok_def distinct_put_hit)
  have "1 \<le> ht_count h \<and> ht_count h \<le> most L \<and> ht_start h \<le> now"
    if "map_of (drop_old now (li_window L) ?hs) x = Some h" for x h
  proof -
    have "map_of ?hs x = Some h" using map_of_drop_old [OF d, of now "li_window L" x] that by auto
    then show ?thesis
      using L \<open>t \<le> now\<close> by (fastforce simp: map_of_put_hit hits_ok_def most_def split: if_splits)
  qed
  then show ?thesis using d by (simp add: Opened(2) hits_ok_def drop_old_distinct most_def)
next
  case Refused
  then show ?thesis using L \<open>t \<le> now\<close> by (fastforce simp: hits_ok_def)
next
  case (Counted h)
  then show ?thesis
    using L \<open>t \<le> now\<close>
    by (fastforce simp: hits_ok_def distinct_put_hit map_of_put_hit most_def split: if_splits)
qed

text \<open>Time alone, and what drops a window that is over, can only shrink the budget.\<close>

lemma budget_later:
  assumes L: "hits_ok t L" and "t \<le> now" and w: "0 < w"
    and same: "map_of (li_hits L') s = map_of (li_hits L) s \<or>
      (\<exists>h. map_of (li_hits L) s = Some h \<and> w \<le> now - ht_start h \<and> map_of (li_hits L') s = None)"
    and m: "most L' = most L"
  shows "budget a w s now L' \<le> budget a w s t L"
proof -
  have "1 \<le> most L" by (simp add: most_def)
  moreover have "1 \<le> ht_count h \<and> ht_count h \<le> most L \<and> ht_start h \<le> t" if "map_of (li_hits L) s = Some h" for h
    using L that unfolding hits_ok_def by blast
  ultimately show ?thesis
    using \<open>t \<le> now\<close> w same by (fastforce simp: budget_def m split: option.splits)
qed

lemma budget_step:
  assumes L: "hits_ok t L" and "t \<le> now" and w: "0 < li_window L" and step: "allow now b k L = (L', r)"
  shows "budget a (li_window L) s now L' +
      (if slot b k = s \<and> a \<le> now \<and> now < a + li_window L \<and> r = None then 1 else 0)
    \<le> budget a (li_window L) s t L"
proof -
  have most: "1 \<le> most L" "li_max L \<le> most L" by (simp_all add: most_def)
  have cnt: "1 \<le> ht_count h \<and> ht_count h \<le> most L \<and> ht_start h \<le> t" if "map_of (li_hits L) s = Some h" for h
    using L that unfolding hits_ok_def by blast
  show ?thesis
    using step
  proof (cases rule: allowE)
    case Opened
    let ?hs = "put_hit (slot b k) \<lparr>ht_count = 1, ht_start = now\<rparr> (li_hits L)"
    have d: "distinct (map fst ?hs)" using L by (simp add: hits_ok_def distinct_put_hit)
    note old = map_of_drop_old [OF d, of now "li_window L" s]
    show ?thesis
    proof (cases "slot b k = s")
      case False
      then have "budget a (li_window L) s now L' \<le> budget a (li_window L) s t L"
        using L \<open>t \<le> now\<close> w by (rule_tac budget_later) (use old Opened(2) in \<open>auto simp: map_of_put_hit most_def\<close>)
      then show ?thesis using False by simp
    next
      case True
      have new: "map_of (li_hits L') s = Some \<lparr>ht_count = 1, ht_start = now\<rparr>"
        using old w True by (auto simp: Opened(2) map_of_put_hit)
      then show ?thesis
        using most w \<open>t \<le> now\<close> Opened(3) cnt True allow_frame(3) [OF step]
        by (fastforce simp: budget_def split: option.splits)
    qed
  next
    case Refused
    then show ?thesis using budget_later [OF L \<open>t \<le> now\<close> w, of L s a] by simp
  next
    case (Counted h)
    show ?thesis
    proof (cases "slot b k = s")
      case False
      then have "budget a (li_window L) s now L' \<le> budget a (li_window L) s t L"
        using L \<open>t \<le> now\<close> w
        by (rule_tac budget_later) (use Counted(5) in \<open>auto simp: map_of_put_hit most_def\<close>)
      then show ?thesis using False by simp
    next
      case True
      then have "map_of (li_hits L') s = Some (h\<lparr>ht_count := ht_count h + 1\<rparr>)"
        by (simp add: Counted(5) map_of_put_hit)
      then show ?thesis
        using most w \<open>t \<le> now\<close> Counted(2-4) cnt True allow_frame(3) [OF step]
        by (fastforce simp: budget_def split: option.splits)
    qed
  qed
qed

section \<open>Many requests\<close>

lemma admit_budget:
  assumes "hits_ok t L" and "0 < li_window L" and "sorted (t # map fst qs)"
  shows "passed_in s a (li_window L) qs (admit qs L) \<le> budget a (li_window L) s t L"
  using assms
proof (induction qs arbitrary: t L)
  case Nil
  have "1 \<le> most L" by (simp add: most_def)
  moreover have "ht_count h \<le> most L" if "map_of (li_hits L) s = Some h" for h
    using Nil(1) that by (simp add: hits_ok_def)
  ultimately show ?case by (fastforce simp: budget_def passed_in_def split: option.splits)
next
  case (Cons q qs)
  obtain now b k where q: "q = (now, b, k)" by (cases q)
  obtain L' r where step: "allow now b k L = (L', r)" by fastforce
  have le: "t \<le> now" "sorted (now # map fst qs)" using Cons.prems(3) by (auto simp: q)
  have "passed_in s a (li_window L') qs (admit qs L') \<le> budget a (li_window L') s now L'"
    using allow_frame(1) [OF step] Cons.prems(2)
    by (intro Cons.IH [OF hits_ok_after [OF Cons.prems(1) le(1) step] _ le(2)]) simp
  then show ?case
    using budget_step [OF Cons.prems(1) le(1) Cons.prems(2) step, of a s] allow_frame(1) [OF step]
    by (auto simp: q step passed_in_def split: if_splits)
qed

lemma admit_bound:
  assumes "0 < w" and "sorted (map fst qs)"
  shows "passed_in s a w qs (admit qs (new_limiter n w)) \<le> 2 * max 1 n - 1"
proof (cases qs)
  case Nil
  then show ?thesis by (simp add: passed_in_def)
next
  case (Cons q qs')
  define t where "t = min a (fst q) - 1"
  have "sorted (t # map fst qs)" using assms(2) by (fastforce simp: Cons t_def)
  moreover have "hits_ok t (new_limiter n w)" by (simp add: hits_ok_def new_limiter_def)
  ultimately have "passed_in s a w qs (admit qs (new_limiter n w)) \<le> budget a w s t (new_limiter n w)"
    using admit_budget [of t "new_limiter n w" qs s a] assms(1) by (simp add: new_limiter_def)
  also have "\<dots> \<le> 2 * max 1 n - 1" by (simp add: budget_def t_def most_def new_limiter_def)
  finally show ?thesis .
qed

text \<open>A client that waits as long as it was told passes.\<close>

lemma retry_suffices:
  assumes "allow now b k L = (L', Some d)"
  shows "0 < d" "snd (allow (now + d) b k L') = None"
  using assms by (auto simp: allow_def Let_def split: option.splits if_splits)

end
