(* ===== verification/Web_Properties.thy ===== *)
theory Web_Properties
  imports Routes Rate_Limits Account_Examples
begin

text \<open>
  Properties of the handlers of the accounts and of the rate limiter they use.
\<close>

section \<open>The rate limiter\<close>

text \<open>
  C31: The rate limiter bounds bursts: of the requests with one key it lets pass, at most twice the
  limit less one fall into any period as long as its window, whatever requests with other keys come
  in between and whenever the table of windows is cleaned.
\<close>

theorem limiter_bounds_bursts:
  assumes "0 < w" and "sorted (map fst qs)"
  shows "passed_in s a w qs (admit qs (new_limiter n w)) \<le> 2 * max 1 n - 1"
  using assms by (rule admit_bound)

text \<open>With two per window, three pass within the window's length: the bound is reached.\<close>

definition burst :: "(int \<times> string \<times> string) list" where
  "burst = [(0, ''ip'', ''a''), (9, ''ip'', ''a''), (9, ''ip'', ''a''), (10, ''ip'', ''a''), (11, ''ip'', ''a'')]"

lemma limiter_bounds_bursts_witness:
  "passed_in (slot ''ip'' ''a'') 9 10 burst (admit burst (new_limiter 2 10)) = 3"
proof -
  have "passed_in (slot ''ip'' ''a'') 9 10 burst (admit burst (new_limiter 2 10)) \<le> 2 * max 1 2 - 1"
    by (rule limiter_bounds_bursts) (simp_all add: burst_def)
  moreover have "3 \<le> passed_in (slot ''ip'' ''a'') 9 10 burst (admit burst (new_limiter 2 10))"
    by code_simp
  ultimately show ?thesis by simp
qed

section \<open>Registration does not tell who is registered\<close>

lemma create_challenge_error: "create_challenge S c i p t A = Inl e \<Longrightarrow> \<exists>x. e = Sql x"
  by (auto simp: create_challenge_def Let_def sql_def bindE_def split: sum.splits)

lemma audit_user_error: "audit_user S c i x ip prior after A = Inl e \<Longrightarrow> \<exists>y. e = Sql y"
  by (auto simp: audit_user_def sql_def split: sum.splits)

lemma sql_error: "sql x = Inl e \<Longrightarrow> \<exists>y. e = Sql y"
  by (auto simp: sql_def split: sum.splits)

lemma bindE_Inl: "bindE m k = Inl e \<longleftrightarrow> m = Inl e \<or> (\<exists>x. m = Inr x \<and> k x = Inl e)"
  by (cases m) simp_all

lemma register_new_error: "register_new S c req email hash ip A = Inl e \<Longrightarrow> \<exists>x. e = Sql x"
  by (auto simp: register_new_def Let_def bindE_Inl dest: sql_error create_challenge_error audit_user_error)

lemma register_tx_error:
  assumes "register_tx S c req email hash ip A = Inl e"
  shows "e = EmailTaken \<or> e = InvitationRequired \<or> e = InvalidInvitation \<or> (\<exists>x. e = Sql x)"
proof (cases "get_user_by_normalized_email c email A")
  case None
  with assms show ?thesis
    by (auto simp: register_tx_def dest: register_new_error split: if_splits sum.splits option.splits)
next
  case (Some u)
  with assms show ?thesis
    by (auto simp: register_tx_def bindE_Inl dest: register_new_error sql_error create_challenge_error
        split: if_splits sum.splits option.splits)
qed

text \<open>The answer to a registration that nothing fails on in the transaction, from the request alone.\<close>

definition registration_answer :: "service \<Rightarrow> register_request \<Rightarrow> account_answer reply" where
  "registration_answer S req =
     (if sv_mode S = ''disabled'' then map_auth_error RegistrationClosed
      else if \<not> valid_email (normalize_email S (rr_email req)) then code_sent
      else
        (case validate_password (sv_unicode S) (rr_password req) (normalize_email S (rr_email req)) (rr_name req) of
           Some e \<Rightarrow> map_auth_error (WeakPassword (Some e))
         | None \<Rightarrow> if \<not> can_mail S then map_auth_error NoMailTransport else code_sent))"

text \<open>What the transaction fails on: a statement of the database, or the invitation.\<close>

definition failed_inside :: "auth_error + bool \<Rightarrow> bool" where
  "failed_inside x \<longleftrightarrow>
     (case x of
        Inl (Sql _) \<Rightarrow> True | Inl InvitationRequired \<Rightarrow> True | Inl InvalidInvitation \<Rightarrow> True | _ \<Rightarrow> False)"

lemma failed_inside_simps [simp]:
  "failed_inside (Inl (Sql x))" "failed_inside (Inl InvitationRequired)" "failed_inside (Inl InvalidInvitation)"
  "\<not> failed_inside (Inr b)" "\<not> failed_inside (Inl EmailTaken)" "\<not> failed_inside (Inl RegistrationClosed)"
  "\<not> failed_inside (Inl (WeakPassword w))" "\<not> failed_inside (Inl NoMailTransport)"
  by (simp_all add: failed_inside_def)

lemma register_answer:
  "case_sum map_auth_error (\<lambda>_. code_sent) (snd (register S c req ip A)) =
     (if failed_inside (snd (register S c req ip A)) then internal_error else registration_answer S req)"
proof -
  let ?email = "normalize_email S (rr_email req)"
  consider (out) "sv_mode S = ''disabled'' \<or> \<not> valid_email ?email \<or>
      validate_password (sv_unicode S) (rr_password req) ?email (rr_name req) \<noteq> None \<or> \<not> can_mail S"
    | (sane) "sv_mode S \<noteq> ''disabled''" "valid_email ?email" "can_mail S"
      "validate_password (sv_unicode S) (rr_password req) ?email (rr_name req) = None" by blast
  then show ?thesis
  proof cases
    case out
    then show ?thesis by (auto simp: register_def registration_answer_def Let_def split: option.splits)
  next
    case sane
    let ?tx = "register_tx S c req ?email (new_hash S c (rr_password req)) ip"
    show ?thesis
    proof (cases "?tx A")
      case (Inl e)
      then have "snd (register S c req ip A) = Inl e" using sane by (simp add: register_def tx_def)
      with register_tx_error [OF Inl] sane show ?thesis by (auto simp: registration_answer_def)
    next
      case (Inr y)
      then have "snd (register S c req ip A) = Inr (fst (snd y))"
        using sane by (simp add: register_def tx_def split: prod.splits)
      then show ?thesis using sane by (simp add: registration_answer_def)
    qed
  qed
qed

lemma register_route_answer:
  "snd (register_route F c q b W) =
     (case snd (allow (rq_at q) ''ip'' (address_of F q) (wb_limiter W)) of
        Some d \<Rightarrow> Throttled (retry_after d) ''too many requests''
      | None \<Rightarrow>
          (case decode_json b of
             Inl r \<Rightarrow> r
           | Inr req \<Rightarrow> case_sum map_auth_error (\<lambda>_. code_sent)
               (snd (register (fr_service F) c req (address_of F q) (wb_accounts W)))))"
  by (simp add: register_route_def per_ip_def with_json_def split: prod.split option.split sum.split)

text \<open>
  C34: What a registration tells of who is registered. In every mode the answer is a function of the
  configuration, the limiter and the request, with one exception: it is 500 if the transaction fails
  inside, on a statement of the database or on the invitation. So an address that is taken and one that
  is not get the same bytes as long as nothing fails; the two lemmas after it show failures that only an
  address that is free can meet, and that do tell: a missing invitation, and a name that is too long.
\<close>

theorem registration_answers_alike:
  "snd (register_route F c q (Decoded req) W) =
     (case snd (allow (rq_at q) ''ip'' (address_of F q) (wb_limiter W)) of
        Some d \<Rightarrow> Throttled (retry_after d) ''too many requests''
      | None \<Rightarrow>
          if failed_inside (snd (register (fr_service F) c req (address_of F q) (wb_accounts W)))
          then internal_error
          else registration_answer (fr_service F) req)"
  by (simp only: register_route_answer decode_json_simps sum.case register_answer)

text \<open>A front for the small service, and a registration of Ann's address.\<close>

definition front0 :: front where
  "front0 = \<lparr>fr_service = service0,
     fr_net = \<lparr>nt_split_host = (\<lambda>s. None), nt_parse_ip = (\<lambda>s. None), nt_ip_text = (\<lambda>a. []),
       nt_parse_cidr = (\<lambda>s. None)\<rparr>,
     fr_apple = \<lparr>al_header = (\<lambda>s. None), al_claims = (\<lambda>k t s. None), al_base64 = (\<lambda>s. None)\<rparr>,
     fr_trust = None, fr_dev_login = False, fr_schemas = (1, 1)\<rparr>"

definition request0 :: request where
  "request0 = \<lparr>rq_remote = ''1.2.3.4'', rq_forwarded = [], rq_authorization = [], rq_at = 0\<rparr>"

definition ann_registers :: register_request where
  "ann_registers = \<lparr>rr_email = ''ann@mail.org'', rr_password = ''correct horse'', rr_name = ''Ann'',
     rr_invitation = []\<rparr>"

definition ann_active :: accounts where
  "ann_active = no_accounts\<lparr>ac_users := [ann\<lparr>us_status := ''active'', us_verified := Some 2\<rparr>]\<rparr>"

lemma ann_registering:
  "address_of front0 request0 = ''1.2.3.4''"
  "snd (register service0 (call_no 9) ann_registers ''1.2.3.4'' no_accounts) = Inr True"
  "snd (register service0 (call_no 9) ann_registers ''1.2.3.4'' ann_active) = Inl EmailTaken"
  by code_simp+

lemma front0_service: "fr_service front0 = service0"
  by (simp add: front0_def)

lemma ann_is_hidden:
  "snd (register_route front0 (call_no 9) request0 (Decoded ann_registers) ((new_web 10)\<lparr>wb_accounts := no_accounts\<rparr>)) =
   snd (register_route front0 (call_no 9) request0 (Decoded ann_registers) ((new_web 10)\<lparr>wb_accounts := ann_active\<rparr>))"
  by (simp add: register_route_answer decode_json_simps ann_registering front0_service split: option.split)

text \<open>
  Where an invitation is needed the answers differ: without one, a taken address is answered as if
  a code had been sent, and a free one with an internal error.
\<close>

lemma invitations_tell_who_is_registered:
  assumes "sv_mode (fr_service F) = ''invite_only''" and "rr_invitation req = []"
    and "registration_answer (fr_service F) req = code_sent"
    and "valid_email (normalize_email (fr_service F) (rr_email req))"
    and "snd (allow (rq_at q) ''ip'' (address_of F q) (wb_limiter W)) = None"
  shows "get_user_by_normalized_email c (normalize_email (fr_service F) (rr_email req)) A = None \<Longrightarrow>
      snd (register_route F c q (Decoded req) (W\<lparr>wb_accounts := A\<rparr>)) = internal_error"
    and "get_user_by_normalized_email c (normalize_email (fr_service F) (rr_email req)) B = Some u \<Longrightarrow>
      us_deleted u = None \<Longrightarrow> us_status u \<noteq> ''pending'' \<Longrightarrow>
      snd (register_route F c q (Decoded req) (W\<lparr>wb_accounts := B\<rparr>)) = code_sent"
  using assms
  by (auto simp: register_route_answer register_def register_tx_def registration_answer_def tx_def
      code_sent_def split: option.splits if_splits)

text \<open>
  Nothing looks at the length of the name before the INSERT. With one of more than 128 characters a free
  address is answered with an internal error, a taken one as if a code had been sent.
\<close>

lemma long_names_tell_who_is_registered:
  assumes "sv_mode (fr_service F) = ''open''" and "\<not> varchar 128 (rr_name req)"
    and "registration_answer (fr_service F) req = code_sent"
    and "valid_email (normalize_email (fr_service F) (rr_email req))"
    and "snd (allow (rq_at q) ''ip'' (address_of F q) (wb_limiter W)) = None"
  shows "get_user_by_normalized_email c (normalize_email (fr_service F) (rr_email req)) A = None \<Longrightarrow>
      snd (register_route F c q (Decoded req) (W\<lparr>wb_accounts := A\<rparr>)) = internal_error"
    and "get_user_by_normalized_email c (normalize_email (fr_service F) (rr_email req)) B = Some u \<Longrightarrow>
      us_deleted u = None \<Longrightarrow> us_status u \<noteq> ''pending'' \<Longrightarrow>
      snd (register_route F c q (Decoded req) (W\<lparr>wb_accounts := B\<rparr>)) = code_sent"
  using assms
  by (auto simp: register_route_answer register_def register_tx_def register_new_def create_user_def
      a_insert_def users_tab_def user_ok_def sql_def registration_answer_def tx_def
      code_sent_def split: option.splits if_splits)

end
