(* ===== verification/Importer.thy ===== *)
theory Importer
  imports Server
begin

text \<open>
  The import of the SQLite database of the former server (internal/importer): the reading of cells,
  the copy of each of its nine tables into the database of this server, the sequences, and the run
  with its refusals.
\<close>

section \<open>Cells\<close>

text \<open>
  What the driver gives for a cell; \<open>COther\<close> holds the text of a value that is of none of the kinds
  the code tells apart. The library formats and parses numbers and times and decodes ids and results.
\<close>

datatype cell =
    CNull
  | CText string
  | CBlob string
  | CInt int
  | CReal float64
  | COther string

record import_library =
  il_lower :: "string \<Rightarrow> string"
  il_real_text :: "float64 \<Rightarrow> string"
  il_parse_real :: "string \<Rightarrow> float64 option"
  il_truncate :: "float64 \<Rightarrow> int"
  il_parse_time :: "string \<Rightarrow> string \<Rightarrow> time option"
  il_parse_uuid :: "string \<Rightarrow> uuid option"
  il_result :: "string \<Rightarrow> push_result option"

datatype import_error =
    BadColumn string
  | BadResult int
  | ForeignChange int
  | RowRefused db_error
  | WalSource
  | MissingTables "string list"
  | TargetNotEmpty

type_synonym cells = "(string \<times> cell) list"

definition cell_of :: "cells \<Rightarrow> string \<Rightarrow> cell" where
  "cell_of r col = (case map_of r col of None \<Rightarrow> CNull | Some v \<Rightarrow> v)"

definition int_text :: "int \<Rightarrow> string" where
  "int_text n = (if n < 0 then CHR ''-'' # decimal (nat (- n)) else decimal (nat n))"

fun cell_string :: "import_library \<Rightarrow> cell \<Rightarrow> string" where
  "cell_string L CNull = []"
| "cell_string L (CText s) = s"
| "cell_string L (CBlob s) = s"
| "cell_string L (CInt n) = int_text n"
| "cell_string L (CReal x) = il_real_text L x"
| "cell_string L (COther s) = s"

definition cell_null_string :: "import_library \<Rightarrow> cell \<Rightarrow> string option" where
  "cell_null_string L v = (let s = cell_string L v in if s = [] then None else Some s)"

text \<open>\<open>strconv.ParseInt\<close> in base 10 for 64 bits\<close>

definition parse_int64 :: "string \<Rightarrow> int option" where
  "parse_int64 s =
     (let neg = (s \<noteq> [] \<and> hd s = CHR ''-'');
          ds = (if s \<noteq> [] \<and> (hd s = CHR ''-'' \<or> hd s = CHR ''+'') then tl s else s);
          n = (if neg then - int (decimal_value ds) else int (decimal_value ds)) in
      if ds = [] \<or> \<not> list_all is_digit ds \<or> \<not> int8 n then None else Some n)"

fun cell_int :: "import_library \<Rightarrow> cell \<Rightarrow> int \<Rightarrow> int option" where
  "cell_int L CNull fallback = Some fallback"
| "cell_int L (CInt n) fallback = Some n"
| "cell_int L (CReal x) fallback = Some (il_truncate L x)"
| "cell_int L (CText s) fallback = parse_int64 (trim_space s)"
| "cell_int L _ fallback = None"

fun cell_float :: "import_library \<Rightarrow> cell \<Rightarrow> float64 \<Rightarrow> float64 option" where
  "cell_float L CNull fallback = Some fallback"
| "cell_float L (CReal x) fallback = Some x"
| "cell_float L (CInt n) fallback = Some (of_int n)"
| "cell_float L (CText s) fallback = il_parse_real L (trim_space s)"
| "cell_float L _ fallback = None"

definition cell_bool :: "import_library \<Rightarrow> cell \<Rightarrow> bool \<Rightarrow> bool option" where
  "cell_bool L v fallback =
     (if v = CNull then Some fallback
      else map_option (\<lambda>n. n \<noteq> 0) (cell_int L v (if fallback then 1 else 0)))"

text \<open>The layouts of a time, tried in this order after the first T has become a blank.\<close>

definition time_layouts :: "string list" where
  "time_layouts =
     [''2006-01-02 15:04:05.999999999-07:00'', ''2006-01-02 15:04:05.999999999'',
      ''2006-01-02 15:04:05-07:00'', ''2006-01-02 15:04:05'']"

fun first_t_blank :: "string \<Rightarrow> string" where
  "first_t_blank [] = []"
| "first_t_blank (c # s) = (if c = CHR ''T'' then CHR '' '' # s else c # first_t_blank s)"

text \<open>The outer \<open>None\<close> is a text that no layout fits, the inner one an absent time.\<close>

definition cell_time :: "import_library \<Rightarrow> cell \<Rightarrow> time option option" where
  "cell_time L v =
     (let raw = trim_space (cell_string L v) in
      if raw = [] then Some None
      else
        (case find (\<lambda>l. il_parse_time L l (first_t_blank raw) \<noteq> None) time_layouts of
           None \<Rightarrow> None
         | Some l \<Rightarrow> Some (il_parse_time L l (first_t_blank raw))))"

definition cell_uuid :: "import_library \<Rightarrow> cell \<Rightarrow> uuid option" where
  "cell_uuid L v =
     (let raw = il_lower L (trim_space (cell_string L v)) in
      if length raw = 36 then il_parse_uuid L raw
      else if length raw = 32
      then il_parse_uuid L (take 8 raw @ ''-'' @ take 4 (drop 8 raw) @ ''-'' @ take 4 (drop 12 raw) @ ''-'' @
             take 4 (drop 16 raw) @ ''-'' @ drop 20 raw)
      else None)"

section \<open>Columns of a row\<close>

text \<open>A column that cannot be read ends the import with its name.\<close>

definition column :: "string \<Rightarrow> (cell \<Rightarrow> 'a option) \<Rightarrow> cells \<Rightarrow> import_error + 'a" where
  "column col read r = (case read (cell_of r col) of None \<Rightarrow> Inl (BadColumn col) | Some x \<Rightarrow> Inr x)"

definition uuid_column :: "import_library \<Rightarrow> string \<Rightarrow> cells \<Rightarrow> import_error + uuid" where
  "uuid_column L col r = column col (cell_uuid L) r"

definition time_column :: "import_library \<Rightarrow> string \<Rightarrow> cells \<Rightarrow> import_error + time option" where
  "time_column L col r = column col (cell_time L) r"

definition required_time :: "import_library \<Rightarrow> string \<Rightarrow> cells \<Rightarrow> import_error + time" where
  "required_time L col r = column col (\<lambda>v. case cell_time L v of None \<Rightarrow> None | Some t \<Rightarrow> t) r"

definition int_column :: "import_library \<Rightarrow> string \<Rightarrow> cells \<Rightarrow> import_error + int" where
  "int_column L col r = column col (\<lambda>v. cell_int L v 0) r"

definition float_column :: "import_library \<Rightarrow> string \<Rightarrow> cells \<Rightarrow> import_error + float64" where
  "float_column L col r = column col (\<lambda>v. cell_float L v 0) r"

definition bool_column :: "import_library \<Rightarrow> string \<Rightarrow> bool \<Rightarrow> cells \<Rightarrow> import_error + bool" where
  "bool_column L col fallback r = column col (\<lambda>v. cell_bool L v fallback) r"

definition or_default :: "string \<Rightarrow> string \<Rightarrow> string" where
  "or_default s def = (if s = [] then def else s)"

section \<open>The target\<close>

text \<open>
  The server, with the ids of the ledger rows, which nothing else of the server reads, and the last
  value of their sequence.
\<close>

record target =
  tg_server :: server
  tg_ledger_id :: "uuid \<times> uuid \<Rightarrow> int"
  tg_ledger_seq :: int

definition on_db :: "(db \<Rightarrow> db) \<Rightarrow> target \<Rightarrow> target" where
  "on_db f X = X\<lparr>tg_server := (tg_server X)\<lparr>sr_sync := (sr_sync (tg_server X))\<lparr>st_db := f (st_db (sr_sync (tg_server X)))\<rparr>\<rparr>\<rparr>"

definition target_db :: "target \<Rightarrow> db" where
  "target_db X = st_db (sr_sync (tg_server X))"

definition target_accounts :: "target \<Rightarrow> accounts" where
  "target_accounts X = sr_accounts (tg_server X)"

text \<open>
  \<open>INSERT ... ON CONFLICT (id) DO NOTHING\<close>: the domains of the columns are checked first, a row with
  the id is skipped, and any other constraint still refuses the row.
\<close>

definition keep_account ::
  "'a atab \<Rightarrow> ('a \<Rightarrow> uuid) \<Rightarrow> 'a \<Rightarrow> target \<Rightarrow> import_error + target" where
  "keep_account T key r X =
     (let A = target_accounts X in
      if \<not> at_ok T r then Inl (RowRefused ColumnDomain)
      else if list_ex (\<lambda>x. key x = key r) (at_get T A) then Inr X
      else
        (case a_insert T r A of
           Inl e \<Rightarrow> Inl (RowRefused e)
         | Inr A' \<Rightarrow> Inr (X\<lparr>tg_server := (tg_server X)\<lparr>sr_accounts := A'\<rparr>\<rparr>)))"

definition keep_synced :: "'a row_scheme tab \<Rightarrow> 'a row_scheme \<Rightarrow> target \<Rightarrow> import_error + target" where
  "keep_synced T r X =
     (if \<not> int4 (rver r) \<or> \<not> tb_ok T r then Inl (RowRefused ColumnDomain)
      else if list_ex (\<lambda>x. rid x = rid r) (tb_get T (target_db X)) then Inr X
      else
        (case sql_insert T r (target_db X) of
           Inl e \<Rightarrow> Inl (RowRefused e)
         | Inr d \<Rightarrow> Inr (on_db (\<lambda>_. d) X)))"

section \<open>The tables (tables.go)\<close>

definition copy_user :: "import_library \<Rightarrow> cells \<Rightarrow> target \<Rightarrow> import_error + target" where
  "copy_user L r X =
     bindE (uuid_column L ''id'' r) (\<lambda>i.
     bindE (required_time L ''created_at'' r) (\<lambda>created.
     bindE (required_time L ''updated_at'' r) (\<lambda>updated.
     bindE (time_column L ''deleted_at'' r) (\<lambda>deleted.
       keep_account users_tab us_id
         \<lparr>us_id = i, us_email = None, us_norm = None, us_name = [],
          us_status = (if deleted = None then ''active'' else ''deleted''), us_role = ''user'',
          us_apple = cell_null_string L (cell_of r ''apple_subject''),
          us_dev = cell_null_string L (cell_of r ''dev_name''), us_verified = None,
          us_created = created, us_updated = updated, us_last_login = None, us_deletion = deleted,
          us_deleted = deleted\<rparr> X))))"

definition copy_device :: "import_library \<Rightarrow> cells \<Rightarrow> target \<Rightarrow> import_error + target" where
  "copy_device L r X =
     bindE (uuid_column L ''id'' r) (\<lambda>i.
     bindE (uuid_column L ''user_id'' r) (\<lambda>u.
     bindE (required_time L ''last_seen_at'' r) (\<lambda>seen.
     bindE (time_column L ''revoked_at'' r) (\<lambda>revoked.
       keep_account devices_tab dv_id
         \<lparr>dv_id = i, dv_user = u, dv_client = cell_string L (cell_of r ''client_device_id''),
          dv_name = cell_string L (cell_of r ''display_name''),
          dv_version = cell_string L (cell_of r ''app_version''), dv_seen = seen, dv_revoked = revoked\<rparr> X))))"

text \<open>The successor of a token is read only if its text is not empty.\<close>

definition copy_refresh_token :: "import_library \<Rightarrow> cells \<Rightarrow> target \<Rightarrow> import_error + target" where
  "copy_refresh_token L r X =
     bindE (uuid_column L ''id'' r) (\<lambda>i.
     bindE (uuid_column L ''user_id'' r) (\<lambda>u.
     bindE (uuid_column L ''device_id'' r) (\<lambda>dev.
     bindE (required_time L ''expires_at'' r) (\<lambda>expires.
     bindE (required_time L ''created_at'' r) (\<lambda>created.
     bindE (time_column L ''revoked_at'' r) (\<lambda>revoked.
     bindE (if cell_string L (cell_of r ''replaced_by'') = [] then Inr None
            else bindE (uuid_column L ''replaced_by'' r) (\<lambda>j. Inr (Some j))) (\<lambda>replaced.
       keep_account refresh_tab rt_id
         \<lparr>rt_id = i, rt_user = u, rt_device = dev, rt_hash = cell_string L (cell_of r ''token_hash''),
          rt_expires = expires, rt_revoked = revoked, rt_replaced = replaced, rt_created = created\<rparr> X)))))))"

text \<open>A long title is cut after 256 bytes.\<close>

definition copy_session :: "import_library \<Rightarrow> cells \<Rightarrow> target \<Rightarrow> import_error + target" where
  "copy_session L r X =
     bindE (uuid_column L ''id'' r) (\<lambda>i.
     bindE (uuid_column L ''user_id'' r) (\<lambda>u.
     bindE (required_time L ''started_at'' r) (\<lambda>started.
     bindE (time_column L ''ended_at'' r) (\<lambda>ended.
     bindE (time_column L ''deleted_at'' r) (\<lambda>deleted.
     bindE (required_time L ''created_at'' r) (\<lambda>created.
     bindE (required_time L ''updated_at'' r) (\<lambda>updated.
     bindE (float_column L ''duration'' r) (\<lambda>duration.
     bindE (bool_column L ''abnormal_termination'' False r) (\<lambda>abnormal.
     bindE (int_column L ''server_version'' r) (\<lambda>version.
       keep_synced sessions_tab
         \<lparr>rid = i, ruser = u, rver = version, rupdated = updated, rdeleted = deleted,
          s_title = take 256 (cell_string L (cell_of r ''title'')), s_started_at = started,
          s_ended_at = ended, s_duration = duration,
          s_src_lang = or_default (cell_string L (cell_of r ''source_language'')) ''ru'',
          s_tgt_lang = or_default (cell_string L (cell_of r ''target_language'')) ''zh-CN'',
          s_status = or_default (cell_string L (cell_of r ''session_status'')) ''active'',
          s_abnormal = abnormal, s_course_id = None\<rparr> X))))))))))"

text \<open>The column time\_source has its default.\<close>

definition copy_entry :: "import_library \<Rightarrow> cells \<Rightarrow> target \<Rightarrow> import_error + target" where
  "copy_entry L r X =
     bindE (uuid_column L ''id'' r) (\<lambda>i.
     bindE (uuid_column L ''user_id'' r) (\<lambda>u.
     bindE (uuid_column L ''session_id'' r) (\<lambda>sid.
     bindE (int_column L ''sequence_id'' r) (\<lambda>seq.
     bindE (float_column L ''start_offset'' r) (\<lambda>starts.
     bindE (float_column L ''end_offset'' r) (\<lambda>ends.
     bindE (required_time L ''created_at'' r) (\<lambda>created.
     bindE (required_time L ''updated_at'' r) (\<lambda>updated.
     bindE (time_column L ''deleted_at'' r) (\<lambda>deleted.
     bindE (int_column L ''server_version'' r) (\<lambda>version.
       keep_synced entries_tab
         \<lparr>rid = i, ruser = u, rver = version, rupdated = updated, rdeleted = deleted,
          e_session_id = sid, e_sequence_id = seq, e_start_offset = starts, e_end_offset = ends,
          e_russian = cell_string L (cell_of r ''russian_text''),
          e_chinese = cell_null_string L (cell_of r ''chinese_text''),
          e_status = or_default (cell_string L (cell_of r ''translation_status'')) ''pending'',
          e_time_source = ''legacy''\<rparr> X))))))))))"

definition copy_bookmark :: "import_library \<Rightarrow> cells \<Rightarrow> target \<Rightarrow> import_error + target" where
  "copy_bookmark L r X =
     bindE (uuid_column L ''id'' r) (\<lambda>i.
     bindE (uuid_column L ''user_id'' r) (\<lambda>u.
     bindE (uuid_column L ''session_id'' r) (\<lambda>sid.
     bindE (uuid_column L ''entry_id'' r) (\<lambda>entry.
     bindE (required_time L ''updated_at'' r) (\<lambda>updated.
     bindE (time_column L ''deleted_at'' r) (\<lambda>deleted.
     bindE (int_column L ''server_version'' r) (\<lambda>version.
     bindE (bool_column L ''is_bookmarked'' True r) (\<lambda>marked.
       keep_synced bookmarks_tab
         \<lparr>rid = i, ruser = u, rver = version, rupdated = updated, rdeleted = deleted,
          b_session_id = sid, b_entry_id = entry, b_is_bookmarked = marked\<rparr> X))))))))"

definition copy_favorite :: "import_library \<Rightarrow> cells \<Rightarrow> target \<Rightarrow> import_error + target" where
  "copy_favorite L r X =
     bindE (uuid_column L ''id'' r) (\<lambda>i.
     bindE (uuid_column L ''user_id'' r) (\<lambda>u.
     bindE (uuid_column L ''session_id'' r) (\<lambda>sid.
     bindE (required_time L ''updated_at'' r) (\<lambda>updated.
     bindE (time_column L ''deleted_at'' r) (\<lambda>deleted.
     bindE (int_column L ''server_version'' r) (\<lambda>version.
     bindE (bool_column L ''is_favorite'' True r) (\<lambda>favorite.
       keep_synced favorites_tab
         \<lparr>rid = i, ruser = u, rver = version, rupdated = updated, rdeleted = deleted,
          f_session_id = sid, f_is_favorite = favorite\<rparr> X)))))))"

text \<open>
  The change log of the model holds the entity types and operations of the server. A row with
  another one is an error here; the code copies it.
\<close>

definition change_op_of :: "string \<Rightarrow> change_op option" where
  "change_op_of s = (if s = ''upsert'' then Some Upsert else if s = ''delete'' then Some Delete else None)"

definition put_change :: "int \<Rightarrow> change \<Rightarrow> time \<Rightarrow> target \<Rightarrow> target" where
  "put_change seq ch created X =
     (let Y = sr_sync (tg_server X); d = st_db Y in
      X\<lparr>tg_server := (tg_server X)\<lparr>sr_sync := Y\<lparr>st_db := d\<lparr>db_changes := db_changes d @ [(seq, ch)]\<rparr>,
          st_changed := (st_changed Y)(seq := created)\<rparr>\<rparr>\<rparr>)"

text \<open>\<open>ON CONFLICT (change_sequence) DO NOTHING\<close>: a sequence number that is taken skips the row.\<close>

definition copy_sync_change :: "import_library \<Rightarrow> cells \<Rightarrow> target \<Rightarrow> import_error + target" where
  "copy_sync_change L r X =
     bindE (int_column L ''change_sequence'' r) (\<lambda>seq.
     bindE (uuid_column L ''user_id'' r) (\<lambda>u.
     bindE (uuid_column L ''entity_id'' r) (\<lambda>i.
     bindE (required_time L ''created_at'' r) (\<lambda>created.
     bindE (int_column L ''server_version'' r) (\<lambda>version.
       if \<not> int4 version then Inl (RowRefused ColumnDomain)
       else
         (case (entity_of (cell_string L (cell_of r ''entity_type'')),
                change_op_of (cell_string L (cell_of r ''operation''))) of
            (Some e, Some op) \<Rightarrow>
              if list_ex (\<lambda>c. fst c = seq) (db_changes (target_db X)) then Inr X
              else
                Inr (put_change seq
                  \<lparr>ch_user = u, ch_etype = e, ch_eid = i, ch_op = op, ch_version = version\<rparr> created X)
          | _ \<Rightarrow> Inl (ForeignChange seq)))))))"

definition put_ledger :: "int \<Rightarrow> ledger_row \<Rightarrow> time \<Rightarrow> target \<Rightarrow> target" where
  "put_ledger i l created X =
     (let Y = sr_sync (tg_server X); d = st_db Y; k = (lg_user l, lg_op_id l) in
      X\<lparr>tg_server := (tg_server X)\<lparr>sr_sync := Y\<lparr>st_db := d\<lparr>db_ledger := db_ledger d @ [l]\<rparr>,
          st_processed := (st_processed Y)(k := created)\<rparr>\<rparr>,
        tg_ledger_id := (tg_ledger_id X)(k := i)\<rparr>)"

definition ledger_key :: "ledger_row \<Rightarrow> uuid \<times> uuid" where
  "ledger_key l = (lg_user l, lg_op_id l)"

definition copy_processed_op :: "import_library \<Rightarrow> cells \<Rightarrow> target \<Rightarrow> import_error + target" where
  "copy_processed_op L r X =
     bindE (int_column L ''id'' r) (\<lambda>n.
     bindE (uuid_column L ''user_id'' r) (\<lambda>u.
     bindE (uuid_column L ''operation_id'' r) (\<lambda>op.
     bindE (uuid_column L ''entity_id'' r) (\<lambda>i.
     bindE (required_time L ''created_at'' r) (\<lambda>created.
       let result = cell_string L (cell_of r ''result'');
           l = \<lparr>lg_user = u, lg_op_id = op, lg_etype = cell_string L (cell_of r ''entity_type''),
                lg_eid = i, lg_result = il_result L result\<rparr> in
       if \<not> json_valid result then Inl (BadResult n)
       else if \<not> varchar 32 (lg_etype l) then Inl (RowRefused ColumnDomain)
       else if list_ex (\<lambda>x. tg_ledger_id X (ledger_key x) = n) (db_ledger (target_db X)) then Inr X
       else if find_ledger u op (target_db X) \<noteq> None then Inl (RowRefused UniqueViolation)
       else Inr (put_ledger n l created X))))))"

section \<open>The run (importer.go)\<close>

definition import_order :: "string list" where
  "import_order =
     [''users'', ''devices'', ''refresh_tokens'', ''classroom_sessions'', ''transcript_entries'',
      ''bookmarks'', ''favorite_sessions'', ''sync_changes'', ''processed_operations'']"

definition copy_row :: "import_library \<Rightarrow> string \<Rightarrow> cells \<Rightarrow> target \<Rightarrow> import_error + target" where
  "copy_row L table r X =
     (if table = ''users'' then copy_user L r X
      else if table = ''devices'' then copy_device L r X
      else if table = ''refresh_tokens'' then copy_refresh_token L r X
      else if table = ''classroom_sessions'' then copy_session L r X
      else if table = ''transcript_entries'' then copy_entry L r X
      else if table = ''bookmarks'' then copy_bookmark L r X
      else if table = ''favorite_sessions'' then copy_favorite L r X
      else if table = ''sync_changes'' then copy_sync_change L r X
      else if table = ''processed_operations'' then copy_processed_op L r X
      else Inl (MissingTables [table]))"

fun copy_rows :: "import_library \<Rightarrow> string \<Rightarrow> cells list \<Rightarrow> target \<Rightarrow> import_error + target" where
  "copy_rows L table [] X = Inr X"
| "copy_rows L table (r # rs) X = bindE (copy_row L table r X) (copy_rows L table rs)"

text \<open>The former database: its journal mode and the rows of its tables.\<close>

record source =
  so_journal :: string
  so_tables :: "(string \<times> cells list) list"

definition rows_of :: "source \<Rightarrow> string \<Rightarrow> cells list" where
  "rows_of s table = (case map_of (so_tables s) table of None \<Rightarrow> [] | Some rs \<Rightarrow> rs)"

fun copy_tables :: "import_library \<Rightarrow> source \<Rightarrow> string list \<Rightarrow> target \<Rightarrow> import_error + target" where
  "copy_tables L s [] X = Inr X"
| "copy_tables L s (t # ts) X = bindE (copy_rows L t (rows_of s t) X) (copy_tables L s ts)"

text \<open>\<open>setval(..., coalesce(max(...), 1))\<close> on both sequences\<close>

definition max_or_1 :: "int list \<Rightarrow> int" where
  "max_or_1 ns = (case ns of [] \<Rightarrow> 1 | n # ns \<Rightarrow> foldl max n ns)"

definition reset_sequences :: "target \<Rightarrow> target" where
  "reset_sequences X =
     on_db (\<lambda>d. d\<lparr>db_seq := max_or_1 (map fst (db_changes d))\<rparr>)
       (X\<lparr>tg_ledger_seq := max_or_1 (map (tg_ledger_id X o ledger_key) (db_ledger (target_db X)))\<rparr>)"

definition apply_all :: "import_library \<Rightarrow> source \<Rightarrow> target \<Rightarrow> import_error + target" where
  "apply_all L s X = bindE (copy_tables L s import_order X) (\<lambda>X. Inr (reset_sequences X))"

record report =
  rp_dry_run :: bool
  rp_counts :: "(string \<times> nat) list"
  rp_journal :: string
  rp_target_empty :: bool
  rp_warnings :: "string list"
  rp_applied :: bool
  rp_sequences :: "string list"

definition row_counts :: "source \<Rightarrow> (string \<times> nat) list" where
  "row_counts s = map (\<lambda>t. (t, length (rows_of s t))) import_order"

definition check_source_shape :: "import_library \<Rightarrow> source \<Rightarrow> report \<Rightarrow> report \<times> import_error option" where
  "check_source_shape L s R =
     (let R = R\<lparr>rp_journal := il_lower L (trim_space (so_journal s))\<rparr>;
          missing = filter (\<lambda>t. map_of (so_tables s) t = None) import_order in
      if rp_journal R = ''wal'' then (R, Some WalSource)
      else (R\<lparr>rp_counts := row_counts s\<rparr>, if missing \<noteq> [] then Some (MissingTables missing) else None))"

definition target_empty :: "target \<Rightarrow> bool" where
  "target_empty X \<longleftrightarrow> ac_users (target_accounts X) = [] \<and> sessions (target_db X) = []"

definition new_report :: "bool \<Rightarrow> report" where
  "new_report apply_it =
     \<lparr>rp_dry_run = \<not> apply_it, rp_counts = [], rp_journal = [], rp_target_empty = False, rp_warnings = [],
      rp_applied = False, rp_sequences = []\<rparr>"

text \<open>
  \<open>Run\<close>: the copy is one transaction; there is a report with every error. The counts of the report
  are those of the source, as skipped rows count as copied. The path of the source and the times
  of the run are left out of the report.
\<close>

definition run_import ::
  "import_library \<Rightarrow> bool \<Rightarrow> bool \<Rightarrow> source \<Rightarrow> target \<Rightarrow> target \<times> report \<times> import_error option" where
  "run_import L apply_it allow_non_empty s X =
     (case check_source_shape L s (new_report apply_it) of
        (R, Some e) \<Rightarrow> (X, R, Some e)
      | (R, None) \<Rightarrow>
          if \<not> apply_it
          then (X, R\<lparr>rp_warnings :=
                  [''dry-run: no data was written to PostgreSQL (re-run with --apply)'']\<rparr>, None)
          else
            (let R = R\<lparr>rp_target_empty := target_empty X\<rparr> in
             if \<not> target_empty X \<and> \<not> allow_non_empty then (X, R, Some TargetNotEmpty)
             else
               (case apply_all L s X of
                  Inl e \<Rightarrow> (X, R, Some e)
                | Inr Y \<Rightarrow>
                    (Y, R\<lparr>rp_sequences := [''sync_changes_change_sequence_seq'', ''processed_operations_id_seq''],
                          rp_applied := True\<rparr>, None))))"

end
