(* ===== verification/Import_Properties.thy ===== *)
theory Import_Properties
  imports Importer Account_Examples
begin

text \<open>
  What an import keeps and what a second one changes: the contract of a copier, its interpretation
  on the nine tables, and the import as a whole.
\<close>

section \<open>The contract of a copier\<close>

text \<open>Every row of a target is a row of another, and its ledger rows have kept their ids.\<close>

definition ledger_ids :: "target \<Rightarrow> int set" where
  "ledger_ids X = (\<lambda>l. tg_ledger_id X (ledger_key l)) ` set (db_ledger (target_db X))"

definition has_more :: "target \<Rightarrow> target \<Rightarrow> bool" where
  "has_more X Y \<longleftrightarrow>
     set (ac_users (target_accounts X)) \<subseteq> set (ac_users (target_accounts Y)) \<and>
     set (ac_devices (target_accounts X)) \<subseteq> set (ac_devices (target_accounts Y)) \<and>
     set (ac_refresh (target_accounts X)) \<subseteq> set (ac_refresh (target_accounts Y)) \<and>
     set (sessions (target_db X)) \<subseteq> set (sessions (target_db Y)) \<and>
     set (entries (target_db X)) \<subseteq> set (entries (target_db Y)) \<and>
     set (bookmarks (target_db X)) \<subseteq> set (bookmarks (target_db Y)) \<and>
     set (favorites (target_db X)) \<subseteq> set (favorites (target_db Y)) \<and>
     set (db_changes (target_db X)) \<subseteq> set (db_changes (target_db Y)) \<and>
     (\<lambda>l. (l, tg_ledger_id X (ledger_key l))) ` set (db_ledger (target_db X)) \<subseteq>
       (\<lambda>l. (l, tg_ledger_id Y (ledger_key l))) ` set (db_ledger (target_db Y))"

lemma has_more_refl: "has_more X X"
  by (simp add: has_more_def)

lemma has_more_trans: "has_more X Y \<Longrightarrow> has_more Y Z \<Longrightarrow> has_more X Z"
  unfolding has_more_def by (elim conjE, intro conjI) (erule (1) subset_trans)+

text \<open>
  A copier only adds rows, and finds what it added: on a target with more rows it succeeds and
  changes nothing.
\<close>

locale copier =
  fixes copy :: "target \<Rightarrow> import_error + target"
  assumes copy_adds: "copy X = Inr Y \<Longrightarrow> has_more X Y"
    and copy_again: "copy X = Inr Y \<Longrightarrow> has_more Y Z \<Longrightarrow> copy Z = Inr Z"
begin

lemma copy_twice: "copy X = Inr Y \<Longrightarrow> copy Y = Inr Y"
  using copy_again has_more_refl by blast

end

section \<open>Copiers\<close>

lemma copier_nothing: "copier Inr"
  by unfold_locales (auto simp: has_more_refl)

lemma copier_fails: "copier (\<lambda>X. Inl e)"
  by unfold_locales auto

lemma copier_seq:
  assumes "copier f" and "copier g"
  shows "copier (\<lambda>X. bindE (f X) g)"
proof
  fix X Y assume "bindE (f X) g = Inr Y"
  then obtain M where "f X = Inr M" "g M = Inr Y" by (rule bindE_InrE)
  then show "has_more X Y"
    using copier.copy_adds [OF assms(1)] copier.copy_adds [OF assms(2)] has_more_trans by blast
next
  fix X Y Z assume "bindE (f X) g = Inr Y" and more: "has_more Y Z"
  then obtain M where M: "f X = Inr M" "g M = Inr Y" by (auto elim: bindE_InrE)
  then have "has_more M Z" using copier.copy_adds [OF assms(2)] more has_more_trans by blast
  then show "bindE (f Z) g = Inr Z"
    using copier.copy_again [OF assms(1) M(1)] copier.copy_again [OF assms(2) M(2) more] by simp
qed

text \<open>What is read from the row does not depend on the target.\<close>

lemma copier_read: "(\<And>x. copier (g x)) \<Longrightarrow> copier (\<lambda>X. bindE m (\<lambda>x. g x X))"
  by (cases m) (simp_all add: copier_fails)

lemma copier_if: "copier f \<Longrightarrow> copier g \<Longrightarrow> copier (\<lambda>X. if b then f X else g X)"
  by (cases b) simp_all

text \<open>A copier that inserts one row, unless its id is there.\<close>

lemma copier_keep:
  assumes adds: "\<And>X Y. f X = Inr Y \<Longrightarrow> has_more X Y"
    and there: "\<And>X Y. f X = Inr Y \<Longrightarrow> i \<in> ids Y"
    and mono: "\<And>Y Z. has_more Y Z \<Longrightarrow> ids Y \<subseteq> ids Z"
    and skip: "\<And>X Y Z. f X = Inr Y \<Longrightarrow> i \<in> ids Z \<Longrightarrow> f Z = Inr Z"
  shows "copier f"
  using adds there mono skip by unfold_locales blast+

lemma keep_accountE:
  assumes "keep_account T key r X = Inr Y"
  obtains (there) "at_ok T r" "key r \<in> key ` set (at_get T (target_accounts X))" "Y = X"
  | (new) "at_ok T r"
      "Y = X\<lparr>tg_server := (tg_server X)\<lparr>sr_accounts :=
        at_put T (at_get T (target_accounts X) @ [r]) (target_accounts X)\<rparr>\<rparr>"
proof (cases "list_ex (\<lambda>x. key x = key r) (at_get T (target_accounts X))")
  case True
  show ?thesis
  proof (rule there)
    show "at_ok T r" using assms by (simp add: keep_account_def Let_def split: if_splits)
    then show "Y = X" using assms True by (simp add: keep_account_def Let_def)
    from True obtain x where "x \<in> set (at_get T (target_accounts X))" "key x = key r"
      by (auto simp: list_ex_iff)
    then show "key r \<in> key ` set (at_get T (target_accounts X))" by (metis imageI)
  qed
next
  case False
  have "at_ok T r" using assms by (simp add: keep_account_def Let_def split: if_splits)
  moreover from calculation False obtain A where "a_insert T r (target_accounts X) = Inr A"
    "Y = X\<lparr>tg_server := (tg_server X)\<lparr>sr_accounts := A\<rparr>\<rparr>"
    using assms by (cases "a_insert T r (target_accounts X)") (simp_all add: keep_account_def Let_def)
  moreover from calculation(2) have "A = at_put T (at_get T (target_accounts X) @ [r]) (target_accounts X)"
    by (simp add: a_insert_def split: if_splits)
  ultimately show ?thesis by (intro new) simp_all
qed

lemma keep_account_skips:
  assumes "at_ok T r" and "key r \<in> key ` set (at_get T (target_accounts Z))"
  shows "keep_account T key r Z = Inr Z"
proof -
  from assms(2) obtain x where "x \<in> set (at_get T (target_accounts Z))" "key x = key r" by (metis imageE)
  then have "list_ex (\<lambda>x. key x = key r) (at_get T (target_accounts Z))" by (auto simp: list_ex_iff)
  then show ?thesis using assms(1) by (simp add: keep_account_def)
qed

lemma copier_users: "copier (keep_account users_tab us_id r)"
proof (rule copier_keep [where ids = "\<lambda>X. us_id ` set (ac_users (target_accounts X))" and i = "us_id r"])
  fix X Y assume "keep_account users_tab us_id r X = Inr Y"
  then show "has_more X Y"
    by (cases rule: keep_accountE) (auto simp: has_more_def target_accounts_def target_db_def users_tab_def)
next
  fix X Y assume "keep_account users_tab us_id r X = Inr Y"
  then show "us_id r \<in> us_id ` set (ac_users (target_accounts Y))"
    by (cases rule: keep_accountE) (auto simp: target_accounts_def users_tab_def)
next
  fix X Y Z assume "keep_account users_tab us_id r X = Inr Y" "us_id r \<in> us_id ` set (ac_users (target_accounts Z))"
  then show "keep_account users_tab us_id r Z = Inr Z"
    by (cases rule: keep_accountE) (rule keep_account_skips; simp add: users_tab_def)+
qed (auto simp: has_more_def)

lemma copier_devices: "copier (keep_account devices_tab dv_id r)"
proof (rule copier_keep [where ids = "\<lambda>X. dv_id ` set (ac_devices (target_accounts X))" and i = "dv_id r"])
  fix X Y assume "keep_account devices_tab dv_id r X = Inr Y"
  then show "has_more X Y"
    by (cases rule: keep_accountE) (auto simp: has_more_def target_accounts_def target_db_def devices_tab_def)
next
  fix X Y assume "keep_account devices_tab dv_id r X = Inr Y"
  then show "dv_id r \<in> dv_id ` set (ac_devices (target_accounts Y))"
    by (cases rule: keep_accountE) (auto simp: target_accounts_def devices_tab_def)
next
  fix X Y Z assume "keep_account devices_tab dv_id r X = Inr Y" "dv_id r \<in> dv_id ` set (ac_devices (target_accounts Z))"
  then show "keep_account devices_tab dv_id r Z = Inr Z"
    by (cases rule: keep_accountE) (rule keep_account_skips; simp add: devices_tab_def)+
qed (auto simp: has_more_def)

lemma copier_refresh: "copier (keep_account refresh_tab rt_id r)"
proof (rule copier_keep [where ids = "\<lambda>X. rt_id ` set (ac_refresh (target_accounts X))" and i = "rt_id r"])
  fix X Y assume "keep_account refresh_tab rt_id r X = Inr Y"
  then show "has_more X Y"
    by (cases rule: keep_accountE) (auto simp: has_more_def target_accounts_def target_db_def refresh_tab_def)
next
  fix X Y assume "keep_account refresh_tab rt_id r X = Inr Y"
  then show "rt_id r \<in> rt_id ` set (ac_refresh (target_accounts Y))"
    by (cases rule: keep_accountE) (auto simp: target_accounts_def refresh_tab_def)
next
  fix X Y Z assume "keep_account refresh_tab rt_id r X = Inr Y" "rt_id r \<in> rt_id ` set (ac_refresh (target_accounts Z))"
  then show "keep_account refresh_tab rt_id r Z = Inr Z"
    by (cases rule: keep_accountE) (rule keep_account_skips; simp add: refresh_tab_def)+
qed (auto simp: has_more_def)

lemma keep_syncedE:
  assumes "keep_synced T r X = Inr Y"
  obtains (there) "int4 (rver r)" "tb_ok T r" "rid r \<in> rid ` set (tb_get T (target_db X))" "Y = X"
  | (new) "int4 (rver r)" "tb_ok T r" "Y = on_db (\<lambda>_. tb_put T (tb_get T (target_db X) @ [r]) (target_db X)) X"
proof (cases "list_ex (\<lambda>x. rid x = rid r) (tb_get T (target_db X))")
  case True
  show ?thesis
  proof (rule there)
    show *: "int4 (rver r)" "tb_ok T r"
      using assms by (simp_all add: keep_synced_def split: if_splits)
    then show "Y = X" using assms True by (simp add: keep_synced_def)
    from True obtain x where "x \<in> set (tb_get T (target_db X))" "rid x = rid r" by (auto simp: list_ex_iff)
    then show "rid r \<in> rid ` set (tb_get T (target_db X))" by (metis imageI)
  qed
next
  case False
  have *: "int4 (rver r)" "tb_ok T r"
    using assms by (simp_all add: keep_synced_def split: if_splits)
  with False obtain d where d: "sql_insert T r (target_db X) = Inr d" "Y = on_db (\<lambda>_. d) X"
    using assms by (cases "sql_insert T r (target_db X)") (simp_all add: keep_synced_def)
  from d(1) have "d = tb_put T (tb_get T (target_db X) @ [r]) (target_db X)"
    by (simp add: sql_insert_def split: if_splits)
  with d(2) * show ?thesis by (intro new) simp_all
qed

lemma keep_synced_skips:
  assumes "int4 (rver r)" "tb_ok T r" and "rid r \<in> rid ` set (tb_get T (target_db Z))"
  shows "keep_synced T r Z = Inr Z"
proof -
  from assms(3) obtain x where "x \<in> set (tb_get T (target_db Z))" "rid x = rid r" by (metis imageE)
  then have "list_ex (\<lambda>x. rid x = rid r) (tb_get T (target_db Z))" by (auto simp: list_ex_iff)
  then show ?thesis using assms(1,2) by (simp add: keep_synced_def)
qed

lemma target_on_db [simp]:
  "target_db (on_db f X) = f (target_db X)"
  "target_accounts (on_db f X) = target_accounts X"
  "tg_ledger_id (on_db f X) = tg_ledger_id X"
  by (simp_all add: on_db_def target_db_def target_accounts_def)

lemma copier_sessions: "copier (keep_synced sessions_tab r)"
proof (rule copier_keep [where ids = "\<lambda>X. rid ` set (sessions (target_db X))" and i = "rid r"])
  fix X Y assume "keep_synced sessions_tab r X = Inr Y"
  then show "has_more X Y"
    by (cases rule: keep_syncedE) (auto simp: has_more_def sessions_tab_def)
next
  fix X Y assume "keep_synced sessions_tab r X = Inr Y"
  then show "rid r \<in> rid ` set (sessions (target_db Y))"
    by (cases rule: keep_syncedE) (auto simp: sessions_tab_def)
next
  fix X Y Z assume "keep_synced sessions_tab r X = Inr Y" "rid r \<in> rid ` set (sessions (target_db Z))"
  then show "keep_synced sessions_tab r Z = Inr Z"
    by (cases rule: keep_syncedE) (rule keep_synced_skips; simp add: sessions_tab_def)+
qed (auto simp: has_more_def)

lemma copier_entries: "copier (keep_synced entries_tab r)"
proof (rule copier_keep [where ids = "\<lambda>X. rid ` set (entries (target_db X))" and i = "rid r"])
  fix X Y assume "keep_synced entries_tab r X = Inr Y"
  then show "has_more X Y"
    by (cases rule: keep_syncedE) (auto simp: has_more_def entries_tab_def)
next
  fix X Y assume "keep_synced entries_tab r X = Inr Y"
  then show "rid r \<in> rid ` set (entries (target_db Y))"
    by (cases rule: keep_syncedE) (auto simp: entries_tab_def)
next
  fix X Y Z assume "keep_synced entries_tab r X = Inr Y" "rid r \<in> rid ` set (entries (target_db Z))"
  then show "keep_synced entries_tab r Z = Inr Z"
    by (cases rule: keep_syncedE) (rule keep_synced_skips; simp add: entries_tab_def)+
qed (auto simp: has_more_def)

lemma copier_bookmarks: "copier (keep_synced bookmarks_tab r)"
proof (rule copier_keep [where ids = "\<lambda>X. rid ` set (bookmarks (target_db X))" and i = "rid r"])
  fix X Y assume "keep_synced bookmarks_tab r X = Inr Y"
  then show "has_more X Y"
    by (cases rule: keep_syncedE) (auto simp: has_more_def bookmarks_tab_def)
next
  fix X Y assume "keep_synced bookmarks_tab r X = Inr Y"
  then show "rid r \<in> rid ` set (bookmarks (target_db Y))"
    by (cases rule: keep_syncedE) (auto simp: bookmarks_tab_def)
next
  fix X Y Z assume "keep_synced bookmarks_tab r X = Inr Y" "rid r \<in> rid ` set (bookmarks (target_db Z))"
  then show "keep_synced bookmarks_tab r Z = Inr Z"
    by (cases rule: keep_syncedE) (rule keep_synced_skips; simp add: bookmarks_tab_def)+
qed (auto simp: has_more_def)

lemma copier_favorites: "copier (keep_synced favorites_tab r)"
proof (rule copier_keep [where ids = "\<lambda>X. rid ` set (favorites (target_db X))" and i = "rid r"])
  fix X Y assume "keep_synced favorites_tab r X = Inr Y"
  then show "has_more X Y"
    by (cases rule: keep_syncedE) (auto simp: has_more_def favorites_tab_def)
next
  fix X Y assume "keep_synced favorites_tab r X = Inr Y"
  then show "rid r \<in> rid ` set (favorites (target_db Y))"
    by (cases rule: keep_syncedE) (auto simp: favorites_tab_def)
next
  fix X Y Z assume "keep_synced favorites_tab r X = Inr Y" "rid r \<in> rid ` set (favorites (target_db Z))"
  then show "keep_synced favorites_tab r Z = Inr Z"
    by (cases rule: keep_syncedE) (rule keep_synced_skips; simp add: favorites_tab_def)+
qed (auto simp: has_more_def)


text \<open>The change log and the ledger: the row counts by its sequence number, or by its id.\<close>

lemma copier_put_change:
  "copier (\<lambda>X. if list_ex (\<lambda>c. fst c = n) (db_changes (target_db X)) then Inr X else Inr (put_change n ch t X))"
proof (rule copier_keep [where ids = "\<lambda>X. fst ` set (db_changes (target_db X))" and i = n])
  fix X Y
  assume c: "(if list_ex (\<lambda>c. fst c = n) (db_changes (target_db X)) then Inr X else Inr (put_change n ch t X)) = (Inr Y :: import_error + target)"
  then show "has_more X Y"
    by (auto simp: has_more_def put_change_def Let_def target_db_def target_accounts_def split: if_splits)
  show "n \<in> fst ` set (db_changes (target_db Y))"
    using c by (auto simp: put_change_def Let_def target_db_def list_ex_iff split: if_splits)
next
  fix Z assume "n \<in> fst ` set (db_changes (target_db Z))"
  then show "(if list_ex (\<lambda>c. fst c = n) (db_changes (target_db Z)) then Inr Z else Inr (put_change n ch t Z)) = (Inr Z :: import_error + target)"
    by (auto simp: list_ex_iff)
qed (auto simp: has_more_def)

definition keep_ledger :: "int \<Rightarrow> ledger_row \<Rightarrow> time \<Rightarrow> target \<Rightarrow> import_error + target" where
  "keep_ledger n l t X =
     (if list_ex (\<lambda>x. tg_ledger_id X (ledger_key x) = n) (db_ledger (target_db X)) then Inr X
      else if find_ledger (lg_user l) (lg_op_id l) (target_db X) \<noteq> None then Inl (RowRefused UniqueViolation)
      else Inr (put_ledger n l t X))"

lemma other_ledger_keys:
  "find_ledger u op d = None \<Longrightarrow> x \<in> set (db_ledger d) \<Longrightarrow> ledger_key x \<noteq> (u, op)"
  by (auto simp: find_ledger_def find_None_iff ledger_key_def)

lemma put_ledger_ids:
  assumes "find_ledger (lg_user l) (lg_op_id l) (target_db X) = None"
  shows "ledger_ids (put_ledger n l t X) = insert n (ledger_ids X)"
  using other_ledger_keys [OF assms]
  by (auto simp: ledger_ids_def put_ledger_def Let_def target_db_def ledger_key_def image_iff)

lemma put_ledger_more:
  assumes "find_ledger (lg_user l) (lg_op_id l) (target_db X) = None"
  shows "has_more X (put_ledger n l t X)"
proof -
  have "tg_ledger_id (put_ledger n l t X) (ledger_key x) = tg_ledger_id X (ledger_key x)"
    if "x \<in> set (db_ledger (target_db X))" for x
    using other_ledger_keys [OF assms that] by (simp add: put_ledger_def Let_def)
  then show ?thesis
    unfolding has_more_def
    by (intro conjI) (auto simp: put_ledger_def Let_def target_db_def target_accounts_def image_iff)
qed

lemma ledger_ids_mono: "has_more Y Z \<Longrightarrow> ledger_ids Y \<subseteq> ledger_ids Z"
proof -
  assume "has_more Y Z"
  then have "snd ` (\<lambda>l. (l, tg_ledger_id Y (ledger_key l))) ` set (db_ledger (target_db Y)) \<subseteq>
      snd ` (\<lambda>l. (l, tg_ledger_id Z (ledger_key l))) ` set (db_ledger (target_db Z))"
    by (simp only: has_more_def image_mono)
  then show "ledger_ids Y \<subseteq> ledger_ids Z" by (simp add: ledger_ids_def image_image)
qed

lemma copier_keep_ledger: "copier (keep_ledger n l t)"
proof (rule copier_keep [where ids = ledger_ids and i = n, OF _ _ ledger_ids_mono])
  fix X Y assume c: "keep_ledger n l t X = Inr Y"
  show "has_more X Y"
    using c by (auto simp: keep_ledger_def has_more_refl put_ledger_more split: if_splits)
  show "n \<in> ledger_ids Y"
    using c by (auto simp: keep_ledger_def put_ledger_ids list_ex_iff ledger_ids_def [of X] split: if_splits)
      (auto simp: ledger_ids_def)
next
  fix Z assume "n \<in> ledger_ids Z"
  then show "keep_ledger n l t Z = Inr Z" by (auto simp: keep_ledger_def ledger_ids_def list_ex_iff)
qed (auto simp: has_more_def)

section \<open>The nine tables\<close>

lemmas copier_rules = copier_read copier_if copier_nothing copier_fails copier_users copier_devices
  copier_refresh copier_sessions copier_entries copier_bookmarks copier_favorites copier_put_change
  copier_keep_ledger


lemma copier_copy_user: "copier (copy_user L r)"
  unfolding copy_user_def [abs_def] by (intro copier_rules)

lemma copier_copy_device: "copier (copy_device L r)"
  unfolding copy_device_def [abs_def] by (intro copier_rules)

lemma copier_copy_refresh_token: "copier (copy_refresh_token L r)"
  unfolding copy_refresh_token_def [abs_def] by (intro copier_rules)

lemma copier_copy_session: "copier (copy_session L r)"
  unfolding copy_session_def [abs_def] by (intro copier_rules)

lemma copier_copy_entry: "copier (copy_entry L r)"
  unfolding copy_entry_def [abs_def] by (intro copier_rules)

lemma copier_copy_bookmark: "copier (copy_bookmark L r)"
  unfolding copy_bookmark_def [abs_def] by (intro copier_rules)

lemma copier_copy_favorite: "copier (copy_favorite L r)"
  unfolding copy_favorite_def [abs_def] by (intro copier_rules)

lemma copier_known_change:
  "(\<And>e op. copier (g e op)) \<Longrightarrow> copier h \<Longrightarrow>
    copier (\<lambda>X. case (x, y) of (Some e, Some op) \<Rightarrow> g e op X | _ \<Rightarrow> h X)"
  by (cases x; cases y) simp_all

lemma copier_copy_sync_change: "copier (copy_sync_change L r)"
  unfolding copy_sync_change_def [abs_def] by (intro copier_rules copier_known_change)

lemma copy_processed_op_keeps:
  "copy_processed_op L r = (\<lambda>X.
     bindE (int_column L ''id'' r) (\<lambda>n.
     bindE (uuid_column L ''user_id'' r) (\<lambda>u.
     bindE (uuid_column L ''operation_id'' r) (\<lambda>op.
     bindE (uuid_column L ''entity_id'' r) (\<lambda>i.
     bindE (required_time L ''created_at'' r) (\<lambda>created.
       if \<not> json_valid (cell_string L (cell_of r ''result'')) then Inl (BadResult n)
       else if \<not> varchar 32 (cell_string L (cell_of r ''entity_type'')) then Inl (RowRefused ColumnDomain)
       else keep_ledger n
         \<lparr>lg_user = u, lg_op_id = op, lg_etype = cell_string L (cell_of r ''entity_type''), lg_eid = i,
          lg_result = il_result L (cell_string L (cell_of r ''result''))\<rparr> created X))))))"
  by (rule ext) (simp add: copy_processed_op_def keep_ledger_def Let_def cong: if_cong)

lemma copier_copy_processed_op: "copier (copy_processed_op L r)"
  unfolding copy_processed_op_keeps by (intro copier_rules)

text \<open>Each table, a list of rows and a list of tables keep the contract.\<close>

interpretation row: copier "copy_row L table r"
  for L table r
  unfolding copy_row_def [abs_def]
  by (intro copier_if copier_fails copier_copy_user copier_copy_device copier_copy_refresh_token copier_copy_session copier_copy_entry
      copier_copy_bookmark copier_copy_favorite copier_copy_sync_change copier_copy_processed_op)

lemma copier_copy_rows: "copier (copy_rows L table rs)"
proof (induction rs)
  case Nil
  then show ?case using copier_nothing by simp
next
  case (Cons r rs)
  then show ?case using copier_seq [OF row.copier_axioms, of "copy_rows L table rs" L table r] by simp
qed

lemma copier_copy_tables: "copier (copy_tables L s ts)"
proof (induction ts)
  case Nil
  then show ?case by (simp add: copier_nothing)
next
  case (Cons t ts)
  then show ?case using copier_seq [OF copier_copy_rows, of "copy_tables L s ts" L t "rows_of s t"] by simp
qed

interpretation tables: copier "copy_tables L s ts"
  for L s ts
  by (rule copier_copy_tables)

section \<open>The sequences\<close>

lemma max_or_1_ge: "n \<in> set ns \<Longrightarrow> n \<le> max_or_1 ns"
proof -
  have "m \<le> foldl max m ns \<and> (\<forall>n\<in>set ns. n \<le> foldl max m ns)" for m and ns :: "int list"
    proof (induction ns arbitrary: m)
    case (Cons n ns)
    from Cons.IH [of "max m n"] have "max m n \<le> foldl max (max m n) ns" by blast
    then have "m \<le> foldl max (max m n) ns" "n \<le> foldl max (max m n) ns" by linarith+
    then show ?case using Cons.IH [of "max m n"] by simp
  qed simp
  then show "n \<in> set ns \<Longrightarrow> n \<le> max_or_1 ns" by (cases ns) (auto simp: max_or_1_def)
qed

lemma reset_sequences_twice: "reset_sequences (reset_sequences X) = reset_sequences X"
  by (simp add: reset_sequences_def on_db_def target_db_def)

lemma has_more_reset: "has_more X (reset_sequences X)"
  by (simp add: has_more_def reset_sequences_def ledger_ids_def target_db_def target_accounts_def on_db_def)

section \<open>A former database\<close>

text \<open>
  One user with one classroom session, its change row and the ledger row of the push. Ids are read
  from the last digit, times from the seconds of the plain layout.
\<close>

definition import0 :: import_library where
  "import0 =
     \<lparr>il_lower = (\<lambda>s. s), il_real_text = (\<lambda>x. []), il_parse_real = (\<lambda>s. None), il_truncate = (\<lambda>x. 0),
      il_parse_time = (\<lambda>l s. if l = ''2006-01-02 15:04:05'' \<and> length s = 19
         then Some (int (decimal_value (drop 17 s))) else None),
      il_parse_uuid = (\<lambda>s. Some (of_nat (decimal_value (drop 35 s)))),
      il_result = (\<lambda>s. None)\<rparr>"

definition id_cell :: "char \<Rightarrow> cell" where
  "id_cell c = CText (''00000000-0000-0000-0000-00000000000'' @ [c])"

definition now_cell :: cell where
  "now_cell = CText ''2026-01-02T03:04:05''"

definition source0 :: source where
  "source0 = \<lparr>so_journal = ''delete'', so_tables =
     [(''users'', [[(''id'', id_cell CHR ''2''), (''created_at'', now_cell), (''updated_at'', now_cell)]]),
      (''devices'', []), (''refresh_tokens'', []),
      (''classroom_sessions'',
        [[(''id'', id_cell CHR ''3''), (''user_id'', id_cell CHR ''2''), (''title'', CText ''Physics''),
          (''started_at'', now_cell), (''created_at'', now_cell), (''updated_at'', now_cell),
          (''server_version'', CInt 1)]]),
      (''transcript_entries'', []), (''bookmarks'', []), (''favorite_sessions'', []),
      (''sync_changes'',
        [[(''change_sequence'', CInt 1), (''user_id'', id_cell CHR ''2''),
          (''entity_type'', CText ''session''), (''entity_id'', id_cell CHR ''3''),
          (''operation'', CText ''upsert''), (''server_version'', CInt 1), (''created_at'', now_cell)]]),
      (''processed_operations'',
        [[(''id'', CInt 1), (''user_id'', id_cell CHR ''2''), (''operation_id'', id_cell CHR ''4''),
          (''entity_type'', CText ''session''), (''entity_id'', id_cell CHR ''3''),
          (''result'', CText ''{}''), (''created_at'', now_cell)]])]\<rparr>"

definition new_target :: target where
  "new_target = \<lparr>tg_server = new_server, tg_ledger_id = (\<lambda>_. 0), tg_ledger_seq = 0\<rparr>"

definition imported0 :: target where
  "imported0 = projr (apply_all import0 source0 new_target)"

lemma import0_ends: "apply_all import0 source0 new_target = Inr imported0"
proof -
  have "\<not> isl (apply_all import0 source0 new_target)" by code_simp
  then show ?thesis by (simp add: imported0_def)
qed

text \<open>
  A merge can rewind the change numbers: the log of this target has been pruned after number 9, and
  after the merge the next change is number 2, below the cursors of the target's devices.
\<close>

lemma merge_rewinds_the_sequence:
  "map_sum id (db_seq o target_db)
     (apply_all import0 source0 (on_db (\<lambda>d. d\<lparr>db_seq := 9\<rparr>) new_target)) = Inr 1"
  by code_simp

text \<open>
  A merge can lose changes: the number of the source's change is taken in the target, and the log
  has no change of the imported session, which is in its table.
\<close>

definition busy_target :: target where
  "busy_target = on_db (\<lambda>d. d\<lparr>db_seq := 1, db_changes :=
     [(1, \<lparr>ch_user = 7, ch_etype = ESession, ch_eid = 8, ch_op = Upsert, ch_version = 1\<rparr>)]\<rparr>) new_target"

lemma merge_loses_changes:
  "map_sum id (\<lambda>Y. (map rid (sessions (target_db Y)), map (ch_eid o snd) (db_changes (target_db Y))))
     (apply_all import0 source0 busy_target) = Inr ([3], [8])"
  by code_simp

section \<open>The import\<close>

text \<open>
  C35: An import may be repeated. If the copy of a source ends, every row the target had is still
  there as it was, the same copy ends again on the result and leaves it as it is, and the change
  numbers the server gives out next are above every number of the log.
\<close>

theorem import_is_idempotent:
  assumes "apply_all L s X = Inr Y"
  shows "has_more X Y \<and> apply_all L s Y = Inr Y \<and> list_all (\<lambda>c. fst c \<le> db_seq (target_db Y)) (db_changes (target_db Y))"
proof -
  from assms obtain M where M: "copy_tables L s import_order X = Inr M" and Y: "Y = reset_sequences M"
    by (auto simp: apply_all_def elim: bindE_InrE)
  have "has_more X Y" using tables.copy_adds [OF M] has_more_reset has_more_trans Y by blast
  moreover have "apply_all L s Y = Inr Y"
    using tables.copy_again [OF M, of Y] has_more_reset [of M] Y
    by (simp add: apply_all_def reset_sequences_twice)
  moreover have "db_changes (target_db Y) = db_changes (target_db M)"
    "db_seq (target_db Y) = max_or_1 (map fst (db_changes (target_db M)))"
    by (simp_all add: Y reset_sequences_def target_db_def on_db_def)
  ultimately show ?thesis by (simp add: list_all_iff max_or_1_ge)
qed


lemma import_is_idempotent_witness:
  "apply_all import0 source0 imported0 = Inr imported0 \<and>
    map rid (sessions (target_db imported0)) = [3] \<and> map fst (db_changes (target_db imported0)) = [1]"
proof -
  have "apply_all import0 source0 imported0 = Inr imported0"
    using import_is_idempotent [OF import0_ends] by (elim conjE)
  moreover have "map rid (sessions (target_db imported0)) = [3]" by code_simp
  moreover have "map fst (db_changes (target_db imported0)) = [1]" by code_simp
  ultimately show ?thesis by blast
qed


end
