(* ===== verification/Models.thy ===== *)
theory Models
  imports Routes Files
begin

text \<open>
  The store of the models that the app runs on the device (internal/modelstore) and the routes that
  serve them (internal/httpapi/modelapi): the catalog, verification, downloads that resume, and the
  answers to signed-in clients.
\<close>

section \<open>The catalog\<close>

record ai_model =
  md_id :: string
  md_file :: string
  md_bytes :: nat
  md_sha :: string
  md_upstream :: string
  md_title :: string

definition catalog :: "ai_model list" where
  "catalog =
     [\<lparr>md_id = ''hy-mt2-1.8b-q4km'', md_file = ''Hy-MT2-1.8B-Q4_K_M.gguf'', md_bytes = 1133080448,
       md_sha = ''dc5f44fcf1fa496ee7ad725982c0c8c553a4de00259b53af84c4b89fb0c06699'',
       md_upstream = ''https://huggingface.co/tencent/Hy-MT2-1.8B-GGUF/resolve/1cd5208700acedef4ef93019b6cfc148b8522d45/Hy-MT2-1.8B-Q4_K_M.gguf'',
       md_title = ''Hy-MT2-1.8B Q4_K_M (offline ru->zh translation, default)''\<rparr>,
      \<lparr>md_id = ''milmmt-46-1b-q4km'', md_file = ''MiLMMT-46-1B-v1.0.Q4_K_M.gguf'', md_bytes = 806057408,
       md_sha = ''74d38ba75108d455326e9deeaf9ab01bb266dfa665eae9c4aa84e84485d4fdf9'',
       md_upstream = ''https://huggingface.co/mradermacher/MiLMMT-46-1B-v1.0-GGUF/resolve/34df5efbe6592773ec168cc7b307728c08623472/MiLMMT-46-1B-v1.0.Q4_K_M.gguf'',
       md_title = ''MiLMMT-46-1B Q4_K_M (battery-saver translation)''\<rparr>,
      \<lparr>md_id = ''gemma-4-e2b-it'', md_file = ''gemma-4-E2B-it.litertlm'', md_bytes = 2588147712,
       md_sha = ''181938105e0eefd105961417e8da75903eacda102c4fce9ce90f50b97139a63c'',
       md_upstream = ''https://huggingface.co/litert-community/gemma-4-E2B-it-litert-lm/resolve/b3ca0d2f076785a8f4b2219ddbd2bdb99954eae1/gemma-4-E2B-it.litertlm'',
       md_title = ''Gemma 4 E2B it (image understanding)''\<rparr>]"

definition lookup_model :: "string \<Rightarrow> ai_model option" where
  "lookup_model i = find (\<lambda>m. md_id m = i) catalog"

section \<open>The store\<close>

text \<open>The files below the root of the store by their paths; directories are not kept.\<close>

type_synonym model_files = "string \<Rightarrow> string option"

definition model_path :: "ai_model \<Rightarrow> string" where
  "model_path m = md_id m @ ''/'' @ md_file m"

definition partial_path :: "ai_model \<Rightarrow> string" where
  "partial_path m = model_path m @ ''.partial''"

text \<open>
  What the file system does for one model: whether looking at a file, removing it, making the
  directory, opening, seeking, closing, reading and renaming succeed. A write that fails ends the
  transfer, as a body that breaks off does.
\<close>

record store_disk =
  sd_stat :: bool
  sd_remove :: bool
  sd_mkdir :: bool
  sd_open :: bool
  sd_seek :: bool
  sd_close :: bool
  sd_read :: bool
  sd_rename :: bool

definition good_store_disk :: store_disk where
  "good_store_disk = \<lparr>sd_stat = True, sd_remove = True, sd_mkdir = True, sd_open = True, sd_seek = True,
     sd_close = True, sd_read = True, sd_rename = True\<rparr>"

definition model_installed :: "store_disk \<Rightarrow> ai_model \<Rightarrow> model_files \<Rightarrow> bool" where
  "model_installed K m D \<longleftrightarrow>
     (case D (model_path m) of None \<Rightarrow> False | Some bytes \<Rightarrow> sd_stat K \<and> length bytes = md_bytes m)"

datatype model_error =
    NotInstalled
  | SizeMismatch nat
  | Sha256Mismatch
  | StoreDiskError
  | Unreachable
  | UpstreamStatus int
  | Interrupted

definition verify_model :: "(string \<Rightarrow> 8 word list) \<Rightarrow> store_disk \<Rightarrow> ai_model \<Rightarrow> model_files \<Rightarrow> model_error option" where
  "verify_model H K m D =
     (case D (model_path m) of
        None \<Rightarrow> Some NotInstalled
      | Some bytes \<Rightarrow>
          if \<not> sd_stat K then Some NotInstalled
          else if length bytes \<noteq> md_bytes m then Some (SizeMismatch (length bytes))
          else if \<not> sd_open K \<or> \<not> sd_read K then Some StoreDiskError
          else if content_hash H bytes \<noteq> md_sha m then Some Sha256Mismatch
          else None)"

text \<open>\<open>FilePath\<close>: \<open>None\<close> is an unknown model.\<close>

definition model_file_path :: "string \<Rightarrow> string \<Rightarrow> string option" where
  "model_file_path i file =
     (case lookup_model i of
        None \<Rightarrow> None
      | Some m \<Rightarrow> if md_file m \<noteq> file then None else Some (model_path m))"

section \<open>Downloads\<close>

text \<open>
  An upstream answers a URL and the offset of the Range header, 0 if there is none, with nothing,
  or with a status and a body.
\<close>

type_synonym upstream = "string \<Rightarrow> nat \<Rightarrow> (int \<times> stream) option"

definition upstream_of :: "(ai_model \<Rightarrow> string) option \<Rightarrow> ai_model \<Rightarrow> string" where
  "upstream_of src m = (case src of None \<Rightarrow> md_upstream m | Some f \<Rightarrow> f m)"

definition remove_path :: "store_disk \<Rightarrow> string \<Rightarrow> model_files \<Rightarrow> model_files" where
  "remove_path K p D = (if sd_remove K then D(p := None) else D)"

text \<open>The offset to resume from; a leftover that is not smaller than the model is removed.\<close>

definition resume_from :: "store_disk \<Rightarrow> ai_model \<Rightarrow> model_files \<Rightarrow> nat \<times> model_files" where
  "resume_from K m D =
     (case D (partial_path m) of
        None \<Rightarrow> (0, D)
      | Some bytes \<Rightarrow>
          if \<not> sd_stat K then (0, D)
          else if length bytes < md_bytes m then (length bytes, D)
          else (0, remove_path K (partial_path m) D))"

text \<open>Bytes written at an offset of a file, which is not truncated; a gap is filled with zeros.\<close>

definition write_from :: "nat \<Rightarrow> string \<Rightarrow> string \<Rightarrow> string" where
  "write_from n new old =
     take n old @ replicate (n - length old) (CHR 0x00) @ new @ drop (n + length new) old"

text \<open>The size and the hash are checked before the file gets its name.\<close>

definition settle_download ::
  "(string \<Rightarrow> 8 word list) \<Rightarrow> store_disk \<Rightarrow> ai_model \<Rightarrow> model_files \<Rightarrow> model_files \<times> model_error option" where
  "settle_download H K m D =
     (case D (partial_path m) of
        None \<Rightarrow> (D, Some StoreDiskError)
      | Some bytes \<Rightarrow>
          if \<not> sd_stat K then (D, Some StoreDiskError)
          else if length bytes \<noteq> md_bytes m then (D, Some (SizeMismatch (length bytes)))
          else if \<not> sd_open K \<or> \<not> sd_read K then (D, Some StoreDiskError)
          else if content_hash H bytes \<noteq> md_sha m
          then (remove_path K (partial_path m) D, Some Sha256Mismatch)
          else if \<not> sd_rename K then (D, Some StoreDiskError)
          else (D(partial_path m := None, model_path m := Some bytes), None))"

text \<open>A body that broke off leaves what came in the partial file.\<close>

definition take_body ::
  "(string \<Rightarrow> 8 word list) \<Rightarrow> store_disk \<Rightarrow> ai_model \<Rightarrow> nat \<Rightarrow> stream \<Rightarrow> model_files
     \<Rightarrow> model_files \<times> model_error option" where
  "take_body H K m n body D =
     (let old = (case D (partial_path m) of None \<Rightarrow> [] | Some bytes \<Rightarrow> bytes);
          D' = D(partial_path m := Some (write_from n (fst body) old)) in
      if \<not> sd_open K then (D, Some StoreDiskError)
      else if 0 < n \<and> \<not> sd_seek K then (D(partial_path m := Some old), Some StoreDiskError)
      else if \<not> snd body then (D', Some Interrupted)
      else if \<not> sd_close K then (D', Some StoreDiskError)
      else settle_download H K m D')"

definition download_one ::
  "(string \<Rightarrow> 8 word list) \<Rightarrow> store_disk \<Rightarrow> upstream \<Rightarrow> (ai_model \<Rightarrow> string) option \<Rightarrow> ai_model \<Rightarrow> model_files
     \<Rightarrow> model_files \<times> model_error option" where
  "download_one H K net src m D =
     (if \<not> sd_mkdir K then (D, Some StoreDiskError)
      else
        (case resume_from K m D of (n, D) \<Rightarrow>
           (case net (upstream_of src m) n of
              None \<Rightarrow> (D, Some Unreachable)
            | Some (status, body) \<Rightarrow>
                if status = 200 then take_body H K m 0 body (remove_path K (partial_path m) D)
                else if status \<noteq> 206 then (D, Some (UpstreamStatus status))
                else take_body H K m n body D)))"

fun download_models ::
  "(string \<Rightarrow> 8 word list) \<Rightarrow> (ai_model \<Rightarrow> store_disk) \<Rightarrow> upstream \<Rightarrow> (ai_model \<Rightarrow> string) option
     \<Rightarrow> ai_model list \<Rightarrow> model_files \<Rightarrow> model_files \<times> (string \<times> model_error) option" where
  "download_models H K net src [] D = (D, None)"
| "download_models H K net src (m # ms) D =
     (if model_installed (K m) m D \<and> verify_model H (K m) m D = None
      then download_models H K net src ms D
      else
        (case download_one H (K m) net src m
                (if model_installed (K m) m D then remove_path (K m) (model_path m) D else D) of
           (D, Some e) \<Rightarrow> (D, Some (md_id m, e))
         | (D, None) \<Rightarrow> download_models H K net src ms D))"

definition download_all ::
  "(string \<Rightarrow> 8 word list) \<Rightarrow> (ai_model \<Rightarrow> store_disk) \<Rightarrow> upstream \<Rightarrow> (ai_model \<Rightarrow> string) option \<Rightarrow> model_files
     \<Rightarrow> model_files \<times> (string \<times> model_error) option" where
  "download_all H K net src D = download_models H K net src catalog D"

text \<open>
  The command: its directory must be given, absolute and not the temporary one, and it is made if it
  is missing.
\<close>

definition temp_directory :: "string \<Rightarrow> bool" where
  "temp_directory d \<longleftrightarrow> d = ''/tmp'' \<or> d = ''/var/tmp''"

datatype download_refusal =
    NoDirectory
  | RelativeDirectory
  | TemporaryDirectory
  | NoRoot
  | DownloadFailed string model_error

definition run_download_models ::
  "(string \<Rightarrow> 8 word list) \<Rightarrow> bool \<Rightarrow> (ai_model \<Rightarrow> store_disk) \<Rightarrow> upstream \<Rightarrow> string \<Rightarrow> model_files
     \<Rightarrow> model_files \<times> download_refusal option" where
  "run_download_models H made K net dir D =
     (if dir = [] then (D, Some NoDirectory)
      else if hd dir \<noteq> CHR ''/'' then (D, Some RelativeDirectory)
      else if temp_directory dir then (D, Some TemporaryDirectory)
      else if \<not> made then (D, Some NoRoot)
      else
        (case download_all H K net None D of
           (D, None) \<Rightarrow> (D, None)
         | (D, Some (i, e)) \<Rightarrow> (D, Some (DownloadFailed i e))))"

section \<open>Progress\<close>

text \<open>A report after every 32 MiB at least, and one at the end.\<close>

record progress =
  pg_total :: int
  pg_received :: int
  pg_next :: int
  pg_finished :: bool

definition progress_interval :: int where
  "progress_interval = 32 * 1048576"

definition new_progress :: "ai_model \<Rightarrow> nat \<Rightarrow> progress" where
  "new_progress m offset = \<lparr>pg_total = int (md_bytes m), pg_received = int offset, pg_next = int offset,
     pg_finished = False\<rparr>"

definition progress_write :: "nat \<Rightarrow> progress \<Rightarrow> progress \<times> (int \<times> int) option" where
  "progress_write n p =
     (let p = p\<lparr>pg_received := pg_received p + int n\<rparr> in
      if pg_next p \<le> pg_received p
      then (p\<lparr>pg_next := pg_received p + progress_interval\<rparr>, Some (pg_received p, pg_total p))
      else (p, None))"

definition progress_finish :: "progress \<Rightarrow> progress \<times> (int \<times> int) option" where
  "progress_finish p =
     (if pg_finished p then (p, None) else (p\<lparr>pg_finished := True\<rparr>, Some (pg_received p, pg_total p)))"

section \<open>Routes (modelapi.go)\<close>

datatype model_answer =
    Model_Index "(ai_model \<times> bool) list"
  | Model_Bytes string

definition model_index_route ::
  "front \<Rightarrow> call \<Rightarrow> store_disk \<Rightarrow> request \<Rightarrow> model_files \<Rightarrow> web \<Rightarrow> web \<times> model_answer reply" where
  "model_index_route F c K q D =
     as_user F c q (\<lambda>_ W. (W, Json (Model_Index (map (\<lambda>m. (m, model_installed K m D)) catalog))))"

definition not_downloaded :: string where
  "not_downloaded = ''model not downloaded on this server '' @ [CHR 0xE2, CHR 0x80, CHR 0x94] @
     '' the operator must run: livetranslate-server download-models''"

text \<open>The file goes to \<open>http.ServeFile\<close>, which sends the part that a Range header asks for.\<close>

definition model_download_route ::
  "front \<Rightarrow> call \<Rightarrow> store_disk \<Rightarrow> request \<Rightarrow> string \<Rightarrow> string \<Rightarrow> model_files \<Rightarrow> web \<Rightarrow> web \<times> model_answer reply" where
  "model_download_route F c K q i file D =
     as_user F c q (\<lambda>_ W.
       (W, case model_file_path i file of
             None \<Rightarrow> Failed 404 (Text ''unknown model'')
           | Some p \<Rightarrow>
               (case (if sd_stat K then D p else None) of
                  None \<Rightarrow> Failed 404 (Text not_downloaded)
                | Some bytes \<Rightarrow> Json (Model_Bytes bytes))))"

end
