(* ===== verification/Model_Properties.thy ===== *)
theory Model_Properties
  imports Models File_Properties Web_Properties
begin

text \<open>
  What the model store promises: the files it serves are whole whatever the upstream and the disk
  did, a download that ends without error has every model, and an honest upstream needs at most two
  complete transfers.
\<close>

section \<open>What a download changes\<close>

definition whole :: "(string \<Rightarrow> 8 word list) \<Rightarrow> ai_model \<Rightarrow> string \<Rightarrow> bool" where
  "whole H m bytes \<longleftrightarrow> length bytes = md_bytes m \<and> content_hash H bytes = md_sha m"

definition good_slot :: "(string \<Rightarrow> 8 word list) \<Rightarrow> ai_model \<Rightarrow> model_files \<Rightarrow> bool" where
  "good_slot H m D \<longleftrightarrow> (case D (model_path m) of None \<Rightarrow> True | Some bytes \<Rightarrow> whole H m bytes)"

text \<open>A download of a model touches its two paths only, and its final path at most for the better.\<close>

definition model_step :: "(string \<Rightarrow> 8 word list) \<Rightarrow> ai_model \<Rightarrow> model_files \<Rightarrow> model_files \<Rightarrow> bool" where
  "model_step H m D D' \<longleftrightarrow>
     (\<forall>p. p \<noteq> model_path m \<longrightarrow> p \<noteq> partial_path m \<longrightarrow> D' p = D p) \<and>
     (D' (model_path m) = D (model_path m) \<or> good_slot H m D')"

lemma model_step_refl: "model_step H m D D"
  by (simp add: model_step_def)

lemma model_step_trans: "model_step H m D M \<Longrightarrow> model_step H m M D' \<Longrightarrow> model_step H m D D'"
  by (auto simp: model_step_def good_slot_def)

lemma partial_is_elsewhere [simp]: "partial_path m \<noteq> model_path m" "model_path m \<noteq> partial_path m"
  by (simp_all add: partial_path_def)

lemma model_step_partial: "model_step H m D (D(partial_path m := x))"
  by (simp add: model_step_def)

lemma model_step_remove:
  "model_step H m D (remove_path K (partial_path m) D)"
  "model_step H m D (remove_path K (model_path m) D)"
  by (auto simp: remove_path_def model_step_def good_slot_def)

lemma model_step_resume: "model_step H m D (snd (resume_from K m D))"
  by (simp add: resume_from_def model_step_refl model_step_remove split: option.split)

lemma model_step_settle: "model_step H m D (fst (settle_download H K m D))"
  by (auto simp: settle_download_def model_step_refl model_step_remove split: option.split)
    (simp add: model_step_def good_slot_def whole_def)

lemma settle_whole:
  "settle_download H K m D = (D', None) \<Longrightarrow> \<exists>bytes. D' (model_path m) = Some bytes \<and> whole H m bytes"
  by (auto simp: settle_download_def whole_def split: option.splits if_splits)

lemma model_step_take: "model_step H m D (fst (take_body H K m n body D))"
proof -
  have "model_step H m D (fst (settle_download H K m (D(partial_path m := x))))" for x
    using model_step_trans [OF model_step_partial model_step_settle] .
  then show ?thesis
    by (simp add: take_body_def Let_def model_step_refl model_step_partial)
qed

lemma take_whole:
  "take_body H K m n body D = (D', None) \<Longrightarrow> \<exists>bytes. D' (model_path m) = Some bytes \<and> whole H m bytes"
  by (auto simp: take_body_def Let_def split: if_splits dest: settle_whole)

lemma download_one_step: "model_step H m D (fst (download_one H K net src m D))"
proof -
  obtain n M where r: "resume_from K m D = (n, M)" by (cases "resume_from K m D")
  then have M: "model_step H m D M" using model_step_resume [of H m D K] by simp
  have "model_step H m D (fst (take_body H K m n body M))" for body
    using model_step_trans [OF M model_step_take] .
  moreover have "model_step H m D (fst (take_body H K m 0 body (remove_path K (partial_path m) M)))" for body
    using model_step_trans [OF model_step_trans [OF M model_step_remove(1)] model_step_take] .
  ultimately show ?thesis
    using M by (simp add: download_one_def r model_step_refl split: option.split)
qed

lemma download_one_whole:
  "download_one H K net src m D = (D', None) \<Longrightarrow> \<exists>bytes. D' (model_path m) = Some bytes \<and> whole H m bytes"
  by (auto simp: download_one_def split: if_splits prod.splits option.splits dest: take_whole)

section \<open>The catalog\<close>

lemma catalog_paths: "distinct (map model_path catalog @ map partial_path catalog)"
  by (simp add: catalog_def model_path_def partial_path_def)

lemma catalog_path_inj: "m \<in> set catalog \<Longrightarrow> k \<in> set catalog \<Longrightarrow> model_path k = model_path m \<Longrightarrow> k = m"
proof -
  have "distinct (map model_path catalog)" using catalog_paths by (simp only: distinct_append)
  then have "inj_on model_path (set catalog)" by (simp only: distinct_map)
  then show "m \<in> set catalog \<Longrightarrow> k \<in> set catalog \<Longrightarrow> model_path k = model_path m \<Longrightarrow> k = m"
    by (blast dest: inj_onD)
qed

lemma catalog_partial: "m \<in> set catalog \<Longrightarrow> k \<in> set catalog \<Longrightarrow> model_path k \<noteq> partial_path m"
  using catalog_paths by (auto simp: distinct_append disjoint_iff)

text \<open>A step on one model leaves the files of the others.\<close>

lemma model_step_other:
  "model_step H m D D' \<Longrightarrow> m \<in> set catalog \<Longrightarrow> k \<in> set catalog \<Longrightarrow> k \<noteq> m \<Longrightarrow>
     D' (model_path k) = D (model_path k)"
  using catalog_path_inj [of m k] catalog_partial [of m k] by (auto simp: model_step_def)

lemma model_step_good:
  "model_step H m D D' \<Longrightarrow> m \<in> set catalog \<Longrightarrow> \<forall>k\<in>set catalog. good_slot H k D \<Longrightarrow>
     k \<in> set catalog \<Longrightarrow> good_slot H k D'"
  using model_step_other [of H m D D' k]
  by (cases "k = m") (auto simp: model_step_def good_slot_def)

lemma verify_whole:
  "verify_model H K m D = None \<Longrightarrow> \<exists>bytes. D (model_path m) = Some bytes \<and> whole H m bytes"
  by (auto simp: verify_model_def whole_def split: option.splits if_splits)

lemma good_store_disk_simps [simp]:
  "sd_stat good_store_disk" "sd_remove good_store_disk" "sd_mkdir good_store_disk" "sd_open good_store_disk"
  "sd_seek good_store_disk" "sd_close good_store_disk" "sd_read good_store_disk" "sd_rename good_store_disk"
  by (simp_all add: good_store_disk_def)

lemma whole_verify: "D (model_path m) = Some bytes \<Longrightarrow> whole H m bytes \<Longrightarrow>
    model_installed good_store_disk m D \<and> verify_model H good_store_disk m D = None"
  by (simp add: model_installed_def verify_model_def whole_def)

text \<open>The first model of a list is skipped as it is whole, or downloaded.\<close>

lemma download_models_first:
  obtains (skip) "verify_model H (K m) m D = None"
      "download_models H K net src (m # ms) D = download_models H K net src ms D"
  | (fetch) M where "model_step H m D M" "\<exists>bytes. M (model_path m) = Some bytes \<and> whole H m bytes"
      "download_models H K net src (m # ms) D = download_models H K net src ms M"
  | (fail) M e where "model_step H m D M" "download_models H K net src (m # ms) D = (M, Some (md_id m, e))"
proof (cases "model_installed (K m) m D \<and> verify_model H (K m) m D = None")
  case True
  then show thesis by (intro skip) (simp_all only: download_models.simps if_True simp_thms)
next
  case False
  define N where "N = (if model_installed (K m) m D then remove_path (K m) (model_path m) D else D)"
  have N: "model_step H m D N" by (simp add: N_def model_step_refl model_step_remove)
  obtain M e where M: "download_one H (K m) net src m N = (M, e)" by fastforce
  have step: "model_step H m D M"
    using download_one_step [of H m N "K m" net src] M model_step_trans [OF N] by simp
  show thesis
  proof (cases e)
    case None
    have "download_models H K net src (m # ms) D = download_models H K net src ms M"
      by (simp only: download_models.simps if_not_P [OF False] N_def [symmetric] M None prod.case option.case)
    then show thesis using fetch [OF step] download_one_whole M None by blast
  next
    case (Some x)
    show thesis
      by (rule fail [OF step]) (simp only: download_models.simps if_not_P [OF False] N_def [symmetric] M Some
          prod.case option.case)
  qed
qed

lemma download_models_good:
  "\<forall>k\<in>set catalog. good_slot H k D \<Longrightarrow> set ms \<subseteq> set catalog \<Longrightarrow>
     \<forall>k\<in>set catalog. good_slot H k (fst (download_models H K net src ms D))"
proof (induction ms arbitrary: D)
  case (Cons m ms)
  then have m: "m \<in> set catalog" "set ms \<subseteq> set catalog" by simp_all
  have good: "\<forall>k\<in>set catalog. good_slot H k M" if "model_step H m D M" for M
    using model_step_good [OF that m(1) Cons.prems(1)] by blast
  show ?case
  proof (cases rule: download_models_first [of H K m D net src ms])
    case skip
    show ?thesis unfolding skip(2) by (rule Cons.IH [OF Cons.prems(1) m(2)])
  next
    case (fetch M)
    show ?thesis unfolding fetch(3) by (rule Cons.IH [OF good [OF fetch(1)] m(2)])
  next
    case (fail M e)
    show ?thesis unfolding fail(2) fst_conv by (rule good [OF fail(1)])
  qed
qed simp

text \<open>What an earlier model of the list has got, a later one does not take away.\<close>

lemma download_models_keep:
  "k \<in> set catalog \<Longrightarrow> k \<notin> set ms \<Longrightarrow> set ms \<subseteq> set catalog \<Longrightarrow>
     fst (download_models H K net src ms D) (model_path k) = D (model_path k)"
proof (induction ms arbitrary: D)
  case (Cons m ms)
  then have m: "m \<in> set catalog" "k \<noteq> m" by auto
  have IH: "fst (download_models H K net src ms M) (model_path k) = M (model_path k)" for M
    using Cons by simp
  show ?case
    by (cases rule: download_models_first [of H K m D net src ms])
      (simp_all add: IH model_step_other [OF _ m(1) Cons.prems(1) m(2)])
qed simp

lemma download_models_whole:
  "download_models H K net src ms D = (D', None) \<Longrightarrow> distinct ms \<Longrightarrow> set ms \<subseteq> set catalog \<Longrightarrow>
     m \<in> set ms \<Longrightarrow> \<exists>bytes. D' (model_path m) = Some bytes \<and> whole H m bytes"
proof (induction ms arbitrary: D)
  case (Cons k ms)
  from Cons.prems(1) obtain M where M: "download_models H K net src ms M = (D', None)"
    and k: "\<exists>bytes. M (model_path k) = Some bytes \<and> whole H k bytes"
    by (cases rule: download_models_first [of H K k D net src ms]) (auto dest: verify_whole)
  have "D' (model_path k) = M (model_path k)"
    using download_models_keep [of k ms H K net src M] M Cons.prems by simp
  then show ?case using Cons.IH [OF M] Cons.prems k by auto
qed simp

lemma download_models_idle:
  "\<forall>m\<in>set ms. \<exists>bytes. D (model_path m) = Some bytes \<and> whole H m bytes \<Longrightarrow>
     download_models H (\<lambda>_. good_store_disk) net src ms D = (D, None)"
  by (induction ms) (auto dest: whole_verify)


section \<open>An honest upstream\<close>

text \<open>An upstream that has the model, and may ignore the Range header.\<close>

definition honest :: "(string \<Rightarrow> 8 word list) \<Rightarrow> ai_model \<Rightarrow> string \<Rightarrow> string \<Rightarrow> upstream \<Rightarrow> bool" where
  "honest H m url c net \<longleftrightarrow>
     whole H m c \<and> (\<forall>n. net url n = Some (200, (c, True)) \<or> 0 < n \<and> net url n = Some (206, (drop n c, True)))"

lemma write_from_0: "length old \<le> length new \<Longrightarrow> write_from 0 new old = new"
  by (simp add: write_from_def)

lemma settle_good:
  assumes "D (partial_path m) = Some bytes" and "length bytes = md_bytes m"
  shows "settle_download H good_store_disk m D =
    (if content_hash H bytes = md_sha m then (D(partial_path m := None, model_path m := Some bytes), None)
     else (D(partial_path m := None), Some Sha256Mismatch))"
  using assms by (simp add: settle_download_def remove_path_def)

text \<open>From a leftover that is too long, or without one, the transfer ends well.\<close>

lemma full_transfer:
  assumes "whole H m c"
  shows "snd (take_body H good_store_disk m 0 (c, True) (D(partial_path m := None))) = None"
  using assms settle_good [of "D(partial_path m := Some c)" m c H]
  by (simp add: take_body_def write_from_0 whole_def)


lemma honest_first:
  assumes "honest H m (upstream_of src m) c net" and "D (partial_path m) = None"
  shows "snd (download_one H good_store_disk net src m D) = None"
proof -
  have "net (upstream_of src m) 0 = Some (200, (c, True))" "whole H m c"
    using assms(1) by (auto simp: honest_def)
  then show ?thesis
    using assms(2) full_transfer [of H m c D]
    by (simp add: download_one_def resume_from_def remove_path_def)
qed

lemma honest_resumed:
  assumes h: "honest H m (upstream_of src m) c net" and old: "D (partial_path m) = Some old"
    and n: "length old < md_bytes m"
  shows "snd (download_one H good_store_disk net src m D) = None \<or>
    \<not> whole H m (old @ drop (length old) c) \<and> fst (download_one H good_store_disk net src m D) (partial_path m) = None"
proof -
  have r: "resume_from good_store_disk m D = (length old, D)"
    using old n by (simp add: resume_from_def)
  have c: "whole H m c" using h by (simp add: honest_def)
  then have len: "length (old @ drop (length old) c) = md_bytes m" using n by (simp add: whole_def)
  from h consider (all) "net (upstream_of src m) (length old) = Some (200, (c, True))"
    | (rest) "net (upstream_of src m) (length old) = Some (206, (drop (length old) c, True))"
    by (auto simp: honest_def)
  then show ?thesis
  proof cases
    case all
    then show ?thesis
      using full_transfer [OF c, of D] by (simp add: download_one_def r remove_path_def)
  next
    case rest
    have w: "write_from (length old) (drop (length old) c) old = old @ drop (length old) c"
      using n c by (simp add: write_from_def whole_def)
    have "download_one H good_store_disk net src m D =
        settle_download H good_store_disk m (D(partial_path m := Some (old @ drop (length old) c)))"
      using rest by (simp add: download_one_def r take_body_def old w)
    then show ?thesis
      using settle_good [of "D(partial_path m := Some (old @ drop (length old) c))" m _ H] len
      by (simp add: whole_def)
  qed
qed

lemma long_leftover:
  assumes h: "honest H m (upstream_of src m) c net" and "D (partial_path m) = Some old"
    and "\<not> length old < md_bytes m"
  shows "snd (download_one H good_store_disk net src m D) = None"
proof -
  have "net (upstream_of src m) 0 = Some (200, (c, True))" "whole H m c"
    using h by (auto simp: honest_def)
  then show ?thesis
    using assms(2,3) full_transfer [of H m c D]
    by (simp add: download_one_def resume_from_def remove_path_def)
qed

section \<open>A store and a client\<close>

text \<open>A hash by the length, and an upstream that has files of the right length for all models.\<close>

definition length_hash :: "string \<Rightarrow> 8 word list" where
  "length_hash bytes =
     (if length bytes = 1133080448
      then [0xdc, 0x5f, 0x44, 0xfc, 0xf1, 0xfa, 0x49, 0x6e, 0xe7, 0xad, 0x72, 0x59, 0x82, 0xc0, 0xc8, 0xc5,
            0x53, 0xa4, 0xde, 0x00, 0x25, 0x9b, 0x53, 0xaf, 0x84, 0xc4, 0xb8, 0x9f, 0xb0, 0xc0, 0x66, 0x99]
      else if length bytes = 806057408
      then [0x74, 0xd3, 0x8b, 0xa7, 0x51, 0x08, 0xd4, 0x55, 0x32, 0x6e, 0x9d, 0xee, 0xaf, 0x9a, 0xb0, 0x1b,
            0xb2, 0x66, 0xdf, 0xa6, 0x65, 0xea, 0xe9, 0xc4, 0xaa, 0x84, 0xe8, 0x44, 0x85, 0xd4, 0xfd, 0xf9]
      else [0x18, 0x19, 0x38, 0x10, 0x5e, 0x0e, 0xef, 0xd1, 0x05, 0x96, 0x14, 0x17, 0xe8, 0xda, 0x75, 0x90,
            0x3e, 0xac, 0xda, 0x10, 0x2c, 0x4f, 0xce, 0x9c, 0xe9, 0x0f, 0x50, 0xb9, 0x71, 0x39, 0xa6, 0x3c])"

definition blank_file :: "ai_model \<Rightarrow> string" where
  "blank_file m = replicate (md_bytes m) (CHR 0x00)"

lemma blank_files_whole: "list_all (\<lambda>m. whole length_hash m (blank_file m)) catalog"
proof -
  have "hex_encode (length_hash (replicate 1133080448 (CHR 0x00))) =
      ''dc5f44fcf1fa496ee7ad725982c0c8c553a4de00259b53af84c4b89fb0c06699''"
    "hex_encode (length_hash (replicate 806057408 (CHR 0x00))) =
      ''74d38ba75108d455326e9deeaf9ab01bb266dfa665eae9c4aa84e84485d4fdf9''"
    "hex_encode (length_hash (replicate 2588147712 (CHR 0x00))) =
      ''181938105e0eefd105961417e8da75903eacda102c4fce9ce90f50b97139a63c''"
    by (simp_all add: length_hash_def) code_simp+
  then show ?thesis
    by (simp add: catalog_def whole_def blank_file_def content_hash_def)
qed

definition blank_net :: upstream where
  "blank_net url n = map_option (\<lambda>m. (200, (blank_file m, True))) (find (\<lambda>m. md_upstream m = url) catalog)"

lemma blank_net_catalog: "m \<in> set catalog \<Longrightarrow> blank_net (md_upstream m) n = Some (200, (blank_file m, True))"
  by (auto simp: blank_net_def catalog_def)

lemma fetch_whole:
  assumes "D (partial_path m) = None" and "net (upstream_of src m) 0 = Some (200, (c, True))" and "whole H m c"
  shows "download_one H good_store_disk net src m D = (D(model_path m := Some c), None)"
proof -
  have "settle_download H good_store_disk m (D(partial_path m := Some c)) = (D(model_path m := Some c), None)"
    using settle_good [of "D(partial_path m := Some c)" m c H] assms(1,3)
    by (simp add: whole_def fun_upd_twist fun_upd_idem)
  then show ?thesis
    using assms by (simp add: download_one_def resume_from_def remove_path_def take_body_def write_from_0 fun_upd_idem)
qed

lemma blank_download_ends:
  "distinct ms \<Longrightarrow> set ms \<subseteq> set catalog \<Longrightarrow>
     \<forall>m\<in>set ms. D (model_path m) = None \<and> D (partial_path m) = None \<Longrightarrow>
     \<exists>D'. download_models length_hash (\<lambda>_. good_store_disk) blank_net None ms D = (D', None)"
proof (induction ms arbitrary: D)
  case (Cons m ms)
  have m: "m \<in> set catalog" using Cons.prems by simp
  have "whole length_hash m (blank_file m)" using blank_files_whole m by (simp add: list_all_iff)
  then have "download_one length_hash good_store_disk blank_net None m D = (D(model_path m := Some (blank_file m)), None)"
    using Cons.prems(3) blank_net_catalog [OF m] by (intro fetch_whole) (simp_all add: upstream_of_def)
  moreover have "\<forall>k\<in>set ms. (D(model_path m := Some (blank_file m))) (model_path k) = None \<and>
      (D(model_path m := Some (blank_file m))) (partial_path k) = None"
    using Cons.prems catalog_path_inj [OF m] catalog_partial [OF _ m] by (auto simp: subset_iff) metis+
  ultimately show ?case
    using Cons.IH [of "D(model_path m := Some (blank_file m))"] Cons.prems
    by (simp add: model_installed_def del: fun_upd_apply)
qed simp

definition blank_store :: model_files where
  "blank_store = fst (download_all length_hash (\<lambda>_. good_store_disk) blank_net None (\<lambda>_. None))"

lemma distinct_catalog: "distinct catalog"
  using catalog_paths by (simp only: distinct_append distinct_map)

lemma blank_store_ends:
  "download_all length_hash (\<lambda>_. good_store_disk) blank_net None (\<lambda>_. None) = (blank_store, None)"
  using blank_download_ends [OF distinct_catalog subset_refl, of "\<lambda>_. None"]
  by (auto simp: blank_store_def download_all_def)

text \<open>Bob, who is signed in, asks for the models.\<close>

definition model_front :: front where
  "model_front = front0\<lparr>fr_service := door\<rparr>"

definition bob_asks :: request where
  "bob_asks = request0\<lparr>rq_authorization := ''Bearer token''\<rparr>"

definition bob_web :: web where
  "bob_web = (new_web 30)\<lparr>wb_accounts := bob_signed_in\<rparr>"

lemma bob_is_let_in: "\<exists>p. gate_user (fr_service model_front) (call_no 1) (rq_authorization bob_asks) (wb_accounts bob_web) = Inr p"
proof -
  have "\<not> isl (gate_user door (call_no 1) ''Bearer token'' bob_signed_in)" by code_simp
  then show ?thesis
    by (cases "gate_user door (call_no 1) ''Bearer token'' bob_signed_in")
      (simp_all add: model_front_def bob_asks_def bob_web_def)
qed

section \<open>The promises\<close>

text \<open>Runs of the command, each with its disk, its upstream and its sources.\<close>

fun model_runs ::
  "(string \<Rightarrow> 8 word list) \<Rightarrow> ((ai_model \<Rightarrow> store_disk) \<times> upstream \<times> (ai_model \<Rightarrow> string) option) list
     \<Rightarrow> model_files \<Rightarrow> model_files" where
  "model_runs H [] D = D"
| "model_runs H ((K, net, src) # rs) D = model_runs H rs (fst (download_all H K net src D))"

lemma model_runs_good:
  "\<forall>k\<in>set catalog. good_slot H k D \<Longrightarrow> \<forall>k\<in>set catalog. good_slot H k (model_runs H rs D)"
proof (induction rs arbitrary: D)
  case (Cons r rs)
  obtain K net src where r: "r = (K, net, src)" by (cases r)
  show ?case
    unfolding r model_runs.simps download_all_def
    by (rule Cons.IH, rule download_models_good [OF Cons.prems subset_refl])
qed simp

lemma model_file_path_Some:
  "model_file_path i file = Some p \<Longrightarrow>
     \<exists>m\<in>set catalog. md_id m = i \<and> md_file m = file \<and> p = model_path m"
  by (auto simp: model_file_path_def lookup_model_def find_Some_iff split: option.splits if_splits
      dest!: nth_mem)

text \<open>
  C36: The server serves whole models only. Whatever runs of the download there were since the store
  was empty, with any upstream, any body and any failure of the disk on the way, every file that the
  route answers with is the file of a model of the catalog, with its size and its hash.
\<close>

theorem served_models_are_whole:
  assumes "snd (model_download_route F c K q i file (model_runs H rs (\<lambda>_. None)) W) = Json (Model_Bytes bytes)"
  shows "list_ex (\<lambda>m. md_id m = i \<and> md_file m = file \<and> length bytes = md_bytes m \<and>
    content_hash H bytes = md_sha m) catalog"
proof -
  obtain p where p: "model_file_path i file = Some p"
    and b: "model_runs H rs (\<lambda>_. None) p = Some bytes"
    using assms by (auto simp: model_download_route_def as_user_def split: sum.splits option.splits if_splits)
  obtain m where m: "m \<in> set catalog" "md_id m = i" "md_file m = file" "p = model_path m"
    using model_file_path_Some [OF p] by blast
  have "good_slot H m (model_runs H rs (\<lambda>_. None))"
    using model_runs_good [of H "\<lambda>_. None" rs] m(1) by (simp add: good_slot_def)
  then have "length bytes = md_bytes m \<and> content_hash H bytes = md_sha m"
    using b m(4) by (simp add: good_slot_def whole_def)
  then show ?thesis using m by (auto simp: list_ex_iff)
qed

lemma served_models_are_whole_witness:
  "\<exists>bytes. snd (model_download_route model_front (call_no 1) good_store_disk bob_asks ''gemma-4-e2b-it''
      ''gemma-4-E2B-it.litertlm'' blank_store bob_web) = Json (Model_Bytes bytes) \<and> length bytes = 2588147712"
proof -
  let ?p = "''gemma-4-e2b-it/gemma-4-E2B-it.litertlm''"
  have path: "model_file_path ''gemma-4-e2b-it'' ''gemma-4-E2B-it.litertlm'' = Some ?p"
    by (simp add: model_file_path_def lookup_model_def catalog_def model_path_def)
  from model_file_path_Some [OF path] obtain m where m: "m \<in> set catalog" "?p = model_path m"
    by (elim bexE conjE)
  obtain bytes where b: "blank_store ?p = Some bytes"
    using download_models_whole [OF blank_store_ends [unfolded download_all_def] distinct_catalog subset_refl m(1)]
    unfolding m(2) [symmetric] by (elim exE conjE)
  have store: "model_runs length_hash [(\<lambda>_. good_store_disk, blank_net, None)] (\<lambda>_. None) = blank_store"
    by (simp add: blank_store_ends)
  have answer: "snd (model_download_route model_front (call_no 1) good_store_disk bob_asks ''gemma-4-e2b-it''
      ''gemma-4-E2B-it.litertlm'' blank_store bob_web) = Json (Model_Bytes bytes)"
    using bob_is_let_in
    by (elim exE) (simp add: model_download_route_def as_user_def path b)
  from served_models_are_whole [OF answer [folded store]] have "length bytes = 2588147712"
    by (simp add: catalog_def)
  then show ?thesis using answer by blast
qed

text \<open>
  A download that ends without error has every model: each is there with its size and hash,
  and running it again changes nothing, whatever the upstream has become.
\<close>

lemma finished_download_has_all:
  assumes "download_all H K net src D = (D', None)"
  shows "list_all (\<lambda>m. verify_model H good_store_disk m D' = None) catalog \<and>
    download_all H (\<lambda>_. good_store_disk) net' src' D' = (D', None)"
proof -
  have w: "\<forall>m\<in>set catalog. \<exists>bytes. D' (model_path m) = Some bytes \<and> whole H m bytes"
    using download_models_whole [of H K net src catalog D D'] assms distinct_catalog
    by (simp add: download_all_def)
  then have "download_all H (\<lambda>_. good_store_disk) net' src' D' = (D', None)"
    unfolding download_all_def by (rule download_models_idle)
  moreover have "list_all (\<lambda>m. verify_model H good_store_disk m D' = None) catalog"
    using w whole_verify by (fastforce simp: list_all_iff)
  ultimately show ?thesis by simp
qed

lemma blank_store_is_finished:
  "download_all length_hash (\<lambda>_. good_store_disk) (\<lambda>url n. None) None blank_store = (blank_store, None)"
  using finished_download_has_all [OF blank_store_ends, of "\<lambda>url n. None" None] by (elim conjE)

section \<open>Two transfers\<close>

lemma downloaded: "snd (download_one H K net src m D) = None \<Longrightarrow>
    verify_model H good_store_disk m (fst (download_one H K net src m D)) = None"
  using download_one_whole [of H K net src m D "fst (download_one H K net src m D)"] whole_verify
  by (metis prod.collapse)

text \<open>
  C37: Two transfers are enough. With an upstream that has the model and a disk that works, the first
  download of a model leaves it verified in its place or the second one does, whatever leftover the
  first one found; when the leftover is a beginning of the model, the first one does.
\<close>

theorem two_transfers_suffice:
  assumes h: "honest H m (upstream_of src m) c net"
  shows "verify_model H good_store_disk m (fst (download_one H good_store_disk net src m D)) = None \<or>
    (D (partial_path m) \<notin> (\<lambda>n. Some (take n c)) ` UNIV \<and>
     verify_model H good_store_disk m (fst (download_one H good_store_disk net src m
       (fst (download_one H good_store_disk net src m D)))) = None)"
proof (cases "snd (download_one H good_store_disk net src m D) = None")
  case True
  then show ?thesis using downloaded by blast
next
  case False
  then obtain old where old: "D (partial_path m) = Some old"
    using honest_first [OF h, of D] by (cases "D (partial_path m)") simp_all
  have n: "length old < md_bytes m" using long_leftover [of H m src c net D old] h old False by blast
  have gone: "fst (download_one H good_store_disk net src m D) (partial_path m) = None"
    and bad: "\<not> whole H m (old @ drop (length old) c)"
    using honest_resumed [of H m src c net D old] h old n False by blast+
  have "old \<noteq> take k c" for k
  proof
    assume k: "old = take k c"
    then have "old @ drop (length old) c = c" by (simp add: min_def)
    then show False using bad h by (simp add: honest_def)
  qed
  then have "D (partial_path m) \<notin> (\<lambda>n. Some (take n c)) ` UNIV" using old by auto
  moreover have "snd (download_one H good_store_disk net src m
      (fst (download_one H good_store_disk net src m D))) = None"
    by (rule honest_first [where D = "fst (download_one H good_store_disk net src m D)", OF h gone])
  ultimately show ?thesis using downloaded by blast
qed


text \<open>A model of three bytes, and a leftover that is not its beginning.\<close>

definition tiny_model :: ai_model where
  "tiny_model = \<lparr>md_id = ''m'', md_file = ''f'', md_bytes = 3, md_sha = ''61'', md_upstream = ''u'', md_title = []\<rparr>"

definition tiny_net :: upstream where
  "tiny_net url n = Some (if n = 0 then (200, (''abc'', True)) else (206, (drop n ''abc'', True)))"

definition first_byte :: "string \<Rightarrow> 8 word list" where
  "first_byte bytes = (case bytes of [] \<Rightarrow> [] | c # _ \<Rightarrow> [of_char c])"

lemma two_transfers_suffice_witness:
  "(let leftover = (\<lambda>_. None)(partial_path tiny_model := Some ''x'');
        try = download_one first_byte good_store_disk tiny_net None tiny_model in
    snd (try leftover) = Some Sha256Mismatch \<and>
    verify_model first_byte good_store_disk tiny_model (fst (try (fst (try leftover)))) = None)"
proof -
  let ?D = "(\<lambda>_. None)(partial_path tiny_model := Some ''x'') :: model_files"
  have second: "\<And>A B C. A \<or> (B \<and> C) \<Longrightarrow> \<not> A \<Longrightarrow> C" by blast
  have h: "honest first_byte tiny_model (upstream_of None tiny_model) ''abc'' tiny_net"
    by (simp add: honest_def tiny_net_def whole_def tiny_model_def content_hash_def first_byte_def) code_simp
  have "snd (download_one first_byte good_store_disk tiny_net None tiny_model ?D) = Some Sha256Mismatch"
    "verify_model first_byte good_store_disk tiny_model
      (fst (download_one first_byte good_store_disk tiny_net None tiny_model ?D)) \<noteq> None"
    by code_simp+
  moreover from this have "verify_model first_byte good_store_disk tiny_model
      (fst (download_one first_byte good_store_disk tiny_net None tiny_model
        (fst (download_one first_byte good_store_disk tiny_net None tiny_model ?D)))) = None"
    by (intro second [OF two_transfers_suffice [OF h, of ?D]])
  ultimately show ?thesis unfolding Let_def by (intro conjI)
qed

end
