(* ===== verification/Config.thy ===== *)
theory Config
  imports Routes File_Routes
begin

text \<open>
  The configuration (internal/config): reading the environment, the refusals of a boot, the
  validation of a production configuration, and the wiring of the server by it (runServe).
  Durations are nanoseconds.
\<close>

section \<open>Variables\<close>

text \<open>
  An environment gives every variable its text, empty if it is not set. The library holds
  \<open>strings.ToLower\<close>, \<open>time.ParseDuration\<close>, the scheme and host that \<open>url.Parse\<close> finds, and addresses.
\<close>

type_synonym environment = "string \<Rightarrow> string"

record config_library =
  cg_lower :: "string \<Rightarrow> string"
  cg_duration :: "string \<Rightarrow> int option"
  cg_url :: "string \<Rightarrow> (string \<times> string) option"
  cg_net :: net_library

definition env_text :: "environment \<Rightarrow> string \<Rightarrow> string \<Rightarrow> string" where
  "env_text E key fallback = (if E key \<noteq> [] then E key else fallback)"

text \<open>\<open>strconv.Atoi\<close>\<close>

definition atoi :: "string \<Rightarrow> int option" where
  "atoi s =
     (let ds = (if s \<noteq> [] \<and> (hd s = CHR ''-'' \<or> hd s = CHR ''+'') then tl s else s);
          n = (if s \<noteq> [] \<and> hd s = CHR ''-'' then - int (decimal_value ds) else int (decimal_value ds)) in
      if ds = [] \<or> \<not> list_all is_digit ds \<or> \<not> int8 n then None else Some n)"

definition env_int :: "environment \<Rightarrow> string \<Rightarrow> int \<Rightarrow> int" where
  "env_int E key fallback = (case atoi (E key) of None \<Rightarrow> fallback | Some n \<Rightarrow> n)"

definition env_bool :: "environment \<Rightarrow> string \<Rightarrow> bool \<Rightarrow> bool" where
  "env_bool E key fallback =
     (if E key \<noteq> [] then E key = ''true'' \<or> E key = ''1'' \<or> E key = ''yes'' else fallback)"

text \<open>Signed 64-bit and unsigned wrap-around.\<close>

definition wrap64 :: "int \<Rightarrow> int" where
  "wrap64 n = (n + 9223372036854775808) mod 18446744073709551616 - 9223372036854775808"

definition env_dur :: "config_library \<Rightarrow> environment \<Rightarrow> string \<Rightarrow> int \<Rightarrow> int" where
  "env_dur L E key fallback =
     (if E key = [] then fallback
      else
        (case cg_duration L (E key) of
           Some d \<Rightarrow> d
         | None \<Rightarrow>
             (case atoi (E key) of
                Some n \<Rightarrow> wrap64 (n * second_ns)
              | None \<Rightarrow> fallback)))"

fun split_comma :: "string \<Rightarrow> string \<Rightarrow> string list" where
  "split_comma part [] = [part]"
| "split_comma part (c # s) =
     (if c = CHR '','' then part # split_comma [] s else split_comma (part @ [c]) s)"

definition split_csv :: "string \<Rightarrow> string list" where
  "split_csv s = filter (\<lambda>p. p \<noteq> []) (split_comma [] s)"

text \<open>\<open>strings.TrimRight\<close> with a slash\<close>

definition trim_slashes :: "string \<Rightarrow> string" where
  "trim_slashes s = rev (dropWhile (\<lambda>c. c = CHR ''/'') (rev s))"

section \<open>The profile and the registration mode\<close>

definition env_profile :: "config_library \<Rightarrow> environment \<Rightarrow> string \<Rightarrow> string \<Rightarrow> string" where
  "env_profile L E key fallback =
     (let v = cg_lower L (trim_space (env_text E key fallback)) in
      if v = ''production'' \<or> v = ''prod'' then ''production''
      else if v = ''staging'' \<or> v = ''stage'' then ''staging''
      else ''development'')"

definition resolve_registration_mode :: "config_library \<Rightarrow> string \<Rightarrow> bool \<Rightarrow> string" where
  "resolve_registration_mode L mode legacy_invitation =
     (let v = cg_lower L (trim_space mode) in
      if v = ''open'' then ''open''
      else if v = ''invite_only'' \<or> v = ''invite'' \<or> v = ''inviteonly'' then ''invite_only''
      else if v = ''disabled'' \<or> v = ''closed'' then ''disabled''
      else if v = [] then (if legacy_invitation then ''invite_only'' else ''open'')
      else ''disabled'')"

section \<open>The configuration\<close>

record config =
  cf_app_env :: string
  cf_database_url :: string
  cf_jwt_secret :: string
  cf_jwt_previous :: string
  cf_jwt_issuer :: string
  cf_access_ttl :: int
  cf_refresh_ttl :: int
  cf_apple_bundle :: string
  cf_apple_jwks :: string
  cf_dev_login :: bool
  cf_registration :: string
  cf_require_invitation :: bool
  cf_argon_memory :: "32 word"
  cf_argon_iterations :: "32 word"
  cf_argon_parallel :: "8 word"
  cf_verify_ttl :: int
  cf_reset_ttl :: int
  cf_resend_cooldown :: int
  cf_smtp_host :: string
  cf_smtp_port :: int
  cf_smtp_username :: string
  cf_smtp_password :: string
  cf_smtp_from :: string
  cf_smtp_from_name :: string
  cf_smtp_tls :: string
  cf_smtp_connect :: int
  cf_smtp_send :: int
  cf_mailpit :: string
  cf_public_url :: string
  cf_reset_path :: string
  cf_aasa_team :: string
  cf_rate_per_minute :: int
  cf_login_window :: int
  cf_login_max :: int
  cf_ip_max :: int
  cf_retention_days :: int
  cf_max_body :: int
  cf_schema :: int
  cf_min_schema :: int
  cf_max_schema :: int
  cf_attachment_dir :: string
  cf_attachment_max :: int
  cf_material_max :: int
  cf_model_dir :: string
  cf_login_retention :: int
  cf_audit_retention :: int
  cf_admin_addr :: string
  cf_admin_wildcard :: bool
  cf_session_ttl :: int
  cf_metrics :: bool
  cf_pprof :: bool
  cf_log_level :: string
  cf_listen :: string
  cf_proxies :: "string list"
  cf_cors :: "string list"
  cf_dev_mode :: bool

definition read_config :: "config_library \<Rightarrow> environment \<Rightarrow> config" where
  "read_config L E =
     \<lparr>cf_app_env = env_profile L E ''APP_ENV'' ''development'',
      cf_database_url = env_text E ''DATABASE_URL'' [],
      cf_jwt_secret = env_text E ''JWT_SECRET'' ''REPLACE_WITH_RANDOM_SECRET'',
      cf_jwt_previous = env_text E ''JWT_SECRET_PREVIOUS'' [],
      cf_jwt_issuer = env_text E ''JWT_ISSUER'' ''livetranslate-server'',
      cf_access_ttl = env_dur L E ''ACCESS_TOKEN_TTL_SECONDS'' (15 * minute_ns),
      cf_refresh_ttl = env_dur L E ''REFRESH_TOKEN_TTL_SECONDS'' (30 * 24 * 60 * minute_ns),
      cf_apple_bundle = env_text E ''APPLE_BUNDLE_ID'' ''com.livetranslate.ios'',
      cf_apple_jwks = env_text E ''APPLE_JWKS_URL'' ''https://appleid.apple.com/auth/keys'',
      cf_dev_login = env_bool E ''DEV_LOGIN_ENABLED'' False,
      cf_registration =
        resolve_registration_mode L (env_text E ''REGISTRATION_MODE'' []) (env_bool E ''REQUIRE_INVITATION'' False),
      cf_require_invitation = env_bool E ''REQUIRE_INVITATION'' False,
      cf_argon_memory = of_int (env_int E ''ARGON2_MEMORY_KIB'' 65536),
      cf_argon_iterations = of_int (env_int E ''ARGON2_ITERATIONS'' 3),
      cf_argon_parallel = of_int (env_int E ''ARGON2_PARALLELISM'' 1),
      cf_verify_ttl = env_dur L E ''EMAIL_VERIFY_TTL'' (10 * minute_ns),
      cf_reset_ttl = env_dur L E ''PASSWORD_RESET_TTL'' (30 * minute_ns),
      cf_resend_cooldown = env_dur L E ''RESEND_COOLDOWN'' (60 * second_ns),
      cf_smtp_host = env_text E ''SMTP_HOST'' [],
      cf_smtp_port = env_int E ''SMTP_PORT'' 587,
      cf_smtp_username = env_text E ''SMTP_USERNAME'' [],
      cf_smtp_password = env_text E ''SMTP_PASSWORD'' [],
      cf_smtp_from = env_text E ''SMTP_FROM'' [],
      cf_smtp_from_name = env_text E ''SMTP_FROM_NAME'' ''LiveTranslate'',
      cf_smtp_tls = env_text E ''SMTP_TLS_MODE'' ''starttls'',
      cf_smtp_connect = env_dur L E ''SMTP_CONNECT_TIMEOUT'' (15 * second_ns),
      cf_smtp_send = env_dur L E ''SMTP_SEND_TIMEOUT'' (20 * second_ns),
      cf_mailpit = env_text E ''MAILPIT_BASE_URL'' [],
      cf_public_url = trim_slashes (env_text E ''PUBLIC_BASE_URL'' []),
      cf_reset_path = env_text E ''PASSWORD_RESET_PATH'' ''/reset-password'',
      cf_aasa_team = env_text E ''AASA_TEAM_ID'' [],
      cf_rate_per_minute = env_int E ''AUTH_RATE_LIMIT_PER_MINUTE'' 30,
      cf_login_window = env_dur L E ''LOGIN_FAIL_WINDOW'' (15 * minute_ns),
      cf_login_max = env_int E ''LOGIN_FAIL_MAX'' 10,
      cf_ip_max = env_int E ''IP_FAIL_MAX'' 30,
      cf_retention_days = env_int E ''TOMBSTONE_RETENTION_DAYS'' 180,
      cf_max_body = env_int E ''MAX_BODY_BYTES'' (10 * 1024 * 1024),
      cf_schema = env_int E ''SCHEMA_VERSION'' 1,
      cf_min_schema = env_int E ''MIN_CLIENT_SCHEMA_VERSION'' 1,
      cf_max_schema = env_int E ''MAX_CLIENT_SCHEMA_VERSION'' 1,
      cf_attachment_dir = env_text E ''ATTACHMENT_STORAGE_DIR'' [],
      cf_attachment_max = env_int E ''ATTACHMENT_STORAGE_MAX_UPLOAD_BYTES'' (40 * 1024 * 1024),
      cf_material_max = env_int E ''MATERIAL_STORAGE_MAX_UPLOAD_BYTES'' (200 * 1024 * 1024),
      cf_model_dir = env_text E ''MODEL_STORAGE_DIR'' [],
      cf_login_retention = env_int E ''LOGIN_EVENTS_RETENTION_DAYS'' 90,
      cf_audit_retention = env_int E ''AUDIT_RETENTION_DAYS'' 365,
      cf_admin_addr = env_text E ''ADMIN_LISTEN_ADDR'' ''127.0.0.1:8081'',
      cf_admin_wildcard = env_bool E ''ADMIN_ALLOW_WILDCARD_BIND'' False,
      cf_session_ttl = env_dur L E ''ADMIN_SESSION_TTL'' (8 * 60 * minute_ns),
      cf_metrics = env_bool E ''METRICS_ENABLED'' False,
      cf_pprof = env_bool E ''PPROF_ENABLED'' False,
      cf_log_level = env_text E ''LOG_LEVEL'' ''info'',
      cf_listen = env_text E ''LISTEN_ADDR'' ''127.0.0.1:8000'',
      cf_proxies = split_csv (env_text E ''TRUSTED_PROXIES'' []),
      cf_cors = split_csv (env_text E ''CORS_ORIGINS'' []),
      cf_dev_mode = env_bool E ''DEV_MODE'' False\<rparr>"

section \<open>The production rules (validate.go)\<close>

definition placeholder_markers :: "string list" where
  "placeholder_markers =
     [''REPLACE_WITH'', ''CHANGEME'', ''changeme'', ''example.com'', ''yourdomain'', ''INSERT_'', ''TODO'']"

definition is_placeholder :: "string \<Rightarrow> bool" where
  "is_placeholder v \<longleftrightarrow> list_ex (str_contains v) placeholder_markers"

text \<open>The classes of \<open>net.IP\<close>.\<close>

definition is_loopback :: "address \<Rightarrow> bool" where
  "is_loopback ip = (case to4 ip of Some b \<Rightarrow> b ! 0 = 127 | None \<Rightarrow> ip = replicate 15 0 @ [1])"

definition is_private :: "address \<Rightarrow> bool" where
  "is_private ip =
     (case to4 ip of
        Some b \<Rightarrow> b ! 0 = 10 \<or> (b ! 0 = 172 \<and> b ! 1 AND 0xf0 = 16) \<or> (b ! 0 = 192 \<and> b ! 1 = 168)
      | None \<Rightarrow> length ip = 16 \<and> ip ! 0 AND 0xfe = 0xfc)"

definition is_link_local :: "address \<Rightarrow> bool" where
  "is_link_local ip =
     (case to4 ip of
        Some b \<Rightarrow> b ! 0 = 169 \<and> b ! 1 = 254
      | None \<Rightarrow> length ip = 16 \<and> ip ! 0 = 0xfe \<and> ip ! 1 AND 0xc0 = 0x80)"

definition is_unspecified :: "address \<Rightarrow> bool" where
  "is_unspecified ip = (case to4 ip of Some b \<Rightarrow> b = replicate 4 0 | None \<Rightarrow> ip = replicate 16 0)"

datatype bind_problem =
    NotHostPort
  | AllInterfaces
  | NotAnAddress
  | PublicAddress

definition validate_admin_bind :: "net_library \<Rightarrow> string \<Rightarrow> bool \<Rightarrow> bind_problem option" where
  "validate_admin_bind N addr wildcard =
     (case nt_split_host N addr of
        None \<Rightarrow> Some NotHostPort
      | Some host \<Rightarrow>
          if host = [] then (if wildcard then None else Some AllInterfaces)
          else
            (case nt_parse_ip N host of
               None \<Rightarrow> Some NotAnAddress
             | Some ip \<Rightarrow>
                 if is_loopback ip then None
                 else if is_private ip \<or> is_link_local ip \<or> is_unspecified ip
                 then (if is_unspecified ip \<and> \<not> wildcard then Some AllInterfaces else None)
                 else Some PublicAddress))"

datatype dir_problem =
    PlaceholderDir
  | RelativeDir
  | TempDir

definition validate_dir :: "string \<Rightarrow> dir_problem option" where
  "validate_dir d =
     (if d = [] then None
      else if is_placeholder d then Some PlaceholderDir
      else if hd d \<noteq> CHR ''/'' then Some RelativeDir
      else if d = ''/tmp'' \<or> d = ''/var/tmp'' then Some TempDir
      else None)"

datatype problem =
    WeakSecret
  | NoDatabaseUrl
  | DevModeOn
  | DevLoginOn
  | MailpitSet
  | NoPublicUrl
  | NotHttps
  | NoSmtp
  | PlainSmtp
  | AdminBind bind_problem
  | AttachmentDir dir_problem
  | ModelDir dir_problem

text \<open>Every problem, in the order of the rules.\<close>

definition production_problems :: "config_library \<Rightarrow> config \<Rightarrow> problem list" where
  "production_problems L c =
     (if cf_jwt_secret c = [] \<or> is_placeholder (cf_jwt_secret c) \<or> length (cf_jwt_secret c) < 32
      then [WeakSecret] else []) @
     (if cf_database_url c = [] \<or> is_placeholder (cf_database_url c) then [NoDatabaseUrl] else []) @
     (if cf_dev_mode c then [DevModeOn] else []) @
     (if cf_dev_login c then [DevLoginOn] else []) @
     (if cf_mailpit c \<noteq> [] then [MailpitSet] else []) @
     (if cf_public_url c = [] then [NoPublicUrl]
      else
        (case cg_url L (cf_public_url c) of
           None \<Rightarrow> [NotHttps]
         | Some (scheme, host) \<Rightarrow> if scheme \<noteq> ''https'' \<or> host = [] then [NotHttps] else [])) @
     (if cf_smtp_host c = [] \<or> cf_smtp_from c = [] then [NoSmtp] else []) @
     (if cf_smtp_tls c = ''none'' then [PlainSmtp] else []) @
     (case validate_admin_bind (cg_net L) (cf_admin_addr c) (cf_admin_wildcard c) of
        None \<Rightarrow> [] | Some p \<Rightarrow> [AdminBind p]) @
     (case validate_dir (cf_attachment_dir c) of None \<Rightarrow> [] | Some p \<Rightarrow> [AttachmentDir p]) @
     (case validate_dir (cf_model_dir c) of None \<Rightarrow> [] | Some p \<Rightarrow> [ModelDir p])"

definition validate_production :: "config_library \<Rightarrow> config \<Rightarrow> problem list" where
  "validate_production L c = (if cf_app_env c \<noteq> ''production'' then [] else production_problems L c)"

datatype config_error =
    PlaceholderSecret
  | DatabaseUrlRequired
  | Rejected "problem list"

definition load_config :: "config_library \<Rightarrow> environment \<Rightarrow> config_error + config" where
  "load_config L E =
     (let c = read_config L E in
      if cf_jwt_secret c = ''REPLACE_WITH_RANDOM_SECRET'' then Inl PlaceholderSecret
      else if cf_database_url c = [] then Inl DatabaseUrlRequired
      else if validate_production L c \<noteq> [] then Inl (Rejected (validate_production L c))
      else Inr c)"

section \<open>The wiring (run.go)\<close>

text \<open>Which transport \<open>NewSender\<close> picks, and whether it says that it delivers.\<close>

datatype transport =
    Smtp
  | Mailpit
  | Log_Only

definition new_sender :: "config \<Rightarrow> transport" where
  "new_sender c =
     (if cf_smtp_host c \<noteq> [] \<and> cf_smtp_from c \<noteq> [] then Smtp
      else if cf_mailpit c \<noteq> [] then Mailpit
      else Log_Only)"

fun sender_configured :: "config \<Rightarrow> transport \<Rightarrow> bool" where
  "sender_configured c Smtp = (cf_smtp_host c \<noteq> [] \<and> cf_smtp_from c \<noteq> [])"
| "sender_configured c Mailpit = True"
| "sender_configured c Log_Only = cf_dev_mode c"

definition microseconds :: "int \<Rightarrow> time" where
  "microseconds d = d div 1000"

definition current_params :: "config \<Rightarrow> params" where
  "current_params c =
     \<lparr>pm_memory = cf_argon_memory c, pm_iterations = cf_argon_iterations c, pm_parallel = cf_argon_parallel c,
      pm_salt_len = 16, pm_key_len = 32\<rparr>"

text \<open>The account service with the libraries of S.\<close>

definition configured_service :: "config \<Rightarrow> service \<Rightarrow> service" where
  "configured_service c S =
     S\<lparr>sv_mode := cf_registration c, sv_dev_mode := cf_dev_mode c,
       sv_mailer := sender_configured c (new_sender c), sv_params := current_params c,
       sv_manager := new_manager (cf_jwt_secret c) (cf_jwt_previous c) (cf_jwt_issuer c)
         (microseconds (cf_access_ttl c)) (microseconds (cf_refresh_ttl c)),
       sv_verify_ttl := microseconds (cf_verify_ttl c), sv_reset_ttl := microseconds (cf_reset_ttl c),
       sv_cooldown := microseconds (cf_resend_cooldown c), sv_fail_window := microseconds (cf_login_window c),
       sv_ip_max := cf_ip_max c, sv_session_ttl := microseconds (cf_session_ttl c),
       sv_base_url := cf_public_url c, sv_reset_path := cf_reset_path c\<rparr>"

text \<open>What the listener serves.\<close>

record api =
  ap_front :: front
  ap_web :: web
  ap_body_cap :: int
  ap_attachment_cap :: "int option"
  ap_material_cap :: "int option"
  ap_models :: bool
  ap_metrics :: bool
  ap_pprof :: bool
  ap_cors :: "string list"
  ap_retention_days :: int

text \<open>\<open>None\<close>: a trusted proxy that is neither an address nor a network ends the boot.\<close>

definition serve_api :: "config_library \<Rightarrow> service \<Rightarrow> apple_library \<Rightarrow> config \<Rightarrow> api option" where
  "serve_api L S A c =
     (case parse_trusted_proxies (cg_net L) (cf_proxies c) of
        None \<Rightarrow> None
      | Some trust \<Rightarrow>
          Some \<lparr>ap_front = \<lparr>fr_service = configured_service c S, fr_net = cg_net L, fr_apple = A,
                  fr_trust = Some trust, fr_dev_login = cf_dev_login c,
                  fr_schemas = (cf_min_schema c, cf_max_schema c)\<rparr>,
                ap_web = new_web (cf_rate_per_minute c), ap_body_cap = cf_max_body c,
                ap_attachment_cap = (if cf_attachment_dir c = [] then None else Some (set_max_upload (cf_attachment_max c) attachment_cap)),
                ap_material_cap = (if cf_attachment_dir c = [] then None else Some (set_max_upload (cf_material_max c) material_cap)),
                ap_models = (cf_model_dir c \<noteq> []), ap_metrics = cf_metrics c, ap_pprof = cf_pprof c,
                ap_cors = cf_cors c, ap_retention_days = cf_retention_days c\<rparr>)"

end
