(* ===== verification/Config_Properties.thy ===== *)
theory Config_Properties
  imports Config Web_Properties
begin

text \<open>What a production configuration that the server boots with guarantees, and what it does not.\<close>

section \<open>Production\<close>

lemma load_config_Inr:
  assumes "load_config L E = Inr c"
  shows "c = read_config L E" "validate_production L c = []" "cf_jwt_secret c \<noteq> ''REPLACE_WITH_RANDOM_SECRET''"
    "cf_database_url c \<noteq> []"
  using assms by (auto simp: load_config_def Let_def split: if_splits)

lemma serve_api_front:
  "serve_api L S A c = Some api \<Longrightarrow>
     fr_service (ap_front api) = configured_service c S \<and> fr_dev_login (ap_front api) = cf_dev_login c"
  by (auto simp: serve_api_def split: option.splits)

text \<open>The listener of the administration is not reachable from outside, or the operator vouches for it.\<close>

definition admin_is_internal :: "net_library \<Rightarrow> config \<Rightarrow> bool" where
  "admin_is_internal N c =
     (case nt_split_host N (cf_admin_addr c) of
        None \<Rightarrow> False
      | Some host \<Rightarrow>
          if host = [] then cf_admin_wildcard c
          else
            (case nt_parse_ip N host of
               None \<Rightarrow> False
             | Some ip \<Rightarrow> is_loopback ip \<or> is_private ip \<or> is_link_local ip \<or> (is_unspecified ip \<and> cf_admin_wildcard c)))"

lemma admin_bind_internal:
  "validate_admin_bind N (cf_admin_addr c) (cf_admin_wildcard c) = None \<Longrightarrow> admin_is_internal N c"
  by (cases "nt_split_host N (cf_admin_addr c)"; cases "nt_parse_ip N (the (nt_split_host N (cf_admin_addr c)))")
    (auto simp: validate_admin_bind_def admin_is_internal_def split: if_splits)

lemma registration_modes:
  "resolve_registration_mode L mode legacy \<in> {''open'', ''invite_only'', ''disabled''}"
  by (simp add: resolve_registration_mode_def Let_def)

text \<open>A mode that is none of the known ones closes the registration.\<close>

lemma unknown_mode_is_closed:
  assumes "cg_lower L (trim_space mode) \<notin>
    {[], ''open'', ''invite_only'', ''invite'', ''inviteonly'', ''disabled'', ''closed''}"
    and "sv_mode S = resolve_registration_mode L mode legacy"
  shows "register S c req ip A = (A, Inl RegistrationClosed)"
  using assms by (simp add: resolve_registration_mode_def Let_def register_def)

text \<open>
  C38: What a boot in production guarantees. With whatever environment the server was configured, the
  development login is answered 404, access tokens are signed with a secret of 32 bytes at least that
  is no placeholder, the reset links go to an https origin, mails go out by SMTP with a TLS mode that is
  not none, the registration is in one of its three modes, and the administration listens on a loopback,
  private or link-local address, or on all interfaces if the operator has allowed the wildcard. A TLS
  mode that is not none need not be a secure one: an unknown one boots and sends in clear
  (unknown\_tls\_mode\_boots here and unknown\_tls\_mode\_is\_clear in Mail\_Properties).
\<close>

theorem production_boot_guarantees:
  assumes "load_config L E = Inr c" and "cf_app_env c = ''production''" and "serve_api L S A c = Some api"
  shows "dev_login_route (ap_front api) C b W = (W, Failed 404 (Text ''Not Found'')) \<and>
    32 \<le> length (mg_secret (sv_manager (fr_service (ap_front api)))) \<and>
    \<not> is_placeholder (mg_secret (sv_manager (fr_service (ap_front api)))) \<and>
    map_option fst (cg_url L (sv_base_url (fr_service (ap_front api)))) = Some ''https'' \<and>
    new_sender c = Smtp \<and> cf_smtp_tls c \<noteq> ''none'' \<and> can_mail (fr_service (ap_front api)) \<and>
    sv_mode (fr_service (ap_front api)) \<in> {''open'', ''invite_only'', ''disabled''} \<and>
    admin_is_internal (cg_net L) c"
proof -
  note front = serve_api_front [OF assms(3)]
  from load_config_Inr(2) [OF assms(1)] have ok: "production_problems L c = []"
    using assms(2) by (simp add: validate_production_def)
  have secret: "32 \<le> length (cf_jwt_secret c)" "\<not> is_placeholder (cf_jwt_secret c)"
    using ok by (simp_all add: production_problems_def split: if_splits)
  have dev: "\<not> cf_dev_login c" using ok by (simp add: production_problems_def split: if_splits)
  have smtp: "cf_smtp_host c \<noteq> [] \<and> cf_smtp_from c \<noteq> []" "cf_smtp_tls c \<noteq> ''none''"
    using ok by (simp_all add: production_problems_def split: if_splits)
  have url: "map_option fst (cg_url L (cf_public_url c)) = Some ''https''"
    using ok by (simp add: production_problems_def split: if_splits option.splits prod.splits)
  have bind: "validate_admin_bind (cg_net L) (cf_admin_addr c) (cf_admin_wildcard c) = None"
    using ok by (simp add: production_problems_def split: option.splits)
  have mode: "cf_registration c \<in> {''open'', ''invite_only'', ''disabled''}"
    unfolding load_config_Inr(1) [OF assms(1)] read_config_def config.select_convs by (rule registration_modes)
  have parts: "mg_secret (sv_manager (configured_service c S)) = cf_jwt_secret c"
    "sv_base_url (configured_service c S) = cf_public_url c" "sv_mode (configured_service c S) = cf_registration c"
    by (simp_all add: configured_service_def new_manager_def)
  have "new_sender c = Smtp" "can_mail (configured_service c S)"
    using smtp by (simp_all add: new_sender_def can_mail_def configured_service_def)
  then show ?thesis
    using front dev secret smtp url admin_bind_internal [OF bind] mode parts by (simp add: dev_login_route_def)
qed

section \<open>A production environment\<close>

definition production_vars :: "(string \<times> string) list" where
  "production_vars =
     [(''APP_ENV'', ''production''), (''DATABASE_URL'', ''postgres://db/live''),
      (''JWT_SECRET'', ''0123456789abcdef0123456789abcdef''), (''SMTP_HOST'', ''mail.school.org''),
      (''SMTP_FROM'', ''no-reply@school.org''), (''PUBLIC_BASE_URL'', ''https://live.school.org/'')]"

definition vars :: "(string \<times> string) list \<Rightarrow> environment" where
  "vars xs key = (case map_of xs key of None \<Rightarrow> [] | Some v \<Rightarrow> v)"

definition boot0 :: config_library where
  "boot0 = \<lparr>cg_lower = (\<lambda>s. s), cg_duration = (\<lambda>s. None),
     cg_url = (\<lambda>u. if take 8 u = ''https://'' then Some (''https'', drop 8 u) else None),
     cg_net = \<lparr>nt_split_host = (\<lambda>s. Some (takeWhile (\<lambda>c. c \<noteq> CHR '':'') s)),
       nt_parse_ip = (\<lambda>s. if s = ''127.0.0.1'' then Some [127, 0, 0, 1] else None), nt_ip_text = (\<lambda>a. []),
       nt_parse_cidr = (\<lambda>s. None)\<rparr>\<rparr>"

definition production0 :: config where
  "production0 = read_config boot0 (vars production_vars)"

lemma production0_boots:
  "load_config boot0 (vars production_vars) = Inr production0" "cf_app_env production0 = ''production''"
proof -
  have "cf_jwt_secret production0 \<noteq> ''REPLACE_WITH_RANDOM_SECRET'' \<and> cf_database_url production0 \<noteq> [] \<and>
      validate_production boot0 production0 = []" by code_simp
  then show "load_config boot0 (vars production_vars) = Inr production0"
    by (simp add: load_config_def Let_def production0_def [symmetric])
  show "cf_app_env production0 = ''production''" by code_simp
qed

lemma production0_serves: "\<exists>api. serve_api boot0 service0 (fr_apple front0) production0 = Some api"
proof -
  have "parse_trusted_proxies (cg_net boot0) (cf_proxies production0) = Some []" by code_simp
  then show ?thesis by (simp add: serve_api_def)
qed

lemma production_boot_guarantees_witness:
  "\<exists>api. serve_api boot0 service0 (fr_apple front0) production0 = Some api \<and>
     dev_login_route (ap_front api) (call_no 1) (Decoded (''bob'', phone)) (new_web 30) =
       (new_web 30, Failed 404 (Text ''Not Found''))"
  using production0_serves production_boot_guarantees [OF production0_boots] by blast

text \<open>
  The rules do not look at the previous secret: a published one is accepted, and tokens signed with
  it are honoured.
\<close>

lemma published_previous_secret_boots:
  "map_sum id (\<lambda>c. mg_previous (sv_manager (configured_service c service0)))
     (load_config boot0 (vars ((''JWT_SECRET_PREVIOUS'', ''REPLACE_WITH_RANDOM_SECRET'') # production_vars))) =
   Inr (Some ''REPLACE_WITH_RANDOM_SECRET'')"
  by code_simp

text \<open>Nor at the numbers: 256 lanes of Argon2 are none, with which the library panics.\<close>

lemma no_lanes_boot:
  "map_sum id cf_argon_parallel (load_config boot0 (vars ((''ARGON2_PARALLELISM'', ''256'') # production_vars))) = Inr 0"
  by code_simp

text \<open>Nor at the TLS mode, if only it is not none: tls, which is no mode of the code, boots.\<close>

lemma unknown_tls_mode_boots:
  "map_sum id cf_smtp_tls (load_config boot0 (vars ((''SMTP_TLS_MODE'', ''tls'') # production_vars))) = Inr ''tls''"
  by code_simp

end
