(* ===== verification/Mails.thy ===== *)
theory Mails
  imports Config
begin

text \<open>
  Mail (internal/mail): subjects and rendering, the MIME text of a message, the conversation with an
  SMTP server, the senders of the development, and the counters. A string stands for bytes.
\<close>

section \<open>Messages\<close>

datatype template =
    Verify_Code
  | Password_Reset
  | Email_Change
  | New_Device
  | Password_Change
  | Account_Deletion
  | Email_Changed_Notice

fun template_name :: "template \<Rightarrow> string" where
  "template_name Verify_Code = ''verify_code''"
| "template_name Password_Reset = ''password_reset''"
| "template_name Email_Change = ''email_change''"
| "template_name New_Device = ''new_device''"
| "template_name Password_Change = ''password_change''"
| "template_name Account_Deletion = ''account_deletion''"
| "template_name Email_Changed_Notice = ''email_changed_notice''"

text \<open>Subjects are Chinese and English; the Chinese is UTF-8.\<close>

definition bilingual :: "string \<Rightarrow> string \<Rightarrow> string" where
  "bilingual zh en = ''LiveTranslate '' @ zh @ '' / '' @ en"

fun subject_for :: "template \<Rightarrow> string" where
  "subject_for Verify_Code =
     bilingual [CHR 0xE9, CHR 0xAA, CHR 0x8C, CHR 0xE8, CHR 0xAF, CHR 0x81, CHR 0xE7, CHR 0xA0,
        CHR 0x81] ''Verification code''"
| "subject_for Password_Reset =
     bilingual [CHR 0xE5, CHR 0xAF, CHR 0x86, CHR 0xE7, CHR 0xA0, CHR 0x81, CHR 0xE9, CHR 0x87,
        CHR 0x8D, CHR 0xE7, CHR 0xBD, CHR 0xAE] ''Password reset''"
| "subject_for Email_Change =
     bilingual [CHR 0xE9, CHR 0x82, CHR 0xAE, CHR 0xE7, CHR 0xAE, CHR 0xB1, CHR 0xE9, CHR 0xAA,
        CHR 0x8C, CHR 0xE8, CHR 0xAF, CHR 0x81, CHR 0xE7, CHR 0xA0, CHR 0x81] ''Email change code''"
| "subject_for New_Device =
     bilingual [CHR 0xE6, CHR 0x96, CHR 0xB0, CHR 0xE8, CHR 0xAE, CHR 0xBE, CHR 0xE5, CHR 0xA4,
        CHR 0x87, CHR 0xE7, CHR 0x99, CHR 0xBB, CHR 0xE5, CHR 0xBD, CHR 0x95] ''New device sign-in''"
| "subject_for Password_Change =
     bilingual [CHR 0xE5, CHR 0xAF, CHR 0x86, CHR 0xE7, CHR 0xA0, CHR 0x81, CHR 0xE5, CHR 0xB7,
        CHR 0xB2, CHR 0xE4, CHR 0xBF, CHR 0xAE, CHR 0xE6, CHR 0x94, CHR 0xB9] ''Password changed''"
| "subject_for Account_Deletion =
     bilingual [CHR 0xE8, CHR 0xB4, CHR 0xA6, CHR 0xE5, CHR 0x8F, CHR 0xB7, CHR 0xE5, CHR 0x88,
        CHR 0xA0, CHR 0xE9, CHR 0x99, CHR 0xA4] ''Account deletion''"
| "subject_for Email_Changed_Notice =
     bilingual [CHR 0xE7, CHR 0x99, CHR 0xBB, CHR 0xE5, CHR 0xBD, CHR 0x95, CHR 0xE9, CHR 0x82,
        CHR 0xAE, CHR 0xE7, CHR 0xAE, CHR 0xB1, CHR 0xE5, CHR 0xB7, CHR 0xB2, CHR 0xE5, CHR 0x8F,
        CHR 0x98, CHR 0xE6, CHR 0x9B, CHR 0xB4] ''Sign-in email changed''"

record template_data =
  td_code :: string
  td_link :: string
  td_reset_minutes :: int
  td_verify_minutes :: int
  td_device :: string
  td_version :: string
  td_login_at :: string
  td_old_email :: string
  td_new_email :: string
  td_requested_at :: string

record outgoing =
  em_to :: string
  em_subject :: string
  em_text :: string
  em_html :: string

text \<open>
  \<open>Render\<close>: both bodies by \<open>text/template\<close>, which fills a file with the data as they are; \<open>None\<close> is an
  error of the template. The receiver is set later.
\<close>

definition render :: "(string \<Rightarrow> template_data \<Rightarrow> string option) \<Rightarrow> template \<Rightarrow> template_data \<Rightarrow> outgoing option" where
  "render fill t x =
     (case fill (template_name t @ ''.txt'') x of
        None \<Rightarrow> None
      | Some plain \<Rightarrow>
          (case fill (template_name t @ ''.html'') x of
             None \<Rightarrow> None
           | Some html \<Rightarrow> Some \<lparr>em_to = [], em_subject = subject_for t, em_text = plain, em_html = html\<rparr>))"

section \<open>The MIME text\<close>

definition crlf :: string where
  "crlf = [CHR 0x0D, CHR 0x0A]"

definition is_ascii :: "string \<Rightarrow> bool" where
  "is_ascii s \<longleftrightarrow> list_all (\<lambda>c. let n = of_char c :: nat in n \<le> 0x7e \<and> 0x20 \<le> n) s"

definition bytes_of :: "string \<Rightarrow> 8 word list" where
  "bytes_of s = map (\<lambda>c. of_nat (of_char c)) s"

text \<open>\<open>base64.StdEncoding\<close>\<close>

definition base64_std :: "string \<Rightarrow> string" where
  "base64_std s =
     (let e = std_encode (bytes_of s) in e @ replicate ((4 - length e mod 4) mod 4) (CHR ''=''))"

definition rfc2047_encode :: "string \<Rightarrow> string" where
  "rfc2047_encode s = (if is_ascii s then s else ''=?UTF-8?B?'' @ base64_std s @ ''?='')"

function wrap76 :: "string \<Rightarrow> string" where
  "wrap76 s = (if 76 < length s then take 76 s @ crlf @ wrap76 (drop 76 s) else s)"
  by auto
termination by (relation "measure length") auto

declare wrap76.simps [simp del]

fun join_crlf :: "string list \<Rightarrow> string" where
  "join_crlf [] = []"
| "join_crlf [l] = l"
| "join_crlf (l # ls) = l @ crlf @ join_crlf ls"

definition from_header :: "config \<Rightarrow> string" where
  "from_header c =
     (if cf_smtp_from_name c \<noteq> []
      then rfc2047_encode (cf_smtp_from_name c) @ '' <'' @ cf_smtp_from c @ ''>''
      else cf_smtp_from c)"

definition mail_headers :: "config \<Rightarrow> outgoing \<Rightarrow> string list" where
  "mail_headers c m =
     [''From: '' @ from_header c, ''To: '' @ em_to m, ''Subject: '' @ rfc2047_encode (em_subject m),
      ''MIME-Version: 1.0'', ''Content-Type: multipart/alternative; boundary=\"ltmail\"'']"

definition mail_body :: "outgoing \<Rightarrow> string" where
  "mail_body m = join_crlf
     [''--ltmail'', ''Content-Type: text/plain; charset=UTF-8'', ''Content-Transfer-Encoding: base64'', [],
      wrap76 (base64_std (em_text m)),
      ''--ltmail'', ''Content-Type: text/html; charset=UTF-8'', ''Content-Transfer-Encoding: base64'', [],
      wrap76 (base64_std (em_html m)),
      ''--ltmail--'', []]"

definition build_message :: "config \<Rightarrow> outgoing \<Rightarrow> string" where
  "build_message c m = join_crlf (mail_headers c m) @ crlf @ crlf @ mail_body m"

section \<open>SMTP\<close>

text \<open>
  What the relay does: whether each step succeeds and which extensions it offers. The authentication
  of \<open>net/smtp\<close> is part of the relay here.
\<close>

record relay =
  ry_dial :: bool
  ry_hello :: bool
  ry_deadline :: bool
  ry_offers_tls :: bool
  ry_tls :: bool
  ry_offers_auth :: bool
  ry_auth :: bool
  ry_from :: bool
  ry_rcpt :: bool
  ry_data :: bool
  ry_write :: bool
  ry_close :: bool
  ry_quit :: bool

datatype smtp_step =
    Dial string bool
  | Start_Tls
  | Auth_Plain string string
  | Mail_From string
  | Rcpt_To string
  | Data_Sent string
  | Quit

datatype smtp_error =
    NotConfigured
  | DialFailed
  | HelloFailed
  | TimeoutFailed
  | TlsFailed
  | AuthFailed
  | FromFailed
  | RcptFailed
  | DataFailed
  | WriteFailed
  | CloseFailed
  | QuitFailed

text \<open>The commands a step list has got through before the first that fails.\<close>

fun smtp_run :: "(bool \<times> smtp_step list \<times> smtp_error) list \<Rightarrow> smtp_step list \<times> smtp_error option" where
  "smtp_run [] = ([], None)"
| "smtp_run ((ok, sent, e) # xs) =
     (if ok then (case smtp_run xs of (ys, r) \<Rightarrow> (sent @ ys, r)) else ([], Some e))"

definition signed_text :: "int \<Rightarrow> string" where
  "signed_text n = (if n < 0 then CHR ''-'' # decimal (nat (- n)) else decimal (nat n))"

definition smtp_address :: "config \<Rightarrow> string" where
  "smtp_address c = cf_smtp_host c @ '':'' @ signed_text (cf_smtp_port c)"

definition smtp_send :: "config \<Rightarrow> relay \<Rightarrow> outgoing \<Rightarrow> smtp_step list \<times> smtp_error option" where
  "smtp_send c R m =
     (if \<not> sender_configured c Smtp then ([], Some NotConfigured)
      else
        smtp_run
          ([(ry_dial R, [Dial (smtp_address c) (cf_smtp_tls c = ''smtps'')], DialFailed),
            (ry_hello R, [], HelloFailed),
            (ry_deadline R, [], TimeoutFailed)] @
           (if cf_smtp_tls c = ''starttls'' \<and> ry_offers_tls R then [(ry_tls R, [Start_Tls], TlsFailed)] else []) @
           (if cf_smtp_username c \<noteq> [] \<and> ry_offers_auth R
            then [(ry_auth R, [Auth_Plain (cf_smtp_username c) (cf_smtp_password c)], AuthFailed)] else []) @
           [(ry_from R, [Mail_From (cf_smtp_from c)], FromFailed),
            (ry_rcpt R, [Rcpt_To (em_to m)], RcptFailed),
            (ry_data R, [], DataFailed),
            (ry_write R, [], WriteFailed),
            (ry_close R, [Data_Sent (build_message c m)], CloseFailed),
            (ry_quit R, [Quit], QuitFailed)]))"

section \<open>Senders and counters\<close>

text \<open>
  The counters of the process: a name, a 64-bit value and a help text, in the order of their first
  use. \<open>get\<close> makes a counter, and gives it a help text if it has none.
\<close>

type_synonym counters = "(string \<times> int \<times> string) list"

definition get_counter :: "string \<Rightarrow> string \<Rightarrow> counters \<Rightarrow> counters" where
  "get_counter name help C =
     (let C = (if name \<in> fst ` set C then C else C @ [(name, 0, help)]) in
      map (\<lambda>(n, v, h). (n, v, if n = name \<and> help \<noteq> [] \<and> h = [] then help else h)) C)"

definition add_value :: "string \<Rightarrow> int \<Rightarrow> counters \<Rightarrow> counters" where
  "add_value name delta C = map (\<lambda>(n, v, h). (n, if n = name then wrap64 (v + delta) else v, h)) C"

definition add_counter :: "string \<Rightarrow> int \<Rightarrow> counters \<Rightarrow> counters" where
  "add_counter name delta C = add_value name delta (get_counter name [] C)"

definition inc_counter :: "string \<Rightarrow> counters \<Rightarrow> counters" where
  "inc_counter name C = add_counter name 1 C"

definition inc_with_help :: "string \<Rightarrow> string \<Rightarrow> counters \<Rightarrow> counters" where
  "inc_with_help name help C = add_value name 1 (get_counter name help C)"

definition counter_snapshot :: "counters \<Rightarrow> (string \<times> int) list" where
  "counter_snapshot C = map (\<lambda>(n, v, h). (n, v)) C"

text \<open>Mailpit answers the POST of a message with a status, or not at all; the log sender drops the body.\<close>

definition mailpit_url :: "config \<Rightarrow> string" where
  "mailpit_url c = trim_slashes (cf_mailpit c) @ ''/api/v1/send''"

definition mailpit_send :: "(string \<Rightarrow> outgoing \<Rightarrow> int option) \<Rightarrow> config \<Rightarrow> outgoing \<Rightarrow> bool" where
  "mailpit_send post c m =
     (case post (mailpit_url c) m of None \<Rightarrow> False | Some status \<Rightarrow> status < 300)"

definition deliver :: "(string \<Rightarrow> outgoing \<Rightarrow> int option) \<Rightarrow> relay \<Rightarrow> config \<Rightarrow> outgoing \<Rightarrow> bool" where
  "deliver post R c m =
     (case new_sender c of
        Smtp \<Rightarrow> snd (smtp_send c R m) = None
      | Mailpit \<Rightarrow> mailpit_send post c m
      | Log_Only \<Rightarrow> True)"

definition metered_send ::
  "(string \<Rightarrow> outgoing \<Rightarrow> int option) \<Rightarrow> relay \<Rightarrow> config \<Rightarrow> outgoing \<Rightarrow> counters \<Rightarrow> counters \<times> bool" where
  "metered_send post R c m C =
     (if deliver post R c m then (inc_counter ''mail_sent_total'' C, True)
      else (inc_counter ''mail_failed_total'' C, False))"

section \<open>The metrics page (internal/metrics, run.go)\<close>

text \<open>One request more, and one failure more for a status from 500.\<close>

definition count_request :: "int \<Rightarrow> counters \<Rightarrow> counters" where
  "count_request status C =
     (let C = inc_counter ''http_requests_total'' C in
      if 500 \<le> status then inc_counter ''http_5xx_total'' C else C)"

definition render_counter :: "string \<times> int \<times> string \<Rightarrow> string" where
  "render_counter x =
     (case x of (n, v, h) \<Rightarrow>
        (if h \<noteq> [] then ''# HELP '' @ n @ '' '' @ h @ [CHR 0x0A] else []) @
        ''# TYPE '' @ n @ '' counter'' @ [CHR 0x0A] @ n @ '' '' @ signed_text v @ [CHR 0x0A])"

definition render_metrics :: "counters \<Rightarrow> string" where
  "render_metrics C = concat (map render_counter (sort_key fst C))"

end
