(* ===== verification/Mail_Properties.thy ===== *)
theory Mail_Properties
  imports Mails Config_Properties
begin

text \<open>
  A mail can be read back: its headers cannot be forged by what is in it, and its two bodies arrive
  as they are; and what the SMTP conversation does when the relay does not offer TLS.
\<close>

section \<open>Lines\<close>

fun split_crlf :: "string \<Rightarrow> string list" where
  "split_crlf [] = [[]]"
| "split_crlf (c # s) =
     (if c = CHR 0x0D \<and> s \<noteq> [] \<and> hd s = CHR 0x0A then [] # split_crlf (tl s)
      else (c # hd (split_crlf s)) # tl (split_crlf s))"

lemma split_crlf_line: "CHR 0x0D \<notin> set l \<Longrightarrow> split_crlf (l @ crlf @ s) = l # split_crlf s"
  by (induction l) (auto simp: crlf_def)

lemma split_crlf_last: "CHR 0x0D \<notin> set l \<Longrightarrow> split_crlf l = [l]"
  by (induction l) auto

lemma split_join: "ls \<noteq> [] \<Longrightarrow> \<forall>l\<in>set ls. CHR 0x0D \<notin> set l \<Longrightarrow> split_crlf (join_crlf ls) = ls"
  by (induction ls rule: join_crlf.induct) (simp_all add: split_crlf_last split_crlf_line)

lemma join_crlf_append: "xs \<noteq> [] \<Longrightarrow> ys \<noteq> [] \<Longrightarrow> join_crlf (xs @ ys) = join_crlf xs @ crlf @ join_crlf ys"
proof (induction xs rule: join_crlf.induct)
  case (2 l)
  then show ?case by (cases ys) simp_all
qed simp_all

function chunks76 :: "string \<Rightarrow> string list" where
  "chunks76 s = (if 76 < length s then take 76 s # chunks76 (drop 76 s) else [s])"
  by auto
termination by (relation "measure length") auto

declare chunks76.simps [simp del]

lemma chunks76_not_Nil [simp]: "chunks76 s \<noteq> []"
  by (subst chunks76.simps) simp

lemma wrap76_chunks: "wrap76 s = join_crlf (chunks76 s)"
proof (induction s rule: chunks76.induct)
  case (1 s)
  show ?case
  proof (cases "76 < length s")
    case True
    then have "join_crlf (chunks76 s) = take 76 s @ crlf @ join_crlf (chunks76 (drop 76 s))"
      using join_crlf_append [of "[take 76 s]" "chunks76 (drop 76 s)"] by (subst chunks76.simps) simp
    then show ?thesis using 1 True by (subst wrap76.simps) simp
  qed (subst wrap76.simps, subst chunks76.simps, simp)
qed

lemma chunks76_parts: "concat (chunks76 s) = s \<and> (\<forall>l\<in>set (chunks76 s). length l \<le> 76 \<and> set l \<subseteq> set s)"
proof (induction s rule: chunks76.induct)
  case (1 s)
  show ?case
  proof (cases "76 < length s")
    case True
    then show ?thesis
      using 1 by (subst (1 2) chunks76.simps) (auto dest: in_set_takeD in_set_dropD)
  qed (subst (1 2) chunks76.simps, simp)
qed

section \<open>Base64 and headers\<close>

lemma string_bytes: "map (\<lambda>b. char_of (unat b)) (bytes_of s) = s"
proof -
  have "char_of (unat (word_of_nat (of_char c) :: 8 word)) = c" for c
    by (simp add: unat_of_nat nat_of_char_less_256)
  then show ?thesis by (simp add: bytes_of_def map_idI)
qed

definition base64_read :: "string \<Rightarrow> string option" where
  "base64_read s = map_option (map (\<lambda>b. char_of (unat b))) (std_decode (filter (\<lambda>c. c \<noteq> CHR ''='') s))"

lemma base64_chars: "set (base64_std s) \<subseteq> insert (CHR ''='') (set std_alphabet)"
  using std_encode_chars by (auto simp: base64_std_def Let_def)

lemma base64_read_std: "base64_read (base64_std s) = Some s"
proof -
  have "filter (\<lambda>c. c \<noteq> CHR ''='') (std_encode (bytes_of s)) = std_encode (bytes_of s)"
    using std_encode_chars by (fastforce intro: filter_True simp: std_alphabet_def)
  then show ?thesis
    by (simp add: base64_read_def base64_std_def Let_def std_decode_encode string_bytes)
qed


text \<open>An encoded header value has no line end, whatever was encoded.\<close>

lemma rfc2047_one_line: "CHR 0x0D \<notin> set (rfc2047_encode s) \<and> CHR 0x0A \<notin> set (rfc2047_encode s)"
proof (cases "is_ascii s")
  case True
  have "\<not> (32 \<le> (of_char (CHR 0x0D) :: nat))" "\<not> (32 \<le> (of_char (CHR 0x0A) :: nat))" by code_simp+
  then show ?thesis using True by (auto simp: rfc2047_encode_def is_ascii_def list_all_iff Let_def)
next
  case False
  then show ?thesis
    using base64_chars [of s] std_alphabet_plain by (auto simp: rfc2047_encode_def)
qed

definition rfc2047_read :: "string \<Rightarrow> string option" where
  "rfc2047_read s =
     (if take 10 s = ''=?UTF-8?B?'' then base64_read (take (length s - 12) (drop 10 s)) else Some s)"

lemma rfc2047_read_encode: "take 10 s \<noteq> ''=?UTF-8?B?'' \<Longrightarrow> rfc2047_read (rfc2047_encode s) = Some s"
  by (simp add: rfc2047_read_def rfc2047_encode_def base64_read_std)

section \<open>Reading a message\<close>

definition at_boundary :: "string \<Rightarrow> bool" where
  "at_boundary l \<longleftrightarrow> take 8 l = ''--ltmail''"

text \<open>The content of the next part, below its headers, and what comes after it.\<close>

definition next_part :: "string list \<Rightarrow> string \<times> string list" where
  "next_part ls =
     (let inner = tl (dropWhile (\<lambda>l. l \<noteq> []) (dropWhile (\<lambda>l. \<not> at_boundary l) ls)) in
      (concat (takeWhile (\<lambda>l. \<not> at_boundary l) inner), dropWhile (\<lambda>l. \<not> at_boundary l) inner))"

text \<open>Sender, receiver, subject and both bodies, of a message with the headers in the order of the sender.\<close>

definition read_message :: "string \<Rightarrow> (string \<times> string \<times> string option \<times> string option \<times> string option)" where
  "read_message w =
     (let ls = split_crlf w; hs = takeWhile (\<lambda>l. l \<noteq> []) ls; p = next_part ls; q = next_part (snd p) in
      (drop 6 (hs ! 0), drop 4 (hs ! 1), rfc2047_read (drop 9 (hs ! 2)), base64_read (fst p), base64_read (fst q)))"

definition part_lines :: "string \<Rightarrow> string \<Rightarrow> string list" where
  "part_lines kind body =
     [''--ltmail'', ''Content-Type: text/'' @ kind @ ''; charset=UTF-8'', ''Content-Transfer-Encoding: base64'', []] @
     chunks76 (base64_std body)"

definition message_lines :: "config \<Rightarrow> outgoing \<Rightarrow> string list" where
  "message_lines c m =
     mail_headers c m @ [[]] @ part_lines ''plain'' (em_text m) @ part_lines ''html'' (em_html m) @ [''--ltmail--'', []]"

lemma join_crlf_nested: "ys \<noteq> [] \<Longrightarrow> join_crlf (xs @ [join_crlf ys] @ zs) = join_crlf (xs @ ys @ zs)"
  by (cases "xs = []"; cases "zs = []") (simp_all add: join_crlf_append join_crlf_append [of "[join_crlf ys]", simplified])

lemma mail_body_lines:
  "mail_body m = join_crlf (part_lines ''plain'' (em_text m) @ part_lines ''html'' (em_html m) @ [''--ltmail--'', []])"
proof -
  let ?h = "\<lambda>kind. [''--ltmail'', ''Content-Type: text/'' @ kind @ ''; charset=UTF-8'', ''Content-Transfer-Encoding: base64'', []]"
  let ?x = "chunks76 (base64_std (em_text m))" and ?y = "chunks76 (base64_std (em_html m))"
  have "mail_body m = join_crlf (?h ''plain'' @ [join_crlf ?x] @ ?h ''html'' @ [join_crlf ?y] @ [''--ltmail--'', []])"
    by (simp add: mail_body_def wrap76_chunks)
  also have "\<dots> = join_crlf (?h ''plain'' @ ?x @ ?h ''html'' @ [join_crlf ?y] @ [''--ltmail--'', []])"
    by (rule join_crlf_nested) (rule chunks76_not_Nil)
  also have "\<dots> = join_crlf ((?h ''plain'' @ ?x @ ?h ''html'') @ [join_crlf ?y] @ [''--ltmail--'', []])"
    by (simp only: append_assoc)
  also have "\<dots> = join_crlf ((?h ''plain'' @ ?x @ ?h ''html'') @ ?y @ [''--ltmail--'', []])"
    by (rule join_crlf_nested) (rule chunks76_not_Nil)
  finally show ?thesis by (simp only: part_lines_def append_assoc)
qed

lemma build_message_lines: "build_message c m = join_crlf (message_lines c m)"
proof -
  let ?b = "part_lines ''plain'' (em_text m) @ part_lines ''html'' (em_html m) @ [''--ltmail--'', []]"
  have "join_crlf (message_lines c m) = join_crlf (mail_headers c m) @ crlf @ join_crlf ([[]] @ ?b)"
    unfolding message_lines_def by (rule join_crlf_append) (simp_all add: mail_headers_def)
  also have "join_crlf ([[]] @ ?b) = crlf @ join_crlf ?b"
    using join_crlf_append [of "[[]]" ?b] by (simp add: part_lines_def)
  finally show ?thesis by (simp only: build_message_def mail_body_lines)
qed

text \<open>Lines of base64 have no line end and are no boundary.\<close>

lemma content_lines:
  assumes "l \<in> set (chunks76 (base64_std s))"
  shows "CHR 0x0D \<notin> set l" "\<not> at_boundary l" "length l \<le> 76"
proof -
  have l: "set l \<subseteq> insert (CHR ''='') (set std_alphabet)" "length l \<le> 76"
    using chunks76_parts [of "base64_std s"] base64_chars [of s] assms by blast+
  then show "length l \<le> 76" by simp
  show "CHR 0x0D \<notin> set l" using l(1) by (auto simp: std_alphabet_def)
  have "CHR ''-'' \<notin> set l" using l(1) by (auto simp: std_alphabet_def)
  moreover have "CHR ''-'' \<in> set (take 8 l)" if "at_boundary l" using that by (simp add: at_boundary_def)
  ultimately show "\<not> at_boundary l" by (blast dest: in_set_takeD)
qed


lemma next_part_lines:
  assumes "\<forall>l\<in>set before. \<not> at_boundary l" and "rest \<noteq> []" and "at_boundary (hd rest)"
  shows "next_part (before @ part_lines kind body @ rest) = (base64_std body, rest)"
proof -
  let ?x = "chunks76 (base64_std body)"
  have "dropWhile (\<lambda>l. \<not> at_boundary l) (before @ part_lines kind body @ rest) = part_lines kind body @ rest"
    using assms(1) by (simp add: dropWhile_append2 part_lines_def at_boundary_def)
  moreover have "tl (dropWhile (\<lambda>l. l \<noteq> []) (part_lines kind body @ rest)) = ?x @ rest"
    by (simp add: part_lines_def)
  moreover have "takeWhile (\<lambda>l. \<not> at_boundary l) (?x @ rest) = ?x"
    "dropWhile (\<lambda>l. \<not> at_boundary l) (?x @ rest) = rest"
    using content_lines(2) [of _ body] assms(2,3)
    by (cases rest; simp add: takeWhile_append2 dropWhile_append2)+
  ultimately show ?thesis using chunks76_parts [of "base64_std body"] by (simp add: next_part_def)
qed

text \<open>
  C40: A mail arrives as it was written. If neither the receiver nor the sender's address holds a
  carriage return and the subject does not look encoded already, then reading the MIME text back gives
  the sender, the receiver, the subject and both bodies: no name, subject or body can add a header,
  end a part or get lost; and no line of the parts is longer than 76 characters.
\<close>

theorem mail_round_trip:
  assumes "CHR 0x0D \<notin> set (em_to m)" and "CHR 0x0D \<notin> set (cf_smtp_from c)"
    and "take 10 (em_subject m) \<noteq> ''=?UTF-8?B?''"
  shows "read_message (build_message c m) =
      (from_header c, em_to m, Some (em_subject m), Some (em_text m), Some (em_html m)) \<and>
    list_all (\<lambda>l. length l \<le> 76) (drop 5 (split_crlf (build_message c m)))"
proof -
  let ?rest = "part_lines ''html'' (em_html m) @ [''--ltmail--'', []]"
  have clean: "\<forall>l\<in>set (message_lines c m). CHR 0x0D \<notin> set l"
    using assms(1,2) rfc2047_one_line content_lines(1)
    by (auto simp: message_lines_def mail_headers_def part_lines_def from_header_def)
  have ls: "split_crlf (build_message c m) = message_lines c m"
    unfolding build_message_lines using clean by (intro split_join) (simp_all add: message_lines_def)
  have hs: "takeWhile (\<lambda>l. l \<noteq> []) (message_lines c m) = mail_headers c m"
    by (simp add: message_lines_def mail_headers_def)
  have one: "next_part (message_lines c m) = (base64_std (em_text m), ?rest)"
    using next_part_lines [of "mail_headers c m @ [[]]" ?rest "''plain''" "em_text m"]
    by (simp add: message_lines_def mail_headers_def at_boundary_def part_lines_def)
  have two: "next_part ?rest = (base64_std (em_html m), [''--ltmail--'', []])"
    using next_part_lines [of "[]" "[''--ltmail--'', []]" "''html''" "em_html m"] by (simp add: at_boundary_def)
  have "read_message (build_message c m) =
      (from_header c, em_to m, Some (em_subject m), Some (em_text m), Some (em_html m))"
    unfolding read_message_def ls Let_def hs one snd_conv fst_conv two
    by (simp add: mail_headers_def base64_read_std rfc2047_read_encode [OF assms(3)])
  moreover have "list_all (\<lambda>l. length l \<le> 76) (drop 5 (message_lines c m))"
    using content_lines(3) by (auto simp: message_lines_def mail_headers_def part_lines_def list_all_iff)
  ultimately show ?thesis by (simp add: ls)
qed

lemma mail_round_trip_witness:
  "(case read_message (build_message production0
      \<lparr>em_to = ''ann@mail.org'', em_subject = subject_for Verify_Code, em_text = ''Code 123456'', em_html = ''<b>123456</b>''\<rparr>) of
     (_, receiver, subject, plain, html) \<Rightarrow>
       receiver = ''ann@mail.org'' \<and> subject = Some (subject_for Verify_Code) \<and> plain = Some ''Code 123456'' \<and>
       html = Some ''<b>123456</b>'')"
proof -
  let ?m = "\<lparr>em_to = ''ann@mail.org'', em_subject = subject_for Verify_Code, em_text = ''Code 123456'', em_html = ''<b>123456</b>''\<rparr>"
  have "CHR 0x0D \<notin> set (em_to ?m)" "CHR 0x0D \<notin> set (cf_smtp_from production0)"
    "take 10 (em_subject ?m) \<noteq> ''=?UTF-8?B?''"
    by code_simp+
  then show ?thesis using mail_round_trip [of ?m production0] by simp
qed

section \<open>The conversation\<close>

text \<open>
  A relay, or whoever sits before it, that does not offer TLS gets the mail in the clear, with the
  code or the reset link in it, and the mail counts as sent.
\<close>

definition plain_relay :: relay where
  "plain_relay = \<lparr>ry_dial = True, ry_hello = True, ry_deadline = True, ry_offers_tls = False, ry_tls = True,
     ry_offers_auth = False, ry_auth = True, ry_from = True, ry_rcpt = True, ry_data = True, ry_write = True,
     ry_close = True, ry_quit = True\<rparr>"

lemma starttls_can_be_stripped:
  "smtp_send production0 plain_relay m =
     ([Dial (smtp_address production0) False, Mail_From (cf_smtp_from production0), Rcpt_To (em_to m),
       Data_Sent (build_message production0 m), Quit], None)"
proof -
  have "cf_smtp_tls production0 = ''starttls''" "sender_configured production0 Smtp" by code_simp+
  then show ?thesis by (simp add: smtp_send_def plain_relay_def)
qed

text \<open>A mail that the relay has taken counts as failed if the farewell fails.\<close>

lemma taken_but_failed:
  "smtp_send production0 (plain_relay\<lparr>ry_quit := False\<rparr>) m =
     ([Dial (smtp_address production0) False, Mail_From (cf_smtp_from production0), Rcpt_To (em_to m),
       Data_Sent (build_message production0 m)], Some QuitFailed)"
proof -
  have "cf_smtp_tls production0 = ''starttls''" "sender_configured production0 Smtp" by code_simp+
  then show ?thesis by (simp add: smtp_send_def plain_relay_def)
qed

text \<open>In a mode that is neither starttls nor smtps no TLS is ever started, whatever the relay offers.\<close>

lemma smtp_run_steps: "set (fst (smtp_run xs)) \<subseteq> (\<Union>x\<in>set xs. set (fst (snd x)))"
  by (induction xs) (auto split: if_splits prod.splits)

lemma unknown_tls_mode_is_clear:
  assumes "cf_smtp_tls c \<notin> {''starttls'', ''smtps''}"
  shows "Start_Tls \<notin> set (fst (smtp_send c R m)) \<and> Dial a True \<notin> set (fst (smtp_send c R m))"
  using assms by (auto simp: smtp_send_def split: if_splits dest!: subsetD [OF smtp_run_steps])

section \<open>Counters\<close>

definition counter_value :: "string \<Rightarrow> counters \<Rightarrow> int" where
  "counter_value name C = (case map_of C name of None \<Rightarrow> 0 | Some (v, h) \<Rightarrow> v)"

lemma map_of_mapped:
  "map_of (map (\<lambda>(n, v, h). (n, f n v h)) C) m = map_option (\<lambda>(v, h). f m v h) (map_of C m)"
  by (induction C) auto

lemma get_counter_value: "counter_value m (get_counter name help C) = counter_value m C"
  by (auto simp: counter_value_def get_counter_def Let_def map_of_mapped map_add_def
      split: option.splits)

lemma get_counter_there: "map_of (get_counter name help C) name \<noteq> None"
  by (auto simp: get_counter_def Let_def map_of_mapped map_of_eq_None_iff)

text \<open>A counter counts: it grows by what is added, modulo 64 bits, and no other counter moves.\<close>

lemma add_counter_value:
  "counter_value m (add_counter name k C) =
     (if m = name then wrap64 (counter_value name C + k) else counter_value m C)"
proof -
  let ?G = "get_counter name [] C"
  have "counter_value m (add_value name k ?G) =
      (if m = name then wrap64 (counter_value name ?G + k) else counter_value m ?G)"
    using get_counter_there [of name "[]" C]
    by (auto simp: counter_value_def add_value_def map_of_mapped split: option.splits)
  then show ?thesis by (simp add: add_counter_def get_counter_value)
qed

lemma every_mail_is_counted:
  "counter_value ''mail_sent_total'' (fst (metered_send post R c m C)) =
     (if snd (metered_send post R c m C) then wrap64 (counter_value ''mail_sent_total'' C + 1)
      else counter_value ''mail_sent_total'' C)"
  by (simp add: metered_send_def inc_counter_def add_counter_value)

end
