(* ===== verification/Admin_Views.thy ===== *)
theory Admin_Views
  imports Mails
begin

text \<open>
  What the administration reads (the read side of internal/admin/store.go and users.go): invitations,
  the audit log, the overview with its counts, the user list with its filters, orders and pages, and
  the detail of a user.
\<close>

section \<open>What a reading takes from outside\<close>

text \<open>
  The case folding of ILIKE, and the calendar of the time zone of the database: the number of the day
  of an instant and the instant at which a day begins.
\<close>

record view_library =
  vl_fold :: "string \<Rightarrow> string"
  vl_day :: "time \<Rightarrow> int"
  vl_begin :: "int \<Rightarrow> time"

text \<open>
  The order in which a table is read: any order, chosen by a number. An ORDER BY sorts what it is
  given and leaves rows with the same key in that order.
\<close>

fun any_order :: "nat \<Rightarrow> 'a list \<Rightarrow> 'a list" where
  "any_order n [] = []"
| "any_order n (x # xs) =
     (let k = n mod Suc (length xs); ys = any_order (n div Suc (length xs)) xs in
      take k ys @ x # drop k ys)"

definition newest_first :: "('a \<Rightarrow> time) \<Rightarrow> 'a list \<Rightarrow> 'a list" where
  "newest_first f xs = sort_key (\<lambda>x. - f x) xs"

text \<open>DESC NULLS LAST\<close>

definition nulls_last :: "('a \<Rightarrow> time option) \<Rightarrow> 'a list \<Rightarrow> 'a list" where
  "nulls_last f xs =
     sort_key (\<lambda>x. if f x = None then 1 else (0 :: nat))
       (sort_key (\<lambda>x. case f x of None \<Rightarrow> 0 | Some t \<Rightarrow> - t) xs)"

definition latest :: "time list \<Rightarrow> time option" where
  "latest ts = (case ts of [] \<Rightarrow> None | t # ts \<Rightarrow> Some (foldl max t ts))"

section \<open>LIKE\<close>

text \<open>
  The characters of a text, for patterns: a percent sign stands for any characters, an underscore for
  one, a backslash takes the next one as it is.
\<close>

fun utf8_chars :: "string \<Rightarrow> string list" where
  "utf8_chars [] = []"
| "utf8_chars (c # s) =
     (case utf8_chars s of
        [] \<Rightarrow> [[c]]
      | x # xs \<Rightarrow> if utf8_continuation (hd s) then (c # x) # xs else [c] # x # xs)"

fun like :: "string list \<Rightarrow> string list \<Rightarrow> bool" where
  "like [] s \<longleftrightarrow> s = []"
| "like (p # ps) s \<longleftrightarrow>
     (if p = ''%'' then list_ex (\<lambda>k. like ps (drop k s)) [0..<Suc (length s)]
      else if p = [CHR 0x5C] then
        (case ps of [] \<Rightarrow> False | q # qs \<Rightarrow> (case s of [] \<Rightarrow> False | c # cs \<Rightarrow> c = q \<and> like qs cs))
      else (case s of [] \<Rightarrow> False | c # cs \<Rightarrow> (p = ''_'' \<or> p = c) \<and> like ps cs))"

text \<open>The texts that PostgreSQL takes: UTF-8 in its shortest form, without surrogates and NUL.\<close>

definition follows :: "nat \<Rightarrow> nat list \<Rightarrow> bool" where
  "follows n s \<longleftrightarrow> n \<le> length s \<and> list_all (\<lambda>b. 128 \<le> b \<and> b < 192) (take n s)"

function utf8_bytes :: "nat list \<Rightarrow> bool" where
  "utf8_bytes [] \<longleftrightarrow> True"
| "utf8_bytes (a # s) \<longleftrightarrow>
     (if a = 0 then False
      else if a < 128 then utf8_bytes s
      else if 194 \<le> a \<and> a < 224 then follows 1 s \<and> utf8_bytes (drop 1 s)
      else if 224 \<le> a \<and> a < 240 then
        follows 2 s \<and> (a = 224 \<longrightarrow> 160 \<le> hd s) \<and> (a = 237 \<longrightarrow> hd s < 160) \<and> utf8_bytes (drop 2 s)
      else if 240 \<le> a \<and> a < 245 then
        follows 3 s \<and> (a = 240 \<longrightarrow> 144 \<le> hd s) \<and> (a = 244 \<longrightarrow> hd s < 144) \<and> utf8_bytes (drop 3 s)
      else False)"
  by pat_completeness auto
termination by (relation "measure length") auto

definition pg_text :: "string \<Rightarrow> bool" where
  "pg_text s \<longleftrightarrow> utf8_bytes (map of_char s)"

section \<open>Invitations and the audit log (store.go)\<close>

record invitation_row =
  ir_code :: string
  ir_note :: string
  ir_max :: int
  ir_used :: int
  ir_expires :: "time option"
  ir_revoked :: "time option"
  ir_created :: time

definition invitation_view :: "invitation \<Rightarrow> invitation_row" where
  "invitation_view v =
     \<lparr>ir_code = iv_code v, ir_note = iv_note v, ir_max = iv_max v, ir_used = iv_used v,
      ir_expires = iv_expires v, ir_revoked = iv_revoked v, ir_created = iv_created v\<rparr>"

definition list_invitations :: "call \<Rightarrow> nat \<Rightarrow> accounts \<Rightarrow> invitation_row list" where
  "list_invitations c n A =
     map invitation_view (take n (newest_first iv_created (any_order (ca_pick c) (ac_invitations A))))"

text \<open>The events are kept in the order of their numbers.\<close>

record audit_row =
  aw_actor_type :: string
  aw_actor :: "uuid option"
  aw_action :: string
  aw_target :: "uuid option"
  aw_reason :: string
  aw_ip_hash :: string
  aw_created :: time

definition audit_view :: "audit_event \<Rightarrow> audit_row" where
  "audit_view e =
     \<lparr>aw_actor_type = ae_actor_type e, aw_actor = ae_actor e, aw_action = ae_action e,
      aw_target = ae_target e, aw_reason = ae_reason e, aw_ip_hash = ae_ip_hash e,
      aw_created = ae_created e\<rparr>"

definition list_audit_events :: "nat \<Rightarrow> accounts \<Rightarrow> audit_row list" where
  "list_audit_events n A = map audit_view (take n (rev (ac_audit A)))"

definition list_audit_events_for_target :: "uuid \<Rightarrow> bool \<Rightarrow> nat \<Rightarrow> accounts \<Rightarrow> audit_row list" where
  "list_audit_events_for_target i actor_admin n A =
     map audit_view (take n (filter
       (\<lambda>e. ae_target e = Some i \<and> ae_actor_type e = (if actor_admin then ''admin'' else ''user''))
       (rev (ac_audit A))))"

section \<open>The overview (users.go)\<close>

record table_counts =
  tc_sessions :: nat
  tc_entries :: nat
  tc_reviews :: nat
  tc_terms :: nat
  tc_cards :: nat
  tc_tasks :: nat
  tc_corrections :: nat
  tc_schedules :: nat
  tc_exceptions :: nat
  tc_materials :: nat
  tc_pages :: nat
  tc_threads :: nat
  tc_messages :: nat
  tc_exams :: nat
  tc_topics :: nat
  tc_plans :: nat
  tc_plan_items :: nat
  tc_activities :: nat
  tc_conversations :: nat
  tc_turns :: nat
  tc_cases :: nat
  tc_case_items :: nat

definition live_total :: "'a row_scheme tab \<Rightarrow> db \<Rightarrow> nat" where
  "live_total T d = length (filter (\<lambda>r. \<not> is_deleted r) (tb_get T d))"

definition count_tables :: "db \<Rightarrow> table_counts" where
  "count_tables d =
     \<lparr>tc_sessions = live_total sessions_tab d, tc_entries = live_total entries_tab d,
      tc_reviews = live_total reviews_tab d, tc_terms = live_total terms_tab d,
      tc_cards = live_total cards_tab d, tc_tasks = live_total tasks_tab d,
      tc_corrections = live_total corrections_tab d, tc_schedules = live_total schedules_tab d,
      tc_exceptions = live_total exceptions_tab d, tc_materials = live_total materials_tab d,
      tc_pages = live_total pages_tab d, tc_threads = live_total threads_tab d,
      tc_messages = live_total messages_tab d, tc_exams = live_total exams_tab d,
      tc_topics = live_total topics_tab d, tc_plans = live_total plans_tab d,
      tc_plan_items = live_total plan_items_tab d, tc_activities = live_total activities_tab d,
      tc_conversations = live_total conversations_tab d, tc_turns = live_total turns_tab d,
      tc_cases = live_total errand_cases_tab d, tc_case_items = live_total case_items_tab d\<rparr>"

text \<open>The counters of mail and requests in the struct are set nowhere.\<close>

record dashboard_stats =
  ds_users :: nat
  ds_active :: nat
  ds_pending :: nat
  ds_suspended :: nat
  ds_unverified :: nat
  ds_today :: nat
  ds_devices :: nat
  ds_live_sessions :: nat
  ds_tables :: table_counts
  ds_recent_sync :: "time option"
  ds_trend :: "(time \<times> nat) list"
  ds_mode :: string

definition count_if :: "('a \<Rightarrow> bool) \<Rightarrow> 'a list \<Rightarrow> nat" where
  "count_if P xs = length (filter P xs)"

definition live_refresh :: "call \<Rightarrow> refresh_token \<Rightarrow> bool" where
  "live_refresh c t \<longleftrightarrow> rt_revoked t = None \<and> ca_now c < rt_expires t"

text \<open>Registrations per day of the last seven days, the oldest first.\<close>

definition registration_trend :: "view_library \<Rightarrow> call \<Rightarrow> user list \<Rightarrow> (time \<times> nat) list" where
  "registration_trend L c us =
     (let today = vl_day L (ca_now c) in
      map (\<lambda>d. (vl_begin L d,
                count_if (\<lambda>u. us_deleted u = None \<and> vl_begin L (today - 6) \<le> us_created u \<and>
                               vl_begin L (vl_day L (us_created u)) = vl_begin L d) us))
        [today - 6..today])"

definition load_dashboard_stats :: "service \<Rightarrow> view_library \<Rightarrow> call \<Rightarrow> server \<Rightarrow> dashboard_stats" where
  "load_dashboard_stats S L c R =
     (let A = sr_accounts R; X = sr_sync R; us = filter (\<lambda>u. us_deleted u = None) (ac_users A) in
      \<lparr>ds_users = length us,
       ds_active = count_if (\<lambda>u. us_status u = ''active'') us,
       ds_pending = count_if (\<lambda>u. us_status u = ''pending'') us,
       ds_suspended = count_if (\<lambda>u. us_status u = ''suspended'') us,
       ds_unverified = count_if (\<lambda>u. us_verified u = None \<and> us_status u \<noteq> ''deleted'') us,
       ds_today = count_if (\<lambda>u. vl_begin L (vl_day L (ca_now c)) \<le> us_created u) us,
       ds_devices = length (ac_devices A),
       ds_live_sessions = count_if (live_refresh c) (ac_refresh A),
       ds_tables = count_tables (st_db X),
       ds_recent_sync = latest (map (\<lambda>ch. st_changed X (fst ch)) (db_changes (st_db X))),
       ds_trend = registration_trend L c (ac_users A),
       ds_mode = sv_mode S\<rparr>)"

section \<open>The list of users (users.go)\<close>

record user_query =
  uq_search :: string
  uq_status :: string
  uq_provider :: string
  uq_sort :: string
  uq_page :: int

record user_summary =
  sm_id :: uuid
  sm_email :: "string option"
  sm_name :: string
  sm_status :: string
  sm_verified :: bool
  sm_provider :: string
  sm_created :: time
  sm_last_login :: "time option"
  sm_last_sync :: "time option"
  sm_deleted :: "time option"
  sm_sessions :: nat
  sm_entries :: nat

text \<open>
  The WHERE of \<open>listUserConditions\<close>: a search for an id compares texts, any other one takes the search
  as a pattern for the beginning of the address or a part of the name.
\<close>

definition search_matches :: "service \<Rightarrow> view_library \<Rightarrow> string \<Rightarrow> user \<Rightarrow> bool" where
  "search_matches S L s u \<longleftrightarrow>
     (if sv_uuid_parse S s \<noteq> None then sv_uuid_text S (us_id u) = s
      else
        (case us_norm u of
           None \<Rightarrow> False
         | Some e \<Rightarrow> like (utf8_chars (s @ ''%'')) (utf8_chars e)) \<or>
        like (utf8_chars (vl_fold L (''%'' @ s @ ''%''))) (utf8_chars (vl_fold L (us_name u))))"

definition provider_matches :: "string \<Rightarrow> user \<Rightarrow> bool" where
  "provider_matches p u \<longleftrightarrow>
     (if p = ''email'' then us_norm u \<noteq> None
      else if p = ''apple'' then us_apple u \<noteq> None
      else if p = ''dev'' then us_dev u \<noteq> None
      else True)"

definition user_matches :: "service \<Rightarrow> view_library \<Rightarrow> user_query \<Rightarrow> user \<Rightarrow> bool" where
  "user_matches S L q u \<longleftrightarrow>
     (let s = trim_space (uq_search q) in s = [] \<or> search_matches S L s u) \<and>
     (uq_status q = [] \<or> us_status u = uq_status q) \<and>
     provider_matches (uq_provider q) u"

definition provider_of :: "user \<Rightarrow> string" where
  "provider_of u =
     (if us_norm u \<noteq> None then ''email''
      else if us_apple u \<noteq> None then ''apple''
      else if us_dev u \<noteq> None then ''dev''
      else ''unknown'')"

definition summarise :: "call \<Rightarrow> server \<Rightarrow> user \<Rightarrow> user_summary" where
  "summarise c R u =
     (let X = sr_sync R; A = sr_accounts R; i = us_id u in
      \<lparr>sm_id = i, sm_email = us_email u, sm_name = us_name u, sm_status = us_status u,
       sm_verified = (us_verified u \<noteq> None), sm_provider = provider_of u,
       sm_created = us_created u, sm_last_login = us_last_login u,
       sm_last_sync = latest (map (\<lambda>ch. st_changed X (fst ch))
          (filter (\<lambda>ch. ch_user (snd ch) = i) (db_changes (st_db X)))),
       sm_deleted = us_deleted u,
       sm_sessions = count_if (\<lambda>t. rt_user t = i \<and> live_refresh c t) (ac_refresh A),
       sm_entries = live_count entries_tab i (st_db X)\<rparr>)"

definition order_users :: "string \<Rightarrow> user_summary list \<Rightarrow> user_summary list" where
  "order_users key us =
     (let us = newest_first sm_created us in
      if key = ''last_login'' then nulls_last sm_last_login us
      else if key = ''last_sync'' then nulls_last sm_last_sync us
      else us)"

definition search_ok :: "user_query \<Rightarrow> bool" where
  "search_ok q \<longleftrightarrow> pg_text (trim_space (uq_search q))"

definition list_users ::
  "service \<Rightarrow> view_library \<Rightarrow> call \<Rightarrow> user_query \<Rightarrow> nat \<Rightarrow> nat \<Rightarrow> server \<Rightarrow> db_error + user_summary list" where
  "list_users S L c q n offset R =
     (if search_ok q then
        Inr (take n (drop offset (order_users (uq_sort q)
          (map (summarise c R) (filter (user_matches S L q) (any_order (ca_pick c) (ac_users (sr_accounts R))))))))
      else Inl ColumnDomain)"

definition count_users :: "service \<Rightarrow> view_library \<Rightarrow> user_query \<Rightarrow> server \<Rightarrow> db_error + nat" where
  "count_users S L q R =
     (if search_ok q then Inr (count_if (user_matches S L q) (ac_users (sr_accounts R))) else Inl ColumnDomain)"

text \<open>\<open>Service.ListUsers\<close>: 25 users to a page.\<close>

definition user_page :: "service \<Rightarrow> view_library \<Rightarrow> call \<Rightarrow> user_query \<Rightarrow> server \<Rightarrow> db_error + user_summary list \<times> nat" where
  "user_page S L c q R =
     (let n = (if uq_page q < 1 then 1 else uq_page q) in
      bindE (count_users S L q R) (\<lambda>total.
      bindE (list_users S L c q 25 (nat ((n - 1) * 25)) R) (\<lambda>us. Inr (us, total))))"

section \<open>The detail of a user (users.go)\<close>

record device_summary =
  dm_id :: uuid
  dm_name :: string
  dm_version :: string
  dm_seen :: time
  dm_revoked :: "time option"

record user_detail = user_summary +
  ud_devices :: "device_summary list"
  ud_providers :: "string list"
  ud_password :: bool
  ud_apple :: bool
  ud_classes :: nat
  ud_bytes :: nat
  ud_security :: "audit_row list"
  ud_actions :: "audit_row list"

text \<open>The last at sign of an address; its first two bytes stay.\<close>

definition last_sign :: "string \<Rightarrow> nat option" where
  "last_sign s =
     (if CHR ''@'' \<in> set s then Some (length s - Suc (length (takeWhile (\<lambda>c. c \<noteq> CHR ''@'') (rev s)))) else None)"

datatype masked = No_Address | Masked string

definition masked_email :: "string option \<Rightarrow> masked" where
  "masked_email email =
     (case email of
        None \<Rightarrow> No_Address
      | Some e \<Rightarrow>
          if e = [] then No_Address
          else
            (case last_sign e of
               None \<Rightarrow> Masked ''***''
             | Some k \<Rightarrow>
                 if k = 0 then Masked ''***''
                 else Masked (take (min 2 k) e @ ''***'' @ drop k e)))"

definition data_size :: "uuid \<Rightarrow> db \<Rightarrow> nat" where
  "data_size i d =
     sum_list (map (\<lambda>e. utf8_length (e_russian e) + (case e_chinese e of None \<Rightarrow> 0 | Some z \<Rightarrow> utf8_length z))
       (filter (\<lambda>e. ruser e = i \<and> \<not> is_deleted e) (entries d))) +
     sum_list (map (\<lambda>s. utf8_length (s_title s) + 512)
       (filter (\<lambda>s. ruser s = i \<and> \<not> is_deleted s) (sessions d)))"

definition device_view :: "device \<Rightarrow> device_summary" where
  "device_view v = \<lparr>dm_id = dv_id v, dm_name = dv_name v, dm_version = dv_version v,
     dm_seen = dv_seen v, dm_revoked = dv_revoked v\<rparr>"

definition get_user_detail :: "call \<Rightarrow> uuid \<Rightarrow> server \<Rightarrow> user_detail option" where
  "get_user_detail c i R =
     (let A = sr_accounts R in
      map_option (\<lambda>u.
        user_summary.extend (summarise c R u)
          \<lparr>ud_devices = map device_view (newest_first dv_seen
             (any_order (ca_pick c) (filter (\<lambda>v. dv_user v = i) (ac_devices A)))),
           ud_providers =
             (if has_password_credential i A then [''password''] else []) @
             (if us_apple u \<noteq> None then [''apple''] else []) @
             (if us_dev u \<noteq> None then [''dev''] else []),
           ud_password = has_password_credential i A,
           ud_apple = (us_apple u \<noteq> None),
           ud_classes = live_count sessions_tab i (st_db (sr_sync R)),
           ud_bytes = data_size i (st_db (sr_sync R)),
           ud_security = [], ud_actions = []\<rparr>)
        (get_user_by_id i A))"

text \<open>\<open>Service.UserDetail\<close>\<close>

definition user_detail_of :: "call \<Rightarrow> uuid \<Rightarrow> server \<Rightarrow> user_detail option" where
  "user_detail_of c i R =
     map_option (\<lambda>d. d\<lparr>ud_security := list_audit_events_for_target i False 20 (sr_accounts R),
                       ud_actions := list_audit_events_for_target i True 20 (sr_accounts R)\<rparr>)
       (get_user_detail c i R)"

section \<open>Helpers of the templates (handler.go)\<close>

definition fmt_bytes :: "nat \<Rightarrow> string" where
  "fmt_bytes n =
     (if 1048576 \<le> n then decimal (n div 1048576) @ '' MB''
      else if 1024 \<le> n then decimal (n div 1024) @ '' KB''
      else decimal n @ '' B'')"

text \<open>The height of a bar of the trend.\<close>

definition trend_height :: "nat \<Rightarrow> nat \<Rightarrow> nat" where
  "trend_height n most =
     (if most = 0 then 0 else (let h = n * 40 div most in if h < 2 \<and> 0 < n then 2 else h))"

end
