(* ===== verification/Admin_Pages.thy ===== *)
theory Admin_Pages
  imports Admin_Views
begin

text \<open>
  The pages of the administration (internal/admin/handler.go): what each route reads of a request,
  which operation of the service it calls, and which page, redirect or cookie it answers. The text
  and the layout of the pages are not part of the model.
\<close>

section \<open>Requests\<close>

text \<open>
  The session cookie, the query and the form body as they were parsed (a body that fails leaves what
  was read of it), whether the form was well formed, the two ids of the path, the address of the peer,
  the agent, and whether the database answers the readings of a page.
\<close>

record admin_request =
  aq_cookie :: "string option"
  aq_query :: "(string \<times> string) list"
  aq_post :: "(string \<times> string) list"
  aq_form_ok :: bool
  aq_id :: string
  aq_device :: string
  aq_remote :: string
  aq_agent :: string
  aq_reads :: bool

definition first_value :: "(string \<times> string) list \<Rightarrow> string \<Rightarrow> string" where
  "first_value xs k = (case map_of xs k of None \<Rightarrow> [] | Some v \<Rightarrow> v)"

text \<open>\<open>PostFormValue\<close> looks at the body, \<open>FormValue\<close> at the body and then at the query.\<close>

definition post_value :: "admin_request \<Rightarrow> string \<Rightarrow> string" where
  "post_value q k = first_value (aq_post q) k"

definition form_value :: "admin_request \<Rightarrow> string \<Rightarrow> string" where
  "form_value q k = first_value (aq_post q @ aq_query q) k"

definition query_value :: "admin_request \<Rightarrow> string \<Rightarrow> string" where
  "query_value q k = first_value (aq_query q) k"

text \<open>\<open>strconv.Atoi\<close> with its error ignored: 0 for no number, the nearest one for a number out of range.\<close>

definition atoi_value :: "string \<Rightarrow> int" where
  "atoi_value s =
     (let ds = (if s \<noteq> [] \<and> (hd s = CHR ''-'' \<or> hd s = CHR ''+'') then tl s else s);
          n = (if s \<noteq> [] \<and> hd s = CHR ''-'' then - int (decimal_value ds) else int (decimal_value ds)) in
      if ds = [] \<or> \<not> list_all is_digit ds then 0
      else max (- 9223372036854775808) (min 9223372036854775807 n))"

section \<open>Answers\<close>

datatype page_error =
    Form_Invalid
  | Login_Refused
  | Csrf_Failed
  | Database_Failed
  | Confirm_Delete
  | Confirm_Deletion
  | Not_Applicable
  | No_Mail
  | Cooling_Down
  | Action_Failed
  | Device_Gone

datatype page_body =
    Login_Page "page_error option"
  | Error_Page page_error
  | Dashboard_Page dashboard_stats "audit_row list" "(string \<times> int) list"
  | Users_Page "user_summary list" nat int nat "nat list" user_query
  | Detail_Page user_detail
  | Invitations_Page "invitation_row list"
  | Audit_Page "audit_row list"

text \<open>A cookie is left, set with its value, its Secure mark and its age in seconds, or cleared.\<close>

datatype cookie =
    No_Cookie
  | Set_Cookie string bool int
  | Clear_Cookie

text \<open>A page carries its status and the CSRF token of its forms if somebody is signed in.\<close>

datatype admin_answer =
    Page int "string option" page_body
  | See_Other string cookie
  | Missing

definition render500 :: "admin_session option \<Rightarrow> admin_answer" where
  "render500 s = Page 500 (map_option as_csrf s) (Error_Page Database_Failed)"

definition to_login :: admin_answer where
  "to_login = See_Other ''/login'' No_Cookie"

definition csrf_refused :: "admin_session \<Rightarrow> admin_answer" where
  "csrf_refused s = Page 403 (Some (as_csrf s)) (Error_Page Csrf_Failed)"

section \<open>Sessions\<close>

definition request_session :: "service \<Rightarrow> call \<Rightarrow> admin_request \<Rightarrow> server \<Rightarrow> admin_session option" where
  "request_session S c q R = resolve_session S c (aq_cookie q) (sr_accounts R)"

definition require_session ::
  "service \<Rightarrow> call \<Rightarrow> admin_request \<Rightarrow> server \<Rightarrow> (admin_session \<Rightarrow> admin_answer) \<Rightarrow> admin_answer" where
  "require_session S c q R shown =
     (case request_session S c q R of None \<Rightarrow> to_login | Some s \<Rightarrow> shown s)"

text \<open>What every changing route but the sign-in begins with: a session, and its CSRF token in the form.\<close>

definition guarded ::
  "service \<Rightarrow> call \<Rightarrow> admin_request \<Rightarrow> (admin_session \<Rightarrow> server \<Rightarrow> server \<times> admin_answer) \<Rightarrow> server
     \<Rightarrow> server \<times> admin_answer" where
  "guarded S c q act R =
     (case request_session S c q R of
        None \<Rightarrow> (R, to_login)
      | Some s \<Rightarrow>
          if \<not> valid_csrf (Some s) (form_value q ''csrf_token'') then (R, csrf_refused s) else act s R)"

definition in_accounts :: "(accounts \<Rightarrow> accounts \<times> 'a) \<Rightarrow> server \<Rightarrow> server \<times> 'a" where
  "in_accounts f R = (case f (sr_accounts R) of (A, x) \<Rightarrow> (R\<lparr>sr_accounts := A\<rparr>, x))"

definition login_page :: "service \<Rightarrow> call \<Rightarrow> admin_request \<Rightarrow> server \<Rightarrow> admin_answer" where
  "login_page S c q R =
     (case request_session S c q R of
        Some _ \<Rightarrow> See_Other ''/'' No_Cookie
      | None \<Rightarrow> Page 200 None (Login_Page None))"

text \<open>\<open>Duration.Seconds\<close>, cut towards zero.\<close>

definition whole_seconds :: "time \<Rightarrow> int" where
  "whole_seconds t = (if 0 \<le> t then t div 1000000 else - (- t div 1000000))"

definition login_submit :: "service \<Rightarrow> call \<Rightarrow> admin_request \<Rightarrow> server \<Rightarrow> server \<times> admin_answer" where
  "login_submit S c q R =
     (if \<not> aq_form_ok q then (R, Page 400 None (Login_Page (Some Form_Invalid)))
      else
        (case in_accounts (admin_login S c (post_value q ''username'') (post_value q ''totp_code'')
                (post_value q ''password'') (hash_pii S (aq_remote q)) (aq_agent q)) R of
           (R, Inl _) \<Rightarrow> (R, Page 401 None (Login_Page (Some Login_Refused)))
         | (R, Inr (token, _)) \<Rightarrow>
             (R, See_Other ''/'' (Set_Cookie token (\<not> sv_dev_mode S) (whole_seconds (sv_session_ttl S))))))"

definition logout_submit :: "service \<Rightarrow> call \<Rightarrow> admin_request \<Rightarrow> server \<Rightarrow> server \<times> admin_answer" where
  "logout_submit S c q R =
     (case request_session S c q R of
        None \<Rightarrow> (R, See_Other ''/login'' Clear_Cookie)
      | Some s \<Rightarrow>
          if \<not> valid_csrf (Some s) (form_value q ''csrf_token'') then (R, csrf_refused s)
          else (fst (in_accounts (admin_logout S c (aq_cookie q)) R), See_Other ''/login'' Clear_Cookie))"

section \<open>Reading pages\<close>

definition dashboard ::
  "service \<Rightarrow> view_library \<Rightarrow> call \<Rightarrow> counters \<Rightarrow> admin_request \<Rightarrow> server \<Rightarrow> admin_answer" where
  "dashboard S L c C q R =
     require_session S c q R (\<lambda>s.
       if \<not> aq_reads q then render500 (Some s)
       else Page 200 (Some (as_csrf s))
              (Dashboard_Page (load_dashboard_stats S L c R) (list_audit_events 200 (sr_accounts R))
                (counter_snapshot C)))"

definition user_query_from_request :: "admin_request \<Rightarrow> user_query" where
  "user_query_from_request q =
     (let n = atoi_value (query_value q ''page''); key = query_value q ''sort'';
          status = query_value q ''status''; provider = query_value q ''provider'' in
      \<lparr>uq_search = take 256 (trim_space (query_value q ''q'')),
       uq_status = (if status \<in> {''active'', ''pending'', ''suspended'', ''pending_deletion'', ''deleted''}
                    then status else []),
       uq_provider = (if provider \<in> {''email'', ''apple'', ''dev''} then provider else []),
       uq_sort = (if key \<noteq> ''last_login'' \<and> key \<noteq> ''last_sync'' then ''created'' else key),
       uq_page = (if n < 1 then 1 else if 10000 < n then 10000 else n)\<rparr>)"

definition users_page ::
  "service \<Rightarrow> view_library \<Rightarrow> call \<Rightarrow> admin_request \<Rightarrow> server \<Rightarrow> admin_answer" where
  "users_page S L c q R =
     require_session S c q R (\<lambda>s.
       let query = user_query_from_request q in
       if \<not> aq_reads q then render500 (Some s)
       else
         (case user_page S L c query R of
            Inl _ \<Rightarrow> render500 (Some s)
          | Inr (us, n_all) \<Rightarrow>
              (let n = (n_all + 24) div 25 in
               Page 200 (Some (as_csrf s)) (Users_Page us n_all (uq_page query) n [1..<Suc n] query))))"

definition user_detail_page :: "service \<Rightarrow> call \<Rightarrow> admin_request \<Rightarrow> server \<Rightarrow> admin_answer" where
  "user_detail_page S c q R =
     require_session S c q R (\<lambda>s.
       case sv_uuid_parse S (aq_id q) of
         None \<Rightarrow> Missing
       | Some i \<Rightarrow>
           if \<not> aq_reads q then render500 (Some s)
           else
             (case user_detail_of c i R of
                None \<Rightarrow> Missing
              | Some d \<Rightarrow> Page 200 (Some (as_csrf s)) (Detail_Page d)))"

definition invitations_page :: "service \<Rightarrow> call \<Rightarrow> admin_request \<Rightarrow> server \<Rightarrow> admin_answer" where
  "invitations_page S c q R =
     require_session S c q R (\<lambda>s.
       if \<not> aq_reads q then render500 (Some s)
       else Page 200 (Some (as_csrf s)) (Invitations_Page (list_invitations c 100 (sr_accounts R))))"

definition audit_page :: "service \<Rightarrow> call \<Rightarrow> admin_request \<Rightarrow> server \<Rightarrow> admin_answer" where
  "audit_page S c q R =
     require_session S c q R (\<lambda>s.
       if \<not> aq_reads q then render500 (Some s)
       else Page 200 (Some (as_csrf s)) (Audit_Page (list_audit_events 200 (sr_accounts R))))"

section \<open>Actions on a user\<close>

datatype user_act =
    Act_Suspend
  | Act_Reactivate
  | Act_Force_Logout
  | Act_Delete
  | Act_Resend_Verification
  | Act_Send_Password_Reset
  | Act_Request_Deletion
  | Act_Cancel_Deletion

text \<open>The word to type for a deletion request: two Chinese characters.\<close>

definition deletion_word :: string where
  "deletion_word = [CHR 0xE5, CHR 0x88, CHR 0xA0, CHR 0xE9, CHR 0x99, CHR 0xA4]"

datatype action_error =
    Needs_Confirm
  | Needs_Deletion_Confirm
  | Service_Error auth_error

definition as_action :: "server \<times> (auth_error + unit) \<Rightarrow> server \<times> action_error option" where
  "as_action x = (case x of (R, Inl e) \<Rightarrow> (R, Some (Service_Error e)) | (R, Inr _) \<Rightarrow> (R, None))"

fun run_action ::
  "service \<Rightarrow> call \<Rightarrow> admin_request \<Rightarrow> uuid \<Rightarrow> uuid \<Rightarrow> user_act \<Rightarrow> server \<Rightarrow> server \<times> action_error option" where
  "run_action S c q admin i Act_Suspend R =
     as_action (in_accounts (suspend_user S c admin i (post_value q ''reason'')) R)"
| "run_action S c q admin i Act_Reactivate R =
     as_action (in_accounts (reactivate_user S c admin i (post_value q ''reason'')) R)"
| "run_action S c q admin i Act_Force_Logout R =
     as_action (in_accounts (force_logout S c admin i (post_value q ''reason'')) R)"
| "run_action S c q admin i Act_Delete R =
     (if post_value q ''confirm'' \<noteq> ''DELETE'' then (R, Some Needs_Confirm)
      else as_action (admin_delete_user S c admin i (post_value q ''reason'') R))"
| "run_action S c q admin i Act_Resend_Verification R =
     as_action (in_accounts (resend_verification S c admin i) R)"
| "run_action S c q admin i Act_Send_Password_Reset R =
     as_action (in_accounts (send_password_reset S c admin i) R)"
| "run_action S c q admin i Act_Request_Deletion R =
     (if post_value q ''confirm'' \<noteq> deletion_word then (R, Some Needs_Deletion_Confirm)
      else
        (let reason = post_value q ''reason'';
             reason = (if reason = [] then ''deletion requested by admin'' else reason) in
         as_action (in_accounts (start_account_deletion S c admin i reason []) R)))"
| "run_action S c q admin i Act_Cancel_Deletion R =
     as_action (in_accounts (cancel_account_deletion S c admin i (post_value q ''reason'') []) R)"

definition action_page :: "admin_session \<Rightarrow> action_error \<Rightarrow> admin_answer" where
  "action_page s e =
     (let (status, text) =
        (case e of
           Needs_Confirm \<Rightarrow> (400, Confirm_Delete)
         | Needs_Deletion_Confirm \<Rightarrow> (400, Confirm_Deletion)
         | Service_Error e \<Rightarrow>
             (case e of
                NotFound \<Rightarrow> (400, Not_Applicable)
              | NoMailTransport \<Rightarrow> (503, No_Mail)
              | MailCooldown \<Rightarrow> (429, Cooling_Down)
              | _ \<Rightarrow> (500, Action_Failed))) in
      Page status (Some (as_csrf s)) (Error_Page text))"

definition user_url :: "service \<Rightarrow> uuid \<Rightarrow> string" where
  "user_url S i = ''/users/'' @ sv_uuid_text S i"

definition user_action ::
  "service \<Rightarrow> call \<Rightarrow> user_act \<Rightarrow> admin_request \<Rightarrow> server \<Rightarrow> server \<times> admin_answer" where
  "user_action S c act q R =
     guarded S c q (\<lambda>s R.
       case sv_uuid_parse S (aq_id q) of
         None \<Rightarrow> (R, Missing)
       | Some i \<Rightarrow>
           (case run_action S c q (as_admin s) i act R of
              (R, Some e) \<Rightarrow> (R, action_page s e)
            | (R, None) \<Rightarrow> (R, See_Other (user_url S i) No_Cookie))) R"

definition user_device_action :: "service \<Rightarrow> call \<Rightarrow> admin_request \<Rightarrow> server \<Rightarrow> server \<times> admin_answer" where
  "user_device_action S c q R =
     guarded S c q (\<lambda>s R.
       case sv_uuid_parse S (aq_id q) of
         None \<Rightarrow> (R, Missing)
       | Some i \<Rightarrow>
           (case sv_uuid_parse S (aq_device q) of
              None \<Rightarrow> (R, Missing)
            | Some dev \<Rightarrow>
                (case in_accounts (admin_revoke_device S c (as_admin s) i dev (post_value q ''reason'')) R of
                   (R, Inl e) \<Rightarrow>
                     (R, if e = NotFound then Page 400 (Some (as_csrf s)) (Error_Page Device_Gone)
                         else Page 500 (Some (as_csrf s)) (Error_Page Action_Failed))
                 | (R, Inr _) \<Rightarrow> (R, See_Other (user_url S i) No_Cookie)))) R"

section \<open>Invitations\<close>

definition invitation_create :: "service \<Rightarrow> call \<Rightarrow> admin_request \<Rightarrow> server \<Rightarrow> server \<times> admin_answer" where
  "invitation_create S c q R =
     guarded S c q (\<lambda>s R.
       let n = atoi_value (post_value q ''max_uses''); uses = (if n < 1 \<or> 100 < n then 1 else n) in
       case in_accounts (admin_create_invitation S c (as_admin s) (post_value q ''note'') uses (days 14)) R of
         (R, Inl _) \<Rightarrow> (R, render500 (Some s))
       | (R, Inr code) \<Rightarrow> (R, See_Other (''/invitations?created='' @ code) No_Cookie)) R"

definition invitation_revoke :: "service \<Rightarrow> call \<Rightarrow> admin_request \<Rightarrow> server \<Rightarrow> server \<times> admin_answer" where
  "invitation_revoke S c q R =
     guarded S c q (\<lambda>s R.
       (fst (in_accounts (admin_revoke_invitation S c (as_admin s) (post_value q ''code'')) R),
        See_Other ''/invitations'' No_Cookie)) R"

section \<open>All routes\<close>

text \<open>The routes that \<open>Register\<close> mounts; reading routes leave the server as it is.\<close>

datatype admin_route =
    Get_Login
  | Post_Login
  | Post_Logout
  | Get_Dashboard
  | Get_Users
  | Get_User
  | Post_Action user_act
  | Post_Revoke_Device
  | Get_Invitations
  | Post_Invitation
  | Post_Revoke_Invitation
  | Get_Audit

fun admin_pages ::
  "service \<Rightarrow> view_library \<Rightarrow> call \<Rightarrow> counters \<Rightarrow> admin_route \<Rightarrow> admin_request \<Rightarrow> server
     \<Rightarrow> server \<times> admin_answer" where
  "admin_pages S L c C Get_Login q R = (R, login_page S c q R)"
| "admin_pages S L c C Post_Login q R = login_submit S c q R"
| "admin_pages S L c C Post_Logout q R = logout_submit S c q R"
| "admin_pages S L c C Get_Dashboard q R = (R, dashboard S L c C q R)"
| "admin_pages S L c C Get_Users q R = (R, users_page S L c q R)"
| "admin_pages S L c C Get_User q R = (R, user_detail_page S c q R)"
| "admin_pages S L c C (Post_Action act) q R = user_action S c act q R"
| "admin_pages S L c C Post_Revoke_Device q R = user_device_action S c q R"
| "admin_pages S L c C Get_Invitations q R = (R, invitations_page S c q R)"
| "admin_pages S L c C Post_Invitation q R = invitation_create S c q R"
| "admin_pages S L c C Post_Revoke_Invitation q R = invitation_revoke S c q R"
| "admin_pages S L c C Get_Audit q R = (R, audit_page S c q R)"

end
