(* ===== verification/Admin_Page_Properties.thy ===== *)
theory Admin_Page_Properties
  imports Admin_Pages Account_Examples "HOL-Library.Multiset"
begin

text \<open>
  What the pages of the administration promise: nothing changes without a session and its CSRF token,
  and the audit log names the administrator; what the lists show; and where masking, searching and the
  report of an action fall short.
\<close>

section \<open>What leaves the audit log alone\<close>

text \<open>Statements on the other tables.\<close>

definition same_audit :: "accounts \<Rightarrow> accounts \<Rightarrow> bool" where
  "same_audit A A' \<longleftrightarrow> ac_audit A' = ac_audit A"

locale unaudited_table = account_table T for T :: "'a atab" +
  assumes put_audit: "ac_audit (at_put T t A) = ac_audit A"
begin

lemma quiet_insert: "a_insert T r A = Inr A' \<Longrightarrow> ac_audit A' = ac_audit A"
  by (auto simp: a_insert_def put_audit split: if_splits)

lemma quiet_update: "a_update T P f A = Inr A' \<Longrightarrow> ac_audit A' = ac_audit A"
  by (auto simp: a_update_def put_audit split: if_splits)

lemma quiet_set: "ac_audit (a_set T P f A) = ac_audit A"
  by (simp add: a_set_def put_audit)

end

interpretation users: unaudited_table users_tab by unfold_locales (simp_all add: users_tab_def)

interpretation refresh: unaudited_table refresh_tab by unfold_locales (simp_all add: refresh_tab_def)

interpretation challenges: unaudited_table challenges_tab by unfold_locales (simp_all add: challenges_tab_def)

interpretation resets: unaudited_table resets_tab by unfold_locales (simp_all add: resets_tab_def)

interpretation devices: unaudited_table devices_tab by unfold_locales (simp_all add: devices_tab_def)

interpretation invitations: unaudited_table invitations_tab by unfold_locales (simp_all add: invitations_tab_def)

interpretation admin_sessions: unaudited_table admin_sessions_tab
  by unfold_locales (simp_all add: admin_sessions_tab_def)

lemmas quiet_sets [simp] = refresh.quiet_set challenges.quiet_set resets.quiet_set devices.quiet_set
  invitations.quiet_set admin_sessions.quiet_set

lemma quiet_simps [simp]:
  "ac_audit (send_mail m A) = ac_audit A"
  "ac_audit (notify n e A) = ac_audit A"
  "ac_audit (revoke_all_user_refresh_tokens c i A) = ac_audit A"
  "ac_audit (revoke_admin_session c k A) = ac_audit A"
  "ac_audit (revoke_invitation c code A) = ac_audit A"
  "ac_audit (invalidate_password_reset_token c k A) = ac_audit A"
  by (auto simp: send_mail_def notify_def revoke_all_user_refresh_tokens_def revoke_admin_session_def
      revoke_invitation_def invalidate_password_reset_token_def split: option.splits list.splits)

lemma quiet_deliver_code [simp]: "ac_audit (deliver_code c m k A) = ac_audit A"
  by (auto simp: deliver_code_def Let_def consume_challenge_def split: option.splits if_splits)

lemma quiet_deliver [simp]:
  "ac_audit (deliver_if c e k A) = ac_audit A"
  "ac_audit (deliver_reset S c e A) = ac_audit A"
  by (auto simp: deliver_if_def deliver_reset_def Let_def split: option.splits)

lemma quiet_create_challenge: "create_challenge S c i p t A = Inr (A', x) \<Longrightarrow> ac_audit A' = ac_audit A"
  by (auto simp: create_challenge_def create_email_challenge_def references_user_def bindE_eq_Inr Let_def
      invalidate_pending_challenges_def dest!: challenges.quiet_insert split: if_splits)

lemma quiet_create_reset: "create_password_reset_token t A = Inr A' \<Longrightarrow> ac_audit A' = ac_audit A"
  by (auto simp: create_password_reset_token_def references_user_def bindE_eq_Inr
      dest!: resets.quiet_insert split: if_splits)

lemma quiet_revoke_device: "revoke_user_device c i dev A = Some A' \<Longrightarrow> ac_audit A' = ac_audit A"
  by (auto simp: revoke_user_device_def revoke_device_tokens_def Let_def split: if_splits)

lemma quiet_status: "update_user_status c i st A = Inr A' \<Longrightarrow> ac_audit A' = ac_audit A"
  by (auto simp: update_user_status_def dest: users.quiet_update)

lemma quiet_soft_delete: "soft_delete_user c i A = Inr A' \<Longrightarrow> ac_audit A' = ac_audit A"
  by (auto simp: soft_delete_user_def dest: users.quiet_update)

section \<open>Operations on the record of an administrator\<close>

definition by_admin :: "uuid \<Rightarrow> audit_event \<Rightarrow> bool" where
  "by_admin admin e \<longleftrightarrow> ae_actor_type e = ''admin'' \<and> ae_actor e = Some admin"

definition on_record :: "uuid \<Rightarrow> accounts \<Rightarrow> accounts \<Rightarrow> bool" where
  "on_record admin A A' \<longleftrightarrow> (\<exists>es. ac_audit A' = ac_audit A @ es \<and> list_all (by_admin admin) es)"

lemma on_record_same: "ac_audit A' = ac_audit A \<Longrightarrow> on_record admin A A'"
  by (simp add: on_record_def)

lemma on_record_refl [simp]: "on_record admin A A"
  by (simp add: on_record_def)

lemma on_record_from: "ac_audit B = ac_audit A \<Longrightarrow> on_record admin B A' \<Longrightarrow> on_record admin A A'"
  by (simp add: on_record_def)

lemma audit_admin_record:
  assumes "audit_admin S c admin action t r ip x y A = Inr A'"
  shows "on_record admin A A'"
proof -
  let ?e = "\<lparr>ae_actor_type = ''admin'', ae_actor = Some admin, ae_action = action, ae_target = t,
    ae_reason = r, ae_ip_hash = ip, ae_before = x, ae_after = y, ae_created = ca_wall c\<rparr>"
  have "a_insert audit_tab ?e A = Inr A'" using assms by (simp add: audit_admin_def record_audit_def)
  then have "ac_audit A' = ac_audit A @ [?e]"
    by (drule_tac audit.a_insert_Inr) (simp add: audit_tab_def)
  then show ?thesis by (simp add: on_record_def by_admin_def)
qed

lemma audit_step_record: "on_record admin A (fst (audit_step S c admin action t r A))"
  by (auto simp: audit_step_def tx_def bindE_def split: sum.splits dest: audit_admin_record)

text \<open>A transaction, and an operation followed by its record.\<close>

lemma tx_record:
  assumes "\<And>A' x. body A = Inr (A', x) \<Longrightarrow> on_record admin A A'"
  shows "on_record admin A (fst (tx body A))"
  using assms by (auto simp: fst_tx split: sum.splits prod.splits)

lemma suspend_record: "on_record admin A (fst (suspend_user S c admin i reason A))"
  unfolding suspend_user_def
  by (rule tx_record) (auto simp: bindE_eq_Inr on_record_def dest!: quiet_status audit_admin_record)

lemma reactivate_record: "on_record admin A (fst (reactivate_user S c admin i reason A))"
  unfolding reactivate_user_def
  by (rule tx_record)
    (auto simp: bindE_eq_Inr on_record_def dest!: quiet_status audit_admin_record split: if_splits)

lemma force_logout_record: "on_record admin A (fst (force_logout S c admin i reason A))"
  unfolding force_logout_def
  by (rule tx_record) (auto simp: bindE_eq_Inr on_record_def dest!: audit_admin_record)

lemma start_deletion_record:
  "on_record admin A (fst (start_account_deletion S c admin i reason ip A))"
proof (cases "get_user_by_id i A")
  case (Some u)
  then show ?thesis
    by (cases "us_deleted u")
      (auto simp: start_account_deletion_def found_def tx_def bindE_def sql_def on_record_def
        split: sum.splits dest!: users.quiet_update audit_admin_record)
qed (simp add: start_account_deletion_def found_def tx_def)

lemma cancel_deletion_record:
  "on_record admin A (fst (cancel_account_deletion S c admin i reason ip A))"
  unfolding cancel_account_deletion_def
  by (rule tx_record)
    (auto simp: bindE_eq_Inr on_record_def dest!: users.quiet_update audit_admin_record split: if_splits)

lemma revoke_device_record: "on_record admin A (fst (admin_revoke_device S c admin i dev reason A))"
  by (auto simp: admin_revoke_device_def split: option.splits
      intro: on_record_from [OF quiet_revoke_device audit_step_record])

lemma issue_verification_quiet: "ac_audit (fst (issue_verification_for_user S c i A)) = ac_audit A"
  by (auto simp: issue_verification_for_user_def tx_def bindE_eq_Inr
      split: sum.splits prod.splits if_splits dest!: quiet_create_challenge)

lemma issue_reset_quiet: "ac_audit (fst (issue_password_reset_for_user S c i A)) = ac_audit A"
  by (auto simp: issue_password_reset_for_user_def tx_def bindE_eq_Inr
      split: sum.splits prod.splits if_splits dest!: quiet_create_reset)

lemma then_audited:
  assumes "ac_audit (fst x) = ac_audit A"
  shows "on_record admin A (fst (case x of (A, Inl e) \<Rightarrow> (A, Inl e)
    | (A, Inr _) \<Rightarrow> audit_step S c admin action t r A))"
  using assms by (cases x; cases "snd x") (auto intro: on_record_same on_record_from [OF _ audit_step_record])

lemma resend_record: "on_record admin A (fst (resend_verification S c admin i A))"
  unfolding resend_verification_def
  by (auto split: option.splits simp: then_audited [OF issue_verification_quiet])

lemma send_reset_record: "on_record admin A (fst (send_password_reset S c admin i A))"
  unfolding send_password_reset_def
  by (auto split: option.splits simp: then_audited [OF issue_reset_quiet])

lemma create_invitation_record: "on_record admin A (fst (admin_create_invitation S c admin note n ttl A))"
  by (auto simp: admin_create_invitation_def create_invitation_def split: sum.splits
      intro: on_record_from [OF invitations.quiet_insert audit_step_record])

lemma revoke_invitation_record: "on_record admin A (fst (admin_revoke_invitation S c admin code A))"
  unfolding admin_revoke_invitation_def by (rule on_record_from [OF _ audit_step_record]) simp

lemma logout_record:
  assumes "resolve_session S c v A = Some s"
  shows "on_record (as_admin s) A (fst (admin_logout S c v A))"
  unfolding admin_logout_def assms option.case by (rule on_record_from [OF _ audit_step_record]) simp

section \<open>Changes are authorised\<close>

text \<open>
  A live session of the table, named by the cookie, whose CSRF token is in the form.
\<close>

definition authorised :: "service \<Rightarrow> call \<Rightarrow> admin_request \<Rightarrow> admin_session \<Rightarrow> accounts \<Rightarrow> bool" where
  "authorised S c q s A \<longleftrightarrow>
     (\<exists>v. aq_cookie q = Some v \<and> v \<noteq> [] \<and> as_hash s = token_hash S v) \<and>
     s \<in> set (ac_admin_sessions A) \<and> as_revoked s = None \<and> ca_now c < as_expires s \<and>
     form_value q ''csrf_token'' = as_csrf s"

lemma session_authorised:
  assumes "request_session S c q R = Some s" and "valid_csrf (Some s) (form_value q ''csrf_token'')"
  shows "authorised S c q s (sr_accounts R)"
  using assms
  by (auto simp: authorised_def request_session_def resolve_session_def valid_csrf_def
      get_live_admin_session_def find_Some_iff split: option.splits if_splits)

text \<open>What an action may do: add records of its administrator, and leave the synchronised data alone.\<close>

definition kept_on_record :: "uuid \<Rightarrow> bool \<Rightarrow> server \<Rightarrow> server \<Rightarrow> bool" where
  "kept_on_record admin purges R R' \<longleftrightarrow>
     on_record admin (sr_accounts R) (sr_accounts R') \<and> (purges \<or> sr_sync R' = sr_sync R)"

lemma on_record_kept_refl [simp]: "kept_on_record admin p R R"
  by (simp add: kept_on_record_def)

lemma in_accounts_kept:
  assumes "\<And>A. on_record admin A (fst (f A))"
  shows "kept_on_record admin p R (fst (in_accounts f R))"
  using assms [of "sr_accounts R"]
  by (auto simp: in_accounts_def kept_on_record_def split: prod.splits)

lemma fst_as_action [simp]: "fst (as_action x) = fst x"
  by (auto simp: as_action_def split: prod.splits sum.splits)

lemma delete_kept: "kept_on_record admin True R (fst (admin_delete_user S c admin i reason R))"
proof -
  have "on_record admin A A'"
    if "tx (\<lambda>A. bindE (found NotFound (get_user_by_id i A)) (\<lambda>u.
             bindE (sql (soft_delete_user c i (revoke_all_user_refresh_tokens c i A))) (\<lambda>A.
             bindE (audit_admin S c admin action t reason [] [(''status'', us_status u)] y A) (\<lambda>A. Inr (A, ())))))
           A = (A', x)" for A A' x action t y
    using that
    by (cases x) (auto simp: tx_eq bindE_eq_Inr on_record_def dest!: quiet_soft_delete audit_admin_record)
  then show ?thesis
    by (auto simp: admin_delete_user_def delete_user_rows_def kept_on_record_def
        split: prod.splits sum.splits)
qed

lemma run_action_kept:
  "kept_on_record admin (act = Act_Delete \<and> post_value q ''confirm'' = ''DELETE'') R
     (fst (run_action S c q admin i act R))"
proof (cases act)
  case Act_Delete
  then show ?thesis using delete_kept by simp
qed (simp_all add: Let_def in_accounts_kept suspend_record reactivate_record force_logout_record
    resend_record send_reset_record start_deletion_record cancel_deletion_record)

lemma guarded_kept:
  assumes "guarded S c q act R = (R', a)" and "R' \<noteq> R"
    and "\<And>s. kept_on_record (as_admin s) p R (fst (act s R))"
  shows "\<exists>s. authorised S c q s (sr_accounts R) \<and> kept_on_record (as_admin s) p R R'"
proof (cases "request_session S c q R")
  case (Some s)
  then have "valid_csrf (Some s) (form_value q ''csrf_token'')" and "act s R = (R', a)"
    using assms by (auto simp: guarded_def split: if_splits)
  then show ?thesis using assms(3) [of s] session_authorised [OF Some] by auto
qed (use assms in \<open>simp add: guarded_def\<close>)

lemma fst_answers [simp]:
  "fst (case x of (R, Some e) \<Rightarrow> (R, f e) | (R, None) \<Rightarrow> (R, g)) = fst x"
  "fst (case y of (R, Inl e) \<Rightarrow> (R, h e) | (R, Inr z) \<Rightarrow> (R, k z)) = fst y"
  by (simp_all split: prod.splits option.splits sum.splits)

lemma user_action_kept:
  assumes "user_action S c act q R = (R', a)" and "R' \<noteq> R"
  shows "\<exists>s. authorised S c q s (sr_accounts R) \<and>
    kept_on_record (as_admin s) (act = Act_Delete \<and> post_value q ''confirm'' = ''DELETE'') R R'"
  using assms(1) unfolding user_action_def
  by (rule guarded_kept [OF _ assms(2)]) (simp add: run_action_kept split: option.split)

lemma device_action_kept:
  assumes "user_device_action S c q R = (R', a)" and "R' \<noteq> R"
  shows "\<exists>s. authorised S c q s (sr_accounts R) \<and> kept_on_record (as_admin s) False R R'"
  using assms(1) unfolding user_device_action_def
  by (rule guarded_kept [OF _ assms(2)])
    (simp add: in_accounts_kept revoke_device_record split: option.split)

lemma invitation_create_kept:
  assumes "invitation_create S c q R = (R', a)" and "R' \<noteq> R"
  shows "\<exists>s. authorised S c q s (sr_accounts R) \<and> kept_on_record (as_admin s) False R R'"
  using assms(1) unfolding invitation_create_def
  by (rule guarded_kept [OF _ assms(2)]) (simp add: Let_def in_accounts_kept create_invitation_record)

lemma invitation_revoke_kept:
  assumes "invitation_revoke S c q R = (R', a)" and "R' \<noteq> R"
  shows "\<exists>s. authorised S c q s (sr_accounts R) \<and> kept_on_record (as_admin s) False R R'"
  using assms(1) unfolding invitation_revoke_def
  by (rule guarded_kept [OF _ assms(2)]) (simp add: in_accounts_kept revoke_invitation_record)

lemma logout_kept:
  assumes "logout_submit S c q R = (R', a)" and "R' \<noteq> R"
  shows "\<exists>s. authorised S c q s (sr_accounts R) \<and> kept_on_record (as_admin s) False R R'"
proof (cases "request_session S c q R")
  case (Some s)
  then have "valid_csrf (Some s) (form_value q ''csrf_token'')"
    and "R' = fst (in_accounts (admin_logout S c (aq_cookie q)) R)"
    using assms by (auto simp: logout_submit_def split: if_splits)
  moreover have "kept_on_record (as_admin s) False R (fst (in_accounts (admin_logout S c (aq_cookie q)) R))"
    using logout_record [of S c "aq_cookie q" "sr_accounts R" s] Some
    by (auto simp: request_session_def in_accounts_def kept_on_record_def split: prod.splits)
  ultimately show ?thesis using session_authorised [OF Some] by blast
qed (use assms in \<open>simp add: logout_submit_def\<close>)

text \<open>
  C39: Nothing changes behind the administrators' backs. Whatever request reaches whatever route of
  the administration but the sign-in: if the server is not what it was before, then the cookie named a
  live session and the form held its CSRF token, every record added to the audit log names the
  administrator of that session, and synchronised data was touched by nothing but a deletion with its
  confirmation typed.
\<close>

theorem admin_changes_are_authorised:
  assumes "admin_pages S L c C route q R = (R', a)" and "route \<noteq> Post_Login" and "R' \<noteq> R"
  shows "\<exists>s. authorised S c q s (sr_accounts R) \<and>
    kept_on_record (as_admin s) (route = Post_Action Act_Delete \<and> post_value q ''confirm'' = ''DELETE'') R R'"
proof (cases route)
  case (Post_Action act)
  then show ?thesis using user_action_kept [of S c act q R R' a] assms by simp
next
  case Post_Revoke_Device
  then show ?thesis using device_action_kept [of S c q R R' a] assms by simp
next
  case Post_Invitation
  then show ?thesis using invitation_create_kept [of S c q R R' a] assms by simp
next
  case Post_Revoke_Invitation
  then show ?thesis using invitation_revoke_kept [of S c q R R' a] assms by simp
next
  case Post_Logout
  then show ?thesis using logout_kept [of S c q R R' a] assms by simp
qed (use assms in simp_all)

definition desk :: server where
  "desk = serving (bob_signed_in\<lparr>ac_admin_sessions :=
     [\<lparr>as_id = 7, as_admin = 9, as_hash = token_hash service0 ''k'', as_csrf = ''form'', as_ip_hash = [],
       as_agent = [], as_expires = 100, as_revoked = None\<rparr>]\<rparr>)"

definition suspend_form :: admin_request where
  "suspend_form = \<lparr>aq_cookie = Some ''k'', aq_query = [], aq_post = [(''csrf_token'', ''form''), (''reason'', ''spam'')],
     aq_form_ok = True, aq_id = ''id'', aq_device = [], aq_remote = [], aq_agent = [], aq_reads = True\<rparr>"

definition no_views :: view_library where
  "no_views = \<lparr>vl_fold = (\<lambda>s. s), vl_day = (\<lambda>t. t div 86400000000), vl_begin = (\<lambda>d. d * 86400000000)\<rparr>"

lemma desk_session: "map_option as_admin (request_session service0 (call_no 5) suspend_form desk) = Some 9"
  by code_simp

lemma desk_form:
  "valid_csrf (request_session service0 (call_no 5) suspend_form desk) (form_value suspend_form ''csrf_token'')"
  "sv_uuid_parse service0 (aq_id suspend_form) = Some 1" "post_value suspend_form ''reason'' = ''spam''"
  by code_simp+

lemma desk_suspends:
  "map us_status (ac_users (sr_accounts (fst (in_accounts (suspend_user service0 (call_no 5) 9 1 ''spam'') desk))))
     \<noteq> map us_status (ac_users (sr_accounts desk))"
  by code_simp

lemma admin_changes_are_authorised_witness:
  "\<exists>s. authorised service0 (call_no 5) suspend_form s (sr_accounts desk) \<and>
     kept_on_record (as_admin s) False desk
       (fst (admin_pages service0 no_views (call_no 5) [] (Post_Action Act_Suspend) suspend_form desk))"
proof -
  let ?x = "admin_pages service0 no_views (call_no 5) [] (Post_Action Act_Suspend) suspend_form desk"
  have "fst ?x = fst (in_accounts (suspend_user service0 (call_no 5) 9 1 ''spam'') desk)"
    using desk_session desk_form by (auto simp: user_action_def guarded_def split: prod.splits option.splits)
  with desk_suspends
  have "map us_status (ac_users (sr_accounts (fst ?x))) \<noteq> map us_status (ac_users (sr_accounts desk))"
    by simp
  then have "fst ?x \<noteq> desk" by metis
  moreover have "?x = (fst ?x, snd ?x)" by simp
  ultimately show ?thesis using admin_changes_are_authorised by fastforce
qed

section \<open>Lists\<close>

lemma any_order_mset: "mset (any_order n xs) = mset xs"
proof (induction xs arbitrary: n)
  case (Cons x xs)
  have "mset (take k ys) + mset (drop k ys) = mset ys" for k and ys :: "'a list"
    by (metis append_take_drop_id mset_append)
  then show ?case using Cons by (simp add: Let_def)
qed simp

lemma order_users_mset: "mset (order_users key us) = mset us"
  by (simp add: order_users_def newest_first_def nulls_last_def Let_def)

text \<open>Pages one after another give the list.\<close>

lemma pages_concat: "concat (map (\<lambda>p. take k (drop (k * p) xs)) [0..<n]) = take (k * n) xs"
  by (induction n) (simp_all add: algebra_simps flip: take_add)

text \<open>
  While the database reads the users in the same order, the pages of the list, up to the number the
  pager shows, hold every user that matches the query, once each.
\<close>

lemma user_pages_are_complete:
  assumes "search_ok q" and "count_users S L q R = Inr n"
  shows "\<exists>us. mset us = mset (map (summarise c R) (filter (user_matches S L q) (ac_users (sr_accounts R)))) \<and>
    (\<forall>p. list_users S L c q 25 (25 * p) R = Inr (take 25 (drop (25 * p) us))) \<and>
    concat (map (\<lambda>p. take 25 (drop (25 * p) us)) [0..<(n + 24) div 25]) = us"
proof -
  let ?all = "filter (user_matches S L q) (any_order (ca_pick c) (ac_users (sr_accounts R)))"
  let ?us = "order_users (uq_sort q) (map (summarise c R) ?all)"
  have "mset ?all = mset (filter (user_matches S L q) (ac_users (sr_accounts R)))"
    by (simp add: any_order_mset mset_filter)
  then have m: "mset ?us = mset (map (summarise c R) (filter (user_matches S L q) (ac_users (sr_accounts R))))"
    by (simp add: order_users_mset)
  then have "length ?us = n"
    using assms mset_eq_length [OF m] by (simp add: count_users_def count_if_def)
  then have "length ?us \<le> 25 * ((n + 24) div 25)" by simp
  then have "concat (map (\<lambda>p. take 25 (drop (25 * p) ?us)) [0..<(n + 24) div 25]) = ?us"
    by (simp add: pages_concat)
  with m assms(1) show ?thesis by (intro exI [of _ ?us]) (simp add: list_users_def)
qed

section \<open>What the pages show\<close>

text \<open>A local part of one or two bytes is shown whole.\<close>

lemma short_addresses_are_shown:
  "masked_email (Some ''ab@mail.org'') = Masked ''ab***@mail.org''"
  by code_simp

text \<open>An underscore in a search stands for any character.\<close>

lemma underscore_is_a_wildcard: "like (utf8_chars (''a_b'' @ ''%'')) (utf8_chars ''axb@mail.org'')"
  by code_simp

text \<open>
  A search of more than 256 bytes is cut inside a character, and the database refuses the text: the
  page is answered 500. Here 257 bytes, an ASCII letter and 128 Cyrillic ones.
\<close>

lemma take_pairs: "take (Suc (2 * n)) (concat (replicate (Suc n) [x, y])) = concat (replicate n [x, y]) @ [x]"
  by (induction n) simp_all

lemma cut_letters: "\<not> utf8_bytes (concat (replicate n [208, 176]) @ [208])"
  by (induction n) (simp_all add: follows_def)

lemma long_search_fails:
  "\<not> pg_text (take 256 (CHR ''a'' # concat (replicate 128 [CHR 0xD0, CHR 0xB0])))"
proof -
  have "take 256 (CHR ''a'' # concat (replicate 128 [CHR 0xD0, CHR 0xB0])) =
      CHR ''a'' # concat (replicate 127 [CHR 0xD0, CHR 0xB0]) @ [CHR 0xD0]"
    using take_pairs [of 127 "CHR 0xD0" "CHR 0xB0"] by (simp add: take_Cons')
  then show ?thesis
    using cut_letters [of 127] by (simp add: pg_text_def map_concat map_replicate)
qed

text \<open>
  A device is revoked in one transaction and the record written in another: with a reason that its
  column does not take, the page says that nothing was done, and the device is signed out.
\<close>

lemma revoked_but_reported_failed:
  assumes "revoke_user_device c i dev A = Some A'" and "\<not> varchar 256 reason"
  shows "admin_revoke_device S c admin i dev reason A = (A', Inl (Sql ColumnDomain))"
  using assms
  by (simp add: admin_revoke_device_def audit_step_def tx_def audit_admin_def record_audit_def a_insert_def
      audit_tab_def)

text \<open>A bar of the trend has at most 40 pixels, and a day with a registration is never empty.\<close>

lemma trend_height_bounds:
  assumes "n \<le> most"
  shows "trend_height n most \<le> 40 \<and> (0 < n \<longrightarrow> 2 \<le> trend_height n most)"
proof (cases "most = 0")
  case False
  have "n * 40 div most \<le> most * 40 div most" using assms by (intro div_le_mono) simp
  then have "n * 40 div most \<le> 40" using False by simp
  then show ?thesis using False by (simp add: trend_height_def Let_def)
qed (use assms in \<open>simp add: trend_height_def\<close>)

end
