(* ===== verification/Public_Web.thy ===== *)
theory Public_Web
  imports Mails
begin

text \<open>
  The public pages of the API host (internal/webapp): the page behind a reset link, its form for a
  new mail, and the document for universal links; and the routes of the process itself (run.go,
  pprof.go): health, readiness, metrics and profiling.
\<close>

section \<open>The page of a reset link (webapp.go)\<close>

definition reset_path :: "config \<Rightarrow> string" where
  "reset_path c =
     (let p = (if cf_reset_path c = [] then ''/reset-password'' else cf_reset_path c) in
      if hd p = CHR ''/'' then p else CHR ''/'' # p)"

text \<open>64 lower-case hexadecimal digits.\<close>

definition is_token_shaped :: "string \<Rightarrow> bool" where
  "is_token_shaped raw \<longleftrightarrow>
     length raw = 64 \<and>
     list_all (\<lambda>x. let n = of_char x :: nat in (48 \<le> n \<and> n \<le> 57) \<or> (97 \<le> n \<and> n \<le> 102)) raw"

text \<open>Status, state, the credential the template shows for a valid token, and Retry-After.\<close>

datatype landing = Landing int string "string option" "string option"

definition render_landing :: "int \<Rightarrow> string \<Rightarrow> string \<Rightarrow> landing" where
  "render_landing status state raw = Landing status state (if state = ''valid'' then Some raw else None) None"

fun reset_state_text :: "reset_state \<Rightarrow> string" where
  "reset_state_text ResetUnknown = ''unknown''"
| "reset_state_text ResetUsed = ''used''"
| "reset_state_text ResetExpired = ''expired''"
| "reset_state_text ResetValid = ''valid''"

text \<open>The token is a value of the query; the database may not answer.\<close>

definition reset_landing :: "service \<Rightarrow> call \<Rightarrow> bool \<Rightarrow> string \<Rightarrow> accounts \<Rightarrow> landing" where
  "reset_landing S c answers token A =
     (let raw = trim_space token in
      if raw = [] \<or> \<not> is_token_shaped raw then render_landing 400 ''invalid'' raw
      else if \<not> answers then render_landing 500 ''invalid'' raw
      else render_landing 200 (reset_state_text (lookup_password_reset_token_state c (token_hash S raw) A)) raw)"

text \<open>The handler has a limiter of its own.\<close>

definition reset_resend ::
  "front \<Rightarrow> call \<Rightarrow> request \<Rightarrow> bool \<Rightarrow> string \<Rightarrow> accounts \<times> limiter \<Rightarrow> (accounts \<times> limiter) \<times> landing" where
  "reset_resend F c q form_ok email X =
     (case X of (A, L) \<Rightarrow>
        (case allow (rq_at q) ''reset-web'' (address_of F q) L of
           (L, Some d) \<Rightarrow> ((A, L), Landing 429 ''ratelimited'' None (Some (retry_after d)))
         | (L, None) \<Rightarrow>
             if \<not> form_ok then ((A, L), render_landing 400 ''invalid'' [])
             else
               (let email = trim_space email in
                if email = [] \<or> 320 < length email \<or> \<not> valid_email email
                then ((A, L), render_landing 200 ''resent'' [])
                else ((fst (forgot_password (fr_service F) c email A), L), render_landing 200 ''resent'' []))))"

section \<open>Universal links\<close>

definition dq :: string where
  "dq = [CHR 0x22]"

definition quoted :: "string \<Rightarrow> string" where
  "quoted s = dq @ s @ dq"

definition aasa :: "config \<Rightarrow> string" where
  "aasa c =
     (if cf_aasa_team c = [] \<or> cf_apple_bundle c = []
      then ''{'' @ quoted ''applinks'' @ '':{'' @ quoted ''details'' @ '':[]},'' @
           quoted ''webcredentials'' @ '':{'' @ quoted ''apps'' @ '':[]}}''
      else
        (let app = quoted (cf_aasa_team c @ ''.'' @ cf_apple_bundle c) in
         ''{'' @ quoted ''applinks'' @ '':{'' @ quoted ''details'' @ '':[{'' @ quoted ''appIDs'' @ '':['' @ app @
         ''],'' @ quoted ''components'' @ '':[{'' @ quoted [] @ '':'' @ quoted ''/reset-password'' @ '','' @
         quoted ''comment'' @ '':'' @ quoted ''LiveTranslate password reset'' @ ''}]}]},'' @
         quoted ''webcredentials'' @ '':{'' @ quoted ''apps'' @ '':['' @ app @ '']}}''))"

section \<open>Routes of the process (run.go, pprof.go)\<close>

text \<open>Status and body.\<close>

definition health :: "int \<times> string" where
  "health = (200, ''ok'')"

definition ready :: "bool \<Rightarrow> int \<times> string" where
  "ready pings = (if pings then (200, ''ready'') else (503, ''database unavailable''))"

text \<open>\<open>None\<close> is a route that is not mounted.\<close>

definition metrics_route :: "config \<Rightarrow> counters \<Rightarrow> (int \<times> string) option" where
  "metrics_route c C = (if cf_metrics c then Some (200, render_metrics C) else None)"

definition loopback_only :: "net_library \<Rightarrow> string \<Rightarrow> 'a \<Rightarrow> 'a option" where
  "loopback_only N remote answer =
     (let host = (case nt_split_host N remote of None \<Rightarrow> remote | Some h \<Rightarrow> h) in
      case nt_parse_ip N host of
        None \<Rightarrow> None
      | Some ip \<Rightarrow> if \<not> is_loopback ip then None else Some answer)"

definition pprof_route :: "net_library \<Rightarrow> config \<Rightarrow> string \<Rightarrow> 'a \<Rightarrow> 'a option" where
  "pprof_route N c remote answer = (if cf_pprof c then loopback_only N remote answer else None)"

section \<open>What the pages promise\<close>

text \<open>The tokens in the mails have the shape that the page asks for.\<close>

definition token_digit :: "char \<Rightarrow> bool" where
  "token_digit x \<longleftrightarrow> (let n = of_char x :: nat in (48 \<le> n \<and> n \<le> 57) \<or> (97 \<le> n \<and> n \<le> 102))"

lemma hex_digit_lower: "n < 16 \<Longrightarrow> token_digit (hex_digit n)"
proof -
  have "list_all (\<lambda>n. token_digit (hex_digit n)) [0..<16]" by code_simp
  then show "n < 16 \<Longrightarrow> token_digit (hex_digit n)" by (auto simp: list_all_iff)
qed

lemma hex_encode_shape: "length (hex_encode bs) = 2 * length bs \<and> list_all token_digit (hex_encode bs)"
proof (induction bs)
  case (Cons b bs)
  have "unat b < 256" using unsigned_less [of b] by simp
  then have "unat b div 16 < 16" by simp
  then show ?case using Cons by (auto simp: hex_encode_def intro!: hex_digit_lower)
qed (simp add: hex_encode_def)

lemma fresh_tokens_are_shaped: "length (ca_opaque_bytes c) = 32 \<Longrightarrow> is_token_shaped (fresh_opaque c)"
  using hex_encode_shape [of "ca_opaque_bytes c"] by (simp add: is_token_shaped_def fresh_opaque_def token_digit_def [abs_def])

text \<open>The page shows a credential exactly if it is one that a reset would take now.\<close>

lemma landing_shows_usable:
  "reset_landing S c True token A = Landing 200 ''valid'' (Some raw) None \<longleftrightarrow>
     raw = trim_space token \<and> is_token_shaped raw \<and>
     consume_password_reset_token c (token_hash S raw) A \<noteq> None"
  by (auto simp: reset_landing_def render_landing_def Let_def lookup_password_reset_token_state_def
      consume_password_reset_token_def is_token_shaped_def split: option.splits)

text \<open>The answer to the form does not depend on the accounts there are.\<close>

lemma resend_page_is_blind:
  "snd (reset_resend F c q ok email (A, L)) = snd (reset_resend F c q ok email (B, L)) \<and>
   snd (fst (reset_resend F c q ok email (A, L))) = snd (fst (reset_resend F c q ok email (B, L)))"
  by (simp add: reset_resend_def Let_def split: prod.split option.split)

lemma profiling_is_local:
  "pprof_route N c remote answer \<noteq> None \<Longrightarrow> \<exists>host ip. nt_parse_ip N host = Some ip \<and> is_loopback ip"
  by (auto simp: pprof_route_def loopback_only_def Let_def split: if_splits option.splits)

end
