(* ===== verification/Commands.thy ===== *)
theory Commands
  imports Public_Web Importer
begin

text \<open>
  The command line (cmd/livetranslate-server): choosing a command, creating an administrator,
  enabling one-time codes, and the arguments of the import.
\<close>

section \<open>Commands (main.go)\<close>

datatype command =
    Serve
  | Admin_Ui
  | Create_Admin "string list"
  | Enable_Totp "string list"
  | Migrate
  | Download_Models
  | Import_Sqlite "string list"
  | Show_Help
  | Unknown_Command

text \<open>The arguments after the name of the program; the exit status for whether the command failed.\<close>

fun command_of :: "string list \<Rightarrow> command" where
  "command_of [] = Serve"
| "command_of (x # xs) =
     (if x = ''serve'' then Serve
      else if x = ''admin'' then Admin_Ui
      else if x = ''create-admin'' then Create_Admin xs
      else if x = ''enable-totp'' then Enable_Totp xs
      else if x = ''migrate'' then Migrate
      else if x = ''download-models'' then Download_Models
      else if x = ''import-sqlite'' then Import_Sqlite xs
      else if x \<in> {''-h'', ''--help'', ''help''} then Show_Help
      else Unknown_Command)"

definition exit_status :: "command \<Rightarrow> bool \<Rightarrow> int" where
  "exit_status x failed = (if x = Unknown_Command then 2 else if x = Show_Help then 0 else if failed then 1 else 0)"

section \<open>Creating an administrator (admincli.go)\<close>

text \<open>
  What is typed: the standard input, and what the two masked prompts of a terminal give.
\<close>

record console =
  co_terminal :: bool
  co_input :: string
  co_typed :: "string option \<times> string option"

definition newline :: char where
  "newline = CHR 0x0A"

text \<open>\<open>ReadString\<close>: the line with its end and the rest; input that ends before is an error.\<close>

definition read_line :: "string \<Rightarrow> (string \<times> string) option" where
  "read_line s =
     (if newline \<in> set s
      then Some (takeWhile (\<lambda>x. x \<noteq> newline) s @ [newline], tl (dropWhile (\<lambda>x. x \<noteq> newline) s))
      else None)"

definition trim_line_end :: "string \<Rightarrow> string" where
  "trim_line_end s = rev (dropWhile (\<lambda>x. x = CHR 0x0D \<or> x = newline) (rev s))"

datatype cli_error =
    Bad_Usage
  | Input_Failed
  | Name_Length
  | Passwords_Differ
  | Empty_Password
  | Policy policy_error
  | Name_Taken
  | No_Such_Admin
  | Database_Error db_error

definition two_lines :: "string \<Rightarrow> (string \<times> string) option" where
  "two_lines s =
     (case read_line s of
        None \<Rightarrow> None
      | Some (p, rest) \<Rightarrow>
          (case read_line rest of None \<Rightarrow> None | Some (q, _) \<Rightarrow> Some (trim_line_end p, trim_line_end q)))"

definition read_password_twice :: "console \<Rightarrow> string \<Rightarrow> cli_error + string" where
  "read_password_twice K rest =
     (case (if co_terminal K
            then (case co_typed K of (Some p, Some q) \<Rightarrow> Some (p, q) | _ \<Rightarrow> None)
            else two_lines rest) of
        None \<Rightarrow> Inl Input_Failed
      | Some (p, q) \<Rightarrow> if p \<noteq> q then Inl Passwords_Differ else if p = [] then Inl Empty_Password else Inr p)"

definition run_create_admin ::
  "service \<Rightarrow> call \<Rightarrow> string list \<Rightarrow> console \<Rightarrow> accounts \<Rightarrow> accounts \<times> cli_error option" where
  "run_create_admin S c args K A =
     (if args \<noteq> [] then (A, Some Bad_Usage)
      else
        (case read_line (co_input K) of
           None \<Rightarrow> (A, Some Input_Failed)
         | Some (line, rest) \<Rightarrow>
             (let username = trim_space line in
              if length username < 3 \<or> 64 < length username then (A, Some Name_Length)
              else
                (case read_password_twice K rest of
                   Inl e \<Rightarrow> (A, Some e)
                 | Inr pw \<Rightarrow>
                     (case validate_password (sv_unicode S) pw (username @ ''@admin.local'') username of
                        Some e \<Rightarrow> (A, Some (Policy e))
                      | None \<Rightarrow>
                          (case create_admin (ca_user_id c) username (new_hash S c pw) None A of
                             Inl e \<Rightarrow> (A, Some (if e = UniqueViolation then Name_Taken else Database_Error e))
                           | Inr A' \<Rightarrow> (A', None)))))))"

section \<open>One-time codes (admincli.go, totp.go)\<close>

definition base32_alphabet :: string where
  "base32_alphabet = ''ABCDEFGHIJKLMNOPQRSTUVWXYZ234567''"

definition byte_bits :: "8 word \<Rightarrow> bool list" where
  "byte_bits b = map (\<lambda>k. bit b k) [7, 6, 5, 4, 3, 2, 1, 0]"

text \<open>Groups of five bits, the last one filled with zeros; no padding.\<close>

definition base32_digit :: "bool list \<Rightarrow> char" where
  "base32_digit bs = base32_alphabet ! foldl (\<lambda>n b. 2 * n + of_bool b) 0 (take 5 (bs @ replicate 4 False))"

function base32_groups :: "bool list \<Rightarrow> string" where
  "base32_groups bs = (if bs = [] then [] else base32_digit bs # base32_groups (drop 5 bs))"
  by auto
termination by (relation "measure length") auto

declare base32_groups.simps [simp del]

definition new_totp_secret :: "8 word list \<Rightarrow> string" where
  "new_totp_secret bytes = base32_groups (concat (map byte_bits bytes))"

definition update_admin_totp :: "uuid \<Rightarrow> string option \<Rightarrow> accounts \<Rightarrow> db_error + accounts" where
  "update_admin_totp i secret A = a_update admins_tab (\<lambda>a. ad_id a = i) (\<lambda>a. a\<lparr>ad_totp := secret\<rparr>) A"

text \<open>The 20 random bytes are an argument; the secret is printed.\<close>

definition run_enable_totp ::
  "string list \<Rightarrow> 8 word list \<Rightarrow> accounts \<Rightarrow> accounts \<times> (cli_error + string)" where
  "run_enable_totp args bytes A =
     (case args of
        [username] \<Rightarrow>
          (case get_admin_by_username username A of
             None \<Rightarrow> (A, Inl No_Such_Admin)
           | Some a \<Rightarrow>
               (case update_admin_totp (ad_id a) (Some (new_totp_secret bytes)) A of
                  Inl e \<Rightarrow> (A, Inl (Database_Error e))
                | Inr A' \<Rightarrow> (A', Inr (new_totp_secret bytes))))
      | _ \<Rightarrow> (A, Inl Bad_Usage))"

section \<open>The arguments of the import (importsqlite.go)\<close>

record import_flags =
  if_source :: string
  if_dry_run :: bool
  if_apply :: bool
  if_report :: string
  if_non_empty :: bool
  if_url :: string

datatype flag_error =
    Source_Required
  | Modes_Exclusive
  | Target_Required

text \<open>The target: the flag, the variable, or what the configuration says if it loads.\<close>

definition import_target :: "config_library \<Rightarrow> environment \<Rightarrow> import_flags \<Rightarrow> string" where
  "import_target L E f =
     (if if_url f \<noteq> [] then if_url f
      else if E ''DATABASE_URL'' \<noteq> [] then E ''DATABASE_URL''
      else (case load_config L E of Inl _ \<Rightarrow> [] | Inr c \<Rightarrow> cf_database_url c))"

definition check_flags :: "config_library \<Rightarrow> environment \<Rightarrow> import_flags \<Rightarrow> flag_error option" where
  "check_flags L E f =
     (if if_source f = [] then Some Source_Required
      else if if_dry_run f \<and> if_apply f then Some Modes_Exclusive
      else if if_apply f \<and> import_target L E f = [] then Some Target_Required
      else None)"

text \<open>The import runs on the database of the target; \<open>None\<close> is a refusal of the arguments.\<close>

definition run_import_sqlite ::
  "config_library \<Rightarrow> environment \<Rightarrow> import_library \<Rightarrow> import_flags \<Rightarrow> source \<Rightarrow> target
     \<Rightarrow> target \<times> (report \<times> import_error option) option" where
  "run_import_sqlite L E I f s X =
     (case check_flags L E f of
        Some _ \<Rightarrow> (X, None)
      | None \<Rightarrow> (case run_import I (if_apply f) (if_non_empty f) s X of (Y, r, e) \<Rightarrow> (Y, Some (r, e))))"

fun index_of :: "string \<Rightarrow> string \<Rightarrow> nat option" where
  "index_of p [] = (if p = [] then Some 0 else None)"
| "index_of p (x # s) = (if take (length p) (x # s) = p then Some 0 else map_option Suc (index_of p s))"

definition mask_dsn :: "string \<Rightarrow> string" where
  "mask_dsn dsn =
     (case index_of ''@'' dsn of
        None \<Rightarrow> dsn
      | Some k \<Rightarrow>
          if CHR '':'' \<notin> set (take k dsn) then dsn
          else
            (case index_of ''://'' dsn of
               None \<Rightarrow> dsn
             | Some e \<Rightarrow> take (e + 3) dsn @ ''***@'' @ drop (k + 1) dsn))"

section \<open>What the commands promise\<close>

lemma find_added: "distinct (map k (xs @ [a])) \<Longrightarrow> find (\<lambda>x. k x = k a) (xs @ [a]) = Some a"
  by (induction xs) auto

text \<open>An administrator who was created can sign in with the password that was typed, and with no code.\<close>

lemma created_admin_signs_in:
  assumes "run_create_admin S c [] K A = (A', None)" and "read_line (co_input K) = Some (line, rest)"
    and "read_password_twice K rest = Inr pw"
  shows "\<exists>a. get_admin_by_username (trim_space line) A' = Some a \<and> ad_totp a = None \<and>
    ad_locked a = None \<and> ad_hash a = new_hash S c pw"
proof -
  let ?n = "trim_space line"
  let ?a = "\<lparr>ad_id = ca_user_id c, ad_name = ?n, ad_hash = new_hash S c pw, ad_totp = None, ad_failed = 0,
       ad_locked = None, ad_last_login = None\<rparr>"
  have ins: "a_insert admins_tab ?a A = Inr A'"
    using assms by (auto simp: run_create_admin_def create_admin_def Let_def split: if_splits option.splits sum.splits)
  have rows: "ac_admins A' = ac_admins A @ [?a]" and "distinct (map ad_name (ac_admins A'))"
    using admins.a_insert_Inr [OF ins, unfolded admins_tab_def atab.simps] by blast+
  then have "find (\<lambda>a. ad_name a = ?n) (ac_admins A') = Some ?a"
    using find_added [of ad_name "ac_admins A" ?a] by simp
  then show ?thesis by (simp add: get_admin_by_username_def)
qed

text \<open>From then on the one-time code is demanded.\<close>

lemma enabled_code_is_demanded:
  assumes "run_enable_totp [n] bytes A = (A', Inr secret)" and "distinct (map ad_name (ac_admins A))"
  shows "\<exists>a. get_admin_by_username n A' = Some a \<and> ad_totp a = Some secret"
proof -
  obtain a where a: "find (\<lambda>a. ad_name a = n) (ac_admins A) = Some a"
    and u: "a_update admins_tab (\<lambda>b. ad_id b = ad_id a) (\<lambda>b. b\<lparr>ad_totp := Some secret\<rparr>) A = Inr A'"
    using assms(1)
    by (auto simp: run_enable_totp_def get_admin_by_username_def update_admin_totp_def split: option.splits sum.splits)
  then have "ac_admins A' = set_rows (\<lambda>b. ad_id b = ad_id a) (\<lambda>b. b\<lparr>ad_totp := Some secret\<rparr>) (ac_admins A)"
    using admins.a_update_Inr [OF u] by (simp add: admins_tab_def)
  moreover have "find (\<lambda>b. ad_name b = n)
      (set_rows (\<lambda>b. ad_id b = ad_id a) (\<lambda>b. b\<lparr>ad_totp := Some secret\<rparr>) bs) = Some (a\<lparr>ad_totp := Some secret\<rparr>)"
    if "find (\<lambda>b. ad_name b = n) bs = Some a" for bs
    using that by (induction bs) (auto split: if_splits)
  ultimately show ?thesis using a by (simp add: get_admin_by_username_def)
qed

text \<open>The secret of twenty bytes has 32 characters.\<close>

lemma base32_groups_length: "5 dvd length bs \<Longrightarrow> 5 * length (base32_groups bs) = length bs"
proof (induction bs rule: base32_groups.induct)
  case (1 bs)
  show ?case
  proof (cases "bs = []")
    case False
    then have "5 \<le> length bs" using 1(2) by (auto dest: dvd_imp_le)
    moreover have "5 dvd length (drop 5 bs)" using 1(2) \<open>5 \<le> length bs\<close> by (simp add: dvd_diff_nat)
    ultimately show ?thesis using 1(1) False by (subst base32_groups.simps) simp
  qed (subst base32_groups.simps, simp)
qed

lemma totp_secret_length: "length bytes = 20 \<Longrightarrow> length (new_totp_secret bytes) = 32"
proof -
  assume "length bytes = 20"
  moreover have "length (concat (map byte_bits bs)) = 8 * length bs" for bs
    by (induction bs) (simp_all add: byte_bits_def)
  ultimately have "length (concat (map byte_bits bytes)) = 160" by simp
  then show ?thesis
    using base32_groups_length [of "concat (map byte_bits bytes)"] by (simp add: new_totp_secret_def)
qed

text \<open>
  The password of a target in the key-value form is printed as it is, and of one with an at sign in the
  password what follows it.
\<close>

lemma passwords_are_printed:
  "mask_dsn ''host=db password=secret'' = ''host=db password=secret''"
  "mask_dsn ''postgres://app:se@cret@db/lt'' = ''postgres://***@cret@db/lt''"
  by code_simp+

text \<open>A dry run, and a run that is refused, leave the target alone.\<close>

lemma dry_run_is_harmless:
  "\<not> if_apply f \<Longrightarrow> fst (run_import_sqlite L E I f s X) = X"
  by (auto simp: run_import_sqlite_def run_import_def split: option.splits prod.splits)

end
