(* ===== verification/Spec2Isabelle.thy ===== *)
theory Spec2Isabelle
  imports Merges Refusals Account_Safety Retention_Properties Secret_Properties File_Properties
    Web_Properties Import_Properties Model_Properties Config_Properties Mail_Properties
    Admin_Page_Properties Commands
begin

text \<open>
  The LiveTranslate sync server: a verification development for the Go code under src/.

  The program. Devices of a user record classes offline and synchronise 28 kinds of entities with
  the server. A device pushes a batch of operations (POST sync/push), each an upsert or a delete
  of one entity based on a version it knows, and pulls the changes after a cursor (GET sync/pull).
  The server keeps one table per kind, an append-only change log and a ledger of processed
  operations in PostgreSQL; a push is one transaction. What it promises its devices is stated
  here and proved of a model of the whole engine: internal/sync/service.go, materials.go,
  exams.go, interpreter.go, errands.go and the wire types of wire.go. Beside it stand the accounts:
  internal/auth, internal/store, internal/token, internal/password, the actions of internal/admin,
  the gate that every synchronisation request passes, and the periodic cleanup; and around both the
  HTTP handlers of internal/httpapi, the files of attachments and materials (internal/storage), mail
  and metrics, the pages of the administration and the public ones, and the commands of the binary.

  The theories, in the order of the code.

  Prelude: errors of the database, sequencing of fallible statements (bindE), the domains of the
  column types, and the ways a handler folds an optional payload field into a stored value.
  Wire: entity types, the push payload as one record per group of fields, items and results
  (wire.go). Rows and Rows\_Study: one record per row struct, all extending the envelope (id, user,
  version, update and deletion time), the JSON each is served as (the xRecordJSON functions), and
  calendar dates (parseWireDate, dateString). Wire\_Shapes: the record structs themselves, as the members
  of their JSON objects with types and what leaves a member out, and that every record has the shape of
  its struct. Schema: the database state, a description of each
  table (type, rows, constraints of db/migrations, served record) and the interface
  synced\_table that the proofs are written against, interpreted on all 28 tables. Json: the byte
  scanner of Go's json.Valid.

  Engine: the SQL statements the handlers issue, logChange, storeLedger, the version gate and the
  delete path they share (applyLearningDelete). Lifecycle: the abstract life of a row (born at
  version 1, moved one version at a time, buried once) and of a database. Refinement: every
  statement over a table that keeps the promises of synced\_table refines that life cycle.
  Handler: what the handlers share. Sessions, Schedules, Learning, Materials, Exams, Plans,
  Interpreter, Errands, Courses: the 28 handlers with their cascades, each followed by the lemma
  that it is sound, that is, that it refines the life cycle and writes exactly one ledger row.
  Push: dispatch, the ledger, batches and the transaction (applyOne, ApplyPush); the locale
  sync\_handlers states what the engine needs of its handlers and is interpreted on them.
  History: the states reachable by pushes from an empty database, and the invariant that the
  change log tells the whole life of every row. Pull: pages of the change log with current records,
  and the status (Pull, loadRecord, Status). Convergence: a device that follows the pages.
  Outcomes: what the status of a result means, for every handler. Refusals: what a refused item leaves
  and what a conflict and a pull carry. Cascades: what the deletes of
  sessions and courses leave behind. Promises and Kept: the values a stored row can have and the
  fields that never change or only grow, for every table, kept by every handler.

  Tokens and Passwords: the text of tokens and codes, access tokens with a previous secret
  (token.go), PHC strings and the password policy (password.go). Accounts and Account\_Store: the
  account tables with their constraints and one definition per statement (users.go, identity.go,
  devices\_tokens.go, audit.go). Auth and Auth\_Profile: the account service (auth/service.go).
  Admin: sign-in, sessions and actions of administrators (admin/service.go, store.go, totp.go).
  Retention: the DELETE statements of the cleanup and of a purge (sync/cleanup.go, users.go).
  Server: both halves of the state, RequireUser, the synchronisation endpoints, the deletion of
  accounts and the maintenance. Account\_Moves: the locales account\_moves and all\_account\_moves
  show of every operation that it moves the accounts by a relation, if the few statements on users
  and refresh tokens do. Account\_History: histories, any sequence of operations of users,
  administrators, devices and the cleanup. Account\_Laws: the interpretations (unique keys, spent
  refresh tokens, verified accounts).

  Http: answers, JSON bodies and their caps, CORS (httpapi.go), the rate limiter and the address of
  the client (middleware.go). Routes: the handlers of the accounts with the answer to each error,
  and Apple's identity tokens (httpapi/auth). Rate\_Limits: a sequence of requests and the budget
  of a key. Files: the file store, a list of files with their directory, name and bytes
  (storage/store.go). File\_Routes: the endpoints of attachments and materials, and what pushes,
  cleanups and deletions do to the files (attachmentapi, materialapi, accountapi).

  Importer: the import of the former server's SQLite database, from the cells to the report
  (internal/importer). The contract of a copier, that it only adds rows and finds them again, is
  the locale copier of Import\_Properties, interpreted on the copy of a row and of all tables.

  Models: the store of the models that the app downloads, its resumed and verified downloads and
  its routes (internal/modelstore, modelapi).

  Config: the environment and the rules for production (internal/config), and what runServe builds of
  them.

  Mails: the wire text of a mail, the SMTP dialogue and the development outbox (internal/mail), and the
  counters of internal/metrics. Admin\_Views: the reads of the administration, with search, order and
  pages of users (admin/store.go, users.go). Admin\_Pages: every route of admin/handler.go, from the
  form to the answer, an answer being the name of a template with its data. Public\_Web: the reset
  landing page, resending, the association file (internal/webapp), health, readiness, metrics and
  profiling. Commands: the choice of the command, the administrators made at the console, and the
  import command (cmd/livetranslate-server).

  The properties: Protocol (push and change log), Refusals (refused items, records on the wire), Delivery (pull, paging, convergence, status),
  Merges (histories of rows and stored values), Account\_Properties (sessions and verification over
  histories), Account\_Safety (codes, passwords, access tokens, deletion), Secret\_Properties (text of
  tokens, password policy), Retention\_Properties (the cleanup), File\_Properties (the file store
  step by step, uploads and downloads), Web\_Properties (rate limiter, registration), Import\_Properties (repeated
  imports), Model\_Properties (whole files, resumed downloads),
  Config\_Properties (the production boot), Mail\_Properties (a mail read back, the dialogue, the
  counters), Admin\_Page\_Properties (who changes what through the pages); Public\_Web and Commands hold
  their own lemmas. Examples and
  Account\_Examples hold the concrete inputs of the witnesses.

  How the model corresponds to the code. A table is the list of its rows in insertion order; a
  statement that PostgreSQL would refuse (a constraint, a value outside its column type, an
  overflow of the version, a malformed statement) is an error, and an error anywhere in a push
  leaves the database as it was, as the transaction does (but for the gap in change\_sequence that a
  failed transaction leaves in PostgreSQL, where the model uses the number again).
  A handler is a function from the environment, the user, the item and the database to an error or to a
  database and a result. The environment holds what the code takes from outside: the transaction's now(), the wall clock, the
  time-zone database, the cast to JSONB with its reading back, and Go's decoding and encoding of a
  JSON object. The theorems hold for every environment. UUIDs are 128-bit words, times and floats
  are exact numbers (int, rat).

  An operation on accounts is a function from the service (configuration and libraries), the call
  and the account database to the database after it and an error or an answer. The call holds what
  one request takes from outside: the clocks, the new ids and random bytes, which row an unordered
  SELECT returns, and whether the mail transport delivers. A transaction that fails leaves the
  database alone; what the code writes outside a transaction stays. Parameters are SHA-256, SHA3,
  Argon2id, HMAC, base32, the JWT library, the Unicode tables and the UUID parser; what a theorem
  needs of them is a hypothesis of it (argon\_ok, signed\_ok), or that no later call draws a token
  with the same hash. Mails are handed to an outbox. A handler maps the web state (accounts, limiters,
  key cache) to the web state and an answer; a JSON body is what decoding it gives, an address
  library and a JWT library are parameters. A file request also takes what the disk does: which
  operations succeed, and what is left of a directory whose removal fails.

  Fuel. The paging loop of a device (follow) takes fuel; one unit more than there are changes
  after its cursor is enough, which is part of the property about paging.

  Not modelled: transactions run one at a time, as the properties are about the effect of an
  operation, not about PostgreSQL's isolation; the wall clock is an input; the texts and the layout of
  the HTML templates, which are data of the build; the start, the signals and the shutdown of the
  process; logging; the insides of the libraries (net/http, net/smtp, TLS, pgx, goose, the SQLite
  driver), which are parameters where the code relies on them. PROJECT.json lists every component of the
  repository with its status.
\<close>

end
